(* ===== verification/Prelude.thy ===== *)
theory Prelude
  imports Complex_Main "HOL-Library.AList"
begin

text \<open>
  Shared vocabulary of the development: the Python exceptions the modelled code can raise,
  the error monad in which a raising computation is written, Python's insertion-ordered
  dictionaries as association lists, the lexicographic order of Python strings, and the
  lemma collections the component theories extend.
\<close>

named_theorems pyconst \<open>values of the program's named constants\<close>
named_theorems frames \<open>fields an operation leaves alone\<close>
named_theorems guards \<open>characterisations of the checks of a validation pipeline\<close>

section \<open>Exceptions\<close>

datatype pyexn =
  DivisionByZero | InvalidOperation | ValueError | AssertionError | TypeError | ConnectionError
  | KeyError | IndexError | AttributeError | RuntimeError

type_synonym 'a result = "pyexn + 'a"

text \<open>
  \<open>ebind m f\<close> runs \<open>m\<close>; an exception skips the rest, as a Python exception leaves the block.
\<close>

definition ebind :: "'e + 'a \<Rightarrow> ('a \<Rightarrow> 'e + 'b) \<Rightarrow> 'e + 'b" where
  "ebind m f = (case m of Inl e \<Rightarrow> Inl e | Inr x \<Rightarrow> f x)"

lemma ebind_simps [simp]: "ebind (Inl e) f = Inl e" "ebind (Inr x) f = f x"
  by (simp_all add: ebind_def)

lemma ebind_Inr_iff: "ebind m f = Inr y \<longleftrightarrow> (\<exists>x. m = Inr x \<and> f x = Inr y)"
  by (cases m) auto

lemma ebind_Inl_iff: "ebind m f = Inl e \<longleftrightarrow> m = Inl e \<or> (\<exists>x. m = Inr x \<and> f x = Inl e)"
  by (cases m) auto

lemma ebind_assoc: "ebind (ebind m f) g = ebind m (\<lambda>x. ebind (f x) g)"
  by (cases m) auto

section \<open>Actions on shared state\<close>

text \<open>
  A method that reads and writes shared state and may raise: it returns the state it leaves
  behind and its value or exception. An exception keeps the writes made before it.
\<close>

type_synonym ('s, 'a) act = "'s \<Rightarrow> 's \<times> 'a result"

definition act_return :: "'a \<Rightarrow> ('s, 'a) act" where
  "act_return x = (\<lambda>s. (s, Inr x))"

definition act_read :: "('s \<Rightarrow> 'a result) \<Rightarrow> ('s, 'a) act" where
  "act_read f = (\<lambda>s. (s, f s))"

definition act_bind :: "('s, 'a) act \<Rightarrow> ('a \<Rightarrow> ('s, 'b) act) \<Rightarrow> ('s, 'b) act" where
  "act_bind m f = (\<lambda>s. case m s of (s1, Inl e) \<Rightarrow> (s1, Inl e) | (s1, Inr x) \<Rightarrow> f x s1)"

text \<open>\<open>try: m except Exception as e: h\<close>.\<close>

definition act_catch :: "('s, 'a) act \<Rightarrow> (pyexn \<Rightarrow> ('s, 'a) act) \<Rightarrow> ('s, 'a) act" where
  "act_catch m h = (\<lambda>s. case m s of (s1, Inl e) \<Rightarrow> h e s1 | (s1, Inr x) \<Rightarrow> (s1, Inr x))"

lemma act_simps [simp]:
  "act_return x s = (s, Inr x)" "act_read f s = (s, f s)"
  "m s = (s1, Inl e) \<Longrightarrow> act_bind m g s = (s1, Inl e)"
  "m s = (s1, Inr x) \<Longrightarrow> act_bind m g s = g x s1"
  by (simp_all add: act_return_def act_read_def act_bind_def)

lemma act_bind_Inr:
  "act_bind m f s = (s2, Inr y) \<longleftrightarrow> (\<exists>s1 x. m s = (s1, Inr x) \<and> f x s1 = (s2, Inr y))"
  by (auto simp: act_bind_def split: prod.splits sum.splits)

lemma act_read_bind: "act_bind (act_read f) g s = (case f s of Inl e \<Rightarrow> (s, Inl e) | Inr x \<Rightarrow> g x s)"
  by (simp add: act_bind_def act_read_def split: sum.splits)

text \<open>Predicates on the state that an action keeps, however it ends.\<close>

definition preserves :: "('s \<Rightarrow> bool) \<Rightarrow> ('s, 'a) act \<Rightarrow> bool" where
  "preserves P m \<longleftrightarrow> (\<forall>s. P s \<longrightarrow> P (fst (m s)))"

lemma preservesI: "(\<And>s s' r. P s \<Longrightarrow> m s = (s', r) \<Longrightarrow> P s') \<Longrightarrow> preserves P m"
  unfolding preserves_def by (metis prod.collapse)

lemma preservesD: "preserves P m \<Longrightarrow> P s \<Longrightarrow> P (fst (m s))"
  by (simp add: preserves_def)

lemma preserves_return [simp]: "preserves P (act_return x)"
  by (simp add: preserves_def)

lemma preserves_bind:
  "preserves P m \<Longrightarrow> (\<And>x. preserves P (f x)) \<Longrightarrow> preserves P (act_bind m f)"
  unfolding preserves_def act_bind_def
  by (force split: prod.splits sum.splits)

section \<open>Strings\<close>

text \<open>Python compares strings by code point, first difference first.\<close>

fun str_le :: "string \<Rightarrow> string \<Rightarrow> bool" where
  "str_le [] t = True"
| "str_le (c # s) [] = False"
| "str_le (c # s) (d # t) =
     (if (of_char c :: nat) < of_char d then True
      else if (of_char d :: nat) < of_char c then False else str_le s t)"

lemma str_le_refl [simp]: "str_le s s"
  by (induction s) auto

lemma str_le_total: "str_le s t \<or> str_le t s"
  by (induction s t rule: str_le.induct) auto

section \<open>Insertion-ordered dictionaries\<close>

text \<open>
  A Python \<open>dict\<close> iterates in insertion order: an association list with distinct keys, where
  assignment to an existing key keeps its place (\<open>AList.update\<close>) and \<open>pop\<close> is \<open>AList.delete\<close>.
\<close>

type_synonym ('k, 'v) pydict = "('k \<times> 'v) list"

definition dict_values :: "('k, 'v) pydict \<Rightarrow> 'v list" where
  "dict_values d = map snd d"

lemma dict_values_Nil [simp]: "dict_values [] = []"
  by (simp add: dict_values_def)

lemma dict_values_Cons [simp]: "dict_values (kv # d) = snd kv # dict_values d"
  by (simp add: dict_values_def)

lemma map_of_Some_values: "map_of d k = Some v \<Longrightarrow> v \<in> set (dict_values d)"
  by (force simp: dict_values_def dest: map_of_SomeD)

lemma values_map_of:
  "distinct (map fst d) \<Longrightarrow> v \<in> set (dict_values d) \<Longrightarrow> \<exists>k. map_of d k = Some v"
  by (auto simp: dict_values_def)

lemma values_update_subset: "set (dict_values (AList.update k v d)) \<subseteq> insert v (set (dict_values d))"
  by (induction d) (auto simp: dict_values_def)

lemma values_delete_subset: "set (dict_values (AList.delete k d)) \<subseteq> set (dict_values d)"
  by (auto simp: dict_values_def AList.delete_eq)

lemma list_all_update:
  "list_all P (dict_values d) \<Longrightarrow> P v \<Longrightarrow> list_all P (dict_values (AList.update k v d))"
  using values_update_subset [of k v d] by (auto simp: list_all_iff)

lemma list_all_delete: "list_all P (dict_values d) \<Longrightarrow> list_all P (dict_values (AList.delete k d))"
  using values_delete_subset [of k d] by (auto simp: list_all_iff)

lemma delete_notin: "map_of d k = None \<Longrightarrow> AList.delete k d = d"
  by (induction d) (auto split: if_splits)

end
