(* ===== verification/PyNum.thy ===== *)
theory PyNum
  imports Prelude
begin

text \<open>
  Python's two number types, as the code uses them. A \<open>float\<close> is a binary64 value: every
  operation computes the exact rational result and rounds it to 53 significant bits. A
  \<open>decimal.Decimal\<close> under the default context rounds every arithmetic result to 28 significant
  decimal digits. Both round to nearest, ties to even, and both are instances of one
  function \<open>rnd b p\<close> on rationals. A float or a Decimal of the program is the \<open>rat\<close> that it
  denotes, so comparisons, \<open>min\<close> and \<open>max\<close> are those of \<open>rat\<close>; \<open>f64 c\<close> is the float a literal \<open>c\<close> of
  the source denotes. Exponents are unbounded: overflow, subnormals, infinities and NaN are
  outside the model.
\<close>

section \<open>Rounding to a precision\<close>

text \<open>The integer nearest to \<open>x\<close>, ties to even.\<close>

definition rhe :: "rat \<Rightarrow> int" where
  "rhe x = (let f = \<lfloor>x\<rfloor>; r = x - of_int f
            in if r < 1 / 2 then f else if 1 / 2 < r then f + 1
               else if even f then f else f + 1)"

text \<open>\<open>nlog b n\<close> is the exponent of the leading digit of \<open>n\<close> in base \<open>b\<close>, \<open>ilog b x\<close> the same for a
  positive rational, and \<open>pw b e\<close> the power with an integer exponent.\<close>

function nlog :: "int \<Rightarrow> int \<Rightarrow> int" where
  "nlog b n = (if b \<le> 1 \<or> n < b then 0 else 1 + nlog b (n div b))"
  by pat_completeness auto
termination
proof (relation "measure (\<lambda>(b, n). nat n)", goal_cases)
  case (2 b n)
  then have "n div b < n" by (intro int_div_less_self) auto
  then show ?case using 2 by auto
qed simp

declare nlog.simps [simp del]

definition pw :: "int \<Rightarrow> int \<Rightarrow> rat" where
  "pw b e = (if 0 \<le> e then of_int b ^ nat e else 1 / of_int b ^ nat (- e))"

definition ilog :: "int \<Rightarrow> rat \<Rightarrow> int" where
  "ilog b x = (if 1 \<le> x then nlog b \<lfloor>x\<rfloor>
               else let m = \<lceil>1 / x\<rceil> in - (1 + nlog b (m - 1)))"

text \<open>\<open>rnd b p x\<close>: the value with \<open>p\<close> significant base-\<open>b\<close> digits nearest to \<open>x\<close>, ties to even.\<close>

definition rnd :: "int \<Rightarrow> int \<Rightarrow> rat \<Rightarrow> rat" where
  "rnd b p x = (if x = 0 then 0
     else let s = pw b (ilog b \<bar>x\<bar> + 1 - p) in of_int (rhe (x / s)) * s)"

lemma rhe_floor: "rhe x = \<lfloor>x\<rfloor> \<or> rhe x = \<lfloor>x\<rfloor> + 1"
  by (simp add: rhe_def Let_def)

lemma rhe_err: "\<bar>of_int (rhe x) - x\<bar> \<le> 1 / 2"
proof -
  have "of_int \<lfloor>x\<rfloor> \<le> x" "x < of_int \<lfloor>x\<rfloor> + 1" by linarith+
  then show ?thesis unfolding rhe_def Let_def by (auto split: if_splits)
qed

lemma rhe_of_int [simp]: "rhe (of_int n) = n"
  by (simp add: rhe_def)

lemma rhe_0 [simp]: "rhe 0 = 0"
  using rhe_of_int [of 0] by simp

lemma rhe_mono: "x \<le> y \<Longrightarrow> rhe x \<le> rhe y"
proof -
  assume le: "x \<le> y"
  have fl: "\<lfloor>x\<rfloor> \<le> \<lfloor>y\<rfloor>" using le by (rule floor_mono)
  show ?thesis
  proof (cases "\<lfloor>x\<rfloor> = \<lfloor>y\<rfloor>")
    case True
    then have "x - of_int \<lfloor>x\<rfloor> \<le> y - of_int \<lfloor>y\<rfloor>" using le by simp
    then show ?thesis using True by (auto simp: rhe_def Let_def)
  next
    case False
    then have "\<lfloor>x\<rfloor> + 1 \<le> \<lfloor>y\<rfloor>" using fl by linarith
    then show ?thesis using rhe_floor [of x] rhe_floor [of y] by linarith
  qed
qed

lemma rhe_minus: "rhe (- x) = - rhe x"
proof (cases "x = of_int \<lfloor>x\<rfloor>")
  case True
  then show ?thesis by (metis of_int_minus rhe_of_int)
next
  case False
  then have "\<lfloor>- x\<rfloor> = - \<lfloor>x\<rfloor> - 1" by linarith
  moreover have "- x - of_int (- \<lfloor>x\<rfloor> - 1) = 1 - (x - of_int \<lfloor>x\<rfloor>)" by simp
  ultimately show ?thesis
    unfolding rhe_def Let_def by (auto split: if_splits)
qed

lemma nlog_bounds:
  assumes "1 < b" "1 \<le> n"
  shows "0 \<le> nlog b n \<and> b ^ nat (nlog b n) \<le> n \<and> n < b ^ nat (nlog b n + 1)"
  using assms
proof (induction b n rule: nlog.induct)
  case (1 b n)
  show ?case
  proof (cases "n < b")
    case True
    then show ?thesis using 1 by (simp add: nlog.simps)
  next
    case False
    let ?k = "nlog b (n div b)"
    have q: "1 \<le> n div b" using False 1 by (simp add: pos_imp_zdiv_pos_iff int_one_le_iff_zero_less)
    have IH: "0 \<le> ?k" "b ^ nat ?k \<le> n div b" "n div b < b ^ nat (?k + 1)"
      using "1.IH" False 1(2) q by auto
    have e: "nlog b n = 1 + ?k" using False 1(2) by (simp add: nlog.simps)
    have s1: "nat (1 + ?k) = Suc (nat ?k)" "nat (1 + ?k + 1) = Suc (nat (?k + 1))" using IH(1) by auto
    have dm: "b * (n div b) + n mod b = n" by simp
    have mb: "0 \<le> n mod b" "n mod b < b" using 1(2) by simp_all
    have "b * b ^ nat ?k \<le> b * (n div b)" using IH(2) 1(2) by simp
    then have lo: "b * b ^ nat ?k \<le> n" using dm mb by linarith
    have "b * (n div b + 1) \<le> b * b ^ nat (?k + 1)"
      using IH(3) 1(2) by (intro mult_left_mono) auto
    then have "b * (n div b) + b \<le> b * b ^ nat (?k + 1)" by (simp add: distrib_left)
    then have hi: "n < b * b ^ nat (?k + 1)" using dm mb by linarith
    show ?thesis unfolding e s1 using lo hi IH(1) by simp
  qed
qed

lemma pw_pos [simp]: "1 < b \<Longrightarrow> 0 < pw b e"
  by (simp add: pw_def)

lemma pw_sign [simp]:
  assumes "1 < b"
  shows "0 \<le> pw b e" "\<not> pw b e \<le> 0" "\<not> pw b e < 0" "pw b e \<noteq> 0"
  using pw_pos [OF assms, of e] by linarith+

lemma pw_add: "1 < b \<Longrightarrow> pw b (e + f) = pw b e * pw b f"
proof -
  assume b: "1 < b"
  have eq: "pw b e = of_int b powi e" for e by (simp add: pw_def power_int_def divide_inverse power_inverse)
  show ?thesis using b by (simp add: eq power_int_add)
qed

lemma pw_0 [simp]: "pw b 0 = 1" by (simp add: pw_def)

lemma pw_1: "pw b 1 = of_int b" by (simp add: pw_def)

lemma pw_nat: "0 \<le> e \<Longrightarrow> pw b e = of_int (b ^ nat e)"
  by (simp add: pw_def)

lemma pw_mono: "1 < b \<Longrightarrow> e \<le> f \<Longrightarrow> pw b e \<le> pw b f"
proof -
  assume b: "1 < b" and le: "e \<le> f"
  have "1 \<le> pw b (f - e)" using b le by (simp add: pw_nat)
  then have "pw b e * 1 \<le> pw b e * pw b (f - e)" using b pw_pos [of b e] by (intro mult_left_mono) (auto intro: less_imp_le)
  then show ?thesis using b by (simp add: pw_add [symmetric])
qed

lemma pw_mono_iff: "1 < b \<Longrightarrow> pw b e < pw b f \<Longrightarrow> e < f"
  using pw_mono [of b f e] by force

lemma ilog_bounds:
  assumes b: "1 < b" and x: "0 < x"
  shows "pw b (ilog b x) \<le> x" "x < pw b (ilog b x + 1)"
proof -
  have "pw b (ilog b x) \<le> x \<and> x < pw b (ilog b x + 1)"
  proof (cases "1 \<le> x")
    case True
    then have f: "1 \<le> \<lfloor>x\<rfloor>" by simp
    note B = nlog_bounds [OF b f]
    have "pw b (nlog b \<lfloor>x\<rfloor>) \<le> of_int \<lfloor>x\<rfloor>" using B by (simp add: pw_nat del: of_int_power)
    moreover have "of_int (\<lfloor>x\<rfloor> + 1) \<le> pw b (nlog b \<lfloor>x\<rfloor> + 1)" using B by (simp add: pw_nat del: of_int_power of_int_add)
    ultimately show ?thesis using True by (simp add: ilog_def) linarith
  next
    case False
    define m where "m = \<lceil>1 / x\<rceil>"
    have x1: "1 < 1 / x" using False x by simp
    then have m: "2 \<le> m" unfolding m_def by (simp add: le_ceiling_iff)
    define k where "k = nlog b (m - 1)"
    have B: "0 \<le> k" "b ^ nat k \<le> m - 1" "m - 1 < b ^ nat (k + 1)"
      using nlog_bounds [OF b, of "m - 1"] m unfolding k_def by auto
    have il: "ilog b x = - (1 + k)" using False by (simp add: ilog_def m_def k_def Let_def)
    have "1 / x \<le> of_int m" unfolding m_def by simp
    also have "of_int m \<le> pw b (k + 1)" using B by (simp add: pw_nat del: of_int_power)
    finally have lo: "1 / x \<le> pw b (k + 1)" .
    have "pw b k \<le> of_int (m - 1)" using B by (simp add: pw_nat del: of_int_power of_int_diff)
    also have "of_int (m - 1) < 1 / x" unfolding m_def by linarith
    finally have hi: "pw b k < 1 / x" .
    have i1: "pw b (- (1 + k)) * pw b (k + 1) = 1" and i2: "pw b (- (1 + k) + 1) * pw b k = 1"
      using b by (simp_all flip: pw_add)
    have p: "0 < pw b (k + 1)" "0 < pw b k" using b by simp_all
    have q1: "pw b (- (1 + k)) = 1 / pw b (k + 1)"
      using i1 p by (metis nonzero_eq_divide_eq order_less_irrefl)
    have q2: "pw b (- (1 + k) + 1) = 1 / pw b k"
      using i2 p by (metis nonzero_eq_divide_eq order_less_irrefl)
    have "1 / pw b (k + 1) \<le> x" using lo p x by (simp add: field_simps)
    moreover have "x < 1 / pw b k" using hi p x by (simp add: field_simps)
    ultimately show ?thesis unfolding il q1 q2 ..
  qed
  then show "pw b (ilog b x) \<le> x" "x < pw b (ilog b x + 1)" by auto
qed

lemma ilog_mono: "1 < b \<Longrightarrow> 0 < x \<Longrightarrow> x \<le> y \<Longrightarrow> ilog b x \<le> ilog b y"
  using ilog_bounds [of b x] ilog_bounds [of b y] pw_mono_iff [of b "ilog b x" "ilog b y + 1"]
  by linarith

lemma rnd_0 [simp]: "rnd b p 0 = 0" by (simp add: rnd_def)

lemma rnd_minus: "rnd b p (- x) = - rnd b p x"
  by (simp add: rnd_def Let_def rhe_minus)

lemma rnd_form:
  assumes b: "1 < b" and p: "0 < p" and x: "x \<noteq> 0"
  obtains m where "rnd b p x = of_int m * pw b (ilog b \<bar>x\<bar> + 1 - p)" "\<bar>m\<bar> \<le> b ^ nat p"
proof -
  let ?e = "ilog b \<bar>x\<bar>" and ?s = "pw b (ilog b \<bar>x\<bar> + 1 - p)"
  have s: "0 < ?s" using b by simp
  have "\<bar>x\<bar> < pw b (?e + 1)" using ilog_bounds [OF b, of "\<bar>x\<bar>"] x by simp
  also have "pw b (?e + 1) = ?s * pw b p" using pw_add [OF b, of "?e + 1 - p" p] by simp
  finally have "\<bar>x / ?s\<bar> \<le> of_int (b ^ nat p)"
    using s p by (simp add: pw_nat field_simps del: of_int_power)
  then have "of_int (- (b ^ nat p)) \<le> x / ?s" "x / ?s \<le> of_int (b ^ nat p)"
    unfolding of_int_minus by linarith+
  then have "- (b ^ nat p) \<le> rhe (x / ?s)" "rhe (x / ?s) \<le> b ^ nat p"
    by (metis rhe_mono rhe_of_int)+
  then show ?thesis using that [of "rhe (x / ?s)"] x by (simp add: rnd_def Let_def abs_le_iff)
qed

lemma rnd_exact_lt:
  assumes b: "1 < b" and p: "0 < p" and m: "\<bar>m\<bar> < b ^ nat p" and x: "x = of_int m * pw b k"
  shows "rnd b p x = x"
proof (cases "m = 0")
  case False
  let ?e = "ilog b \<bar>x\<bar>"
  have x0: "x \<noteq> 0" using False x pw_pos [OF b, of k] by simp
  have "pw b ?e \<le> \<bar>x\<bar>" using ilog_bounds [OF b, of "\<bar>x\<bar>"] x0 by simp
  also have "\<bar>x\<bar> = of_int \<bar>m\<bar> * pw b k" using x pw_pos [OF b, of k] by (simp add: abs_mult)
  also have "\<dots> < of_int (b ^ nat p) * pw b k"
    using m pw_pos [OF b, of k] by (intro mult_strict_right_mono) (auto simp del: of_int_power)
  also have "\<dots> = pw b (p + k)" using p by (simp add: pw_add [OF b] pw_nat)
  finally have "?e < p + k" by (rule pw_mono_iff [OF b])
  then have k: "0 \<le> k - (?e + 1 - p)" by simp
  let ?s = "pw b (?e + 1 - p)"
  define c where "c = b ^ nat (k - (?e + 1 - p))"
  have "pw b k = pw b (k - (?e + 1 - p)) * ?s" by (simp flip: pw_add [OF b])
  then have "x = of_int (m * c) * ?s" unfolding x c_def using k x by (simp add: pw_nat)
  then have "x / ?s = of_int (m * c)" using pw_pos [OF b, of "?e + 1 - p"] by (metis nonzero_mult_div_cancel_right order_less_irrefl)
  then have "of_int (rhe (x / ?s)) = x / ?s" by (metis rhe_of_int)
  then show ?thesis using x0 pw_pos [OF b, of "?e + 1 - p"] by (simp add: rnd_def Let_def)
qed (use x in simp)

lemma rnd_exact:
  assumes b: "1 < b" and p: "0 < p" and m: "\<bar>m\<bar> \<le> b ^ nat p" and x: "x = of_int m * pw b k"
  shows "rnd b p x = x"
proof (cases "\<bar>m\<bar> < b ^ nat p")
  case True
  then show ?thesis using assms by (intro rnd_exact_lt) auto
next
  case False
  then have "\<bar>m\<bar> = b ^ nat p" using m by simp
  then have "m = sgn m * b ^ nat p" by (metis sgn_mult_abs)
  then have "of_int m = of_int (sgn m) * pw b p" using p by (metis of_int_mult pw_nat less_imp_le)
  then have "x = of_int (sgn m) * pw b (p + k)" using x by (simp add: pw_add [OF b])
  moreover have "\<bar>sgn m\<bar> < b ^ nat p"
    using b p one_less_power [of b "nat p"] by (auto simp: sgn_if)
  ultimately show ?thesis using b p by (intro rnd_exact_lt) auto
qed

lemma rnd_idem: "1 < b \<Longrightarrow> 0 < p \<Longrightarrow> rnd b p (rnd b p x) = rnd b p x"
  by (cases "x = 0") (auto elim: rnd_form [of b p x] intro: rnd_exact)

lemma rnd_nonneg: "1 < b \<Longrightarrow> 0 \<le> x \<Longrightarrow> 0 \<le> rnd b p x"
  using rhe_mono [of 0] by (simp add: rnd_def Let_def less_imp_le)

lemma rnd_bounds:
  assumes b: "1 < b" and p: "0 < p" and x: "0 < x"
  shows "pw b (ilog b x) \<le> rnd b p x" "rnd b p x \<le> pw b (ilog b x + 1)"
proof -
  let ?e = "ilog b x" and ?s = "pw b (ilog b x + 1 - p)"
  have s: "0 < ?s" using b by simp
  have "pw b ?e = pw b (p - 1) * ?s" "pw b (?e + 1) = pw b p * ?s" by (simp_all flip: pw_add [OF b])
  then have e1: "pw b ?e = of_int (b ^ nat (p - 1)) * ?s" and e2: "pw b (?e + 1) = of_int (b ^ nat p) * ?s"
    using p by (simp_all only: pw_nat less_imp_le zle_diff1_eq zero_le_one)
  have r: "rnd b p x = of_int (rhe (x / ?s)) * ?s" using x by (simp add: rnd_def Let_def)
  have "of_int (b ^ nat (p - 1)) \<le> x / ?s" "x / ?s \<le> of_int (b ^ nat p)"
    using ilog_bounds [OF b x] s unfolding e1 e2
    by (simp_all only: pos_le_divide_eq pos_divide_le_eq less_imp_le)
  then have "b ^ nat (p - 1) \<le> rhe (x / ?s)" "rhe (x / ?s) \<le> b ^ nat p"
    by (metis rhe_mono rhe_of_int)+
  then show "pw b ?e \<le> rnd b p x" "rnd b p x \<le> pw b (?e + 1)"
    unfolding r e1 e2 using s by (auto intro!: mult_right_mono simp del: of_int_power)
qed

lemma rnd_pos: "1 < b \<Longrightarrow> 0 < p \<Longrightarrow> 0 < x \<Longrightarrow> 0 < rnd b p x"
  using rnd_bounds(1) [of b p x] pw_pos [of b "ilog b x"] by linarith

lemma rnd_mono_pos:
  assumes b: "1 < b" and p: "0 < p" and x: "0 < x" and le: "x \<le> y"
  shows "rnd b p x \<le> rnd b p y"
proof (cases "ilog b x = ilog b y")
  case True
  let ?s = "pw b (ilog b y + 1 - p)"
  have "x / ?s \<le> y / ?s" using le b by (simp add: divide_right_mono less_imp_le)
  then have "rhe (x / ?s) \<le> rhe (y / ?s)" by (rule rhe_mono)
  then show ?thesis using x le b True by (simp add: rnd_def Let_def mult_right_mono less_imp_le)
next
  case False
  then have "ilog b x + 1 \<le> ilog b y" using ilog_mono [OF b x le] by simp
  then have "pw b (ilog b x + 1) \<le> pw b (ilog b y)" by (rule pw_mono [OF b])
  then show ?thesis using rnd_bounds [OF b p x] rnd_bounds [OF b p, of y] x le by linarith
qed

lemma rnd_mono:
  assumes b: "1 < b" and p: "0 < p" and le: "x \<le> y"
  shows "rnd b p x \<le> rnd b p y"
proof -
  consider "0 < x" | "y < 0" | "x \<le> 0" "0 \<le> y" by linarith
  then show ?thesis
  proof cases
    case 1
    then show ?thesis using assms by (intro rnd_mono_pos)
  next
    case 2
    then have "rnd b p (- y) \<le> rnd b p (- x)" using assms by (intro rnd_mono_pos) auto
    then show ?thesis by (simp add: rnd_minus)
  next
    case 3
    then have "0 \<le> rnd b p y" "0 \<le> rnd b p (- x)" using b by (auto intro!: rnd_nonneg)
    then show ?thesis by (simp add: rnd_minus)
  qed
qed

lemma rnd_err:
  assumes b: "1 < b" shows "\<bar>rnd b p x - x\<bar> \<le> \<bar>x\<bar> * pw b (1 - p) / 2"
proof (cases "x = 0")
  case False
  let ?s = "pw b (ilog b \<bar>x\<bar> + 1 - p)"
  have s: "0 < ?s" using b by simp
  have "rnd b p x - x = (of_int (rhe (x / ?s)) - x / ?s) * ?s"
    using False s by (simp add: rnd_def Let_def left_diff_distrib)
  then have "\<bar>rnd b p x - x\<bar> = \<bar>of_int (rhe (x / ?s)) - x / ?s\<bar> * ?s" using s by (simp add: abs_mult)
  also have "\<dots> \<le> 1 / 2 * ?s" using rhe_err s by (intro mult_right_mono) auto
  also have "?s = pw b (ilog b \<bar>x\<bar>) * pw b (1 - p)" by (simp flip: pw_add [OF b] add: algebra_simps)
  also have "1 / 2 * \<dots> \<le> 1 / 2 * (\<bar>x\<bar> * pw b (1 - p))"
    using ilog_bounds(1) [OF b, of "\<bar>x\<bar>"] False pw_pos [OF b, of "1 - p"]
    by (intro mult_left_mono mult_right_mono) auto
  finally show ?thesis by simp
qed simp

section \<open>Decimal and binary64 arithmetic\<close>

definition dec :: "rat \<Rightarrow> rat" where "dec x = rnd 10 28 x"

definition f64 :: "rat \<Rightarrow> rat" where "f64 x = rnd 2 53 x"

definition is_dec :: "rat \<Rightarrow> bool" where "is_dec x \<longleftrightarrow> dec x = x"

definition is_f64 :: "rat \<Rightarrow> bool" where "is_f64 x \<longleftrightarrow> f64 x = x"

definition dadd :: "rat \<Rightarrow> rat \<Rightarrow> rat" where "dadd x y = dec (x + y)"
definition dsub :: "rat \<Rightarrow> rat \<Rightarrow> rat" where "dsub x y = dec (x - y)"
definition dmul :: "rat \<Rightarrow> rat \<Rightarrow> rat" where "dmul x y = dec (x * y)"
definition ddiv :: "rat \<Rightarrow> rat \<Rightarrow> rat" where "ddiv x y = dec (x / y)"
definition dabs :: "rat \<Rightarrow> rat" where "dabs x = dec \<bar>x\<bar>"

text \<open>Division where the divisor may be zero: decimal signals \<open>InvalidOperation\<close> for 0/0.\<close>

definition ddivE :: "rat \<Rightarrow> rat \<Rightarrow> pyexn + rat" where
  "ddivE x y = (if y = 0 then Inl (if x = 0 then InvalidOperation else DivisionByZero)
                else Inr (ddiv x y))"

definition fadd :: "rat \<Rightarrow> rat \<Rightarrow> rat" where "fadd x y = f64 (x + y)"
definition fsub :: "rat \<Rightarrow> rat \<Rightarrow> rat" where "fsub x y = f64 (x - y)"
definition fmul :: "rat \<Rightarrow> rat \<Rightarrow> rat" where "fmul x y = f64 (x * y)"
definition fdiv :: "rat \<Rightarrow> rat \<Rightarrow> rat" where "fdiv x y = f64 (x / y)"

text \<open>\<open>round(x, k)\<close> of a float.\<close>

definition fround :: "nat \<Rightarrow> rat \<Rightarrow> rat" where
  "fround k x = f64 (of_int (rhe (x * 10 ^ k)) / 10 ^ k)"

text \<open>
  The rounding modes of \<open>Decimal.quantize\<close> and \<open>to_integral_value\<close>; \<open>quantize r k x\<close> is
  \<open>x.quantize(Decimal(10) ** -k, rounding=r)\<close>, which signals when the coefficient of the
  result would need more than 28 digits.
\<close>

definition rdown :: "rat \<Rightarrow> int" where
  "rdown x = (if 0 \<le> x then \<lfloor>x\<rfloor> else \<lceil>x\<rceil>)"

definition rhalf_up :: "rat \<Rightarrow> int" where
  "rhalf_up x = (if 0 \<le> x then \<lfloor>x + 1 / 2\<rfloor> else \<lceil>x - 1 / 2\<rceil>)"

definition quantize :: "(rat \<Rightarrow> int) \<Rightarrow> int \<Rightarrow> rat \<Rightarrow> pyexn + rat" where
  "quantize r k x = (let n = r (x * pw 10 k)
     in if 10 ^ 28 \<le> \<bar>n\<bar> then Inl InvalidOperation else Inr (of_int n * pw 10 (- k)))"

text \<open>
  \<open>repr10 x\<close> is \<open>Decimal(str(x))\<close> for a float \<open>x\<close>: Python prints the shortest decimal that reads
  back as \<open>x\<close>, and the nearest of these.
\<close>

definition shortest_candidates :: "rat \<Rightarrow> int \<Rightarrow> rat list" where
  "shortest_candidates x n = (let s = pw 10 (ilog 10 \<bar>x\<bar> + 1 - n)
     in [rnd 10 n x, of_int \<lfloor>x / s\<rfloor> * s, of_int \<lceil>x / s\<rceil> * s])"

fun shortest_from :: "nat \<Rightarrow> int \<Rightarrow> rat \<Rightarrow> rat" where
  "shortest_from 0 n x = x"
| "shortest_from (Suc k) n x =
     (case find (\<lambda>d. f64 d = x) (shortest_candidates x n) of
        Some d \<Rightarrow> d | None \<Rightarrow> shortest_from k (n + 1) x)"

definition repr10 :: "rat \<Rightarrow> rat" where
  "repr10 x = (if x = 0 then 0 else shortest_from 17 1 x)"

text \<open>
  Code equations that compute on numerator and denominator, so that an evaluation stays on
  integers.
\<close>

lemma rhe_code [code]:
  "rhe x = (case quotient_of x of (a, b) \<Rightarrow>
     let f = a div b; r = 2 * (a mod b)
     in if r < b then f else if b < r then f + 1 else if even f then f else f + 1)"
proof -
  obtain a b where q: "quotient_of x = (a, b)" by (rule prod.exhaust)
  have b: "0 < b" and x: "x = of_int a / of_int b"
    using quotient_of_denom_pos [OF q] quotient_of_div [OF q] by simp_all
  have f: "\<lfloor>x\<rfloor> = a div b" using x by (simp add: floor_divide_of_int_eq)
  have "(of_int a :: rat) = of_int (b * (a div b)) + of_int (a mod b)"
    by (metis mult_div_mod_eq of_int_add)
  then have "of_int a - of_int (a div b) * of_int b = (of_int (a mod b) :: rat)" by simp
  then have r: "x - of_int (a div b) = of_int (a mod b) / of_int b"
    using b x by (simp add: divide_diff_eq_iff)
  have "(x - of_int (a div b) < 1 / 2) = (2 * (a mod b) < b)"
    "(1 / 2 < x - of_int (a div b)) = (b < 2 * (a mod b))"
    unfolding r using b of_int_less_iff [of "2 * (a mod b)" b, where 'a = rat]
      of_int_less_iff [of b "2 * (a mod b)", where 'a = rat]
    by (simp_all add: pos_divide_less_eq pos_less_divide_eq algebra_simps del: of_int_less_iff)
  then show ?thesis unfolding rhe_def q f Let_def prod.case by simp
qed

lemma pw_code [code]:
  "pw b e = (if 0 \<le> e then of_int (b ^ nat e) else 1 / of_int (b ^ nat (- e)))"
  by (simp add: pw_def)

lemma ilog_code [code]:
  "ilog b x = (case quotient_of x of (n, d) \<Rightarrow>
     if d \<le> n then nlog b (n div d) else - (1 + nlog b (- ((- d) div n) - 1)))"
proof -
  obtain n d where q: "quotient_of x = (n, d)" by (rule prod.exhaust)
  have d: "0 < d" and x: "x = of_int n / of_int d"
    using quotient_of_denom_pos [OF q] quotient_of_div [OF q] by simp_all
  have "(1 \<le> x) = (d \<le> n)" using d x by (simp add: pos_le_divide_eq)
  moreover have "\<lfloor>x\<rfloor> = n div d" using x by (simp add: floor_divide_of_int_eq)
  moreover have "\<lceil>1 / x\<rceil> = - ((- d) div n)"
    using floor_divide_of_int_eq [of "- d" n, where 'a = rat] x by (simp add: ceiling_def)
  ultimately show ?thesis by (simp add: ilog_def q)
qed

lemma floor_quotient: "quotient_of x = (a, b) \<Longrightarrow> \<lfloor>x\<rfloor> = a div b"
  using quotient_of_div [of x a b] by (simp add: floor_divide_of_int_eq)

lemma ceiling_quotient: "quotient_of x = (a, b) \<Longrightarrow> \<lceil>x\<rceil> = - ((- a) div b)"
  using quotient_of_div [of x a b] floor_divide_of_int_eq [of "- a" b, where 'a = rat]
  by (simp add: ceiling_def)

lemma rdown_code [code]:
  "rdown x = (case quotient_of x of (a, b) \<Rightarrow> if 0 \<le> x then a div b else - ((- a) div b))"
  by (auto simp: rdown_def floor_quotient ceiling_quotient split: prod.split)

lemma rhalf_up_code [code]:
  "rhalf_up x = (if 0 \<le> x then (case quotient_of (x + 1 / 2) of (a, b) \<Rightarrow> a div b)
     else case quotient_of (x - 1 / 2) of (a, b) \<Rightarrow> - ((- a) div b))"
  by (auto simp: rhalf_up_def floor_quotient ceiling_quotient split: prod.split)

lemma shortest_candidates_code [code]:
  "shortest_candidates x n = (let s = pw 10 (ilog 10 \<bar>x\<bar> + 1 - n)
     in case quotient_of (x / s) of (a, b) \<Rightarrow>
       [rnd 10 n x, of_int (a div b) * s, of_int (- ((- a) div b)) * s])"
  by (auto simp: shortest_candidates_def Let_def floor_quotient ceiling_quotient split: prod.split)

lemmas dec_ops = dadd_def dsub_def dmul_def ddiv_def dabs_def
lemmas f64_ops = fadd_def fsub_def fmul_def fdiv_def

lemma dec_0 [simp]: "dec 0 = 0" and f64_0 [simp]: "f64 0 = 0"
  by (simp_all add: dec_def f64_def)

lemma dec_mono: "x \<le> y \<Longrightarrow> dec x \<le> dec y"
  by (simp add: dec_def rnd_mono)

lemma f64_mono: "x \<le> y \<Longrightarrow> f64 x \<le> f64 y"
  by (simp add: f64_def rnd_mono)

lemma dec_idem [simp]: "dec (dec x) = dec x" and f64_idem [simp]: "f64 (f64 x) = f64 x"
  by (simp_all add: dec_def f64_def rnd_idem)

lemma dec_minus: "dec (- x) = - dec x" and f64_minus: "f64 (- x) = - f64 x"
  by (simp_all add: dec_def f64_def rnd_minus)

lemma dec_pos: "0 < x \<Longrightarrow> 0 < dec x" and f64_pos: "0 < x \<Longrightarrow> 0 < f64 x"
  by (simp_all add: dec_def f64_def rnd_pos)

lemma dec_nonneg: "0 \<le> x \<Longrightarrow> 0 \<le> dec x" and f64_nonneg: "0 \<le> x \<Longrightarrow> 0 \<le> f64 x"
  by (simp_all add: dec_def f64_def rnd_nonneg)

lemma dec_sign [simp]: "0 < dec x \<longleftrightarrow> 0 < x" "dec x < 0 \<longleftrightarrow> x < 0" "dec x \<le> 0 \<longleftrightarrow> x \<le> 0"
    "0 \<le> dec x \<longleftrightarrow> 0 \<le> x" "dec x = 0 \<longleftrightarrow> x = 0"
proof -
  have n: "dec x < 0" if "x < 0" using that dec_pos [of "- x"] by (simp add: dec_minus)
  show "0 < dec x \<longleftrightarrow> 0 < x" "dec x < 0 \<longleftrightarrow> x < 0" "dec x \<le> 0 \<longleftrightarrow> x \<le> 0"
      "0 \<le> dec x \<longleftrightarrow> 0 \<le> x" "dec x = 0 \<longleftrightarrow> x = 0"
    using dec_pos [of x] n by (cases x "0 :: rat" rule: linorder_cases; force)+
qed

lemma f64_sign [simp]: "0 < f64 x \<longleftrightarrow> 0 < x" "f64 x < 0 \<longleftrightarrow> x < 0" "f64 x \<le> 0 \<longleftrightarrow> x \<le> 0"
    "0 \<le> f64 x \<longleftrightarrow> 0 \<le> x" "f64 x = 0 \<longleftrightarrow> x = 0"
proof -
  have n: "f64 x < 0" if "x < 0" using that f64_pos [of "- x"] by (simp add: f64_minus)
  show "0 < f64 x \<longleftrightarrow> 0 < x" "f64 x < 0 \<longleftrightarrow> x < 0" "f64 x \<le> 0 \<longleftrightarrow> x \<le> 0"
      "0 \<le> f64 x \<longleftrightarrow> 0 \<le> x" "f64 x = 0 \<longleftrightarrow> x = 0"
    using f64_pos [of x] n by (cases x "0 :: rat" rule: linorder_cases; force)+
qed

lemma dec_exact: "\<bar>m\<bar> \<le> 10 ^ 28 \<Longrightarrow> dec (of_int m * pw 10 k) = of_int m * pw 10 k"
  unfolding dec_def by (rule rnd_exact [where m = m and k = k]) auto

lemma f64_exact: "\<bar>m\<bar> \<le> 2 ^ 53 \<Longrightarrow> f64 (of_int m * pw 2 k) = of_int m * pw 2 k"
  unfolding f64_def by (rule rnd_exact [where m = m and k = k]) auto

lemma f64_int: "\<bar>n\<bar> \<le> 2 ^ 53 \<Longrightarrow> f64 (of_int n) = of_int n"
  using f64_exact [of n 0] by simp

lemma f64_1 [simp]: "f64 1 = 1" using f64_int [of 1] by simp

lemma f64_numeral: "numeral n \<le> (2 ^ 53 :: int) \<Longrightarrow> f64 (numeral n) = numeral n"
  using f64_int [of "numeral n"] by simp

lemma is_dec_dec [simp]: "is_dec (dec x)" by (simp add: is_dec_def)

lemma is_f64_f64 [simp]: "is_f64 (f64 x)" by (simp add: is_f64_def)

lemma is_dec_0 [simp]: "is_dec 0" and is_f64_0 [simp]: "is_f64 0"
  by (simp_all add: is_dec_def is_f64_def)

lemma f64_le_of_le: "is_f64 y \<Longrightarrow> x \<le> y \<Longrightarrow> f64 x \<le> y"
  using f64_mono [of x y] by (simp add: is_f64_def)

lemma le_f64_of_le: "is_f64 x \<Longrightarrow> x \<le> y \<Longrightarrow> x \<le> f64 y"
  using f64_mono [of x y] by (simp add: is_f64_def)

lemma dec_le_of_le: "is_dec y \<Longrightarrow> x \<le> y \<Longrightarrow> dec x \<le> y"
  using dec_mono [of x y] by (simp add: is_dec_def)

lemma le_dec_of_le: "is_dec x \<Longrightarrow> x \<le> y \<Longrightarrow> x \<le> dec y"
  using dec_mono [of x y] by (simp add: is_dec_def)

lemma shortest_from_roundtrip: "is_f64 x \<Longrightarrow> f64 (shortest_from k n x) = x"
  by (induction k n x rule: shortest_from.induct)
    (auto simp: is_f64_def find_Some_iff split: option.splits)

lemma repr10_roundtrip: "is_f64 x \<Longrightarrow> f64 (repr10 x) = x"
  using shortest_from_roundtrip [of x 17 1] by (simp add: repr10_def)

lemma repr10_mono: "is_f64 x \<Longrightarrow> is_f64 y \<Longrightarrow> x \<le> y \<Longrightarrow> repr10 x \<le> repr10 y"
  using repr10_roundtrip [of x] repr10_roundtrip [of y] f64_mono [of "repr10 y" "repr10 x"]
  by (cases "x = y") force+

lemma repr10_sign: "is_f64 x \<Longrightarrow> 0 < repr10 x \<longleftrightarrow> 0 < x"
  using repr10_roundtrip [of x] f64_sign(1) [of "repr10 x"] by simp

section \<open>Rounding errors\<close>

lemma dec_err: "\<bar>dec x - x\<bar> \<le> \<bar>x\<bar> * (5 / 10 ^ 28)"
  using rnd_err [of 10 28 x] by (simp add: dec_def pw_def)

lemma f64_err: "\<bar>f64 x - x\<bar> \<le> \<bar>x\<bar> / 2 ^ 53"
  using rnd_err [of 2 53 x] by (simp add: f64_def pw_def)

lemma dec_le_err: "0 \<le> x \<Longrightarrow> dec x \<le> x * (1 + 5 / 10 ^ 28)"
  and dec_ge_err: "0 \<le> x \<Longrightarrow> x * (1 - 5 / 10 ^ 28) \<le> dec x"
  using dec_err [of x] unfolding abs_le_iff distrib_left right_diff_distrib mult_1_right by linarith+

lemma quantize_InrD:
  "quantize r k x = Inr y \<Longrightarrow> y = of_int (r (x * pw 10 k)) * pw 10 (- k)"
  by (auto simp: quantize_def Let_def split: if_splits)

lemma quantize_rhe_err:
  assumes "quantize rhe k x = Inr y"
  shows "\<bar>y - x\<bar> \<le> pw 10 (- k) / 2"
proof -
  have one: "pw 10 k * pw 10 (- k) = 1" by (simp flip: pw_add)
  have "y - x = (of_int (rhe (x * pw 10 k)) - x * pw 10 k) * pw 10 (- k)"
    using quantize_InrD [OF assms] one by (simp add: left_diff_distrib mult.assoc)
  then have "\<bar>y - x\<bar> = \<bar>of_int (rhe (x * pw 10 k)) - x * pw 10 k\<bar> * pw 10 (- k)"
    by (simp add: abs_mult less_imp_le)
  also have "\<dots> \<le> 1 / 2 * pw 10 (- k)" using rhe_err by (intro mult_right_mono) auto
  finally show ?thesis by simp
qed

lemma quantize_rhe_mono:
  "quantize rhe k x = Inr y \<Longrightarrow> quantize rhe k x' = Inr y' \<Longrightarrow> x \<le> x' \<Longrightarrow> y \<le> y'"
  by (auto dest!: quantize_InrD intro!: mult_right_mono rhe_mono)

lemma quantize_rhe_nonneg: "quantize rhe k x = Inr y \<Longrightarrow> 0 \<le> x \<Longrightarrow> 0 \<le> y"
  using rhe_mono [of 0 "x * pw 10 k"] by (auto dest!: quantize_InrD simp: less_imp_le)

text \<open>A ratio below 1 stays clear of 1 after its shortest decimal is taken.\<close>

lemma f64_below_1: "is_f64 x \<Longrightarrow> x < 1 \<Longrightarrow> repr10 x < 1 - 1 / 2 ^ 54"
proof (rule ccontr)
  assume x: "is_f64 x" "x < 1" and c: "\<not> repr10 x < 1 - 1 / 2 ^ 54"
  have "f64 (1 - 1 / 2 ^ 54) \<le> f64 (repr10 x)" using c by (intro f64_mono) simp
  moreover have "f64 (1 - 1 / 2 ^ 54) = 1" by code_simp
  ultimately show False using x repr10_roundtrip [OF x(1)] by simp
qed

lemma dmul_ratio_less:
  assumes "0 < q" "is_f64 r" "r < 1"
  shows "dmul q (repr10 r) < q"
proof (cases "0 < repr10 r")
  case True
  have "dmul q (repr10 r) \<le> q * repr10 r * (1 + 5 / 10 ^ 28)"
    unfolding dmul_def using assms True by (intro dec_le_err) simp
  also have "\<dots> < q * (1 - 1 / 2 ^ 54) * (1 + 5 / 10 ^ 28)"
    using assms f64_below_1 [OF assms(2,3)] by (intro mult_strict_right_mono) auto
  also have "\<dots> \<le> q * 1" unfolding mult.assoc using assms(1) by (intro mult_left_mono) auto
  finally show ?thesis by simp
next
  case False
  then have "q * repr10 r \<le> 0" using assms(1) by (simp add: mult_nonneg_nonpos)
  then have "dmul q (repr10 r) \<le> 0" by (simp add: dmul_def)
  then show ?thesis using assms(1) by linarith
qed

text \<open>A difference of two Decimals on a grid is exact while the grid has room for it.\<close>

lemma dsub_grid:
  assumes "x = of_int m * pw 10 e" "y = of_int n * pw 10 e" "\<bar>m - n\<bar> \<le> 10 ^ 28"
  shows "dsub x y = x - y"
proof -
  have "x - y = of_int (m - n) * pw 10 e" using assms by (simp add: left_diff_distrib)
  then show ?thesis using dec_exact [OF assms(3), of e] by (simp add: dsub_def)
qed

section \<open>Evaluation on literals\<close>

text \<open>
  Conditional equations with which the simplifier evaluates the operations on literals that
  need no rounding: up to 20 decimal places for Decimal, dyadic values for floats.
\<close>

lemma dec_lit:
  assumes "x * 10 ^ 20 = of_int m" "\<bar>m\<bar> \<le> 10 ^ 28"
  shows "dec x = x"
proof -
  have "x = of_int m * pw 10 (- 20)" using assms(1) by (simp add: pw_def field_simps)
  then show ?thesis using dec_exact [OF assms(2)] by simp
qed

lemma dec_numeral: "(numeral n :: int) \<le> 10 ^ 28 \<Longrightarrow> dec (numeral n) = numeral n"
  using dec_exact [of "numeral n" 0] by simp

lemma dec_1 [simp]: "dec 1 = 1"
  using dec_exact [of 1 0] by simp

lemma dec_frac_int:
  assumes "(a * 10 ^ 20) mod b = 0" "(a * 10 ^ 20) div b \<le> 10 ^ 28" "0 \<le> a" "0 < b"
  shows "dec (of_int a / of_int b) = of_int a / of_int b"
proof (rule dec_lit)
  define m where "m = (a * 10 ^ 20) div b"
  have "m * b = a * 10 ^ 20"
    using assms(1) unfolding m_def by (metis div_mult_mod_eq add.right_neutral)
  then have "of_int m * of_int b = of_int a * (10 ^ 20 :: rat)"
    by (metis of_int_mult of_int_numeral of_int_power)
  then show "of_int a / of_int b * 10 ^ 20 = (of_int m :: rat)"
    using assms(4) by (simp add: field_simps)
  have "0 \<le> m" unfolding m_def using assms by (intro div_int_pos_iff [THEN iffD2]) auto
  then show "\<bar>m\<bar> \<le> 10 ^ 28" using assms(2) unfolding m_def by linarith
qed

lemma dec_frac:
  "(numeral a * 10 ^ 20) mod (numeral b :: int) = 0 \<Longrightarrow>
   (numeral a * 10 ^ 20) div (numeral b :: int) \<le> 10 ^ 28 \<Longrightarrow>
   dec (numeral a / numeral b) = numeral a / numeral b"
  using dec_frac_int [of "numeral a" "numeral b"] by simp

lemma dec_frac1:
  "(10 ^ 20) mod (numeral b :: int) = 0 \<Longrightarrow> (10 ^ 20) div (numeral b :: int) \<le> 10 ^ 28 \<Longrightarrow>
   dec (1 / numeral b) = 1 / numeral b"
  using dec_frac_int [of 1 "numeral b"] by simp

lemma dec_short_int:
  assumes "(10 ^ 8) mod b = 0" "\<bar>a\<bar> \<le> 10 ^ 20" "(0 :: int) < b"
  shows "dec (of_int a / of_int b) = of_int a / of_int b"
proof -
  obtain c where c: "10 ^ 8 = b * c" using assms(1) unfolding mod_eq_0_iff_dvd by (elim dvdE)
  have c1: "0 \<le> c" using c assms(3) zero_less_mult_iff [of b c] by simp
  have "c \<le> b * c" using c1 assms(3) by (simp add: mult_le_cancel_right1)
  then have c2: "\<bar>c\<bar> \<le> 10 ^ 8" using c c1 by simp
  have "of_int b * of_int c = (10 ^ 8 :: rat)" using c by (metis of_int_mult of_int_numeral of_int_power)
  then have e: "of_int a / of_int b = of_int (a * c) * pw 10 (- 8)"
    using assms(3) by (simp add: pw_def field_simps)
  have "\<bar>a * c\<bar> \<le> 10 ^ 20 * 10 ^ 8" unfolding abs_mult using assms(2) c2 by (intro mult_mono) auto
  then show ?thesis unfolding e by (intro dec_exact) simp
qed

lemma dec_short:
  "(10 ^ 8) mod (numeral b :: int) = 0 \<Longrightarrow> numeral a \<le> (10 ^ 20 :: int) \<Longrightarrow>
   dec (numeral a / numeral b) = numeral a / numeral b"
  "(10 ^ 8) mod (numeral b :: int) = 0 \<Longrightarrow> dec (1 / numeral b) = 1 / numeral b"
  using dec_short_int [of "numeral b" "numeral a"] dec_short_int [of "numeral b" 1] by simp_all

lemmas dec_eval = dec_numeral dec_short dec_minus dec_ops

text \<open>The same for floats: small dyadic values.\<close>

lemma f64_dyadic:
  "(2 ^ 20) mod (numeral b :: int) = 0 \<Longrightarrow> numeral a \<le> (2 ^ 30 :: int) \<Longrightarrow>
   f64 (numeral a / numeral b) = numeral a / numeral b"
  "(2 ^ 20) mod (numeral b :: int) = 0 \<Longrightarrow> f64 (1 / numeral b) = 1 / numeral b"
proof -
  have D: "f64 (of_int a / of_int b) = of_int a / of_int b"
    if "(2 ^ 20) mod b = 0" "\<bar>a\<bar> \<le> 2 ^ 30" "(0 :: int) < b" for a b
  proof -
    note m = that(1)
    obtain c where c: "2 ^ 20 = b * c" using m unfolding mod_eq_0_iff_dvd by (elim dvdE)
    have c1: "0 \<le> c" using c that(3) zero_less_mult_iff [of b c] by simp
    have "c \<le> b * c" using c1 that(3) by (simp add: mult_le_cancel_right1)
    then have c2: "\<bar>c\<bar> \<le> 2 ^ 20" using c c1 by simp
    have "of_int b * of_int c = (2 ^ 20 :: rat)" using c by (metis of_int_mult of_int_numeral of_int_power)
    then have e: "of_int a / of_int b = of_int (a * c) * pw 2 (- 20)"
      using that(3) by (simp add: pw_def field_simps)
    have "\<bar>a * c\<bar> \<le> 2 ^ 30 * 2 ^ 20" unfolding abs_mult using that(2) c2 by (intro mult_mono) auto
    then show ?thesis unfolding e by (intro f64_exact) simp
  qed
  show "(2 ^ 20) mod (numeral b :: int) = 0 \<Longrightarrow> numeral a \<le> (2 ^ 30 :: int) \<Longrightarrow>
   f64 (numeral a / numeral b) = numeral a / numeral b"
    "(2 ^ 20) mod (numeral b :: int) = 0 \<Longrightarrow> f64 (1 / numeral b) = 1 / numeral b"
    using D [of "numeral b" "numeral a"] D [of "numeral b" 1] by simp_all
qed

lemmas f64_eval = f64_numeral f64_dyadic f64_minus f64_ops

lemma repr10_0 [simp]: "repr10 0 = 0"
  by (simp add: repr10_def)

text \<open>The float literals of the program whose decimal text the code uses.\<close>

lemma repr10_literals:
  "repr10 (f64 0.2) = 0.2" "repr10 (f64 1.1) = 1.1" "repr10 (f64 0.1) = 0.1"
  "repr10 (f64 0.15) = 0.15" "repr10 (f64 0.02) = 0.02" "repr10 (f64 0.03) = 0.03"
  "repr10 (f64 0.05) = 0.05" "repr10 (f64 0.01) = 0.01" "repr10 (f64 0.001) = 0.001"
  "repr10 2 = 2" "repr10 5 = 5" "repr10 (f64 0.0005) = 0.0005" "repr10 3 = 3"
proof -
  have "repr10 (f64 0.2) = 0.2 \<and> repr10 (f64 1.1) = 1.1 \<and> repr10 (f64 0.1) = 0.1 \<and>
    repr10 (f64 0.15) = 0.15 \<and> repr10 (f64 0.02) = 0.02 \<and> repr10 (f64 0.03) = 0.03 \<and>
    repr10 (f64 0.05) = 0.05 \<and> repr10 (f64 0.01) = 0.01 \<and> repr10 (f64 0.001) = 0.001 \<and>
    repr10 2 = 2 \<and> repr10 5 = 5 \<and> repr10 (f64 0.0005) = 0.0005 \<and> repr10 3 = 3"
    by code_simp
  then show "repr10 (f64 0.2) = 0.2" "repr10 (f64 1.1) = 1.1" "repr10 (f64 0.1) = 0.1"
    "repr10 (f64 0.15) = 0.15" "repr10 (f64 0.02) = 0.02" "repr10 (f64 0.03) = 0.03"
    "repr10 (f64 0.05) = 0.05" "repr10 (f64 0.01) = 0.01" "repr10 (f64 0.001) = 0.001"
    "repr10 2 = 2" "repr10 5 = 5" "repr10 (f64 0.0005) = 0.0005" "repr10 3 = 3"
    by blast+
qed

lemma repr10_fractions [pyconst]:
  "repr10 (f64 (1 / 5)) = 1 / 5" "repr10 (f64 (11 / 10)) = 11 / 10"
  "repr10 (f64 (1 / 10)) = 1 / 10" "repr10 (f64 (3 / 20)) = 3 / 20"
  "repr10 (f64 (1 / 50)) = 1 / 50" "repr10 (f64 (3 / 100)) = 3 / 100"
  "repr10 (f64 (1 / 20)) = 1 / 20" "repr10 (f64 (1 / 100)) = 1 / 100"
  "repr10 (f64 (1 / 1000)) = 1 / 1000" "repr10 (f64 (1 / 2000)) = 1 / 2000"
  "repr10 2 = 2" "repr10 3 = 3" "repr10 5 = 5"
  using repr10_literals by simp_all

end
