(* ===== verification/Store.thy ===== *)
theory Store
  imports PyNum
begin

text \<open>
  The key-value store the risk agent and the safety layer share. Redis is a server outside the
  repository: its operations are a parameter of the model (a record of functions on an
  arbitrary state type), and what the code relies on is the predicate \<open>redis_laws\<close>, the documented
  behaviour of SET with EX, GET, EXISTS and DEL of a server that may also fail on any call.
  Keys are the key templates of the source applied to a user id. Values are the texts the code
  stores: a JSON object, or a bare ISO timestamp; \<open>isoformat\<close> and \<open>fromisoformat\<close> are inverse on
  instants, so an ISO text is the instant it denotes.
\<close>

section \<open>Keys and values\<close>

datatype redis_key =
    GlobalKill
  | UserKill string
  | UserHalt string
  | UserCooldown string
  | DailyKs string
  | WeeklyKs string
  | DisconnectKey
  | EmergencyKey
  | DrawdownKey string

datatype jval = JNull | JBool bool | JNum rat | JStr string | JIso int

type_synonym jobj = "(string \<times> jval) list"

datatype rvalue = JObj jobj | RawIso int

text \<open>\<open>json.loads\<close> of a stored text: a bare timestamp is not JSON.\<close>

definition json_loads :: "rvalue \<Rightarrow> jobj result" where
  "json_loads v = (case v of JObj d \<Rightarrow> Inr d | RawIso t \<Rightarrow> Inl ValueError)"

text \<open>\<open>data.get(key, default)\<close>, and Python's truth value of a JSON value.\<close>

definition jget :: "jobj \<Rightarrow> string \<Rightarrow> jval \<Rightarrow> jval" where
  "jget d k dv = (case map_of d k of None \<Rightarrow> dv | Some v \<Rightarrow> v)"

definition truthy :: "jval \<Rightarrow> bool" where
  "truthy v = (case v of JNull \<Rightarrow> False | JBool b \<Rightarrow> b | JNum x \<Rightarrow> x \<noteq> 0 | JStr s \<Rightarrow> s \<noteq> [] | JIso t \<Rightarrow> True)"

definition jopt_iso :: "int option \<Rightarrow> jval" where
  "jopt_iso t = (case t of None \<Rightarrow> JNull | Some t \<Rightarrow> JIso t)"

text \<open>\<open>datetime.fromisoformat(v) if v else None\<close>; a text that is not a timestamp raises.\<close>

definition iso_or_none :: "jval \<Rightarrow> int option result" where
  "iso_or_none v = (if \<not> truthy v then Inr None
     else case v of JIso t \<Rightarrow> Inr (Some t) | JStr s \<Rightarrow> Inl ValueError | _ \<Rightarrow> Inl TypeError)"

lemma iso_roundtrip [simp]: "iso_or_none (jopt_iso t) = Inr t"
  by (cases t) (simp_all add: iso_or_none_def jopt_iso_def truthy_def)

section \<open>The server\<close>

text \<open>
  \<open>r_set now k v ex\<close> is \<open>SET k v [EX ex]\<close> at the instant \<open>now\<close>; the time to live is in seconds.
\<close>

record 's redis =
  r_set :: "int \<Rightarrow> redis_key \<Rightarrow> rvalue \<Rightarrow> int option \<Rightarrow> ('s, unit) act"
  r_get :: "int \<Rightarrow> redis_key \<Rightarrow> 's \<Rightarrow> rvalue option result"
  r_exists :: "int \<Rightarrow> redis_key \<Rightarrow> 's \<Rightarrow> bool result"
  r_delete :: "redis_key list \<Rightarrow> ('s, unit) act"

definition second_us :: int where "second_us = 1000000"

text \<open>Whether a key written at \<open>now\<close> with this time to live is still there at \<open>later\<close>.\<close>

definition alive :: "int \<Rightarrow> int option \<Rightarrow> int \<Rightarrow> bool" where
  "alive now ex later = (case ex of None \<Rightarrow> True | Some n \<Rightarrow> later < now + n * second_us)"

type_synonym redis_content = "redis_key \<rightharpoonup> rvalue \<times> int option"

definition content_get :: "int \<Rightarrow> redis_key \<Rightarrow> redis_content \<Rightarrow> rvalue option" where
  "content_get now k m = (case m k of None \<Rightarrow> None
     | Some (v, None) \<Rightarrow> Some v
     | Some (v, Some t) \<Rightarrow> if now < t then Some v else None)"

definition content_set ::
    "int \<Rightarrow> redis_key \<Rightarrow> rvalue \<Rightarrow> int option \<Rightarrow> redis_content \<Rightarrow> redis_content" where
  "content_set now k v ex m = m(k \<mapsto> (v, map_option (\<lambda>n. now + n * second_us) ex))"

definition content_delete :: "redis_key list \<Rightarrow> redis_content \<Rightarrow> redis_content" where
  "content_delete ks m = (\<lambda>k. if k \<in> set ks then None else m k)"

text \<open>
  The server behaves as a content \<open>A s\<close> of keys with values and expiry instants. Every call may
  fail: a failed read says nothing, a failed write may or may not have happened.
\<close>

definition redis_model :: "'s redis \<Rightarrow> ('s \<Rightarrow> redis_content) \<Rightarrow> bool" where
  "redis_model R A \<longleftrightarrow>
     (\<forall>now k s x. r_get R now k s = Inr x \<longrightarrow> x = content_get now k (A s)) \<and>
     (\<forall>now k s b. r_exists R now k s = Inr b \<longrightarrow> b = (content_get now k (A s) \<noteq> None)) \<and>
     (\<forall>now k v ex s s' r. r_set R now k v ex s = (s', r) \<longrightarrow>
        A s' = content_set now k v ex (A s) \<or> (\<exists>e. r = Inl e) \<and> A s' = A s) \<and>
     (\<forall>ks s s' r. r_delete R ks s = (s', r) \<longrightarrow>
        A s' = content_delete ks (A s) \<or> (\<exists>e. r = Inl e) \<and> A s' = A s)"

definition redis_laws :: "'s redis \<Rightarrow> bool" where
  "redis_laws R \<longleftrightarrow> (\<exists>A. redis_model R A)"

text \<open>
  A server that never fails and is its content: the instance the witnesses run on.
\<close>

definition map_redis :: "redis_content redis" where
  "map_redis =
     \<lparr>r_set = (\<lambda>now k v ex m. (content_set now k v ex m, Inr ())),
      r_get = (\<lambda>now k m. Inr (content_get now k m)),
      r_exists = (\<lambda>now k m. Inr (content_get now k m \<noteq> None)),
      r_delete = (\<lambda>ks m. (content_delete ks m, Inr ()))\<rparr>"

lemma map_redis_model: "redis_model map_redis (\<lambda>m. m)"
  by (simp add: redis_model_def map_redis_def)

lemma map_redis_laws: "redis_laws map_redis"
  using map_redis_model unfolding redis_laws_def by blast

section \<open>Consequences\<close>

lemma content_get_set:
  "content_get later k (content_set now k v ex m) = (if alive now ex later then Some v else None)"
  by (cases ex) (simp_all add: content_get_def content_set_def alive_def)

lemma content_get_set_other [simp]:
  "j \<noteq> k \<Longrightarrow> content_get later j (content_set now k v ex m) = content_get later j m"
  by (simp add: content_get_def content_set_def)

lemma content_get_delete [simp]:
  "content_get later k (content_delete ks m) = (if k \<in> set ks then None else content_get later k m)"
  by (simp add: content_get_def content_delete_def)

lemma redis_get_content: "redis_model R A \<Longrightarrow> r_get R now k s = Inr x \<Longrightarrow> x = content_get now k (A s)"
  by (simp add: redis_model_def)

lemma redis_set_content:
  "redis_model R A \<Longrightarrow> r_set R now k v ex s = (s', r) \<Longrightarrow>
   A s' = content_set now k v ex (A s) \<or> (\<exists>e. r = Inl e) \<and> A s' = A s"
  by (simp add: redis_model_def)

lemma redis_delete_content:
  "redis_model R A \<Longrightarrow> r_delete R ks s = (s', r) \<Longrightarrow>
   A s' = content_delete ks (A s) \<or> (\<exists>e. r = Inl e) \<and> A s' = A s"
  by (simp add: redis_model_def)

text \<open>A key no call names keeps its content, whether the call succeeds or fails.\<close>

lemma redis_set_other:
  "redis_model R A \<Longrightarrow> r_set R now k v ex s = (s', r) \<Longrightarrow> j \<noteq> k \<Longrightarrow>
   content_get later j (A s') = content_get later j (A s)"
  using redis_set_content by fastforce

lemma redis_delete_other:
  "redis_model R A \<Longrightarrow> r_delete R ks s = (s', r) \<Longrightarrow> j \<notin> set ks \<Longrightarrow>
   content_get later j (A s') = content_get later j (A s)"
  using redis_delete_content by fastforce

lemma redis_get_set:
  assumes "redis_laws R" "r_set R now k v ex s = (s', Inr ())" "r_get R later k s' = Inr x"
  shows "x = (if alive now ex later then Some v else None)"
proof -
  obtain A where A: "redis_model R A" using assms(1) by (auto simp: redis_laws_def)
  show ?thesis using redis_get_content [OF A assms(3)] redis_set_content [OF A assms(2)]
    by (auto simp: content_get_set)
qed

lemma redis_get_delete:
  assumes "redis_laws R" "r_delete R ks s = (s', Inr ())" "j \<in> set ks" "r_get R later j s' = Inr x"
  shows "x = None"
proof -
  obtain A where A: "redis_model R A" using assms(1) by (auto simp: redis_laws_def)
  show ?thesis using redis_get_content [OF A assms(4)] redis_delete_content [OF A assms(2)] assms(3)
    by auto
qed

lemma redis_exists:
  assumes "redis_laws R" "r_exists R now k s = Inr b" "r_get R now k s = Inr x"
  shows "b = (x \<noteq> None)"
proof -
  obtain A where A: "redis_model R A" using assms(1) by (auto simp: redis_laws_def)
  from A assms(2) have "b = (content_get now k (A s) \<noteq> None)" unfolding redis_model_def by blast
  then show ?thesis using redis_get_content [OF A assms(3)] by simp
qed

end
