(* ===== verification/RiskModels.thy ===== *)
theory RiskModels
  imports Store
begin

text \<open>
  \<open>agents/risk/constants.py\<close> and \<open>agents/risk/models.py\<close>: the limits of the risk agent and the
  data the checks exchange. Prices, quantities and amounts are Decimals, ratios and confidences
  are floats (both \<open>rat\<close>, see PyNum); an instant is the number of microseconds since the Unix
  epoch, UTC. The text of a log or rejection message is not modelled: a \<open>reason\<close> names the
  message and carries the values the message interpolates; a \<open>code\<close> is the program's string.
\<close>

section \<open>Constants\<close>

definition SYSTEM_MAX_LEVERAGE :: int where "SYSTEM_MAX_LEVERAGE = 20"
definition ABSOLUTE_MIN_LEVERAGE :: int where "ABSOLUTE_MIN_LEVERAGE = 1"

definition PLAN_MAX_LEVERAGE :: "string \<rightharpoonup> int" where
  "PLAN_MAX_LEVERAGE = [''free'' \<mapsto> 5, ''pro'' \<mapsto> 10, ''elite'' \<mapsto> 20]"

definition PLAN_MAX_POSITIONS :: "string \<rightharpoonup> int" where
  "PLAN_MAX_POSITIONS = [''free'' \<mapsto> 1, ''pro'' \<mapsto> 5, ''elite'' \<mapsto> 20]"

definition RISK_PER_TRADE_MIN :: rat where "RISK_PER_TRADE_MIN = f64 0.005"
definition RISK_PER_TRADE_MAX :: rat where "RISK_PER_TRADE_MAX = f64 0.05"

definition MAX_PORTFOLIO_RISK :: rat where "MAX_PORTFOLIO_RISK = f64 0.1"
definition MAX_PORTFOLIO_RISK_AGGRESSIVE :: rat where "MAX_PORTFOLIO_RISK_AGGRESSIVE = f64 0.15"
definition MAX_SINGLE_POSITION_MARGIN_RATIO :: rat where
  "MAX_SINGLE_POSITION_MARGIN_RATIO = f64 0.2"
definition MARGIN_BUFFER_RATIO :: rat where "MARGIN_BUFFER_RATIO = f64 1.1"

definition DAILY_LOSS_WARNING_PCT :: rat where "DAILY_LOSS_WARNING_PCT = f64 0.5"
definition DAILY_LOSS_CAUTION_PCT :: rat where "DAILY_LOSS_CAUTION_PCT = f64 0.8"
definition DAILY_LOSS_HALT_PCT :: rat where "DAILY_LOSS_HALT_PCT = 1"

definition WEEKLY_LOSS_SEMI_AUTO_PCT :: rat where "WEEKLY_LOSS_SEMI_AUTO_PCT = f64 0.9"
definition WEEKLY_LOSS_HALT_PCT :: rat where "WEEKLY_LOSS_HALT_PCT = 1"

definition CONSECUTIVE_LOSS_COOLDOWN :: int where "CONSECUTIVE_LOSS_COOLDOWN = 3"
definition CONSECUTIVE_LOSS_HALT :: int where "CONSECUTIVE_LOSS_HALT = 5"
definition COOLDOWN_MINUTES :: int where "COOLDOWN_MINUTES = 30"

definition MIN_RR_RATIO :: rat where "MIN_RR_RATIO = 2"
definition MIN_CONFIDENCE :: rat where "MIN_CONFIDENCE = f64 0.6"

text \<open>\<open>BINANCE_LOT_SIZES.get(symbol, BINANCE_LOT_SIZES["DEFAULT"])\<close>, and the same for the notional.\<close>

definition BINANCE_LOT_SIZES :: "string \<rightharpoonup> rat" where
  "BINANCE_LOT_SIZES = [''BTCUSDT'' \<mapsto> f64 0.001, ''ETHUSDT'' \<mapsto> f64 0.01, ''DEFAULT'' \<mapsto> f64 0.001]"

definition BINANCE_MIN_NOTIONAL :: "string \<rightharpoonup> rat" where
  "BINANCE_MIN_NOTIONAL = [''BTCUSDT'' \<mapsto> 5, ''ETHUSDT'' \<mapsto> 5, ''DEFAULT'' \<mapsto> 5]"

definition MAX_DCA_COUNT :: int where "MAX_DCA_COUNT = 2"

definition get_or :: "('k \<rightharpoonup> 'v) \<Rightarrow> 'k \<Rightarrow> 'v \<Rightarrow> 'v" where
  "get_or m k d = (case m k of None \<Rightarrow> d | Some v \<Rightarrow> v)"

text \<open>The step table of \<open>get_ai_recommended_leverage\<close>, scanned from the top.\<close>

definition CONFIDENCE_LEVERAGE_MAP :: "(rat \<times> int) list" where
  "CONFIDENCE_LEVERAGE_MAP =
     [(f64 0.95, 15), (f64 0.9, 10), (f64 0.8, 7), (f64 0.7, 5), (f64 0.6, 3)]"

definition get_ai_recommended_leverage :: "rat \<Rightarrow> int result" where
  "get_ai_recommended_leverage confidence =
     (if confidence < MIN_CONFIDENCE then Inl ValueError
      else case find (\<lambda>(threshold, leverage). threshold \<le> confidence) CONFIDENCE_LEVERAGE_MAP of
             Some (threshold, leverage) \<Rightarrow> Inr leverage
           | None \<Rightarrow> Inr 3)"

section \<open>Messages\<close>

datatype reason =
    OK
  | Hold
  | TradingInactive
  | StopLossMissing | StopLossNonPositive
  | TakeProfitMissing | StopLossWrongSide | TakeProfitWrongSide | RRTooLow rat
  | LowConfidence rat
  | TimeRestriction string string string
  | DailyLimitReached rat rat | DailyLimitProjected rat rat rat
  | WeeklyLimitReached rat rat
  | CooldownUntil int | ConsecutiveLosses int | ConsecutiveCooldown int int
  | PositionLimit int int string
  | DcaEligible | DcaLimit | ReversePosition
  | PortfolioRiskExceeded rat rat
  | SizeBelowLot rat | SizeBelowNotional rat | MarginAboveLimit rat rat | BalanceTooSmall rat rat
  | GlobalKillSwitch | UserKillSwitch | TradingHalted jval jval
  | HaltedBy reason | ManualHalt string
  | CandidateRejected string
  | SystemError pyexn

datatype warn =
    DailyLossWarn string
  | DcaWarn string | ReverseWarn string
  | LeverageCapped int int

section \<open>Data\<close>

datatype direction = LONG | SHORT | HOLD

record raw_signal =
  sg_direction :: direction
  sg_coin :: string
  sg_symbol :: string
  sg_confidence :: rat
  sg_entry_price :: rat
  sg_take_profit :: "rat option"
  sg_stop_loss :: "rat option"
  sg_leverage :: int

record user_context =
  uc_user_id :: string
  uc_plan :: string
  uc_risk_profile :: string
  uc_risk_per_trade :: rat
  uc_max_leverage :: int
  uc_max_concurrent_positions :: int
  uc_daily_loss_limit_pct :: rat
  uc_is_trading_active :: bool
  uc_allowed_hours_start :: "string option"
  uc_allowed_hours_end :: "string option"

record account_state =
  ac_available_balance :: rat
  ac_total_balance :: rat
  ac_initial_balance :: rat
  ac_open_positions_count :: int
  ac_open_positions_risk_usdt :: rat

record position_sizing_result =
  ps_quantity :: rat
  ps_margin_used :: rat
  ps_position_value :: rat
  ps_max_loss :: rat
  ps_max_profit :: rat
  ps_final_leverage :: int

datatype pre_action = CloseExisting | Dca

record validation_result =
  vr_approved :: bool
  vr_rejection_reason :: "reason option"
  vr_rejection_code :: "string option"
  vr_quantity :: "rat option"
  vr_final_leverage :: "int option"
  vr_margin_required_usdt :: "rat option"
  vr_max_loss_usdt :: "rat option"
  vr_max_profit_usdt :: "rat option"
  vr_rr_ratio :: "rat option"
  vr_pre_action :: "pre_action option"
  vr_existing_position_id :: "string option"
  vr_warnings :: "warn list"
  vr_failed_checks :: "string list"
  vr_risk_per_trade_pct :: rat
  vr_expected_net_profit :: "rat option"
  vr_expected_net_loss :: "rat option"

text \<open>The dataclass defaults, and the three class methods that build a refusal.\<close>

definition vr_default :: "bool \<Rightarrow> validation_result" where
  "vr_default approved =
     \<lparr>vr_approved = approved, vr_rejection_reason = None, vr_rejection_code = None,
      vr_quantity = None, vr_final_leverage = None, vr_margin_required_usdt = None,
      vr_max_loss_usdt = None, vr_max_profit_usdt = None, vr_rr_ratio = None,
      vr_pre_action = None, vr_existing_position_id = None, vr_warnings = [],
      vr_failed_checks = [], vr_risk_per_trade_pct = 0, vr_expected_net_profit = None,
      vr_expected_net_loss = None\<rparr>"

definition vr_reject :: "string \<Rightarrow> reason \<Rightarrow> validation_result" where
  "vr_reject code reason =
     (vr_default False)\<lparr>vr_rejection_code := Some code, vr_rejection_reason := Some reason,
                        vr_failed_checks := [code]\<rparr>"

definition vr_hold_signal :: validation_result where
  "vr_hold_signal =
     (vr_default False)\<lparr>vr_rejection_code := Some ''HOLD'', vr_rejection_reason := Some Hold\<rparr>"

definition vr_system_error :: "pyexn \<Rightarrow> validation_result" where
  "vr_system_error e =
     (vr_default False)\<lparr>vr_rejection_code := Some ''SYSTEM_ERROR'',
                        vr_rejection_reason := Some (SystemError e)\<rparr>"

record open_position =
  op_id :: string
  op_coin :: string
  op_symbol :: string
  op_direction :: direction
  op_entry_price :: rat
  op_quantity :: rat
  op_stop_loss :: rat
  op_leverage :: int
  op_dca_count :: int
  op_original_risk_usdt :: rat

definition op_notional_value :: "open_position \<Rightarrow> rat" where
  "op_notional_value p = dmul (op_quantity p) (op_entry_price p)"

definition op_margin_used :: "open_position \<Rightarrow> rat" where
  "op_margin_used p = ddiv (op_notional_value p) (of_int (max (op_leverage p) 1))"

definition op_risk_usdt :: "open_position \<Rightarrow> rat" where
  "op_risk_usdt p =
     (if op_original_risk_usdt p > 0 then op_original_risk_usdt p
      else if op_direction p = LONG
           then max 0 (dmul (dsub (op_entry_price p) (op_stop_loss p)) (op_quantity p))
           else max 0 (dmul (dsub (op_stop_loss p) (op_entry_price p)) (op_quantity p)))"

section \<open>Basic facts\<close>

lemma vr_refusals [simp]:
  "\<not> vr_approved (vr_reject c r)" "\<not> vr_approved vr_hold_signal" "\<not> vr_approved (vr_system_error e)"
  by (simp_all add: vr_reject_def vr_hold_signal_def vr_system_error_def vr_default_def)

lemma vr_reject_code [simp]: "vr_rejection_code (vr_reject c r) = Some c"
  by (simp add: vr_reject_def vr_default_def)

lemma op_risk_nonneg: "0 \<le> op_risk_usdt p"
  by (simp add: op_risk_usdt_def)

lemmas int_consts [pyconst] =
  SYSTEM_MAX_LEVERAGE_def ABSOLUTE_MIN_LEVERAGE_def CONSECUTIVE_LOSS_COOLDOWN_def
  CONSECUTIVE_LOSS_HALT_def COOLDOWN_MINUTES_def MAX_DCA_COUNT_def MIN_RR_RATIO_def
  DAILY_LOSS_HALT_PCT_def WEEKLY_LOSS_HALT_PCT_def

lemma lot_size_cases [pyconst]:
  "repr10 (get_or BINANCE_LOT_SIZES s (get_or BINANCE_LOT_SIZES ''DEFAULT'' 0)) =
     (if s = ''ETHUSDT'' then 0.01 else 0.001)"
  by (simp add: get_or_def BINANCE_LOT_SIZES_def pyconst)

lemma min_notional_cases [pyconst]:
  "repr10 (get_or BINANCE_MIN_NOTIONAL s (get_or BINANCE_MIN_NOTIONAL ''DEFAULT'' 0)) = 5"
  by (simp add: get_or_def BINANCE_MIN_NOTIONAL_def pyconst)

lemma plan_leverage_bounds:
  "1 \<le> get_or PLAN_MAX_LEVERAGE plan 5 \<and> get_or PLAN_MAX_LEVERAGE plan 5 \<le> SYSTEM_MAX_LEVERAGE"
  by (simp add: get_or_def PLAN_MAX_LEVERAGE_def SYSTEM_MAX_LEVERAGE_def)

end
