(* ===== verification/RiskSizing.thy ===== *)
theory RiskSizing
  imports RiskModels
begin

text \<open>
  \<open>agents/risk/sizing.py\<close>: the leverage cap, the lot rounding, the reward-to-risk check, the
  position size and its validation. A raising function has a \<open>result\<close>; a check returns the
  pair or triple the code returns.
\<close>

section \<open>Operations\<close>

definition resolve_final_leverage :: "int \<Rightarrow> int \<Rightarrow> string \<Rightarrow> int" where
  "resolve_final_leverage ai_recommended user_max plan =
     (let plan_max = get_or PLAN_MAX_LEVERAGE plan 5
      in min (min (min ai_recommended user_max) plan_max) SYSTEM_MAX_LEVERAGE)"

text \<open>\<open>Decimal(str(BINANCE_LOT_SIZES.get(symbol, BINANCE_LOT_SIZES["DEFAULT"])))\<close> and the notional.\<close>

definition lot_size :: "string \<Rightarrow> rat" where
  "lot_size symbol =
     repr10 (get_or BINANCE_LOT_SIZES symbol (get_or BINANCE_LOT_SIZES ''DEFAULT'' 0))"

definition min_notional :: "string \<Rightarrow> rat" where
  "min_notional symbol =
     repr10 (get_or BINANCE_MIN_NOTIONAL symbol (get_or BINANCE_MIN_NOTIONAL ''DEFAULT'' 0))"

definition round_to_lot_size :: "rat \<Rightarrow> string \<Rightarrow> rat" where
  "round_to_lot_size quantity symbol =
     (let lot = lot_size symbol in dmul (of_int (rdown (ddiv quantity lot))) lot)"

definition validate_rr_ratio ::
    "rat \<Rightarrow> rat option \<Rightarrow> rat \<Rightarrow> direction \<Rightarrow> bool \<times> rat \<times> reason" where
  "validate_rr_ratio entry take_profit stop_loss direction =
     (case take_profit of
        None \<Rightarrow> (False, 0, TakeProfitMissing)
      | Some tp \<Rightarrow>
          let profit_distance = (if direction = LONG then dsub tp entry else dsub entry tp);
              loss_distance = (if direction = LONG then dsub entry stop_loss
                               else dsub stop_loss entry)
          in if loss_distance \<le> 0 then (False, 0, StopLossWrongSide)
             else if profit_distance \<le> 0 then (False, 0, TakeProfitWrongSide)
             else let rr = ddiv profit_distance loss_distance
                  in if rr < repr10 MIN_RR_RATIO then (False, rr, RRTooLow rr)
                     else (True, rr, OK))"

definition cents :: "rat \<Rightarrow> rat result" where
  "cents x = quantize rhe 2 x"

definition calculate_position_size ::
    "rat \<Rightarrow> rat \<Rightarrow> rat \<Rightarrow> rat \<Rightarrow> int \<Rightarrow> rat option \<Rightarrow> string \<Rightarrow> position_sizing_result result" where
  "calculate_position_size account_balance risk_per_trade entry_price stop_loss_price leverage
       take_profit_price symbol =
     (let sl_distance = dabs (dsub entry_price stop_loss_price)
      in if sl_distance = 0 then Inl ValueError
         else
           let risk_amount = dmul account_balance (repr10 risk_per_trade);
               raw_quantity = ddiv risk_amount sl_distance;
               quantity = round_to_lot_size raw_quantity symbol
           in ebind (ddivE (dmul quantity entry_price) (of_int leverage)) (\<lambda>margin_used.
              let position_value = dmul quantity entry_price;
                  max_loss = dmul quantity sl_distance;
                  max_profit =
                    (case take_profit_price of
                       None \<Rightarrow> 0
                     | Some tp \<Rightarrow>
                         dmul quantity (if stop_loss_price < entry_price then dsub tp entry_price
                                        else dsub entry_price tp))
              in ebind (cents margin_used) (\<lambda>margin_q.
                 ebind (cents position_value) (\<lambda>value_q.
                 ebind (cents max_loss) (\<lambda>loss_q.
                 ebind (cents max_profit) (\<lambda>profit_q.
                 Inr \<lparr>ps_quantity = quantity, ps_margin_used = margin_q,
                      ps_position_value = value_q, ps_max_loss = loss_q,
                      ps_max_profit = profit_q, ps_final_leverage = leverage\<rparr>))))))"

definition validate_position_size ::
    "position_sizing_result \<Rightarrow> rat \<Rightarrow> rat \<Rightarrow> string \<Rightarrow> bool \<times> reason" where
  "validate_position_size r available_balance entry_price symbol =
     (let min_qty = lot_size symbol;
          notional = dmul (ps_quantity r) entry_price;
          max_margin = dmul available_balance (repr10 MAX_SINGLE_POSITION_MARGIN_RATIO);
          required = dmul (ps_margin_used r) (repr10 MARGIN_BUFFER_RATIO)
      in if ps_quantity r < min_qty then (False, SizeBelowLot (ps_quantity r))
         else if notional < min_notional symbol then (False, SizeBelowNotional notional)
         else if max_margin < ps_margin_used r
              then (False, MarginAboveLimit (ps_margin_used r) max_margin)
         else if available_balance < required then (False, BalanceTooSmall required available_balance)
         else (True, OK))"

definition calculate_liquidation_distance :: "direction \<Rightarrow> rat \<Rightarrow> rat \<Rightarrow> rat" where
  "calculate_liquidation_distance direction current_price liquidation_price =
     (if current_price = 0 then 0
      else if direction = LONG then ddiv (dsub current_price liquidation_price) current_price
      else ddiv (dsub liquidation_price current_price) current_price)"

definition recalculate_avg_entry :: "rat \<Rightarrow> rat \<Rightarrow> rat \<Rightarrow> rat \<Rightarrow> rat" where
  "recalculate_avg_entry original_qty original_entry dca_qty dca_entry =
     (let total_qty = dadd original_qty dca_qty
      in if total_qty = 0 then dca_entry
         else ddiv (dadd (dmul original_qty original_entry) (dmul dca_qty dca_entry)) total_qty)"

section \<open>The leverage cap\<close>

lemma resolve_final_leverage_le:
  "resolve_final_leverage ai user plan \<le> ai"
  "resolve_final_leverage ai user plan \<le> user"
  "resolve_final_leverage ai user plan \<le> get_or PLAN_MAX_LEVERAGE plan 5"
  "resolve_final_leverage ai user plan \<le> SYSTEM_MAX_LEVERAGE"
  by (simp_all add: resolve_final_leverage_def Let_def)

section \<open>Lot rounding\<close>

lemma lot_size_eq: "lot_size s = (if s = ''ETHUSDT'' then 1 / 100 else 1 / 1000)"
  by (simp add: lot_size_def pyconst)

lemma min_notional_eq: "min_notional s = 5"
  by (simp add: min_notional_def pyconst)

lemma lot_size_pos [simp]: "0 < lot_size s"
  by (simp add: lot_size_eq)

lemma lot_size_pw: "\<exists>k. lot_size s = pw 10 (- k) \<and> 0 < k"
  by (cases "s = ''ETHUSDT''")
    (auto simp: lot_size_eq pw_def intro: exI [of _ 2] exI [of _ 3])

lemma is_dec_form: "is_dec x \<Longrightarrow> \<exists>m k. x = of_int m * pw 10 k \<and> \<bar>m\<bar> \<le> 10 ^ 28"
proof (cases "x = 0")
  case True
  then show ?thesis by (intro exI [of _ 0]) simp
next
  case False
  assume "is_dec x"
  then have "x = rnd 10 28 x" by (simp add: is_dec_def dec_def)
  with rnd_form [of 10 28 x] False show ?thesis
    by (metis nat_numeral one_less_numeral_iff semiring_norm(76) zero_less_numeral)
qed

lemma quot_lot_form:
  assumes "is_dec q"
  obtains m i j where "q / lot_size s = of_int m * pw 10 i" "\<bar>m\<bar> \<le> 10 ^ 28"
    "lot_size s = pw 10 (- j)" "0 \<le> q \<Longrightarrow> 0 \<le> m"
proof -
  obtain m k where q: "q = of_int m * pw 10 k" "\<bar>m\<bar> \<le> 10 ^ 28" using assms is_dec_form by blast
  obtain j where j: "lot_size s = pw 10 (- j)" using lot_size_pw by blast
  have "pw 10 j * pw 10 (- j) = 1" by (simp flip: pw_add)
  then have "q = q * pw 10 j * lot_size s" unfolding j by (simp add: mult.assoc)
  then have "q / lot_size s = q * pw 10 j"
    by (metis lot_size_pos nonzero_mult_div_cancel_right order_less_irrefl)
  also have "\<dots> = of_int m * pw 10 (k + j)" unfolding q(1) by (simp add: pw_add)
  finally have e: "q / lot_size s = of_int m * pw 10 (k + j)" .
  have "0 \<le> q \<Longrightarrow> 0 \<le> m" unfolding q(1) by (simp add: zero_le_mult_iff)
  then show ?thesis by (rule that [OF e q(2) j])
qed

lemma ddiv_lot: "is_dec q \<Longrightarrow> ddiv q (lot_size s) = q / lot_size s"
proof -
  assume "is_dec q"
  then obtain m i j where "q / lot_size s = of_int m * pw 10 i" "\<bar>m\<bar> \<le> 10 ^ 28"
    by (rule quot_lot_form)
  then show ?thesis using dec_exact [of m i] by (simp only: ddiv_def)
qed

lemma floor_lot_exact:
  assumes "is_dec q" "0 \<le> q"
  shows "dec (of_int \<lfloor>q / lot_size s\<rfloor> * lot_size s) = of_int \<lfloor>q / lot_size s\<rfloor> * lot_size s"
proof -
  obtain m k j where e: "q / lot_size s = of_int m * pw 10 k" and m: "\<bar>m\<bar> \<le> 10 ^ 28"
    and j: "lot_size s = pw 10 (- j)" and m0: "0 \<le> m"
    using quot_lot_form [OF assms(1), of s] assms(2) by metis
  show ?thesis
  proof (cases "0 \<le> k")
    case True
    then have "q / lot_size s = of_int (m * 10 ^ nat (k))" using e by (simp add: pw_nat)
    then have "of_int \<lfloor>q / lot_size s\<rfloor> = q / lot_size s" by (metis floor_of_int)
    then have "of_int \<lfloor>q / lot_size s\<rfloor> * lot_size s = q"
      by (metis lot_size_pos nonzero_eq_divide_eq order_less_irrefl)
    then show ?thesis using assms(1) by (metis is_dec_def)
  next
    case False
    then have "pw 10 (k) \<le> 1" using pw_mono [of 10 "k" 0] by simp
    then have "of_int m * pw 10 (k) \<le> of_int m * 1" using m0 by (intro mult_left_mono) auto
    then have "\<lfloor>q / lot_size s\<rfloor> \<le> m" using e by (simp add: floor_le_iff)
    moreover have "0 \<le> \<lfloor>q / lot_size s\<rfloor>" using assms(2) less_imp_le [OF lot_size_pos, of s] by simp
    ultimately have "\<bar>\<lfloor>q / lot_size s\<rfloor>\<bar> \<le> 10 ^ 28" using m m0 by linarith
    then show ?thesis unfolding j by (rule dec_exact)
  qed
qed

lemma round_to_lot_size_eq:
  assumes "is_dec q" "0 \<le> q"
  shows "round_to_lot_size q s = of_int \<lfloor>q / lot_size s\<rfloor> * lot_size s"
  using assms floor_lot_exact [OF assms, of s] less_imp_le [OF lot_size_pos, of s]
  by (simp add: round_to_lot_size_def Let_def ddiv_lot rdown_def dmul_def)

lemma round_to_lot_size_bounds:
  assumes "is_dec q" "0 \<le> q"
  shows "round_to_lot_size q s \<le> q" "q < round_to_lot_size q s + lot_size s"
    "0 \<le> round_to_lot_size q s"
proof -
  have l: "0 < lot_size s" by simp
  have "of_int \<lfloor>q / lot_size s\<rfloor> \<le> q / lot_size s" "q / lot_size s < of_int \<lfloor>q / lot_size s\<rfloor> + 1"
    by linarith+
  then have "of_int \<lfloor>q / lot_size s\<rfloor> * lot_size s \<le> q"
    "q < (of_int \<lfloor>q / lot_size s\<rfloor> + 1) * lot_size s"
    using l assms(2) by (simp_all only: pos_le_divide_eq pos_divide_less_eq)
  moreover have "0 \<le> \<lfloor>q / lot_size s\<rfloor>" using l assms(2) by (simp add: less_imp_le)
  ultimately show "round_to_lot_size q s \<le> q" "q < round_to_lot_size q s + lot_size s"
    "0 \<le> round_to_lot_size q s"
    using l unfolding round_to_lot_size_eq [OF assms] by (simp_all add: distrib_right)
qed

section \<open>The reward-to-risk check\<close>

text \<open>The stop and the target lie on the two sides of the entry that the direction demands.\<close>

definition exits_ordered :: "direction \<Rightarrow> rat \<Rightarrow> rat \<Rightarrow> rat \<Rightarrow> bool" where
  "exits_ordered d entry tp sl \<longleftrightarrow>
     (if d = LONG then sl < entry \<and> entry < tp else tp < entry \<and> entry < sl)"

lemma validate_rr_ratio_True:
  assumes "validate_rr_ratio entry tpo sl d = (True, rr, r)"
  obtains tp where "tpo = Some tp" "exits_ordered d entry tp sl" "2 \<le> rr" "r = OK"
    "rr = ddiv (if d = LONG then dsub tp entry else dsub entry tp)
               (if d = LONG then dsub entry sl else dsub sl entry)"
  using assms
  by (cases tpo)
    (auto simp: validate_rr_ratio_def Let_def exits_ordered_def dsub_def pyconst not_le not_less
      split: if_splits)

lemma validate_rr_ratio_no_tp: "\<not> fst (validate_rr_ratio entry None sl d)"
  by (simp add: validate_rr_ratio_def)

section \<open>The position size\<close>

lemma ddivE_Inr: "ddivE x y = Inr z \<longleftrightarrow> y \<noteq> 0 \<and> z = ddiv x y"
  by (auto simp: ddivE_def)

lemma calculate_position_size_Inr:
  assumes "calculate_position_size bal risk entry sl lev tp smb = Inr ps"
  shows "dsub entry sl \<noteq> 0" "lev \<noteq> 0" "ps_final_leverage ps = lev"
    "ps_quantity ps =
       round_to_lot_size (ddiv (dmul bal (repr10 risk)) (dabs (dsub entry sl))) smb"
    "cents (ddiv (dmul (ps_quantity ps) entry) (of_int lev)) = Inr (ps_margin_used ps)"
    "cents (dmul (ps_quantity ps) entry) = Inr (ps_position_value ps)"
    "cents (dmul (ps_quantity ps) (dabs (dsub entry sl))) = Inr (ps_max_loss ps)"
  using assms
  by (auto simp: calculate_position_size_def Let_def ebind_Inr_iff ddivE_Inr dabs_def
      split: if_splits)

lemma calculate_position_size_errors:
  "dsub entry sl = 0 \<Longrightarrow> calculate_position_size bal risk entry sl lev tp smb = Inl ValueError"
  "dsub entry sl \<noteq> 0 \<Longrightarrow>
     \<exists>e. calculate_position_size bal risk entry sl 0 tp smb = Inl e"
  by (auto simp: calculate_position_size_def Let_def dabs_def ddivE_def)

text \<open>
  The sized position never risks more than its budget at the stop, up to three roundings to
  28 digits.
\<close>

lemma position_size_within_budget:
  assumes ps: "calculate_position_size bal risk entry sl lev tp smb = Inr ps"
    and risk: "0 \<le> dmul bal (repr10 risk)"
  shows "ps_quantity ps * dabs (dsub entry sl) \<le> dmul bal (repr10 risk) * (1 + 5 / 10 ^ 28)"
    and "0 \<le> ps_quantity ps"
proof -
  define d where "d = dabs (dsub entry sl)"
  define R where "R = dmul bal (repr10 risk)"
  have d: "0 < d" using calculate_position_size_Inr(1) [OF ps] by (simp add: d_def dabs_def)
  have R: "0 \<le> R" using risk by (simp add: R_def)
  have raw: "is_dec (ddiv R d)" "0 \<le> ddiv R d" using R d by (simp_all add: ddiv_def)
  have q: "ps_quantity ps = round_to_lot_size (ddiv R d) smb"
    using calculate_position_size_Inr(4) [OF ps] by (simp add: d_def R_def)
  show "0 \<le> ps_quantity ps" unfolding q by (rule round_to_lot_size_bounds [OF raw])
  have "ps_quantity ps \<le> ddiv R d" unfolding q by (rule round_to_lot_size_bounds [OF raw])
  also have "\<dots> \<le> R / d * (1 + 5 / 10 ^ 28)"
    unfolding ddiv_def using R d by (intro dec_le_err) simp
  finally have "ps_quantity ps * d \<le> R / d * (1 + 5 / 10 ^ 28) * d" using d by (intro mult_right_mono) auto
  also have "\<dots> = R * (1 + 5 / 10 ^ 28)" using d by (simp add: field_simps)
  finally show "ps_quantity ps * dabs (dsub entry sl) \<le> dmul bal (repr10 risk) * (1 + 5 / 10 ^ 28)"
    by (simp add: d_def R_def)
qed

lemma position_size_max_loss:
  assumes ps: "calculate_position_size bal risk entry sl lev tp smb = Inr ps"
    and risk: "0 \<le> dmul bal (repr10 risk)"
  shows "ps_max_loss ps \<le> dmul bal (repr10 risk) * (1 + 11 / 10 ^ 28) + 1 / 200"
proof -
  let ?R = "dmul bal (repr10 risk)" and ?d = "dabs (dsub entry sl)" and ?q = "ps_quantity ps"
  note B = position_size_within_budget [OF ps risk]
  have d: "0 \<le> ?d" by (simp add: dabs_def)
  have "dmul ?q ?d \<le> ?q * ?d * (1 + 5 / 10 ^ 28)"
    unfolding dmul_def using B(2) d by (intro dec_le_err) simp
  also have "\<dots> \<le> ?R * (1 + 5 / 10 ^ 28) * (1 + 5 / 10 ^ 28)" using B(1) by (intro mult_right_mono) auto
  also have "\<dots> \<le> ?R * (1 + 11 / 10 ^ 28)" unfolding mult.assoc using risk by (intro mult_left_mono) auto
  finally have "dmul ?q ?d \<le> ?R * (1 + 11 / 10 ^ 28)" .
  moreover have "\<bar>ps_max_loss ps - dmul ?q ?d\<bar> \<le> 1 / 200"
    using quantize_rhe_err [OF calculate_position_size_Inr(7) [OF ps, unfolded cents_def]]
    by (simp add: pw_def)
  ultimately show ?thesis by linarith
qed

lemma validate_position_size_True:
  assumes "validate_position_size r avail entry smb = (True, reason)"
  shows "lot_size smb \<le> ps_quantity r" "5 \<le> dmul (ps_quantity r) entry"
    "ps_margin_used r \<le> dmul avail 0.2" "dmul (ps_margin_used r) 1.1 \<le> avail" "reason = OK"
  using assms
  by (auto simp: validate_position_size_def Let_def min_notional_eq not_less
      MAX_SINGLE_POSITION_MARGIN_RATIO_def MARGIN_BUFFER_RATIO_def pyconst split: if_splits)

end
