(* ===== verification/RiskValidators.thy ===== *)
theory RiskValidators
  imports RiskSizing
begin

text \<open>
  \<open>agents/risk/validators.py\<close>: the checks of the risk pipeline that are pure functions, and
  the clock they read (\<open>datetime.now(timezone.utc)\<close> is an argument, in microseconds since the
  epoch). The two checks that talk to Redis are in KillSwitch.
\<close>

section \<open>Clock\<close>

definition day_us :: int where "day_us = 86400000000"
definition minute_us :: int where "minute_us = 60000000"

text \<open>\<open>dt.date()\<close> as a day number, and \<open>date.weekday()\<close> (Monday is 0; 1970-01-01 was a Thursday).\<close>

definition date_of :: "int \<Rightarrow> int" where "date_of t = t div day_us"
definition weekday :: "int \<Rightarrow> int" where "weekday d = (d + 3) mod 7"

definition two_digits :: "int \<Rightarrow> string" where
  "two_digits n = [char_of (48 + nat (n div 10)), char_of (48 + nat (n mod 10))]"

text \<open>\<open>strftime("%H:%M")\<close>.\<close>

definition hhmm :: "int \<Rightarrow> string" where
  "hhmm t = (let m = (t mod day_us) div minute_us
             in two_digits (m div 60) @ '':'' @ two_digits (m mod 60))"

lemma weekday_range: "0 \<le> weekday d" "weekday d < 7"
  by (simp_all add: weekday_def)

section \<open>Checks\<close>

definition check_not_hold :: "raw_signal \<Rightarrow> bool \<times> reason" where
  "check_not_hold s = (if sg_direction s = HOLD then (False, Hold) else (True, OK))"

definition check_trading_active :: "user_context \<Rightarrow> bool \<times> reason" where
  "check_trading_active ctx =
     (if \<not> uc_is_trading_active ctx then (False, TradingInactive) else (True, OK))"

definition check_stop_loss_exists :: "raw_signal \<Rightarrow> bool \<times> reason" where
  "check_stop_loss_exists s =
     (case sg_stop_loss s of
        None \<Rightarrow> (False, StopLossMissing)
      | Some sl \<Rightarrow> if sl \<le> 0 then (False, StopLossNonPositive) else (True, OK))"

definition check_rr_ratio :: "raw_signal \<Rightarrow> bool \<times> rat \<times> reason" where
  "check_rr_ratio s =
     (case sg_stop_loss s of
        None \<Rightarrow> (False, 0, StopLossMissing)
      | Some sl \<Rightarrow> validate_rr_ratio (sg_entry_price s) (sg_take_profit s) sl (sg_direction s))"

definition check_confidence :: "raw_signal \<Rightarrow> bool \<times> reason" where
  "check_confidence s =
     (if sg_confidence s < MIN_CONFIDENCE then (False, LowConfidence (sg_confidence s))
      else (True, OK))"

definition check_trading_hours :: "int \<Rightarrow> user_context \<Rightarrow> bool \<times> reason" where
  "check_trading_hours now ctx =
     (case (uc_allowed_hours_start ctx, uc_allowed_hours_end ctx) of
        (Some start, Some finish) \<Rightarrow>
          let now_utc = hhmm now;
              in_range = (if str_le start finish then str_le start now_utc \<and> str_le now_utc finish
                          else str_le start now_utc \<or> str_le now_utc finish)
          in if \<not> in_range then (False, TimeRestriction now_utc start finish) else (True, OK)
      | _ \<Rightarrow> (True, OK))"

definition check_daily_loss_limit ::
    "rat \<Rightarrow> rat \<Rightarrow> rat \<Rightarrow> bool \<times> reason \<times> string option" where
  "check_daily_loss_limit daily_loss daily_limit projected_new_loss =
     (let ratio = (if 0 < daily_limit then f64 (ddiv daily_loss daily_limit) else 0)
      in if DAILY_LOSS_HALT_PCT \<le> ratio
         then (False, DailyLimitReached daily_loss daily_limit, None)
         else
           let projected = dadd daily_loss projected_new_loss
           in if daily_limit < projected
              then (False, DailyLimitProjected daily_loss projected_new_loss daily_limit, None)
              else if DAILY_LOSS_CAUTION_PCT \<le> ratio then (True, OK, Some ''caution'')
              else if DAILY_LOSS_WARNING_PCT \<le> ratio then (True, OK, Some ''warning'')
              else (True, OK, None))"

definition check_weekly_loss_limit :: "rat \<Rightarrow> rat \<Rightarrow> bool \<times> reason" where
  "check_weekly_loss_limit weekly_loss weekly_limit =
     (if weekly_limit \<le> 0 then (True, OK)
      else
        let ratio = f64 (ddiv weekly_loss weekly_limit)
        in if WEEKLY_LOSS_HALT_PCT \<le> ratio
           then (False, WeeklyLimitReached weekly_loss weekly_limit)
           else (True, OK))"

definition check_position_count_limit :: "int \<Rightarrow> user_context \<Rightarrow> bool \<times> reason" where
  "check_position_count_limit open_count ctx =
     (let plan_limit = get_or PLAN_MAX_POSITIONS (uc_plan ctx) 1;
          effective = min (uc_max_concurrent_positions ctx) plan_limit
      in if effective \<le> open_count then (False, PositionLimit effective open_count (uc_plan ctx))
         else (True, OK))"

definition check_same_coin_position ::
    "raw_signal \<Rightarrow> open_position option \<Rightarrow> bool \<times> reason \<times> pre_action option" where
  "check_same_coin_position s existing =
     (case existing of
        None \<Rightarrow> (True, OK, None)
      | Some p \<Rightarrow>
          if op_direction p = sg_direction s
          then if MAX_DCA_COUNT \<le> op_dca_count p then (False, DcaLimit, None)
               else (True, DcaEligible, Some Dca)
          else (True, ReversePosition, Some CloseExisting))"

definition portfolio_limit_ratio :: "string \<Rightarrow> rat" where
  "portfolio_limit_ratio risk_profile =
     (if risk_profile = ''aggressive'' then MAX_PORTFOLIO_RISK_AGGRESSIVE else MAX_PORTFOLIO_RISK)"

definition check_portfolio_risk :: "account_state \<Rightarrow> rat \<Rightarrow> string \<Rightarrow> bool \<times> reason" where
  "check_portfolio_risk account new_trade_risk risk_profile =
     (let max_risk = dmul (ac_total_balance account) (repr10 (portfolio_limit_ratio risk_profile));
          total_risk = dadd (ac_open_positions_risk_usdt account) new_trade_risk
      in if max_risk < total_risk then (False, PortfolioRiskExceeded total_risk max_risk)
         else (True, OK))"

section \<open>What a passed check guarantees\<close>

lemma check_not_hold_iff [guards]: "check_not_hold s = (ok, r) \<longleftrightarrow>
    (ok \<longleftrightarrow> sg_direction s \<noteq> HOLD) \<and> r = (if ok then OK else Hold)"
  by (auto simp: check_not_hold_def)

lemma check_trading_active_iff [guards]: "check_trading_active ctx = (ok, r) \<longleftrightarrow>
    (ok \<longleftrightarrow> uc_is_trading_active ctx) \<and> r = (if ok then OK else TradingInactive)"
  by (auto simp: check_trading_active_def)

lemma check_stop_loss_exists_True [guards]:
  "fst (check_stop_loss_exists s) \<longleftrightarrow> (\<exists>sl. sg_stop_loss s = Some sl \<and> 0 < sl)"
  by (auto simp: check_stop_loss_exists_def split: option.splits)

lemma check_confidence_True [guards]:
  "fst (check_confidence s) \<longleftrightarrow> MIN_CONFIDENCE \<le> sg_confidence s"
  by (simp add: check_confidence_def not_less)

lemma check_stop_loss_existsD:
  "check_stop_loss_exists s = (True, r) \<Longrightarrow> \<exists>sl. sg_stop_loss s = Some sl \<and> 0 < sl"
  using check_stop_loss_exists_True [of s] by simp

lemma check_confidenceD:
  "check_confidence s = (True, r) \<Longrightarrow> MIN_CONFIDENCE \<le> sg_confidence s"
  using check_confidence_True [of s] by simp

lemma check_rr_ratio_True:
  assumes "check_rr_ratio s = (True, rr, r)"
  obtains tp sl where "sg_take_profit s = Some tp" "sg_stop_loss s = Some sl"
    "exits_ordered (sg_direction s) (sg_entry_price s) tp sl" "2 \<le> rr"
    "rr = ddiv (if sg_direction s = LONG then dsub tp (sg_entry_price s)
                else dsub (sg_entry_price s) tp)
               (if sg_direction s = LONG then dsub (sg_entry_price s) sl
                else dsub sl (sg_entry_price s))"
  using assms
  by (auto simp: check_rr_ratio_def split: option.splits elim!: validate_rr_ratio_True)

text \<open>The daily check: passing means neither the booked nor the projected loss exceeds the limit.\<close>

lemma f64_ratio_ge_1: "b \<le> a \<Longrightarrow> 0 < b \<Longrightarrow> 1 \<le> f64 (ddiv a b)"
proof -
  assume *: "b \<le> a" "0 < b"
  then have "1 \<le> a / b" by simp
  then have "dec 1 \<le> ddiv a b" unfolding ddiv_def by (rule dec_mono)
  then have "f64 1 \<le> f64 (ddiv a b)" by (intro f64_mono) simp
  then show ?thesis by simp
qed

lemma f64_ratio_lt_1: "f64 (ddiv a b) < 1 \<Longrightarrow> 0 < b \<Longrightarrow> a < b"
  using f64_ratio_ge_1 [of b a] by linarith

lemma check_daily_loss_limit_True:
  assumes "check_daily_loss_limit loss limit new = (True, r, w)"
  shows "dadd loss new \<le> limit" "0 < limit \<Longrightarrow> loss < limit"
  using assms
  by (auto simp: check_daily_loss_limit_def Let_def pyconst not_le not_less
      intro: f64_ratio_lt_1 split: if_splits)

lemma check_weekly_loss_limit_True:
  "check_weekly_loss_limit loss limit = (True, r) \<Longrightarrow> 0 < limit \<Longrightarrow> loss < limit"
  by (auto simp: check_weekly_loss_limit_def Let_def pyconst not_le
      intro: f64_ratio_lt_1 split: if_splits)

lemma check_position_count_limit_True [guards]:
  "fst (check_position_count_limit n ctx) \<longleftrightarrow>
     n < uc_max_concurrent_positions ctx \<and> n < get_or PLAN_MAX_POSITIONS (uc_plan ctx) 1"
  by (auto simp: check_position_count_limit_def Let_def not_le)

lemma check_same_coin_position_True:
  assumes "check_same_coin_position s ex = (True, r, pre)"
  shows "pre = None \<longleftrightarrow> ex = None"
    and "pre = Some Dca \<longleftrightarrow>
      (\<exists>p. ex = Some p \<and> op_direction p = sg_direction s \<and> op_dca_count p < MAX_DCA_COUNT)"
    and "pre = Some CloseExisting \<longleftrightarrow> (\<exists>p. ex = Some p \<and> op_direction p \<noteq> sg_direction s)"
  using assms
  by (auto simp: check_same_coin_position_def not_le split: option.splits if_splits)

lemma check_portfolio_risk_True:
  "check_portfolio_risk acc new prof = (True, r) \<Longrightarrow>
     dadd (ac_open_positions_risk_usdt acc) new
       \<le> dmul (ac_total_balance acc) (if prof = ''aggressive'' then 0.15 else 0.1)"
  by (auto simp: check_portfolio_risk_def Let_def not_less portfolio_limit_ratio_def
      MAX_PORTFOLIO_RISK_def MAX_PORTFOLIO_RISK_AGGRESSIVE_def pyconst split: if_splits)

text \<open>The window check accepts a window that wraps midnight.\<close>

lemma check_trading_hours_unrestricted:
  "uc_allowed_hours_start ctx = None \<or> uc_allowed_hours_end ctx = None \<Longrightarrow>
   check_trading_hours now ctx = (True, OK)"
  by (auto simp: check_trading_hours_def split: option.splits)

end
