(* ===== verification/PaperState.thy ===== *)
theory PaperState
  imports RiskValidators
begin

text \<open>
  \<open>agents/paper_trading/models.py\<close> and \<open>agents/paper_trading/state.py\<close>: the session settings,
  positions and trade records of paper trading, and the in-memory account with its loss
  counters, halt and cooldown. An operation that reads the clock takes \<open>now\<close>; a fresh UUID
  is an argument of the operation that draws it.
\<close>

section \<open>Data\<close>

definition TAKER_FEE_RATE :: rat where "TAKER_FEE_RATE = 0.0004"
definition MAINTENANCE_MARGIN_RATE :: rat where "MAINTENANCE_MARGIN_RATE = 0.004"

record paper_settings =
  st_user_id :: string
  st_plan :: string
  st_risk_profile :: string
  st_risk_per_trade :: rat
  st_max_leverage :: int
  st_max_concurrent_positions :: int
  st_daily_loss_limit_pct :: rat
  st_weekly_loss_limit_pct :: rat
  st_allowed_hours_start :: "string option"
  st_allowed_hours_end :: "string option"
  st_taker_fee_rate :: rat
  st_is_trading_active :: bool

definition default_settings :: "string \<Rightarrow> paper_settings" where
  "default_settings uid =
     \<lparr>st_user_id = uid, st_plan = ''pro'', st_risk_profile = ''moderate'',
      st_risk_per_trade = f64 0.02, st_max_leverage = 10, st_max_concurrent_positions = 5,
      st_daily_loss_limit_pct = f64 0.03, st_weekly_loss_limit_pct = f64 0.1,
      st_allowed_hours_start = None, st_allowed_hours_end = None,
      st_taker_fee_rate = TAKER_FEE_RATE, st_is_trading_active = True\<rparr>"

datatype pos_status = Open | PartiallyClosed | Closed

record paper_position =
  pp_id :: string
  pp_user_id :: string
  pp_coin :: string
  pp_symbol :: string
  pp_direction :: direction
  pp_entry_price :: rat
  pp_quantity :: rat
  pp_original_quantity :: rat
  pp_leverage :: int
  pp_take_profit :: rat
  pp_stop_loss :: rat
  pp_liquidation_price :: rat
  pp_margin_used :: rat
  pp_original_margin :: rat
  pp_max_loss_usdt :: rat
  pp_max_profit_usdt :: rat
  pp_original_risk_usdt :: rat
  pp_status :: pos_status
  pp_realized_pnl :: rat
  pp_current_price :: rat
  pp_dca_count :: int
  pp_opened_at :: int
  pp_closed_at :: "int option"
  pp_close_reason :: "string option"

definition pp_is_open :: "paper_position \<Rightarrow> bool" where
  "pp_is_open p \<longleftrightarrow> pp_status p = Open \<or> pp_status p = PartiallyClosed"

definition pp_unrealized_pnl :: "paper_position \<Rightarrow> rat" where
  "pp_unrealized_pnl p =
     (if pp_status p = Closed \<or> pp_current_price p = 0 then 0
      else if pp_direction p = LONG
           then dmul (dsub (pp_current_price p) (pp_entry_price p)) (pp_quantity p)
           else dmul (dsub (pp_entry_price p) (pp_current_price p)) (pp_quantity p))"

definition pp_total_pnl :: "paper_position \<Rightarrow> rat" where
  "pp_total_pnl p = dadd (pp_realized_pnl p) (pp_unrealized_pnl p)"

definition pp_pnl_pct :: "paper_position \<Rightarrow> rat" where
  "pp_pnl_pct p = (if pp_original_margin p = 0 then 0
                   else dmul (ddiv (pp_total_pnl p) (pp_original_margin p)) 100)"

record paper_trade_record =
  tr_id :: string
  tr_position_id :: string
  tr_user_id :: string
  tr_coin :: string
  tr_direction :: direction
  tr_entry_price :: rat
  tr_close_price :: rat
  tr_quantity :: rat
  tr_leverage :: int
  tr_gross_pnl :: rat
  tr_fee :: rat
  tr_net_pnl :: rat
  tr_pnl_pct :: rat
  tr_duration_seconds :: int
  tr_close_reason :: string
  tr_is_partial :: bool
  tr_opened_at :: int
  tr_closed_at :: int

record submit_result =
  sr_accepted :: bool
  sr_position :: "paper_position option"
  sr_rejection_reason :: "reason option"
  sr_rejection_code :: "string option"
  sr_pre_action :: "pre_action option"
  sr_warnings :: "warn list"
  sr_closed_trade :: "paper_trade_record option"

record paper_account =
  pa_user_id :: string
  pa_balance :: rat
  pa_initial_balance :: rat
  pa_open_positions :: "(string, paper_position) pydict"
  pa_trade_history :: "paper_trade_record list"
  pa_is_halted :: bool
  pa_halt_reason :: "reason option"
  pa_cooldown_until :: "int option"
  pa_week_start_balance :: rat
  pa_week_start :: int
  pa_day_start :: int

section \<open>Operations of the account\<close>

definition get_week_start :: "int \<Rightarrow> int" where
  "get_week_start d = d - weekday d"

definition new_account :: "int \<Rightarrow> string \<Rightarrow> rat \<Rightarrow> paper_account" where
  "new_account now uid initial_balance =
     \<lparr>pa_user_id = uid, pa_balance = initial_balance, pa_initial_balance = initial_balance,
      pa_open_positions = [], pa_trade_history = [], pa_is_halted = False,
      pa_halt_reason = None, pa_cooldown_until = None,
      pa_week_start_balance = initial_balance, pa_week_start = get_week_start (date_of now),
      pa_day_start = date_of now\<rparr>"

text \<open>Python's \<open>sum\<close> over Decimals, from 0, left to right.\<close>

definition dsum :: "rat list \<Rightarrow> rat" where
  "dsum xs = foldl dadd 0 xs"

definition locked_margin :: "paper_account \<Rightarrow> rat" where
  "locked_margin a = dsum (map pp_margin_used (dict_values (pa_open_positions a)))"

definition available_balance :: "paper_account \<Rightarrow> rat" where
  "available_balance a = max 0 (dsub (pa_balance a) (locked_margin a))"

definition debit_fee :: "rat \<Rightarrow> paper_account \<Rightarrow> paper_account" where
  "debit_fee fee a = a\<lparr>pa_balance := dsub (pa_balance a) fee\<rparr>"

definition credit_pnl :: "rat \<Rightarrow> paper_account \<Rightarrow> paper_account" where
  "credit_pnl net_pnl a = a\<lparr>pa_balance := dadd (pa_balance a) net_pnl\<rparr>"

definition daily_loss_usdt :: "int \<Rightarrow> paper_account \<Rightarrow> rat" where
  "daily_loss_usdt now a =
     dsum (map (\<lambda>t. dabs (tr_net_pnl t))
       (filter (\<lambda>t. tr_net_pnl t < 0 \<and> date_of (tr_closed_at t) = date_of now)
          (pa_trade_history a)))"

definition weekly_loss_usdt :: "int \<Rightarrow> paper_account \<Rightarrow> rat" where
  "weekly_loss_usdt now a =
     dsum (map (\<lambda>t. dabs (tr_net_pnl t))
       (filter (\<lambda>t. tr_net_pnl t < 0 \<and> get_week_start (date_of now) \<le> date_of (tr_closed_at t))
          (pa_trade_history a)))"

definition consecutive_losses :: "paper_account \<Rightarrow> int" where
  "consecutive_losses a =
     int (length (takeWhile (\<lambda>t. tr_net_pnl t < 0) (rev (pa_trade_history a))))"

definition open_positions_risk_usdt :: "paper_account \<Rightarrow> rat" where
  "open_positions_risk_usdt a = dsum (map pp_max_loss_usdt (dict_values (pa_open_positions a)))"

definition open_positions_count :: "paper_account \<Rightarrow> int" where
  "open_positions_count a = int (length (pa_open_positions a))"

definition halt :: "reason \<Rightarrow> paper_account \<Rightarrow> paper_account" where
  "halt r a = a\<lparr>pa_is_halted := True, pa_halt_reason := Some r\<rparr>"

definition resume :: "paper_account \<Rightarrow> paper_account" where
  "resume a = a\<lparr>pa_is_halted := False, pa_halt_reason := None, pa_cooldown_until := None\<rparr>"

definition set_cooldown :: "int \<Rightarrow> int \<Rightarrow> paper_account \<Rightarrow> paper_account" where
  "set_cooldown now minutes a = a\<lparr>pa_cooldown_until := Some (now + minutes * minute_us)\<rparr>"

definition in_cooldown :: "int \<Rightarrow> paper_account \<Rightarrow> bool" where
  "in_cooldown now a = (case pa_cooldown_until a of None \<Rightarrow> False | Some t \<Rightarrow> now < t)"

text \<open>
  \<open>add_position\<close> stores under the position's id. Positions are shared objects: an operation
  that mutates a position of the dictionary is modelled as storing the mutated one.
\<close>

definition add_position :: "paper_position \<Rightarrow> paper_account \<Rightarrow> paper_account" where
  "add_position p a = a\<lparr>pa_open_positions := AList.update (pp_id p) p (pa_open_positions a)\<rparr>"

definition remove_position :: "string \<Rightarrow> paper_account \<Rightarrow> paper_account" where
  "remove_position pid a = a\<lparr>pa_open_positions := AList.delete pid (pa_open_positions a)\<rparr>"

definition get_position :: "string \<Rightarrow> paper_account \<Rightarrow> paper_position option" where
  "get_position pid a = map_of (pa_open_positions a) pid"

definition get_open_by_coin :: "string \<Rightarrow> paper_account \<Rightarrow> paper_position option" where
  "get_open_by_coin coin a = find (\<lambda>p. pp_coin p = coin) (dict_values (pa_open_positions a))"

definition add_trade :: "paper_trade_record \<Rightarrow> paper_account \<Rightarrow> paper_account" where
  "add_trade t a = a\<lparr>pa_trade_history := pa_trade_history a @ [t]\<rparr>"

section \<open>Facts\<close>

lemma foldl_dadd_mono: "0 \<le> z \<Longrightarrow> \<forall>x\<in>set xs. 0 \<le> x \<Longrightarrow> is_dec z \<Longrightarrow> z \<le> foldl dadd z xs"
proof (induction xs arbitrary: z)
  case (Cons x xs)
  have "z \<le> dadd z x" using Cons.prems by (auto simp: dadd_def intro: le_dec_of_le)
  moreover have "dadd z x \<le> foldl dadd (dadd z x) xs"
    using Cons.prems by (intro Cons.IH) (auto simp: dadd_def)
  ultimately show ?case by simp
qed simp

lemma dsum_nonneg: "\<forall>x\<in>set xs. 0 \<le> x \<Longrightarrow> 0 \<le> dsum xs"
  unfolding dsum_def by (rule foldl_dadd_mono) auto

lemma daily_loss_nonneg: "0 \<le> daily_loss_usdt now a"
  unfolding daily_loss_usdt_def by (rule dsum_nonneg) (auto simp: dabs_def)

lemma weekly_loss_nonneg: "0 \<le> weekly_loss_usdt now a"
  unfolding weekly_loss_usdt_def by (rule dsum_nonneg) (auto simp: dabs_def)

lemma consecutive_losses_nonneg: "0 \<le> consecutive_losses a"
  by (simp add: consecutive_losses_def)

lemma consecutive_losses_add [simp]:
  "consecutive_losses (add_trade t a) = (if tr_net_pnl t < 0 then 1 + consecutive_losses a else 0)"
  by (simp add: consecutive_losses_def add_trade_def)

lemma halt_frames [frames]:
  "pa_open_positions (halt r a) = pa_open_positions a" "pa_balance (halt r a) = pa_balance a"
  "pa_trade_history (halt r a) = pa_trade_history a" "consecutive_losses (halt r a) = consecutive_losses a"
  "pa_is_halted (halt r a)" "pa_cooldown_until (halt r a) = pa_cooldown_until a"
  by (simp_all add: halt_def consecutive_losses_def)

lemma resume_frames [frames]:
  "pa_open_positions (resume a) = pa_open_positions a" "pa_balance (resume a) = pa_balance a"
  "pa_trade_history (resume a) = pa_trade_history a" "consecutive_losses (resume a) = consecutive_losses a"
  "\<not> pa_is_halted (resume a)" "pa_cooldown_until (resume a) = None"
  by (simp_all add: resume_def consecutive_losses_def)

lemma set_cooldown_frames [frames]:
  "pa_open_positions (set_cooldown n m a) = pa_open_positions a"
  "pa_balance (set_cooldown n m a) = pa_balance a"
  "pa_trade_history (set_cooldown n m a) = pa_trade_history a"
  "consecutive_losses (set_cooldown n m a) = consecutive_losses a"
  "pa_is_halted (set_cooldown n m a) = pa_is_halted a"
  by (simp_all add: set_cooldown_def consecutive_losses_def)

lemma ledger_frames [frames]:
  "pa_open_positions (debit_fee f a) = pa_open_positions a"
  "pa_trade_history (debit_fee f a) = pa_trade_history a"
  "pa_is_halted (debit_fee f a) = pa_is_halted a"
  "pa_open_positions (credit_pnl f a) = pa_open_positions a"
  "pa_trade_history (credit_pnl f a) = pa_trade_history a"
  "pa_is_halted (credit_pnl f a) = pa_is_halted a"
  "pa_open_positions (add_trade t a) = pa_open_positions a"
  "pa_trade_history (add_trade t a) = pa_trade_history a @ [t]"
  "pa_balance (add_trade t a) = pa_balance a" "pa_is_halted (add_trade t a) = pa_is_halted a"
  by (simp_all add: debit_fee_def credit_pnl_def add_trade_def)

lemma store_frames [frames]:
  "pa_open_positions (add_position p a) = AList.update (pp_id p) p (pa_open_positions a)"
  "pa_trade_history (add_position p a) = pa_trade_history a"
  "pa_balance (add_position p a) = pa_balance a" "pa_is_halted (add_position p a) = pa_is_halted a"
  "pa_open_positions (remove_position i a) = AList.delete i (pa_open_positions a)"
  "pa_trade_history (remove_position i a) = pa_trade_history a"
  "pa_balance (remove_position i a) = pa_balance a" "pa_is_halted (remove_position i a) = pa_is_halted a"
  by (simp_all add: add_position_def remove_position_def)

lemma consecutive_losses_cong:
  "pa_trade_history a = pa_trade_history b \<Longrightarrow> consecutive_losses a = consecutive_losses b"
  by (simp add: consecutive_losses_def)

lemma get_open_by_coin_Some:
  "get_open_by_coin c a = Some p \<Longrightarrow> p \<in> set (dict_values (pa_open_positions a)) \<and> pp_coin p = c"
  by (auto simp: get_open_by_coin_def find_Some_iff)

lemma get_open_by_coin_None:
  "get_open_by_coin c a = None \<longleftrightarrow> c \<notin> pp_coin ` set (dict_values (pa_open_positions a))"
  by (auto simp: get_open_by_coin_def find_None_iff)

end
