(* ===== verification/PaperRisk.thy ===== *)
theory PaperRisk
  imports PaperState
begin

text \<open>
  \<open>agents/paper_trading/risk_engine.py\<close>: the fourteen-check pipeline on the in-memory account.
  The pipeline may halt the account or start a cooldown while it refuses, so it returns the
  account with the verdict. An exception of the sizing step is caught at the end of the
  pipeline and turned into a refusal.
\<close>

definition build_ctx :: "paper_settings \<Rightarrow> user_context" where
  "build_ctx s =
     \<lparr>uc_user_id = ''00000000-0000-0000-0000-000000000000'', uc_plan = st_plan s,
      uc_risk_profile = st_risk_profile s, uc_risk_per_trade = st_risk_per_trade s,
      uc_max_leverage = st_max_leverage s,
      uc_max_concurrent_positions = st_max_concurrent_positions s,
      uc_daily_loss_limit_pct = st_daily_loss_limit_pct s,
      uc_is_trading_active = st_is_trading_active s,
      uc_allowed_hours_start = st_allowed_hours_start s,
      uc_allowed_hours_end = st_allowed_hours_end s\<rparr>"

definition build_account_state :: "paper_account \<Rightarrow> account_state" where
  "build_account_state a =
     \<lparr>ac_available_balance = available_balance a, ac_total_balance = pa_balance a,
      ac_initial_balance = pa_initial_balance a,
      ac_open_positions_count = open_positions_count a,
      ac_open_positions_risk_usdt = open_positions_risk_usdt a\<rparr>"

text \<open>The view of the existing position the same-coin check gets (ids are UUID strings).\<close>

definition as_open_position :: "paper_position \<Rightarrow> open_position" where
  "as_open_position p =
     \<lparr>op_id = pp_id p, op_coin = pp_coin p, op_symbol = pp_symbol p,
      op_direction = pp_direction p, op_entry_price = pp_entry_price p,
      op_quantity = pp_quantity p, op_stop_loss = pp_stop_loss p, op_leverage = pp_leverage p,
      op_dca_count = pp_dca_count p, op_original_risk_usdt = pp_original_risk_usdt p\<rparr>"

text \<open>Checks 10 to 13: position limit, same coin, sizing, portfolio risk.\<close>

definition validate_sizing ::
    "raw_signal \<Rightarrow> paper_settings \<Rightarrow> paper_account \<Rightarrow> rat \<Rightarrow> warn list \<Rightarrow> validation_result result"
  where
  "validate_sizing s st a rr warnings =
     (let acc_state = build_account_state a;
          (ok, reason) = check_position_count_limit (open_positions_count a) (build_ctx st);
          same_coin_pos = get_open_by_coin (sg_coin s) a;
          existing = map_option as_open_position same_coin_pos
      in if \<not> ok \<and> same_coin_pos = None then Inr (vr_reject ''ORDER_002'' reason)
         else
           let (can_proceed, coin_reason, pre_action) = check_same_coin_position s existing
           in if \<not> can_proceed then Inr (vr_reject ''POSITION_CONFLICT'' coin_reason)
              else
                let warnings1 = warnings
                      @ (if pre_action = Some Dca then [DcaWarn (sg_coin s)]
                         else if pre_action = Some CloseExisting then [ReverseWarn (sg_coin s)]
                         else []);
                    final_leverage =
                      resolve_final_leverage (sg_leverage s) (st_max_leverage st) (st_plan st);
                    warnings2 = warnings1
                      @ (if final_leverage \<noteq> sg_leverage s
                         then [LeverageCapped (sg_leverage s) final_leverage] else [])
                in case sg_stop_loss s of
                     None \<Rightarrow> Inl TypeError
                   | Some sl \<Rightarrow>
                ebind (calculate_position_size (ac_available_balance acc_state)
                         (st_risk_per_trade st) (sg_entry_price s) sl final_leverage
                         (sg_take_profit s) (sg_symbol s)) (\<lambda>sizing.
                let (size_ok, size_reason) =
                      validate_position_size sizing (ac_available_balance acc_state)
                        (sg_entry_price s) (sg_symbol s)
                in if \<not> size_ok then Inr (vr_reject ''SIZING'' size_reason)
                   else
                     let (ok, reason) =
                           check_portfolio_risk acc_state (ps_max_loss sizing) (st_risk_profile st)
                     in if \<not> ok then Inr (vr_reject ''PORTFOLIO_RISK'' reason)
                        else Inr ((vr_default True)
                          \<lparr>vr_quantity := Some (ps_quantity sizing),
                           vr_final_leverage := Some final_leverage,
                           vr_margin_required_usdt := Some (ps_margin_used sizing),
                           vr_max_loss_usdt := Some (ps_max_loss sizing),
                           vr_max_profit_usdt := Some (ps_max_profit sizing),
                           vr_rr_ratio := Some rr,
                           vr_pre_action := pre_action,
                           vr_existing_position_id := map_option op_id existing,
                           vr_warnings := warnings2\<rparr>)))"

definition validate ::
    "int \<Rightarrow> raw_signal \<Rightarrow> paper_settings \<Rightarrow> paper_account \<Rightarrow> paper_account \<times> validation_result"
  where
  "validate now s st a =
     (if pa_is_halted a
      then (a, vr_reject ''KILL_SWITCH'' (case pa_halt_reason a of
                 None \<Rightarrow> ManualHalt [] | Some r \<Rightarrow> HaltedBy r))
      else let (ok, reason) = check_not_hold s
      in if \<not> ok then (a, vr_hold_signal)
      else let ctx = build_ctx st; (ok, reason) = check_trading_active ctx
      in if \<not> ok then (a, vr_reject ''TRADING_INACTIVE'' reason)
      else let (ok, reason) = check_stop_loss_exists s
      in if \<not> ok then (a, vr_reject ''ORDER_003'' reason)
      else let (ok, rr, reason) = check_rr_ratio s
      in if \<not> ok then (a, vr_reject ''ORDER_004'' reason)
      else let (ok, reason) = check_confidence s
      in if \<not> ok then (a, vr_reject ''LOW_CONFIDENCE'' reason)
      else let (ok, reason) = check_trading_hours now ctx
      in if \<not> ok then (a, vr_reject ''TIME_RESTRICTION'' reason)
      else
        let daily_loss = daily_loss_usdt now a;
            daily_limit = dmul (pa_balance a) (repr10 (st_daily_loss_limit_pct st));
            projected = dmul (pa_balance a) (repr10 (st_risk_per_trade st));
            (ok, reason, warn_level) = check_daily_loss_limit daily_loss daily_limit projected;
            warnings = (case warn_level of None \<Rightarrow> [] | Some w \<Rightarrow> [DailyLossWarn w])
      in if \<not> ok
         then (halt (DailyLimitReached daily_loss daily_limit) a, vr_reject ''ORDER_001'' reason)
      else
        let weekly_loss = weekly_loss_usdt now a;
            weekly_limit = dmul (pa_balance a) (repr10 (st_weekly_loss_limit_pct st));
            (ok, reason) = check_weekly_loss_limit weekly_loss weekly_limit
      in if \<not> ok
         then (halt (WeeklyLimitReached weekly_loss weekly_limit) a,
               vr_reject ''WEEKLY_LOSS'' reason)
      else if in_cooldown now a
         then (a, vr_reject ''CONSEC_LOSS'' (CooldownUntil (case pa_cooldown_until a of
                    None \<Rightarrow> now | Some t \<Rightarrow> t)))
      else let consecutive = consecutive_losses a
      in if CONSECUTIVE_LOSS_HALT \<le> consecutive
         then (halt (ConsecutiveLosses consecutive) a,
               vr_reject ''CONSEC_LOSS'' (ConsecutiveLosses consecutive))
      else if CONSECUTIVE_LOSS_COOLDOWN \<le> consecutive
         then (set_cooldown now COOLDOWN_MINUTES a,
               vr_reject ''CONSEC_LOSS'' (ConsecutiveCooldown consecutive COOLDOWN_MINUTES))
      else (a, case validate_sizing s st a rr warnings of
                 Inl e \<Rightarrow> vr_system_error e | Inr v \<Rightarrow> v))"

section \<open>What an approval guarantees\<close>

text \<open>
  Everything the caller of the pipeline relies on: the account is untouched, and the signal
  and the sized position satisfy every limit of the rule book.
\<close>

definition approval_ok ::
    "int \<Rightarrow> raw_signal \<Rightarrow> paper_settings \<Rightarrow> paper_account \<Rightarrow> validation_result \<Rightarrow> bool" where
  "approval_ok now s st a v \<longleftrightarrow>
     \<not> pa_is_halted a \<and> \<not> in_cooldown now a \<and> consecutive_losses a < CONSECUTIVE_LOSS_COOLDOWN \<and>
     sg_direction s \<noteq> HOLD \<and> st_is_trading_active st \<and> MIN_CONFIDENCE \<le> sg_confidence s \<and>
     (\<exists>tp sl sizing. sg_take_profit s = Some tp \<and> sg_stop_loss s = Some sl \<and> 0 < sl \<and>
        exits_ordered (sg_direction s) (sg_entry_price s) tp sl \<and>
        calculate_position_size (available_balance a) (st_risk_per_trade st) (sg_entry_price s) sl
          (resolve_final_leverage (sg_leverage s) (st_max_leverage st) (st_plan st))
          (Some tp) (sg_symbol s) = Inr sizing \<and>
        validate_position_size sizing (available_balance a) (sg_entry_price s) (sg_symbol s)
          = (True, OK) \<and>
        vr_quantity v = Some (ps_quantity sizing) \<and>
        vr_final_leverage v = Some (ps_final_leverage sizing) \<and>
        vr_margin_required_usdt v = Some (ps_margin_used sizing) \<and>
        vr_max_loss_usdt v = Some (ps_max_loss sizing) \<and>
        vr_max_profit_usdt v = Some (ps_max_profit sizing) \<and>
        dadd (open_positions_risk_usdt a) (ps_max_loss sizing)
          \<le> dmul (pa_balance a) (if st_risk_profile st = ''aggressive'' then 0.15 else 0.1)) \<and>
     (\<exists>rr. vr_rr_ratio v = Some rr \<and> 2 \<le> rr) \<and>
     dadd (daily_loss_usdt now a) (dmul (pa_balance a) (repr10 (st_risk_per_trade st)))
       \<le> dmul (pa_balance a) (repr10 (st_daily_loss_limit_pct st)) \<and>
     (get_open_by_coin (sg_coin s) a = None \<longrightarrow>
        open_positions_count a < st_max_concurrent_positions st \<and>
        open_positions_count a < get_or PLAN_MAX_POSITIONS (st_plan st) 1) \<and>
     vr_pre_action v = (case get_open_by_coin (sg_coin s) a of
        None \<Rightarrow> None
      | Some p \<Rightarrow> Some (if pp_direction p = sg_direction s then Dca else CloseExisting)) \<and>
     (\<forall>p. get_open_by_coin (sg_coin s) a = Some p \<and> pp_direction p = sg_direction s \<longrightarrow>
        pp_dca_count p < MAX_DCA_COUNT)"

lemma validate_position_size_reason:
  "validate_position_size r av en smb = (ok, x) \<Longrightarrow> ok \<Longrightarrow> x = OK"
  by (auto simp: validate_position_size_def Let_def split: if_splits)

text \<open>The early checks: an approval comes from the sizing stage.\<close>

lemma validate_approved_stage:
  assumes "validate now s st a = (a', v)" "vr_approved v"
  obtains rr w where "a' = a" "validate_sizing s st a rr w = Inr v" "check_rr_ratio s = (True, rr, OK)"
    "\<not> pa_is_halted a" "\<not> in_cooldown now a" "consecutive_losses a < CONSECUTIVE_LOSS_COOLDOWN"
    "sg_direction s \<noteq> HOLD" "st_is_trading_active st" "MIN_CONFIDENCE \<le> sg_confidence s"
    "\<exists>sl. sg_stop_loss s = Some sl \<and> 0 < sl"
    "dadd (daily_loss_usdt now a) (dmul (pa_balance a) (repr10 (st_risk_per_trade st)))
       \<le> dmul (pa_balance a) (repr10 (st_daily_loss_limit_pct st))"
proof -
  obtain ok rr r where RR: "check_rr_ratio s = (ok, rr, r)" by (metis prod_cases3)
  have r: "r = OK" if ok
    using RR that by (auto simp: check_rr_ratio_def split: option.splits elim!: validate_rr_ratio_True)
  show thesis
    using assms r RR
    by (auto simp: validate_def Let_def check_not_hold_iff check_trading_active_iff build_ctx_def
        not_le
        dest!: check_daily_loss_limit_True(1) check_stop_loss_existsD check_confidenceD
        split: prod.splits if_splits sum.splits intro!: that)
qed

lemma validate_sizing_approved:
  assumes "validate_sizing s st a rr w = Inr v" "vr_approved v"
  obtains sl sizing r c pre where "sg_stop_loss s = Some sl"
    "calculate_position_size (available_balance a) (st_risk_per_trade st) (sg_entry_price s) sl
       (resolve_final_leverage (sg_leverage s) (st_max_leverage st) (st_plan st))
       (sg_take_profit s) (sg_symbol s) = Inr sizing"
    "validate_position_size sizing (available_balance a) (sg_entry_price s) (sg_symbol s) = (True, r)"
    "check_portfolio_risk (build_account_state a) (ps_max_loss sizing) (st_risk_profile st) = (True, c)"
    "vr_quantity v = Some (ps_quantity sizing)"
    "vr_final_leverage v = Some (ps_final_leverage sizing)"
    "vr_margin_required_usdt v = Some (ps_margin_used sizing)"
    "vr_max_loss_usdt v = Some (ps_max_loss sizing)"
    "vr_max_profit_usdt v = Some (ps_max_profit sizing)"
    "vr_rr_ratio v = Some rr" "vr_pre_action v = pre"
    "\<exists>r. check_same_coin_position s (map_option as_open_position (get_open_by_coin (sg_coin s) a))
       = (True, r, pre)"
    "get_open_by_coin (sg_coin s) a = None \<longrightarrow>
       fst (check_position_count_limit (open_positions_count a) (build_ctx st))"
proof -
  obtain ok r0 where P: "check_position_count_limit (open_positions_count a) (build_ctx st) = (ok, r0)"
    by (cases rule: prod.exhaust)
  obtain can r1 pre where C:
    "check_same_coin_position s (map_option as_open_position (get_open_by_coin (sg_coin s) a))
       = (can, r1, pre)"
    by (cases rule: prod_cases3)
  obtain sl where S: "sg_stop_loss s = Some sl"
    using assms P C by (cases "sg_stop_loss s") (auto simp: validate_sizing_def Let_def split: if_splits)
  have bal: "ac_available_balance (build_account_state a) = available_balance a"
    by (simp add: build_account_state_def)
  obtain sizing where Z: "calculate_position_size (available_balance a) (st_risk_per_trade st)
       (sg_entry_price s) sl
       (resolve_final_leverage (sg_leverage s) (st_max_leverage st) (st_plan st))
       (sg_take_profit s) (sg_symbol s) = Inr sizing"
    using assms P C S
    by (cases "calculate_position_size (available_balance a) (st_risk_per_trade st)
       (sg_entry_price s) sl
       (resolve_final_leverage (sg_leverage s) (st_max_leverage st) (st_plan st))
       (sg_take_profit s) (sg_symbol s)") (auto simp: validate_sizing_def Let_def bal split: if_splits)
  obtain k r2 where V: "validate_position_size sizing (available_balance a) (sg_entry_price s)
      (sg_symbol s) = (k, r2)"
    by (cases rule: prod.exhaust)
  obtain m r3 where R: "check_portfolio_risk (build_account_state a) (ps_max_loss sizing)
      (st_risk_profile st) = (m, r3)"
    by (cases rule: prod.exhaust)
  note L = calculate_position_size_Inr(3) [OF Z]
  have F: "k" "m" "can" "get_open_by_coin (sg_coin s) a = None \<longrightarrow> ok"
    using assms P C S Z V R
    by (simp_all add: validate_sizing_def Let_def bal split: if_splits) auto
  obtain w' where "v = (vr_default True)
      \<lparr>vr_quantity := Some (ps_quantity sizing),
       vr_final_leverage := Some (resolve_final_leverage (sg_leverage s) (st_max_leverage st) (st_plan st)),
       vr_margin_required_usdt := Some (ps_margin_used sizing),
       vr_max_loss_usdt := Some (ps_max_loss sizing),
       vr_max_profit_usdt := Some (ps_max_profit sizing),
       vr_rr_ratio := Some rr, vr_pre_action := pre,
       vr_existing_position_id := map_option op_id
         (map_option as_open_position (get_open_by_coin (sg_coin s) a)),
       vr_warnings := w'\<rparr>"
    using assms P C S Z V R F
    by (simp add: validate_sizing_def Let_def bal split: if_splits) (metis+)
  with P C S Z V R F L show thesis
    by (intro that [of sl sizing r2 r3 pre]) (simp_all add: vr_default_def)
qed

lemma validate_approval_ok:
  assumes "validate now s st a = (a', v)" "vr_approved v"
  shows "a' = a \<and> approval_ok now s st a v"
  using assms
proof (rule validate_approved_stage)
  fix rr w
  assume A: "a' = a" "validate_sizing s st a rr w = Inr v" "check_rr_ratio s = (True, rr, OK)"
    "\<not> pa_is_halted a" "\<not> in_cooldown now a" "consecutive_losses a < CONSECUTIVE_LOSS_COOLDOWN"
    "sg_direction s \<noteq> HOLD" "st_is_trading_active st" "MIN_CONFIDENCE \<le> sg_confidence s"
    "\<exists>sl. sg_stop_loss s = Some sl \<and> 0 < sl"
    "dadd (daily_loss_usdt now a) (dmul (pa_balance a) (repr10 (st_risk_per_trade st)))
       \<le> dmul (pa_balance a) (repr10 (st_daily_loss_limit_pct st))"
  obtain tp sl where X: "sg_take_profit s = Some tp" "sg_stop_loss s = Some sl" "0 < sl"
    "exits_ordered (sg_direction s) (sg_entry_price s) tp sl" "2 \<le> rr"
    using A(3,10) by (auto elim!: check_rr_ratio_True)
  show ?thesis
  proof (rule validate_sizing_approved [OF A(2) assms(2)], goal_cases)
    case (1 sl' sizing r c pre)
    from 1(3) have "r = OK" by (rule validate_position_size_True)
    with 1 X A show ?case
      by (auto simp: approval_ok_def build_account_state_def build_ctx_def guards
          as_open_position_def check_same_coin_position_def
          dest!: check_portfolio_risk_True split: option.splits if_splits)
  qed
qed

text \<open>A refusal may only halt the account or start a cooldown.\<close>

lemma validate_frames:
  assumes "validate now s st a = (a', v)"
  shows "a' = a \<or> \<not> vr_approved v \<and> ((\<exists>r. a' = halt r a) \<or> a' = set_cooldown now COOLDOWN_MINUTES a)"
  using assms
  by (auto simp: validate_def Let_def split: prod.splits if_splits)

lemma validate_keeps [frames]:
  assumes "validate now s st a = (a', v)"
  shows "pa_open_positions a' = pa_open_positions a" "pa_balance a' = pa_balance a"
    "pa_trade_history a' = pa_trade_history a" "pa_is_halted a \<Longrightarrow> pa_is_halted a'"
  using validate_frames [OF assms] by (auto simp: frames)

lemma validate_halted:
  "pa_is_halted a \<Longrightarrow> fst (validate now s st a) = a \<and> vr_rejection_code (snd (validate now s st a)) = Some ''KILL_SWITCH''
     \<and> \<not> vr_approved (snd (validate now s st a))"
  by (simp add: validate_def)

end
