(* ===== verification/PaperPositions.thy ===== *)
theory PaperPositions
  imports PaperRisk
begin

text \<open>
  \<open>agents/paper_trading/position_manager.py\<close>: opening, pricing, closing, partly closing and
  averaging a position. An operation that changes the account returns the account it leaves
  behind together with its value or the exception it raised: an exception keeps what was
  written before it. A position is a shared object; where the code mutates a position of the
  account's dictionary the model stores the mutated record under its id.
\<close>

section \<open>Calculations\<close>

definition calc_pnl :: "direction \<Rightarrow> rat \<Rightarrow> rat \<Rightarrow> rat \<Rightarrow> rat \<Rightarrow> rat \<times> rat \<times> rat" where
  "calc_pnl direction entry_price close_price quantity fee_rate =
     (let gross_pnl = (if direction = LONG then dmul (dsub close_price entry_price) quantity
                       else dmul (dsub entry_price close_price) quantity);
          exit_fee = dmul (dmul quantity close_price) fee_rate;
          net_pnl = dsub gross_pnl exit_fee
      in (gross_pnl, exit_fee, net_pnl))"

definition calc_liquidation_price :: "direction \<Rightarrow> rat \<Rightarrow> int \<Rightarrow> rat result" where
  "calc_liquidation_price direction entry_price leverage =
     ebind (ddivE 1 (of_int leverage)) (\<lambda>inv.
       Inr (if direction = LONG
            then dmul entry_price (dadd (dsub 1 inv) MAINTENANCE_MARGIN_RATE)
            else dmul entry_price (dsub (dadd 1 inv) MAINTENANCE_MARGIN_RATE)))"

text \<open>
  The exponent of \<open>Decimal.normalize()\<close>: the place of the last non-zero digit of the value,
  searched below the leading digit (28 digits at most).
\<close>

definition is_integral :: "rat \<Rightarrow> bool" where "is_integral x \<longleftrightarrow> of_int \<lfloor>x\<rfloor> = x"

definition norm_exponent :: "rat \<Rightarrow> int" where
  "norm_exponent q =
     (if q = 0 then 0
      else let top = ilog 10 \<bar>q\<bar>
           in case find (\<lambda>e. is_integral (q * pw 10 (- e))) (map (\<lambda>i. top - int i) [0..<28]) of
                Some e \<Rightarrow> e | None \<Rightarrow> top - 27)"

text \<open>The duration field: \<open>int(delta.total_seconds())\<close>.\<close>

definition duration_seconds :: "int \<Rightarrow> int \<Rightarrow> int" where
  "duration_seconds opened now = rdown (fdiv (of_int (now - opened)) 1000000)"

section \<open>Operations\<close>

definition open_position ::
    "int \<Rightarrow> string \<Rightarrow> raw_signal \<Rightarrow> validation_result \<Rightarrow> paper_settings \<Rightarrow> paper_account
       \<Rightarrow> paper_account \<times> paper_position result" where
  "open_position now pid s v st a =
     (if \<not> vr_approved v then (a, Inl AssertionError)
      else case (sg_stop_loss s, sg_take_profit s) of
        (Some sl, Some tp) \<Rightarrow>
          (case (vr_quantity v, vr_final_leverage v, vr_margin_required_usdt v,
                 vr_max_loss_usdt v, vr_max_profit_usdt v) of
             (Some qty, Some lev, Some margin, Some max_loss, Some max_profit) \<Rightarrow>
               let entry_price = sg_entry_price s;
                   entry_fee = dmul (dmul qty entry_price) (st_taker_fee_rate st);
                   a1 = debit_fee entry_fee a
               in (case calc_liquidation_price (sg_direction s) entry_price lev of
                     Inl e \<Rightarrow> (a1, Inl e)
                   | Inr liq_price \<Rightarrow>
                       let position =
                         \<lparr>pp_id = pid, pp_user_id = st_user_id st, pp_coin = sg_coin s,
                          pp_symbol = sg_symbol s, pp_direction = sg_direction s,
                          pp_entry_price = entry_price, pp_quantity = qty,
                          pp_original_quantity = qty, pp_leverage = lev, pp_take_profit = tp,
                          pp_stop_loss = sl, pp_liquidation_price = liq_price,
                          pp_margin_used = margin, pp_original_margin = margin,
                          pp_max_loss_usdt = max_loss, pp_max_profit_usdt = max_profit,
                          pp_original_risk_usdt = max_loss, pp_status = Open,
                          pp_realized_pnl = 0, pp_current_price = entry_price,
                          pp_dca_count = 0, pp_opened_at = now, pp_closed_at = None,
                          pp_close_reason = None\<rparr>
                       in (add_position position a1, Inr position))
           | _ \<Rightarrow> (a, Inl TypeError))
      | _ \<Rightarrow> (a, Inl AssertionError))"

definition update_price :: "paper_position \<Rightarrow> rat \<Rightarrow> paper_position \<times> string option" where
  "update_price p current_price =
     (if \<not> pp_is_open p then (p, None)
      else
        let p1 = p\<lparr>pp_current_price := current_price\<rparr>
        in if pp_direction p1 = LONG
           then if pp_take_profit p1 \<le> current_price then (p1, Some ''tp_hit'')
                else if current_price \<le> pp_stop_loss p1 then (p1, Some ''sl_hit'')
                else (p1, None)
           else if current_price \<le> pp_take_profit p1 then (p1, Some ''tp_hit'')
                else if pp_stop_loss p1 \<le> current_price then (p1, Some ''sl_hit'')
                else (p1, None))"

text \<open>
  The record of a close: quantity, fee and percentage base differ between a full and a partial
  close. Nothing is written before the record is complete, so an exception here leaves the
  account as it was.
\<close>

definition make_record ::
    "int \<Rightarrow> string \<Rightarrow> paper_position \<Rightarrow> rat \<Rightarrow> rat \<Rightarrow> rat \<Rightarrow> rat \<Rightarrow> rat \<Rightarrow> rat \<Rightarrow> string \<Rightarrow> bool
       \<Rightarrow> paper_settings \<Rightarrow> paper_trade_record result" where
  "make_record now tid p close_price close_qty gross_pnl net_pnl total_fee pnl_pct reason partial st =
     ebind (quantize rhe 2 gross_pnl) (\<lambda>gross_q.
     ebind (quantize rhe 4 total_fee) (\<lambda>fee_q.
     ebind (quantize rhe 2 net_pnl) (\<lambda>net_q.
     ebind (quantize rhe 2 pnl_pct) (\<lambda>pct_q.
     Inr \<lparr>tr_id = tid, tr_position_id = pp_id p, tr_user_id = st_user_id st,
          tr_coin = pp_coin p, tr_direction = pp_direction p,
          tr_entry_price = pp_entry_price p, tr_close_price = close_price,
          tr_quantity = close_qty, tr_leverage = pp_leverage p, tr_gross_pnl = gross_q,
          tr_fee = fee_q, tr_net_pnl = net_q, tr_pnl_pct = pct_q,
          tr_duration_seconds = duration_seconds (pp_opened_at p) now,
          tr_close_reason = reason, tr_is_partial = partial,
          tr_opened_at = pp_opened_at p, tr_closed_at = now\<rparr>))))"

definition close_position ::
    "int \<Rightarrow> string \<Rightarrow> paper_position \<Rightarrow> rat \<Rightarrow> string \<Rightarrow> paper_settings \<Rightarrow> paper_account
       \<Rightarrow> paper_account \<times> (paper_position \<times> paper_trade_record) result" where
  "close_position now tid p close_price reason st a =
     (if \<not> pp_is_open p then (a, Inl AssertionError)
      else
        let close_qty = pp_quantity p;
            (gross_pnl, exit_fee, net_pnl) =
              calc_pnl (pp_direction p) (pp_entry_price p) close_price close_qty
                (st_taker_fee_rate st);
            entry_fee_prop = dmul (dmul (pp_original_quantity p) (pp_entry_price p))
                               (st_taker_fee_rate st)
        in case ebind (ddivE close_qty (pp_original_quantity p)) (\<lambda>close_ratio_used.
                let entry_fee_portion = dmul entry_fee_prop close_ratio_used;
                    total_fee = dadd entry_fee_portion exit_fee;
                    pnl_pct = (if pp_margin_used p \<noteq> 0
                               then dmul (ddiv net_pnl (pp_margin_used p)) 100 else 0)
                in make_record now tid p close_price close_qty gross_pnl net_pnl total_fee
                     pnl_pct reason False st) of
             Inl e \<Rightarrow> (a, Inl e)
           | Inr record \<Rightarrow>
               let a1 = add_trade record (credit_pnl net_pnl a);
                   p1 = p\<lparr>pp_status := Closed, pp_closed_at := Some now,
                          pp_close_reason := Some reason, pp_current_price := close_price,
                          pp_realized_pnl := dadd (pp_realized_pnl p) net_pnl\<rparr>
               in (remove_position (pp_id p1) a1, Inr (p1, record)))"

definition partial_close ::
    "int \<Rightarrow> string \<Rightarrow> paper_position \<Rightarrow> rat \<Rightarrow> rat \<Rightarrow> paper_settings \<Rightarrow> paper_account
       \<Rightarrow> paper_account \<times> (paper_position \<times> paper_trade_record) result" where
  "partial_close now tid p close_price ratio st a =
     (if \<not> pp_is_open p then (a, Inl AssertionError)
      else if \<not> (0 < ratio \<and> ratio < 1) then (a, Inl AssertionError)
      else
        case ebind (quantize rdown (- norm_exponent (pp_quantity p))
                      (dmul (pp_quantity p) (repr10 ratio))) (\<lambda>close_qty.
             if close_qty \<le> 0 then Inl ValueError
             else
               let (gross_pnl, exit_fee, net_pnl) =
                     calc_pnl (pp_direction p) (pp_entry_price p) close_price close_qty
                       (st_taker_fee_rate st);
                   entry_fee_portion = dmul (dmul close_qty (pp_entry_price p))
                                         (st_taker_fee_rate st);
                   total_fee = dadd entry_fee_portion exit_fee;
                   close_margin = dmul (pp_margin_used p) (repr10 ratio);
                   pnl_pct = (if close_margin \<noteq> 0
                              then dmul (ddiv net_pnl close_margin) 100 else 0)
               in ebind (make_record now tid p close_price close_qty gross_pnl net_pnl total_fee
                           pnl_pct ''partial'' True st) (\<lambda>record.
                  Inr (close_qty, close_margin, net_pnl, record))) of
          Inl e \<Rightarrow> (a, Inl e)
        | Inr (close_qty, close_margin, net_pnl, record) \<Rightarrow>
            let a1 = add_trade record (credit_pnl net_pnl a);
                p1 = p\<lparr>pp_quantity := dsub (pp_quantity p) close_qty,
                       pp_margin_used := dsub (pp_margin_used p) close_margin,
                       pp_realized_pnl := dadd (pp_realized_pnl p) net_pnl,
                       pp_status := PartiallyClosed, pp_current_price := close_price\<rparr>
            in (add_position p1 a1, Inr (p1, record)))"

definition apply_dca ::
    "paper_position \<Rightarrow> raw_signal \<Rightarrow> validation_result \<Rightarrow> paper_settings \<Rightarrow> paper_account
       \<Rightarrow> paper_account \<times> paper_position result" where
  "apply_dca p s v st a =
     (if \<not> vr_approved v then (a, Inl AssertionError)
      else if pp_direction p \<noteq> sg_direction s then (a, Inl AssertionError)
      else case (vr_quantity v, vr_margin_required_usdt v, vr_max_loss_usdt v,
                 vr_max_profit_usdt v) of
        (Some dca_qty, Some dca_margin, Some max_loss, Some max_profit) \<Rightarrow>
          let dca_entry = sg_entry_price s;
              entry_fee = dmul (dmul dca_qty dca_entry) (st_taker_fee_rate st);
              a1 = debit_fee entry_fee a;
              new_avg_entry = recalculate_avg_entry (pp_quantity p) (pp_entry_price p)
                                dca_qty dca_entry;
              p1 = p\<lparr>pp_entry_price := new_avg_entry,
                     pp_quantity := dadd (pp_quantity p) dca_qty,
                     pp_original_quantity := dadd (pp_original_quantity p) dca_qty,
                     pp_margin_used := dadd (pp_margin_used p) dca_margin,
                     pp_original_margin := dadd (pp_original_margin p) dca_margin,
                     pp_max_loss_usdt := dadd (pp_max_loss_usdt p) max_loss,
                     pp_max_profit_usdt := dadd (pp_max_profit_usdt p) max_profit,
                     pp_dca_count := pp_dca_count p + 1\<rparr>
          in (case calc_liquidation_price (pp_direction p1) new_avg_entry (pp_leverage p1) of
                Inl e \<Rightarrow> (add_position p1 a1, Inl e)
              | Inr liq \<Rightarrow>
                  let p2 = p1\<lparr>pp_liquidation_price := liq\<rparr> in (add_position p2 a1, Inr p2))
      | _ \<Rightarrow> (a, Inl TypeError))"

section \<open>Quanta\<close>

text \<open>A Decimal is a multiple of its quantum, with a coefficient of at most 28 digits.\<close>

lemma norm_exponent_form:
  assumes "is_dec q" "0 < q"
  obtains m where "q = of_int m * pw 10 (norm_exponent q)" "0 < m" "m < 10 ^ 28"
proof -
  let ?t = "ilog 10 \<bar>q\<bar>" and ?e = "norm_exponent q"
  have "q = rnd 10 28 q" using assms(1) by (simp add: is_dec_def dec_def)
  then obtain k where k: "q = of_int k * pw 10 (?t - 27)"
    using rnd_form [of 10 28 q] assms(2) by auto
  have "q * pw 10 (- (?t - 27)) = of_int k"
    by (subst k) (simp add: mult.assoc flip: pw_add)
  then have "is_integral (q * pw 10 (- (?t - 27)))" by (simp add: is_integral_def)
  moreover have "?t - int 27 \<in> set (map (\<lambda>i. ?t - int i) [0..<28])" by force
  ultimately have "find (\<lambda>e. is_integral (q * pw 10 (- e))) (map (\<lambda>i. ?t - int i) [0..<28]) \<noteq> None"
    unfolding find_None_iff by fastforce
  then obtain e where e: "find (\<lambda>e. is_integral (q * pw 10 (- e))) (map (\<lambda>i. ?t - int i) [0..<28]) = Some e"
    by blast
  then have ne: "?e = e" using assms(2) by (simp add: norm_exponent_def Let_def)
  from e have e2: "is_integral (q * pw 10 (- e))" "?t - 27 \<le> e"
    unfolding find_Some_iff by (auto simp del: upt_Suc)
  define m where "m = \<lfloor>q * pw 10 (- e)\<rfloor>"
  have m: "of_int m = q * pw 10 (- e)" using e2(1) by (simp add: is_integral_def m_def)
  then have q: "q = of_int m * pw 10 e" by (simp add: mult.assoc flip: pw_add)
  have "of_int 0 < (of_int m :: rat)" unfolding m using assms(2) by simp
  moreover have "of_int m < (of_int (10 ^ 28) :: rat)"
  proof -
    have "q < pw 10 (?t + 1)" using ilog_bounds(2) [of 10 q] assms(2) by simp
    then have "of_int m < pw 10 (?t + 1) * pw 10 (- e)"
      unfolding m by (intro mult_strict_right_mono) auto
    also have "\<dots> = pw 10 (?t + 1 - e)" by (simp flip: pw_add)
    also have "\<dots> \<le> pw 10 28" using e2(2) by (intro pw_mono) auto
    finally show ?thesis by (simp add: pw_def)
  qed
  ultimately show thesis using that [of m] q ne by (simp only: of_int_less_iff)
qed

text \<open>
  The quantity a partial close takes is positive and strictly below the position's, and what
  remains is the exact difference.
\<close>

lemma partial_quantity:
  assumes q: "is_dec q" "0 < q" and r: "is_f64 r" "r < 1"
    and c: "quantize rdown (- norm_exponent q) (dmul q (repr10 r)) = Inr c" "0 < c"
  shows "c < q" "dsub q c = q - c" "is_dec c"
proof -
  define e where "e = norm_exponent q"
  obtain m where m: "q = of_int m * pw 10 e" "0 < m" "m < 10 ^ 28"
    using norm_exponent_form [OF q] unfolding e_def .
  let ?x = "dmul q (repr10 r)"
  define n where "n = rdown (?x * pw 10 (- e))"
  have c1: "c = of_int n * pw 10 e" using quantize_InrD [OF c(1)] by (simp add: n_def e_def)
  have n0: "0 < n" using c(2) unfolding c1 by (simp add: zero_less_mult_iff)
  have "?x < q" using q(2) r by (rule dmul_ratio_less)
  then have "?x * pw 10 (- e) < q * pw 10 (- e)" by (intro mult_strict_right_mono) auto
  also have "\<dots> = of_int m" unfolding m(1) by (simp add: mult.assoc flip: pw_add)
  finally have lt: "?x * pw 10 (- e) < of_int m" .
  have nm: "n < m"
  proof (cases "0 \<le> ?x * pw 10 (- e)")
    case True
    then show ?thesis using lt unfolding n_def rdown_def by (simp add: floor_less_iff)
  next
    case False
    then have "n \<le> 0" unfolding n_def rdown_def by (simp add: ceiling_le_iff)
    then show ?thesis using m(2) by linarith
  qed
  show "c < q" unfolding c1 using nm by (subst m(1)) simp
  have d: "q - c = of_int (m - n) * pw 10 e" unfolding c1 by (subst m(1)) (simp add: left_diff_distrib)
  have "dec (of_int (m - n) * pw 10 e) = of_int (m - n) * pw 10 e"
    using nm n0 m by (intro dec_exact) linarith
  then show "dsub q c = q - c" by (simp only: dsub_def d)
  show "is_dec c" unfolding is_dec_def c1 using nm n0 m by (intro dec_exact) linarith
qed

section \<open>A well-formed open position\<close>

text \<open>
  What every position of the dictionary satisfies: it is open, holds a positive quantity, has
  a leverage within the system cap, at most \<open>MAX_DCA_COUNT\<close> additions, and its stop and target
  on their sides of each other.
\<close>

definition levels_ordered :: "direction \<Rightarrow> rat \<Rightarrow> rat \<Rightarrow> bool" where
  "levels_ordered d tp sl \<longleftrightarrow> (if d = LONG then sl < tp else tp < sl)"

definition pos_ok :: "paper_position \<Rightarrow> bool" where
  "pos_ok p \<longleftrightarrow> pp_is_open p \<and> 0 < pp_quantity p \<and> is_dec (pp_quantity p) \<and>
     pp_leverage p \<noteq> 0 \<and> pp_leverage p \<le> SYSTEM_MAX_LEVERAGE \<and>
     0 \<le> pp_dca_count p \<and> pp_dca_count p \<le> MAX_DCA_COUNT \<and>
     levels_ordered (pp_direction p) (pp_take_profit p) (pp_stop_loss p)"

lemma exits_levels: "exits_ordered d e tp sl \<Longrightarrow> levels_ordered d tp sl"
  by (auto simp: exits_ordered_def levels_ordered_def split: if_splits)

lemma calc_liquidation_price_ok: "lev \<noteq> 0 \<Longrightarrow> \<exists>l. calc_liquidation_price d e lev = Inr l"
  by (simp add: calc_liquidation_price_def ddivE_def)

lemma update_price_pos_ok [simp]: "pos_ok (fst (update_price p c)) = pos_ok p"
  by (simp add: update_price_def Let_def pos_ok_def pp_is_open_def)

lemma update_price_frames [frames]:
  "pp_id (fst (update_price p c)) = pp_id p" "pp_coin (fst (update_price p c)) = pp_coin p"
  "pp_direction (fst (update_price p c)) = pp_direction p"
  "pp_take_profit (fst (update_price p c)) = pp_take_profit p"
  "pp_stop_loss (fst (update_price p c)) = pp_stop_loss p"
  by (simp_all add: update_price_def Let_def)

text \<open>The exits of a position at a price: exactly what \<open>update_price\<close> reports.\<close>

definition exit_due :: "paper_position \<Rightarrow> rat \<Rightarrow> bool" where
  "exit_due p c \<longleftrightarrow>
     (if pp_direction p = LONG then pp_take_profit p \<le> c \<or> c \<le> pp_stop_loss p
      else c \<le> pp_take_profit p \<or> pp_stop_loss p \<le> c)"

lemma update_price_hit:
  "pp_is_open p \<Longrightarrow> (snd (update_price p c) \<noteq> None) = exit_due p c"
  by (auto simp: update_price_def exit_due_def Let_def)

lemma close_position_Inr:
  assumes "close_position now tid p c r st a = (a', Inr (p', t))"
  shows "a' = remove_position (pp_id p) (add_trade t (credit_pnl (snd (snd (calc_pnl (pp_direction p)
            (pp_entry_price p) c (pp_quantity p) (st_taker_fee_rate st)))) a))"
    "tr_position_id t = pp_id p" "tr_coin t = pp_coin p" "tr_quantity t = pp_quantity p"
    "tr_close_price t = c" "tr_close_reason t = r" "\<not> tr_is_partial t" "pp_status p' = Closed"
    "tr_closed_at t = now"
  using assms
  by (auto simp: close_position_def make_record_def calc_pnl_def Let_def ebind_Inr_iff
      split: if_splits sum.splits)

lemma close_position_Inl:
  assumes "close_position now tid p c r st a = (a', Inl e)" shows "a' = a"
  using assms by (auto simp: close_position_def Let_def split: if_splits sum.splits prod.splits)

lemma partial_close_Inl:
  assumes "partial_close now tid p c r st a = (a', Inl e)" shows "a' = a"
  using assms by (auto simp: partial_close_def Let_def split: if_splits sum.splits prod.splits)

lemma partial_close_Inr:
  assumes "partial_close now tid p c r st a = (a', Inr (p', t))"
  shows "\<exists>n. a' = add_position p' (add_trade t (credit_pnl n a))"
    and "pp_is_open p" "0 < r" "r < 1" "0 < tr_quantity t"
    "quantize rdown (- norm_exponent (pp_quantity p)) (dmul (pp_quantity p) (repr10 r))
       = Inr (tr_quantity t)"
    "pp_quantity p' = dsub (pp_quantity p) (tr_quantity t)"
    "pp_status p' = PartiallyClosed"
    "pp_id p' = pp_id p" "pp_coin p' = pp_coin p" "pp_direction p' = pp_direction p"
    "pp_take_profit p' = pp_take_profit p" "pp_stop_loss p' = pp_stop_loss p"
    "pp_leverage p' = pp_leverage p" "pp_dca_count p' = pp_dca_count p"
  using assms
  by (auto simp: partial_close_def make_record_def calc_pnl_def Let_def ebind_Inr_iff
      split: if_splits sum.splits)

lemma partial_close_pos_ok:
  assumes "partial_close now tid p c r st a = (a', Inr (p', t))" "pos_ok p" "is_f64 r"
  shows "pos_ok p'"
proof -
  note P = partial_close_Inr [OF assms(1)]
  have "is_dec (pp_quantity p)" "0 < pp_quantity p" using assms(2) by (simp_all add: pos_ok_def)
  note Q = partial_quantity [OF this assms(3) P(4) P(6,5)]
  have "is_dec (pp_quantity p')" unfolding P(7) by (simp add: dsub_def)
  with Q P assms(2) show ?thesis by (simp add: pos_ok_def pp_is_open_def)
qed

lemma apply_dca_result:
  assumes "apply_dca p s v st a = (a', r)" "pp_leverage p \<noteq> 0"
  shows "(\<exists>f. a' = a \<and> r = Inl f) \<or>
    (\<exists>p' f q. r = Inr p' \<and> a' = add_position p' (debit_fee f a) \<and> vr_quantity v = Some q \<and>
       pp_quantity p' = dadd (pp_quantity p) q \<and> pp_dca_count p' = pp_dca_count p + 1 \<and>
       pp_status p' = pp_status p \<and>
       pp_id p' = pp_id p \<and> pp_coin p' = pp_coin p \<and> pp_direction p' = pp_direction p \<and>
       pp_take_profit p' = pp_take_profit p \<and> pp_stop_loss p' = pp_stop_loss p \<and>
       pp_leverage p' = pp_leverage p)"
  using assms
  by (auto simp: apply_dca_def Let_def calc_liquidation_price_def ddivE_def
      split: if_splits option.splits)

lemma open_position_result:
  assumes "open_position now pid s v st a = (a', r)" "vr_final_leverage v \<noteq> Some 0"
  shows "(\<exists>e. a' = a \<and> r = Inl e) \<or>
    (\<exists>p f. r = Inr p \<and> a' = add_position p (debit_fee f a) \<and> pp_id p = pid \<and>
       pp_coin p = sg_coin s \<and> pp_direction p = sg_direction s \<and> pp_status p = Open \<and>
       Some (pp_quantity p) = vr_quantity v \<and> Some (pp_leverage p) = vr_final_leverage v \<and>
       Some (pp_take_profit p) = sg_take_profit s \<and> Some (pp_stop_loss p) = sg_stop_loss s \<and>
       pp_dca_count p = 0)"
  using assms
  by (auto simp: open_position_def Let_def calc_liquidation_price_def ddivE_def
      split: if_splits option.splits)

end
