(* ===== verification/PaperEngine.thy ===== *)
theory PaperEngine
  imports PaperPositions
begin

text \<open>
  \<open>agents/paper_trading/engine.py\<close>: the orchestrator of paper trading. Each public operation is
  a function of the session settings and the account; the \<open>step\<close> relation runs them in any
  order, and the facts of the last section hold in every reachable account.
\<close>

section \<open>Operations\<close>

definition sr_refused :: "validation_result \<Rightarrow> paper_trade_record option \<Rightarrow> submit_result" where
  "sr_refused v closed_trade =
     \<lparr>sr_accepted = False, sr_position = None, sr_rejection_reason = vr_rejection_reason v,
      sr_rejection_code = vr_rejection_code v, sr_pre_action = None,
      sr_warnings = vr_warnings v, sr_closed_trade = closed_trade\<rparr>"

definition sr_taken ::
    "paper_position \<Rightarrow> pre_action option \<Rightarrow> warn list \<Rightarrow> paper_trade_record option \<Rightarrow> submit_result"
  where
  "sr_taken p pre warnings closed_trade =
     \<lparr>sr_accepted = True, sr_position = Some p, sr_rejection_reason = None,
      sr_rejection_code = None, sr_pre_action = pre, sr_warnings = warnings,
      sr_closed_trade = closed_trade\<rparr>"

text \<open>The part of \<open>submit_signal\<close> after the reversal: average into the position or open one.\<close>

definition enter ::
    "int \<Rightarrow> string \<Rightarrow> raw_signal \<Rightarrow> validation_result \<Rightarrow> paper_trade_record option \<Rightarrow> paper_settings
       \<Rightarrow> paper_account \<Rightarrow> paper_account \<times> submit_result result" where
  "enter now pid s v closed_trade st a =
     (let existing = (if vr_pre_action v = Some Dca then get_open_by_coin (sg_coin s) a else None)
      in case existing of
           Some p \<Rightarrow>
             (case apply_dca p s v st a of
                (a1, Inl e) \<Rightarrow> (a1, Inl e)
              | (a1, Inr updated) \<Rightarrow> (a1, Inr (sr_taken updated (Some Dca) (vr_warnings v) None)))
         | None \<Rightarrow>
             (case open_position now pid s v st a of
                (a1, Inl e) \<Rightarrow> (a1, Inl e)
              | (a1, Inr position) \<Rightarrow>
                  (a1, Inr (sr_taken position (vr_pre_action v) (vr_warnings v) closed_trade))))"

definition submit_signal ::
    "int \<Rightarrow> string \<Rightarrow> string \<Rightarrow> raw_signal \<Rightarrow> paper_settings \<Rightarrow> paper_account
       \<Rightarrow> paper_account \<times> submit_result result" where
  "submit_signal now pid tid s st a =
     (let (a1, v) = validate now s st a
      in if \<not> vr_approved v then (a1, Inr (sr_refused v None))
         else if vr_pre_action v = Some CloseExisting
         then
           (let reversal = (case get_open_by_coin (sg_coin s) a1 of
                   None \<Rightarrow> (a1, Inr None)
                 | Some existing \<Rightarrow>
                     (case close_position now tid existing (sg_entry_price s) ''reverse_signal'' st a1 of
                        (a2, Inl e) \<Rightarrow> (a2, Inl e)
                      | (a2, Inr (p, t)) \<Rightarrow> (a2, Inr (Some t))))
            in case reversal of
                 (a2, Inl e) \<Rightarrow> (a2, Inl e)
               | (a2, Inr closed_trade) \<Rightarrow>
                   (let (a3, v2) = validate now s st a2
                    in if \<not> vr_approved v2 then (a3, Inr (sr_refused v2 closed_trade))
                       else enter now pid s v2 closed_trade st a3))
         else enter now pid s v None st a1)"

text \<open>
  \<open>tick\<close> walks a snapshot of the positions; \<open>tids\<close> gives the fresh id of the trade record a
  position's close draws. An exception ends the walk and keeps the closes made before it.
\<close>

fun tick_loop ::
    "int \<Rightarrow> (string \<Rightarrow> string) \<Rightarrow> string \<Rightarrow> rat \<Rightarrow> paper_settings \<Rightarrow> paper_position list
       \<Rightarrow> paper_trade_record list \<Rightarrow> paper_account \<Rightarrow> paper_account \<times> paper_trade_record list result"
  where
  "tick_loop now tids coin price st [] recs a = (a, Inr recs)"
| "tick_loop now tids coin price st (p # ps) recs a =
     (if pp_coin p \<noteq> coin then tick_loop now tids coin price st ps recs a
      else
        let (p1, hit) = update_price p price; a1 = add_position p1 a
        in case hit of
             None \<Rightarrow> tick_loop now tids coin price st ps recs a1
           | Some reason \<Rightarrow>
               (case close_position now (tids (pp_id p)) p1 price reason st a1 of
                  (a2, Inl e) \<Rightarrow> (a2, Inl e)
                | (a2, Inr (p2, record)) \<Rightarrow>
                    tick_loop now tids coin price st ps (recs @ [record]) a2))"

definition tick ::
    "int \<Rightarrow> (string \<Rightarrow> string) \<Rightarrow> string \<Rightarrow> rat \<Rightarrow> paper_settings \<Rightarrow> paper_account
       \<Rightarrow> paper_account \<times> paper_trade_record list result" where
  "tick now tids coin price st a =
     tick_loop now tids coin price st (dict_values (pa_open_positions a)) [] a"

definition engine_close ::
    "int \<Rightarrow> string \<Rightarrow> string \<Rightarrow> rat \<Rightarrow> paper_settings \<Rightarrow> paper_account
       \<Rightarrow> paper_account \<times> paper_trade_record option result" where
  "engine_close now tid pid current_price st a =
     (case get_position pid a of
        None \<Rightarrow> (a, Inr None)
      | Some p \<Rightarrow>
          if \<not> pp_is_open p then (a, Inr None)
          else (case close_position now tid p current_price ''manual'' st a of
                  (a1, Inl e) \<Rightarrow> (a1, Inl e)
                | (a1, Inr (p1, record)) \<Rightarrow> (a1, Inr (Some record))))"

definition engine_partial_close ::
    "int \<Rightarrow> string \<Rightarrow> string \<Rightarrow> rat \<Rightarrow> rat \<Rightarrow> paper_settings \<Rightarrow> paper_account
       \<Rightarrow> paper_account \<times> (paper_position \<times> paper_trade_record) option result" where
  "engine_partial_close now tid pid current_price ratio st a =
     (case get_position pid a of
        None \<Rightarrow> (a, Inr None)
      | Some p \<Rightarrow>
          if \<not> pp_is_open p then (a, Inr None)
          else (case partial_close now tid p current_price ratio st a of
                  (a1, Inl e) \<Rightarrow> (a1, Inl e)
                | (a1, Inr r) \<Rightarrow> (a1, Inr (Some r))))"

text \<open>\<open>update_prices\<close> mutates the positions in place; the dictionary keeps its keys and order.\<close>

definition update_prices :: "(string \<rightharpoonup> rat) \<Rightarrow> paper_account \<Rightarrow> paper_account" where
  "update_prices prices a =
     a\<lparr>pa_open_positions :=
         map (\<lambda>(k, p). (k, case prices (pp_coin p) of
                             None \<Rightarrow> p | Some c \<Rightarrow> p\<lparr>pp_current_price := c\<rparr>))
           (pa_open_positions a)\<rparr>"

section \<open>Summary\<close>

record paper_performance =
  pf_total_closed_trades :: int
  pf_win_count :: int
  pf_loss_count :: int
  pf_win_rate :: rat
  pf_total_pnl :: rat
  pf_unrealized_pnl :: rat
  pf_avg_win :: rat
  pf_avg_loss :: rat
  pf_profit_factor :: rat
  pf_return_pct :: rat

definition get_performance :: "paper_account \<Rightarrow> paper_performance result" where
  "get_performance a =
     (let history = pa_trade_history a;
          wins = filter (\<lambda>t. 0 < tr_net_pnl t \<and> \<not> tr_is_partial t) history;
          losses = filter (\<lambda>t. tr_net_pnl t < 0 \<and> \<not> tr_is_partial t) history;
          full_trades = filter (\<lambda>t. \<not> tr_is_partial t) history;
          total_pnl = dsum (map tr_net_pnl history);
          win_sum = dsum (map tr_net_pnl wins);
          loss_sum = dsum (map (\<lambda>t. dabs (tr_net_pnl t)) losses);
          avg_win = (if wins \<noteq> [] then ddiv win_sum (of_nat (length wins)) else 0);
          avg_loss = (if losses \<noteq> [] then ddiv loss_sum (of_nat (length losses)) else 0);
          unrealized = dsum (map pp_unrealized_pnl (dict_values (pa_open_positions a)))
      in ebind (if losses \<noteq> [] \<and> wins \<noteq> [] then ddivE win_sum loss_sum else Inr 0) (\<lambda>profit_factor.
         ebind (ddivE total_pnl (pa_initial_balance a)) (\<lambda>return_ratio.
         Inr \<lparr>pf_total_closed_trades = int (length full_trades), pf_win_count = int (length wins),
              pf_loss_count = int (length losses),
              pf_win_rate = (if full_trades \<noteq> []
                             then fdiv (of_nat (length wins)) (of_nat (length full_trades)) else 0),
              pf_total_pnl = f64 total_pnl, pf_unrealized_pnl = f64 unrealized,
              pf_avg_win = f64 avg_win, pf_avg_loss = f64 avg_loss,
              pf_profit_factor = f64 profit_factor,
              pf_return_pct = f64 (dmul return_ratio 100)\<rparr>)))"

text \<open>\<open>PaperAccountState.summary\<close>; the ratios are \<open>float\<close>s of Decimals, the win rate a float.\<close>

record account_summary =
  as_balance :: rat
  as_initial_balance :: rat
  as_available_balance :: rat
  as_locked_margin :: rat
  as_total_pnl :: rat
  as_total_pnl_pct :: rat
  as_open_positions :: int
  as_total_trades :: int
  as_win_rate :: rat
  as_daily_loss_usdt :: rat
  as_weekly_loss_usdt :: rat
  as_consecutive_losses :: int
  as_is_halted :: bool
  as_in_cooldown :: bool

definition summary :: "int \<Rightarrow> paper_account \<Rightarrow> account_summary" where
  "summary now a =
     (let total_trades = int (length (pa_trade_history a));
          wins = int (length (filter (\<lambda>t. 0 < tr_net_pnl t) (pa_trade_history a)));
          total_pnl = dsum (map tr_net_pnl (pa_trade_history a))
      in \<lparr>as_balance = f64 (pa_balance a), as_initial_balance = f64 (pa_initial_balance a),
          as_available_balance = f64 (available_balance a),
          as_locked_margin = f64 (locked_margin a), as_total_pnl = f64 total_pnl,
          as_total_pnl_pct =
            (if pa_initial_balance a \<noteq> 0
             then f64 (dmul (ddiv total_pnl (pa_initial_balance a)) 100) else 0),
          as_open_positions = open_positions_count a, as_total_trades = total_trades,
          as_win_rate = (if total_trades \<noteq> 0 then fdiv (of_int wins) (of_int total_trades) else 0),
          as_daily_loss_usdt = f64 (daily_loss_usdt now a),
          as_weekly_loss_usdt = f64 (weekly_loss_usdt now a),
          as_consecutive_losses = consecutive_losses a, as_is_halted = pa_is_halted a,
          as_in_cooldown = in_cooldown now a\<rparr>)"

section \<open>Steps\<close>

text \<open>
  One call of a public operation. The ids a call draws are fresh, as UUIDs are; the ratio of a
  partial close is a float.
\<close>

inductive step :: "paper_settings \<Rightarrow> paper_account \<Rightarrow> paper_account \<Rightarrow> bool" for st where
  submit: "map_of (pa_open_positions a) pid = None \<Longrightarrow>
     step st a (fst (submit_signal now pid tid s st a))"
| tick: "step st a (fst (tick now tids coin price st a))"
| close: "step st a (fst (engine_close now tid pid price st a))"
| partial: "is_f64 ratio \<Longrightarrow> step st a (fst (engine_partial_close now tid pid price ratio st a))"
| prices: "step st a (update_prices ps a)"
| halt: "step st a (halt (ManualHalt r) a)"
| resume: "step st a (resume a)"

inductive reachable :: "paper_settings \<Rightarrow> paper_account \<Rightarrow> bool" for st where
  start: "reachable st (new_account now (st_user_id st) balance)"
| next_state: "reachable st a \<Longrightarrow> step st a a' \<Longrightarrow> reachable st a'"

inductive_cases step_cases: "step st a a'"

section \<open>The book of positions\<close>

text \<open>
  Keys are the positions' ids, no coin has two positions, and every position is well formed.
\<close>

definition book_ok :: "(string, paper_position) pydict \<Rightarrow> bool" where
  "book_ok d \<longleftrightarrow> distinct (map fst d) \<and> (\<forall>(k, p) \<in> set d. pp_id p = k \<and> pos_ok p) \<and>
     distinct (map (pp_coin \<circ> snd) d)"

lemma book_okD:
  assumes "book_ok d" "map_of d k = Some p"
  shows "pp_id p = k" "pos_ok p" "pp_is_open p" "pp_leverage p \<noteq> 0"
  using assms by (auto simp: book_ok_def pos_ok_def dest!: map_of_SomeD)

lemma book_values: "book_ok d \<Longrightarrow> p \<in> set (dict_values d) \<Longrightarrow> map_of d (pp_id p) = Some p"
  by (auto simp: book_ok_def dict_values_def)

lemma coins_update:
  "map_of d k = Some p \<Longrightarrow> pp_coin p' = pp_coin p \<Longrightarrow>
   map (pp_coin \<circ> snd) (AList.update k p' d) = map (pp_coin \<circ> snd) d"
  by (induction d) (auto split: if_splits)

lemma update_new: "map_of d k = None \<Longrightarrow> AList.update k p d = d @ [(k, p)]"
  by (induction d) (auto split: if_splits)

lemma book_update:
  assumes "book_ok d" "map_of d k = Some p" "pp_id p' = k" "pp_coin p' = pp_coin p" "pos_ok p'"
  shows "book_ok (AList.update k p' d)"
proof -
  have "set (AList.update k p' d) \<subseteq> insert (k, p') (set d)" by (induction d) auto
  then show ?thesis
    using assms coins_update [OF assms(2,4)] by (auto simp: book_ok_def distinct_update)
qed

lemma book_insert:
  assumes "book_ok d" "map_of d (pp_id p) = None" "pos_ok p"
    "pp_coin p \<notin> pp_coin ` set (dict_values d)"
  shows "book_ok (AList.update (pp_id p) p d)"
  using assms by (auto simp: book_ok_def update_new map_of_eq_None_iff dict_values_def)

lemma book_delete: "book_ok d \<Longrightarrow> book_ok (AList.delete k d)"
  by (auto simp: book_ok_def AList.delete_eq distinct_map_filter o_def
      intro: distinct_map_filter)

lemma delete_coin:
  assumes "book_ok d" "map_of d (pp_id p) = Some p"
  shows "pp_coin p \<notin> pp_coin ` set (dict_values (AList.delete (pp_id p) d))"
proof
  assume "pp_coin p \<in> pp_coin ` set (dict_values (AList.delete (pp_id p) d))"
  then obtain k q where q: "(k, q) \<in> set d" "k \<noteq> pp_id p" "pp_coin q = pp_coin p"
    by (auto simp: dict_values_def AList.delete_eq)
  have "inj_on (pp_coin \<circ> snd) (set d)" using assms(1) by (simp add: book_ok_def distinct_map)
  from inj_onD [OF this, of "(k, q)" "(pp_id p, p)"] q map_of_SomeD [OF assms(2)]
  show False by auto
qed

section \<open>The session invariant\<close>

definition position_cap :: "paper_settings \<Rightarrow> int" where
  "position_cap st = max 0 (min (st_max_concurrent_positions st) (get_or PLAN_MAX_POSITIONS (st_plan st) 1))"

definition session_ok :: "paper_settings \<Rightarrow> paper_account \<Rightarrow> bool" where
  "session_ok st a \<longleftrightarrow> book_ok (pa_open_positions a) \<and> open_positions_count a \<le> position_cap st"

lemma session_cong:
  "pa_open_positions a' = pa_open_positions a \<Longrightarrow> session_ok st a' = session_ok st a"
  by (simp add: session_ok_def open_positions_count_def)

lemma length_update:
  "map_of d k = Some p \<Longrightarrow> length (AList.update k p' d) = length d"
  by (induction d) (auto split: if_splits)

lemma session_store:
  assumes "session_ok st a" "map_of (pa_open_positions a) (pp_id p') = Some p"
    "pp_coin p' = pp_coin p" "pos_ok p'" "pa_open_positions b = pa_open_positions a"
  shows "session_ok st (add_position p' b)"
  using assms book_update [of "pa_open_positions a" "pp_id p'" p p']
  by (simp add: session_ok_def frames open_positions_count_def length_update)

lemma session_remove:
  assumes "session_ok st a" "pa_open_positions b = pa_open_positions a"
  shows "session_ok st (remove_position k b)"
proof -
  have "length (AList.delete k (pa_open_positions a)) \<le> length (pa_open_positions a)"
    by (simp add: AList.delete_eq)
  then show ?thesis
    using assms book_delete [of "pa_open_positions a" k]
    by (simp add: session_ok_def frames open_positions_count_def)
qed

text \<open>Closing a position of the book.\<close>

lemma close_position_session:
  assumes "session_ok st a" "close_position now tid p c r st a = (a', x)"
  shows "session_ok st a'"
proof (cases x)
  case (Inl e)
  then show ?thesis using assms close_position_Inl by metis
next
  case (Inr y)
  then obtain p' t where "close_position now tid p c r st a = (a', Inr (p', t))"
    using assms(2) by (cases y) simp
  from close_position_Inr(1) [OF this] show ?thesis
    using assms(1) by (simp add: session_remove frames)
qed

lemma close_position_book:
  assumes "close_position now tid p c r st a = (a', Inr x)"
  shows "pa_open_positions a' = AList.delete (pp_id p) (pa_open_positions a)"
proof -
  obtain p' t where "x = (p', t)" by (cases x)
  with assms close_position_Inr(1) [of now tid p c r st a a' p' t] show ?thesis
    by (simp add: frames)
qed

section \<open>Submitting\<close>

text \<open>What an approved validation gives the two ways of entering.\<close>

lemma approval_sizing:
  assumes "approval_ok now s st a v"
  obtains q tp sl where "vr_quantity v = Some q" "0 < q" "is_dec q"
    "vr_final_leverage v =
       Some (resolve_final_leverage (sg_leverage s) (st_max_leverage st) (st_plan st))"
    "resolve_final_leverage (sg_leverage s) (st_max_leverage st) (st_plan st) \<noteq> 0"
    "sg_take_profit s = Some tp" "sg_stop_loss s = Some sl"
    "levels_ordered (sg_direction s) tp sl"
proof -
  obtain tp sl z where A: "sg_take_profit s = Some tp" "sg_stop_loss s = Some sl"
    "exits_ordered (sg_direction s) (sg_entry_price s) tp sl"
    "calculate_position_size (available_balance a) (st_risk_per_trade st) (sg_entry_price s) sl
          (resolve_final_leverage (sg_leverage s) (st_max_leverage st) (st_plan st))
          (Some tp) (sg_symbol s) = Inr z"
    "validate_position_size z (available_balance a) (sg_entry_price s) (sg_symbol s) = (True, OK)"
    "vr_quantity v = Some (ps_quantity z)" "vr_final_leverage v = Some (ps_final_leverage z)"
    using assms unfolding approval_ok_def by blast
  note Z = calculate_position_size_Inr [OF A(4)]
  have "lot_size (sg_symbol s) \<le> ps_quantity z" by (rule validate_position_size_True [OF A(5)])
  then have "0 < ps_quantity z" using lot_size_pos [of "sg_symbol s"] by linarith
  moreover have "is_dec (ps_quantity z)"
    unfolding Z(4) by (simp add: round_to_lot_size_def Let_def dmul_def)
  ultimately show thesis using A Z by (intro that [of "ps_quantity z" tp sl]) (auto dest: exits_levels)
qed

lemma enter_session:
  assumes ok: "session_ok st a" and ap: "approval_ok now s st a v"
    and pid: "map_of (pa_open_positions a) pid = None"
    and pre: "vr_pre_action v \<noteq> Some CloseExisting"
    and e: "enter now pid s v ct st a = (a', x)"
  shows "session_ok st a'"
proof -
  obtain q tp sl where S: "vr_quantity v = Some q" "0 < q" "is_dec q"
    "vr_final_leverage v =
       Some (resolve_final_leverage (sg_leverage s) (st_max_leverage st) (st_plan st))"
    "resolve_final_leverage (sg_leverage s) (st_max_leverage st) (st_plan st) \<noteq> 0"
    "sg_take_profit s = Some tp" "sg_stop_loss s = Some sl"
    "levels_ordered (sg_direction s) tp sl"
    using approval_sizing [OF ap] .
  show ?thesis
  proof (cases "get_open_by_coin (sg_coin s) a")
    case None
    then have pre: "vr_pre_action v = None" and room: "open_positions_count a + 1 \<le> position_cap st"
      using ap by (auto simp: approval_ok_def position_cap_def)
    obtain b y where o: "open_position now pid s v st a = (b, y)" by (cases rule: prod.exhaust)
    then have a': "a' = b" using e pre by (auto simp: enter_def split: sum.splits)
    have "vr_final_leverage v \<noteq> Some 0" using S by simp
    from open_position_result [OF o this] show ?thesis
    proof (elim disjE exE conjE)
      fix p f
      assume p: "b = add_position p (debit_fee f a)" "pp_id p = pid"
        "pp_coin p = sg_coin s" "pp_direction p = sg_direction s" "pp_status p = Open"
        "Some (pp_quantity p) = vr_quantity v" "Some (pp_leverage p) = vr_final_leverage v"
        "Some (pp_take_profit p) = sg_take_profit s" "Some (pp_stop_loss p) = sg_stop_loss s"
        "pp_dca_count p = 0"
      have "pos_ok p" using p S resolve_final_leverage_le(4)
        by (simp add: pos_ok_def pp_is_open_def MAX_DCA_COUNT_def)
      then have "book_ok (AList.update (pp_id p) p (pa_open_positions a))"
        using None p ok pid by (intro book_insert) (auto simp: session_ok_def get_open_by_coin_None)
      then show ?thesis using p room pid
        by (simp add: a' session_ok_def frames open_positions_count_def update_new)
    qed (use ok a' in auto)
  next
    case (Some p)
    then have dca: "vr_pre_action v = Some Dca" "pp_direction p = sg_direction s"
        "pp_dca_count p < MAX_DCA_COUNT"
      using ap pre by (auto simp: approval_ok_def split: if_splits)
    obtain b y where o: "apply_dca p s v st a = (b, y)" by (cases rule: prod.exhaust)
    then have a': "a' = b" using e dca(1) Some by (auto simp: enter_def split: sum.splits)
    have m: "map_of (pa_open_positions a) (pp_id p) = Some p"
      using get_open_by_coin_Some [OF Some] ok by (auto simp: session_ok_def book_values)
    note P = book_okD [OF _ m]
    have pk: "pos_ok p" "pp_leverage p \<noteq> 0" using ok P by (auto simp: session_ok_def)
    from apply_dca_result [OF o pk(2)] show ?thesis
    proof (elim disjE exE conjE)
      fix p' f q'
      assume p': "b = add_position p' (debit_fee f a)" "vr_quantity v = Some q'"
        "pp_quantity p' = dadd (pp_quantity p) q'" "pp_dca_count p' = pp_dca_count p + 1"
        "pp_status p' = pp_status p" "pp_id p' = pp_id p" "pp_coin p' = pp_coin p"
        "pp_direction p' = pp_direction p" "pp_take_profit p' = pp_take_profit p"
        "pp_stop_loss p' = pp_stop_loss p" "pp_leverage p' = pp_leverage p"
      have "pos_ok p'" using p' pk(1) dca(3) S(1,2)
        by (simp add: pos_ok_def pp_is_open_def dadd_def)
      with ok m p' show ?thesis unfolding a' p'(1)
        by (intro session_store [of st a p' p]) (simp_all add: frames)
    qed (use ok a' in auto)
  qed
qed

text \<open>A coin without a position never yields the reversal.\<close>

lemma no_reversal:
  "approval_ok now s st a v \<Longrightarrow> get_open_by_coin (sg_coin s) a = None \<Longrightarrow> vr_pre_action v = None"
  by (simp add: approval_ok_def)

lemma validate_session:
  "validate now s st a = (a', v) \<Longrightarrow> session_ok st a' = session_ok st a"
  using validate_keeps(1) session_cong by metis

lemma submit_session:
  assumes ok: "session_ok st a" and pid: "map_of (pa_open_positions a) pid = None"
  shows "session_ok st (fst (submit_signal now pid tid s st a))"
proof -
  obtain a1 v where V: "validate now s st a = (a1, v)" by (cases rule: prod.exhaust)
  have ok1: "session_ok st a1" using V ok by (simp add: validate_session)
  show ?thesis
  proof (cases "vr_approved v")
    case False
    then show ?thesis using V ok1 by (simp add: submit_signal_def)
  next
    case ap: True
    from validate_approval_ok [OF V ap] have A: "a1 = a" "approval_ok now s st a v" by auto
    show ?thesis
    proof (cases "vr_pre_action v = Some CloseExisting")
      case False
      then have "fst (submit_signal now pid tid s st a) = fst (enter now pid s v None st a)"
        using V ap A by (simp add: submit_signal_def)
      then show ?thesis using enter_session [OF ok A(2) pid False] by (metis prod.collapse)
    next
      case True
      then obtain p where p: "get_open_by_coin (sg_coin s) a = Some p"
        using A(2) by (auto simp: approval_ok_def split: option.splits)
      have mp: "map_of (pa_open_positions a) (pp_id p) = Some p" and pc: "pp_coin p = sg_coin s"
        using get_open_by_coin_Some [OF p] ok by (auto simp: session_ok_def book_values)
      obtain a2 x where C: "close_position now tid p (sg_entry_price s) ''reverse_signal'' st a = (a2, x)"
        by (cases rule: prod.exhaust)
      have ok2: "session_ok st a2" by (rule close_position_session [OF ok C])
      show ?thesis
      proof (cases x)
        case (Inl e)
        then show ?thesis using V ap A True p C ok2 by (simp add: submit_signal_def)
      next
        case (Inr y)
        obtain p1 t where y: "y = (p1, t)" by (cases y)
        obtain a3 v2 where V2: "validate now s st a2 = (a3, v2)" by (cases rule: prod.exhaust)
        have eq: "fst (submit_signal now pid tid s st a) =
            (if vr_approved v2 then fst (enter now pid s v2 (Some t) st a3) else a3)"
          using V ap A True p C Inr y V2 by (simp add: submit_signal_def)
        note B = close_position_book [OF C [unfolded Inr]]
        show ?thesis
        proof (cases "vr_approved v2")
          case False
          then show ?thesis using eq ok2 V2 by (simp add: validate_session)
        next
          case ap2: True
          from validate_approval_ok [OF V2 ap2] have A2: "a3 = a2" "approval_ok now s st a2 v2" by auto
          have "get_open_by_coin (sg_coin s) a2 = None"
            using delete_coin [of "pa_open_positions a" p] mp ok pc
            by (simp add: get_open_by_coin_None B session_ok_def)
          then have "vr_pre_action v2 \<noteq> Some CloseExisting" using no_reversal [OF A2(2)] by simp
          moreover have "map_of (pa_open_positions a2) pid = None"
            using pid by (simp add: B AList.delete_eq map_of_eq_None_iff) force
          ultimately show ?thesis
            using enter_session [OF ok2 A2(2)] eq ap2 A2(1) by (metis prod.collapse)
        qed
      qed
    qed
  qed
qed

section \<open>Pricing and closing\<close>

lemma tick_loop_session:
  assumes "session_ok st a" "\<forall>p\<in>set ps. map_of (pa_open_positions a) (pp_id p) = Some p"
    "distinct (map pp_id ps)"
  shows "session_ok st (fst (tick_loop now tids coin price st ps recs a))"
  using assms
proof (induction ps arbitrary: recs a)
  case (Cons p ps)
  show ?case
  proof (cases "pp_coin p = coin")
    case True
    let ?p1 = "fst (update_price p price)" and ?h = "snd (update_price p price)"
    let ?a1 = "add_position ?p1 a"
    have p: "map_of (pa_open_positions a) (pp_id p) = Some p" using Cons.prems by simp
    have "pos_ok p" using book_okD(2) [OF _ p] Cons.prems(1) by (simp add: session_ok_def)
    then have ok1: "session_ok st ?a1"
      using Cons.prems(1) p by (intro session_store [where p = p and a = a]) (simp_all add: frames)
    have ne: "\<forall>q\<in>set ps. pp_id q \<noteq> pp_id p"
      using Cons.prems(3) by (auto simp: image_iff)
    have rest: "\<forall>q\<in>set ps. map_of (pa_open_positions ?a1) (pp_id q) = Some q"
      using Cons.prems(2) ne by (simp add: frames update_conv')
    show ?thesis
    proof (cases ?h)
      case None
      then show ?thesis using Cons.IH [OF ok1 rest] Cons.prems(3) True
        by (simp add: split_beta Let_def)
    next
      case (Some r)
      obtain a2 x where C: "close_position now (tids (pp_id p)) ?p1 price r st ?a1 = (a2, x)"
        by (cases rule: prod.exhaust)
      have ok2: "session_ok st a2" by (rule close_position_session [OF ok1 C])
      show ?thesis
      proof (cases x)
        case (Inl e)
        then show ?thesis using C Some ok2 True by (simp add: split_beta Let_def)
      next
        case (Inr y)
        have "\<forall>q\<in>set ps. map_of (pa_open_positions a2) (pp_id q) = Some q"
          using rest ne unfolding close_position_book [OF C [unfolded Inr]]
          by (simp add: frames delete_conv')
        then show ?thesis using C Some Inr True Cons.IH [OF ok2] Cons.prems(3)
          by (cases y) (simp add: split_beta Let_def)
      qed
    qed
  qed (use Cons in simp)
qed simp

lemma book_snapshot:
  assumes "book_ok d"
  shows "\<forall>p\<in>set (dict_values d). map_of d (pp_id p) = Some p" "distinct (map pp_id (dict_values d))"
proof -
  have "map pp_id (dict_values d) = map fst d"
    using assms by (auto simp: book_ok_def dict_values_def)
  then show "distinct (map pp_id (dict_values d))" using assms by (simp add: book_ok_def)
qed (use assms book_values in blast)

lemma tick_session: "session_ok st a \<Longrightarrow> session_ok st (fst (tick now tids coin price st a))"
  unfolding tick_def by (intro tick_loop_session book_snapshot) (auto simp: session_ok_def book_snapshot)

lemma engine_close_session:
  "session_ok st a \<Longrightarrow> session_ok st (fst (engine_close now tid pid price st a))"
  by (auto simp: engine_close_def dest: close_position_session split: option.splits prod.splits sum.splits)

lemma engine_partial_session:
  assumes "session_ok st a" "is_f64 ratio"
  shows "session_ok st (fst (engine_partial_close now tid pid price ratio st a))"
proof (cases "get_position pid a")
  case (Some p)
  then have p: "map_of (pa_open_positions a) pid = Some p" by (simp add: get_position_def)
  note B = book_okD [OF _ p]
  obtain a1 x where C: "partial_close now tid p price ratio st a = (a1, x)" by (cases rule: prod.exhaust)
  have "session_ok st a1"
  proof (cases x)
    case (Inl e)
    then show ?thesis using partial_close_Inl C assms(1) by metis
  next
    case (Inr y)
    then obtain p' t where y: "partial_close now tid p price ratio st a = (a1, Inr (p', t))"
      using C by (cases y) simp
    note P = partial_close_Inr [OF y]
    obtain n where n: "a1 = add_position p' (add_trade t (credit_pnl n a))" using P(1) by blast
    have "pos_ok p" using B(2) assms(1) by (simp add: session_ok_def)
    from partial_close_pos_ok [OF y this assms(2)] have "pos_ok p'" .
    then show ?thesis unfolding n using assms(1) P p B(1)
      by (intro session_store [where p = p and a = a]) (auto simp: session_ok_def frames)
  qed
  then show ?thesis using Some C assms(1) by (auto simp: engine_partial_close_def split: sum.splits)
qed (use assms in \<open>simp add: engine_partial_close_def\<close>)

definition reprice :: "(string \<rightharpoonup> rat) \<Rightarrow> paper_position \<Rightarrow> paper_position" where
  "reprice prices p =
     (case prices (pp_coin p) of None \<Rightarrow> p | Some c \<Rightarrow> p\<lparr>pp_current_price := c\<rparr>)"

lemma reprice_frames [simp]:
  "pp_id (reprice m p) = pp_id p" "pp_coin (reprice m p) = pp_coin p"
  "pos_ok (reprice m p) = pos_ok p"
  by (simp_all add: reprice_def pos_ok_def pp_is_open_def split: option.splits)

lemma update_prices_session:
  "session_ok st a \<Longrightarrow> session_ok st (update_prices prices a)"
  unfolding update_prices_def reprice_def [symmetric]
  by (auto simp: session_ok_def book_ok_def open_positions_count_def o_def case_prod_unfold)

section \<open>Every reachable account\<close>

lemma session_halt:
  "session_ok st (halt r a) = session_ok st a" "session_ok st (resume a) = session_ok st a"
  by (intro session_cong, simp add: frames)+

lemma step_session: "step st a a' \<Longrightarrow> session_ok st a \<Longrightarrow> session_ok st a'"
  by (induction rule: step.induct)
    (simp_all add: submit_session tick_session engine_close_session engine_partial_session
      update_prices_session session_halt)

lemma reachable_session: "reachable st a \<Longrightarrow> session_ok st a"
proof (induction rule: reachable.induct)
  case (start now balance)
  then show ?case
    by (simp add: session_ok_def book_ok_def new_account_def open_positions_count_def position_cap_def)
qed (rule step_session)

end
