(* ===== verification/PaperSample.thy ===== *)
theory PaperSample
  imports PaperEngine
begin

text \<open>
  A sample session, evaluated once: a signal for a five-fold leveraged LONG on a fresh account
  of 10,000 is validated and opened, the price reaches the target, the position is closed.
  The witnesses of the paper-trading properties are taken from this run.
\<close>

definition sample_signal :: raw_signal where
  "sample_signal = \<lparr>sg_direction = LONG, sg_coin = ''BTC'', sg_symbol = ''BTCUSDT'',
     sg_confidence = 1, sg_entry_price = 100, sg_take_profit = Some 130,
     sg_stop_loss = Some 90, sg_leverage = 5\<rparr>"
definition sample_settings :: paper_settings where "sample_settings = default_settings ''u''"
definition sample_account :: paper_account where "sample_account = new_account 0 ''u'' 10000"
definition sample_sizing :: position_sizing_result where "sample_sizing = \<lparr>ps_quantity = 20, ps_margin_used = 400, ps_position_value = 2000, ps_max_loss = 200, ps_max_profit = 600, ps_final_leverage = 5\<rparr>"
lemma sample_sized: "calculate_position_size 10000 (f64 (1/50)) 100 90 5 (Some 130) ''BTCUSDT'' = Inr sample_sizing"
  by (simp add: sample_sizing_def calculate_position_size_def Let_def dec_eval round_to_lot_size_def lot_size_eq ddivE_def cents_def quantize_def pw_def rhe_def rdown_def pyconst)
definition sample_validation :: validation_result where "sample_validation = (vr_default True)
                          \<lparr>vr_quantity := Some 20,
                           vr_final_leverage := Some 5,
                           vr_margin_required_usdt := Some 400,
                           vr_max_loss_usdt := Some 200,
                           vr_max_profit_usdt := Some 600,
                           vr_rr_ratio := Some 3\<rparr>"
lemma conf: "MIN_CONFIDENCE \<le> 1"
  unfolding MIN_CONFIDENCE_def by (rule f64_le_of_le) (simp_all add: is_f64_def)
lemma sample_account_facts: "available_balance sample_account = 10000" "pa_balance sample_account = 10000"
  "pa_open_positions sample_account = []" "pa_trade_history sample_account = []" "open_positions_risk_usdt sample_account = 0" "open_positions_count sample_account = 0"
 "get_open_by_coin c sample_account = None"
  by (simp_all add: available_balance_def locked_margin_def sample_account_def new_account_def dsum_def dec_eval open_positions_risk_usdt_def open_positions_count_def get_open_by_coin_def)

lemma sample_sizing_stage: "validate_sizing sample_signal sample_settings sample_account 3 [] = Inr sample_validation"
  using sample_sized 
  by (simp add: validate_sizing_def Let_def build_account_state_def build_ctx_def check_position_count_limit_def sample_account_facts 
  sample_settings_def default_settings_def get_or_def PLAN_MAX_POSITIONS_def check_same_coin_position_def resolve_final_leverage_def PLAN_MAX_LEVERAGE_def SYSTEM_MAX_LEVERAGE_def 
   validate_position_size_def sample_signal_def lot_size_eq min_notional_eq dec_eval pyconst MAX_SINGLE_POSITION_MARGIN_RATIO_def MARGIN_BUFFER_RATIO_def
   check_portfolio_risk_def portfolio_limit_ratio_def MAX_PORTFOLIO_RISK_def sample_sizing_def sample_validation_def vr_default_def)

lemma sample_validated: "validate 0 sample_signal sample_settings sample_account = (sample_account, sample_validation)"
proof -
  have rr: "check_rr_ratio sample_signal = (True, 3, OK)"
    by (simp add: check_rr_ratio_def sample_signal_def validate_rr_ratio_def Let_def dec_eval pyconst)
  have d: "check_daily_loss_limit 0 (dmul 10000 (repr10 (f64 (3/100)))) (dmul 10000 (repr10 (f64 (1/50)))) = (True, OK, None)"
    by (simp add: check_daily_loss_limit_def Let_def pyconst dec_eval DAILY_LOSS_CAUTION_PCT_def DAILY_LOSS_WARNING_PCT_def not_le not_less)
  have w: "check_weekly_loss_limit 0 (dmul 10000 (repr10 (f64 (1/10)))) = (True, OK)"
    by (simp add: check_weekly_loss_limit_def Let_def pyconst dec_eval)
  have l: "daily_loss_usdt 0 sample_account = 0" "weekly_loss_usdt 0 sample_account = 0" "consecutive_losses sample_account = 0"
    by (simp_all add: daily_loss_usdt_def weekly_loss_usdt_def sample_account_facts dsum_def consecutive_losses_def)
  have s: "check_not_hold sample_signal = (True, OK)" "check_stop_loss_exists sample_signal = (True, OK)" "check_confidence sample_signal = (True, OK)"
     "\<not> pa_is_halted sample_account" "\<not> in_cooldown 0 sample_account"
    using conf by (simp_all add: check_not_hold_def check_stop_loss_exists_def check_confidence_def sample_signal_def sample_account_def new_account_def in_cooldown_def)
  have c: "check_trading_active (build_ctx sample_settings) = (True, OK)" "check_trading_hours 0 (build_ctx sample_settings) = (True, OK)"
    "st_daily_loss_limit_pct sample_settings = f64 (3/100)" "st_risk_per_trade sample_settings = f64 (1/50)" "st_weekly_loss_limit_pct sample_settings = f64 (1/10)"
    by (simp_all add: check_trading_active_def check_trading_hours_def build_ctx_def sample_settings_def default_settings_def)
  show ?thesis
    using sample_sizing_stage unfolding validate_def s l c sample_account_facts rr d w Let_def
    by (simp add: s l c sample_account_facts d w pyconst)
qed

section \<open>The position\<close>

definition sample_position :: paper_position where
  "sample_position =
     \<lparr>pp_id = ''p1'', pp_user_id = ''u'', pp_coin = ''BTC'', pp_symbol = ''BTCUSDT'',
      pp_direction = LONG, pp_entry_price = 100, pp_quantity = 20, pp_original_quantity = 20,
      pp_leverage = 5, pp_take_profit = 130, pp_stop_loss = 90,
      pp_liquidation_price = 402 / 5, pp_margin_used = 400, pp_original_margin = 400,
      pp_max_loss_usdt = 200, pp_max_profit_usdt = 600, pp_original_risk_usdt = 200,
      pp_status = Open, pp_realized_pnl = 0, pp_current_price = 100, pp_dca_count = 0,
      pp_opened_at = 0, pp_closed_at = None, pp_close_reason = None\<rparr>"

definition sample_opened :: paper_account where
  "sample_opened = sample_account
     \<lparr>pa_balance := 49996 / 5, pa_open_positions := [(''p1'', sample_position)]\<rparr>"

lemma sample_open:
  "open_position 0 ''p1'' sample_signal sample_validation sample_settings sample_account =
     (sample_opened, Inr sample_position)"
  by (simp add: open_position_def sample_validation_def vr_default_def sample_signal_def
      sample_settings_def default_settings_def TAKER_FEE_RATE_def Let_def dec_eval debit_fee_def
      calc_liquidation_price_def ddivE_def MAINTENANCE_MARGIN_RATE_def add_position_def
      sample_opened_def sample_position_def sample_account_def new_account_def)

lemma sample_submit:
  "submit_signal 0 ''p1'' ''t1'' sample_signal sample_settings sample_account =
     (sample_opened, Inr (sr_taken sample_position None [] None))"
  by (simp add: submit_signal_def sample_validated enter_def sample_open)
    (simp add: sample_validation_def vr_default_def sample_open [unfolded sample_validation_def vr_default_def, simplified])

definition sample_trade :: paper_trade_record where
  "sample_trade =
     \<lparr>tr_id = ''t1'', tr_position_id = ''p1'', tr_user_id = ''u'', tr_coin = ''BTC'',
      tr_direction = LONG, tr_entry_price = 100, tr_close_price = 130, tr_quantity = 20,
      tr_leverage = 5, tr_gross_pnl = 600, tr_fee = 46 / 25, tr_net_pnl = 14974 / 25,
      tr_pnl_pct = 7487 / 50, tr_duration_seconds = 60, tr_close_reason = ''tp_hit'',
      tr_is_partial = False, tr_opened_at = 0, tr_closed_at = 60000000\<rparr>"

definition sample_closed :: paper_account where
  "sample_closed = sample_account
     \<lparr>pa_balance := 264954 / 25, pa_open_positions := [], pa_trade_history := [sample_trade]\<rparr>"

lemma sample_duration: "duration_seconds 0 60000000 = 60"
  by (simp add: duration_seconds_def fdiv_def f64_numeral rdown_def)

lemma sample_tick:
  "tick 60000000 (\<lambda>i. ''t1'') ''BTC'' 130 sample_settings sample_opened =
     (sample_closed, Inr [sample_trade])"
  by (simp add: tick_def sample_opened_def update_price_def Let_def sample_position_def
      pp_is_open_def close_position_def calc_pnl_def sample_settings_def default_settings_def
      TAKER_FEE_RATE_def dec_eval ddivE_def make_record_def quantize_def pw_def rhe_def
      credit_pnl_def add_trade_def remove_position_def add_position_def sample_duration
      sample_closed_def sample_trade_def sample_account_def new_account_def)

section \<open>A partial close\<close>

definition sample_half :: paper_position where
  "sample_half = sample_position
     \<lparr>pp_quantity := 10, pp_margin_used := 200, pp_realized_pnl := 2489 / 25,
      pp_status := PartiallyClosed, pp_current_price := 110\<rparr>"

definition sample_half_trade :: paper_trade_record where
  "sample_half_trade = sample_trade
     \<lparr>tr_close_price := 110, tr_quantity := 10, tr_gross_pnl := 100, tr_fee := 21 / 25,
      tr_net_pnl := 2489 / 25, tr_pnl_pct := 2489 / 50, tr_close_reason := ''partial'',
      tr_is_partial := True\<rparr>"

lemma half_facts: "is_f64 (1 / 2)" "repr10 (1 / 2) = 1 / 2" "norm_exponent 20 = 1"
proof -
  show "is_f64 (1 / 2)" by (simp add: is_f64_def f64_eval)
  have "repr10 (1 / 2) = 1 / 2 \<and> norm_exponent 20 = 1" by code_simp
  then show "repr10 (1 / 2) = 1 / 2" "norm_exponent 20 = 1" by auto
qed

lemma sample_partial:
  "\<exists>a. engine_partial_close 60000000 ''t1'' ''p1'' 110 (1 / 2) sample_settings sample_opened =
     (a, Inr (Some (sample_half, sample_half_trade)))"
proof -
  have "snd (partial_close 60000000 ''t1'' sample_position 110 (1 / 2) sample_settings sample_opened)
      = Inr (sample_half, sample_half_trade)"
    by (simp add: half_facts partial_close_def sample_position_def pp_is_open_def calc_pnl_def
        Let_def dec_eval make_record_def quantize_def pw_def rhe_def rdown_def sample_duration
        sample_settings_def default_settings_def TAKER_FEE_RATE_def sample_half_def
        sample_half_trade_def sample_trade_def)
  moreover have "get_position ''p1'' sample_opened = Some sample_position" "pp_is_open sample_position"
    by (simp_all add: get_position_def sample_opened_def pp_is_open_def sample_position_def)
  ultimately show ?thesis
    by (cases "partial_close 60000000 ''t1'' sample_position 110 (1 / 2) sample_settings sample_opened")
      (simp add: engine_partial_close_def)
qed

end
