(* ===== verification/PaperProps.thy ===== *)
theory PaperProps
  imports PaperSample
begin

text \<open>
  The properties of paper trading: what an approval guarantees, what a halt forbids, the
  invariant of every reachable session, the effect of a tick and of a partial close, and the
  loss-streak lockout.
\<close>

section \<open>Validation\<close>

lemma portfolio_sample: "approval_ok 0 sample_signal sample_settings sample_account sample_validation"
  using validate_approval_ok [OF sample_validated] by (simp add: sample_validation_def vr_default_def)

text \<open>
  C1. A signal the paper risk pipeline approves leaves the account untouched, has its stop and
  target on the two sides of the entry its direction demands with a reward-to-risk ratio of at
  least 2, and its sized position respects every limit: leverage at most the signal's, the
  user's, the plan's and the system's, at least one lot and 5 USDT of notional, margin at most
  20% of the available balance and covered 1.1 times by it, and a portfolio risk with the new
  position of at most 10% (15% for an aggressive profile) of the balance.
\<close>

theorem paper_approval_within_limits:
  assumes "validate now s st a = (a', v)" "vr_approved v"
  shows "a' = a \<and> \<not> pa_is_halted a \<and> \<not> in_cooldown now a \<and> MIN_CONFIDENCE \<le> sg_confidence s \<and>
    (\<exists>tp sl q lev margin loss rr.
       sg_take_profit s = Some tp \<and> sg_stop_loss s = Some sl \<and>
       exits_ordered (sg_direction s) (sg_entry_price s) tp sl \<and>
       vr_rr_ratio v = Some rr \<and> 2 \<le> rr \<and>
       vr_final_leverage v = Some lev \<and> lev \<le> sg_leverage s \<and> lev \<le> st_max_leverage st \<and>
       lev \<le> get_or PLAN_MAX_LEVERAGE (st_plan st) 5 \<and> lev \<le> 20 \<and>
       vr_quantity v = Some q \<and> lot_size (sg_symbol s) \<le> q \<and> 5 \<le> dmul q (sg_entry_price s) \<and>
       vr_margin_required_usdt v = Some margin \<and> margin \<le> dmul (available_balance a) 0.2 \<and>
       dmul margin 1.1 \<le> available_balance a \<and>
       vr_max_loss_usdt v = Some loss \<and>
       dadd (open_positions_risk_usdt a) loss
         \<le> dmul (pa_balance a) (if st_risk_profile st = ''aggressive'' then 0.15 else 0.1))"
proof -
  from validate_approval_ok [OF assms] have A: "a' = a" "approval_ok now s st a v" by auto
  from A(2) obtain tp sl z where Z: "sg_take_profit s = Some tp" "sg_stop_loss s = Some sl"
    "exits_ordered (sg_direction s) (sg_entry_price s) tp sl"
    "calculate_position_size (available_balance a) (st_risk_per_trade st) (sg_entry_price s) sl
          (resolve_final_leverage (sg_leverage s) (st_max_leverage st) (st_plan st))
          (Some tp) (sg_symbol s) = Inr z"
    "validate_position_size z (available_balance a) (sg_entry_price s) (sg_symbol s) = (True, OK)"
    "vr_quantity v = Some (ps_quantity z)" "vr_final_leverage v = Some (ps_final_leverage z)"
    "vr_margin_required_usdt v = Some (ps_margin_used z)" "vr_max_loss_usdt v = Some (ps_max_loss z)"
    "dadd (open_positions_risk_usdt a) (ps_max_loss z)
          \<le> dmul (pa_balance a) (if st_risk_profile st = ''aggressive'' then 0.15 else 0.1)"
    unfolding approval_ok_def by blast
  note V = validate_position_size_True [OF Z(5)]
  note L = resolve_final_leverage_le [of "sg_leverage s" "st_max_leverage st" "st_plan st"]
  have "ps_final_leverage z = resolve_final_leverage (sg_leverage s) (st_max_leverage st) (st_plan st)"
    using calculate_position_size_Inr(3) [OF Z(4)] .
  then show ?thesis using A Z V L by (auto simp: approval_ok_def SYSTEM_MAX_LEVERAGE_def)
qed

theorem paper_approval_within_limits_witness:
  "\<exists>lev. vr_final_leverage sample_validation = Some lev \<and> lev \<le> 20"
  using paper_approval_within_limits [OF sample_validated]
  by (simp add: sample_validation_def vr_default_def)

text \<open>
  The loss a signal's position can take at its stop stays within the budget: the approved
  \<open>max_loss_usdt\<close> is at most \<open>risk_per_trade\<close> of the available balance, up to the rounding to
  28 digits and to half a cent.
\<close>

theorem paper_max_loss_within_budget:
  assumes "validate now s st a = (a', v)" "vr_approved v" "0 \<le> repr10 (st_risk_per_trade st)"
    "vr_max_loss_usdt v = Some loss"
  shows "loss \<le> dmul (available_balance a) (repr10 (st_risk_per_trade st)) * (1 + 11 / 10 ^ 28) + 1 / 200"
proof -
  have "approval_ok now s st a v" using validate_approval_ok [OF assms(1,2)] by blast
  then obtain tp sl z where z: "calculate_position_size (available_balance a) (st_risk_per_trade st)
       (sg_entry_price s) sl (resolve_final_leverage (sg_leverage s) (st_max_leverage st) (st_plan st))
       (Some tp) (sg_symbol s) = Inr z" "vr_max_loss_usdt v = Some (ps_max_loss z)"
    unfolding approval_ok_def by blast
  have "0 \<le> dmul (available_balance a) (repr10 (st_risk_per_trade st))"
    using assms(3) by (simp add: dmul_def available_balance_def)
  from position_size_max_loss [OF z(1) this] z(2) assms(4) show ?thesis by simp
qed

theorem paper_max_loss_within_budget_witness:
  "(200 :: rat) \<le> dmul (available_balance sample_account) (repr10 (st_risk_per_trade sample_settings))
     * (1 + 11 / 10 ^ 28) + 1 / 200"
  by (rule paper_max_loss_within_budget [OF sample_validated])
    (simp_all add: sample_validation_def vr_default_def sample_settings_def default_settings_def pyconst)

text \<open>
  A refusal never touches positions, balance or history: it returns the account unchanged,
  halted, or with a cooldown started; a halted account refuses every signal with
  \<open>KILL_SWITCH\<close> and stays as it is.
\<close>

theorem paper_refusal_frame:
  "let (a', v) = validate now s st a
   in (a' = a \<or> \<not> vr_approved v \<and>
         ((\<exists>r. a' = halt r a) \<or> a' = set_cooldown now COOLDOWN_MINUTES a)) \<and>
      (pa_is_halted a \<longrightarrow>
         a' = a \<and> \<not> vr_approved v \<and> vr_rejection_code v = Some ''KILL_SWITCH'')"
proof -
  obtain a' v where V: "validate now s st a = (a', v)" by (cases rule: prod.exhaust)
  show ?thesis
    using validate_frames [OF V] validate_halted [of a now s st] unfolding V by auto
qed

theorem paper_refusal_frame_witness:
  "vr_rejection_code (snd (validate 0 sample_signal sample_settings
     (halt (ManualHalt ''stop'') sample_account))) = Some ''KILL_SWITCH''"
  using paper_refusal_frame [of 0 sample_signal sample_settings "halt (ManualHalt ''stop'') sample_account"]
  by (simp add: frames split_beta Let_def)

section \<open>Sessions\<close>

text \<open>
  C2. In every account a session reaches by any sequence of signals, ticks, manual and partial
  closes, price updates, halts and resumes, the dictionary is keyed by the positions' ids, no
  coin has two positions, no more are open than the plan and the user allow, and every one is
  open with a positive quantity, a leverage of at most 20, at most two additions and its stop
  and target on opposite sides.
\<close>

theorem paper_session_invariant:
  assumes "reachable st a"
  shows "distinct (map pp_coin (dict_values (pa_open_positions a))) \<and>
    distinct (map fst (pa_open_positions a)) \<and>
    open_positions_count a \<le> max 0 (min (st_max_concurrent_positions st)
                                       (get_or PLAN_MAX_POSITIONS (st_plan st) 1)) \<and>
    (\<forall>k p. get_position k a = Some p \<longrightarrow>
       pp_id p = k \<and> pp_is_open p \<and> 0 < pp_quantity p \<and> pp_leverage p \<le> 20 \<and>
       pp_dca_count p \<le> 2 \<and> levels_ordered (pp_direction p) (pp_take_profit p) (pp_stop_loss p))"
proof -
  have S: "session_ok st a" using assms by (rule reachable_session)
  then have "get_position k a = Some p \<Longrightarrow>
       pp_id p = k \<and> pp_is_open p \<and> 0 < pp_quantity p \<and> pp_leverage p \<le> 20 \<and>
       pp_dca_count p \<le> 2 \<and> levels_ordered (pp_direction p) (pp_take_profit p) (pp_stop_loss p)" for k p
    using book_okD [of "pa_open_positions a" k p]
    by (auto simp: session_ok_def get_position_def pos_ok_def MAX_DCA_COUNT_def SYSTEM_MAX_LEVERAGE_def)
  with S show ?thesis
    by (simp add: session_ok_def book_ok_def position_cap_def dict_values_def)
qed

lemma sample_reachable: "reachable sample_settings sample_opened"
proof -
  have "reachable sample_settings sample_account"
    using reachable.start [of sample_settings 0 10000]
    by (simp add: sample_account_def sample_settings_def default_settings_def)
  moreover have "step sample_settings sample_account sample_opened"
    using step.submit [of sample_account "''p1''" sample_settings 0 "''t1''" sample_signal]
    by (simp add: sample_submit sample_account_facts)
  ultimately show ?thesis by (rule reachable.next_state)
qed

theorem paper_session_invariant_witness:
  "get_position ''p1'' sample_opened = Some sample_position \<and> pp_leverage sample_position \<le> 20"
  using paper_session_invariant [OF sample_reachable]
  by (simp add: get_position_def sample_opened_def)

text \<open>What a tick does to the position under a key, and the reason of a close.\<close>

definition ticked :: "string \<Rightarrow> rat \<Rightarrow> paper_position \<Rightarrow> paper_position option" where
  "ticked coin price p =
     (if pp_coin p \<noteq> coin then Some p else if exit_due p price then None
      else Some (p\<lparr>pp_current_price := price\<rparr>))"

definition exit_reason :: "rat \<Rightarrow> paper_position \<Rightarrow> string" where
  "exit_reason price p =
     (if (if pp_direction p = LONG then pp_take_profit p \<le> price else price \<le> pp_take_profit p)
      then ''tp_hit'' else ''sl_hit'')"

definition closes_of :: "int \<Rightarrow> rat \<Rightarrow> paper_position \<Rightarrow> paper_trade_record \<Rightarrow> bool" where
  "closes_of now price p t \<longleftrightarrow> tr_position_id t = pp_id p \<and> tr_coin t = pp_coin p \<and> tr_quantity t = pp_quantity p \<and>
     tr_close_price t = price \<and> tr_close_reason t = exit_reason price p \<and> \<not> tr_is_partial t \<and> tr_closed_at t = now"

lemma update_price_open:
  "pp_is_open p \<Longrightarrow> update_price p c =
     (p\<lparr>pp_current_price := c\<rparr>, if exit_due p c then Some (exit_reason c p) else None)"
  by (simp add: update_price_def exit_due_def exit_reason_def)

lemma tick_loop_exact:
  assumes "book_ok (pa_open_positions a)"
    "\<forall>p\<in>set ps. map_of (pa_open_positions a) (pp_id p) = Some p" "distinct (map pp_id ps)"
    "tick_loop now tids coin price st ps recs a = (a', Inr out)"
  shows "(\<forall>k. map_of (pa_open_positions a') k =
       (if k \<in> pp_id ` set ps then Option.bind (map_of (pa_open_positions a) k) (ticked coin price)
        else map_of (pa_open_positions a) k)) \<and>
    (\<exists>new. out = recs @ new \<and> pa_trade_history a' = pa_trade_history a @ new \<and>
       list_all2 (closes_of now price) (filter (\<lambda>p. pp_coin p = coin \<and> exit_due p price) ps) new)"
  using assms
proof (induction ps arbitrary: recs a)
  case (Cons p ps)
  have p: "map_of (pa_open_positions a) (pp_id p) = Some p" using Cons.prems by simp
  have d: "distinct (map pp_id ps)" "\<forall>q\<in>set ps. pp_id q \<noteq> pp_id p"
    using Cons.prems(3) by (auto simp: image_iff)
  note P = book_okD [OF Cons.prems(1) p]
  let ?p1 = "p\<lparr>pp_current_price := price\<rparr>"
  let ?a1 = "add_position ?p1 a"
  show ?case
  proof (cases "pp_coin p = coin")
    case False
    then show ?thesis using Cons.IH [OF Cons.prems(1) _ d(1)] Cons.prems p d(2) by (auto simp: ticked_def)
  next
    case True
    note U = update_price_open [OF P(3), of price]
    have "pos_ok (fst (update_price p price))" using P(2) by simp
    then have "pos_ok ?p1" by (simp add: U)
    then have ok1: "book_ok (pa_open_positions ?a1)"
      using Cons.prems(1) p P by (auto simp: frames intro!: book_update)
    have rest: "\<forall>q\<in>set ps. map_of (pa_open_positions ?a1) (pp_id q) = Some q"
      using Cons.prems(2) d(2) by (simp add: frames update_conv')
    have k1: "map_of (pa_open_positions ?a1) k = (if k = pp_id p then Some ?p1 else map_of (pa_open_positions a) k)" for k
      by (simp add: frames update_conv')
    show ?thesis
    proof (cases "exit_due p price")
      case False
      then have e: "tick_loop now tids coin price st ps recs ?a1 = (a', Inr out)"
        using Cons.prems(4) True U by simp
      show ?thesis
        using Cons.IH [OF ok1 rest d(1) e] False True p d(2) by (auto simp: ticked_def frames update_conv')
    next
      case due: True
      obtain a2 y where C: "close_position now (tids (pp_id p)) ?p1 price (exit_reason price p) st ?a1 = (a2, y)"
        by (cases rule: prod.exhaust)
      then obtain p2 t where y: "y = Inr (p2, t)"
        and e: "tick_loop now tids coin price st ps (recs @ [t]) a2 = (a', Inr out)"
        using Cons.prems(4) True U due by (cases y) auto
      note C2 = C [unfolded y]
      note B = close_position_book [OF C2] and T = close_position_Inr [OF C2]
      have ok2: "book_ok (pa_open_positions a2)" unfolding B by (rule book_delete [OF ok1])
      have k2: "map_of (pa_open_positions a2) k = (if k = pp_id p then None else map_of (pa_open_positions a) k)" for k
        unfolding B using k1 [of k] by (simp add: frames delete_conv')
      have rest2: "\<forall>q\<in>set ps. map_of (pa_open_positions a2) (pp_id q) = Some q"
        using Cons.prems(2) d(2) by (simp add: k2)
      have t: "closes_of now price p t" using T by (simp add: closes_of_def)
      have h: "pa_trade_history a2 = pa_trade_history a @ [t]" using T(1) by (simp add: frames)
      show ?thesis
        using Cons.IH [OF ok2 rest2 d(1) e] due True p d(2) t h by (auto simp: k2 ticked_def [abs_def])
    qed
  qed
qed simp

text \<open>
  C9. A tick of a coin that returns closes exactly what is due: under every key of the book a position
  of another coin is as it was, a position of the coin that reached its stop or target is gone, and one
  that reached neither is there with nothing but its current price changed; no key is new. The records
  returned are the ones appended to the history: one for every position that was due, in the order
  of the book, a full close of its quantity at that price, for \<open>tp_hit\<close> when the target was reached and
  for \<open>sl_hit\<close> otherwise.
\<close>

theorem paper_tick_complete:
  assumes "reachable st a" "tick now tids coin price st a = (a', Inr recs)"
  shows "(\<forall>k. map_of (pa_open_positions a') k =
      (case map_of (pa_open_positions a) k of None \<Rightarrow> None
       | Some p \<Rightarrow> if pp_coin p \<noteq> coin then Some p else if exit_due p price then None
                  else Some (p\<lparr>pp_current_price := price\<rparr>))) \<and>
    pa_trade_history a' = pa_trade_history a @ recs \<and>
    list_all2 (\<lambda>p t. tr_position_id t = pp_id p \<and> tr_coin t = coin \<and> tr_quantity t = pp_quantity p \<and>
        tr_close_price t = price \<and> \<not> tr_is_partial t \<and> tr_closed_at t = now \<and>
        tr_close_reason t =
          (if (if pp_direction p = LONG then pp_take_profit p \<le> price else price \<le> pp_take_profit p)
           then ''tp_hit'' else ''sl_hit''))
      (filter (\<lambda>p. pp_coin p = coin \<and> exit_due p price) (dict_values (pa_open_positions a))) recs"
proof -
  have B: "book_ok (pa_open_positions a)"
    using reachable_session [OF assms(1)] by (simp add: session_ok_def)
  note S = book_snapshot [OF B]
  from tick_loop_exact [OF B S assms(2) [unfolded tick_def]]
  have book: "map_of (pa_open_positions a') k =
       (if k \<in> pp_id ` set (dict_values (pa_open_positions a))
        then Option.bind (map_of (pa_open_positions a) k) (ticked coin price) else map_of (pa_open_positions a) k)"
    and hist: "pa_trade_history a' = pa_trade_history a @ recs"
    and closes: "list_all2 (closes_of now price)
      (filter (\<lambda>p. pp_coin p = coin \<and> exit_due p price) (dict_values (pa_open_positions a))) recs" for k
    by auto
  have "k \<in> pp_id ` set (dict_values (pa_open_positions a))" if "map_of (pa_open_positions a) k = Some p" for k p
    using book_okD(1) [OF B that] that by (force simp: dict_values_def dest: map_of_SomeD)
  then have "map_of (pa_open_positions a') k = (case map_of (pa_open_positions a) k of None \<Rightarrow> None
       | Some p \<Rightarrow> if pp_coin p \<noteq> coin then Some p else if exit_due p price then None
                  else Some (p\<lparr>pp_current_price := price\<rparr>))" for k
    using book [of k] by (cases "map_of (pa_open_positions a) k") (auto simp: ticked_def)
  moreover have "list_all2 (\<lambda>p t. tr_position_id t = pp_id p \<and> tr_coin t = coin \<and> tr_quantity t = pp_quantity p \<and>
        tr_close_price t = price \<and> \<not> tr_is_partial t \<and> tr_closed_at t = now \<and>
        tr_close_reason t =
          (if (if pp_direction p = LONG then pp_take_profit p \<le> price else price \<le> pp_take_profit p)
           then ''tp_hit'' else ''sl_hit''))
      (filter (\<lambda>p. pp_coin p = coin \<and> exit_due p price) (dict_values (pa_open_positions a))) recs"
    by (rule list.rel_mono_strong [OF closes]) (simp add: closes_of_def exit_reason_def)
  ultimately show ?thesis using hist by blast
qed

theorem paper_tick_complete_witness:
  "pa_trade_history sample_closed = [sample_trade] \<and> tr_close_reason sample_trade \<in> {''tp_hit'', ''sl_hit''}"
  using paper_tick_complete [OF sample_reachable sample_tick]
  by (auto simp: sample_opened_def sample_account_facts split: if_splits)

text \<open>
  A partial close takes a positive quantity strictly smaller than the position's, leaves
  the exact difference open under the same id, coin, direction and exits, and books one
  partial record for it.
\<close>

theorem paper_partial_close_exact:
  assumes "reachable st a" "is_f64 ratio"
    "engine_partial_close now tid pid price ratio st a = (a', Inr (Some (p', t)))"
  shows "\<exists>p. get_position pid a = Some p \<and> get_position pid a' = Some p' \<and>
    0 < tr_quantity t \<and> tr_quantity t < pp_quantity p \<and>
    pp_quantity p' = pp_quantity p - tr_quantity t \<and> pp_is_open p' \<and>
    pp_coin p' = pp_coin p \<and> pp_direction p' = pp_direction p \<and>
    pp_take_profit p' = pp_take_profit p \<and> pp_stop_loss p' = pp_stop_loss p \<and>
    pa_trade_history a' = pa_trade_history a @ [t]"
proof -
  obtain p where p: "get_position pid a = Some p" "partial_close now tid p price ratio st a = (a', Inr (p', t))"
    using assms(3) by (auto simp: engine_partial_close_def split: option.splits if_splits prod.splits sum.splits)
  note P = partial_close_Inr [OF p(2)]
  have B: "book_ok (pa_open_positions a)" "map_of (pa_open_positions a) pid = Some p"
    using reachable_session [OF assms(1)] p(1) by (auto simp: session_ok_def get_position_def)
  note K = book_okD [OF B]
  have q: "is_dec (pp_quantity p)" "0 < pp_quantity p" using K(2) by (simp_all add: pos_ok_def)
  note Q = partial_quantity [OF q assms(2) P(4) P(6,5)]
  obtain n where "a' = add_position p' (add_trade t (credit_pnl n a))" using P(1) by blast
  then show ?thesis using p(1) P Q K(1)
    by (auto simp: get_position_def frames update_conv' pp_is_open_def)
qed

theorem paper_partial_close_exact_witness:
  "0 < tr_quantity sample_half_trade \<and> tr_quantity sample_half_trade < pp_quantity sample_position"
proof -
  obtain a where a: "engine_partial_close 60000000 ''t1'' ''p1'' 110 (1 / 2) sample_settings
      sample_opened = (a, Inr (Some (sample_half, sample_half_trade)))"
    using sample_partial by blast
  show ?thesis
    using paper_partial_close_exact [OF sample_reachable half_facts(1) a]
    by (simp add: get_position_def sample_opened_def)
qed

lemma norm_exponent_pw: "norm_exponent (pw 10 k) = k"
proof -
  have "pw 10 (ilog 10 (pw 10 k)) \<le> pw 10 k" "pw 10 k < pw 10 (ilog 10 (pw 10 k) + 1)"
    using ilog_bounds [of 10 "pw 10 k"] by simp_all
  then have "ilog 10 (pw 10 k) \<le> k" "k < ilog 10 (pw 10 k) + 1"
    using pw_mono_iff [of 10 k "ilog 10 (pw 10 k) + 1"] pw_mono [of 10 "k + 1" "ilog 10 (pw 10 k)"]
    by (force simp: pw_add pw_1)+
  then have "ilog 10 (pw 10 k) = k" by simp
  moreover have "[0..<28] = 0 # [1..<28]" by (simp add: upt_rec)
  ultimately show ?thesis
    by (simp add: norm_exponent_def is_integral_def Let_def flip: pw_add)
qed

text \<open>
  A position whose quantity is a power of ten (1 BTC, 0.1 BTC, 0.001 BTC) can never be partly
  closed: the close quantity is rounded down to the place of the quantity's only significant
  digit, which leaves nothing, and every ratio raises \<open>ValueError\<close>.
\<close>

theorem paper_partial_close_power_of_ten:
  assumes "pp_is_open p" "pp_quantity p = pw 10 k" "is_f64 ratio" "0 < ratio" "ratio < 1"
  shows "partial_close now tid p price ratio st a = (a, Inl ValueError)"
proof -
  let ?x = "dmul (pw 10 k) (repr10 ratio) * pw 10 (- k)"
  have r: "0 < repr10 ratio" using assms(3,4) by (simp add: repr10_sign)
  have "dmul (pw 10 k) (repr10 ratio) < pw 10 k" using assms(3,5) by (intro dmul_ratio_less) auto
  then have "?x < pw 10 k * pw 10 (- k)" by (intro mult_strict_right_mono) auto
  also have "pw 10 k * pw 10 (- k) = 1" by (simp flip: pw_add)
  finally have x: "?x < 1" .
  have "0 \<le> ?x" using r by (simp add: dmul_def)
  with x have "rdown ?x = 0" by (simp add: rdown_def floor_eq_iff)
  then have "quantize rdown (- norm_exponent (pp_quantity p)) (dmul (pp_quantity p) (repr10 ratio)) = Inr 0"
    unfolding assms(2) norm_exponent_pw by (simp add: quantize_def)
  then show ?thesis using assms(1,4,5) by (simp add: partial_close_def)
qed

theorem paper_partial_close_power_of_ten_witness:
  "partial_close 0 ''t'' (sample_position\<lparr>pp_quantity := 1\<rparr>) 110 (1 / 2) sample_settings sample_opened
     = (sample_opened, Inl ValueError)"
  by (rule paper_partial_close_power_of_ten [where k = 0])
    (simp_all add: pp_is_open_def sample_position_def half_facts)

lemma streak_refuses:
  "3 \<le> consecutive_losses a \<Longrightarrow> \<not> vr_approved (snd (validate now s st a))"
  using validate_approval_ok [of now s st a "fst (validate now s st a)" "snd (validate now s st a)"]
  by (auto simp: approval_ok_def CONSECUTIVE_LOSS_COOLDOWN_def)

definition locked_out :: "paper_account \<Rightarrow> bool" where
  "locked_out a \<longleftrightarrow> pa_open_positions a = [] \<and> 3 \<le> consecutive_losses a"

lemma locked_out_cong:
  "pa_open_positions b = pa_open_positions a \<Longrightarrow> pa_trade_history b = pa_trade_history a \<Longrightarrow>
   locked_out b = locked_out a"
  by (simp add: locked_out_def consecutive_losses_def)

lemma locked_out_step: "step st a b \<Longrightarrow> locked_out a \<Longrightarrow> locked_out b"
proof (induction rule: step.induct)
  case (submit a pid now tid s)
  obtain a1 v where V: "validate now s st a = (a1, v)" by (cases rule: prod.exhaust)
  have "\<not> vr_approved v" using streak_refuses [of a now s st] submit V by (simp add: locked_out_def)
  then have "fst (submit_signal now pid tid s st a) = a1" using V by (simp add: submit_signal_def)
  then show ?case using locked_out_cong [of a1 a] validate_keeps [OF V] submit by simp
next
  case (halt a r)
  then show ?case using locked_out_cong [of "halt (ManualHalt r) a" a] by (simp add: frames)
next
  case (resume a)
  then show ?case using locked_out_cong [of "resume a" a] by (simp add: frames)
qed (simp_all add: locked_out_def tick_def engine_close_def engine_partial_close_def
    get_position_def update_prices_def consecutive_losses_def)

text \<open>
  C12. The loss-streak lockout: once no position is open and the last three or more trades lost, no
  sequence of operations, resumes included, ever brings back an approval: every signal is
  refused and the streak cannot change, because only a closed trade could end it.
\<close>

theorem paper_loss_streak_lockout:
  assumes "(step st)\<^sup>*\<^sup>* a b" "pa_open_positions a = []" "3 \<le> consecutive_losses a"
  shows "pa_open_positions b = [] \<and> consecutive_losses b \<ge> 3 \<and>
    (\<forall>now s. \<not> vr_approved (snd (validate now s st b)))"
proof -
  have "locked_out a" using assms(2,3) by (simp add: locked_out_def)
  with assms(1) have "locked_out b" by (induction rule: rtranclp_induct) (blast intro: locked_out_step)+
  then show ?thesis using streak_refuses by (simp add: locked_out_def)
qed

theorem paper_loss_streak_lockout_witness:
  "\<not> vr_approved (snd (validate 0 sample_signal sample_settings
      (resume (sample_account\<lparr>pa_trade_history := replicate 3 (sample_trade\<lparr>tr_net_pnl := - 1\<rparr>)\<rparr>))))"
proof -
  let ?a = "sample_account\<lparr>pa_trade_history := replicate 3 (sample_trade\<lparr>tr_net_pnl := - 1\<rparr>)\<rparr>"
  have "(step sample_settings)\<^sup>*\<^sup>* ?a (resume ?a)" by (intro r_into_rtranclp step.resume)
  moreover have "pa_open_positions ?a = []" "3 \<le> consecutive_losses ?a"
    by (simp_all add: sample_account_facts consecutive_losses_def numeral_3_eq_3)
  ultimately show ?thesis using paper_loss_streak_lockout by blast
qed

section \<open>Entries\<close>

lemma ddiv_1_20:
  assumes "1 \<le> lev" "lev \<le> (20 :: int)"
  shows "1 / 20 \<le> ddiv 1 (of_int lev)" "ddiv 1 (of_int lev) \<le> 1"
proof -
  have l: "(1 :: rat) \<le> of_int lev" "(of_int lev :: rat) \<le> 20" using assms by simp_all
  have "(1 / 20 :: rat) \<le> 1 / of_int lev" using l by (intro divide_left_mono) auto
  then show "1 / 20 \<le> ddiv 1 (of_int lev)"
    unfolding ddiv_def by (intro le_dec_of_le) (simp_all add: is_dec_def dec_eval)
  have "1 / of_int lev \<le> (1 :: rat)" using l by simp
  then show "ddiv 1 (of_int lev) \<le> 1"
    unfolding ddiv_def by (intro dec_le_of_le) (simp_all add: is_dec_def)
qed

lemma long_side:
  "0 < e \<Longrightarrow> 1 / 20 \<le> iv \<Longrightarrow> dmul e (dadd (dsub 1 iv) MAINTENANCE_MARGIN_RATE) < e"
proof -
  assume e: "0 < e" and i: "1 / 20 \<le> iv"
  have "dsub 1 iv \<le> 19 / 20"
    unfolding dsub_def using i by (intro dec_le_of_le) (simp_all add: is_dec_def dec_eval)
  then have "dadd (dsub 1 iv) MAINTENANCE_MARGIN_RATE \<le> 954 / 1000"
    unfolding dadd_def MAINTENANCE_MARGIN_RATE_def by (intro dec_le_of_le) (simp_all add: is_dec_def dec_eval)
  then have "e * dadd (dsub 1 iv) MAINTENANCE_MARGIN_RATE \<le> e * (954 / 1000)"
    using e by (intro mult_left_mono) auto
  then have "dmul e (dadd (dsub 1 iv) MAINTENANCE_MARGIN_RATE) \<le> dec (e * (954 / 1000))"
    unfolding dmul_def by (rule dec_mono)
  also have "\<dots> \<le> e * (954 / 1000) * (1 + 5 / 10 ^ 28)" using e by (intro dec_le_err) simp
  also have "\<dots> < e" using e by simp
  finally show ?thesis .
qed

lemma short_side:
  "0 < e \<Longrightarrow> 1 / 20 \<le> iv \<Longrightarrow> e < dmul e (dsub (dadd 1 iv) MAINTENANCE_MARGIN_RATE)"
proof -
  assume e: "0 < e" and i: "1 / 20 \<le> iv"
  have "21 / 20 \<le> dadd 1 iv"
    unfolding dadd_def using i by (intro le_dec_of_le) (simp_all add: is_dec_def dec_eval)
  then have "1046 / 1000 \<le> dsub (dadd 1 iv) MAINTENANCE_MARGIN_RATE"
    unfolding dsub_def MAINTENANCE_MARGIN_RATE_def by (intro le_dec_of_le) (simp_all add: is_dec_def dec_eval)
  then have "e * (1046 / 1000) \<le> e * dsub (dadd 1 iv) MAINTENANCE_MARGIN_RATE"
    using e by (intro mult_left_mono) auto
  then have "dec (e * (1046 / 1000)) \<le> dmul e (dsub (dadd 1 iv) MAINTENANCE_MARGIN_RATE)"
    unfolding dmul_def by (rule dec_mono)
  moreover have "e < e * (1046 / 1000) * (1 - 5 / 10 ^ 28)" using e by simp
  moreover have "e * (1046 / 1000) * (1 - 5 / 10 ^ 28) \<le> dec (e * (1046 / 1000))"
    using e by (intro dec_ge_err) simp
  ultimately show ?thesis by linarith
qed

text \<open>
  The approximated liquidation price of a position lies on its loss side: below the entry
  for a LONG and above it for a SHORT, for every leverage the system allows, and a LONG's
  never falls, a SHORT's never rises, when the leverage rises.
\<close>

theorem paper_liquidation_on_loss_side:
  assumes "0 < entry" "1 \<le> lev" "lev \<le> SYSTEM_MAX_LEVERAGE"
  shows "\<exists>liq. calc_liquidation_price d entry lev = Inr liq \<and>
    (if d = LONG then liq < entry else entry < liq) \<and>
    (\<forall>lev' liq'. lev \<le> lev' \<and> lev' \<le> SYSTEM_MAX_LEVERAGE \<and>
       calc_liquidation_price d entry lev' = Inr liq' \<longrightarrow> (if d = LONG then liq \<le> liq' else liq' \<le> liq))"
proof -
  have l: "1 \<le> lev" "lev \<le> 20" using assms by (simp_all add: SYSTEM_MAX_LEVERAGE_def)
  have m: "ddiv 1 (of_int lev') \<le> ddiv 1 (of_int lev)" if "lev \<le> lev'" for lev' :: int
    unfolding ddiv_def using that l(1) by (intro dec_mono divide_left_mono) auto
  have c: "calc_liquidation_price d entry k = Inr (if d = LONG
            then dmul entry (dadd (dsub 1 (ddiv 1 (of_int k))) MAINTENANCE_MARGIN_RATE)
            else dmul entry (dsub (dadd 1 (ddiv 1 (of_int k))) MAINTENANCE_MARGIN_RATE))"
    if "1 \<le> k" for k using that by (simp add: calc_liquidation_price_def ddivE_def)
  have mono: "(if d = LONG then dmul entry (dadd (dsub 1 x) MAINTENANCE_MARGIN_RATE)
            else dmul entry (dsub (dadd 1 y) MAINTENANCE_MARGIN_RATE)) \<le>
          (if d = LONG then dmul entry (dadd (dsub 1 y) MAINTENANCE_MARGIN_RATE)
            else dmul entry (dsub (dadd 1 x) MAINTENANCE_MARGIN_RATE))" if "y \<le> x" for x y
    using that assms(1) unfolding dec_ops
    by (auto intro!: dec_mono mult_left_mono)
  have s: "(if d = LONG
            then dmul entry (dadd (dsub 1 (ddiv 1 (of_int lev))) MAINTENANCE_MARGIN_RATE) < entry
            else entry < dmul entry (dsub (dadd 1 (ddiv 1 (of_int lev))) MAINTENANCE_MARGIN_RATE))"
    using long_side [OF assms(1) ddiv_1_20(1) [OF l]] short_side [OF assms(1) ddiv_1_20(1) [OF l]] by simp
  show ?thesis
  proof (intro exI conjI allI impI)
    show "calc_liquidation_price d entry lev = Inr (if d = LONG
            then dmul entry (dadd (dsub 1 (ddiv 1 (of_int lev))) MAINTENANCE_MARGIN_RATE)
            else dmul entry (dsub (dadd 1 (ddiv 1 (of_int lev))) MAINTENANCE_MARGIN_RATE))"
      using c [OF l(1)] .
  next
    fix lev' liq'
    assume "lev \<le> lev' \<and> lev' \<le> SYSTEM_MAX_LEVERAGE \<and> calc_liquidation_price d entry lev' = Inr liq'"
    then show "if d = LONG
      then (if d = LONG
            then dmul entry (dadd (dsub 1 (ddiv 1 (of_int lev))) MAINTENANCE_MARGIN_RATE)
            else dmul entry (dsub (dadd 1 (ddiv 1 (of_int lev))) MAINTENANCE_MARGIN_RATE)) \<le> liq'
      else liq' \<le> (if d = LONG
            then dmul entry (dadd (dsub 1 (ddiv 1 (of_int lev))) MAINTENANCE_MARGIN_RATE)
            else dmul entry (dsub (dadd 1 (ddiv 1 (of_int lev))) MAINTENANCE_MARGIN_RATE))"
      using c [of lev'] l mono [OF m [of lev']] by (auto split: if_splits)
  qed (use s in auto)
qed

theorem paper_liquidation_on_loss_side_witness:
  "\<exists>liq. calc_liquidation_price SHORT 100 5 = Inr liq \<and> 100 < liq"
  using paper_liquidation_on_loss_side [of 100 5 SHORT] by (auto simp: SYSTEM_MAX_LEVERAGE_def)

end
