(* ===== verification/KillSwitch.thy ===== *)
theory KillSwitch
  imports RiskValidators
begin

text \<open>
  \<open>agents/risk/kill_switch.py\<close> and the two checks of \<open>agents/risk/validators.py\<close> that read Redis:
  the global and per-user kill switches, the halt with the period its trigger gives, and the
  cooldown. Every method is an action on the server's state; the server \<open>R\<close> is a parameter.
  The Korean reason text of a global halt is represented by \<open>system\<close>.
\<close>

section \<open>Triggers\<close>

datatype halt_trigger =
    T_DAILY_LOSS_LIMIT | T_WEEKLY_LOSS_LIMIT | T_CONSECUTIVE_LOSSES | T_API_FAILURES
  | T_LIQUIDATION_EVENT | T_SYSTEM_ERROR | T_MANUAL

definition trigger_value :: "halt_trigger \<Rightarrow> string" where
  "trigger_value t = (case t of
      T_DAILY_LOSS_LIMIT \<Rightarrow> ''DAILY_LOSS_LIMIT''
    | T_WEEKLY_LOSS_LIMIT \<Rightarrow> ''WEEKLY_LOSS_LIMIT''
    | T_CONSECUTIVE_LOSSES \<Rightarrow> ''CONSECUTIVE_LOSSES''
    | T_API_FAILURES \<Rightarrow> ''API_FAILURES''
    | T_LIQUIDATION_EVENT \<Rightarrow> ''LIQUIDATION_EVENT''
    | T_SYSTEM_ERROR \<Rightarrow> ''SYSTEM_ERROR''
    | T_MANUAL \<Rightarrow> ''MANUAL'')"

definition HALT_DURATION :: "halt_trigger \<Rightarrow> string" where
  "HALT_DURATION t = (case t of
      T_DAILY_LOSS_LIMIT \<Rightarrow> ''midnight_utc''
    | T_WEEKLY_LOSS_LIMIT \<Rightarrow> ''next_monday_utc''
    | T_CONSECUTIVE_LOSSES \<Rightarrow> ''manual_resume''
    | T_API_FAILURES \<Rightarrow> ''30_minutes''
    | T_LIQUIDATION_EVENT \<Rightarrow> ''manual_resume''
    | T_SYSTEM_ERROR \<Rightarrow> ''manual_resume''
    | T_MANUAL \<Rightarrow> ''manual_resume'')"

definition HALT_CLOSES_EXISTING :: "halt_trigger \<Rightarrow> bool" where
  "HALT_CLOSES_EXISTING t \<longleftrightarrow> t = T_LIQUIDATION_EVENT \<or> t = T_SYSTEM_ERROR"

text \<open>The end of a halt: an instant, or \<open>None\<close> for the text \<open>manual_resume\<close>.\<close>

definition until_midnight_utc :: "int \<Rightarrow> int" where
  "until_midnight_utc now = date_of now * day_us + day_us"

definition until_next_monday_utc :: "int \<Rightarrow> int" where
  "until_next_monday_utc now =
     (let days = (7 - weekday (date_of now)) mod 7;
          days_until_monday = (if days = 0 then 7 else days)
      in (date_of now + days_until_monday) * day_us)"

definition until_30_minutes :: "int \<Rightarrow> int" where
  "until_30_minutes now = now + 30 * minute_us"

definition compute_until :: "int \<Rightarrow> halt_trigger \<Rightarrow> int option" where
  "compute_until now trigger =
     (if HALT_DURATION trigger = ''midnight_utc'' then Some (until_midnight_utc now)
      else if HALT_DURATION trigger = ''next_monday_utc'' then Some (until_next_monday_utc now)
      else if HALT_DURATION trigger = ''30_minutes'' then Some (until_30_minutes now)
      else None)"

definition until_json :: "int option \<Rightarrow> jval" where
  "until_json u = (case u of None \<Rightarrow> JStr ''manual_resume'' | Some t \<Rightarrow> JIso t)"

text \<open>\<open>int((end_dt - now).total_seconds())\<close>.\<close>

definition whole_seconds :: "int \<Rightarrow> int" where
  "whole_seconds us = rdown (fdiv (of_int us) (of_int second_us))"

section \<open>The manager\<close>

record halt_state =
  hs_is_halted :: bool
  hs_trigger :: "jval"
  hs_reason :: "jval"
  hs_until :: "jval"
  hs_is_global :: bool

definition no_halt :: halt_state where
  "no_halt = \<lparr>hs_is_halted = False, hs_trigger = JNull, hs_reason = JNull, hs_until = JNull,
              hs_is_global = False\<rparr>"

definition kill_payload :: "int \<Rightarrow> string \<Rightarrow> rvalue" where
  "kill_payload now reason = JObj [(''reason'', JStr reason), (''activated_at'', JIso now)]"

definition activate_global :: "'s redis \<Rightarrow> int \<Rightarrow> string \<Rightarrow> ('s, unit) act" where
  "activate_global R now reason = r_set R now GlobalKill (kill_payload now reason) None"

definition deactivate_global :: "'s redis \<Rightarrow> ('s, unit) act" where
  "deactivate_global R = r_delete R [GlobalKill]"

definition is_global_active :: "'s redis \<Rightarrow> int \<Rightarrow> ('s, bool) act" where
  "is_global_active R now = act_read (r_exists R now GlobalKill)"

definition activate_user :: "'s redis \<Rightarrow> int \<Rightarrow> string \<Rightarrow> string \<Rightarrow> ('s, unit) act" where
  "activate_user R now user_id reason =
     r_set R now (UserKill user_id) (kill_payload now reason) None"

definition deactivate_user :: "'s redis \<Rightarrow> string \<Rightarrow> ('s, unit) act" where
  "deactivate_user R user_id = r_delete R [UserKill user_id]"

definition is_user_active :: "'s redis \<Rightarrow> int \<Rightarrow> string \<Rightarrow> ('s, bool) act" where
  "is_user_active R now user_id = act_read (r_exists R now (UserKill user_id))"

definition halt_payload :: "int \<Rightarrow> halt_trigger \<Rightarrow> string \<Rightarrow> rvalue" where
  "halt_payload now trigger extra_reason =
     JObj [(''trigger'', JStr (trigger_value trigger)), (''reason'', JStr extra_reason),
           (''until'', until_json (compute_until now trigger)), (''halted_at'', JIso now),
           (''closes_existing'', JBool (HALT_CLOSES_EXISTING trigger))]"

definition halt_ttl :: "int \<Rightarrow> halt_trigger \<Rightarrow> int option" where
  "halt_ttl now trigger =
     map_option (\<lambda>end_dt. max 1 (whole_seconds (end_dt - now))) (compute_until now trigger)"

definition halt_trading ::
    "'s redis \<Rightarrow> int \<Rightarrow> string \<Rightarrow> halt_trigger \<Rightarrow> string \<Rightarrow> ('s, halt_state) act" where
  "halt_trading R now user_id trigger extra_reason =
     act_bind (r_set R now (UserHalt user_id) (halt_payload now trigger extra_reason)
                 (halt_ttl now trigger)) (\<lambda>_.
     act_return \<lparr>hs_is_halted = True, hs_trigger = JStr (trigger_value trigger),
                 hs_reason = JStr extra_reason,
                 hs_until = until_json (compute_until now trigger), hs_is_global = False\<rparr>)"

definition resume_trading :: "'s redis \<Rightarrow> string \<Rightarrow> ('s, unit) act" where
  "resume_trading R user_id =
     r_delete R [UserHalt user_id, UserKill user_id, UserCooldown user_id]"

definition get_halt_state :: "'s redis \<Rightarrow> int \<Rightarrow> string \<Rightarrow> ('s, halt_state) act" where
  "get_halt_state R now user_id =
     act_bind (is_global_active R now) (\<lambda>global.
     if global
     then act_return \<lparr>hs_is_halted = True, hs_trigger = JStr ''GLOBAL'',
                      hs_reason = JStr ''system'', hs_until = JNull, hs_is_global = True\<rparr>
     else
     act_bind (is_user_active R now user_id) (\<lambda>user.
     if user
     then act_bind (act_read (r_get R now (UserKill user_id))) (\<lambda>raw.
          act_bind (act_read (\<lambda>_. case raw of None \<Rightarrow> Inr (JStr [])
                 | Some v \<Rightarrow> ebind (json_loads v) (\<lambda>d. Inr (jget d ''reason'' (JStr []))))) (\<lambda>reason.
          act_return \<lparr>hs_is_halted = True, hs_trigger = JStr ''MANUAL'', hs_reason = reason,
                      hs_until = JNull, hs_is_global = False\<rparr>))
     else
     act_bind (act_read (r_get R now (UserHalt user_id))) (\<lambda>raw.
     case raw of
       None \<Rightarrow> act_return no_halt
     | Some v \<Rightarrow>
         act_bind (act_read (\<lambda>_. json_loads v)) (\<lambda>d.
         act_return \<lparr>hs_is_halted = True, hs_trigger = jget d ''trigger'' JNull,
                     hs_reason = jget d ''reason'' (JStr []), hs_until = jget d ''until'' JNull,
                     hs_is_global = False\<rparr>))))"

definition emergency_stop ::
    "'s redis \<Rightarrow> int \<Rightarrow> string \<Rightarrow> string \<Rightarrow> halt_trigger \<Rightarrow> ('s, halt_state) act" where
  "emergency_stop R now user_id reason trigger =
     act_bind (activate_user R now user_id reason) (\<lambda>_.
     halt_trading R now user_id trigger reason)"

definition kill_set_cooldown :: "'s redis \<Rightarrow> int \<Rightarrow> string \<Rightarrow> int \<Rightarrow> ('s, int) act" where
  "kill_set_cooldown R now user_id minutes =
     (let finish = now + minutes * minute_us
      in act_bind (r_set R now (UserCooldown user_id) (RawIso finish) (Some (minutes * 60))) (\<lambda>_.
         act_return finish))"

definition clear_cooldown :: "'s redis \<Rightarrow> string \<Rightarrow> ('s, unit) act" where
  "clear_cooldown R user_id = r_delete R [UserCooldown user_id]"

definition get_cooldown_end :: "'s redis \<Rightarrow> int \<Rightarrow> string \<Rightarrow> ('s, rvalue option) act" where
  "get_cooldown_end R now user_id = act_read (r_get R now (UserCooldown user_id))"

section \<open>The two checks that read the server\<close>

definition check_kill_switch :: "'s redis \<Rightarrow> int \<Rightarrow> string \<Rightarrow> ('s, bool \<times> reason) act" where
  "check_kill_switch R now user_id =
     act_bind (act_read (r_exists R now GlobalKill)) (\<lambda>global.
     if global then act_return (False, GlobalKillSwitch)
     else
     act_bind (act_read (r_exists R now (UserKill user_id))) (\<lambda>user.
     if user then act_return (False, UserKillSwitch)
     else
     act_bind (act_read (r_get R now (UserHalt user_id))) (\<lambda>halt_data.
     case halt_data of
       None \<Rightarrow> act_return (True, OK)
     | Some v \<Rightarrow>
         act_return (case json_loads v of
             Inr d \<Rightarrow> (False, TradingHalted (jget d ''trigger'' (JStr ''UNKNOWN''))
                                          (jget d ''until'' (JStr [])))
           | Inl e \<Rightarrow> (False, TradingHalted JNull JNull)))))"

text \<open>
  The cooldown key may hold anything; only a timestamp in the future blocks. A text that is not a
  timestamp is ignored (\<open>except ValueError: pass\<close>).
\<close>

definition check_consecutive_losses ::
    "'s redis \<Rightarrow> int \<Rightarrow> string \<Rightarrow> int \<Rightarrow> ('s, bool \<times> reason) act" where
  "check_consecutive_losses R now user_id consecutive_count =
     act_bind (act_read (r_get R now (UserCooldown user_id))) (\<lambda>cooldown_end.
     let cooling = (case cooldown_end of Some (RawIso t) \<Rightarrow> now < t | _ \<Rightarrow> False)
     in if cooling
        then act_return (False, CooldownUntil
               (case cooldown_end of Some (RawIso t) \<Rightarrow> t | _ \<Rightarrow> now))
        else if CONSECUTIVE_LOSS_HALT \<le> consecutive_count
        then act_return (False, ConsecutiveLosses consecutive_count)
        else if CONSECUTIVE_LOSS_COOLDOWN \<le> consecutive_count
        then act_bind (r_set R now (UserCooldown user_id) (RawIso (now + COOLDOWN_MINUTES * minute_us))
                         (Some (COOLDOWN_MINUTES * 60))) (\<lambda>_.
             act_return (False, ConsecutiveCooldown consecutive_count COOLDOWN_MINUTES))
        else act_return (True, OK))"

section \<open>Instants\<close>

lemma day_pos [simp]: "0 < day_us" by (simp add: day_us_def)

lemma date_bounds: "date_of t * day_us \<le> t" "t < date_of t * day_us + day_us"
proof -
  have "t = date_of t * day_us + t mod day_us" by (simp add: date_of_def)
  moreover have "0 \<le> t mod day_us" "t mod day_us < day_us" by simp_all
  ultimately show "date_of t * day_us \<le> t" "t < date_of t * day_us + day_us" by linarith+
qed

lemma date_of_midnight [simp]: "date_of (d * day_us) = d"
  by (simp add: date_of_def day_us_def)

lemma until_midnight:
  "now < until_midnight_utc now" "until_midnight_utc now \<le> now + day_us"
  "date_of (until_midnight_utc now) = date_of now + 1" "until_midnight_utc now mod day_us = 0"
proof -
  have e: "until_midnight_utc now = (date_of now + 1) * day_us"
    by (simp add: until_midnight_utc_def distrib_right)
  show "now < until_midnight_utc now" "until_midnight_utc now \<le> now + day_us"
    using date_bounds [of now] unfolding until_midnight_utc_def by linarith+
  show "date_of (until_midnight_utc now) = date_of now + 1" "until_midnight_utc now mod day_us = 0"
    unfolding e by simp_all
qed

lemma until_next_monday:
  "now < until_next_monday_utc now" "until_next_monday_utc now \<le> now + 7 * day_us"
  "weekday (date_of (until_next_monday_utc now)) = 0" "until_next_monday_utc now mod day_us = 0"
proof -
  let ?w = "weekday (date_of now)"
  define k where "k = (if (7 - ?w) mod 7 = 0 then 7 else (7 - ?w) mod 7)"
  have e: "until_next_monday_utc now = (date_of now + k) * day_us"
    by (simp add: until_next_monday_utc_def k_def Let_def)
  have k: "1 \<le> k" "k \<le> 7" "k = 7 - ?w"
    using weekday_range [of "date_of now"] unfolding k_def by presburger+
  have "day_us \<le> k * day_us" "k * day_us \<le> 7 * day_us" using k by simp_all
  then show "now < until_next_monday_utc now" "until_next_monday_utc now \<le> now + 7 * day_us"
    using date_bounds [of now] unfolding e distrib_right by linarith+
  show "weekday (date_of (until_next_monday_utc now)) = 0"
    unfolding e date_of_midnight using k(3) unfolding weekday_def by presburger
  show "until_next_monday_utc now mod day_us = 0" unfolding e by simp
qed

text \<open>The truncated seconds of a delta below 285 years are the floor of the delta.\<close>

lemma whole_seconds_eq:
  assumes "0 \<le> us" "us < 9 * 10 ^ 15"
  shows "whole_seconds us = us div 1000000"
proof -
  define n where "n = us div 1000000"
  let ?x = "of_int us / 1000000 :: rat"
  have us: "us = n * 1000000 + us mod 1000000" by (simp add: n_def)
  have m: "0 \<le> us mod 1000000" "us mod 1000000 \<le> 999999" by simp_all
  have "us < 9000000000000000" using assms(2) by simp
  then have "n < 9000000000" using us m by linarith
  moreover have "0 \<le> n" using assms(1) by (simp add: n_def)
  ultimately have n: "0 \<le> n" "n < 9 * 10 ^ 9" by simp_all
  have "n * 1000000 \<le> us" "us \<le> n * 1000000 + 999999" using us m by linarith+
  then have "of_int (n * 1000000) \<le> (of_int us :: rat)" "of_int us \<le> (of_int (n * 1000000 + 999999) :: rat)"
    by (simp_all only: of_int_le_iff)
  then have x: "of_int n \<le> ?x" "?x \<le> of_int n + 999999 / 1000000" by simp_all
  have lo: "of_int n \<le> f64 ?x"
    using n x by (intro le_f64_of_le) (simp_all add: is_f64_def f64_int)
  have "of_int us < (of_int 9000000000000000 :: rat)"
    using \<open>us < 9000000000000000\<close> by (simp only: of_int_less_iff)
  then have "?x / 2 ^ 53 < 1 / 1000000" by simp
  moreover have "\<bar>f64 ?x - ?x\<bar> \<le> ?x / 2 ^ 53" using f64_err [of ?x] assms(1) by simp
  ultimately have hi: "f64 ?x < of_int n + 1" using x(2) by linarith
  have "\<lfloor>f64 ?x\<rfloor> = n" using lo hi by (simp add: floor_eq_iff)
  moreover have "0 \<le> f64 ?x" using assms(1) by simp
  ultimately show ?thesis
    by (simp add: whole_seconds_def fdiv_def second_us_def rdown_def n_def)
qed

text \<open>A timed halt outlives every instant more than a second before its end.\<close>

lemma ttl_alive:
  assumes "now \<le> later" "later + second_us \<le> u" "u - now < 9 * 10 ^ 15"
  shows "alive now (Some (max 1 (whole_seconds (u - now)))) later"
proof -
  have u: "0 \<le> u - now" using assms by (simp add: second_us_def)
  have w: "whole_seconds (u - now) = (u - now) div 1000000"
    by (rule whole_seconds_eq [OF u assms(3)])
  have "u - now = (u - now) div 1000000 * 1000000 + (u - now) mod 1000000" by simp
  moreover have "(u - now) mod 1000000 < 1000000" by simp
  ultimately have "u - now < (u - now) div 1000000 * 1000000 + 1000000" by linarith
  moreover have "(u - now) div 1000000 * 1000000 \<le> max 1 ((u - now) div 1000000) * 1000000" by simp
  ultimately have "later < now + max 1 ((u - now) div 1000000) * 1000000"
    using assms(2) unfolding second_us_def by linarith
  then show ?thesis by (simp only: alive_def w option.case second_us_def)
qed

section \<open>Halts that hold\<close>

text \<open>The check never passes while the halt key is there.\<close>

lemma check_kill_switch_blocked:
  assumes "\<And>x. r_get R now (UserHalt u) s = Inr x \<Longrightarrow> x \<noteq> None"
  shows "snd (check_kill_switch R now u s) \<noteq> Inr (True, r)" "fst (check_kill_switch R now u s) = s"
  using assms
  by (auto simp: check_kill_switch_def act_read_bind split: sum.splits option.splits)

lemma check_kill_switch_exists:
  assumes "redis_laws R" "k = GlobalKill \<or> k = UserKill u"
    "\<And>x. r_get R now k s = Inr x \<Longrightarrow> x \<noteq> None" "\<exists>x. r_get R now k s = Inr x"
  shows "snd (check_kill_switch R now u s) \<noteq> Inr (True, r)"
proof -
  obtain x where x: "r_get R now k s = Inr x" "x \<noteq> None" using assms(3,4) by blast
  have "b" if "r_exists R now k s = Inr b" for b using redis_exists [OF assms(1) that x(1)] x(2) by simp
  then show ?thesis using assms(2)
    by (auto simp: check_kill_switch_def act_read_bind split: sum.splits option.splits)
qed

lemma halt_trading_set:
  assumes "halt_trading R now u t msg s = (s', Inr h)"
  shows "r_set R now (UserHalt u) (halt_payload now t msg) (halt_ttl now t) s = (s', Inr ())"
  using assms by (auto simp: halt_trading_def act_bind_Inr)

lemma halt_trading_blocks:
  assumes "redis_laws R" "halt_trading R now u t msg s = (s', Inr h)" "now \<le> later"
    "alive now (halt_ttl now t) later"
  shows "snd (check_kill_switch R later u s') \<noteq> Inr (True, r)"
proof (rule check_kill_switch_blocked)
  fix x
  assume "r_get R later (UserHalt u) s' = Inr x"
  from redis_get_set [OF assms(1) halt_trading_set [OF assms(2)] this] assms(4)
  show "x \<noteq> None" by simp
qed

text \<open>When a halt ends: the instant the trigger promises, or never.\<close>

lemma compute_until_cases:
  "compute_until now t =
     (case t of T_DAILY_LOSS_LIMIT \<Rightarrow> Some (until_midnight_utc now)
      | T_WEEKLY_LOSS_LIMIT \<Rightarrow> Some (until_next_monday_utc now)
      | T_API_FAILURES \<Rightarrow> Some (until_30_minutes now) | _ \<Rightarrow> None)"
  by (cases t) (simp_all add: compute_until_def HALT_DURATION_def)

lemma halt_ttl_alive:
  assumes "now \<le> later" "\<And>u. compute_until now t = Some u \<Longrightarrow> later + second_us \<le> u"
  shows "alive now (halt_ttl now t) later"
proof (cases "compute_until now t")
  case (Some u)
  have "u \<le> now + 7 * day_us"
    using Some until_midnight(2) [of now] until_next_monday(2) [of now]
    by (auto simp: compute_until_cases until_30_minutes_def minute_us_def day_us_def
        split: halt_trigger.splits)
  then have "u - now < 9 * 10 ^ 15" by (simp add: day_us_def)
  with assms Some show ?thesis by (simp add: halt_ttl_def ttl_alive)
qed (simp add: halt_ttl_def alive_def)

end
