(* ===== verification/DecisionModels.thy ===== *)
theory DecisionModels
  imports RiskValidators
begin

text \<open>
  \<open>agents/decision/constants.py\<close> and \<open>agents/decision/models.py\<close>: the thresholds and the data of
  the decision layer, and the run-time configuration that may override a threshold. Free-text
  reason lists of the results are not modelled.
\<close>

section \<open>Constants\<close>

definition DECISION_MAX_LEVERAGE :: int where "DECISION_MAX_LEVERAGE = 10"
definition DECISION_MAX_ENTRY_MARGIN_RATIO :: rat where "DECISION_MAX_ENTRY_MARGIN_RATIO = f64 0.05"
definition GLOBAL_MIN_RISK_REWARD_RATIO :: rat where "GLOBAL_MIN_RISK_REWARD_RATIO = 2"
definition MIN_EXPECTED_NET_PROFIT_PCT :: rat where "MIN_EXPECTED_NET_PROFIT_PCT = f64 0.001"
definition DECISION_MAX_SLIPPAGE_BPS :: rat where "DECISION_MAX_SLIPPAGE_BPS = 3"
definition DECISION_MAX_SPREAD_BPS :: rat where "DECISION_MAX_SPREAD_BPS = 5"
definition MARGIN_MODE :: string where "MARGIN_MODE = ''isolated''"
definition ALLOW_MARTINGALE :: bool where "ALLOW_MARTINGALE = False"
definition ALLOW_AVERAGING_DOWN :: bool where "ALLOW_AVERAGING_DOWN = False"
definition DECISION_TAKER_FEE_RATE :: rat where "DECISION_TAKER_FEE_RATE = f64 0.0005"
definition DEFAULT_SLIPPAGE_BPS :: rat where "DEFAULT_SLIPPAGE_BPS = 3"
definition MIN_LONG_SCORE :: rat where "MIN_LONG_SCORE = 75"
definition MIN_SHORT_SCORE :: rat where "MIN_SHORT_SCORE = 75"
definition MAX_RISK_SCORE :: rat where "MAX_RISK_SCORE = 55"
definition MIN_AI_REVIEW_CONFIDENCE :: rat where "MIN_AI_REVIEW_CONFIDENCE = f64 0.7"
definition REJECT_ON_CRITICAL_CONTRADICTION :: bool where "REJECT_ON_CRITICAL_CONTRADICTION = True"
definition BLOCK_BEFORE_FUNDING_MINUTES :: int where "BLOCK_BEFORE_FUNDING_MINUTES = 10"
definition BLOCK_AFTER_FUNDING_MINUTES :: int where "BLOCK_AFTER_FUNDING_MINUTES = 5"
definition HIGH_VOLATILITY_BLOCK :: bool where "HIGH_VOLATILITY_BLOCK = True"
definition NEWS_EVENT_BLOCK :: bool where "NEWS_EVENT_BLOCK = True"
definition ISOLATED_MARGIN_ONLY :: bool where "ISOLATED_MARGIN_ONLY = True"

section \<open>Enumerations\<close>

text \<open>\<open>FinalAction\<close> has the values of a signal's direction and is the same datatype here.\<close>

datatype strategy_type = SCALPING | INTRADAY | TREND_FOLLOWING | BREAKOUT | UNKNOWN_STRATEGY

datatype ai_review_action = APPROVE | REJECT

datatype market_regime =
  TREND_UP | TREND_DOWN | RANGE | HIGH_VOLATILITY | NEWS_EVENT | UNKNOWN_REGIME

definition strategy_value :: "strategy_type \<Rightarrow> string" where
  "strategy_value t = (case t of SCALPING \<Rightarrow> ''SCALPING'' | INTRADAY \<Rightarrow> ''INTRADAY''
     | TREND_FOLLOWING \<Rightarrow> ''TREND_FOLLOWING'' | BREAKOUT \<Rightarrow> ''BREAKOUT''
     | UNKNOWN_STRATEGY \<Rightarrow> ''UNKNOWN'')"

record strategy_thresholds =
  sth_min_risk_reward_ratio :: rat
  sth_max_holding_minutes :: int
  sth_max_spread_bps :: rat

definition STRATEGY_THRESHOLDS :: "string \<rightharpoonup> strategy_thresholds" where
  "STRATEGY_THRESHOLDS =
     [''SCALPING'' \<mapsto> \<lparr>sth_min_risk_reward_ratio = 2, sth_max_holding_minutes = 10,
                       sth_max_spread_bps = 3\<rparr>,
      ''INTRADAY'' \<mapsto> \<lparr>sth_min_risk_reward_ratio = 2, sth_max_holding_minutes = 60,
                       sth_max_spread_bps = 5\<rparr>,
      ''TREND_FOLLOWING'' \<mapsto> \<lparr>sth_min_risk_reward_ratio = 2, sth_max_holding_minutes = 240,
                       sth_max_spread_bps = 8\<rparr>,
      ''BREAKOUT'' \<mapsto> \<lparr>sth_min_risk_reward_ratio = 2, sth_max_holding_minutes = 120,
                       sth_max_spread_bps = 6\<rparr>]"

definition STRATEGY_HOLDING_MINUTES :: "string \<rightharpoonup> int" where
  "STRATEGY_HOLDING_MINUTES =
     [''SCALPING'' \<mapsto> 5, ''INTRADAY'' \<mapsto> 30, ''TREND_FOLLOWING'' \<mapsto> 120, ''BREAKOUT'' \<mapsto> 60,
      ''UNKNOWN'' \<mapsto> 0]"

section \<open>Data\<close>

record market_regime_result =
  mr_regime :: market_regime
  mr_confidence :: rat

record signal_score =
  sc_long_score :: rat
  sc_short_score :: rat
  sc_no_trade_score :: rat
  sc_risk_score :: rat

record strategy_selection =
  ss_strategy_type :: strategy_type
  ss_expected_holding_minutes :: int
  ss_min_required_rr :: rat

record trade_candidate =
  tc_action :: direction
  tc_coin :: string
  tc_symbol :: string
  tc_strategy_type :: strategy_type
  tc_expected_holding_minutes :: int
  tc_entry_price :: rat
  tc_stop_loss :: "rat option"
  tc_take_profit :: "rat option"
  tc_leverage :: int
  tc_margin_ratio :: rat
  tc_notional_size :: rat
  tc_actual_rr :: rat
  tc_min_required_rr :: rat
  tc_expected_gross_profit :: "rat option"
  tc_expected_gross_loss :: "rat option"
  tc_expected_fees :: rat
  tc_expected_slippage_cost :: rat
  tc_expected_net_profit :: "rat option"
  tc_expected_net_loss :: "rat option"
  tc_liquidation_price :: "rat option"
  tc_spread_bps :: rat
  tc_slippage_bps :: rat
  tc_strategy_name :: "string option"

record ai_review_result =
  ar_review_action :: ai_review_action
  ar_confidence :: rat
  ar_critical_contradiction :: bool

record risk_check_result =
  rk_passed :: bool
  rk_failed_checks :: "string list"
  rk_warnings :: "warn list"
  rk_risk_per_trade_pct :: rat
  rk_expected_net_profit :: "rat option"
  rk_expected_net_loss :: "rat option"

record news_sentiment_score =
  ns_sentiment_score :: rat
  ns_long_score_adjustment :: rat
  ns_short_score_adjustment :: rat
  ns_risk_score :: rat
  ns_no_trade_flag :: bool

definition ns_neutral :: news_sentiment_score where
  "ns_neutral = \<lparr>ns_sentiment_score = 0, ns_long_score_adjustment = 0,
                 ns_short_score_adjustment = 0, ns_risk_score = 0, ns_no_trade_flag = False\<rparr>"

datatype crowded_side = CROWD_LONG | CROWD_SHORT | CROWD_NONE

record derivatives_market_score =
  dv_long_score_adjustment :: rat
  dv_short_score_adjustment :: rat
  dv_risk_score :: rat
  dv_crowded_side :: crowded_side

definition dv_neutral :: derivatives_market_score where
  "dv_neutral = \<lparr>dv_long_score_adjustment = 0, dv_short_score_adjustment = 0,
                 dv_risk_score = 0, dv_crowded_side = CROWD_NONE\<rparr>"

section \<open>Run-time configuration\<close>

text \<open>
  A configuration is a dictionary or an object with an optional nested \<open>decision\<close> part that is
  looked up first. A value is an integer, a float, a boolean or a text; a numeric key does not
  hold a text (Python would parse it).
\<close>

datatype cval = CInt int | CFloat rat | CBool bool | CStr string

record config =
  cf_decision :: "(string \<rightharpoonup> cval) option"
  cf_top :: "string \<rightharpoonup> cval"

definition cfg :: "config option \<Rightarrow> string \<Rightarrow> cval \<Rightarrow> cval" where
  "cfg c key dv = (case c of None \<Rightarrow> dv
     | Some c \<Rightarrow> (case cf_decision c of
         Some d \<Rightarrow> (case d key of Some v \<Rightarrow> v | None \<Rightarrow> get_or (cf_top c) key dv)
       | None \<Rightarrow> get_or (cf_top c) key dv))"

definition c_float :: "cval \<Rightarrow> rat result" where
  "c_float v = (case v of CInt n \<Rightarrow> Inr (f64 (of_int n)) | CFloat x \<Rightarrow> Inr x
     | CBool b \<Rightarrow> Inr (if b then 1 else 0) | CStr s \<Rightarrow> Inl ValueError)"

definition c_int :: "cval \<Rightarrow> int result" where
  "c_int v = (case v of CInt n \<Rightarrow> Inr n | CFloat x \<Rightarrow> Inr (rdown x)
     | CBool b \<Rightarrow> Inr (if b then 1 else 0) | CStr s \<Rightarrow> Inl ValueError)"

definition c_bool :: "cval \<Rightarrow> bool" where
  "c_bool v = (case v of CInt n \<Rightarrow> n \<noteq> 0 | CFloat x \<Rightarrow> x \<noteq> 0 | CBool b \<Rightarrow> b | CStr s \<Rightarrow> s \<noteq> [])"

text \<open>\<open>Decimal(str(v))\<close>.\<close>

definition c_decimal :: "cval \<Rightarrow> rat result" where
  "c_decimal v = (case v of CInt n \<Rightarrow> Inr (of_int n) | CFloat x \<Rightarrow> Inr (repr10 x)
     | CBool b \<Rightarrow> Inl InvalidOperation | CStr s \<Rightarrow> Inl InvalidOperation)"

text \<open>\<open>str(v).lower() == text\<close> for a lower-case text that is no number or boolean.\<close>

definition lower_char :: "char \<Rightarrow> char" where
  "lower_char c = (let n = (of_char c :: nat) in if 65 \<le> n \<and> n \<le> 90 then char_of (n + 32) else c)"

definition c_lower_is :: "cval \<Rightarrow> string \<Rightarrow> bool" where
  "c_lower_is v text = (case v of CStr s \<Rightarrow> map lower_char s = text | _ \<Rightarrow> False)"

lemma cfg_None [simp]: "cfg None k d = d" by (simp add: cfg_def)

lemma c_conv_simps [simp]:
  "c_float (CFloat x) = Inr x" "c_int (CInt n) = Inr n" "c_bool (CBool b) = b"
  "c_decimal (CFloat x) = Inr (repr10 x)"
  by (simp_all add: c_float_def c_int_def c_bool_def c_decimal_def)

lemma lower_isolated: "c_lower_is (CStr MARGIN_MODE) ''isolated''"
  by (simp add: c_lower_is_def MARGIN_MODE_def lower_char_def Let_def)

end
