(* ===== verification/RiskEngine.thy ===== *)
theory RiskEngine
  imports KillSwitch DecisionModels
begin

text \<open>
  \<open>agents/risk/engine.py\<close>: the validation pipelines for a raw signal and for a prepared trade
  candidate. Both are actions on the Redis server: they read the kill switches, and a breached
  loss limit writes a halt. Any exception, the server's included, becomes a refusal.
\<close>

section \<open>Validation of a signal\<close>

text \<open>Checks 10 to 13, which only compute.\<close>

definition engine_sizing ::
    "raw_signal \<Rightarrow> user_context \<Rightarrow> account_state \<Rightarrow> int \<Rightarrow> RiskModels.open_position option \<Rightarrow> rat
       \<Rightarrow> warn list \<Rightarrow> validation_result result" where
  "engine_sizing s ctx account open_positions_count same_coin_position rr warnings =
     (let (ok, reason) = check_position_count_limit open_positions_count ctx
      in if \<not> ok \<and> same_coin_position = None then Inr (vr_reject ''ORDER_002'' reason)
         else
           let (can_proceed, coin_reason, pre_action) = check_same_coin_position s same_coin_position
           in if \<not> can_proceed then Inr (vr_reject ''POSITION_CONFLICT'' coin_reason)
              else
                let existing_pos_id = (if pre_action \<noteq> None then map_option op_id same_coin_position
                                       else None);
                    warnings1 = warnings
                      @ (if pre_action = Some Dca then [DcaWarn (sg_coin s)]
                         else if pre_action = Some CloseExisting then [ReverseWarn (sg_coin s)]
                         else []);
                    final_leverage =
                      resolve_final_leverage (sg_leverage s) (uc_max_leverage ctx) (uc_plan ctx);
                    warnings2 = warnings1
                      @ (if final_leverage \<noteq> sg_leverage s
                         then [LeverageCapped (sg_leverage s) final_leverage] else [])
                in case sg_stop_loss s of
                     None \<Rightarrow> Inl TypeError
                   | Some sl \<Rightarrow>
                ebind (calculate_position_size (ac_available_balance account)
                         (uc_risk_per_trade ctx) (sg_entry_price s) sl final_leverage
                         (sg_take_profit s) (sg_symbol s)) (\<lambda>sizing.
                let (size_ok, size_reason) =
                      validate_position_size sizing (ac_available_balance account)
                        (sg_entry_price s) (sg_symbol s)
                in if \<not> size_ok then Inr (vr_reject ''SIZING'' size_reason)
                   else
                     let (ok, reason) =
                           check_portfolio_risk account (ps_max_loss sizing) (uc_risk_profile ctx)
                     in if \<not> ok then Inr (vr_reject ''PORTFOLIO_RISK'' reason)
                        else Inr ((vr_default True)
                          \<lparr>vr_quantity := Some (ps_quantity sizing),
                           vr_final_leverage := Some final_leverage,
                           vr_margin_required_usdt := Some (ps_margin_used sizing),
                           vr_max_loss_usdt := Some (ps_max_loss sizing),
                           vr_max_profit_usdt := Some (ps_max_profit sizing),
                           vr_rr_ratio := Some rr,
                           vr_pre_action := pre_action,
                           vr_existing_position_id := existing_pos_id,
                           vr_warnings := warnings2\<rparr>)))"

definition validate_body ::
    "'s redis \<Rightarrow> int \<Rightarrow> raw_signal \<Rightarrow> user_context \<Rightarrow> account_state \<Rightarrow> rat \<Rightarrow> rat \<Rightarrow> rat \<Rightarrow> int \<Rightarrow> int
       \<Rightarrow> RiskModels.open_position option \<Rightarrow> ('s, validation_result) act" where
  "validate_body R now s ctx account daily_loss weekly_loss weekly_limit consecutive
       open_positions_count same_coin_position =
     act_bind (check_kill_switch R now (uc_user_id ctx)) (\<lambda>(ok, reason).
     if \<not> ok then act_return (vr_reject ''KILL_SWITCH'' reason)
     else let (ok, reason) = check_not_hold s
     in if \<not> ok then act_return vr_hold_signal
     else let (ok, reason) = check_trading_active ctx
     in if \<not> ok then act_return (vr_reject ''TRADING_INACTIVE'' reason)
     else let (ok, reason) = check_stop_loss_exists s
     in if \<not> ok then act_return (vr_reject ''ORDER_003'' reason)
     else let (ok, rr, reason) = check_rr_ratio s
     in if \<not> ok then act_return (vr_reject ''ORDER_004'' reason)
     else let (ok, reason) = check_confidence s
     in if \<not> ok then act_return (vr_reject ''LOW_CONFIDENCE'' reason)
     else let (ok, reason) = check_trading_hours now ctx
     in if \<not> ok then act_return (vr_reject ''TIME_RESTRICTION'' reason)
     else
       let daily_limit = dmul (ac_total_balance account) (repr10 (uc_daily_loss_limit_pct ctx));
           projected = dmul (ac_total_balance account) (repr10 (uc_risk_per_trade ctx));
           (ok, reason, warn_level) = check_daily_loss_limit daily_loss daily_limit projected;
           warnings = (case warn_level of None \<Rightarrow> [] | Some w \<Rightarrow> [DailyLossWarn w])
     in if \<not> ok
        then act_bind (halt_trading R now (uc_user_id ctx) T_DAILY_LOSS_LIMIT ''daily loss'') (\<lambda>_.
             act_return (vr_reject ''ORDER_001'' reason))
     else let (ok, reason) = check_weekly_loss_limit weekly_loss weekly_limit
     in if \<not> ok
        then act_bind (halt_trading R now (uc_user_id ctx) T_WEEKLY_LOSS_LIMIT ''weekly loss'') (\<lambda>_.
             act_return (vr_reject ''WEEKLY_LOSS'' reason))
     else
     act_bind (check_consecutive_losses R now (uc_user_id ctx) consecutive) (\<lambda>(ok, reason).
     if \<not> ok
     then act_bind
            (if 5 \<le> consecutive
             then act_bind (halt_trading R now (uc_user_id ctx) T_CONSECUTIVE_LOSSES
                              ''consecutive losses'') (\<lambda>_. act_return ())
             else act_return ()) (\<lambda>_.
          act_return (vr_reject ''CONSEC_LOSS'' reason))
     else act_read (\<lambda>_. engine_sizing s ctx account open_positions_count same_coin_position rr
                          warnings)))"

definition engine_validate ::
    "'s redis \<Rightarrow> int \<Rightarrow> raw_signal \<Rightarrow> user_context \<Rightarrow> account_state \<Rightarrow> rat \<Rightarrow> rat \<Rightarrow> rat \<Rightarrow> int \<Rightarrow> int
       \<Rightarrow> RiskModels.open_position option \<Rightarrow> ('s, validation_result) act" where
  "engine_validate R now s ctx account daily_loss weekly_loss weekly_limit consecutive
       open_positions_count same_coin_position =
     act_catch (validate_body R now s ctx account daily_loss weekly_loss weekly_limit consecutive
                  open_positions_count same_coin_position)
       (\<lambda>e. act_return (vr_system_error e))"

section \<open>Validation of a candidate\<close>

definition candidate_to_raw_signal :: "trade_candidate \<Rightarrow> raw_signal" where
  "candidate_to_raw_signal c =
     \<lparr>sg_direction = tc_action c, sg_coin = tc_coin c, sg_symbol = tc_symbol c,
      sg_confidence = 1, sg_entry_price = tc_entry_price c, sg_take_profit = tc_take_profit c,
      sg_stop_loss = tc_stop_loss c, sg_leverage = tc_leverage c\<rparr>"

text \<open>The regime argument: absent, a classification result, a regime, or some other object's text.\<close>

datatype regime_arg =
  NoRegime | RegimeResult market_regime_result | Regime market_regime | RegimeText string

definition regime_of_text :: "string \<Rightarrow> market_regime" where
  "regime_of_text s =
     get_or [''TREND_UP'' \<mapsto> TREND_UP, ''TREND_DOWN'' \<mapsto> TREND_DOWN, ''RANGE'' \<mapsto> RANGE,
       ''HIGH_VOLATILITY'' \<mapsto> HIGH_VOLATILITY, ''NEWS_EVENT'' \<mapsto> NEWS_EVENT] s UNKNOWN_REGIME"

definition as_regime :: "regime_arg \<Rightarrow> market_regime" where
  "as_regime v = (case v of RegimeResult r \<Rightarrow> mr_regime r | Regime r \<Rightarrow> r
     | NoRegime \<Rightarrow> UNKNOWN_REGIME | RegimeText s \<Rightarrow> regime_of_text s)"

record funding_context =
  fc_minutes_to_funding :: "rat option"
  fc_is_funding_window :: bool

definition reject_candidate ::
    "string \<Rightarrow> reason \<Rightarrow> warn list \<Rightarrow> trade_candidate \<Rightarrow> user_context \<Rightarrow> validation_result" where
  "reject_candidate code reason warnings c ctx =
     (vr_default False)
       \<lparr>vr_rejection_code := Some code, vr_rejection_reason := Some reason,
        vr_warnings := warnings, vr_failed_checks := [code],
        vr_risk_per_trade_pct := uc_risk_per_trade ctx,
        vr_expected_net_profit := tc_expected_net_profit c,
        vr_expected_net_loss := tc_expected_net_loss c\<rparr>"

text \<open>The checks on the candidate before the loss limits.\<close>

definition candidate_precheck ::
    "trade_candidate \<Rightarrow> user_context \<Rightarrow> config option \<Rightarrow> (string \<times> reason) option result" where
  "candidate_precheck c ctx config =
     (let fail = (\<lambda>code. Inr (Some (code, CandidateRejected code)))
      in if \<not> uc_is_trading_active ctx then Inr (Some (''TRADING_INACTIVE'', TradingInactive))
      else if tc_action c \<noteq> LONG \<and> tc_action c \<noteq> SHORT then fail ''HOLD''
      else if (case tc_stop_loss c of None \<Rightarrow> True | Some sl \<Rightarrow> sl \<le> 0) then fail ''ORDER_003''
      else if (case tc_take_profit c of None \<Rightarrow> True | Some tp \<Rightarrow> tp \<le> 0)
           then fail ''TAKE_PROFIT_MISSING''
      else if tc_strategy_type c = UNKNOWN_STRATEGY then fail ''UNKNOWN_STRATEGY''
      else
        let threshold = STRATEGY_THRESHOLDS (strategy_value (tc_strategy_type c));
            strategy_min_rr = max (tc_min_required_rr c)
              (case threshold of None \<Rightarrow> 0 | Some t \<Rightarrow> sth_min_risk_reward_ratio t)
        in ebind (c_float (cfg config ''global_min_risk_reward_ratio''
                             (CFloat GLOBAL_MIN_RISK_REWARD_RATIO))) (\<lambda>global_min_rr.
           if tc_actual_rr c < strategy_min_rr then fail ''STRATEGY_RR''
           else if tc_actual_rr c < global_min_rr then fail ''ORDER_004''
           else
           ebind (c_int (cfg config ''max_leverage'' (CInt DECISION_MAX_LEVERAGE))) (\<lambda>cfg_leverage.
           if min cfg_leverage (uc_max_leverage ctx) < tc_leverage c then fail ''LEVERAGE_LIMIT''
           else
           ebind (c_float (cfg config ''max_entry_margin_ratio''
                             (CFloat DECISION_MAX_ENTRY_MARGIN_RATIO))) (\<lambda>max_margin_ratio.
           if max_margin_ratio < tc_margin_ratio c then fail ''MARGIN_RATIO_LIMIT''
           else Inr None))))"

text \<open>The checks after the loss limits, up to the approval.\<close>

definition liquidation_safe :: "trade_candidate \<Rightarrow> rat \<Rightarrow> rat \<Rightarrow> rat \<Rightarrow> bool" where
  "liquidation_safe c sl liq liq_buffer =
     (if tc_action c = LONG then liq < dmul sl (dsub 1 liq_buffer)
      else dmul sl (dadd 1 liq_buffer) < liq)"

definition funding_blocked :: "funding_context \<Rightarrow> int \<Rightarrow> int \<Rightarrow> bool" where
  "funding_blocked f before after \<longleftrightarrow> fc_is_funding_window f \<or>
     (case fc_minutes_to_funding f of None \<Rightarrow> False
      | Some m \<Rightarrow> of_int (- after) \<le> m \<and> m \<le> of_int before)"

definition candidate_market_check ::
    "trade_candidate \<Rightarrow> config option \<Rightarrow> regime_arg \<Rightarrow> funding_context option
       \<Rightarrow> string option result" where
  "candidate_market_check c config market_regime funding =
     (let threshold = STRATEGY_THRESHOLDS (strategy_value (tc_strategy_type c));
          regime = as_regime market_regime
      in if (case threshold of None \<Rightarrow> False | Some t \<Rightarrow> sth_max_spread_bps t < tc_spread_bps c)
         then Inr (Some ''SPREAD_LIMIT'')
         else
         ebind (c_float (cfg config ''max_slippage_bps'' (CFloat DECISION_MAX_SLIPPAGE_BPS))) (\<lambda>max_slippage.
         if max_slippage < tc_slippage_bps c then Inr (Some ''SLIPPAGE_LIMIT'')
         else
         ebind (case funding of
                  None \<Rightarrow> Inr False
                | Some f \<Rightarrow>
                    ebind (c_int (cfg config ''block_before_funding_minutes''
                                    (CInt BLOCK_BEFORE_FUNDING_MINUTES))) (\<lambda>before.
                    ebind (c_int (cfg config ''block_after_funding_minutes''
                                    (CInt BLOCK_AFTER_FUNDING_MINUTES))) (\<lambda>after.
                    Inr (funding_blocked f before after)))) (\<lambda>blocked.
         if blocked then Inr (Some ''FUNDING_WINDOW'')
         else if regime = HIGH_VOLATILITY
              \<and> c_bool (cfg config ''high_volatility_block'' (CBool HIGH_VOLATILITY_BLOCK))
         then Inr (Some ''HIGH_VOLATILITY'')
         else if regime = NEWS_EVENT
              \<and> c_bool (cfg config ''news_event_block'' (CBool NEWS_EVENT_BLOCK))
         then Inr (Some ''NEWS_EVENT'')
         else if tc_expected_holding_minutes c \<le> 0 then Inr (Some ''HOLDING_TIME'')
         else if (case threshold of None \<Rightarrow> False
                  | Some t \<Rightarrow> sth_max_holding_minutes t < tc_expected_holding_minutes c)
         then Inr (Some ''HOLDING_TIME'')
         else if c_bool (cfg config ''allow_martingale'' (CBool ALLOW_MARTINGALE))
         then Inr (Some ''MARTINGALE_DISABLED'')
         else if c_bool (cfg config ''allow_averaging_down'' (CBool ALLOW_AVERAGING_DOWN))
         then Inr (Some ''AVERAGING_DOWN_DISABLED'')
         else if \<not> c_lower_is (cfg config ''margin_mode'' (CStr MARGIN_MODE)) ''isolated''
              \<or> \<not> ISOLATED_MARGIN_ONLY
         then Inr (Some ''MARGIN_MODE'')
         else Inr None)))"

definition candidate_approve ::
    "trade_candidate \<Rightarrow> user_context \<Rightarrow> warn list \<Rightarrow> validation_result result" where
  "candidate_approve c ctx warnings =
     ebind (ddivE (tc_notional_size c) (of_int (tc_leverage c))) (\<lambda>margin.
     Inr ((vr_default True)
       \<lparr>vr_quantity := (if 0 < tc_entry_price c
                        then Some (ddiv (tc_notional_size c) (tc_entry_price c)) else None),
        vr_final_leverage := Some (tc_leverage c),
        vr_margin_required_usdt := Some margin,
        vr_max_loss_usdt := tc_expected_net_loss c,
        vr_max_profit_usdt := tc_expected_net_profit c,
        vr_rr_ratio := Some (repr10 (tc_actual_rr c)),
        vr_warnings := warnings,
        vr_risk_per_trade_pct := uc_risk_per_trade ctx,
        vr_expected_net_profit := tc_expected_net_profit c,
        vr_expected_net_loss := tc_expected_net_loss c\<rparr>))"

definition candidate_postcheck ::
    "trade_candidate \<Rightarrow> user_context \<Rightarrow> account_state \<Rightarrow> int \<Rightarrow> RiskModels.open_position option
       \<Rightarrow> regime_arg \<Rightarrow> funding_context option \<Rightarrow> config option \<Rightarrow> warn list
       \<Rightarrow> validation_result result" where
  "candidate_postcheck c ctx account open_positions_count same_coin_position market_regime funding
       config warnings =
     (let reject = (\<lambda>code reason. Inr (reject_candidate code reason warnings c ctx));
          fail = (\<lambda>code. reject code (CandidateRejected code));
          (ok, reason) = check_position_count_limit open_positions_count ctx
      in if \<not> ok \<and> same_coin_position = None then reject ''ORDER_002'' reason
         else case same_coin_position of
           Some p \<Rightarrow>
             (let (can_proceed, coin_reason, pre) =
                    check_same_coin_position (candidate_to_raw_signal c) (Some p)
              in if \<not> can_proceed then reject ''POSITION_CONFLICT'' coin_reason
                 else fail ''POSITION_CONFLICT'')
         | None \<Rightarrow>
         ebind (c_decimal (cfg config ''min_expected_net_profit_pct''
                             (CFloat MIN_EXPECTED_NET_PROFIT_PCT))) (\<lambda>min_profit_pct.
         let min_profit = dmul (tc_notional_size c) min_profit_pct
         in if (case tc_expected_net_profit c of None \<Rightarrow> True | Some x \<Rightarrow> x \<le> min_profit)
            then fail ''EXPECTED_PROFIT''
            else
            let max_loss_allowed = dmul (ac_total_balance account) (repr10 (uc_risk_per_trade ctx))
            in if (case tc_expected_net_loss c of None \<Rightarrow> True | Some x \<Rightarrow> max_loss_allowed < x)
               then fail ''EXPECTED_LOSS''
               else case tc_liquidation_price c of
                 None \<Rightarrow> fail ''LIQUIDATION_PRICE''
               | Some liq \<Rightarrow>
               ebind (c_decimal (cfg config ''min_liq_stop_buffer_pct'' (CFloat (f64 0.001)))) (\<lambda>liq_buffer.
               case tc_stop_loss c of
                 None \<Rightarrow> Inl TypeError
               | Some sl \<Rightarrow>
               if \<not> liquidation_safe c sl liq liq_buffer then fail ''LIQUIDATION_DISTANCE''
               else
               ebind (candidate_market_check c config market_regime funding) (\<lambda>failed.
               case failed of
                 Some code \<Rightarrow> fail code
               | None \<Rightarrow>
               let (ok, reason) =
                     check_portfolio_risk account
                       (case tc_expected_net_loss c of None \<Rightarrow> 0 | Some x \<Rightarrow> x) (uc_risk_profile ctx)
               in if \<not> ok then reject ''PORTFOLIO_RISK'' reason
                  else candidate_approve c ctx warnings))))"

definition candidate_body ::
    "'s redis \<Rightarrow> int \<Rightarrow> trade_candidate \<Rightarrow> user_context \<Rightarrow> account_state \<Rightarrow> rat \<Rightarrow> rat \<Rightarrow> rat \<Rightarrow> int \<Rightarrow> int
       \<Rightarrow> RiskModels.open_position option \<Rightarrow> regime_arg \<Rightarrow> funding_context option \<Rightarrow> config option
       \<Rightarrow> ('s, validation_result) act" where
  "candidate_body R now c ctx account daily_loss weekly_loss weekly_limit consecutive
       open_positions_count same_coin_position market_regime funding config =
     act_bind (check_kill_switch R now (uc_user_id ctx)) (\<lambda>(ok, reason).
     if \<not> ok then act_return (reject_candidate ''KILL_SWITCH'' reason [] c ctx)
     else
     act_bind (act_read (\<lambda>_. candidate_precheck c ctx config)) (\<lambda>pre.
     case pre of
       Some (code, reason) \<Rightarrow> act_return (reject_candidate code reason [] c ctx)
     | None \<Rightarrow>
       let projected = (case tc_expected_net_loss c of
                            None \<Rightarrow> dmul (ac_total_balance account) (repr10 (uc_risk_per_trade ctx))
                          | Some x \<Rightarrow> x);
           daily_limit = dmul (ac_total_balance account) (repr10 (uc_daily_loss_limit_pct ctx));
           (ok, reason, warn_level) = check_daily_loss_limit daily_loss daily_limit projected;
           warnings = (case warn_level of None \<Rightarrow> [] | Some w \<Rightarrow> [DailyLossWarn w])
       in if \<not> ok
          then act_bind (halt_trading R now (uc_user_id ctx) T_DAILY_LOSS_LIMIT ''daily loss'') (\<lambda>_.
               act_return (reject_candidate ''ORDER_001'' reason warnings c ctx))
       else let (ok, reason) = check_weekly_loss_limit weekly_loss weekly_limit
       in if \<not> ok
          then act_bind (halt_trading R now (uc_user_id ctx) T_WEEKLY_LOSS_LIMIT ''weekly loss'') (\<lambda>_.
               act_return (reject_candidate ''WEEKLY_LOSS'' reason warnings c ctx))
       else
       act_bind (check_consecutive_losses R now (uc_user_id ctx) consecutive) (\<lambda>(ok, reason).
       if \<not> ok
       then act_bind
              (if 5 \<le> consecutive
               then act_bind (halt_trading R now (uc_user_id ctx) T_CONSECUTIVE_LOSSES
                                ''consecutive losses'') (\<lambda>_. act_return ())
               else act_return ()) (\<lambda>_.
            act_return (reject_candidate ''CONSEC_LOSS'' reason warnings c ctx))
       else act_read (\<lambda>_. candidate_postcheck c ctx account open_positions_count
                             same_coin_position market_regime funding config warnings))))"

definition validate_candidate ::
    "'s redis \<Rightarrow> int \<Rightarrow> trade_candidate \<Rightarrow> user_context \<Rightarrow> account_state \<Rightarrow> rat \<Rightarrow> rat \<Rightarrow> rat \<Rightarrow> int \<Rightarrow> int
       \<Rightarrow> RiskModels.open_position option \<Rightarrow> regime_arg \<Rightarrow> funding_context option \<Rightarrow> config option
       \<Rightarrow> ('s, validation_result) act" where
  "validate_candidate R now c ctx account daily_loss weekly_loss weekly_limit consecutive
       open_positions_count same_coin_position market_regime funding config =
     act_catch (candidate_body R now c ctx account daily_loss weekly_loss weekly_limit consecutive
                  open_positions_count same_coin_position market_regime funding config)
       (\<lambda>e. act_return (vr_system_error e))"

section \<open>Operator actions\<close>

definition activate_kill_switch :: "'s redis \<Rightarrow> int \<Rightarrow> string \<Rightarrow> string \<Rightarrow> ('s, unit) act" where
  "activate_kill_switch R now user_id reason =
     act_bind (emergency_stop R now user_id reason T_MANUAL) (\<lambda>_. act_return ())"

definition deactivate_kill_switch :: "'s redis \<Rightarrow> string \<Rightarrow> ('s, unit) act" where
  "deactivate_kill_switch R user_id = resume_trading R user_id"

definition activate_global_kill_switch :: "'s redis \<Rightarrow> int \<Rightarrow> string \<Rightarrow> ('s, unit) act" where
  "activate_global_kill_switch R now reason = activate_global R now reason"

definition deactivate_global_kill_switch :: "'s redis \<Rightarrow> ('s, unit) act" where
  "deactivate_global_kill_switch R = deactivate_global R"

end
