(* ===== verification/RiskProps.thy ===== *)
theory RiskProps
  imports RiskEngine PaperSample
begin

text \<open>
  The properties of the Redis-backed risk engine: refusals are the default, an approval passed
  every check, and a halt written to the server blocks both pipelines until it ends.
\<close>

section \<open>Approvals\<close>

lemma act_catch_total: "\<exists>v. snd (act_catch m (\<lambda>e. act_return (h e)) s) = Inr v"
  by (auto simp: act_catch_def split: prod.splits sum.splits)

lemma act_catch_Inr:
  "act_catch m (\<lambda>e. act_return (h e)) s = (s1, Inr v) \<longleftrightarrow>
     m s = (s1, Inr v) \<or> (\<exists>e. m s = (s1, Inl e) \<and> v = h e)"
  by (auto simp: act_catch_def split: prod.splits sum.splits)

lemma check_kill_switch_state [simp]: "fst (check_kill_switch R now u s) = s"
  by (auto simp: check_kill_switch_def act_read_bind split: sum.splits option.splits)

lemma check_kill_switch_Inr:
  "check_kill_switch R now u s = (s1, x) \<Longrightarrow> s1 = s"
  using check_kill_switch_state [of R now u s] by simp

text \<open>What the signal pipeline has established when it approves.\<close>

lemma validate_body_approved:
  assumes "validate_body R now sg ctx acc dl wl wlim cons cnt pos s = (s1, Inr v)" "vr_approved v"
  shows "\<exists>r rr w. snd (check_kill_switch R now (uc_user_id ctx) s) = Inr (True, r) \<and>
     sg_direction sg \<noteq> HOLD \<and> uc_is_trading_active ctx \<and>
     check_rr_ratio sg = (True, rr, OK) \<and> MIN_CONFIDENCE \<le> sg_confidence sg \<and>
     fst (check_trading_hours now ctx) \<and>
     dadd dl (dmul (ac_total_balance acc) (repr10 (uc_risk_per_trade ctx)))
       \<le> dmul (ac_total_balance acc) (repr10 (uc_daily_loss_limit_pct ctx)) \<and>
     fst (check_weekly_loss_limit wl wlim) \<and>
     engine_sizing sg ctx acc cnt pos rr w = Inr v"
proof -
  obtain r where K: "check_kill_switch R now (uc_user_id ctx) s = (s, Inr (True, r))"
    using assms check_kill_switch_Inr [of R now "uc_user_id ctx" s]
    by (auto simp: validate_body_def act_bind_Inr split: if_splits)
  obtain ok rr r' where RR: "check_rr_ratio sg = (ok, rr, r')" by (metis prod_cases3)
  have r': "r' = OK" if ok
    using RR that by (auto simp: check_rr_ratio_def split: option.splits elim!: validate_rr_ratio_True)
  show ?thesis
    using assms K RR r'
    by (auto simp: validate_body_def Let_def check_not_hold_iff check_trading_active_iff act_bind_Inr
        dest!: check_daily_loss_limit_True(1) check_confidenceD split: prod.splits if_splits)
qed

lemma engine_sizing_approved:
  assumes "engine_sizing sg ctx acc cnt pos rr w = Inr v" "vr_approved v"
  shows "\<exists>sl z r c. sg_stop_loss sg = Some sl \<and>
    calculate_position_size (ac_available_balance acc) (uc_risk_per_trade ctx) (sg_entry_price sg) sl
       (resolve_final_leverage (sg_leverage sg) (uc_max_leverage ctx) (uc_plan ctx))
       (sg_take_profit sg) (sg_symbol sg) = Inr z \<and>
    validate_position_size z (ac_available_balance acc) (sg_entry_price sg) (sg_symbol sg) = (True, r) \<and>
    check_portfolio_risk acc (ps_max_loss z) (uc_risk_profile ctx) = (True, c) \<and>
    vr_quantity v = Some (ps_quantity z) \<and> vr_rr_ratio v = Some rr \<and>
    vr_final_leverage v = Some (resolve_final_leverage (sg_leverage sg) (uc_max_leverage ctx) (uc_plan ctx)) \<and>
    vr_margin_required_usdt v = Some (ps_margin_used z) \<and> vr_max_loss_usdt v = Some (ps_max_loss z) \<and>
    (pos = None \<longrightarrow> fst (check_position_count_limit cnt ctx)) \<and>
    (\<forall>p. pos = Some p \<and> op_direction p = sg_direction sg \<longrightarrow> op_dca_count p < MAX_DCA_COUNT)"
proof -
  obtain ok r0 where P: "check_position_count_limit cnt ctx = (ok, r0)" by (cases rule: prod.exhaust)
  obtain can r1 pre where C: "check_same_coin_position sg pos = (can, r1, pre)" by (cases rule: prod_cases3)
  let ?lev = "resolve_final_leverage (sg_leverage sg) (uc_max_leverage ctx) (uc_plan ctx)"
  obtain sl where S: "sg_stop_loss sg = Some sl"
    using assms P C by (cases "sg_stop_loss sg") (auto simp: engine_sizing_def Let_def split: if_splits)
  obtain z where Z: "calculate_position_size (ac_available_balance acc) (uc_risk_per_trade ctx)
       (sg_entry_price sg) sl ?lev (sg_take_profit sg) (sg_symbol sg) = Inr z"
    using assms P C S
    by (cases "calculate_position_size (ac_available_balance acc) (uc_risk_per_trade ctx)
       (sg_entry_price sg) sl ?lev (sg_take_profit sg) (sg_symbol sg)")
      (auto simp: engine_sizing_def Let_def split: if_splits)
  obtain k r2 where V: "validate_position_size z (ac_available_balance acc) (sg_entry_price sg)
      (sg_symbol sg) = (k, r2)" by (cases rule: prod.exhaust)
  obtain m r3 where R: "check_portfolio_risk acc (ps_max_loss z) (uc_risk_profile ctx) = (m, r3)"
    by (cases rule: prod.exhaust)
  have F: "k" "m" "can" "pos = None \<longrightarrow> ok" "vr_quantity v = Some (ps_quantity z)"
    "vr_final_leverage v = Some ?lev" "vr_margin_required_usdt v = Some (ps_margin_used z)"
    "vr_max_loss_usdt v = Some (ps_max_loss z)" "vr_rr_ratio v = Some rr"
    using assms P C S Z V R
    by (auto simp: engine_sizing_def Let_def vr_default_def split: if_splits)
  have "\<forall>p. pos = Some p \<and> op_direction p = sg_direction sg \<longrightarrow> op_dca_count p < MAX_DCA_COUNT"
    using C F(3) by (auto simp: check_same_coin_position_def split: if_splits)
  with P S Z V R F show ?thesis by auto
qed

text \<open>The checks that are not part of the sizing, as conditions on the arguments.\<close>

lemma check_trading_hours_True:
  assumes "fst (check_trading_hours now ctx)" "uc_allowed_hours_start ctx = Some a" "uc_allowed_hours_end ctx = Some b"
  shows "if str_le a b then str_le a (hhmm now) \<and> str_le (hhmm now) b else str_le a (hhmm now) \<or> str_le (hhmm now) b"
  using assms by (simp add: check_trading_hours_def Let_def split: if_splits)

lemma check_consecutive_losses_True:
  assumes "check_consecutive_losses R now u n s = (s1, Inr (True, r))"
  shows "n < 3 \<and> (\<exists>x. r_get R now (UserCooldown u) s = Inr x \<and> (\<forall>t. x = Some (RawIso t) \<longrightarrow> t \<le> now))"
  using assms
  by (auto simp: check_consecutive_losses_def act_read_bind act_bind_Inr Let_def pyconst not_le
      split: if_splits sum.splits option.splits rvalue.splits)

lemma validate_body_streak:
  assumes "validate_body R now sg ctx acc dl wl wlim cons cnt pos s = (s1, Inr v)" "vr_approved v"
  shows "\<exists>r. snd (check_consecutive_losses R now (uc_user_id ctx) cons s) = Inr (True, r)"
proof -
  obtain r where K: "check_kill_switch R now (uc_user_id ctx) s = (s, Inr (True, r))"
    using assms check_kill_switch_Inr [of R now "uc_user_id ctx" s]
    by (auto simp: validate_body_def act_bind_Inr split: if_splits)
  show ?thesis
    using assms K
    by (auto simp: validate_body_def Let_def act_bind_Inr split: prod.splits if_splits)
qed

text \<open>
  C3. The engine's signal pipeline always returns a verdict, whatever the server does, and its
  verdict is an approval only if all of these hold: the kill-switch check passed on the server's
  answers; the signal has a direction, the confidence of at least 0.6, its stop and target on
  their sides with a reward-to-risk of at least 2; the user trades actively and within the
  allowed hours; the daily loss with the projected one is within the daily limit and the weekly
  loss below the weekly one; fewer than three losses in a row, and no running cooldown on the
  server; a new position is within the user's and the plan's count, an addition within the
  maximum of two; leverage is within the user's, the plan's and the system's cap; the quantity
  reaches the lot and the minimum notional; the margin is within 20% of the available balance
  and covered 1.1 times; and the portfolio risk with the new trade is within its limit.
\<close>

theorem engine_approval_within_limits:
  "\<exists>v. snd (engine_validate R now sg ctx acc dl wl wlim cons cnt pos s) = Inr v \<and>
    (vr_approved v \<longrightarrow>
      (\<exists>r. snd (check_kill_switch R now (uc_user_id ctx) s) = Inr (True, r)) \<and>
      sg_direction sg \<noteq> HOLD \<and> f64 0.6 \<le> sg_confidence sg \<and> uc_is_trading_active ctx \<and>
      (\<forall>a b. uc_allowed_hours_start ctx = Some a \<and> uc_allowed_hours_end ctx = Some b \<longrightarrow>
        (if str_le a b then str_le a (hhmm now) \<and> str_le (hhmm now) b
         else str_le a (hhmm now) \<or> str_le (hhmm now) b)) \<and>
      dadd dl (dmul (ac_total_balance acc) (repr10 (uc_risk_per_trade ctx)))
        \<le> dmul (ac_total_balance acc) (repr10 (uc_daily_loss_limit_pct ctx)) \<and>
      (0 < wlim \<longrightarrow> wl < wlim) \<and>
      cons < 3 \<and> (\<exists>x. r_get R now (UserCooldown (uc_user_id ctx)) s = Inr x \<and> (\<forall>t. x = Some (RawIso t) \<longrightarrow> t \<le> now)) \<and>
      (pos = None \<longrightarrow> cnt < uc_max_concurrent_positions ctx \<and> cnt < get_or PLAN_MAX_POSITIONS (uc_plan ctx) 1) \<and>
      (\<forall>p. pos = Some p \<and> op_direction p = sg_direction sg \<longrightarrow> op_dca_count p < 2) \<and>
      (\<exists>tp sl q lev margin loss rr.
        sg_take_profit sg = Some tp \<and> sg_stop_loss sg = Some sl \<and>
        exits_ordered (sg_direction sg) (sg_entry_price sg) tp sl \<and>
        vr_rr_ratio v = Some rr \<and> 2 \<le> rr \<and>
        vr_final_leverage v = Some lev \<and> lev \<le> uc_max_leverage ctx \<and>
        lev \<le> get_or PLAN_MAX_LEVERAGE (uc_plan ctx) 5 \<and> lev \<le> 20 \<and>
        vr_quantity v = Some q \<and> lot_size (sg_symbol sg) \<le> q \<and> 5 \<le> dmul q (sg_entry_price sg) \<and>
        vr_margin_required_usdt v = Some margin \<and>
        margin \<le> dmul (ac_available_balance acc) 0.2 \<and> dmul margin 1.1 \<le> ac_available_balance acc \<and>
        vr_max_loss_usdt v = Some loss \<and>
        dadd (ac_open_positions_risk_usdt acc) loss
          \<le> dmul (ac_total_balance acc) (if uc_risk_profile ctx = ''aggressive'' then 0.15 else 0.1)))"
proof -
  obtain s1 v where V: "engine_validate R now sg ctx acc dl wl wlim cons cnt pos s = (s1, Inr v)"
    unfolding engine_validate_def using act_catch_total by (metis prod.collapse)
  show ?thesis
  proof (cases "vr_approved v")
    case True
    then have B: "validate_body R now sg ctx acc dl wl wlim cons cnt pos s = (s1, Inr v)"
      using V by (auto simp: engine_validate_def act_catch_Inr)
    obtain r rr w where A: "snd (check_kill_switch R now (uc_user_id ctx) s) = Inr (True, r)"
      "sg_direction sg \<noteq> HOLD" "uc_is_trading_active ctx"
      "check_rr_ratio sg = (True, rr, OK)" "MIN_CONFIDENCE \<le> sg_confidence sg"
      "fst (check_trading_hours now ctx)"
      "dadd dl (dmul (ac_total_balance acc) (repr10 (uc_risk_per_trade ctx)))
       \<le> dmul (ac_total_balance acc) (repr10 (uc_daily_loss_limit_pct ctx))"
      "fst (check_weekly_loss_limit wl wlim)"
      "engine_sizing sg ctx acc cnt pos rr w = Inr v"
      using validate_body_approved [OF B True] by blast
    obtain k where "snd (check_consecutive_losses R now (uc_user_id ctx) cons s) = Inr (True, k)"
      using validate_body_streak [OF B True] by blast
    then have C: "check_consecutive_losses R now (uc_user_id ctx) cons s =
        (fst (check_consecutive_losses R now (uc_user_id ctx) cons s), Inr (True, k))" by (simp add: prod_eq_iff)
    obtain sl' z r' c where Z: "sg_stop_loss sg = Some sl'"
      "validate_position_size z (ac_available_balance acc) (sg_entry_price sg) (sg_symbol sg) = (True, r')"
      "check_portfolio_risk acc (ps_max_loss z) (uc_risk_profile ctx) = (True, c)"
      "vr_quantity v = Some (ps_quantity z)" "vr_rr_ratio v = Some rr"
      "vr_final_leverage v = Some (resolve_final_leverage (sg_leverage sg) (uc_max_leverage ctx) (uc_plan ctx))"
      "vr_margin_required_usdt v = Some (ps_margin_used z)" "vr_max_loss_usdt v = Some (ps_max_loss z)"
      "pos = None \<longrightarrow> fst (check_position_count_limit cnt ctx)"
      "\<forall>p. pos = Some p \<and> op_direction p = sg_direction sg \<longrightarrow> op_dca_count p < MAX_DCA_COUNT"
      using engine_sizing_approved [OF A(9) True] by blast
    note VP = validate_position_size_True [OF Z(2)] check_portfolio_risk_True [OF Z(3)]
    note L = resolve_final_leverage_le [of "sg_leverage sg" "uc_max_leverage ctx" "uc_plan ctx"]
    have W: "0 < wlim \<longrightarrow> wl < wlim"
      using A(8) check_weekly_loss_limit_True [of wl wlim] by (cases "check_weekly_loss_limit wl wlim") auto
    from A(4) obtain tp sl where T: "sg_take_profit sg = Some tp" "sg_stop_loss sg = Some sl"
      "exits_ordered (sg_direction sg) (sg_entry_price sg) tp sl" "2 \<le> rr"
      by (rule check_rr_ratio_True)
    have S: "\<exists>tp sl q lev margin loss rr.
        sg_take_profit sg = Some tp \<and> sg_stop_loss sg = Some sl \<and>
        exits_ordered (sg_direction sg) (sg_entry_price sg) tp sl \<and>
        vr_rr_ratio v = Some rr \<and> 2 \<le> rr \<and>
        vr_final_leverage v = Some lev \<and> lev \<le> uc_max_leverage ctx \<and>
        lev \<le> get_or PLAN_MAX_LEVERAGE (uc_plan ctx) 5 \<and> lev \<le> 20 \<and>
        vr_quantity v = Some q \<and> lot_size (sg_symbol sg) \<le> q \<and> 5 \<le> dmul q (sg_entry_price sg) \<and>
        vr_margin_required_usdt v = Some margin \<and>
        margin \<le> dmul (ac_available_balance acc) 0.2 \<and> dmul margin 1.1 \<le> ac_available_balance acc \<and>
        vr_max_loss_usdt v = Some loss \<and>
        dadd (ac_open_positions_risk_usdt acc) loss
          \<le> dmul (ac_total_balance acc) (if uc_risk_profile ctx = ''aggressive'' then 0.15 else 0.1)"
      using T Z L VP by (auto simp: SYSTEM_MAX_LEVERAGE_def)
    show ?thesis
      using V A(1-3,5,7) Z(9,10) W S check_consecutive_losses_True [OF C] check_trading_hours_True [OF A(6)]
      by (intro exI [of _ v]) (simp add: MIN_CONFIDENCE_def MAX_DCA_COUNT_def check_position_count_limit_True)
  qed (use V in auto)
qed

lemma map_redis_empty [simp]:
  "r_exists map_redis now k Map.empty = Inr False" "r_get map_redis now k Map.empty = Inr None"
  by (simp_all add: map_redis_def content_get_def)

lemma check_kill_switch_empty [simp]: "check_kill_switch map_redis now u Map.empty = (Map.empty, Inr (True, OK))"
  by (simp add: check_kill_switch_def act_read_bind)

lemma check_consecutive_empty [simp]:
  "check_consecutive_losses map_redis now u 0 Map.empty = (Map.empty, Inr (True, OK))"
  by (simp add: check_consecutive_losses_def act_read_bind pyconst)

lemma build_ctx_fields [simp]:
  "uc_risk_per_trade (build_ctx st) = st_risk_per_trade st"
  "uc_max_leverage (build_ctx st) = st_max_leverage st" "uc_plan (build_ctx st) = st_plan st"
  "uc_risk_profile (build_ctx st) = st_risk_profile st"
  "uc_daily_loss_limit_pct (build_ctx st) = st_daily_loss_limit_pct st"
  "uc_is_trading_active (build_ctx st) = st_is_trading_active st"
  "ac_total_balance (build_account_state a) = pa_balance a"
  by (simp_all add: build_ctx_def build_account_state_def)

lemma engine_sizing_paper:
  "engine_sizing sg (build_ctx st) (build_account_state a) (open_positions_count a)
     (map_option as_open_position (get_open_by_coin (sg_coin sg) a)) rr w = validate_sizing sg st a rr w"
proof -
  let ?p = "map_option as_open_position (get_open_by_coin (sg_coin sg) a)"
  obtain can r pre where C: "check_same_coin_position sg ?p = (can, r, pre)" by (cases rule: prod_cases3)
  have n: "pre = None \<Longrightarrow> can \<Longrightarrow> get_open_by_coin (sg_coin sg) a = None"
    using C by (auto simp: check_same_coin_position_def split: option.splits if_splits)
  have w: "(if x then map_option op_id q else None) = map_option op_id q" if "q = None \<or> x" for x q
    using that by auto
  have "\<not> can \<or> (if pre \<noteq> None then map_option op_id ?p else None) = map_option op_id ?p"
    using n w [of ?p "pre \<noteq> None"] by auto
  then show ?thesis
  proof
    assume "(if pre \<noteq> None then map_option op_id ?p else None) = map_option op_id ?p"
    then show ?thesis
      unfolding engine_sizing_def validate_sizing_def Let_def build_ctx_fields C prod.case
      by (simp only: option.map_disc_iff)
  qed (unfold engine_sizing_def validate_sizing_def Let_def C prod.case, simp)
qed

lemma engine_paper_verdict:
  assumes "validate now sg st a = (a', v)"
    "\<not> pa_is_halted a" "\<not> in_cooldown now a" "consecutive_losses a < 3"
    "check_kill_switch R now ''00000000-0000-0000-0000-000000000000'' s = (s, Inr (True, OK))"
    "check_consecutive_losses R now ''00000000-0000-0000-0000-000000000000'' (consecutive_losses a) s
       = (s, Inr (True, OK))"
    "vr_rejection_code v \<notin> {Some ''ORDER_001'', Some ''WEEKLY_LOSS''}"
  shows "engine_validate R now sg (build_ctx st) (build_account_state a) (daily_loss_usdt now a)
      (weekly_loss_usdt now a) (dmul (pa_balance a) (repr10 (st_weekly_loss_limit_pct st)))
      (consecutive_losses a) (open_positions_count a)
      (map_option as_open_position (get_open_by_coin (sg_coin sg) a)) s = (s, Inr v)"
proof -
  let ?ctx = "build_ctx st"
  obtain o1 r1 where c1: "check_not_hold sg = (o1, r1)" by (rule prod.exhaust)
  obtain o2 r2 where c2: "check_trading_active ?ctx = (o2, r2)" by (rule prod.exhaust)
  obtain o3 r3 where c3: "check_stop_loss_exists sg = (o3, r3)" by (rule prod.exhaust)
  obtain o4 rr r4 where c4: "check_rr_ratio sg = (o4, rr, r4)" by (rule prod_cases3)
  obtain o5 r5 where c5: "check_confidence sg = (o5, r5)" by (rule prod.exhaust)
  obtain o6 r6 where c6: "check_trading_hours now ?ctx = (o6, r6)" by (rule prod.exhaust)
  obtain o7 r7 w where c7: "check_daily_loss_limit (daily_loss_usdt now a)
      (dmul (pa_balance a) (repr10 (st_daily_loss_limit_pct st)))
      (dmul (pa_balance a) (repr10 (st_risk_per_trade st))) = (o7, r7, w)" by (rule prod_cases3)
  obtain o8 r8 where c8: "check_weekly_loss_limit (weekly_loss_usdt now a)
      (dmul (pa_balance a) (repr10 (st_weekly_loss_limit_pct st))) = (o8, r8)" by (rule prod.exhaust)
  note C = c1 c2 c3 c4 c5 c6 c7 c8
  have u: "uc_user_id ?ctx = ''00000000-0000-0000-0000-000000000000''" by (simp add: build_ctx_def)
  have n: "\<not> CONSECUTIVE_LOSS_HALT \<le> consecutive_losses a" "\<not> CONSECUTIVE_LOSS_COOLDOWN \<le> consecutive_losses a"
    using assms(4) by (simp_all add: pyconst)
  have V: "v = (if \<not> o1 then vr_hold_signal else if \<not> o2 then vr_reject ''TRADING_INACTIVE'' r2
    else if \<not> o3 then vr_reject ''ORDER_003'' r3 else if \<not> o4 then vr_reject ''ORDER_004'' r4
    else if \<not> o5 then vr_reject ''LOW_CONFIDENCE'' r5 else if \<not> o6 then vr_reject ''TIME_RESTRICTION'' r6
    else if \<not> o7 then vr_reject ''ORDER_001'' r7 else if \<not> o8 then vr_reject ''WEEKLY_LOSS'' r8
    else case validate_sizing sg st a rr (case w of None \<Rightarrow> [] | Some w \<Rightarrow> [DailyLossWarn w]) of
      Inl e \<Rightarrow> vr_system_error e | Inr v \<Rightarrow> v)"
    using assms(1) unfolding validate_def Let_def C prod.case
    by (simp only: assms(2,3) n if_False if_True prod.inject split: if_splits) auto
  have o: "o1 \<and> o2 \<and> o3 \<and> o4 \<and> o5 \<and> o6 \<longrightarrow> o7 \<and> o8"
    using assms(7) unfolding V by (auto simp: vr_reject_def vr_default_def split: if_splits)
  have "validate_body R now sg ?ctx (build_account_state a) (daily_loss_usdt now a)
      (weekly_loss_usdt now a) (dmul (pa_balance a) (repr10 (st_weekly_loss_limit_pct st)))
      (consecutive_losses a) (open_positions_count a)
      (map_option as_open_position (get_open_by_coin (sg_coin sg) a)) s =
    (s, if o1 \<and> o2 \<and> o3 \<and> o4 \<and> o5 \<and> o6
       then validate_sizing sg st a rr (case w of None \<Rightarrow> [] | Some w \<Rightarrow> [DailyLossWarn w]) else Inr v)"
    unfolding validate_body_def Let_def act_bind_def build_ctx_fields u assms(5,6) sum.case C prod.case
    using o unfolding V
    by (simp add: engine_sizing_paper assms(6) act_bind_def)
  then show ?thesis unfolding engine_validate_def act_catch_def using o
    by (simp add: V split: sum.split)
qed

text \<open>
  C4. On one account the two pipelines agree: when nothing blocks it (no halt, no cooldown, a
  streak below three, on the account and on the server), a signal whose loss limits are not
  breached gets from the live engine the verdict the paper pipeline gives it.
\<close>

theorem engine_agrees_with_paper:
  assumes "validate now sg st a = (a', v)"
    "\<not> pa_is_halted a" "\<not> in_cooldown now a" "consecutive_losses a < 3"
    "check_kill_switch R now ''00000000-0000-0000-0000-000000000000'' s = (s, Inr (True, OK))"
    "check_consecutive_losses R now ''00000000-0000-0000-0000-000000000000'' (consecutive_losses a) s
       = (s, Inr (True, OK))"
    "vr_rejection_code v \<notin> {Some ''ORDER_001'', Some ''WEEKLY_LOSS''}"
  shows "engine_validate R now sg (build_ctx st) (build_account_state a) (daily_loss_usdt now a)
      (weekly_loss_usdt now a) (dmul (pa_balance a) (repr10 (st_weekly_loss_limit_pct st)))
      (consecutive_losses a) (open_positions_count a)
      (map_option as_open_position (get_open_by_coin (sg_coin sg) a)) s = (s, Inr v)"
  using assms by (rule engine_paper_verdict)

lemma sample_engine:
  "engine_validate map_redis 0 sample_signal (build_ctx sample_settings)
     (build_account_state sample_account) 0 0 1000 0 0 None Map.empty = (Map.empty, Inr sample_validation)"
proof -
  have "engine_validate map_redis 0 sample_signal (build_ctx sample_settings)
     (build_account_state sample_account) (daily_loss_usdt 0 sample_account)
     (weekly_loss_usdt 0 sample_account)
     (dmul (pa_balance sample_account) (repr10 (st_weekly_loss_limit_pct sample_settings)))
     (consecutive_losses sample_account) (open_positions_count sample_account)
     (map_option as_open_position (get_open_by_coin (sg_coin sample_signal) sample_account)) Map.empty
     = (Map.empty, Inr sample_validation)"
    by (rule engine_paper_verdict [OF sample_validated])
      (simp_all add: sample_account_def new_account_def in_cooldown_def consecutive_losses_def
        sample_validation_def vr_default_def)
  moreover have "consecutive_losses sample_account = 0" "daily_loss_usdt 0 sample_account = 0"
    "weekly_loss_usdt 0 sample_account = 0" "st_weekly_loss_limit_pct sample_settings = f64 (1 / 10)"
    by (simp_all add: consecutive_losses_def sample_account_facts daily_loss_usdt_def
        weekly_loss_usdt_def dsum_def sample_settings_def default_settings_def)
  ultimately show ?thesis by (simp add: sample_account_facts pyconst dec_eval)
qed

theorem engine_approval_within_limits_witness:
  "\<exists>lev. vr_final_leverage sample_validation = Some lev \<and> lev \<le> 20"
proof -
  have "vr_approved sample_validation" by (simp add: sample_validation_def vr_default_def)
  then show ?thesis
    using engine_approval_within_limits [of map_redis 0 sample_signal "build_ctx sample_settings"
        "build_account_state sample_account" 0 0 1000 0 0 None Map.empty]
    by (simp only: sample_engine snd_conv) auto
qed

theorem engine_agrees_with_paper_witness:
  "\<exists>x. engine_validate map_redis 0 sample_signal (build_ctx sample_settings)
     (build_account_state sample_account) (daily_loss_usdt 0 sample_account)
     (weekly_loss_usdt 0 sample_account) x 0 0 None Map.empty = (Map.empty, Inr sample_validation)"
  using engine_agrees_with_paper [OF sample_validated, of map_redis Map.empty]
  by (auto simp: sample_account_def new_account_def in_cooldown_def consecutive_losses_def
      sample_validation_def vr_default_def open_positions_count_def get_open_by_coin_def)

section \<open>Halts\<close>

lemma not_passed_rejects:
  assumes "\<And>r. snd (check_kill_switch R now (uc_user_id ctx) s) \<noteq> Inr (True, r)"
  shows "\<not> vr_approved (projr (snd (engine_validate R now sg ctx acc dl wl wlim cons cnt pos s)))"
    "\<not> vr_approved (projr (snd (validate_candidate R now c ctx acc dl wl wlim cons cnt pos reg fund conf s)))"
proof -
  obtain s1 x where K: "check_kill_switch R now (uc_user_id ctx) s = (s1, x)" by (cases rule: prod.exhaust)
  have x: "(\<exists>e. x = Inl e) \<or> (\<exists>r. x = Inr (False, r))"
    using assms K by (cases x) auto
  show "\<not> vr_approved (projr (snd (engine_validate R now sg ctx acc dl wl wlim cons cnt pos s)))"
    using x K by (auto simp: engine_validate_def act_catch_def validate_body_def)
  show "\<not> vr_approved (projr (snd (validate_candidate R now c ctx acc dl wl wlim cons cnt pos reg fund conf s)))"
    using x K by (auto simp: validate_candidate_def act_catch_def candidate_body_def
        reject_candidate_def vr_default_def)
qed

lemma halt_refuses:
  assumes "redis_laws R" "halt_trading R now (uc_user_id ctx) t msg s = (s', Inr h)" "now \<le> later"
    "\<And>u. compute_until now t = Some u \<Longrightarrow> later + second_us \<le> u"
  shows "\<not> vr_approved (projr (snd (engine_validate R later sg ctx acc dl wl wlim cons cnt pos s'))) \<and>
    \<not> vr_approved (projr (snd (validate_candidate R later c ctx acc dl wl wlim cons cnt pos reg fund conf s')))"
proof -
  have "alive now (halt_ttl now t) later" using assms(3,4) by (rule halt_ttl_alive)
  then have N: "snd (check_kill_switch R later (uc_user_id ctx) s') \<noteq> Inr (True, r)" for r
    using halt_trading_blocks [OF assms(1-3)] by blast
  show ?thesis using not_passed_rejects [OF N] by (intro conjI)
qed

text \<open>
  C5. A halt the kill switch has written blocks both pipelines: from the write until the last
  second before the end its trigger promises (next midnight UTC, next Monday UTC, 30 minutes),
  or for ever for a manual trigger, no signal and no candidate of the user is approved,
  whatever else the server answers or fails to answer.
\<close>

theorem halt_blocks_both_pipelines:
  assumes "redis_laws R" "halt_trading R now (uc_user_id ctx) t msg s = (s', Inr h)" "now \<le> later"
    "\<And>u. compute_until now t = Some u \<Longrightarrow> later + second_us \<le> u"
  shows "\<not> vr_approved (projr (snd (engine_validate R later sg ctx acc dl wl wlim cons cnt pos s'))) \<and>
    \<not> vr_approved (projr (snd (validate_candidate R later c ctx acc dl wl wlim cons cnt pos reg fund conf s')))"
  using assms by (rule halt_refuses)

theorem halt_blocks_both_pipelines_witness:
  "\<not> vr_approved (projr (snd (engine_validate map_redis 1000000 sample_signal (build_ctx sample_settings)
     (build_account_state sample_account) 0 0 1000 0 0 None
     (fst (halt_trading map_redis 0 (uc_user_id (build_ctx sample_settings)) T_DAILY_LOSS_LIMIT ''loss''
        Map.empty)))))"
proof -
  obtain h where "halt_trading map_redis 0 (uc_user_id (build_ctx sample_settings)) T_DAILY_LOSS_LIMIT
      ''loss'' Map.empty = (fst (halt_trading map_redis 0 (uc_user_id (build_ctx sample_settings))
        T_DAILY_LOSS_LIMIT ''loss'' Map.empty), Inr h)"
    by (simp add: halt_trading_def act_bind_def map_redis_def)
  from halt_blocks_both_pipelines [OF map_redis_laws this, of 1000000] show ?thesis
    by (auto simp: compute_until_cases until_midnight_utc_def date_of_def day_us_def second_us_def)
qed

text \<open>
  An emergency stop holds until it is lifted by hand: at every later instant both pipelines
  refuse the user, and after \<open>resume_trading\<close>, with no global stop, the kill-switch check passes
  again whenever the server answers.
\<close>

theorem emergency_stop_until_resumed:
  assumes "redis_laws R" "emergency_stop R now (uc_user_id ctx) msg T_MANUAL s = (s', Inr h)"
    "now \<le> later"
  shows "\<not> vr_approved (projr (snd (engine_validate R later sg ctx acc dl wl wlim cons cnt pos s'))) \<and>
    (\<forall>s2 x. resume_trading R (uc_user_id ctx) s' = (s2, Inr ()) \<and>
        r_get R later GlobalKill s2 = Inr None \<and>
        r_get R later (UserKill (uc_user_id ctx)) s2 = Inr x \<and>
        snd (check_kill_switch R later (uc_user_id ctx) s2) = Inr y \<longrightarrow> y = (True, OK))"
proof -
  obtain s1 where "halt_trading R now (uc_user_id ctx) T_MANUAL msg s1 = (s', Inr h)"
    using assms(2) by (auto simp: emergency_stop_def act_bind_Inr)
  note H = halt_refuses [OF assms(1) this assms(3)]
  have A: "\<not> vr_approved (projr (snd (engine_validate R later sg ctx acc dl wl wlim cons cnt pos s')))"
    using H by (simp add: compute_until_cases)
  have "y = (True, OK)"
    if r: "resume_trading R (uc_user_id ctx) s' = (s2, Inr ())" "r_get R later GlobalKill s2 = Inr None"
      "r_get R later (UserKill (uc_user_id ctx)) s2 = Inr x"
      "snd (check_kill_switch R later (uc_user_id ctx) s2) = Inr y" for s2 x
  proof -
    note D = redis_get_delete [OF assms(1) r(1) [unfolded resume_trading_def]]
    have x: "x = None" using D [OF _ r(3)] by simp
    have "b = False" if "r_exists R later GlobalKill s2 = Inr b" for b
      using redis_exists [OF assms(1) that r(2)] by simp
    moreover have "b = False" if "r_exists R later (UserKill (uc_user_id ctx)) s2 = Inr b" for b
      using redis_exists [OF assms(1) that r(3)] x by simp
    moreover have "z = None" if "r_get R later (UserHalt (uc_user_id ctx)) s2 = Inr z" for z
      using D [OF _ that] by simp
    ultimately show ?thesis using r(4)
      by (auto simp: check_kill_switch_def act_read_bind split: sum.splits option.splits)
  qed
  with A show ?thesis by blast
qed

theorem emergency_stop_until_resumed_witness:
  "\<not> vr_approved (projr (snd (engine_validate map_redis 10 sample_signal (build_ctx sample_settings)
     (build_account_state sample_account) 0 0 1000 0 0 None
     (fst (emergency_stop map_redis 0 (uc_user_id (build_ctx sample_settings)) ''stop'' T_MANUAL Map.empty)))))"
proof -
  obtain h where "emergency_stop map_redis 0 (uc_user_id (build_ctx sample_settings)) ''stop'' T_MANUAL
      Map.empty = (fst (emergency_stop map_redis 0 (uc_user_id (build_ctx sample_settings)) ''stop''
        T_MANUAL Map.empty), Inr h)"
    by (simp add: emergency_stop_def activate_user_def halt_trading_def act_bind_def map_redis_def)
  from emergency_stop_until_resumed [OF map_redis_laws this, of 10] show ?thesis by simp
qed

section \<open>Candidates\<close>

lemma reject_candidate_refused [simp]: "\<not> vr_approved (reject_candidate code r w c ctx)"
  by (simp add: reject_candidate_def vr_default_def)

lemma candidate_body_approved:
  assumes "candidate_body R now c ctx acc dl wl wlim cons cnt pos reg fund conf s = (s1, Inr v)"
    "vr_approved v"
  shows "\<exists>r w. snd (check_kill_switch R now (uc_user_id ctx) s) = Inr (True, r) \<and>
     candidate_precheck c ctx conf = Inr None \<and>
     candidate_postcheck c ctx acc cnt pos reg fund conf w = Inr v"
proof -
  obtain r where K: "check_kill_switch R now (uc_user_id ctx) s = (s, Inr (True, r))"
    using assms check_kill_switch_Inr [of R now "uc_user_id ctx" s]
    by (auto simp: candidate_body_def act_bind_Inr reject_candidate_def vr_default_def split: if_splits)
  obtain x where X: "candidate_precheck c ctx conf = Inr x"
    using assms K by (auto simp: candidate_body_def act_bind_Inr)
  have "x = None"
  proof (cases x)
    case (Some y)
    obtain code reason where "y = (code, reason)" by (cases y)
    then show ?thesis using assms K X Some
      by (simp add: candidate_body_def act_bind_def act_read_def reject_candidate_def vr_default_def) auto
  qed
  with X have P: "candidate_precheck c ctx conf = Inr None" by simp
  show ?thesis
    using assms K P
    by (auto simp: candidate_body_def act_bind_Inr reject_candidate_def vr_default_def Let_def
        split: prod.splits if_splits)
qed

lemma candidate_precheck_None:
  assumes "candidate_precheck c ctx None = Inr None"
  shows "\<exists>sl tp. tc_stop_loss c = Some sl \<and> 0 < sl \<and> tc_take_profit c = Some tp \<and> 0 < tp \<and>
    tc_action c \<in> {LONG, SHORT} \<and> tc_strategy_type c \<noteq> UNKNOWN_STRATEGY \<and> uc_is_trading_active ctx \<and>
    2 \<le> tc_actual_rr c \<and> tc_min_required_rr c \<le> tc_actual_rr c \<and>
    tc_leverage c \<le> 10 \<and> tc_leverage c \<le> uc_max_leverage ctx \<and>
    tc_margin_ratio c \<le> DECISION_MAX_ENTRY_MARGIN_RATIO"
  using assms
  by (auto simp: candidate_precheck_def Let_def ebind_Inr_iff not_less not_le
      GLOBAL_MIN_RISK_REWARD_RATIO_def DECISION_MAX_LEVERAGE_def
      split: if_splits option.splits)

lemma candidate_market_None:
  assumes "candidate_market_check c None reg fund = Inr None" "tc_strategy_type c \<noteq> UNKNOWN_STRATEGY"
  shows "tc_spread_bps c \<le> 8 \<and> tc_slippage_bps c \<le> 3 \<and>
    (\<forall>f. fund = Some f \<longrightarrow> \<not> funding_blocked f 10 5) \<and>
    as_regime reg \<notin> {HIGH_VOLATILITY, NEWS_EVENT} \<and>
    0 < tc_expected_holding_minutes c \<and> tc_expected_holding_minutes c \<le> 240"
  using assms
  by (cases "tc_strategy_type c")
    (auto simp: candidate_market_check_def Let_def ebind_Inr_iff not_less not_le
      DECISION_MAX_SLIPPAGE_BPS_def BLOCK_BEFORE_FUNDING_MINUTES_def BLOCK_AFTER_FUNDING_MINUTES_def
      HIGH_VOLATILITY_BLOCK_def NEWS_EVENT_BLOCK_def STRATEGY_THRESHOLDS_def strategy_value_def
      split: if_splits option.splits)

lemma candidate_postcheck_approved:
  assumes "candidate_postcheck c ctx acc cnt pos reg fund None w = Inr v" "vr_approved v"
  shows "\<exists>profit loss liq sl. pos = None \<and> fst (check_position_count_limit cnt ctx) \<and>
    tc_expected_net_profit c = Some profit \<and> dmul (tc_notional_size c) 0.001 < profit \<and>
    tc_expected_net_loss c = Some loss \<and>
    loss \<le> dmul (ac_total_balance acc) (repr10 (uc_risk_per_trade ctx)) \<and>
    tc_liquidation_price c = Some liq \<and> tc_stop_loss c = Some sl \<and> liquidation_safe c sl liq 0.001 \<and>
    candidate_market_check c None reg fund = Inr None \<and>
    dadd (ac_open_positions_risk_usdt acc) loss
      \<le> dmul (ac_total_balance acc) (if uc_risk_profile ctx = ''aggressive'' then 0.15 else 0.1) \<and>
    vr_final_leverage v = Some (tc_leverage c) \<and> vr_max_loss_usdt v = Some loss \<and> tc_leverage c \<noteq> 0"
proof -
  obtain ok r where P: "check_position_count_limit cnt ctx = (ok, r)" by (cases rule: prod.exhaust)
  have N: "pos = None" "ok"
    using assms P by (auto simp: candidate_postcheck_def Let_def reject_candidate_def vr_default_def
        split: option.splits prod.splits if_splits)
  obtain profit where profit: "tc_expected_net_profit c = Some profit"
    "dmul (tc_notional_size c) (1 / 1000) < profit"
    using assms P N by (auto simp: candidate_postcheck_def Let_def reject_candidate_def vr_default_def
        MIN_EXPECTED_NET_PROFIT_PCT_def pyconst not_le split: option.splits if_splits)
  obtain loss where loss: "tc_expected_net_loss c = Some loss"
    "loss \<le> dmul (ac_total_balance acc) (repr10 (uc_risk_per_trade ctx))"
    using assms P N profit by (auto simp: candidate_postcheck_def Let_def reject_candidate_def vr_default_def
        not_less split: option.splits if_splits)
  obtain liq sl where liq: "tc_liquidation_price c = Some liq" "tc_stop_loss c = Some sl"
    "liquidation_safe c sl liq (1 / 1000)"
    using assms P N profit loss by (auto simp: candidate_postcheck_def Let_def reject_candidate_def
        vr_default_def pyconst split: option.splits if_splits)
  have M: "candidate_market_check c None reg fund = Inr None"
    using assms profit(2) loss(2) liq(3)
    by (cases "candidate_market_check c None reg fund")
      (simp_all add: candidate_postcheck_def Let_def P N profit(1) loss(1) liq(1,2)
        MIN_EXPECTED_NET_PROFIT_PCT_def pyconst not_le not_less
        split: if_splits option.splits, use reject_candidate_refused in auto)
  obtain k r3 where R: "check_portfolio_risk acc loss (uc_risk_profile ctx) = (k, r3)"
    by (cases rule: prod.exhaust)
  have A: "k" "candidate_approve c ctx w = Inr v"
    using assms profit(2) loss(2) liq(3)
    by (simp_all add: candidate_postcheck_def Let_def P N profit(1) loss(1) liq(1,2) M R
        MIN_EXPECTED_NET_PROFIT_PCT_def pyconst not_le not_less split: if_splits)
      (use reject_candidate_refused in auto)
  from A(2) have "vr_final_leverage v = Some (tc_leverage c)" "vr_max_loss_usdt v = Some loss" "tc_leverage c \<noteq> 0"
    using loss by (auto simp: candidate_approve_def ebind_Inr_iff ddivE_Inr vr_default_def)
  moreover have "dadd (ac_open_positions_risk_usdt acc) loss
      \<le> dmul (ac_total_balance acc) (if uc_risk_profile ctx = ''aggressive'' then 0.15 else 0.1)"
    using R A(1) by (intro check_portfolio_risk_True [of acc loss _ r3]) simp
  ultimately show ?thesis
    using P N profit loss liq M
    by (intro exI [of _ profit] exI [of _ loss] exI [of _ liq] exI [of _ sl]) simp
qed

text \<open>
  C6. Under the default configuration a candidate the engine approves passed the kill-switch
  check, is a LONG or SHORT with positive stop and target, has a reward-to-risk of at least 2 and of
  its strategy's minimum, a leverage of at most 10 and the user's maximum, an expected net profit
  above 0.1% of its notional, an expected net loss within the risk per trade, a liquidation
  price more than 0.1% beyond its stop, no position in its coin, no funding window, no
  high-volatility or news regime, and keeps the portfolio risk within its limit.
\<close>

theorem candidate_approval_within_limits:
  assumes "snd (validate_candidate R now c ctx acc dl wl wlim cons cnt pos reg fund None s) = Inr v"
    "vr_approved v"
  shows "(\<exists>r. snd (check_kill_switch R now (uc_user_id ctx) s) = Inr (True, r)) \<and>
    tc_action c \<in> {LONG, SHORT} \<and> pos = None \<and>
    2 \<le> tc_actual_rr c \<and> tc_min_required_rr c \<le> tc_actual_rr c \<and>
    tc_leverage c \<le> 10 \<and> tc_leverage c \<le> uc_max_leverage ctx \<and>
    tc_margin_ratio c \<le> DECISION_MAX_ENTRY_MARGIN_RATIO \<and>
    as_regime reg \<notin> {HIGH_VOLATILITY, NEWS_EVENT} \<and>
    (\<forall>f. fund = Some f \<longrightarrow> \<not> funding_blocked f 10 5) \<and>
    tc_spread_bps c \<le> 8 \<and> tc_slippage_bps c \<le> 3 \<and> tc_expected_holding_minutes c \<le> 240 \<and>
    (\<exists>sl tp profit loss liq. tc_stop_loss c = Some sl \<and> 0 < sl \<and> tc_take_profit c = Some tp \<and> 0 < tp \<and>
       tc_expected_net_profit c = Some profit \<and> dmul (tc_notional_size c) 0.001 < profit \<and>
       tc_expected_net_loss c = Some loss \<and>
       loss \<le> dmul (ac_total_balance acc) (repr10 (uc_risk_per_trade ctx)) \<and>
       tc_liquidation_price c = Some liq \<and> liquidation_safe c sl liq 0.001 \<and>
       dadd (ac_open_positions_risk_usdt acc) loss
         \<le> dmul (ac_total_balance acc) (if uc_risk_profile ctx = ''aggressive'' then 0.15 else 0.1))"
proof -
  obtain s1 where V: "validate_candidate R now c ctx acc dl wl wlim cons cnt pos reg fund None s = (s1, Inr v)"
    using assms(1) by (metis prod.collapse)
  then have B: "candidate_body R now c ctx acc dl wl wlim cons cnt pos reg fund None s = (s1, Inr v)"
    using assms(2) by (auto simp: validate_candidate_def act_catch_Inr)
  obtain r w where A: "snd (check_kill_switch R now (uc_user_id ctx) s) = Inr (True, r)"
    "candidate_precheck c ctx None = Inr None" "candidate_postcheck c ctx acc cnt pos reg fund None w = Inr v"
    using candidate_body_approved [OF B assms(2)] by blast
  note pre = candidate_precheck_None [OF A(2)]
  note post = candidate_postcheck_approved [OF A(3) assms(2)]
  have "candidate_market_check c None reg fund = Inr None" "tc_strategy_type c \<noteq> UNKNOWN_STRATEGY"
    using pre post by blast+
  from candidate_market_None [OF this] pre post A(1) show ?thesis by auto
qed

definition sample_candidate :: trade_candidate where
  "sample_candidate =
     \<lparr>tc_action = LONG, tc_coin = ''BTC'', tc_symbol = ''BTCUSDT'',
      tc_strategy_type = TREND_FOLLOWING, tc_expected_holding_minutes = 120,
      tc_entry_price = 100, tc_stop_loss = Some 90, tc_take_profit = Some 130, tc_leverage = 5,
      tc_margin_ratio = 0, tc_notional_size = 1000, tc_actual_rr = 3, tc_min_required_rr = 2,
      tc_expected_gross_profit = Some 300, tc_expected_gross_loss = Some 100,
      tc_expected_fees = 1, tc_expected_slippage_cost = 1, tc_expected_net_profit = Some 298,
      tc_expected_net_loss = Some 102, tc_liquidation_price = Some 80, tc_spread_bps = 2,
      tc_slippage_bps = 2, tc_strategy_name = None\<rparr>"

lemma sample_candidate_approved:
  "\<exists>v. snd (validate_candidate map_redis 0 sample_candidate (build_ctx sample_settings)
     (build_account_state sample_account) 0 0 1000 0 0 None NoRegime None None Map.empty) = Inr v \<and>
   vr_approved v"
proof -
  let ?ctx = "build_ctx sample_settings" and ?acc = "build_account_state sample_account"
  have st: "uc_is_trading_active ?ctx" "uc_risk_per_trade ?ctx = f64 (1 / 50)"
    "uc_daily_loss_limit_pct ?ctx = f64 (3 / 100)" "uc_risk_profile ?ctx = ''moderate''"
    "uc_max_leverage ?ctx = 10" "ac_total_balance ?acc = 10000" "ac_open_positions_risk_usdt ?acc = 0"
    by (simp_all add: sample_settings_def default_settings_def build_account_state_def sample_account_facts)
  have m: "0 \<le> DECISION_MAX_ENTRY_MARGIN_RATIO" by (simp add: DECISION_MAX_ENTRY_MARGIN_RATIO_def)
  have pre: "candidate_precheck sample_candidate ?ctx None = Inr None"
    using m by (simp add: candidate_precheck_def sample_candidate_def sample_settings_def
        default_settings_def strategy_value_def
        STRATEGY_THRESHOLDS_def GLOBAL_MIN_RISK_REWARD_RATIO_def DECISION_MAX_LEVERAGE_def Let_def)
  have d: "check_daily_loss_limit 0 (dmul 10000 (repr10 (f64 (3 / 100)))) 102 = (True, OK, None)"
    by (simp add: check_daily_loss_limit_def Let_def pyconst dec_eval DAILY_LOSS_CAUTION_PCT_def
        DAILY_LOSS_WARNING_PCT_def not_le not_less)
  have w: "check_weekly_loss_limit 0 1000 = (True, OK)"
    by (simp add: check_weekly_loss_limit_def pyconst dec_eval Let_def)
  have c: "check_position_count_limit 0 ?ctx = (True, OK)"
    by (simp add: check_position_count_limit_def Let_def build_ctx_def sample_settings_def
        default_settings_def get_or_def PLAN_MAX_POSITIONS_def)
  have p: "check_portfolio_risk ?acc 102 ''moderate'' = (True, OK)"
    by (simp add: check_portfolio_risk_def Let_def portfolio_limit_ratio_def st
        MAX_PORTFOLIO_RISK_def pyconst dec_eval sample_account_facts)
  have mk: "candidate_market_check sample_candidate None NoRegime None = Inr None"
    by (simp add: candidate_market_check_def sample_candidate_def strategy_value_def
        STRATEGY_THRESHOLDS_def as_regime_def DECISION_MAX_SLIPPAGE_BPS_def ALLOW_MARTINGALE_def
        ALLOW_AVERAGING_DOWN_def ISOLATED_MARGIN_ONLY_def lower_isolated Let_def)
  have post: "\<exists>v. candidate_postcheck sample_candidate ?ctx ?acc 0 None NoRegime None None [] = Inr v \<and> vr_approved v"
  proof -
    have "candidate_approve sample_candidate ?ctx [] \<noteq> Inl e \<and>
        (candidate_approve sample_candidate ?ctx [] = Inr v \<longrightarrow> vr_approved v)" for e v
      by (auto simp: candidate_approve_def sample_candidate_def ddivE_def vr_default_def)
    then obtain v where v: "candidate_approve sample_candidate ?ctx [] = Inr v" "vr_approved v"
      by (metis sum.exhaust)
    have f: "tc_expected_net_profit sample_candidate = Some 298" "tc_expected_net_loss sample_candidate = Some 102"
      "tc_liquidation_price sample_candidate = Some 80" "tc_stop_loss sample_candidate = Some 90"
      "tc_notional_size sample_candidate = 1000" "liquidation_safe sample_candidate 90 80 (1 / 1000)"
      by (simp_all add: sample_candidate_def liquidation_safe_def dec_eval)
    have b: "\<not> dmul 10000 (repr10 (f64 (1 / 50))) < 102" "\<not> 298 \<le> dmul 1000 (1 / 1000)"
      by (simp_all add: pyconst dec_eval)
    show ?thesis
      unfolding candidate_postcheck_def c f st Let_def using mk p v b
      by (simp add: MIN_EXPECTED_NET_PROFIT_PCT_def pyconst f)
  qed
  have "snd (candidate_body map_redis 0 sample_candidate ?ctx ?acc 0 0 1000 0 0 None NoRegime None None
      Map.empty) = candidate_postcheck sample_candidate ?ctx ?acc 0 None NoRegime None None []"
  proof -
    have f: "tc_expected_net_loss sample_candidate = Some 102" by (simp add: sample_candidate_def)
    show ?thesis unfolding candidate_body_def f st option.case Let_def using d w pre
      by (simp add: act_read_bind)
  qed
  with post show ?thesis
    by (auto simp: validate_candidate_def act_catch_def split: prod.splits)
qed

theorem candidate_approval_within_limits_witness:
  "2 \<le> tc_actual_rr sample_candidate \<and> tc_leverage sample_candidate \<le> 10"
proof -
  obtain v where "snd (validate_candidate map_redis 0 sample_candidate (build_ctx sample_settings)
     (build_account_state sample_account) 0 0 1000 0 0 None NoRegime None None Map.empty) = Inr v"
    "vr_approved v"
    using sample_candidate_approved by blast
  from candidate_approval_within_limits [OF this] show ?thesis by simp
qed

end
