(* ===== verification/SafetyTypes.thy ===== *)
theory SafetyTypes
  imports KillSwitch
begin

text \<open>
  \<open>backend/app/safety/types.py\<close> and \<open>constants.py\<close>: the thresholds, the per-user and global states
  of the live-trading safety layer, and the result of a check (its message text is not modelled).
\<close>

section \<open>Constants\<close>

definition LIVE_TRADING_ENABLED_DEFAULT :: bool where "LIVE_TRADING_ENABLED_DEFAULT = False"
definition SAFETY_DAILY_LOSS_WARNING_PCT :: rat where "SAFETY_DAILY_LOSS_WARNING_PCT = f64 0.5"
definition SAFETY_DAILY_LOSS_CAUTION_PCT :: rat where "SAFETY_DAILY_LOSS_CAUTION_PCT = f64 0.8"
definition SAFETY_DAILY_LOSS_HALT_PCT :: rat where "SAFETY_DAILY_LOSS_HALT_PCT = 1"
definition SAFETY_WEEKLY_LOSS_WARNING_PCT :: rat where "SAFETY_WEEKLY_LOSS_WARNING_PCT = f64 0.5"
definition SAFETY_WEEKLY_LOSS_CAUTION_PCT :: rat where "SAFETY_WEEKLY_LOSS_CAUTION_PCT = f64 0.75"
definition SAFETY_WEEKLY_LOSS_HALT_PCT :: rat where "SAFETY_WEEKLY_LOSS_HALT_PCT = 1"
definition DRAWDOWN_WARNING_PCT :: rat where "DRAWDOWN_WARNING_PCT = f64 0.1"
definition DRAWDOWN_HALT_PCT :: rat where "DRAWDOWN_HALT_PCT = f64 0.2"
definition API_FAILURE_HALT_THRESHOLD :: int where "API_FAILURE_HALT_THRESHOLD = 3"
definition API_FAILURE_HALT_MINUTES :: int where "API_FAILURE_HALT_MINUTES = 30"

section \<open>Data\<close>

datatype halt_reason =
    H_LIVE_TRADING_DISABLED | H_DAILY_LOSS_LIMIT | H_WEEKLY_LOSS_LIMIT | H_DRAWDOWN_PROTECTION
  | H_EMERGENCY_SHUTDOWN | H_CONSECUTIVE_API_FAILURES

definition halt_reason_value :: "halt_reason \<Rightarrow> string" where
  "halt_reason_value r = (case r of
      H_LIVE_TRADING_DISABLED \<Rightarrow> ''LIVE_TRADING_DISABLED''
    | H_DAILY_LOSS_LIMIT \<Rightarrow> ''DAILY_LOSS_LIMIT''
    | H_WEEKLY_LOSS_LIMIT \<Rightarrow> ''WEEKLY_LOSS_LIMIT''
    | H_DRAWDOWN_PROTECTION \<Rightarrow> ''DRAWDOWN_PROTECTION''
    | H_EMERGENCY_SHUTDOWN \<Rightarrow> ''EMERGENCY_SHUTDOWN''
    | H_CONSECUTIVE_API_FAILURES \<Rightarrow> ''CONSECUTIVE_API_FAILURES'')"

text \<open>\<open>HaltReason(text)\<close>; an unknown text raises \<open>ValueError\<close>, here \<open>None\<close>.\<close>

definition halt_reason_of :: "string \<Rightarrow> halt_reason option" where
  "halt_reason_of s =
     find (\<lambda>r. halt_reason_value r = s)
       [H_LIVE_TRADING_DISABLED, H_DAILY_LOSS_LIMIT, H_WEEKLY_LOSS_LIMIT, H_DRAWDOWN_PROTECTION,
        H_EMERGENCY_SHUTDOWN, H_CONSECUTIVE_API_FAILURES]"

datatype alert_level = INFO | WARNING | CRITICAL

record safety_config =
  sf_live_trading_enabled :: bool
  sf_daily_loss_limit_pct :: rat
  sf_weekly_loss_limit_pct :: rat
  sf_drawdown_warning_pct :: rat
  sf_drawdown_halt_pct :: rat
  sf_api_failure_halt_threshold :: int
  sf_api_failure_halt_minutes :: int

definition default_safety_config :: safety_config where
  "default_safety_config =
     \<lparr>sf_live_trading_enabled = LIVE_TRADING_ENABLED_DEFAULT,
      sf_daily_loss_limit_pct = f64 0.03, sf_weekly_loss_limit_pct = f64 0.1,
      sf_drawdown_warning_pct = DRAWDOWN_WARNING_PCT, sf_drawdown_halt_pct = DRAWDOWN_HALT_PCT,
      sf_api_failure_halt_threshold = API_FAILURE_HALT_THRESHOLD,
      sf_api_failure_halt_minutes = API_FAILURE_HALT_MINUTES\<rparr>"

record safety_check_result =
  sk_allowed :: bool
  sk_halt_reason :: "halt_reason option"
  sk_alert_level :: alert_level

definition sk_ok :: safety_check_result where
  "sk_ok = \<lparr>sk_allowed = True, sk_halt_reason = None, sk_alert_level = INFO\<rparr>"

definition sk_warning :: safety_check_result where
  "sk_warning = \<lparr>sk_allowed = True, sk_halt_reason = None, sk_alert_level = WARNING\<rparr>"

definition sk_blocked :: "halt_reason \<Rightarrow> safety_check_result" where
  "sk_blocked r = \<lparr>sk_allowed = False, sk_halt_reason = Some r, sk_alert_level = CRITICAL\<rparr>"

record ks_state =
  ks_user_id :: string
  ks_is_halted :: bool
  ks_halt_reason :: "halt_reason option"
  ks_halt_until :: "int option"
  ks_current_loss_usdt :: rat
  ks_period_start_balance :: rat

definition ks_default :: "string \<Rightarrow> ks_state" where
  "ks_default user_id =
     \<lparr>ks_user_id = user_id, ks_is_halted = False, ks_halt_reason = None, ks_halt_until = None,
      ks_current_loss_usdt = 0, ks_period_start_balance = 0\<rparr>"

record disconnect_state =
  dc_consecutive_failures :: int
  dc_last_failure_at :: "int option"
  dc_halt_until :: "int option"
  dc_is_halted :: bool

definition dc_default :: disconnect_state where
  "dc_default = \<lparr>dc_consecutive_failures = 0, dc_last_failure_at = None, dc_halt_until = None,
                 dc_is_halted = False\<rparr>"

record emergency_state =
  em_is_active :: bool
  em_activated_at :: "int option"
  em_activated_by :: "string option"
  em_reason :: string
  em_requires_manual_resume :: bool

definition em_default :: emergency_state where
  "em_default = \<lparr>em_is_active = False, em_activated_at = None, em_activated_by = None,
                 em_reason = [], em_requires_manual_resume = True\<rparr>"

record drawdown_state =
  dd_peak_balance :: rat
  dd_current_balance :: rat
  dd_is_halted :: bool
  dd_warning_sent :: bool

definition dd_default :: drawdown_state where
  "dd_default = \<lparr>dd_peak_balance = 0, dd_current_balance = 0, dd_is_halted = False,
                 dd_warning_sent = False\<rparr>"

record user_halt_status =
  uh_is_halted :: bool
  uh_halt_reason :: "halt_reason option"
  uh_halt_until :: "int option"

lemma sk_simps [simp]:
  "sk_allowed sk_ok" "sk_allowed sk_warning" "\<not> sk_allowed (sk_blocked r)"
  "sk_halt_reason (sk_blocked r) = Some r"
  by (simp_all add: sk_ok_def sk_warning_def sk_blocked_def)

lemma ks_default_simps [simp]:
  "\<not> ks_is_halted (ks_default u)" "ks_user_id (ks_default u) = u"
  "ks_current_loss_usdt (ks_default u) = 0"
  by (simp_all add: ks_default_def)

lemma halt_reason_roundtrip [simp]: "halt_reason_of (halt_reason_value r) = Some r"
  by (cases r) (simp_all add: halt_reason_of_def halt_reason_value_def)

end
