(* ===== verification/SafetyStore.thy ===== *)
theory SafetyStore
  imports SafetyTypes
begin

text \<open>
  \<open>backend/app/safety/state.py\<close>: the interface of the state store, its in-memory and its Redis
  implementation, and the JSON of each state. The operations take the instant of the call,
  since the Redis store reads the clock for a key's time to live.
\<close>

section \<open>The interface\<close>

record 's safety_store =
  so_get_daily :: "int \<Rightarrow> string \<Rightarrow> ('s, ks_state) act"
  so_set_daily :: "int \<Rightarrow> string \<Rightarrow> ks_state \<Rightarrow> ('s, unit) act"
  so_get_weekly :: "int \<Rightarrow> string \<Rightarrow> ('s, ks_state) act"
  so_set_weekly :: "int \<Rightarrow> string \<Rightarrow> ks_state \<Rightarrow> ('s, unit) act"
  so_get_disconnect :: "int \<Rightarrow> ('s, disconnect_state) act"
  so_set_disconnect :: "int \<Rightarrow> disconnect_state \<Rightarrow> ('s, unit) act"
  so_get_emergency :: "int \<Rightarrow> ('s, emergency_state) act"
  so_set_emergency :: "int \<Rightarrow> emergency_state \<Rightarrow> ('s, unit) act"
  so_get_drawdown :: "int \<Rightarrow> string \<Rightarrow> ('s, drawdown_state) act"
  so_set_drawdown :: "int \<Rightarrow> string \<Rightarrow> drawdown_state \<Rightarrow> ('s, unit) act"

text \<open>
  What the protections rely on: a successful read returns the view of the state at its instant, a
  successful write makes the view what was written (a kill switch with an end only until the
  last second before it, when its key may expire), and no operation on one part of the
  state, successful or not, touches the others.
\<close>

definition in_window :: "int \<Rightarrow> int option \<Rightarrow> int \<Rightarrow> bool" where
  "in_window now halt_until later \<longleftrightarrow> now \<le> later \<and>
     (\<forall>t. halt_until = Some t \<longrightarrow> later + second_us \<le> t \<and> t - now < 9 * 10 ^ 15)"

locale safety_store =
  fixes S :: "'s safety_store"
    and daily :: "int \<Rightarrow> string \<Rightarrow> 's \<Rightarrow> ks_state"
    and weekly :: "int \<Rightarrow> string \<Rightarrow> 's \<Rightarrow> ks_state"
    and disc :: "int \<Rightarrow> 's \<Rightarrow> disconnect_state"
    and emerg :: "int \<Rightarrow> 's \<Rightarrow> emergency_state"
    and draw :: "int \<Rightarrow> string \<Rightarrow> 's \<Rightarrow> drawdown_state"
  assumes get_daily: "so_get_daily S now u s = (s', r) \<Longrightarrow> s' = s \<and> (\<forall>x. r = Inr x \<longrightarrow> x = daily now u s)"
    and get_weekly: "so_get_weekly S now u s = (s', r) \<Longrightarrow> s' = s \<and> (\<forall>x. r = Inr x \<longrightarrow> x = weekly now u s)"
    and get_disc: "so_get_disconnect S now s = (s', rc) \<Longrightarrow> s' = s \<and> (\<forall>xc. rc = Inr xc \<longrightarrow> xc = disc now s)"
    and get_emerg: "so_get_emergency S now s = (s', re) \<Longrightarrow> s' = s \<and> (\<forall>xe. re = Inr xe \<longrightarrow> xe = emerg now s)"
    and get_draw: "so_get_drawdown S now u s = (s', rd) \<Longrightarrow> s' = s \<and> (\<forall>xd. rd = Inr xd \<longrightarrow> xd = draw now u s)"
    and set_daily: "so_set_daily S now u st s = (s', Inr ()) \<Longrightarrow> ks_user_id st = u \<Longrightarrow>
      in_window now (ks_halt_until st) later \<Longrightarrow> daily later u s' = st"
    and set_weekly: "so_set_weekly S now u st s = (s', Inr ()) \<Longrightarrow> ks_user_id st = u \<Longrightarrow>
      in_window now (ks_halt_until st) later \<Longrightarrow> weekly later u s' = st"
    and set_disc: "so_set_disconnect S now dc s = (s', Inr ()) \<Longrightarrow> disc later s' = dc"
    and set_emerg: "so_set_emergency S now e s = (s', Inr ()) \<Longrightarrow> emerg later s' = e"
    and set_draw: "so_set_drawdown S now u d s = (s', Inr ()) \<Longrightarrow> draw later u s' = d"
    and emerg_either: "so_set_emergency S now e s = (s', q) \<Longrightarrow> emerg later s' \<in> {e, emerg later s}"
    and draw_either: "so_set_drawdown S now u d s = (s', q) \<Longrightarrow> draw later u s' \<in> {d, draw later u s}"
    and daily_frame: "so_set_daily S now u st s = (s', q) \<Longrightarrow>
      disc later s' = disc later s \<and> emerg later s' = emerg later s \<and> draw later v s' = draw later v s"
    and weekly_frame: "so_set_weekly S now u st s = (s', q) \<Longrightarrow>
      disc later s' = disc later s \<and> emerg later s' = emerg later s \<and> draw later v s' = draw later v s"
    and disc_frame: "so_set_disconnect S now dc s = (s', q) \<Longrightarrow>
      daily later v s' = daily later v s \<and> weekly later v s' = weekly later v s \<and>
      emerg later s' = emerg later s \<and> draw later v s' = draw later v s"
    and emerg_frame: "so_set_emergency S now e s = (s', q) \<Longrightarrow>
      daily later v s' = daily later v s \<and> weekly later v s' = weekly later v s \<and>
      disc later s' = disc later s \<and> draw later v s' = draw later v s"
    and draw_frame: "so_set_drawdown S now u d s = (s', q) \<Longrightarrow>
      daily later v s' = daily later v s \<and> weekly later v s' = weekly later v s \<and>
      disc later s' = disc later s \<and> emerg later s' = emerg later s \<and>
      (v \<noteq> u \<longrightarrow> draw later v s' = draw later v s)"

section \<open>JSON\<close>

definition ks_to_json :: "ks_state \<Rightarrow> jobj" where
  "ks_to_json s =
     [(''is_halted'', JBool (ks_is_halted s)),
      (''halt_reason'', case ks_halt_reason s of None \<Rightarrow> JNull | Some r \<Rightarrow> JStr (halt_reason_value r)),
      (''halt_until'', jopt_iso (ks_halt_until s)),
      (''current_loss_usdt'', JNum (ks_current_loss_usdt s)),
      (''period_start_balance'', JNum (ks_period_start_balance s))]"

definition jnum :: "jval \<Rightarrow> rat" where
  "jnum v = (case v of JNum x \<Rightarrow> x | _ \<Rightarrow> 0)"

text \<open>\<open>fromisoformat\<close> inside \<open>try: ... except ValueError: pass\<close>.\<close>

definition iso_or_ignore :: "jval \<Rightarrow> int option result" where
  "iso_or_ignore v = (case iso_or_none v of Inl ValueError \<Rightarrow> Inr None | r \<Rightarrow> r)"

definition ks_from_json :: "string \<Rightarrow> jobj \<Rightarrow> ks_state result" where
  "ks_from_json user_id data =
     ebind (iso_or_ignore (jget data ''halt_until'' JNull)) (\<lambda>halt_until.
     let halt_reason = (case jget data ''halt_reason'' JNull of
           JStr r \<Rightarrow> halt_reason_of r | _ \<Rightarrow> None)
     in Inr \<lparr>ks_user_id = user_id, ks_is_halted = truthy (jget data ''is_halted'' (JBool False)),
             ks_halt_reason = halt_reason, ks_halt_until = halt_until,
             ks_current_loss_usdt = jnum (jget data ''current_loss_usdt'' (JNum 0)),
             ks_period_start_balance = jnum (jget data ''period_start_balance'' (JNum 0))\<rparr>)"

definition ks_from_risk_halt :: "string \<Rightarrow> jobj \<Rightarrow> halt_reason \<Rightarrow> ks_state result" where
  "ks_from_risk_halt user_id data reason =
     (let until_str = jget data ''until'' (JStr [])
      in ebind (if truthy until_str \<and> until_str \<noteq> JStr ''manual_resume''
                then iso_or_ignore until_str else Inr None) (\<lambda>halt_until.
         Inr \<lparr>ks_user_id = user_id, ks_is_halted = True, ks_halt_reason = Some reason,
              ks_halt_until = halt_until, ks_current_loss_usdt = 0,
              ks_period_start_balance = 0\<rparr>))"

definition compute_ttl :: "int \<Rightarrow> int option \<Rightarrow> int option" where
  "compute_ttl now halt_until = map_option (\<lambda>t. max 1 (whole_seconds (t - now))) halt_until"

definition disconnect_to_json :: "disconnect_state \<Rightarrow> jobj" where
  "disconnect_to_json s =
     [(''consecutive_failures'', JNum (of_int (dc_consecutive_failures s))),
      (''last_failure_at'', jopt_iso (dc_last_failure_at s)),
      (''halt_until'', jopt_iso (dc_halt_until s)), (''is_halted'', JBool (dc_is_halted s))]"

definition disconnect_from_json :: "jobj \<Rightarrow> disconnect_state result" where
  "disconnect_from_json data =
     ebind (iso_or_none (jget data ''last_failure_at'' JNull)) (\<lambda>last.
     ebind (iso_or_none (jget data ''halt_until'' JNull)) (\<lambda>until.
     Inr \<lparr>dc_consecutive_failures = \<lfloor>jnum (jget data ''consecutive_failures'' (JNum 0))\<rfloor>,
          dc_last_failure_at = last, dc_halt_until = until,
          dc_is_halted = truthy (jget data ''is_halted'' (JBool False))\<rparr>))"

definition jstr_opt :: "string option \<Rightarrow> jval" where
  "jstr_opt s = (case s of None \<Rightarrow> JNull | Some s \<Rightarrow> JStr s)"

definition emergency_to_json :: "emergency_state \<Rightarrow> jobj" where
  "emergency_to_json s =
     [(''is_active'', JBool (em_is_active s)), (''activated_at'', jopt_iso (em_activated_at s)),
      (''activated_by'', jstr_opt (em_activated_by s)), (''reason'', JStr (em_reason s)),
      (''requires_manual_resume'', JBool (em_requires_manual_resume s))]"

definition emergency_from_json :: "jobj \<Rightarrow> emergency_state result" where
  "emergency_from_json data =
     ebind (iso_or_none (jget data ''activated_at'' JNull)) (\<lambda>activated_at.
     Inr \<lparr>em_is_active = truthy (jget data ''is_active'' (JBool False)),
          em_activated_at = activated_at,
          em_activated_by = (case jget data ''activated_by'' JNull of JStr s \<Rightarrow> Some s | _ \<Rightarrow> None),
          em_reason = (case jget data ''reason'' (JStr []) of JStr s \<Rightarrow> s | _ \<Rightarrow> []),
          em_requires_manual_resume = truthy (jget data ''requires_manual_resume'' (JBool True))\<rparr>)"

definition drawdown_to_json :: "drawdown_state \<Rightarrow> jobj" where
  "drawdown_to_json s =
     [(''peak_balance'', JNum (dd_peak_balance s)),
      (''current_balance'', JNum (dd_current_balance s)),
      (''is_halted'', JBool (dd_is_halted s)), (''warning_sent'', JBool (dd_warning_sent s))]"

definition drawdown_from_json :: "jobj \<Rightarrow> drawdown_state" where
  "drawdown_from_json data =
     \<lparr>dd_peak_balance = jnum (jget data ''peak_balance'' (JNum 0)),
      dd_current_balance = jnum (jget data ''current_balance'' (JNum 0)),
      dd_is_halted = truthy (jget data ''is_halted'' (JBool False)),
      dd_warning_sent = truthy (jget data ''warning_sent'' (JBool False))\<rparr>"

lemma ks_roundtrip: "ks_from_json u (ks_to_json s) = Inr (s\<lparr>ks_user_id := u\<rparr>)"
  by (cases "ks_halt_reason s")
    (simp_all add: ks_from_json_def ks_to_json_def jget_def iso_or_ignore_def truthy_def jnum_def)

lemma disconnect_roundtrip: "disconnect_from_json (disconnect_to_json s) = Inr s"
  by (simp add: disconnect_from_json_def disconnect_to_json_def jget_def truthy_def jnum_def)

lemma emergency_roundtrip: "emergency_from_json (emergency_to_json s) = Inr s"
  by (cases "em_activated_by s")
    (simp_all add: emergency_from_json_def emergency_to_json_def jget_def truthy_def jstr_opt_def)

lemma drawdown_roundtrip: "drawdown_from_json (drawdown_to_json s) = s"
  by (simp add: drawdown_from_json_def drawdown_to_json_def jget_def truthy_def jnum_def)

end
