(* ===== verification/SafetyProviders.thy ===== *)
theory SafetyProviders
  imports SafetyStore
begin

text \<open>
  The two implementations of the state store in \<open>backend/app/safety/state.py\<close>, the dictionaries of
  the in-memory store and the keys of the Redis store with the halt key it shares with the
  risk engine, and the proof that both keep the store's contract.
\<close>

section \<open>In memory\<close>

record memory_state =
  im_daily :: "string \<rightharpoonup> ks_state"
  im_weekly :: "string \<rightharpoonup> ks_state"
  im_disconnect :: disconnect_state
  im_emergency :: emergency_state
  im_drawdown :: "string \<rightharpoonup> drawdown_state"

definition memory_empty :: memory_state where
  "memory_empty = \<lparr>im_daily = Map.empty, im_weekly = Map.empty, im_disconnect = dc_default,
                   im_emergency = em_default, im_drawdown = Map.empty\<rparr>"

definition memory_store :: "memory_state safety_store" where
  "memory_store =
     \<lparr>so_get_daily = (\<lambda>now u s. (s, Inr (get_or (im_daily s) u (ks_default u)))),
      so_set_daily = (\<lambda>now u st s. (s\<lparr>im_daily := (im_daily s)(u \<mapsto> st)\<rparr>, Inr ())),
      so_get_weekly = (\<lambda>now u s. (s, Inr (get_or (im_weekly s) u (ks_default u)))),
      so_set_weekly = (\<lambda>now u st s. (s\<lparr>im_weekly := (im_weekly s)(u \<mapsto> st)\<rparr>, Inr ())),
      so_get_disconnect = (\<lambda>now s. (s, Inr (im_disconnect s))),
      so_set_disconnect = (\<lambda>now d s. (s\<lparr>im_disconnect := d\<rparr>, Inr ())),
      so_get_emergency = (\<lambda>now s. (s, Inr (im_emergency s))),
      so_set_emergency = (\<lambda>now e s. (s\<lparr>im_emergency := e\<rparr>, Inr ())),
      so_get_drawdown = (\<lambda>now u s. (s, Inr (get_or (im_drawdown s) u dd_default))),
      so_set_drawdown = (\<lambda>now u d s. (s\<lparr>im_drawdown := (im_drawdown s)(u \<mapsto> d)\<rparr>, Inr ()))\<rparr>"

interpretation mem: safety_store memory_store
  "\<lambda>now u s. get_or (im_daily s) u (ks_default u)"
  "\<lambda>now u s. get_or (im_weekly s) u (ks_default u)"
  "\<lambda>now s. im_disconnect s" "\<lambda>now s. im_emergency s"
  "\<lambda>now u s. get_or (im_drawdown s) u dd_default"
  by unfold_locales (auto simp: memory_store_def get_or_def)

section \<open>On Redis\<close>

text \<open>The texts \<open>data.get("trigger")\<close> is compared with, and the own key of each switch.\<close>

definition redis_get_ks ::
    "'s redis \<Rightarrow> (string \<Rightarrow> redis_key) \<Rightarrow> string \<Rightarrow> halt_reason \<Rightarrow> int \<Rightarrow> string \<Rightarrow> ('s, ks_state) act" where
  "redis_get_ks R own trigger reason now user_id =
     act_bind (act_read (r_get R now (own user_id))) (\<lambda>raw.
     case raw of
       Some v \<Rightarrow> act_read (\<lambda>_. ebind (json_loads v) (ks_from_json user_id))
     | None \<Rightarrow>
         act_bind (act_read (r_get R now (UserHalt user_id))) (\<lambda>halt_raw.
         case halt_raw of
           None \<Rightarrow> act_return (ks_default user_id)
         | Some v \<Rightarrow>
             act_read (\<lambda>_. ebind (json_loads v) (\<lambda>data.
               if jget data ''trigger'' JNull = JStr trigger
               then ks_from_risk_halt user_id data reason
               else Inr (ks_default user_id)))))"

definition write_ks_key ::
    "'s redis \<Rightarrow> int \<Rightarrow> redis_key \<Rightarrow> ks_state \<Rightarrow> ('s, unit) act" where
  "write_ks_key R now key state =
     r_set R now key (JObj (ks_to_json state)) (compute_ttl now (ks_halt_until state))"

definition SAFETY_TRIGGERS :: "string list" where
  "SAFETY_TRIGGERS = [''DAILY_LOSS_LIMIT'', ''WEEKLY_LOSS_LIMIT'']"

definition sync_shared_halt ::
    "'s redis \<Rightarrow> int \<Rightarrow> string \<Rightarrow> ks_state \<Rightarrow> string \<Rightarrow> redis_key \<Rightarrow> ('s, unit) act" where
  "sync_shared_halt R now user_id state trigger other_key =
     (if ks_is_halted state
      then r_set R now (UserHalt user_id)
             (JObj [(''trigger'', JStr trigger), (''reason'', JStr ''loss limit''),
                    (''until'', until_json (ks_halt_until state)), (''halted_at'', JIso now),
                    (''closes_existing'', JBool False)])
             (compute_ttl now (ks_halt_until state))
      else
        act_bind (act_read (r_get R now (UserHalt user_id))) (\<lambda>shared_raw.
        case shared_raw of
          None \<Rightarrow> act_return ()
        | Some v \<Rightarrow>
            act_bind (act_read (\<lambda>_. json_loads v)) (\<lambda>shared_data.
            if \<not> (case jget shared_data ''trigger'' (JStr []) of
                     JStr t \<Rightarrow> t \<in> set SAFETY_TRIGGERS | _ \<Rightarrow> False)
            then act_return ()
            else
              act_bind (act_read (r_get R now other_key)) (\<lambda>other_raw.
              act_bind (act_read (\<lambda>_. case other_raw of
                     None \<Rightarrow> Inr False
                   | Some w \<Rightarrow> ebind (json_loads w) (\<lambda>d.
                       Inr (truthy (jget d ''is_halted'' (JBool False)))))) (\<lambda>other_halted.
              if \<not> other_halted then r_delete R [UserHalt user_id] else act_return ())))))"

definition redis_set_ks ::
    "'s redis \<Rightarrow> (string \<Rightarrow> redis_key) \<Rightarrow> (string \<Rightarrow> redis_key) \<Rightarrow> string \<Rightarrow> int \<Rightarrow> string \<Rightarrow> ks_state
       \<Rightarrow> ('s, unit) act" where
  "redis_set_ks R own other trigger now user_id state =
     act_bind (write_ks_key R now (own user_id) state) (\<lambda>_.
     sync_shared_halt R now user_id state trigger (other user_id))"

definition redis_get_disconnect :: "'s redis \<Rightarrow> int \<Rightarrow> ('s, disconnect_state) act" where
  "redis_get_disconnect R now =
     act_bind (act_read (r_get R now DisconnectKey)) (\<lambda>raw. act_read (\<lambda>_. case raw of
       None \<Rightarrow> Inr dc_default | Some v \<Rightarrow> ebind (json_loads v) disconnect_from_json))"

definition redis_get_emergency :: "'s redis \<Rightarrow> int \<Rightarrow> ('s, emergency_state) act" where
  "redis_get_emergency R now =
     act_bind (act_read (r_get R now EmergencyKey)) (\<lambda>raw. act_read (\<lambda>_. case raw of
       None \<Rightarrow> Inr em_default | Some v \<Rightarrow> ebind (json_loads v) emergency_from_json))"

definition redis_set_emergency :: "'s redis \<Rightarrow> int \<Rightarrow> emergency_state \<Rightarrow> ('s, unit) act" where
  "redis_set_emergency R now state =
     act_bind (r_set R now EmergencyKey (JObj (emergency_to_json state)) None) (\<lambda>_.
     if em_is_active state
     then r_set R now GlobalKill
            (JObj [(''reason'', JStr (em_reason state)),
                   (''activated_at'', case em_activated_at state of
                      None \<Rightarrow> JStr [] | Some t \<Rightarrow> JIso t)]) None
     else r_delete R [GlobalKill])"

definition redis_get_drawdown :: "'s redis \<Rightarrow> int \<Rightarrow> string \<Rightarrow> ('s, drawdown_state) act" where
  "redis_get_drawdown R now user_id =
     act_bind (act_read (r_get R now (DrawdownKey user_id))) (\<lambda>raw. act_read (\<lambda>_. case raw of
       None \<Rightarrow> Inr dd_default
     | Some v \<Rightarrow> ebind (json_loads v) (\<lambda>d. Inr (drawdown_from_json d))))"

definition redis_safety_store :: "'s redis \<Rightarrow> 's safety_store" where
  "redis_safety_store R =
     \<lparr>so_get_daily = redis_get_ks R DailyKs ''DAILY_LOSS_LIMIT'' H_DAILY_LOSS_LIMIT,
      so_set_daily = redis_set_ks R DailyKs WeeklyKs ''DAILY_LOSS_LIMIT'',
      so_get_weekly = redis_get_ks R WeeklyKs ''WEEKLY_LOSS_LIMIT'' H_WEEKLY_LOSS_LIMIT,
      so_set_weekly = redis_set_ks R WeeklyKs DailyKs ''WEEKLY_LOSS_LIMIT'',
      so_get_disconnect = redis_get_disconnect R,
      so_set_disconnect = (\<lambda>now d. r_set R now DisconnectKey (JObj (disconnect_to_json d)) None),
      so_get_emergency = redis_get_emergency R,
      so_set_emergency = redis_set_emergency R,
      so_get_drawdown = redis_get_drawdown R,
      so_set_drawdown = (\<lambda>now u d. r_set R now (DrawdownKey u) (JObj (drawdown_to_json d)) None)\<rparr>"

section \<open>The Redis store keeps the contract\<close>

text \<open>Actions that leave the content of a key alone.\<close>

definition keeps :: "('s \<Rightarrow> redis_content) \<Rightarrow> redis_key \<Rightarrow> ('s, 'a) act \<Rightarrow> bool" where
  "keeps A j m \<longleftrightarrow> (\<forall>s s' r later. m s = (s', r) \<longrightarrow>
     content_get later j (A s') = content_get later j (A s))"

lemma keepsD: "keeps A j m \<Longrightarrow> m s = (s', r) \<Longrightarrow> content_get later j (A s') = content_get later j (A s)"
  unfolding keeps_def by blast

lemma keeps_basic: "keeps A j (act_return x)" "keeps A j (act_read f)"
  by (simp_all add: keeps_def)

lemma keeps_bind: "keeps A j m \<Longrightarrow> (\<And>x. keeps A j (f x)) \<Longrightarrow> keeps A j (act_bind m f)"
  unfolding keeps_def act_bind_def by (auto split: prod.splits sum.splits)

lemma keeps_set: "redis_model R A \<Longrightarrow> j \<noteq> k \<Longrightarrow> keeps A j (r_set R now k v ex)"
  unfolding keeps_def by (intro allI impI) (rule redis_set_other)

lemma keeps_delete: "redis_model R A \<Longrightarrow> j \<notin> set ks \<Longrightarrow> keeps A j (r_delete R ks)"
  unfolding keeps_def by (intro allI impI) (rule redis_delete_other)

lemma keeps_sync:
  "redis_model R A \<Longrightarrow> j \<noteq> UserHalt u \<Longrightarrow> keeps A j (sync_shared_halt R now u st t other)"
  unfolding sync_shared_halt_def
  by (auto intro!: keeps_bind keeps_basic keeps_set keeps_delete split: option.split)

lemma keeps_set_ks:
  "redis_model R A \<Longrightarrow> j \<noteq> UserHalt u \<Longrightarrow> j \<noteq> own u \<Longrightarrow> keeps A j (redis_set_ks R own other t now u st)"
  unfolding redis_set_ks_def write_ks_key_def by (auto intro!: keeps_bind keeps_set keeps_sync)

lemma keeps_set_emergency:
  "redis_model R A \<Longrightarrow> j \<noteq> EmergencyKey \<Longrightarrow> j \<noteq> GlobalKill \<Longrightarrow> keeps A j (redis_set_emergency R now e)"
  unfolding redis_set_emergency_def by (auto intro!: keeps_bind keeps_set keeps_delete)

text \<open>The views: what a read of the content computes, or the default where a text does not parse.\<close>

definition or_default :: "'a \<Rightarrow> 'a result \<Rightarrow> 'a" where
  "or_default d r = (case r of Inl e \<Rightarrow> d | Inr x \<Rightarrow> x)"

definition content_ks ::
    "(string \<Rightarrow> redis_key) \<Rightarrow> string \<Rightarrow> halt_reason \<Rightarrow> int \<Rightarrow> string \<Rightarrow> redis_content \<Rightarrow> ks_state result" where
  "content_ks own trigger reason now u m =
     (case content_get now (own u) m of
        Some v \<Rightarrow> ebind (json_loads v) (ks_from_json u)
      | None \<Rightarrow> (case content_get now (UserHalt u) m of
          None \<Rightarrow> Inr (ks_default u)
        | Some v \<Rightarrow> ebind (json_loads v) (\<lambda>data.
            if jget data ''trigger'' JNull = JStr trigger then ks_from_risk_halt u data reason
            else Inr (ks_default u))))"

definition content_json :: "redis_key \<Rightarrow> (jobj \<Rightarrow> 'a result) \<Rightarrow> 'a \<Rightarrow> int \<Rightarrow> redis_content \<Rightarrow> 'a" where
  "content_json k parse d now m = (case content_get now k m of
     None \<Rightarrow> d | Some v \<Rightarrow> or_default d (ebind (json_loads v) parse))"

lemma redis_get_ks_content:
  assumes "redis_model R A" "redis_get_ks R own t reason now u s = (s', r)"
  shows "s' = s \<and> (\<forall>x. r = Inr x \<longrightarrow> content_ks own t reason now u (A s) = Inr x)"
  using assms redis_get_content [OF assms(1), of now "own u" s]
    redis_get_content [OF assms(1), of now "UserHalt u" s]
  by (auto simp: redis_get_ks_def content_ks_def act_read_bind split: sum.splits option.splits)

lemma redis_set_ks_view:
  assumes M: "redis_model R A" and own: "own u \<noteq> UserHalt u"
    and w: "redis_set_ks R own other t now u st s = (s', Inr ())" "ks_user_id st = u"
    and win: "in_window now (ks_halt_until st) later"
  shows "content_ks own t' reason later u (A s') = Inr st"
proof -
  obtain s1 where s1: "write_ks_key R now (own u) st s = (s1, Inr ())"
    "sync_shared_halt R now u st t (other u) s1 = (s', Inr ())"
    using w(1) by (auto simp: redis_set_ks_def act_bind_Inr)
  have "A s1 = content_set now (own u) (JObj (ks_to_json st)) (compute_ttl now (ks_halt_until st)) (A s)"
    using redis_set_content [OF M s1(1) [unfolded write_ks_key_def]] by simp
  moreover have "alive now (compute_ttl now (ks_halt_until st)) later"
    using win by (cases "ks_halt_until st")
      (auto simp: compute_ttl_def alive_def in_window_def ttl_alive [unfolded alive_def option.case])
  ultimately have "content_get later (own u) (A s1) = Some (JObj (ks_to_json st))"
    by (simp add: content_get_set)
  then have "content_get later (own u) (A s') = Some (JObj (ks_to_json st))"
    using keepsD [OF keeps_sync [OF M own] s1(2), of later] by simp
  then show ?thesis using w(2) by (simp add: content_ks_def json_loads_def ks_roundtrip)
qed

lemma content_ks_cong:
  "content_get now (own u) m = content_get now (own u) m' \<Longrightarrow>
   content_get now (UserHalt u) m = content_get now (UserHalt u) m' \<Longrightarrow>
   content_ks own t reason now u m = content_ks own t reason now u m'"
  by (simp add: content_ks_def cong: option.case_cong)

lemma content_json_cong:
  "content_get now k m = content_get now k m' \<Longrightarrow> content_json k p d now m = content_json k p d now m'"
  by (simp add: content_json_def)

locale redis_backed =
  fixes R :: "'s redis" and A :: "'s \<Rightarrow> redis_content"
  assumes model: "redis_model R A"
begin

lemma set_content:
  "r_set R now k v None s = (s', Inr ()) \<Longrightarrow> content_get later k (A s') = Some v"
  using redis_set_content [OF model, of now k v None s s' "Inr ()"]
  by (auto simp: content_get_set alive_def)

lemma set_either:
  "r_set R now k v None s = (s', r) \<Longrightarrow> content_get later k (A s') \<in> {Some v, content_get later k (A s)}"
  using redis_set_content [OF model, of now k v None s s' r]
  by (auto simp: content_get_set alive_def)

lemma json_either:
  assumes "content_get later k m' \<in> {Some (JObj j), content_get later k m}" "parse j = Inr x"
  shows "content_json k parse d later m' \<in> {x, content_json k parse d later m}"
  using assms by (auto simp: content_json_def json_loads_def or_default_def)

lemma set_emergency_either:
  assumes "redis_set_emergency R now e s = (s', r)"
  shows "content_get later EmergencyKey (A s')
    \<in> {Some (JObj (emergency_to_json e)), content_get later EmergencyKey (A s)}"
proof -
  obtain s1 x where s1: "r_set R now EmergencyKey (JObj (emergency_to_json e)) None s = (s1, x)"
    by (cases rule: prod.exhaust)
  have K: "keeps A EmergencyKey (r_set R now GlobalKill v None)"
    "keeps A EmergencyKey (r_delete R [GlobalKill])" for v
    using keeps_set [OF model] keeps_delete [OF model] by auto
  have "content_get later EmergencyKey (A s') = content_get later EmergencyKey (A s1)"
    using assms s1 keepsD [OF K(1)] keepsD [OF K(2)]
    by (cases x) (auto simp: redis_set_emergency_def split: if_splits)
  with set_either [OF s1, of later] show ?thesis by simp
qed

end

sublocale redis_backed \<subseteq> red: safety_store "redis_safety_store R"
  "\<lambda>now u s. or_default (ks_default u) (content_ks DailyKs ''DAILY_LOSS_LIMIT'' H_DAILY_LOSS_LIMIT now u (A s))"
  "\<lambda>now u s. or_default (ks_default u) (content_ks WeeklyKs ''WEEKLY_LOSS_LIMIT'' H_WEEKLY_LOSS_LIMIT now u (A s))"
  "\<lambda>now s. content_json DisconnectKey disconnect_from_json dc_default now (A s)"
  "\<lambda>now s. content_json EmergencyKey emergency_from_json em_default now (A s)"
  "\<lambda>now u s. content_json (DrawdownKey u) (\<lambda>d. Inr (drawdown_from_json d)) dd_default now (A s)"
proof (unfold_locales, unfold redis_safety_store_def safety_store.simps, goal_cases)
  case (1 now u s s' r)
  then show ?case using redis_get_ks_content [OF model] by (fastforce simp: or_default_def)
next
  case (2 now u s s' r)
  then show ?case using redis_get_ks_content [OF model] by (fastforce simp: or_default_def)
next
  case (3 now s s' r)
  then show ?case using redis_get_content [OF model, of now DisconnectKey s]
    by (auto simp: redis_get_disconnect_def act_read_bind content_json_def or_default_def
        split: sum.splits option.splits)
next
  case (4 now s s' r)
  then show ?case using redis_get_content [OF model, of now EmergencyKey s]
    by (auto simp: redis_get_emergency_def act_read_bind content_json_def or_default_def
        split: sum.splits option.splits)
next
  case (5 now u s s' r)
  then show ?case using redis_get_content [OF model, of now "DrawdownKey u" s]
    by (auto simp: redis_get_drawdown_def act_read_bind content_json_def or_default_def
        split: sum.splits option.splits)
next
  case (6 now u st s s' later)
  then show ?case using redis_set_ks_view [OF model] by (simp add: or_default_def)
next
  case (7 now u st s s' later)
  then show ?case using redis_set_ks_view [OF model] by (simp add: or_default_def)
next
  case (8 now dc s s' later)
  from set_content [OF this] show ?case
    by (simp add: content_json_def json_loads_def disconnect_roundtrip or_default_def)
next
  case (9 now e s s' later)
  then obtain s1 where s1: "r_set R now EmergencyKey (JObj (emergency_to_json e)) None s = (s1, Inr ())"
    "(if em_is_active e
     then r_set R now GlobalKill
            (JObj [(''reason'', JStr (em_reason e)),
                   (''activated_at'', case em_activated_at e of
                      None \<Rightarrow> JStr [] | Some t \<Rightarrow> JIso t)]) None
     else r_delete R [GlobalKill]) s1 = (s', Inr ())"
    by (auto simp: redis_set_emergency_def act_bind_Inr)
  have "content_get later EmergencyKey (A s') = content_get later EmergencyKey (A s1)"
    using s1(2) redis_set_other [OF model, of now GlobalKill _ None s1]
      redis_delete_other [OF model, of "[GlobalKill]" s1]
    by (auto split: if_splits)
  then show ?case using set_content [OF s1(1), of later]
    by (simp add: content_json_def json_loads_def emergency_roundtrip or_default_def)
next
  case (10 now u d s s' later)
  from set_content [OF this] show ?case
    by (simp add: content_json_def json_loads_def drawdown_roundtrip or_default_def)
next
  case (11 now e s s' q later)
  show ?case by (rule json_either) (rule set_emergency_either [OF 11], rule emergency_roundtrip)
next
  case (12 now u d s s' q later)
  show ?case by (rule json_either) (rule set_either [OF 12], simp add: drawdown_roundtrip)
next
  case (13 now u st s s' q later v)
  then show ?case using keepsD [OF keeps_set_ks [OF model] 13]
    by (auto intro!: content_json_cong)
next
  case (14 now u st s s' q later v)
  then show ?case using keepsD [OF keeps_set_ks [OF model] 14]
    by (auto intro!: content_json_cong)
next
  case (15 now dc s s' q later v)
  then show ?case using keepsD [OF keeps_set [OF model] 15]
    by (auto intro!: content_json_cong arg_cong [where f = "or_default _"] content_ks_cong)
next
  case (16 now e s s' q later v)
  then show ?case using keepsD [OF keeps_set_emergency [OF model] 16]
    by (auto intro!: content_json_cong arg_cong [where f = "or_default _"] content_ks_cong)
next
  case (17 now u d s s' q later v)
  then show ?case using keepsD [OF keeps_set [OF model] 17]
    by (auto intro!: content_json_cong arg_cong [where f = "or_default _"] content_ks_cong)
qed

context redis_backed
begin

lemma store_contract:
  "safety_store (redis_safety_store R)
     (\<lambda>now u s. or_default (ks_default u) (content_ks DailyKs ''DAILY_LOSS_LIMIT'' H_DAILY_LOSS_LIMIT now u (A s)))
     (\<lambda>now u s. or_default (ks_default u) (content_ks WeeklyKs ''WEEKLY_LOSS_LIMIT'' H_WEEKLY_LOSS_LIMIT now u (A s)))
     (\<lambda>now s. content_json DisconnectKey disconnect_from_json dc_default now (A s))
     (\<lambda>now s. content_json EmergencyKey emergency_from_json em_default now (A s))
     (\<lambda>now u s. content_json (DrawdownKey u) (\<lambda>d. Inr (drawdown_from_json d)) dd_default now (A s))"
  by (rule red.safety_store_axioms)

end

interpretation mapred: redis_backed map_redis "\<lambda>m. m"
  by unfold_locales (rule map_redis_model)

end
