(* ===== verification/SafetySwitches.thy ===== *)
theory SafetySwitches
  imports SafetyProviders
begin

text \<open>
  The protections of \<open>backend/app/safety\<close>: the daily and weekly kill switches (\<open>kill_switch.py\<close>), the
  drawdown protection (\<open>drawdown.py\<close>), the exchange-disconnect protection (\<open>disconnect.py\<close>) and the
  emergency shutdown (\<open>emergency.py\<close>), over any state store \<open>S\<close>. Amounts are floats.
\<close>

section \<open>Daily and weekly kill switches\<close>

definition next_midnight_utc :: "int \<Rightarrow> int" where
  "next_midnight_utc now = date_of now * day_us + day_us"

definition next_monday_utc :: "int \<Rightarrow> int" where
  "next_monday_utc now = (date_of now - weekday (date_of now)) * day_us + 7 * day_us"

text \<open>
  A switch whose halt has an end: \<open>halted_now\<close> is the guard of \<open>record_loss\<close> and \<open>get_halt_status\<close>,
  \<open>halt_expired\<close> the guard of the automatic reset.
\<close>

definition halted_now :: "int \<Rightarrow> ks_state \<Rightarrow> bool" where
  "halted_now now st \<longleftrightarrow> ks_is_halted st \<and>
     (case ks_halt_until st of None \<Rightarrow> True | Some t \<Rightarrow> now < t)"

definition halt_expired :: "int \<Rightarrow> ks_state \<Rightarrow> bool" where
  "halt_expired now st \<longleftrightarrow> ks_is_halted st \<and>
     (case ks_halt_until st of None \<Rightarrow> False | Some t \<Rightarrow> t \<le> now)"

text \<open>\<open>current_loss_usdt / limit_usdt if limit_usdt > 0 else 0.0\<close>.\<close>

definition loss_ratio :: "rat \<Rightarrow> rat \<Rightarrow> rat" where
  "loss_ratio loss limit = (if 0 < limit then fdiv loss limit else 0)"

definition daily_record_loss ::
    "'s safety_store \<Rightarrow> safety_config \<Rightarrow> int \<Rightarrow> string \<Rightarrow> rat \<Rightarrow> rat \<Rightarrow> ('s, safety_check_result) act" where
  "daily_record_loss S config now user_id loss_usdt period_start_balance =
     act_bind (so_get_daily S now user_id) (\<lambda>state.
     if halted_now now state then act_return (sk_blocked H_DAILY_LOSS_LIMIT)
     else
       let state0 = (if halt_expired now state then ks_default user_id else state);
           state1 = state0\<lparr>ks_period_start_balance := period_start_balance,
                           ks_current_loss_usdt := fadd (ks_current_loss_usdt state0) loss_usdt\<rparr>;
           limit_usdt = fmul period_start_balance (sf_daily_loss_limit_pct config);
           ratio = loss_ratio (ks_current_loss_usdt state1) limit_usdt
       in if SAFETY_DAILY_LOSS_HALT_PCT \<le> ratio
          then act_bind (so_set_daily S now user_id
                 (state1\<lparr>ks_is_halted := True, ks_halt_reason := Some H_DAILY_LOSS_LIMIT,
                         ks_halt_until := Some (next_midnight_utc now)\<rparr>)) (\<lambda>_.
               act_return (sk_blocked H_DAILY_LOSS_LIMIT))
          else act_bind (so_set_daily S now user_id state1) (\<lambda>_.
               act_return (if SAFETY_DAILY_LOSS_CAUTION_PCT \<le> ratio then sk_warning
                           else if SAFETY_DAILY_LOSS_WARNING_PCT \<le> ratio then sk_warning
                           else sk_ok)))"

definition daily_check ::
    "'s safety_store \<Rightarrow> int \<Rightarrow> string \<Rightarrow> ('s, safety_check_result) act" where
  "daily_check S now user_id =
     act_bind (so_get_daily S now user_id) (\<lambda>state.
     if \<not> ks_is_halted state then act_return sk_ok
     else if halt_expired now state
     then act_bind (so_set_daily S now user_id (ks_default user_id)) (\<lambda>_. act_return sk_ok)
     else act_return (sk_blocked H_DAILY_LOSS_LIMIT))"

definition daily_reset :: "'s safety_store \<Rightarrow> int \<Rightarrow> string \<Rightarrow> ('s, unit) act" where
  "daily_reset S now user_id = so_set_daily S now user_id (ks_default user_id)"

definition weekly_record_loss ::
    "'s safety_store \<Rightarrow> safety_config \<Rightarrow> int \<Rightarrow> string \<Rightarrow> rat \<Rightarrow> rat \<Rightarrow> ('s, safety_check_result) act" where
  "weekly_record_loss S config now user_id loss_usdt week_start_balance =
     act_bind (so_get_weekly S now user_id) (\<lambda>state.
     if halted_now now state then act_return (sk_blocked H_WEEKLY_LOSS_LIMIT)
     else
       let state0 = (if halt_expired now state then ks_default user_id else state);
           state1 = state0\<lparr>ks_period_start_balance := week_start_balance,
                           ks_current_loss_usdt := fadd (ks_current_loss_usdt state0) loss_usdt\<rparr>;
           limit_usdt = fmul week_start_balance (sf_weekly_loss_limit_pct config);
           ratio = loss_ratio (ks_current_loss_usdt state1) limit_usdt
       in if SAFETY_WEEKLY_LOSS_HALT_PCT \<le> ratio
          then act_bind (so_set_weekly S now user_id
                 (state1\<lparr>ks_is_halted := True, ks_halt_reason := Some H_WEEKLY_LOSS_LIMIT,
                         ks_halt_until := Some (next_monday_utc now)\<rparr>)) (\<lambda>_.
               act_return (sk_blocked H_WEEKLY_LOSS_LIMIT))
          else act_bind (so_set_weekly S now user_id state1) (\<lambda>_.
               act_return (if SAFETY_WEEKLY_LOSS_CAUTION_PCT \<le> ratio then sk_warning
                           else if SAFETY_WEEKLY_LOSS_WARNING_PCT \<le> ratio then sk_warning
                           else sk_ok)))"

definition weekly_check ::
    "'s safety_store \<Rightarrow> int \<Rightarrow> string \<Rightarrow> ('s, safety_check_result) act" where
  "weekly_check S now user_id =
     act_bind (so_get_weekly S now user_id) (\<lambda>state.
     if \<not> ks_is_halted state then act_return sk_ok
     else if halt_expired now state
     then act_bind (so_set_weekly S now user_id (ks_default user_id)) (\<lambda>_. act_return sk_ok)
     else act_return (sk_blocked H_WEEKLY_LOSS_LIMIT))"

definition weekly_reset :: "'s safety_store \<Rightarrow> int \<Rightarrow> string \<Rightarrow> ('s, unit) act" where
  "weekly_reset S now user_id = so_set_weekly S now user_id (ks_default user_id)"

section \<open>Drawdown protection\<close>

definition drawdown_update ::
    "'s safety_store \<Rightarrow> safety_config \<Rightarrow> int \<Rightarrow> string \<Rightarrow> rat \<Rightarrow> ('s, safety_check_result) act" where
  "drawdown_update S config now user_id current_balance =
     act_bind (so_get_drawdown S now user_id) (\<lambda>state.
     if dd_is_halted state
     then act_bind (so_set_drawdown S now user_id (state\<lparr>dd_current_balance := current_balance\<rparr>)) (\<lambda>_.
          act_return (sk_blocked H_DRAWDOWN_PROTECTION))
     else
       let state0 = (if dd_peak_balance state \<le> 0 \<or> dd_peak_balance state < current_balance
                     then state\<lparr>dd_peak_balance := current_balance, dd_warning_sent := False\<rparr>
                     else state);
           state1 = state0\<lparr>dd_current_balance := current_balance\<rparr>
       in if dd_peak_balance state1 \<le> 0
          then act_bind (so_set_drawdown S now user_id state1) (\<lambda>_. act_return sk_ok)
          else
            let drawdown_pct = fdiv (fsub (dd_peak_balance state1) current_balance)
                                 (dd_peak_balance state1)
            in if sf_drawdown_halt_pct config \<le> drawdown_pct
               then act_bind (so_set_drawdown S now user_id (state1\<lparr>dd_is_halted := True\<rparr>)) (\<lambda>_.
                    act_return (sk_blocked H_DRAWDOWN_PROTECTION))
               else if sf_drawdown_warning_pct config \<le> drawdown_pct \<and> \<not> dd_warning_sent state1
               then act_bind (so_set_drawdown S now user_id (state1\<lparr>dd_warning_sent := True\<rparr>)) (\<lambda>_.
                    act_return sk_warning)
               else act_bind (so_set_drawdown S now user_id state1) (\<lambda>_. act_return sk_ok))"

definition drawdown_check ::
    "'s safety_store \<Rightarrow> int \<Rightarrow> string \<Rightarrow> ('s, safety_check_result) act" where
  "drawdown_check S now user_id =
     act_bind (so_get_drawdown S now user_id) (\<lambda>state.
     act_return (if \<not> dd_is_halted state then sk_ok else sk_blocked H_DRAWDOWN_PROTECTION))"

definition drawdown_resume :: "'s safety_store \<Rightarrow> int \<Rightarrow> string \<Rightarrow> ('s, unit) act" where
  "drawdown_resume S now user_id =
     act_bind (so_get_drawdown S now user_id) (\<lambda>state.
     so_set_drawdown S now user_id
       (state\<lparr>dd_is_halted := False, dd_warning_sent := False,
              dd_peak_balance := dd_current_balance state\<rparr>))"

section \<open>Exchange disconnect protection\<close>

definition disconnect_expired :: "int \<Rightarrow> disconnect_state \<Rightarrow> bool" where
  "disconnect_expired now st \<longleftrightarrow> dc_is_halted st \<and>
     (case dc_halt_until st of None \<Rightarrow> False | Some t \<Rightarrow> t \<le> now)"

definition record_api_failure ::
    "'s safety_store \<Rightarrow> safety_config \<Rightarrow> int \<Rightarrow> ('s, safety_check_result) act" where
  "record_api_failure S config now =
     act_bind (so_get_disconnect S now) (\<lambda>state.
     let state0 = (if disconnect_expired now state then dc_default else state)
     in if dc_is_halted state0 then act_return (sk_blocked H_CONSECUTIVE_API_FAILURES)
        else
          let state1 = state0\<lparr>dc_consecutive_failures := dc_consecutive_failures state0 + 1,
                              dc_last_failure_at := Some now\<rparr>
          in if sf_api_failure_halt_threshold config \<le> dc_consecutive_failures state1
             then act_bind (so_set_disconnect S now
                    (state1\<lparr>dc_is_halted := True,
                            dc_halt_until :=
                              Some (now + sf_api_failure_halt_minutes config * minute_us)\<rparr>)) (\<lambda>_.
                  act_return (sk_blocked H_CONSECUTIVE_API_FAILURES))
             else act_bind (so_set_disconnect S now state1) (\<lambda>_. act_return sk_warning))"

definition record_api_success :: "'s safety_store \<Rightarrow> int \<Rightarrow> ('s, unit) act" where
  "record_api_success S now =
     act_bind (so_get_disconnect S now) (\<lambda>state.
     if disconnect_expired now state then so_set_disconnect S now dc_default
     else if dc_is_halted state then act_return ()
     else so_set_disconnect S now (state\<lparr>dc_consecutive_failures := 0\<rparr>))"

definition disconnect_check :: "'s safety_store \<Rightarrow> int \<Rightarrow> ('s, safety_check_result) act" where
  "disconnect_check S now =
     act_bind (so_get_disconnect S now) (\<lambda>state.
     if \<not> dc_is_halted state then act_return sk_ok
     else if disconnect_expired now state
     then act_bind (so_set_disconnect S now dc_default) (\<lambda>_. act_return sk_ok)
     else act_return (sk_blocked H_CONSECUTIVE_API_FAILURES))"

section \<open>Emergency shutdown\<close>

definition emergency_activate ::
    "'s safety_store \<Rightarrow> int \<Rightarrow> string \<Rightarrow> string \<Rightarrow> ('s, unit) act" where
  "emergency_activate S now reason activated_by =
     so_set_emergency S now
       \<lparr>em_is_active = True, em_activated_at = Some now, em_activated_by = Some activated_by,
        em_reason = reason, em_requires_manual_resume = True\<rparr>"

definition emergency_check :: "'s safety_store \<Rightarrow> int \<Rightarrow> ('s, safety_check_result) act" where
  "emergency_check S now =
     act_bind (so_get_emergency S now) (\<lambda>state.
     act_return (if \<not> em_is_active state then sk_ok else sk_blocked H_EMERGENCY_SHUTDOWN))"

definition emergency_deactivate :: "'s safety_store \<Rightarrow> int \<Rightarrow> ('s, unit) act" where
  "emergency_deactivate S now = so_set_emergency S now em_default"

definition emergency_is_active :: "'s safety_store \<Rightarrow> int \<Rightarrow> ('s, bool) act" where
  "emergency_is_active S now =
     act_bind (so_get_emergency S now) (\<lambda>state. act_return (em_is_active state))"

end
