(* ===== verification/SafetyGate.thy ===== *)
theory SafetyGate
  imports SafetySwitches
begin

text \<open>
  \<open>backend/app/safety/gate.py\<close> and \<open>adapter.py\<close>: the gate every live order passes, its event
  handlers, and the adapter that turns a closed trade into the safety layer's loss accounting.
\<close>

section \<open>The gate\<close>

text \<open>\<open>let_pass m k\<close>: run a check, return its result if it blocks, go on otherwise.\<close>

definition let_pass ::
    "('s, safety_check_result) act \<Rightarrow> ('s, safety_check_result) act \<Rightarrow> ('s, safety_check_result) act"
  where
  "let_pass m k = act_bind m (\<lambda>result. if \<not> sk_allowed result then act_return result else k)"

definition check_order_allowed ::
    "'s safety_store \<Rightarrow> safety_config \<Rightarrow> int \<Rightarrow> string \<Rightarrow> ('s, safety_check_result) act" where
  "check_order_allowed S config now user_id =
     (if \<not> sf_live_trading_enabled config
      then act_return \<lparr>sk_allowed = False, sk_halt_reason = Some H_LIVE_TRADING_DISABLED,
                       sk_alert_level = INFO\<rparr>
      else
        let_pass (emergency_check S now)
       (let_pass (disconnect_check S now)
       (let_pass (daily_check S now user_id)
       (let_pass (weekly_check S now user_id)
       (let_pass (drawdown_check S now user_id)
       (act_return sk_ok))))))"

definition on_trade_closed ::
    "'s safety_store \<Rightarrow> safety_config \<Rightarrow> int \<Rightarrow> string \<Rightarrow> rat \<Rightarrow> rat \<Rightarrow> rat \<Rightarrow> rat
       \<Rightarrow> ('s, safety_check_result list) act" where
  "on_trade_closed S config now user_id pnl_usdt period_start_balance week_start_balance
       current_balance =
     (let loss_usdt = (if pnl_usdt < 0 then \<bar>pnl_usdt\<bar> else 0)
      in act_bind
           (if 0 < loss_usdt
            then act_bind (daily_record_loss S config now user_id loss_usdt period_start_balance) (\<lambda>d.
                 act_bind (weekly_record_loss S config now user_id loss_usdt week_start_balance) (\<lambda>w.
                 act_return [d, w]))
            else act_return []) (\<lambda>results.
         act_bind (drawdown_update S config now user_id current_balance) (\<lambda>r.
         act_return (results @ [r]))))"

definition on_api_failure :: "'s safety_store \<Rightarrow> safety_config \<Rightarrow> int \<Rightarrow> ('s, safety_check_result) act" where
  "on_api_failure S config now = record_api_failure S config now"

definition on_api_success :: "'s safety_store \<Rightarrow> int \<Rightarrow> ('s, unit) act" where
  "on_api_success S now = record_api_success S now"

definition trigger_emergency :: "'s safety_store \<Rightarrow> int \<Rightarrow> string \<Rightarrow> string \<Rightarrow> ('s, unit) act" where
  "trigger_emergency S now reason activated_by = emergency_activate S now reason activated_by"

definition deactivate_emergency :: "'s safety_store \<Rightarrow> int \<Rightarrow> ('s, unit) act" where
  "deactivate_emergency S now = emergency_deactivate S now"

definition resume_drawdown :: "'s safety_store \<Rightarrow> int \<Rightarrow> string \<Rightarrow> ('s, unit) act" where
  "resume_drawdown S now user_id = drawdown_resume S now user_id"

definition reset_daily_switch :: "'s safety_store \<Rightarrow> int \<Rightarrow> string \<Rightarrow> ('s, unit) act" where
  "reset_daily_switch S now user_id = daily_reset S now user_id"

definition reset_weekly_switch :: "'s safety_store \<Rightarrow> int \<Rightarrow> string \<Rightarrow> ('s, unit) act" where
  "reset_weekly_switch S now user_id = weekly_reset S now user_id"

definition get_halt_status :: "'s safety_store \<Rightarrow> int \<Rightarrow> string \<Rightarrow> ('s, user_halt_status) act" where
  "get_halt_status S now user_id =
     act_bind (so_get_daily S now user_id) (\<lambda>daily.
     if halted_now now daily
     then act_return \<lparr>uh_is_halted = True, uh_halt_reason = Some H_DAILY_LOSS_LIMIT,
                      uh_halt_until = ks_halt_until daily\<rparr>
     else
     act_bind (so_get_weekly S now user_id) (\<lambda>weekly.
     if halted_now now weekly
     then act_return \<lparr>uh_is_halted = True, uh_halt_reason = Some H_WEEKLY_LOSS_LIMIT,
                      uh_halt_until = ks_halt_until weekly\<rparr>
     else act_return \<lparr>uh_is_halted = False, uh_halt_reason = None, uh_halt_until = None\<rparr>))"

section \<open>The adapter\<close>

record safety_decision =
  sd_allowed :: bool
  sd_rejection_code :: "string option"

definition adapter_check_order_allowed ::
    "'s safety_store \<Rightarrow> safety_config \<Rightarrow> int \<Rightarrow> string \<Rightarrow> ('s, safety_decision) act" where
  "adapter_check_order_allowed S config now user_id =
     act_bind (check_order_allowed S config now user_id) (\<lambda>result.
     act_return \<lparr>sd_allowed = sk_allowed result,
                 sd_rejection_code = map_option halt_reason_value (sk_halt_reason result)\<rparr>)"

record post_trade_event =
  pe_user_id :: string
  pe_realized_pnl_usdt :: "rat option"
  pe_max_loss_usdt :: rat
  pe_period_start_balance :: rat
  pe_week_start_balance :: rat
  pe_current_balance :: rat

text \<open>
  The database call that switches auto-trading off is outside this layer: the action returns
  the reason it would be called with, \<open>None\<close> when it is not called.
\<close>

definition on_trade_executed ::
    "'s safety_store \<Rightarrow> safety_config \<Rightarrow> int \<Rightarrow> post_trade_event \<Rightarrow> ('s, string option) act" where
  "on_trade_executed S config now event =
     (let pnl = (case pe_realized_pnl_usdt event of Some x \<Rightarrow> x | None \<Rightarrow> - pe_max_loss_usdt event)
      in act_bind (on_trade_closed S config now (pe_user_id event) pnl
                     (pe_period_start_balance event) (pe_week_start_balance event)
                     (pe_current_balance event)) (\<lambda>results.
         act_return (case find (\<lambda>r. \<not> sk_allowed r) results of
             None \<Rightarrow> None
           | Some r \<Rightarrow> Some (case sk_halt_reason r of
               None \<Rightarrow> ''UNKNOWN'' | Some h \<Rightarrow> halt_reason_value h))))"

section \<open>Runs\<close>

text \<open>
  What happens to the safety layer over time: the calls the rest of the program makes, each for a
  user at an instant. A call that raises has happened as far as it got.
\<close>

datatype safety_event =
    CheckOrder
  | TradeExecuted post_trade_event
  | ApiFailure
  | ApiSuccess
  | TriggerEmergency string string
  | DeactivateEmergency
  | ResumeDrawdown
  | ResetDaily
  | ResetWeekly
  | HaltStatus

definition run_event ::
    "'s safety_store \<Rightarrow> safety_config \<Rightarrow> int \<times> string \<times> safety_event \<Rightarrow> 's \<Rightarrow> 's" where
  "run_event S config ev s =
     (case ev of (now, user_id, e) \<Rightarrow>
      (case e of
         CheckOrder \<Rightarrow> fst (check_order_allowed S config now user_id s)
       | TradeExecuted p \<Rightarrow> fst (on_trade_executed S config now p s)
       | ApiFailure \<Rightarrow> fst (on_api_failure S config now s)
       | ApiSuccess \<Rightarrow> fst (on_api_success S now s)
       | TriggerEmergency reason activated_by \<Rightarrow> fst (trigger_emergency S now reason activated_by s)
       | DeactivateEmergency \<Rightarrow> fst (deactivate_emergency S now s)
       | ResumeDrawdown \<Rightarrow> fst (resume_drawdown S now user_id s)
       | ResetDaily \<Rightarrow> fst (reset_daily_switch S now user_id s)
       | ResetWeekly \<Rightarrow> fst (reset_weekly_switch S now user_id s)
       | HaltStatus \<Rightarrow> fst (get_halt_status S now user_id s)))"

definition run_events ::
    "'s safety_store \<Rightarrow> safety_config \<Rightarrow> (int \<times> string \<times> safety_event) list \<Rightarrow> 's \<Rightarrow> 's" where
  "run_events S config evs = fold (run_event S config) evs"

text \<open>Consecutive API failures, with the result of each.\<close>

fun failure_run :: "'s safety_store \<Rightarrow> safety_config \<Rightarrow> int list \<Rightarrow> ('s, safety_check_result list) act" where
  "failure_run S config [] = act_return []"
| "failure_run S config (now # ts) =
     act_bind (on_api_failure S config now) (\<lambda>r.
     act_bind (failure_run S config ts) (\<lambda>rs. act_return (r # rs)))"

text \<open>A series of balances, each reported at its instant.\<close>

fun balance_run ::
    "'s safety_store \<Rightarrow> safety_config \<Rightarrow> string \<Rightarrow> (int \<times> rat) list \<Rightarrow> ('s, safety_check_result list) act"
  where
  "balance_run S config user_id [] = act_return []"
| "balance_run S config user_id ((now, b) # xs) =
     act_bind (drawdown_update S config now user_id b) (\<lambda>r.
     act_bind (balance_run S config user_id xs) (\<lambda>rs. act_return (r # rs)))"

lemma balance_run_snoc:
  "balance_run S config u (xs @ [(now, b)]) s = (s', Inr rs) \<Longrightarrow>
   \<exists>s1 rs1 r. balance_run S config u xs s = (s1, Inr rs1) \<and>
     drawdown_update S config now u b s1 = (s', Inr r)"
proof (induction xs arbitrary: s rs)
  case Nil
  then show ?case by (auto simp: act_bind_Inr)
next
  case (Cons x xs)
  obtain t c where x: "x = (t, c)" by (cases x)
  obtain s2 r2 rs2 where 2: "drawdown_update S config t u c s = (s2, Inr r2)"
    "balance_run S config u (xs @ [(now, b)]) s2 = (s', Inr rs2)"
    using Cons.prems by (auto simp: x act_bind_Inr)
  from Cons.IH [OF 2(2)] 2(1) show ?case by (fastforce simp: x act_bind_Inr)
qed

end
