(* ===== verification/SafetyProps.thy ===== *)
theory SafetyProps
  imports SafetyGate PaperSample
begin

text \<open>
  The properties of the live-trading safety layer. The lemmas are proved once in the locale of
  the state store and hold for both stores; the properties state them for the Redis store of
  any server that keeps the documented behaviour of its commands.
\<close>

lemma preserves_bind_post:
  assumes "\<And>s s' r. P s \<Longrightarrow> m s = (s', r) \<Longrightarrow> P s' \<and> (\<forall>x. r = Inr x \<longrightarrow> Q x)"
    "\<And>x. Q x \<Longrightarrow> preserves P (f x)"
  shows "preserves P (act_bind m f)"
proof (rule preservesI)
  fix s s' r
  assume s: "P s" "act_bind m f s = (s', r)"
  obtain s1 q where q: "m s = (s1, q)" by (cases rule: prod.exhaust)
  note R = assms(1) [OF s(1) q]
  show "P s'"
  proof (cases q)
    case (Inr x)
    then show ?thesis using preservesD [OF assms(2), of x s1] R s(2) q by simp
  qed (use R s(2) q in simp)
qed

lemma preserves_if:
  "(c \<Longrightarrow> preserves P a) \<Longrightarrow> (\<not> c \<Longrightarrow> preserves P b) \<Longrightarrow> preserves P (if c then a else b)"
  by simp

lemma sk_distinct [simp]: "sk_blocked r \<noteq> sk_ok" "sk_ok \<noteq> sk_blocked r"
  by (simp_all add: sk_blocked_def sk_ok_def)

section \<open>Lemmas over any store\<close>

context safety_store
begin

lemma get_reads:
  "so_get_daily S now u s = (s1, q1) \<Longrightarrow> s1 = s"
  "so_get_weekly S now u s = (s2, q2) \<Longrightarrow> s2 = s"
  "so_get_disconnect S now s = (s3, q3) \<Longrightarrow> s3 = s"
  "so_get_emergency S now s = (s4, q4) \<Longrightarrow> s4 = s"
  "so_get_drawdown S now u s = (s5, q5) \<Longrightarrow> s5 = s"
  using get_daily [of now u s s1 q1] get_weekly [of now u s s2 q2] get_disc [of now s s3 q3]
    get_emerg [of now s s4 q4] get_draw [of now u s s5 q5] by simp_all

lemma get_preserves [simp]:
  "preserves P (so_get_daily S now u)" "preserves P (so_get_weekly S now u)"
  "preserves P (so_get_disconnect S now)" "preserves P (so_get_emergency S now)"
  "preserves P (so_get_drawdown S now u)"
  by (auto intro!: preservesI dest: get_reads)

text \<open>Writes to the other parts keep the emergency state and the drawdown states.\<close>

lemma other_writes:
  "preserves (\<lambda>s. Q (\<lambda>t. emerg t s)) (so_set_daily S now u st)"
  "preserves (\<lambda>s. Q (\<lambda>t. emerg t s)) (so_set_weekly S now u st)"
  "preserves (\<lambda>s. Q (\<lambda>t. emerg t s)) (so_set_disconnect S now dc)"
  "preserves (\<lambda>s. Q (\<lambda>t. emerg t s)) (so_set_drawdown S now u d)"
  "preserves (\<lambda>s. Q' (\<lambda>t. draw t v s)) (so_set_daily S now u st)"
  "preserves (\<lambda>s. Q' (\<lambda>t. draw t v s)) (so_set_weekly S now u st)"
  "preserves (\<lambda>s. Q' (\<lambda>t. draw t v s)) (so_set_disconnect S now dc)"
  "preserves (\<lambda>s. Q' (\<lambda>t. draw t v s)) (so_set_emergency S now e)"
  by (auto intro!: preservesI simp: daily_frame weekly_frame disc_frame emerg_frame draw_frame)

text \<open>A predicate the writes of the other switches keep, the handlers keep.\<close>

lemma handlers_preserve:
  assumes W: "\<And>now u st. preserves P (so_set_daily S now u st)"
    "\<And>now u st. preserves P (so_set_weekly S now u st)"
    "\<And>now dc. preserves P (so_set_disconnect S now dc)"
  shows "preserves P (check_order_allowed S config now u)"
    "preserves P (daily_record_loss S config now u l b)"
    "preserves P (weekly_record_loss S config now u l b)"
    "preserves P (record_api_failure S config now)" "preserves P (record_api_success S now)"
    "preserves P (daily_reset S now u)" "preserves P (weekly_reset S now u)"
    "preserves P (get_halt_status S now u)"
  unfolding check_order_allowed_def let_pass_def emergency_check_def disconnect_check_def
    daily_check_def weekly_check_def drawdown_check_def daily_record_loss_def weekly_record_loss_def
    record_api_failure_def record_api_success_def daily_reset_def weekly_reset_def
    get_halt_status_def Let_def
  by (auto intro!: preserves_bind W)

lemma run_event_preserves:
  assumes P: "P s" "preserves P (check_order_allowed S config now u)"
    "\<And>l b. preserves P (daily_record_loss S config now (pe_user_id p) l b)"
    "\<And>l b. preserves P (weekly_record_loss S config now (pe_user_id p) l b)"
    "\<And>b. preserves P (drawdown_update S config now (pe_user_id p) b)"
  shows "P (run_event S config (now, u, TradeExecuted p) s)"
proof -
  have "preserves P (on_trade_executed S config now p)"
    unfolding on_trade_executed_def on_trade_closed_def Let_def
    by (auto intro!: preserves_bind P)
  from preservesD [OF this P(1)] show ?thesis by (simp add: run_event_def)
qed

text \<open>An active emergency survives every call but its deactivation.\<close>

definition emergency_on :: "'s \<Rightarrow> bool" where
  "emergency_on s \<longleftrightarrow> (\<forall>t. em_is_active (emerg t s))"

lemma emergency_on_writes [simp]:
  "preserves emergency_on (so_set_daily S now u st)" "preserves emergency_on (so_set_weekly S now u st)"
  "preserves emergency_on (so_set_disconnect S now dc)" "preserves emergency_on (so_set_drawdown S now u d)"
  using other_writes(1-4) [of "\<lambda>e. \<forall>t. em_is_active (e t)"] unfolding emergency_on_def by auto

lemma emergency_on_activate:
  assumes "em_is_active e"
  shows "preserves emergency_on (so_set_emergency S now e)"
proof (rule preservesI)
  fix s s' r
  assume "emergency_on s" "so_set_emergency S now e s = (s', r)"
  then show "emergency_on s'" using assms emerg_either [of now e s s' r]
    unfolding emergency_on_def by (metis empty_iff insert_iff)
qed

lemma emergency_on_update [simp]: "preserves emergency_on (drawdown_update S config now u b)"
  "preserves emergency_on (drawdown_resume S now u)"
  unfolding drawdown_update_def drawdown_resume_def Let_def by (auto intro!: preserves_bind)

lemma emergency_kept:
  assumes "emergency_on s" "e \<noteq> DeactivateEmergency"
  shows "emergency_on (run_event S config (now, u, e) s)"
proof -
  note H = handlers_preserve [of emergency_on, OF emergency_on_writes(1-3)]
  show ?thesis
  proof (cases e)
    case (TradeExecuted p)
    then show ?thesis using run_event_preserves [of emergency_on] assms(1) H by simp
  next
    case (TriggerEmergency r b)
    then show ?thesis using preservesD [OF emergency_on_activate assms(1)]
      by (simp add: run_event_def trigger_emergency_def emergency_activate_def)
  qed (use assms H [THEN preservesD, OF assms(1)] preservesD [OF emergency_on_update(2) assms(1)] in
      \<open>simp_all add: run_event_def on_api_failure_def on_api_success_def resume_drawdown_def
        reset_daily_switch_def reset_weekly_switch_def\<close>)
qed

lemma emergency_run:
  "emergency_on s \<Longrightarrow> (\<forall>(t, u, e)\<in>set evs. e \<noteq> DeactivateEmergency) \<Longrightarrow>
   emergency_on (run_events S config evs s)"
  unfolding run_events_def by (induction evs arbitrary: s) (auto intro: emergency_kept)

lemma emergency_activated:
  "so_set_emergency S now e s = (s', Inr ()) \<Longrightarrow> em_is_active e \<Longrightarrow> emergency_on s'"
  unfolding emergency_on_def using set_emerg by metis

lemma emergency_refuses:
  assumes "emergency_on s" "snd (check_order_allowed S config now u s) = Inr r"
  shows "\<not> sk_allowed r"
proof -
  obtain q where q: "so_get_emergency S now s = (s, q)" using get_reads(4) by (metis prod.collapse)
  have "em_is_active x" if "q = Inr x" for x
    using get_emerg [OF q] that assms(1) by (simp add: emergency_on_def)
  then show ?thesis using assms(2) q
    by (cases q) (auto simp: check_order_allowed_def let_pass_def emergency_check_def act_bind_def
        act_return_def split: if_splits)
qed

text \<open>A drawdown halt of user \<open>v\<close> survives every call but the resume of \<open>v\<close>.\<close>

definition drawdown_on :: "string \<Rightarrow> 's \<Rightarrow> bool" where
  "drawdown_on v s \<longleftrightarrow> (\<forall>t. dd_is_halted (draw t v s))"

lemma drawdown_on_writes [simp]:
  "preserves (drawdown_on v) (so_set_daily S now u st)" "preserves (drawdown_on v) (so_set_weekly S now u st)"
  "preserves (drawdown_on v) (so_set_disconnect S now dc)" "preserves (drawdown_on v) (so_set_emergency S now e)"
  using other_writes(5-8) [of "\<lambda>d. \<forall>t. dd_is_halted (d t)"] unfolding drawdown_on_def by auto

lemma drawdown_on_set:
  assumes "u = v \<Longrightarrow> dd_is_halted d"
  shows "preserves (drawdown_on v) (so_set_drawdown S now u d)"
proof (rule preservesI)
  fix s s' r
  assume "drawdown_on v s" and w: "so_set_drawdown S now u d s = (s', r)"
  then show "drawdown_on v s'" using assms draw_either [OF w] draw_frame [OF w]
    unfolding drawdown_on_def by (metis empty_iff insert_iff)
qed

lemma drawdown_on_read:
  assumes "\<And>x. (u = v \<Longrightarrow> dd_is_halted x) \<Longrightarrow> preserves (drawdown_on v) (f x)"
  shows "preserves (drawdown_on v) (act_bind (so_get_drawdown S now u) f)"
proof (rule preserves_bind_post)
  fix s s' r
  assume "drawdown_on v s" "so_get_drawdown S now u s = (s', r)"
  then show "drawdown_on v s' \<and> (\<forall>x. r = Inr x \<longrightarrow> u = v \<longrightarrow> dd_is_halted x)"
    using get_draw [of now u s s' r] by (auto simp: drawdown_on_def)
qed (use assms in blast)

lemma drawdown_on_update: "preserves (drawdown_on v) (drawdown_update S config now u b)"
  unfolding drawdown_update_def Let_def
  by (rule drawdown_on_read, intro preserves_if preserves_bind drawdown_on_set preserves_return) auto

lemma drawdown_kept:
  assumes "drawdown_on v s" "(u, e) \<noteq> (v, ResumeDrawdown)"
  shows "drawdown_on v (run_event S config (now, u, e) s)"
proof -
  note H = handlers_preserve [of "drawdown_on v", OF drawdown_on_writes(1-3)]
  show ?thesis
  proof (cases e)
    case (TradeExecuted p)
    then show ?thesis using run_event_preserves [of "drawdown_on v"] assms(1) H drawdown_on_update by simp
  next
    case ResumeDrawdown
    then have "preserves (drawdown_on v) (resume_drawdown S now u)"
      using assms(2) unfolding resume_drawdown_def drawdown_resume_def
      by (auto intro!: drawdown_on_read drawdown_on_set)
    from preservesD [OF this assms(1)] ResumeDrawdown show ?thesis by (simp add: run_event_def)
  next
    case (TriggerEmergency r b)
    then show ?thesis using preservesD [OF drawdown_on_writes(4) assms(1)]
      by (simp add: run_event_def trigger_emergency_def emergency_activate_def)
  next
    case DeactivateEmergency
    then show ?thesis using preservesD [OF drawdown_on_writes(4) assms(1)]
      by (simp add: run_event_def deactivate_emergency_def emergency_deactivate_def)
  qed (use assms H [THEN preservesD, OF assms(1)] in
      \<open>simp_all add: run_event_def on_api_failure_def on_api_success_def
        reset_daily_switch_def reset_weekly_switch_def\<close>)
qed

lemma drawdown_run:
  "drawdown_on v s \<Longrightarrow> (v, ResumeDrawdown) \<notin> snd ` set evs \<Longrightarrow> drawdown_on v (run_events S config evs s)"
proof (induction evs arbitrary: s)
  case (Cons ev evs)
  obtain t u e where ev: "ev = (t, u, e)" by (cases ev)
  have "drawdown_on v (run_event S config ev s)" using drawdown_kept [of v s u e config t] Cons.prems ev by force
  with Cons show ?case by (simp add: run_events_def)
qed (simp add: run_events_def)

text \<open>An order the gate lets pass found every protection clear.\<close>

lemma let_pass_allowed:
  "let_pass m k s = (s', Inr r) \<Longrightarrow> sk_allowed r \<Longrightarrow>
   \<exists>s1 r1. m s = (s1, Inr r1) \<and> sk_allowed r1 \<and> k s1 = (s', Inr r)"
  by (auto simp: let_pass_def act_bind_Inr split: if_splits)

lemma emergency_check_clear:
  assumes "emergency_check S now s = (s1, Inr r)" "sk_allowed r"
  shows "s1 = s \<and> \<not> em_is_active (emerg now s)"
proof -
  obtain x where x: "so_get_emergency S now s = (s1, Inr x)" "\<not> em_is_active x"
    using assms by (auto simp: emergency_check_def act_bind_Inr split: if_splits)
  then show ?thesis using get_emerg [OF x(1)] by simp
qed

lemma disconnect_check_clear:
  assumes "disconnect_check S now s = (s1, Inr r)" "sk_allowed r"
  shows "(dc_is_halted (disc now s) \<longrightarrow> disconnect_expired now (disc now s)) \<and>
    daily t u s1 = daily t u s \<and> weekly t u s1 = weekly t u s \<and> draw t u s1 = draw t u s"
proof -
  obtain s2 x where y: "so_get_disconnect S now s = (s2, Inr x)"
    using assms by (auto simp: disconnect_check_def act_bind_Inr)
  note x = y [unfolded conjunct1 [OF get_disc [OF y]]] mp [OF spec [OF conjunct2 [OF get_disc [OF y]]], OF refl]
  show ?thesis using assms x disc_frame
    by (auto simp: disconnect_check_def act_bind_Inr split: if_splits)
qed

lemma daily_check_clear:
  assumes "daily_check S now u s = (s1, Inr r)" "sk_allowed r"
  shows "\<not> halted_now now (daily now u s) \<and> draw t v s1 = draw t v s \<and>
    (\<not> halt_expired now (daily now u s) \<longrightarrow> s1 = s)"
proof -
  obtain s2 x where y: "so_get_daily S now u s = (s2, Inr x)"
    using assms by (auto simp: daily_check_def act_bind_Inr)
  note x = y [unfolded conjunct1 [OF get_daily [OF y]]] mp [OF spec [OF conjunct2 [OF get_daily [OF y]]], OF refl]
  show ?thesis using assms x daily_frame
    by (auto simp: daily_check_def act_bind_Inr halted_now_def halt_expired_def
        split: if_splits option.splits)
qed

lemma weekly_check_clear:
  assumes "weekly_check S now u s = (s1, Inr r)" "sk_allowed r"
  shows "\<not> halted_now now (weekly now u s) \<and> draw t v s1 = draw t v s"
proof -
  obtain s2 x where y: "so_get_weekly S now u s = (s2, Inr x)"
    using assms by (auto simp: weekly_check_def act_bind_Inr)
  note x = y [unfolded conjunct1 [OF get_weekly [OF y]]] mp [OF spec [OF conjunct2 [OF get_weekly [OF y]]], OF refl]
  show ?thesis using assms x weekly_frame
    by (auto simp: weekly_check_def act_bind_Inr halted_now_def halt_expired_def
        split: if_splits option.splits)
qed

lemma drawdown_check_clear:
  assumes "drawdown_check S now u s = (s1, Inr r)" "sk_allowed r"
  shows "\<not> dd_is_halted (draw now u s)"
proof -
  obtain x where x: "so_get_drawdown S now u s = (s1, Inr x)" "\<not> dd_is_halted x"
    using assms by (auto simp: drawdown_check_def act_bind_Inr split: if_splits)
  then show ?thesis using get_draw [OF x(1)] by simp
qed

lemma order_clear:
  assumes "snd (check_order_allowed S config now u s) = Inr r" "sk_allowed r"
  shows "sf_live_trading_enabled config \<and> \<not> em_is_active (emerg now s) \<and>
    (dc_is_halted (disc now s) \<longrightarrow> disconnect_expired now (disc now s)) \<and>
    \<not> halted_now now (daily now u s) \<and> \<not> dd_is_halted (draw now u s) \<and>
    (\<not> halt_expired now (daily now u s) \<longrightarrow> \<not> halted_now now (weekly now u s))"
proof -
  have E: "sf_live_trading_enabled config"
    using assms by (auto simp: check_order_allowed_def split: if_splits)
  obtain s0 where "check_order_allowed S config now u s = (s0, Inr r)" using assms(1) by (metis prod.collapse)
  then have G: "let_pass (emergency_check S now) (let_pass (disconnect_check S now)
      (let_pass (daily_check S now u) (let_pass (weekly_check S now u)
      (let_pass (drawdown_check S now u) (act_return sk_ok))))) s = (s0, Inr r)"
    using E by (simp add: check_order_allowed_def)
  note allowed = let_pass_allowed [OF _ assms(2)]
  from allowed [OF G] obtain s1 r1 where 1: "emergency_check S now s = (s1, Inr r1)" "sk_allowed r1"
    "let_pass (disconnect_check S now) (let_pass (daily_check S now u) (let_pass (weekly_check S now u)
      (let_pass (drawdown_check S now u) (act_return sk_ok)))) s1 = (s0, Inr r)" by blast
  from allowed [OF 1(3)] obtain s2 r2 where 2: "disconnect_check S now s1 = (s2, Inr r2)" "sk_allowed r2"
    "let_pass (daily_check S now u) (let_pass (weekly_check S now u)
      (let_pass (drawdown_check S now u) (act_return sk_ok))) s2 = (s0, Inr r)" by blast
  from allowed [OF 2(3)] obtain s3 r3 where 3: "daily_check S now u s2 = (s3, Inr r3)" "sk_allowed r3"
    "let_pass (weekly_check S now u) (let_pass (drawdown_check S now u) (act_return sk_ok)) s3 = (s0, Inr r)"
    by blast
  from allowed [OF 3(3)] obtain s4 r4 where 4: "weekly_check S now u s3 = (s4, Inr r4)" "sk_allowed r4"
    "let_pass (drawdown_check S now u) (act_return sk_ok) s4 = (s0, Inr r)" by blast
  from allowed [OF 4(3)] obtain s5 r5 where 5: "drawdown_check S now u s4 = (s5, Inr r5)" "sk_allowed r5"
    by blast
  show ?thesis
    using E emergency_check_clear [OF 1(1,2)] disconnect_check_clear [OF 2(1,2), of now u]
      daily_check_clear [OF 3(1,2), of now u] weekly_check_clear [OF 4(1,2), of now u]
      drawdown_check_clear [OF 5] by auto
qed

text \<open>A read after a write.\<close>

lemma set_get:
  "so_set_daily S now u st s = (s1, Inr ()) \<Longrightarrow> ks_user_id st = u \<Longrightarrow> in_window now (ks_halt_until st) later \<Longrightarrow>
     so_get_daily S later u s1 = (s2, Inr x) \<Longrightarrow> x = st"
  "so_set_weekly S now u st s = (s1, Inr ()) \<Longrightarrow> ks_user_id st = u \<Longrightarrow> in_window now (ks_halt_until st) later \<Longrightarrow>
     so_get_weekly S later u s1 = (s2, Inr x) \<Longrightarrow> x = st"
  "so_set_disconnect S now dc s = (s1, Inr ()) \<Longrightarrow> so_get_disconnect S later s1 = (s2, Inr dc') \<Longrightarrow> dc' = dc"
  "so_set_emergency S now em s = (s1, Inr ()) \<Longrightarrow> so_get_emergency S later s1 = (s2, Inr em') \<Longrightarrow> em' = em"
  "so_set_drawdown S now u dd s = (s1, Inr ()) \<Longrightarrow> so_get_drawdown S later u s1 = (s2, Inr dd') \<Longrightarrow> dd' = dd"
  using get_daily [of later u s1 s2 "Inr x"] set_daily [of now u st s s1 later]
    get_weekly [of later u s1 s2 "Inr x"] set_weekly [of now u st s s1 later]
    get_disc [of later s1 s2 "Inr dc'"] set_disc [of now dc s s1 later]
    get_emerg [of later s1 s2 "Inr em'"] set_emerg [of now em s s1 later]
    get_draw [of later u s1 s2 "Inr dd'"] set_draw [of now u dd s s1 later]
  by simp_all

text \<open>A loss that reaches the daily limit halts the user until the next midnight.\<close>

lemma daily_loss_halts:
  assumes "daily_record_loss S config now u loss bal s = (s', Inr r)"
    "ks_user_id (daily now u s) = u" "\<not> halted_now now (daily now u s)"
    "1 \<le> loss_ratio (fadd (if halt_expired now (daily now u s) then 0
                            else ks_current_loss_usdt (daily now u s)) loss)
           (fmul bal (sf_daily_loss_limit_pct config))"
    "now \<le> later" "later + second_us \<le> next_midnight_utc now"
  shows "r = sk_blocked H_DAILY_LOSS_LIMIT \<and> halted_now later (daily later u s')"
proof -
  obtain s2 x where y: "so_get_daily S now u s = (s2, Inr x)"
    using assms(1) by (auto simp: daily_record_loss_def act_bind_Inr)
  note x = y [unfolded conjunct1 [OF get_daily [OF y]]] mp [OF spec [OF conjunct2 [OF get_daily [OF y]]], OF refl]
  obtain st where st: "so_set_daily S now u st s = (s', Inr ())" "r = sk_blocked H_DAILY_LOSS_LIMIT"
    "ks_user_id st = u" "ks_is_halted st" "ks_halt_until st = Some (next_midnight_utc now)"
    using assms(1-4) x
    by (cases "halt_expired now x")
      (auto simp: daily_record_loss_def act_bind_Inr SAFETY_DAILY_LOSS_HALT_PCT_def Let_def)
  have "in_window now (ks_halt_until st) later"
    using assms(5,6) until_midnight(2) [of now] st(5)
    by (simp add: in_window_def next_midnight_utc_def until_midnight_utc_def day_us_def)
  from set_daily [OF st(1,3) this] st assms(6) show ?thesis
    by (simp add: halted_now_def second_us_def)
qed

text \<open>API failures count up to the threshold and halt there.\<close>

lemma failure_step:
  assumes "record_api_failure S config now s = (s', Inr r)" "\<not> dc_is_halted (disc now s)"
  shows "if sf_api_failure_halt_threshold config \<le> dc_consecutive_failures (disc now s) + 1
    then r = sk_blocked H_CONSECUTIVE_API_FAILURES \<and> (\<forall>t. dc_is_halted (disc t s') \<and>
      dc_halt_until (disc t s') = Some (now + sf_api_failure_halt_minutes config * minute_us))
    else r = sk_warning \<and> (\<forall>t. \<not> dc_is_halted (disc t s') \<and>
      dc_consecutive_failures (disc t s') = dc_consecutive_failures (disc now s) + 1)"
proof -
  obtain s2 x where y: "so_get_disconnect S now s = (s2, Inr x)"
    using assms(1) by (auto simp: record_api_failure_def act_bind_Inr)
  note x = y [unfolded conjunct1 [OF get_disc [OF y]]] mp [OF spec [OF conjunct2 [OF get_disc [OF y]]], OF refl]
  have e: "\<not> disconnect_expired now x" using assms(2) x(2) by (simp add: disconnect_expired_def)
  have S: "\<forall>t. disc t s1 = d" if "so_set_disconnect S now d s = (s1, Inr ())" for s1 d
    using set_disc [OF that] by blast
  show ?thesis
    using assms x e S
    by (auto simp: record_api_failure_def act_bind_Inr Let_def split: if_splits)
qed

lemma failure_run_halts:
  assumes "failure_run S config ts s = (s', Inr rs)" "ts \<noteq> []"
    "\<forall>t. \<not> dc_is_halted (disc t s) \<and> dc_consecutive_failures (disc t s) = c"
    "sf_api_failure_halt_threshold config = c + int (length ts)"
  shows "rs = replicate (length ts - 1) sk_warning @ [sk_blocked H_CONSECUTIVE_API_FAILURES] \<and>
    (\<forall>t. dc_is_halted (disc t s') \<and>
      dc_halt_until (disc t s') = Some (last ts + sf_api_failure_halt_minutes config * minute_us))"
  using assms
proof (induction ts arbitrary: s rs c)
  case (Cons now ts)
  obtain s1 r rs1 where 1: "record_api_failure S config now s = (s1, Inr r)"
    "failure_run S config ts s1 = (s', Inr rs1)" "rs = r # rs1"
    using Cons.prems(1) by (auto simp: act_bind_Inr on_api_failure_def)
  note F = failure_step [OF 1(1)]
  show ?case
  proof (cases "ts = []")
    case True
    then show ?thesis using F Cons.prems 1 by auto
  next
    case False
    then have "r = sk_warning" "\<forall>t. \<not> dc_is_halted (disc t s1) \<and> dc_consecutive_failures (disc t s1) = c + 1"
      using F Cons.prems(3,4) by (cases ts; simp)+
    moreover have "length ts = Suc (length ts - 1)" using False by (cases ts) auto
    ultimately show ?thesis
      using Cons.IH [OF 1(2) False, of "c + 1"] Cons.prems(4) False 1(3)
      by (metis (no_types, lifting) add.assoc append_Cons last_ConsR length_Cons of_nat_Suc add.commute
          diff_Suc_1 replicate_Suc)
  qed
qed simp

text \<open>The drawdown of the last balance against the highest of a series.\<close>

definition breach :: "safety_config \<Rightarrow> rat list \<Rightarrow> nat \<Rightarrow> bool" where
  "breach config bs i \<longleftrightarrow> (let peak = Max (set (take (Suc i) bs))
     in sf_drawdown_halt_pct config \<le> fdiv (fsub peak (bs ! i)) peak)"

lemma drawdown_step:
  assumes "drawdown_update S config now u b s = (s', Inr r)" "draw now u s = d" "0 < b"
  shows "\<exists>d'. (\<forall>t. draw t u s' = d') \<and>
    (if dd_is_halted d then dd_is_halted d'
     else let peak = (if dd_peak_balance d \<le> 0 \<or> dd_peak_balance d < b then b else dd_peak_balance d)
          in dd_peak_balance d' = peak \<and>
             (dd_is_halted d' \<longleftrightarrow> sf_drawdown_halt_pct config \<le> fdiv (fsub peak b) peak))"
proof -
  obtain s2 x where y: "so_get_drawdown S now u s = (s2, Inr x)"
    using assms(1) by (auto simp: drawdown_update_def act_bind_Inr)
  note x = y [unfolded conjunct1 [OF get_draw [OF y]]] mp [OF spec [OF conjunct2 [OF get_draw [OF y]]], OF refl]
  have S: "\<forall>t. draw t u s1 = e" if "so_set_drawdown S now u e s = (s1, Inr ())" for s1 e
    using set_draw [OF that] by blast
  show ?thesis
    using assms x S
    by (auto simp: drawdown_update_def act_bind_Inr Let_def split: if_splits)
qed

lemma breach_snoc:
  "i < length bs \<Longrightarrow> breach config (bs @ [b]) i = breach config bs i"
  "breach config (bs @ [b]) (length bs) \<longleftrightarrow>
     sf_drawdown_halt_pct config \<le> fdiv (fsub (Max (insert b (set bs))) b) (Max (insert b (set bs)))"
  by (simp_all add: breach_def nth_append Let_def)

lemma balance_run_drawdown:
  assumes "balance_run S config u tbs s = (s', Inr rs)" "\<forall>t. draw t u s = dd_default"
    "\<forall>b\<in>snd ` set tbs. 0 < b"
  shows "\<exists>d. (\<forall>t. draw t u s' = d) \<and>
    (dd_is_halted d \<longleftrightarrow> (\<exists>i<length tbs. breach config (map snd tbs) i)) \<and>
    (\<not> dd_is_halted d \<longrightarrow> dd_peak_balance d = (if tbs = [] then 0 else Max (snd ` set tbs)))"
  using assms
proof (induction tbs arbitrary: s' rs rule: rev_induct)
  case Nil
  then show ?case by (simp add: dd_default_def)
next
  case (snoc tb tbs)
  obtain now b where tb: "tb = (now, b)" by (cases tb)
  obtain s1 rs1 r where R: "balance_run S config u tbs s = (s1, Inr rs1)"
    "drawdown_update S config now u b s1 = (s', Inr r)"
    using balance_run_snoc [OF snoc.prems(1) [unfolded tb]] by blast
  obtain d where d: "\<forall>t. draw t u s1 = d"
    "dd_is_halted d \<longleftrightarrow> (\<exists>i<length tbs. breach config (map snd tbs) i)"
    "\<not> dd_is_halted d \<longrightarrow> dd_peak_balance d = (if tbs = [] then 0 else Max (snd ` set tbs))"
    using snoc.IH [OF R(1) snoc.prems(2)] snoc.prems(3) by auto
  define peak where "peak = (if dd_peak_balance d \<le> 0 \<or> dd_peak_balance d < b then b else dd_peak_balance d)"
  obtain d' where d': "\<forall>t. draw t u s' = d'"
    "if dd_is_halted d then dd_is_halted d' else dd_peak_balance d' = peak \<and>
       (dd_is_halted d' \<longleftrightarrow> sf_drawdown_halt_pct config \<le> fdiv (fsub peak b) peak)"
    using drawdown_step [OF R(2), of d] d(1) snoc.prems(3) unfolding peak_def Let_def tb by auto
  have p: "peak = Max (insert b (snd ` set tbs))" if "\<not> dd_is_halted d"
  proof (cases "tbs = []")
    case False
    then have m: "Max (insert b (snd ` set tbs)) = max b (Max (snd ` set tbs))" by simp
    have "0 < Max (snd ` set tbs)" using snoc.prems(3) False by (simp add: Max_gr_iff) (cases tbs; auto)
    moreover have "dd_peak_balance d = Max (snd ` set tbs)" using d(3) that False by simp
    ultimately show ?thesis unfolding m peak_def max_def by (simp only: not_le [symmetric]) auto
  qed (use d(3) that in \<open>simp add: peak_def\<close>)
  have L: "(\<exists>i<Suc (length tbs). breach config (map snd tbs @ [b]) i) \<longleftrightarrow>
      (\<exists>i<length tbs. breach config (map snd tbs) i) \<or> breach config (map snd tbs @ [b]) (length tbs)"
    using breach_snoc(1) [of _ "map snd tbs"] by (auto simp: less_Suc_eq)
  show ?case
    using d d' p L breach_snoc(2) [of config "map snd tbs" b]
    by (intro exI [of _ d']) (auto simp: tb split: if_splits)
qed

end
section \<open>Properties\<close>

text \<open>The views of the Redis store of a server \<open>R\<close> with content \<open>A\<close>.\<close>

abbreviation "daily_view A now u s \<equiv>
  or_default (ks_default u) (content_ks DailyKs ''DAILY_LOSS_LIMIT'' H_DAILY_LOSS_LIMIT now u (A s))"

abbreviation "weekly_view A now u s \<equiv>
  or_default (ks_default u) (content_ks WeeklyKs ''WEEKLY_LOSS_LIMIT'' H_WEEKLY_LOSS_LIMIT now u (A s))"

abbreviation "disconnect_view A now s \<equiv> content_json DisconnectKey disconnect_from_json dc_default now (A s)"

abbreviation "emergency_view A now s \<equiv> content_json EmergencyKey emergency_from_json em_default now (A s)"

abbreviation "drawdown_view A now u s \<equiv>
  content_json (DrawdownKey u) (\<lambda>d. Inr (drawdown_from_json d)) dd_default now (A s)"

lemma redis_store_contract:
  "redis_model R A \<Longrightarrow> safety_store (redis_safety_store R) (daily_view A) (weekly_view A)
     (disconnect_view A) (emergency_view A) (drawdown_view A)"
  by (rule redis_backed.store_contract) unfold_locales

lemma daily_view_user: "ks_user_id (daily_view A now u s) = u"
  by (auto simp: or_default_def content_ks_def ks_from_json_def ks_from_risk_halt_def Let_def ebind_Inr_iff
      split: sum.splits option.splits if_splits)

text \<open>
  The weekly halt the gate itself stored under its own key survives the checks before it; one that
  only the risk engine wrote does not, when a daily halt that has ended is cleared on the way.
\<close>

lemma checks_keep_weekly_key:
  assumes "redis_model R A"
  shows "keeps A (WeeklyKs u) (emergency_check (redis_safety_store R) now)"
    "keeps A (WeeklyKs u) (disconnect_check (redis_safety_store R) now)"
    "keeps A (WeeklyKs u) (daily_check (redis_safety_store R) now v)"
proof -
  have g: "keeps A (WeeklyKs u) (redis_get_ks R own t h now v)" "keeps A (WeeklyKs u) (redis_get_emergency R now)"
    "keeps A (WeeklyKs u) (redis_get_disconnect R now)" for own t h
    by (auto simp: redis_get_ks_def redis_get_emergency_def redis_get_disconnect_def
        intro!: keeps_bind keeps_basic split: option.split)
  show "keeps A (WeeklyKs u) (emergency_check (redis_safety_store R) now)"
    "keeps A (WeeklyKs u) (disconnect_check (redis_safety_store R) now)"
    "keeps A (WeeklyKs u) (daily_check (redis_safety_store R) now v)"
    by (auto simp: emergency_check_def disconnect_check_def daily_check_def redis_safety_store_def
        intro!: keeps_bind keeps_basic keeps_set [OF assms] keeps_set_ks [OF assms] g)
qed

lemma own_weekly_halt_blocks:
  assumes "redis_model R A" "snd (check_order_allowed (redis_safety_store R) config now u s) = Inr r"
    "sk_allowed r" "content_get now (WeeklyKs u) (A s) = Some (JObj (ks_to_json st))"
  shows "\<not> halted_now now st"
proof -
  let ?S = "redis_safety_store R"
  note allowed = safety_store.let_pass_allowed [OF redis_store_contract [OF assms(1)] _ assms(3)]
  obtain s0 where "check_order_allowed ?S config now u s = (s0, Inr r)" using assms(2) by (metis prod.collapse)
  then have "let_pass (emergency_check ?S now) (let_pass (disconnect_check ?S now)
      (let_pass (daily_check ?S now u) (let_pass (weekly_check ?S now u)
      (let_pass (drawdown_check ?S now u) (act_return sk_ok))))) s = (s0, Inr r)"
    using assms(3) by (auto simp: check_order_allowed_def split: if_splits)
  from allowed [OF this] obtain s1 r1 where 1: "emergency_check ?S now s = (s1, Inr r1)"
    "let_pass (disconnect_check ?S now) (let_pass (daily_check ?S now u) (let_pass (weekly_check ?S now u)
      (let_pass (drawdown_check ?S now u) (act_return sk_ok)))) s1 = (s0, Inr r)" by blast
  from allowed [OF 1(2)] obtain s2 r2 where 2: "disconnect_check ?S now s1 = (s2, Inr r2)"
    "let_pass (daily_check ?S now u) (let_pass (weekly_check ?S now u)
      (let_pass (drawdown_check ?S now u) (act_return sk_ok))) s2 = (s0, Inr r)" by blast
  from allowed [OF 2(2)] obtain s3 r3 where 3: "daily_check ?S now u s2 = (s3, Inr r3)"
    "let_pass (weekly_check ?S now u) (let_pass (drawdown_check ?S now u) (act_return sk_ok)) s3 = (s0, Inr r)"
    by blast
  from allowed [OF 3(2)] obtain s4 r4 where 4: "weekly_check ?S now u s3 = (s4, Inr r4)" "sk_allowed r4" by blast
  have "content_get now (WeeklyKs u) (A s3) = Some (JObj (ks_to_json st))"
    using assms(4) keepsD [OF checks_keep_weekly_key(1) [where u = u, OF assms(1)] 1(1), where later = now]
      keepsD [OF checks_keep_weekly_key(2) [where u = u, OF assms(1)] 2(1), where later = now]
      keepsD [OF checks_keep_weekly_key(3) [where u = u, OF assms(1)] 3(1), where later = now] by simp
  then have "weekly_view A now u s3 = st\<lparr>ks_user_id := u\<rparr>"
    by (simp add: content_ks_def json_loads_def ks_roundtrip or_default_def)
  moreover have "\<not> halted_now now (weekly_view A now u s3)"
    using safety_store.weekly_check_clear [OF redis_store_contract [OF assms(1)] 4] by blast
  ultimately show ?thesis by (simp add: halted_now_def)
qed

text \<open>
  C7. An order the safety gate lets pass found live trading enabled, no active emergency, no
  running API-failure halt, no drawdown halt of the user, no running daily halt, and no running
  weekly halt under the gate's own key. A weekly halt that only the risk engine wrote, under the
  key both layers share, is found, too, unless the same call cleared a daily halt that had ended:
  clearing it deletes the shared key, and the order passes.
\<close>

theorem gate_allows_only_clear:
  assumes "redis_model R A" "snd (check_order_allowed (redis_safety_store R) config now u s) = Inr r"
    "sk_allowed r"
  shows "sf_live_trading_enabled config \<and> \<not> em_is_active (emergency_view A now s) \<and>
    (dc_is_halted (disconnect_view A now s) \<longrightarrow> disconnect_expired now (disconnect_view A now s)) \<and>
    \<not> dd_is_halted (drawdown_view A now u s) \<and> \<not> halted_now now (daily_view A now u s) \<and>
    (\<forall>st. content_get now (WeeklyKs u) (A s) = Some (JObj (ks_to_json st)) \<longrightarrow> \<not> halted_now now st) \<and>
    (\<not> halt_expired now (daily_view A now u s) \<longrightarrow> \<not> halted_now now (weekly_view A now u s))"
  using safety_store.order_clear [OF redis_store_contract [OF assms(1)] assms(2,3)]
    own_weekly_halt_blocks [OF assms] by blast

lemma map_empty_reads [simp]: "content_get now k Map.empty = None"
  by (simp add: content_get_def)

lemma map_redis_get [simp]: "r_get map_redis now k m = Inr (content_get now k m)"
  "r_set map_redis now k v ex m = (content_set now k v ex m, Inr ())"
  "r_delete map_redis ks m = (content_delete ks m, Inr ())"
  by (simp_all add: map_redis_def)

lemmas redis_store_reads =
  redis_safety_store_def redis_get_emergency_def redis_get_disconnect_def redis_get_ks_def
  redis_get_drawdown_def act_read_bind

definition live_config :: safety_config where
  "live_config = default_safety_config\<lparr>sf_live_trading_enabled := True\<rparr>"

lemma gate_empty:
  "check_order_allowed (redis_safety_store map_redis) live_config now u Map.empty = (Map.empty, Inr sk_ok)"
  by (simp add: check_order_allowed_def live_config_def let_pass_def emergency_check_def disconnect_check_def
      daily_check_def weekly_check_def drawdown_check_def act_bind_def redis_store_reads em_default_def
      dc_default_def dd_default_def default_safety_config_def)

theorem gate_allows_only_clear_witness:
  "\<not> dd_is_halted (drawdown_view (\<lambda>m. m) 0 ''u'' Map.empty)"
  using gate_allows_only_clear [OF map_redis_model, of live_config 0 "''u''" Map.empty sk_ok]
  by (simp add: gate_empty)

text \<open>
  C8. A triggered emergency stops every order until it is deactivated: whatever sequence of
  checks, closed trades, API failures and successes, resets, resumes and further triggers
  follows, and whether the server's later calls succeed or fail, no order is let pass.
\<close>

theorem emergency_blocks_until_deactivated:
  assumes "redis_model R A"
    "trigger_emergency (redis_safety_store R) now0 reason who s0 = (s, Inr ())"
    "\<forall>(t, v, e)\<in>set evs. e \<noteq> DeactivateEmergency"
    "snd (check_order_allowed (redis_safety_store R) config now u
       (run_events (redis_safety_store R) config evs s)) = Inr r"
  shows "\<not> sk_allowed r"
proof -
  note C = redis_store_contract [OF assms(1)]
  have "safety_store.emergency_on (emergency_view A) s"
    using assms(2) by (auto intro: safety_store.emergency_activated [OF C]
      simp: trigger_emergency_def emergency_activate_def)
  from safety_store.emergency_refuses [OF C safety_store.emergency_run [OF C this assms(3)] assms(4)]
  show ?thesis .
qed

lemmas map_store_evals =
  redis_store_reads trigger_emergency_def emergency_activate_def emergency_check_def
  reset_daily_switch_def daily_reset_def redis_set_emergency_def redis_set_ks_def write_ks_key_def
  sync_shared_halt_def act_bind_def let_pass_def run_events_def run_event_def

theorem emergency_blocks_until_deactivated_witness:
  "\<exists>r. snd (check_order_allowed (redis_safety_store map_redis) live_config 5 ''u''
     (run_events (redis_safety_store map_redis) live_config [(1, ''u'', ResetDaily)]
       (fst (trigger_emergency (redis_safety_store map_redis) 0 ''stop'' ''admin'' Map.empty)))) = Inr r \<and>
     \<not> sk_allowed r"
proof -
  let ?S = "redis_safety_store map_redis"
  let ?s = "fst (trigger_emergency ?S 0 ''stop'' ''admin'' Map.empty)"
  let ?s2 = "run_events ?S live_config [(1, ''u'', ResetDaily)] ?s"
  have T: "trigger_emergency ?S 0 ''stop'' ''admin'' Map.empty = (?s, Inr ())"
    by (simp add: map_store_evals)
  have "\<exists>r. snd (check_order_allowed ?S live_config 5 ''u'' ?s2) = Inr r"
    by (simp add: check_order_allowed_def map_store_evals live_config_def json_loads_def emergency_roundtrip
        content_get_set alive_def)
  then obtain r where r: "snd (check_order_allowed ?S live_config 5 ''u'' ?s2) = Inr r" ..
  from emergency_blocks_until_deactivated [OF map_redis_model T _ r] r show ?thesis by auto
qed

text \<open>
  A drawdown halt of a user stops the user's orders until an operator resumes the user: the
  daily and weekly resets, later gains, the lifting of an emergency and other users' resumes
  leave it standing.
\<close>

theorem drawdown_halt_until_resumed:
  assumes "redis_model R A" "\<forall>t. dd_is_halted (drawdown_view A t u s)"
    "(u, ResumeDrawdown) \<notin> snd ` set evs"
    "snd (check_order_allowed (redis_safety_store R) config now u
       (run_events (redis_safety_store R) config evs s)) = Inr r"
  shows "\<not> sk_allowed r"
proof -
  note C = redis_store_contract [OF assms(1)]
  have "safety_store.drawdown_on (drawdown_view A) u s"
    using assms(2) by (simp add: safety_store.drawdown_on_def [OF C])
  note D = safety_store.drawdown_run [OF C this assms(3)]
  show ?thesis using safety_store.order_clear [OF C assms(4)] D
    by (auto simp: safety_store.drawdown_on_def [OF C])
qed

definition sample_halted_drawdown :: redis_content where
  "sample_halted_drawdown = [DrawdownKey ''u'' \<mapsto> (JObj (drawdown_to_json
     \<lparr>dd_peak_balance = 100, dd_current_balance = 70, dd_is_halted = True, dd_warning_sent = True\<rparr>), None)]"

lemma sample_halted_drawdown_get:
  "content_get t k sample_halted_drawdown = (if k = DrawdownKey ''u'' then Some (JObj (drawdown_to_json
     \<lparr>dd_peak_balance = 100, dd_current_balance = 70, dd_is_halted = True, dd_warning_sent = True\<rparr>)) else None)"
  by (simp add: content_get_def sample_halted_drawdown_def)

theorem drawdown_halt_until_resumed_witness:
  "\<exists>r. snd (check_order_allowed (redis_safety_store map_redis) live_config 5 ''u''
     (run_events (redis_safety_store map_redis) live_config [(1, ''u'', ResetDaily)] sample_halted_drawdown))
       = Inr r \<and> \<not> sk_allowed r"
proof -
  let ?S = "redis_safety_store map_redis"
  let ?s = "run_events ?S live_config [(1, ''u'', ResetDaily)] sample_halted_drawdown"
  have D: "\<forall>t. dd_is_halted (drawdown_view (\<lambda>m. m) t ''u'' sample_halted_drawdown)"
    by (simp add: content_json_def sample_halted_drawdown_get json_loads_def or_default_def drawdown_roundtrip)
  have "\<exists>r. snd (check_order_allowed ?S live_config 5 ''u'' ?s) = Inr r"
    by (simp add: check_order_allowed_def map_store_evals live_config_def json_loads_def
        content_get_set alive_def sample_halted_drawdown_get em_default_def dc_default_def
        disconnect_check_def daily_check_def weekly_check_def drawdown_check_def ks_roundtrip compute_ttl_def
        ks_default_def drawdown_roundtrip)
  then obtain r where r: "snd (check_order_allowed ?S live_config 5 ''u'' ?s) = Inr r" ..
  from drawdown_halt_until_resumed [OF map_redis_model D _ r] r show ?thesis by auto
qed

text \<open>
  A confirmed loss that brings the user's recorded losses to the daily limit is answered
  with a block, and from then to the last second before the next midnight UTC the gate lets no
  order of the user pass.
\<close>

theorem daily_limit_halts:
  assumes "redis_model R A"
    "daily_record_loss (redis_safety_store R) config now u loss bal s = (s', Inr r)"
    "\<not> halted_now now (daily_view A now u s)"
    "1 \<le> loss_ratio (fadd (if halt_expired now (daily_view A now u s) then 0
                            else ks_current_loss_usdt (daily_view A now u s)) loss)
           (fmul bal (sf_daily_loss_limit_pct config))"
    "now \<le> later" "later + second_us \<le> next_midnight_utc now"
  shows "r = sk_blocked H_DAILY_LOSS_LIMIT \<and>
    (\<forall>r'. snd (check_order_allowed (redis_safety_store R) config later u s') = Inr r' \<longrightarrow> \<not> sk_allowed r')"
proof -
  note C = redis_store_contract [OF assms(1)]
  have "ks_user_id (daily_view A now u s) = u" by (rule daily_view_user)
  then have "r = sk_blocked H_DAILY_LOSS_LIMIT \<and> halted_now later (daily_view A later u s')"
    using assms(2-6) safety_store.daily_loss_halts [OF C, of config now u loss bal s s' r later] by simp
  then show ?thesis using safety_store.order_clear [OF C, of config later u s'] by blast
qed

theorem daily_limit_halts_witness:
  "snd (daily_record_loss (redis_safety_store map_redis) (live_config\<lparr>sf_daily_loss_limit_pct := 1 / 2\<rparr>) 0
      ''u'' 60 100 Map.empty) = Inr (sk_blocked H_DAILY_LOSS_LIMIT)"
proof -
  let ?c = "live_config\<lparr>sf_daily_loss_limit_pct := 1 / 2\<rparr>"
  have "1 \<le> loss_ratio 60 50"
    by (simp add: loss_ratio_def fdiv_def le_f64_of_le is_f64_def)
  then have L: "1 \<le> loss_ratio (fadd 0 60) (fmul 100 (1 / 2))" by (simp add: f64_eval)
  obtain s' r where R: "daily_record_loss (redis_safety_store map_redis) ?c 0 ''u'' 60 100 Map.empty = (s', Inr r)"
    using L by (simp add: daily_record_loss_def map_store_evals halted_now_def halt_expired_def Let_def
        SAFETY_DAILY_LOSS_HALT_PCT_def)
  have v: "daily_view (\<lambda>m. m) 0 ''u'' Map.empty = ks_default ''u''"
    by (simp add: content_ks_def or_default_def)
  show ?thesis
    using daily_limit_halts [OF map_redis_model R, of 1] R L
    by (simp add: v halted_now_def halt_expired_def second_us_def next_midnight_utc_def date_of_def day_us_def)
qed

text \<open>
  Exactly the configured number of consecutive API failures halts trading: the failures before
  the last only warn, the last is answered with a block, and for the configured minutes after
  it no order passes.
\<close>

theorem api_failures_halt:
  assumes "redis_model R A" "failure_run (redis_safety_store R) config ts s = (s', Inr rs)" "ts \<noteq> []"
    "\<forall>t. \<not> dc_is_halted (disconnect_view A t s) \<and> dc_consecutive_failures (disconnect_view A t s) = 0"
    "sf_api_failure_halt_threshold config = int (length ts)"
    "later < last ts + sf_api_failure_halt_minutes config * minute_us"
  shows "rs = replicate (length ts - 1) sk_warning @ [sk_blocked H_CONSECUTIVE_API_FAILURES] \<and>
    (\<forall>r. snd (check_order_allowed (redis_safety_store R) config later u s') = Inr r \<longrightarrow> \<not> sk_allowed r)"
proof -
  note C = redis_store_contract [OF assms(1)]
  from safety_store.failure_run_halts [OF C assms(2-4)] assms(5)
  show ?thesis using safety_store.order_clear [OF C, of config later u s'] assms(6)
    by (fastforce simp: disconnect_expired_def)
qed
lemma live_config_simps [simp]:
  "sf_live_trading_enabled live_config" "sf_api_failure_halt_threshold live_config = 3"
  "sf_api_failure_halt_minutes live_config = 30"
  "sf_drawdown_halt_pct live_config = f64 (1 / 5)" "sf_drawdown_warning_pct live_config = f64 (1 / 10)"
  by (simp_all add: live_config_def default_safety_config_def API_FAILURE_HALT_THRESHOLD_def
      API_FAILURE_HALT_MINUTES_def DRAWDOWN_HALT_PCT_def DRAWDOWN_WARNING_PCT_def)

theorem api_failures_halt_witness:
  "\<exists>s'. failure_run (redis_safety_store map_redis) live_config [0, 1, 2] Map.empty =
     (s', Inr [sk_warning, sk_warning, sk_blocked H_CONSECUTIVE_API_FAILURES])"
proof -
  obtain s' rs where R: "failure_run (redis_safety_store map_redis) live_config [0, 1, 2] Map.empty = (s', Inr rs)"
    by (simp add: on_api_failure_def record_api_failure_def map_store_evals Let_def json_loads_def
        content_get_set alive_def disconnect_roundtrip dc_default_def disconnect_expired_def)
  have "rs = [sk_warning, sk_warning, sk_blocked H_CONSECUTIVE_API_FAILURES]"
    using api_failures_halt [OF map_redis_model R, of 3]
    by (simp add: numeral_2_eq_2 content_json_def dc_default_def live_config_def default_safety_config_def
        API_FAILURE_HALT_THRESHOLD_def API_FAILURE_HALT_MINUTES_def minute_us_def)
  with R show ?thesis by auto
qed

text \<open>
  C10. The drawdown protection detects exactly a maximum drawdown: after any series of positive
  balances reported for a fresh user, the user is halted if and only if some balance lay below
  the highest balance up to it by at least the configured fraction.
\<close>

theorem drawdown_halts_iff_breach:
  assumes "redis_model R A" "balance_run (redis_safety_store R) config u tbs s = (s', Inr rs)"
    "\<forall>t. drawdown_view A t u s = dd_default" "\<forall>b\<in>snd ` set tbs. 0 < b"
  shows "dd_is_halted (drawdown_view A t u s') \<longleftrightarrow>
    (\<exists>i<length tbs. let peak = Max (set (take (Suc i) (map snd tbs)))
       in sf_drawdown_halt_pct config \<le> fdiv (fsub peak (snd (tbs ! i))) peak)"
proof -
  note C = redis_store_contract [OF assms(1)]
  from safety_store.balance_run_drawdown [OF C assms(2-4)]
  show ?thesis by (auto simp: safety_store.breach_def [OF C] Let_def)
qed
theorem drawdown_halts_iff_breach_witness:
  "\<exists>s' rs. balance_run (redis_safety_store map_redis) live_config ''u'' [(0, 100), (1, 75)] Map.empty
      = (s', Inr rs) \<and> dd_is_halted (drawdown_view (\<lambda>m. m) 2 ''u'' s')"
proof -
  have c: "\<not> f64 (1 / 5) \<le> 0" "\<not> f64 (1 / 10) \<le> 0" "f64 (1 / 5) \<le> 1 / 4"
    "fsub 100 75 = 25" "fsub 100 100 = 0" "fdiv 25 100 = 1 / 4" "fdiv 0 100 = 0"
    using f64_le_of_le [of "1 / 4" "1 / 5"] by (simp_all add: f64_eval is_f64_def)
  obtain s' rs where R: "balance_run (redis_safety_store map_redis) live_config ''u'' [(0, 100), (1, 75)] Map.empty
      = (s', Inr rs)"
    using c by (simp add: drawdown_update_def map_store_evals Let_def json_loads_def
        content_get_set alive_def drawdown_roundtrip dd_default_def)
  have "dd_is_halted (drawdown_view (\<lambda>m. m) 2 ''u'' s')"
    using drawdown_halts_iff_breach [OF map_redis_model R] c
    by (simp add: content_json_def Let_def exI [of _ "1 :: nat"])
  with R show ?thesis by blast
qed

text \<open>
  C11. What is written to the Redis store is what is read back: a kill switch until the last second
  before its end, the API-failure state, the emergency state and a drawdown state at every
  later instant, with every field intact through the JSON text.
\<close>

theorem redis_store_roundtrip:
  assumes "redis_model R A"
  shows "(so_set_daily (redis_safety_store R) now u ks s = (s1, Inr ()) \<and> ks_user_id ks = u \<and>
      in_window now (ks_halt_until ks) later \<and> so_get_daily (redis_safety_store R) later u s1 = (s2, Inr ks')
      \<longrightarrow> ks' = ks) \<and>
    (so_set_weekly (redis_safety_store R) now u ks s = (s1, Inr ()) \<and> ks_user_id ks = u \<and>
      in_window now (ks_halt_until ks) later \<and> so_get_weekly (redis_safety_store R) later u s1 = (s2, Inr ks')
      \<longrightarrow> ks' = ks) \<and>
    (so_set_disconnect (redis_safety_store R) now dc s = (s1, Inr ()) \<and>
      so_get_disconnect (redis_safety_store R) later s1 = (s2, Inr dc') \<longrightarrow> dc' = dc) \<and>
    (so_set_emergency (redis_safety_store R) now em s = (s1, Inr ()) \<and>
      so_get_emergency (redis_safety_store R) later s1 = (s2, Inr em') \<longrightarrow> em' = em) \<and>
    (so_set_drawdown (redis_safety_store R) now u dd s = (s1, Inr ()) \<and>
      so_get_drawdown (redis_safety_store R) later u s1 = (s2, Inr dd') \<longrightarrow> dd' = dd)"
proof -
  note C = redis_store_contract [OF assms]
  show ?thesis
    by (intro conjI impI; elim conjE) (rule safety_store.set_get [OF C]; assumption)+
qed

theorem redis_store_roundtrip_witness:
  "\<exists>m. so_set_drawdown (redis_safety_store map_redis) 0 ''u'' dd_default Map.empty = (m, Inr ()) \<and>
     so_get_drawdown (redis_safety_store map_redis) 9 ''u'' m = (m, Inr dd_default)"
proof -
  obtain m x where m: "so_set_drawdown (redis_safety_store map_redis) 0 ''u'' dd_default Map.empty = (m, Inr ())"
    "so_get_drawdown (redis_safety_store map_redis) 9 ''u'' m = (m, Inr x)"
    by (simp add: redis_store_reads content_get_set alive_def json_loads_def)
  with redis_store_roundtrip [OF map_redis_model, of 0 "''u''" ks Map.empty m 9 m ks' dc dc' em em' dd_default x
      for ks ks' dc dc' em em'] show ?thesis by blast
qed

lemma content_get_expired: "content_get t k m = None \<Longrightarrow> t \<le> later \<Longrightarrow> content_get later k m = None"
  by (auto simp: content_get_def split: option.splits if_splits)

lemma sync_drops_daily:
  assumes "redis_model R A" "sync_shared_halt R t u st ''DAILY_LOSS_LIMIT'' (WeeklyKs u) s = (s', Inr ())"
    "\<not> ks_is_halted st" "content_get t (UserHalt u) (A s) \<in> {None, Some (halt_payload t0 T_DAILY_LOSS_LIMIT msg)}"
    "content_get t (WeeklyKs u) (A s) \<in> {None, Some (JObj (ks_to_json sw))}" "\<not> ks_is_halted sw" "t \<le> later"
  shows "content_get later (UserHalt u) (A s') = None"
proof -
  have "r_get R t (UserHalt u) s \<noteq> Inl e" for e
    using assms(2,3) by (auto simp: sync_shared_halt_def act_read_bind)
  then obtain h where r: "r_get R t (UserHalt u) s = Inr h" by (cases "r_get R t (UserHalt u) s") auto
  note h = r redis_get_content [OF assms(1) r]
  show ?thesis
  proof (cases h)
    case None
    then have "s' = s" using assms(2,3) h(1) by (simp add: sync_shared_halt_def act_read_bind)
    then show ?thesis using content_get_expired [of t "UserHalt u" "A s" later] h(2) None assms(7) by simp
  next
    case (Some v)
    then have v: "v = halt_payload t0 T_DAILY_LOSS_LIMIT msg" using h(2) assms(4) by auto
    obtain d where d: "json_loads v = Inr d" "jget d ''trigger'' (JStr []) = JStr ''DAILY_LOSS_LIMIT''"
      by (simp add: v halt_payload_def json_loads_def jget_def trigger_value_def)
    have n: "truthy (jget (ks_to_json sw) ''is_halted'' (JBool False)) = False"
      using assms(6) by (simp add: jget_def ks_to_json_def truthy_def)
    have "r_delete R [UserHalt u] s = (s', Inr ())"
    proof (cases "r_get R t (WeeklyKs u) s")
      case (Inl e)
      then show ?thesis
        using assms(2,3) h(1) Some d by (simp add: sync_shared_halt_def act_read_bind SAFETY_TRIGGERS_def)
    next
      case (Inr w)
      have "w = None \<or> w = Some (JObj (ks_to_json sw))"
        using redis_get_content [OF assms(1) Inr] assms(5) by simp
      then show ?thesis
        using assms(2,3) h(1) Some d Inr n
        by (elim disjE) (simp_all add: sync_shared_halt_def act_read_bind SAFETY_TRIGGERS_def json_loads_def)
    qed
    from redis_delete_content [OF assms(1) this] show ?thesis by simp
  qed
qed

text \<open>
  C13. The two layers can disagree on a halt. When the user's own daily switch is stored and not
  halted, and the weekly one is not stored or not halted, a halt that the risk engine wrote for its
  own daily limit does not stop the gate's daily check, and the next loss that the gate records
  below its limit, then or later, deletes the engine's halt: from there on the kill-switch check of
  the engine no longer finds it.
\<close>

theorem small_loss_lifts_engine_halt:
  assumes "redis_model R A" "halt_trading R t0 u T_DAILY_LOSS_LIMIT msg s0 = (s, Inr h)" "t0 \<le> t1"
    "content_get t1 (DailyKs u) (A s0) = Some (JObj (ks_to_json st))" "\<not> ks_is_halted st"
    "content_get t1 (WeeklyKs u) (A s0) \<in> {None, Some (JObj (ks_to_json sw))}" "\<not> ks_is_halted sw"
    "daily_record_loss (redis_safety_store R) config t1 u loss bal s = (s', Inr r)" "sk_allowed r"
  shows "(\<forall>x. snd (daily_check (redis_safety_store R) t1 u s) = Inr x \<longrightarrow> x = sk_ok) \<and>
    (\<forall>later\<ge>t1. content_get later (UserHalt u) (A s') = None)"
proof (intro conjI allI impI)
  note set = halt_trading_set [OF assms(2)]
  have K: "content_get t k (A s) = content_get t k (A s0)" if "k \<noteq> UserHalt u" for t k
    using redis_set_other [OF assms(1) set that] .
  have H: "content_get t1 (UserHalt u) (A s) \<in> {None, Some (halt_payload t0 T_DAILY_LOSS_LIMIT msg)}"
    using redis_set_content [OF assms(1) set] by (auto simp: content_get_set)
  have get: "s2 = s \<and> x = st\<lparr>ks_user_id := u\<rparr>"
    if "redis_get_ks R DailyKs ''DAILY_LOSS_LIMIT'' H_DAILY_LOSS_LIMIT t1 u s = (s2, Inr x)" for s2 x
    using redis_get_ks_content [OF assms(1) that] K assms(4)
    by (simp add: content_ks_def json_loads_def ks_roundtrip)
  show "x = sk_ok" if "snd (daily_check (redis_safety_store R) t1 u s) = Inr x" for x
  proof -
    have "daily_check (redis_safety_store R) t1 u s = (fst (daily_check (redis_safety_store R) t1 u s), Inr x)"
      using that by (simp add: prod_eq_iff)
    then show ?thesis
      using assms(5) by (auto simp: daily_check_def act_bind_Inr redis_safety_store_def dest!: get split: if_splits)
  qed
  fix later assume later: "t1 \<le> later"
  obtain st' where st': "redis_set_ks R DailyKs WeeklyKs ''DAILY_LOSS_LIMIT'' t1 u st' s = (s', Inr ())"
    "\<not> ks_is_halted st'"
  proof -
    obtain s2 x where y: "redis_get_ks R DailyKs ''DAILY_LOSS_LIMIT'' H_DAILY_LOSS_LIMIT t1 u s = (s2, Inr x)"
      using assms(8) by (auto simp: daily_record_loss_def act_bind_Inr redis_safety_store_def)
    with get [OF y] show ?thesis
      using assms(5,8,9) that
      by (auto simp: daily_record_loss_def act_bind_Inr redis_safety_store_def halted_now_def halt_expired_def
          Let_def split: if_splits)
  qed
  obtain s1 where s1: "write_ks_key R t1 (DailyKs u) st' s = (s1, Inr ())"
    "sync_shared_halt R t1 u st' ''DAILY_LOSS_LIMIT'' (WeeklyKs u) s1 = (s', Inr ())"
    using st'(1) by (auto simp: redis_set_ks_def act_bind_Inr)
  note W = redis_set_other [OF assms(1) s1(1) [unfolded write_ks_key_def]]
  show "content_get later (UserHalt u) (A s') = None"
    by (rule sync_drops_daily [OF assms(1) s1(2) st'(2) _ _ assms(7) later])
      (use W H K assms(6) in simp_all)
qed

definition sample_daily_open :: redis_content where
  "sample_daily_open = [DailyKs ''u'' \<mapsto> (JObj (ks_to_json (ks_default ''u'')), None)]"

lemma sample_daily_open_get: "content_get t k sample_daily_open =
    (if k = DailyKs ''u'' then Some (JObj (ks_to_json (ks_default ''u''))) else None)"
  by (simp add: content_get_def sample_daily_open_def)

theorem small_loss_lifts_engine_halt_witness:
  "\<exists>m. fst (halt_trading map_redis 0 ''u'' T_DAILY_LOSS_LIMIT ''loss'' sample_daily_open) = m \<and>
     content_get 0 (UserHalt ''u'') m \<noteq> None \<and>
     content_get 1 (UserHalt ''u'') (fst (daily_record_loss (redis_safety_store map_redis)
        (live_config\<lparr>sf_daily_loss_limit_pct := 1 / 2\<rparr>) 0 ''u'' 10 100 m)) = None"
proof -
  let ?c = "live_config\<lparr>sf_daily_loss_limit_pct := 1 / 2\<rparr>"
  let ?m = "fst (halt_trading map_redis 0 ''u'' T_DAILY_LOSS_LIMIT ''loss'' sample_daily_open)"
  obtain h where H: "halt_trading map_redis 0 ''u'' T_DAILY_LOSS_LIMIT ''loss'' sample_daily_open = (?m, Inr h)"
    by (simp add: halt_trading_def act_bind_def)
  have a: "alive 0 (halt_ttl 0 T_DAILY_LOSS_LIMIT) 0"
    by (intro halt_ttl_alive) (simp_all add: compute_until_cases until_midnight_utc_def date_of_def
        day_us_def second_us_def)
  have m: "?m = content_set 0 (UserHalt ''u'') (halt_payload 0 T_DAILY_LOSS_LIMIT ''loss'')
      (halt_ttl 0 T_DAILY_LOSS_LIMIT) sample_daily_open"
    by (simp add: halt_trading_def act_bind_def)
  have f: "f64 (1 / 5) < 1 / 2" "f64 (1 / 5) < f64 (4 / 5)" "f64 (1 / 5) < 1"
    using f64_le_of_le [of "1 / 4" "1 / 5"] le_f64_of_le [of "1 / 2" "4 / 5"]
    by (simp_all add: f64_eval is_f64_def)
  have L: "loss_ratio (fadd 0 10) (fmul 100 (1 / 2)) = f64 (1 / 5)"
    by (simp add: loss_ratio_def f64_eval)
  have n: "\<not> 1 \<le> f64 (1 / 5)" "\<not> f64 (4 / 5) \<le> f64 (1 / 5)" "\<not> f64 (1 / 2) \<le> f64 (1 / 5)"
    using f by (simp_all add: f64_eval)
  obtain s' where R: "daily_record_loss (redis_safety_store map_redis) ?c 0 ''u'' 10 100 ?m = (s', Inr sk_ok)"
    unfolding m
    by (simp add: daily_record_loss_def map_store_evals sample_daily_open_get json_loads_def ks_roundtrip
        halted_now_def halt_expired_def Let_def L n SAFETY_DAILY_LOSS_HALT_PCT_def
        SAFETY_DAILY_LOSS_CAUTION_PCT_def SAFETY_DAILY_LOSS_WARNING_PCT_def a content_get_set
        halt_payload_def jget_def SAFETY_TRIGGERS_def trigger_value_def compute_ttl_def ks_default_def)
  have "content_get 1 (UserHalt ''u'') s' = None"
    using small_loss_lifts_engine_halt [where st = "ks_default ''u''" and sw = "ks_default ''u''",
        OF map_redis_model H _ _ _ _ _ R]
    by (simp add: sample_daily_open_get ks_default_def sk_ok_def)
  then show ?thesis using R m a by (simp add: content_get_set)
qed

end
