(* ===== verification/PositionModels.thy ===== *)
theory PositionModels
  imports RiskModels
begin

text \<open>
  \<open>agents/position_manager/models.py\<close>: the constants and data of the live position manager. A
  position is a mutable object: an operation on it is an action on its record, which returns
  the record it leaves behind with its value or the exception it raised. The generated
  identifier and the clock are arguments.
\<close>

section \<open>Constants\<close>

definition TAKER_FEE_RATE :: rat where "TAKER_FEE_RATE = 0.0004"
definition MAINTENANCE_MARGIN_RATE :: rat where "MAINTENANCE_MARGIN_RATE = 0.004"

definition MAX_DCA_COUNT :: int where "MAX_DCA_COUNT = 2"
definition DCA_RISK_MULTIPLIER :: rat where "DCA_RISK_MULTIPLIER = 2"
definition DCA_MIN_PRICE_MOVE_ATR :: rat where "DCA_MIN_PRICE_MOVE_ATR = 1"

definition DCA_DAILY_LOSS_WARNING_PCT :: rat where "DCA_DAILY_LOSS_WARNING_PCT = 0.5"
definition DCA_WEEKLY_LOSS_WARNING_PCT :: rat where "DCA_WEEKLY_LOSS_WARNING_PCT = 0.75"
definition DCA_DRAWDOWN_MAX_PCT :: rat where "DCA_DRAWDOWN_MAX_PCT = f64 0.05"

definition LIQ_DISTANCE_WARNING_HIGH :: rat where "LIQ_DISTANCE_WARNING_HIGH = f64 0.1"
definition LIQ_DISTANCE_WARNING_MED :: rat where "LIQ_DISTANCE_WARNING_MED = f64 0.05"
definition LIQ_DISTANCE_PARTIAL :: rat where "LIQ_DISTANCE_PARTIAL = f64 0.03"
definition LIQ_DISTANCE_FULL :: rat where "LIQ_DISTANCE_FULL = f64 0.02"

section \<open>Position\<close>

datatype position_status = Open | PartiallyClosed | Closed

record position_state =
  po_id :: string
  po_user_id :: string
  po_coin :: string
  po_symbol :: string
  po_direction :: direction
  po_status :: position_status
  po_entry_price :: rat
  po_take_profit :: rat
  po_stop_loss :: rat
  po_liquidation_price :: rat
  po_current_price :: rat
  po_quantity :: rat
  po_original_quantity :: rat
  po_leverage :: int
  po_margin_used :: rat
  po_original_margin :: rat
  po_original_risk_usdt :: rat
  po_realized_pnl :: rat
  po_dca_count :: int
  po_opened_at :: int
  po_closed_at :: "int option"
  po_close_reason :: "string option"

definition po_is_open :: "position_state \<Rightarrow> bool" where
  "po_is_open p \<longleftrightarrow> po_status p \<in> {Open, PartiallyClosed}"

definition po_unrealized_pnl :: "position_state \<Rightarrow> rat" where
  "po_unrealized_pnl p =
     (if \<not> po_is_open p then 0
      else if po_direction p = LONG
           then dmul (dsub (po_current_price p) (po_entry_price p)) (po_quantity p)
           else dmul (dsub (po_entry_price p) (po_current_price p)) (po_quantity p))"

definition po_drawdown_pct :: "position_state \<Rightarrow> rat" where
  "po_drawdown_pct p =
     (if po_original_margin p \<le> 0 then 0
      else let upnl = po_unrealized_pnl p
           in if 0 \<le> upnl then 0 else f64 (ddiv (dabs upnl) (po_original_margin p)))"

section \<open>Results\<close>

record close_result =
  cr_closed_quantity :: rat
  cr_gross_pnl :: rat
  cr_fee :: rat
  cr_net_pnl :: rat
  cr_pnl_pct :: rat
  cr_is_partial :: bool
  cr_close_reason :: string

datatype dca_reason =
    DcaOk
  | DcaDirection
  | DcaLimit
  | DcaPremature rat rat
  | DcaRisk rat
  | DcaDailyLoss rat
  | DcaCooldown
  | DcaWeeklyLoss rat
  | DcaDrawdown rat

record dca_eligibility =
  de_eligible :: bool
  de_reason :: dca_reason

record dca_result =
  dr_added_quantity :: rat
  dr_added_margin :: rat
  dr_new_avg_entry :: rat
  dr_dca_fee :: rat

datatype updated_field = FieldTp | FieldSl | FieldBoth

record tpsl_update =
  tu_field_updated :: updated_field
  tu_old_tp :: "rat option"
  tu_old_sl :: "rat option"
  tu_new_tp :: "rat option"
  tu_new_sl :: "rat option"
  tu_reason :: string

datatype liq_action = LiqNone | LiqWarning | LiqPartialClose | LiqFullClose

record liquidation_check =
  lc_position_id :: string
  lc_distance_pct :: rat
  lc_action :: liq_action
  lc_current_price :: rat
  lc_liquidation_price :: rat

datatype exit_hit = TpHit | SlHit

record tick_result =
  tk_position_id :: string
  tk_current_price :: rat
  tk_tp_sl_status :: "exit_hit option"
  tk_close_result :: "close_result option"
  tk_liq_check :: liquidation_check

record account_stats =
  as_daily_loss_usdt :: rat
  as_daily_loss_limit_usdt :: rat
  as_weekly_loss_usdt :: rat
  as_weekly_loss_limit_usdt :: rat
  as_consecutive_losses :: int
  as_in_cooldown :: bool

section \<open>Basic facts\<close>

lemma liq_thresholds:
  "0 < LIQ_DISTANCE_FULL" "LIQ_DISTANCE_FULL \<le> LIQ_DISTANCE_PARTIAL"
  "LIQ_DISTANCE_PARTIAL \<le> LIQ_DISTANCE_WARNING_MED"
  "LIQ_DISTANCE_WARNING_MED \<le> LIQ_DISTANCE_WARNING_HIGH"
  unfolding LIQ_DISTANCE_FULL_def LIQ_DISTANCE_PARTIAL_def LIQ_DISTANCE_WARNING_MED_def
    LIQ_DISTANCE_WARNING_HIGH_def
  by (auto intro: f64_mono)

lemma po_is_open_iff: "po_is_open p \<longleftrightarrow> po_status p \<noteq> Closed"
  by (cases "po_status p") (auto simp: po_is_open_def)

lemmas po_consts [pyconst] =
  TAKER_FEE_RATE_def MAINTENANCE_MARGIN_RATE_def MAX_DCA_COUNT_def DCA_RISK_MULTIPLIER_def
  DCA_MIN_PRICE_MOVE_ATR_def DCA_DAILY_LOSS_WARNING_PCT_def DCA_WEEKLY_LOSS_WARNING_PCT_def

end
