(* ===== verification/PositionManager.thy ===== *)
theory PositionManager
  imports PositionModels
begin

text \<open>
  \<open>agents/position_manager/{lifecycle,dca,emergency,tp_sl,engine}.py\<close>: opening, closing and
  averaging a live position, its exits, the distance to liquidation, and the engine's tick. An
  operation on a position is an action on its record; an exception keeps what was written
  before it, and a close writes the position before it rounds the numbers of its report.
\<close>

section \<open>Lifecycle\<close>

definition calc_pnl_q :: "direction \<Rightarrow> rat \<Rightarrow> rat \<Rightarrow> rat \<Rightarrow> rat \<Rightarrow> rat \<times> rat \<times> rat" where
  "calc_pnl_q direction entry close qty fee_rate =
     (let gross = (if direction = LONG then dmul (dsub close entry) qty
                   else dmul (dsub entry close) qty);
          exit_fee = dmul (dmul qty close) fee_rate
      in (gross, exit_fee, dsub gross exit_fee))"

definition calc_liquidation_price :: "direction \<Rightarrow> rat \<Rightarrow> int \<Rightarrow> rat result" where
  "calc_liquidation_price direction entry leverage =
     ebind (ddivE 1 (of_int leverage)) (\<lambda>share.
       Inr (if direction = LONG
            then dmul entry (dadd (dsub 1 share) MAINTENANCE_MARGIN_RATE)
            else dmul entry (dsub (dadd 1 share) MAINTENANCE_MARGIN_RATE)))"

text \<open>
  Opening. An approved result carries its numbers; a missing quantity fails in the product,
  a missing leverage in its conversion, and a missing margin or loss, which the code would
  store against the field's type, is a \<open>TypeError\<close> here.
\<close>

definition open_position ::
    "int \<Rightarrow> string \<Rightarrow> string \<Rightarrow> raw_signal \<Rightarrow> validation_result \<Rightarrow> rat
       \<Rightarrow> (position_state \<times> rat) result" where
  "open_position now pid user_id s v fee_rate =
     (if \<not> vr_approved v then Inl AssertionError
      else case (sg_stop_loss s, sg_take_profit s) of
        (Some sl, Some tp) \<Rightarrow>
          (case vr_quantity v of
             None \<Rightarrow> Inl TypeError
           | Some qty \<Rightarrow>
               ebind (quantize rhe 4 (dmul (dmul qty (sg_entry_price s)) fee_rate)) (\<lambda>entry_fee.
               (case vr_final_leverage v of
                  None \<Rightarrow> Inl InvalidOperation
                | Some lev \<Rightarrow>
                    ebind (calc_liquidation_price (sg_direction s) (sg_entry_price s) lev) (\<lambda>liq.
                    (case (vr_margin_required_usdt v, vr_max_loss_usdt v) of
                       (Some margin, Some max_loss) \<Rightarrow>
                         Inr (\<lparr>po_id = pid, po_user_id = user_id, po_coin = sg_coin s,
                               po_symbol = sg_symbol s, po_direction = sg_direction s,
                               po_status = Open, po_entry_price = sg_entry_price s,
                               po_take_profit = tp, po_stop_loss = sl,
                               po_liquidation_price = liq, po_current_price = sg_entry_price s,
                               po_quantity = qty, po_original_quantity = qty,
                               po_leverage = lev, po_margin_used = margin,
                               po_original_margin = margin, po_original_risk_usdt = max_loss,
                               po_realized_pnl = 0, po_dca_count = 0, po_opened_at = now,
                               po_closed_at = None, po_close_reason = None\<rparr>, entry_fee)
                     | _ \<Rightarrow> Inl TypeError)))))
      | _ \<Rightarrow> Inl AssertionError)"

text \<open>The report of a close, made from the three unrounded numbers after the position is written.\<close>

definition close_report ::
    "rat \<Rightarrow> rat \<Rightarrow> rat \<Rightarrow> rat \<Rightarrow> rat \<Rightarrow> bool \<Rightarrow> string \<Rightarrow> close_result result" where
  "close_report close_qty gross_pnl exit_fee net_pnl_q pnl_pct partial reason =
     ebind (quantize rhe 2 gross_pnl) (\<lambda>gross_q.
     ebind (quantize rhe 4 exit_fee) (\<lambda>fee_q.
     ebind (quantize rhe 2 pnl_pct) (\<lambda>pct_q.
       Inr \<lparr>cr_closed_quantity = close_qty, cr_gross_pnl = gross_q, cr_fee = fee_q,
            cr_net_pnl = net_pnl_q, cr_pnl_pct = pct_q, cr_is_partial = partial,
            cr_close_reason = reason\<rparr>)))"

definition close_position ::
    "int \<Rightarrow> rat \<Rightarrow> string \<Rightarrow> rat \<Rightarrow> (position_state, close_result) act" where
  "close_position now close_price reason fee_rate p =
     (if \<not> po_is_open p then (p, Inl AssertionError)
      else
        let close_qty = po_quantity p;
            (gross_pnl, exit_fee, net_pnl) =
              calc_pnl_q (po_direction p) (po_entry_price p) close_price close_qty fee_rate
        in case quantize rhe 2 net_pnl of
             Inl e \<Rightarrow> (p, Inl e)
           | Inr net_pnl_q \<Rightarrow>
               let pnl_pct = (if po_margin_used p \<noteq> 0
                              then dmul (ddiv net_pnl_q (po_margin_used p)) 100 else 0);
                   p1 = p\<lparr>po_status := Closed, po_closed_at := Some now,
                          po_close_reason := Some reason, po_current_price := close_price,
                          po_realized_pnl := dadd (po_realized_pnl p) net_pnl_q\<rparr>
               in (p1, close_report close_qty gross_pnl exit_fee net_pnl_q pnl_pct False reason))"

definition partial_close ::
    "rat \<Rightarrow> rat \<Rightarrow> rat \<Rightarrow> (position_state, close_result) act" where
  "partial_close close_price ratio fee_rate p =
     (if \<not> po_is_open p then (p, Inl AssertionError)
      else if \<not> (0 < ratio \<and> ratio < 1) then (p, Inl ValueError)
      else case quantize rdown 3 (dmul (po_quantity p) (repr10 ratio)) of
        Inl e \<Rightarrow> (p, Inl e)
      | Inr close_qty \<Rightarrow>
          if close_qty \<le> 0 then (p, Inl ValueError)
          else
            let (gross_pnl, exit_fee, net_pnl) =
                  calc_pnl_q (po_direction p) (po_entry_price p) close_price close_qty fee_rate
            in case quantize rhe 2 net_pnl of
                 Inl e \<Rightarrow> (p, Inl e)
               | Inr net_pnl_q \<Rightarrow>
                   (case quantize rhe 4 (dmul (po_margin_used p) (repr10 ratio)) of
                      Inl e \<Rightarrow> (p, Inl e)
                    | Inr close_margin \<Rightarrow>
                        let pnl_pct = (if close_margin \<noteq> 0
                                       then dmul (ddiv net_pnl_q close_margin) 100 else 0);
                            p1 = p\<lparr>po_quantity := dsub (po_quantity p) close_qty,
                                   po_margin_used := dsub (po_margin_used p) close_margin,
                                   po_realized_pnl := dadd (po_realized_pnl p) net_pnl_q,
                                   po_status := PartiallyClosed,
                                   po_current_price := close_price\<rparr>
                        in (p1, close_report close_qty gross_pnl exit_fee net_pnl_q pnl_pct
                                  True ''partial'')))"

section \<open>Averaging\<close>

definition recalculate_avg_entry :: "rat \<Rightarrow> rat \<Rightarrow> rat \<Rightarrow> rat \<Rightarrow> rat result" where
  "recalculate_avg_entry original_qty original_entry dca_qty dca_entry =
     (let total_qty = dadd original_qty dca_qty;
          total_value = dadd (dmul original_qty original_entry) (dmul dca_qty dca_entry)
      in ebind (ddivE total_value total_qty) (quantize rhe 2))"

definition estimate_position_risk :: "position_state \<Rightarrow> rat" where
  "estimate_position_risk p =
     (if po_direction p = LONG
      then dmul (dsub (po_entry_price p) (po_stop_loss p)) (po_quantity p)
      else dmul (dsub (po_stop_loss p) (po_entry_price p)) (po_quantity p))"

definition refuse_dca :: "dca_reason \<Rightarrow> dca_eligibility" where
  "refuse_dca r = \<lparr>de_eligible = False, de_reason = r\<rparr>"

definition check_dca_eligibility ::
    "position_state \<Rightarrow> direction \<Rightarrow> rat \<Rightarrow> rat \<Rightarrow> rat \<Rightarrow> account_stats \<Rightarrow> dca_eligibility" where
  "check_dca_eligibility p dca_direction dca_entry_price dca_risk_usdt current_atr account =
     (let price_move = dabs (dsub dca_entry_price (po_entry_price p));
          min_move = dmul current_atr DCA_MIN_PRICE_MOVE_ATR;
          total_risk = dadd (estimate_position_risk p) dca_risk_usdt;
          risk_limit = dmul (po_original_risk_usdt p) DCA_RISK_MULTIPLIER;
          daily_ratio = ddiv (as_daily_loss_usdt account) (as_daily_loss_limit_usdt account);
          weekly_ratio = ddiv (as_weekly_loss_usdt account) (as_weekly_loss_limit_usdt account)
      in if po_direction p \<noteq> dca_direction then refuse_dca DcaDirection
         else if MAX_DCA_COUNT \<le> po_dca_count p then refuse_dca DcaLimit
         else if price_move < min_move then refuse_dca (DcaPremature price_move min_move)
         else if risk_limit < total_risk then refuse_dca (DcaRisk total_risk)
         else if 0 < as_daily_loss_limit_usdt account \<and> DCA_DAILY_LOSS_WARNING_PCT \<le> daily_ratio
              then refuse_dca (DcaDailyLoss daily_ratio)
         else if as_in_cooldown account then refuse_dca DcaCooldown
         else if 0 < as_weekly_loss_limit_usdt account \<and> DCA_WEEKLY_LOSS_WARNING_PCT \<le> weekly_ratio
              then refuse_dca (DcaWeeklyLoss weekly_ratio)
         else if DCA_DRAWDOWN_MAX_PCT \<le> po_drawdown_pct p
              then refuse_dca (DcaDrawdown (po_drawdown_pct p))
         else \<lparr>de_eligible = True, de_reason = DcaOk\<rparr>)"

definition apply_dca ::
    "rat \<Rightarrow> validation_result \<Rightarrow> rat \<Rightarrow> (position_state, dca_result) act" where
  "apply_dca dca_signal_entry v fee_rate p =
     (if \<not> vr_approved v then (p, Inl AssertionError)
      else case (vr_quantity v, vr_margin_required_usdt v) of
        (Some dca_qty, Some dca_margin) \<Rightarrow>
          (case ebind (recalculate_avg_entry (po_quantity p) (po_entry_price p) dca_qty
                         dca_signal_entry) (\<lambda>new_avg_entry.
                ebind (quantize rhe 4 (dmul (dmul dca_qty dca_signal_entry) fee_rate)) (\<lambda>dca_fee.
                ebind (calc_liquidation_price (po_direction p) new_avg_entry (po_leverage p))
                  (\<lambda>new_liq. Inr (new_avg_entry, dca_fee, new_liq)))) of
             Inl e \<Rightarrow> (p, Inl e)
           | Inr (new_avg_entry, dca_fee, new_liq) \<Rightarrow>
               (p\<lparr>po_entry_price := new_avg_entry,
                  po_quantity := dadd (po_quantity p) dca_qty,
                  po_margin_used := dadd (po_margin_used p) dca_margin,
                  po_liquidation_price := new_liq,
                  po_dca_count := po_dca_count p + 1\<rparr>,
                Inr \<lparr>dr_added_quantity = dca_qty, dr_added_margin = dca_margin,
                     dr_new_avg_entry = new_avg_entry, dr_dca_fee = dca_fee\<rparr>))
      | _ \<Rightarrow> (p, Inl TypeError))"

section \<open>Distance to liquidation\<close>

definition calc_distance :: "position_state \<Rightarrow> rat \<Rightarrow> rat" where
  "calc_distance p current_price =
     (if current_price \<le> 0 then 0
      else if po_direction p = LONG
           then f64 (ddiv (dsub current_price (po_liquidation_price p)) current_price)
           else f64 (ddiv (dsub (po_liquidation_price p) current_price) current_price))"

definition distance_to_action :: "rat \<Rightarrow> liq_action" where
  "distance_to_action distance =
     (if distance \<le> LIQ_DISTANCE_FULL then LiqFullClose
      else if distance \<le> LIQ_DISTANCE_PARTIAL then LiqPartialClose
      else if distance \<le> LIQ_DISTANCE_WARNING_MED then LiqWarning
      else if distance \<le> LIQ_DISTANCE_WARNING_HIGH then LiqWarning
      else LiqNone)"

definition check_liquidation_distance :: "position_state \<Rightarrow> rat \<Rightarrow> liquidation_check" where
  "check_liquidation_distance p current_price =
     (let distance = calc_distance p current_price
      in \<lparr>lc_position_id = po_id p, lc_distance_pct = distance,
          lc_action = distance_to_action distance, lc_current_price = current_price,
          lc_liquidation_price = po_liquidation_price p\<rparr>)"

section \<open>Stop and target\<close>

definition check_tp_sl :: "position_state \<Rightarrow> rat \<Rightarrow> exit_hit option" where
  "check_tp_sl p current_price =
     (if \<not> po_is_open p then None
      else if po_direction p = LONG
           then if po_take_profit p \<le> current_price then Some TpHit
                else if current_price \<le> po_stop_loss p then Some SlHit else None
           else if current_price \<le> po_take_profit p then Some TpHit
                else if po_stop_loss p \<le> current_price then Some SlHit else None)"

definition update_stop_loss :: "rat \<Rightarrow> string \<Rightarrow> (position_state, tpsl_update) act" where
  "update_stop_loss new_sl reason p =
     (if \<not> po_is_open p then (p, Inl AssertionError)
      else if po_direction p = LONG \<and> po_current_price p \<le> new_sl then (p, Inl ValueError)
      else if po_direction p = SHORT \<and> new_sl \<le> po_current_price p then (p, Inl ValueError)
      else (p\<lparr>po_stop_loss := new_sl\<rparr>,
            Inr \<lparr>tu_field_updated = FieldSl, tu_old_tp = None, tu_old_sl = Some (po_stop_loss p),
                 tu_new_tp = None, tu_new_sl = Some new_sl, tu_reason = reason\<rparr>))"

definition update_take_profit :: "rat \<Rightarrow> string \<Rightarrow> (position_state, tpsl_update) act" where
  "update_take_profit new_tp reason p =
     (if \<not> po_is_open p then (p, Inl AssertionError)
      else if po_direction p = LONG \<and> new_tp \<le> po_current_price p then (p, Inl ValueError)
      else if po_direction p = SHORT \<and> po_current_price p \<le> new_tp then (p, Inl ValueError)
      else (p\<lparr>po_take_profit := new_tp\<rparr>,
            Inr \<lparr>tu_field_updated = FieldTp, tu_old_tp = Some (po_take_profit p), tu_old_sl = None,
                 tu_new_tp = Some new_tp, tu_new_sl = None, tu_reason = reason\<rparr>))"

definition calc_breakeven :: "position_state \<Rightarrow> rat \<Rightarrow> rat" where
  "calc_breakeven p fee_rate =
     (if po_direction p = LONG then dmul (po_entry_price p) (dadd 1 (dmul 2 fee_rate))
      else dmul (po_entry_price p) (dsub 1 (dmul 2 fee_rate)))"

definition move_sl_to_breakeven ::
    "rat \<Rightarrow> rat \<Rightarrow> (position_state, tpsl_update option) act" where
  "move_sl_to_breakeven current_price fee_rate p =
     (if \<not> po_is_open p then (p, Inl AssertionError)
      else
        let breakeven = calc_breakeven p fee_rate;
            moved = (p\<lparr>po_stop_loss := breakeven, po_current_price := current_price\<rparr>,
                     Inr (Some \<lparr>tu_field_updated = FieldSl, tu_old_tp = None,
                                tu_old_sl = Some (po_stop_loss p), tu_new_tp = None,
                                tu_new_sl = Some breakeven, tu_reason = ''breakeven''\<rparr>))
        in if po_direction p = LONG
           then if current_price \<le> breakeven then (p, Inr None)
                else if breakeven \<le> po_stop_loss p then (p, Inr None)
                else if current_price \<le> breakeven then (p, Inr None)
                else moved
           else if breakeven \<le> current_price then (p, Inr None)
                else if po_stop_loss p \<le> breakeven then (p, Inr None)
                else if breakeven \<le> current_price then (p, Inr None)
                else moved)"

definition update_tp_and_sl ::
    "rat option \<Rightarrow> rat option \<Rightarrow> string \<Rightarrow> (position_state, tpsl_update) act" where
  "update_tp_and_sl new_tp new_sl reason p =
     (if \<not> po_is_open p then (p, Inl AssertionError)
      else
        let p1 = (case new_tp of None \<Rightarrow> p | Some tp \<Rightarrow> p\<lparr>po_take_profit := tp\<rparr>);
            p2 = (case new_sl of None \<Rightarrow> p1 | Some sl \<Rightarrow> p1\<lparr>po_stop_loss := sl\<rparr>);
            field = (if new_tp \<noteq> None \<and> new_sl \<noteq> None then FieldBoth
                     else if new_tp \<noteq> None then FieldTp else FieldSl)
        in (p2, Inr \<lparr>tu_field_updated = field, tu_old_tp = Some (po_take_profit p),
                     tu_old_sl = Some (po_stop_loss p), tu_new_tp = new_tp, tu_new_sl = new_sl,
                     tu_reason = reason\<rparr>))"

section \<open>Engine\<close>

text \<open>
  \<open>PositionManagerEngine\<close> passes its \<open>_fee_rate\<close> on; its tick writes the price, closes on a
  reached exit, and reports the distance to liquidation of a position that stays open.
\<close>

definition tick :: "int \<Rightarrow> rat \<Rightarrow> rat \<Rightarrow> (position_state, tick_result) act" where
  "tick now fee_rate current_price p =
     (let p1 = p\<lparr>po_current_price := current_price\<rparr>;
          status = check_tp_sl p1 current_price;
          report = (\<lambda>close_result p2.
            \<lparr>tk_position_id = po_id p2, tk_current_price = current_price,
             tk_tp_sl_status = status, tk_close_result = close_result,
             tk_liq_check =
               (if po_is_open p2 then check_liquidation_distance p2 current_price
                else \<lparr>lc_position_id = po_id p2, lc_distance_pct = 1, lc_action = LiqNone,
                      lc_current_price = current_price,
                      lc_liquidation_price = po_liquidation_price p2\<rparr>)\<rparr>)
      in case status of
           None \<Rightarrow> (p1, Inr (report None p1))
         | Some hit \<Rightarrow>
             (case close_position now current_price
                     (case hit of TpHit \<Rightarrow> ''tp_hit'' | SlHit \<Rightarrow> ''sl_hit'') fee_rate p1 of
                (p2, Inl e) \<Rightarrow> (p2, Inl e)
              | (p2, Inr r) \<Rightarrow> (p2, Inr (report (Some r) p2))))"

end
