(* ===== verification/PositionProps.thy ===== *)
theory PositionProps
  imports PositionManager
begin

text \<open>
  The life of a live position: the step relation of the manager's operations, what every step
  keeps, and the properties of closing, averaging and ticking.
\<close>

section \<open>Frames of the operations\<close>

text \<open>What a position keeps for ever once it is closed.\<close>

definition final_view :: "position_state \<Rightarrow> position_status \<times> int option \<times> string option \<times> rat \<times> rat \<times> rat \<times> rat" where
  "final_view p = (po_status p, po_closed_at p, po_close_reason p, po_realized_pnl p,
                   po_take_profit p, po_stop_loss p, po_original_quantity p)"

lemma close_closed [simp]: "\<not> po_is_open p \<Longrightarrow> close_position now c r fee p = (p, Inl AssertionError)"
  by (simp add: close_position_def)

lemma partial_closed [simp]: "\<not> po_is_open p \<Longrightarrow> partial_close c ratio fee p = (p, Inl AssertionError)"
  by (simp add: partial_close_def)

lemma updates_closed [simp]:
  "\<not> po_is_open p \<Longrightarrow> update_stop_loss x r p = (p, Inl AssertionError)"
  "\<not> po_is_open p \<Longrightarrow> update_take_profit x r p = (p, Inl AssertionError)"
  "\<not> po_is_open p \<Longrightarrow> move_sl_to_breakeven x fee p = (p, Inl AssertionError)"
  "\<not> po_is_open p \<Longrightarrow> update_tp_and_sl tp sl r p = (p, Inl AssertionError)"
  by (simp_all add: update_stop_loss_def update_take_profit_def move_sl_to_breakeven_def
      update_tp_and_sl_def)

lemma check_tp_sl_closed [simp]: "\<not> po_is_open p \<Longrightarrow> check_tp_sl p c = None"
  by (simp add: check_tp_sl_def)

lemma is_open_price [simp]: "po_is_open (p\<lparr>po_current_price := c\<rparr>) = po_is_open p"
  by (simp add: po_is_open_def)

lemma check_tp_sl_price [simp]: "check_tp_sl (p\<lparr>po_current_price := c'\<rparr>) c = check_tp_sl p c"
  by (simp add: check_tp_sl_def)

lemma tick_closed: "\<not> po_is_open p \<Longrightarrow> fst (tick now fee c p) = p\<lparr>po_current_price := c\<rparr>"
  by (simp add: tick_def Let_def)

lemma dca_frame:
  "final_view (fst (apply_dca e v fee p)) = final_view p"
  by (auto simp: apply_dca_def final_view_def split: option.splits sum.splits)

text \<open>A close either writes nothing or closes the position; a partial close leaves it open.\<close>

lemma close_position_cases:
  assumes "close_position now c reason fee p = (p', x)"
  obtains "p' = p" "\<exists>e. x = Inl e"
  | "po_is_open p" "po_status p' = Closed" "po_closed_at p' = Some now"
    "po_close_reason p' = Some reason" "po_quantity p' = po_quantity p"
    "po_dca_count p' = po_dca_count p" "po_current_price p' = c" "po_id p' = po_id p"
    "po_liquidation_price p' = po_liquidation_price p"
proof (cases "po_is_open p")
  case False
  then show thesis using assms that(1) by auto
next
  case True
  obtain g f n where pnl: "calc_pnl_q (po_direction p) (po_entry_price p) c (po_quantity p) fee = (g, f, n)"
    by (rule prod_cases3)
  show thesis
  proof (cases "quantize rhe 2 n")
    case (Inl e)
    then show thesis using assms True that(1) by (auto simp: close_position_def pnl)
  next
    case (Inr m)
    then show thesis using assms True that(2) by (auto simp: close_position_def pnl Let_def)
  qed
qed

lemma partial_close_InrD:
  assumes "partial_close c ratio fee p = (p', Inr r)"
  shows "po_is_open p" "0 < ratio" "ratio < 1"
    "quantize rdown 3 (dmul (po_quantity p) (repr10 ratio)) = Inr (cr_closed_quantity r)"
    "0 < cr_closed_quantity r" "po_status p' = PartiallyClosed" "cr_is_partial r"
    "po_quantity p' = dsub (po_quantity p) (cr_closed_quantity r)"
    "po_realized_pnl p' = dadd (po_realized_pnl p) (cr_net_pnl r)"
  using assms unfolding partial_close_def
  by (auto simp: Let_def close_report_def ebind_Inr_iff split: if_splits sum.splits prod.splits)

lemma partial_status:
  "partial_close c ratio fee p = (p', x) \<Longrightarrow> p' = p \<or> po_status p' = PartiallyClosed \<and> po_is_open p"
  unfolding partial_close_def
  by (auto simp: Let_def split: if_splits sum.splits prod.splits)

lemma partial_dca_count:
  "po_dca_count (fst (partial_close c ratio fee p)) = po_dca_count p"
  unfolding partial_close_def
  by (auto simp: Let_def split: if_splits sum.splits prod.splits)

lemma apply_dca_count:
  "po_dca_count (fst (apply_dca e v fee p)) \<in> {po_dca_count p, po_dca_count p + 1}"
  by (auto simp: apply_dca_def split: option.splits sum.splits)

lemma update_dca_count:
  "po_dca_count (fst (update_stop_loss x r p)) = po_dca_count p"
  "po_dca_count (fst (update_take_profit x r p)) = po_dca_count p"
  "po_dca_count (fst (move_sl_to_breakeven x fee p)) = po_dca_count p"
  "po_dca_count (fst (update_tp_and_sl tp sl r p)) = po_dca_count p"
  by (auto simp: update_stop_loss_def update_take_profit_def move_sl_to_breakeven_def
      update_tp_and_sl_def Let_def split: option.splits)

lemma check_dca_limit:
  "de_eligible (check_dca_eligibility p d e risk atr acc) \<Longrightarrow> po_dca_count p < MAX_DCA_COUNT"
  by (auto simp: check_dca_eligibility_def refuse_dca_def Let_def split: if_splits)

lemma tick_cases:
  assumes "tick now fee c p = (p', x)"
  obtains "check_tp_sl p c = None" "p' = p\<lparr>po_current_price := c\<rparr>"
  | hit reason y where "check_tp_sl p c = Some hit"
    "close_position now c reason fee (p\<lparr>po_current_price := c\<rparr>) = (p', y)"
proof (cases "check_tp_sl p c")
  case None
  then show thesis using assms that(1) by (auto simp: tick_def Let_def)
next
  case (Some hit)
  obtain p2 y where cp: "close_position now c (case hit of TpHit \<Rightarrow> ''tp_hit'' | SlHit \<Rightarrow> ''sl_hit'') fee
      (p\<lparr>po_current_price := c\<rparr>) = (p2, y)" by (rule prod.exhaust)
  then have "p2 = p'" using assms Some by (auto simp: tick_def Let_def split: sum.splits)
  then show thesis using that(2) [OF Some] cp by blast
qed

section \<open>Steps\<close>

text \<open>
  The manager's interface as a step relation: any operation, whether it returns or raises. The
  manager's \<open>dca\<close> checks nothing itself and asks its caller to call \<open>check_dca\<close> first;
  \<open>checked\<close> says whether the callers do, otherwise an average may come at any time.
\<close>

inductive pos_step :: "bool \<Rightarrow> rat \<Rightarrow> position_state \<Rightarrow> position_state \<Rightarrow> bool" for checked fee where
  Close: "close_position now c r fee p = (p', x) \<Longrightarrow> pos_step checked fee p p'"
| Partial: "partial_close c ratio fee p = (p', x) \<Longrightarrow> pos_step checked fee p p'"
| Average: "(checked \<Longrightarrow> de_eligible (check_dca_eligibility p d e risk atr acc)) \<Longrightarrow>
    apply_dca e v fee p = (p', y) \<Longrightarrow> pos_step checked fee p p'"
| MoveStop: "update_stop_loss new r p = (p', z) \<Longrightarrow> pos_step checked fee p p'"
| MoveTarget: "update_take_profit new r p = (p', z) \<Longrightarrow> pos_step checked fee p p'"
| MoveBoth: "update_tp_and_sl tp sl r p = (p', z) \<Longrightarrow> pos_step checked fee p p'"
| Breakeven: "move_sl_to_breakeven c fee p = (p', w) \<Longrightarrow> pos_step checked fee p p'"
| Tick: "tick now fee c p = (p', t) \<Longrightarrow> pos_step checked fee p p'"

inductive_cases pos_stepE: "pos_step checked fee p p'"

lemma step_closed:
  assumes "pos_step checked fee p p'" "\<not> po_is_open p"
  shows "final_view p' = final_view p"
  using assms
proof (induction rule: pos_step.induct)
  case (Average p d e risk atr acc v p' y)
  then show ?case using dca_frame [of e v fee p] by simp
next
  case (Tick now c p p' t)
  then show ?case using tick_closed [of p now fee c] by (simp add: final_view_def)
qed auto

lemma step_dca_count:
  assumes "pos_step checked fee p p'" "checked" "po_dca_count p \<le> MAX_DCA_COUNT"
  shows "po_dca_count p' \<le> MAX_DCA_COUNT"
  using assms
proof (induction rule: pos_step.induct)
  case (Close now c r p p' x)
  then show ?case by (auto elim: close_position_cases)
next
  case (Partial c ratio p p' x)
  then show ?case using partial_dca_count [of c ratio fee p] by simp
next
  case (Average p d e risk atr acc v p' y)
  then show ?case using check_dca_limit [OF Average(1) [OF Average(3)]] apply_dca_count [of e v fee p] by auto
next
  case (Tick now c p p' t)
  show ?case using Tick(1)
    by (rule tick_cases) (use Tick(3) in \<open>auto elim: close_position_cases\<close>)
next
  case (MoveStop new r p p' z)
  then show ?case using update_dca_count(1) [of new r p] by simp
next
  case (MoveTarget new r p p' z)
  then show ?case using update_dca_count(2) [of new r p] by simp
next
  case (MoveBoth tp sl r p p' z)
  then show ?case using update_dca_count(4) [of tp sl r p] by simp
next
  case (Breakeven c p p' w)
  then show ?case using update_dca_count(3) [of c fee p] by simp
qed

abbreviation pos_reach :: "bool \<Rightarrow> rat \<Rightarrow> position_state \<Rightarrow> position_state \<Rightarrow> bool" where
  "pos_reach checked fee \<equiv> (pos_step checked fee)\<^sup>*\<^sup>*"

lemma reach_closed:
  assumes "pos_reach checked fee p p'" "po_status p = Closed"
  shows "final_view p' = final_view p"
  using assms
proof (induction rule: rtranclp_induct)
  case (step q r)
  then have "\<not> po_is_open q" by (simp add: final_view_def po_is_open_iff)
  then show ?case using step step_closed [OF step(2)] by simp
qed simp

lemma reach_dca_count:
  "pos_reach True fee p p' \<Longrightarrow> po_dca_count p \<le> MAX_DCA_COUNT \<Longrightarrow> po_dca_count p' \<le> MAX_DCA_COUNT"
  by (induction rule: rtranclp_induct) (auto intro: step_dca_count)


lemma step_not_reopened:
  assumes "pos_step checked fee p p'" "po_status p \<noteq> Open"
  shows "po_status p' \<noteq> Open"
  using assms
proof (induction rule: pos_step.induct)
  case (Close now c r p p' x)
  then show ?case by (auto elim: close_position_cases)
next
  case (Partial c ratio p p' x)
  then show ?case using partial_status [of c ratio fee p p' x] by auto
next
  case (Average p d e risk atr acc v p' y)
  then show ?case using dca_frame [of e v fee p] by (simp add: final_view_def)
next
  case (Tick now c p p' t)
  show ?case using Tick(1)
    by (rule tick_cases) (use Tick(2) in \<open>auto elim: close_position_cases\<close>)
qed (auto simp: update_stop_loss_def update_take_profit_def move_sl_to_breakeven_def
      update_tp_and_sl_def Let_def split: if_splits option.splits)

lemma reach_not_reopened:
  "pos_reach checked fee p p' \<Longrightarrow> po_status p \<noteq> Open \<Longrightarrow> po_status p' \<noteq> Open"
  by (induction rule: rtranclp_induct) (use step_not_reopened in blast)+

section \<open>Exact partial closes\<close>

lemma pw_split: "e \<le> t \<Longrightarrow> pw 10 t = of_int (10 ^ nat (t - e)) * pw 10 e"
  using pw_add [of 10 "t - e" e] pw_nat [of "t - e" 10] by simp

lemma grid_partial:
  assumes q: "is_dec q" "0 < q" "q < 10 ^ 25" and r: "is_f64 r" "r < 1"
    and c: "quantize rdown 3 (dmul q (repr10 r)) = Inr c" "0 < c"
  shows "c < q" "dsub q c = q - c"
proof -
  let ?x = "dmul q (repr10 r)"
  have lt: "?x < q" using q(2) r by (rule dmul_ratio_less)
  define n where "n = rdown (?x * pw 10 3)"
  have c1: "c = of_int n * pw 10 (- 3)" using quantize_InrD [OF c(1)] by (simp add: n_def)
  have "0 < ?x"
  proof (rule ccontr)
    assume "\<not> 0 < ?x"
    then have "?x * pw 10 3 \<le> 0" by (simp add: mult_nonpos_nonneg)
    then have "n \<le> 0" unfolding n_def rdown_def by (simp add: ceiling_le_iff)
    then show False using c(2) unfolding c1 by (simp add: zero_less_mult_iff)
  qed
  then have "0 \<le> ?x * pw 10 3" by simp
  then have "of_int n \<le> ?x * pw 10 3" unfolding n_def rdown_def by simp
  then have "c \<le> ?x * pw 10 3 * pw 10 (- 3)" unfolding c1 by (intro mult_right_mono) auto
  then have "c \<le> ?x" by (simp add: mult.assoc flip: pw_add)
  then show cq: "c < q" using lt by linarith
  define t where "t = ilog 10 \<bar>q\<bar> - 27"
  obtain k where k: "q = of_int k * pw 10 t"
    using rnd_form [of 10 28 q] q(1,2) unfolding is_dec_def dec_def t_def by auto
  define e where "e = min t (- 3)"
  have "pw 10 t = of_int (10 ^ nat (t - e)) * pw 10 e" "pw 10 (- 3) = of_int (10 ^ nat (- 3 - e)) * pw 10 e"
    using pw_split [of e t] pw_split [of e "- 3"] by (simp_all only: e_def)
  then have qe: "q = of_int (k * 10 ^ nat (t - e)) * pw 10 e" and ce: "c = of_int (n * 10 ^ nat (- 3 - e)) * pw 10 e"
    unfolding c1 k [symmetric] using k by (simp_all add: mult.assoc)
  let ?d = "k * 10 ^ nat (t - e) - n * 10 ^ nat (- 3 - e)"
  have de: "q - c = of_int ?d * pw 10 e" by (subst qe, subst ce) (simp add: left_diff_distrib)
  have d0: "0 < ?d"
  proof -
    have "0 < of_int ?d * pw 10 e" using cq unfolding de [symmetric] by simp
    then show ?thesis using pw_pos [of 10 e] by (simp only: zero_less_mult_iff of_int_0_less_iff) auto
  qed
  have "q < pw 10 (e + 28)"
  proof (cases "t \<le> - 3")
    case True
    then show ?thesis using ilog_bounds(2) [of 10 q] q(2) by (simp add: e_def t_def min_def add.commute)
  next
    case False
    then show ?thesis using q(3) by (simp add: e_def pw_def)
  qed
  then have "of_int ?d * pw 10 e < pw 10 28 * pw 10 e"
    using c(2) unfolding de [symmetric] by (simp add: add.commute flip: pw_add)
  then have "of_int ?d < (of_int (10 ^ 28) :: rat)" using pw_pos [of 10 e] by (simp add: pw_def)
  then have "?d < 10 ^ 28" by (simp only: of_int_less_iff)
  then show "dsub q c = q - c" using d0 by (intro dsub_grid [OF qe ce]) simp
qed


section \<open>Averages\<close>

lemma average_lower:
  assumes q: "0 < q" "0 < d" and lo: "0 \<le> lo" "lo \<le> e1" "lo \<le> e2"
  shows "lo * (1 - 1 / 10 ^ 26) \<le> ddiv (dadd (dmul q e1) (dmul d e2)) (dadd q d)"
proof -
  let ?u = "5 / 10 ^ 28 :: rat"
  have p1: "q * lo * (1 - ?u) \<le> dmul q e1"
  proof -
    have "q * lo * (1 - ?u) \<le> q * e1 * (1 - ?u)" using q lo by (intro mult_right_mono mult_left_mono) auto
    also have "\<dots> \<le> dmul q e1" unfolding dmul_def using q lo by (intro dec_ge_err) simp
    finally show ?thesis .
  qed
  have p2: "d * lo * (1 - ?u) \<le> dmul d e2"
  proof -
    have "d * lo * (1 - ?u) \<le> d * e2 * (1 - ?u)" using q lo by (intro mult_right_mono mult_left_mono) auto
    also have "\<dots> \<le> dmul d e2" unfolding dmul_def using q lo by (intro dec_ge_err) simp
    finally show ?thesis .
  qed
  define S where "S = dadd (dmul q e1) (dmul d e2)"
  define T where "T = dadd q d"
  have nn: "0 \<le> dmul q e1" "0 \<le> dmul d e2" using q lo by (simp_all add: dmul_def)
  have "(q + d) * lo * (1 - ?u) * (1 - ?u) \<le> (dmul q e1 + dmul d e2) * (1 - ?u)"
    using p1 p2 by (intro mult_right_mono) (simp_all add: distrib_right)
  also have "\<dots> \<le> S" unfolding S_def dadd_def using nn by (intro dec_ge_err) simp
  finally have S: "(q + d) * lo * ((1 - ?u) * (1 - ?u)) \<le> S" by (simp only: mult.assoc)
  have T: "0 < T" "T \<le> (q + d) * (1 + ?u)"
    unfolding T_def dadd_def using q dec_le_err [of "q + d"] by simp_all
  have c: "(1 - 4 * ?u) * (1 + ?u) \<le> (1 - ?u) * (1 - ?u)" by simp
  have "lo * (1 - 4 * ?u) * T \<le> lo * (1 - 4 * ?u) * ((q + d) * (1 + ?u))"
    using T lo by (intro mult_left_mono) auto
  also have "\<dots> = (q + d) * lo * ((1 - 4 * ?u) * (1 + ?u))" by (simp only: mult.assoc mult.left_commute mult.commute)
  also have "\<dots> \<le> (q + d) * lo * ((1 - ?u) * (1 - ?u))" using c q lo by (intro mult_left_mono) auto
  finally have "lo * (1 - 4 * ?u) * T \<le> S" using S by linarith
  then have v: "lo * (1 - 4 * ?u) \<le> S / T" using T(1) by (simp add: pos_le_divide_eq)
  have S0: "0 \<le> S" unfolding S_def dadd_def using nn by simp
  have "lo * (1 - 1 / 10 ^ 26) \<le> lo * ((1 - 4 * ?u) * (1 - ?u))" using lo by (intro mult_left_mono) auto
  also have "\<dots> \<le> S / T * (1 - ?u)" unfolding mult.assoc [symmetric] using v by (intro mult_right_mono) auto
  also have "\<dots> \<le> ddiv S T" unfolding ddiv_def using S0 T(1) by (intro dec_ge_err) simp
  finally show ?thesis unfolding S_def T_def .
qed


lemma average_upper:
  assumes q: "0 < q" "0 < d" and hi: "0 \<le> e1" "0 \<le> e2" "e1 \<le> hi" "e2 \<le> hi"
  shows "ddiv (dadd (dmul q e1) (dmul d e2)) (dadd q d) \<le> hi * (1 + 1 / 10 ^ 26)"
proof -
  let ?u = "5 / 10 ^ 28 :: rat"
  have P: "dmul x y \<le> x * hi * (1 + ?u)" if "0 < x" "0 \<le> y" "y \<le> hi" for x y
  proof -
    have "dmul x y \<le> x * y * (1 + ?u)" unfolding dmul_def using that by (intro dec_le_err) simp
    also have "\<dots> \<le> x * hi * (1 + ?u)" using that by (intro mult_right_mono mult_left_mono) auto
    finally show ?thesis .
  qed
  define S where "S = dadd (dmul q e1) (dmul d e2)"
  define T where "T = dadd q d"
  have h: "0 \<le> hi" using hi by linarith
  have nn: "0 \<le> dmul q e1" "0 \<le> dmul d e2" using q hi by (simp_all add: dmul_def)
  have "S \<le> (dmul q e1 + dmul d e2) * (1 + ?u)" unfolding S_def dadd_def using nn by (intro dec_le_err) simp
  also have "\<dots> \<le> (q + d) * hi * (1 + ?u) * (1 + ?u)"
    using P [of q e1] P [of d e2] q hi by (intro mult_right_mono) (simp_all add: distrib_right)
  finally have S: "S \<le> (q + d) * hi * ((1 + ?u) * (1 + ?u))" by (simp only: mult.assoc)
  have T: "0 < T" "(q + d) * (1 - ?u) \<le> T"
    unfolding T_def dadd_def using q dec_ge_err [of "q + d"] by simp_all
  have "(q + d) * hi * ((1 + ?u) * (1 + ?u)) \<le> (q + d) * hi * ((1 + 4 * ?u) * (1 - ?u))"
    using q h by (intro mult_left_mono) auto
  also have "\<dots> = hi * (1 + 4 * ?u) * ((q + d) * (1 - ?u))" by (simp only: mult.assoc mult.left_commute mult.commute)
  also have "\<dots> \<le> hi * (1 + 4 * ?u) * T" using T h by (intro mult_left_mono) auto
  finally have "S \<le> hi * (1 + 4 * ?u) * T" by (rule order_trans [OF S])
  then have v: "S / T \<le> hi * (1 + 4 * ?u)" by (simp only: pos_divide_le_eq [OF T(1)])
  have S0: "0 \<le> S" unfolding S_def dadd_def using nn by simp
  have "ddiv S T \<le> S / T * (1 + ?u)" unfolding ddiv_def using S0 T(1) by (intro dec_le_err) simp
  also have "\<dots> \<le> hi * (1 + 4 * ?u) * (1 + ?u)" using v by (intro mult_right_mono) auto
  also have "\<dots> \<le> hi * (1 + 1 / 10 ^ 26)" unfolding mult.assoc using h by (intro mult_left_mono) auto
  finally show ?thesis unfolding S_def T_def .
qed

text \<open>Rounded to cents, an average of two prices on the cent grid is between them.\<close>

lemma rhe_between: "of_int m - 1 / 2 < x \<Longrightarrow> x < of_int n + 1 / 2 \<Longrightarrow> m \<le> rhe x \<and> rhe x \<le> n"
  using rhe_err [of x] unfolding abs_le_iff by linarith

lemma average_between:
  assumes q: "0 < q" "0 < d"
    and e: "of_int m * pw 10 (- 2) \<le> e1" "of_int m * pw 10 (- 2) \<le> e2"
      "e1 \<le> of_int n * pw 10 (- 2)" "e2 \<le> of_int n * pw 10 (- 2)" "0 \<le> m" "n \<le> 10 ^ 24"
    and r: "recalculate_avg_entry q e1 d e2 = Inr v"
  shows "of_int m * pw 10 (- 2) \<le> v" "v \<le> of_int n * pw 10 (- 2)"
proof -
  let ?a = "ddiv (dadd (dmul q e1) (dmul d e2)) (dadd q d)"
  have T: "dadd q d \<noteq> 0" using q by (simp add: dadd_def)
  then have v: "v = of_int (rhe (?a * pw 10 2)) * pw 10 (- 2)"
    using r quantize_InrD [of rhe 2 ?a v] by (simp add: recalculate_avg_entry_def Let_def ddivE_def)
  have p: "pw 10 (- 2) = 1 / 100" "pw 10 2 = 100" by (simp_all add: pw_def)
  have "0 \<le> of_int m * pw 10 (- 2)" using e(5) by simp
  then have z: "0 \<le> e1" "0 \<le> e2" using e(1,2) by linarith+
  have "of_int m * pw 10 (- 2) * (1 - 1 / 10 ^ 26) \<le> ?a"
    using q e by (intro average_lower) (simp_all add: p)
  then have l: "of_int m - of_int m / 10 ^ 26 \<le> ?a * pw 10 2" by (simp add: p field_simps)
  have "?a \<le> of_int n * pw 10 (- 2) * (1 + 1 / 10 ^ 26)"
    using q e z by (intro average_upper) simp_all
  then have h: "?a * pw 10 2 \<le> of_int n + of_int n / 10 ^ 26" by (simp add: p field_simps)
  have mn: "of_int m \<le> (of_int n :: rat)" using e(1,3) by (simp add: p)
  have n: "of_int n \<le> (10 ^ 24 :: rat)" using e(6) by (metis of_int_le_iff of_int_numeral of_int_power)
  have "m \<le> rhe (?a * pw 10 2) \<and> rhe (?a * pw 10 2) \<le> n"
    using l h mn n by (intro rhe_between) simp_all
  then show "of_int m * pw 10 (- 2) \<le> v" "v \<le> of_int n * pw 10 (- 2)"
    unfolding v by (simp_all add: p)
qed


section \<open>Ticks and breakeven\<close>

text \<open>At or beyond the liquidation price the distance is not positive, so the alarm is the highest.\<close>

definition liq_reached :: "position_state \<Rightarrow> rat \<Rightarrow> bool" where
  "liq_reached p c \<longleftrightarrow>
     (if po_direction p = LONG then c \<le> po_liquidation_price p else po_liquidation_price p \<le> c)"

lemma liq_reached_full:
  assumes "liq_reached p c"
  shows "lc_action (check_liquidation_distance p c) = LiqFullClose"
proof -
  have D: "f64 (ddiv (dsub x y) c) \<le> 0" if "x \<le> y" "0 < c" for x y
    using that by (simp add: ddiv_def dsub_def divide_nonpos_pos)
  have "calc_distance p c \<le> 0"
    using assms D by (auto simp: calc_distance_def liq_reached_def not_le)
  then show ?thesis using liq_thresholds(1)
    by (simp add: check_liquidation_distance_def distance_to_action_def Let_def)
qed

lemma tick_InrD:
  assumes "tick now fee c p = (p', Inr t)"
  shows "tk_tp_sl_status t = check_tp_sl p c"
    "check_tp_sl p c = None \<Longrightarrow> p' = p\<lparr>po_current_price := c\<rparr> \<and> tk_close_result t = None \<and>
       tk_liq_check t = (if po_is_open p' then check_liquidation_distance p' c else tk_liq_check t)"
    "check_tp_sl p c \<noteq> None \<Longrightarrow> po_status p' = Closed \<and> tk_close_result t \<noteq> None \<and>
       po_closed_at p' = Some now \<and> po_current_price p' = c \<and> lc_action (tk_liq_check t) = LiqNone"
  using assms
  by (auto simp: tick_def Let_def po_is_open_iff elim!: close_position_cases
      split: option.splits prod.splits sum.splits)

lemma breakeven_moved:
  assumes "move_sl_to_breakeven c fee p = (p', Inr (Some u))"
  shows "po_is_open p" "p' = p\<lparr>po_stop_loss := calc_breakeven p fee, po_current_price := c\<rparr>"
    "po_direction p = LONG \<Longrightarrow> po_stop_loss p < calc_breakeven p fee \<and> calc_breakeven p fee < c"
    "po_direction p \<noteq> LONG \<Longrightarrow> calc_breakeven p fee < po_stop_loss p \<and> c < calc_breakeven p fee"
  using assms by (auto simp: move_sl_to_breakeven_def Let_def split: if_splits)

text \<open>The breakeven price is on the profitable side of the entry.\<close>

lemma breakeven_side:
  assumes "is_dec (po_entry_price p)" "0 \<le> po_entry_price p" "0 \<le> fee"
  shows "po_direction p = LONG \<Longrightarrow> po_entry_price p \<le> calc_breakeven p fee"
    "po_direction p \<noteq> LONG \<Longrightarrow> calc_breakeven p fee \<le> po_entry_price p"
proof -
  have f: "0 \<le> dmul 2 fee" using assms(3) by (simp add: dmul_def)
  have "is_dec 1" by (simp add: is_dec_def)
  then have g: "1 \<le> dadd 1 (dmul 2 fee)" "dsub 1 (dmul 2 fee) \<le> 1"
    using f unfolding dadd_def dsub_def by (auto intro: le_dec_of_le dec_le_of_le)
  show "po_entry_price p \<le> calc_breakeven p fee" if "po_direction p = LONG"
    using that assms g(1) unfolding calc_breakeven_def dmul_def
    by (auto intro!: le_dec_of_le simp: mult_le_cancel_left1)
  show "calc_breakeven p fee \<le> po_entry_price p" if "po_direction p \<noteq> LONG"
    using that assms g(2) unfolding calc_breakeven_def dmul_def
    by (auto intro!: dec_le_of_le simp: mult_left_le)
qed

section \<open>Properties\<close>

definition sample_position :: position_state where
  "sample_position =
     \<lparr>po_id = ''p1'', po_user_id = ''u1'', po_coin = ''BTC'', po_symbol = ''BTCUSDT'',
      po_direction = LONG, po_status = Open, po_entry_price = 100, po_take_profit = 120,
      po_stop_loss = 90, po_liquidation_price = 80.4, po_current_price = 100, po_quantity = 2,
      po_original_quantity = 2, po_leverage = 5, po_margin_used = 40, po_original_margin = 40,
      po_original_risk_usdt = 20, po_realized_pnl = 0, po_dca_count = 0, po_opened_at = 0,
      po_closed_at = None, po_close_reason = None\<rparr>"

definition sample_stats :: account_stats where
  "sample_stats = \<lparr>as_daily_loss_usdt = 0, as_daily_loss_limit_usdt = 100,
     as_weekly_loss_usdt = 0, as_weekly_loss_limit_usdt = 500, as_consecutive_losses = 0,
     as_in_cooldown = False\<rparr>"

lemma sample_fields:
  "po_direction sample_position = LONG" "po_take_profit sample_position = 120"
  "po_stop_loss sample_position = 90" "po_liquidation_price sample_position = 80.4"
  "po_entry_price sample_position = 100" "po_quantity sample_position = 2"
  "po_dca_count sample_position = 0" "po_is_open sample_position"
  "po_is_open (sample_position\<lparr>po_stop_loss := 70\<rparr>)"
  by (simp_all add: sample_position_def po_is_open_def)



text \<open>
  A partial close that returns takes a positive quantity on the lot grid, strictly less
  than the position holds, and leaves exactly the difference open; it books the reported net
  result and keeps the position open.
\<close>

theorem position_partial_close_exact:
  assumes "partial_close c ratio fee p = (p', Inr r)"
    and "is_dec (po_quantity p)" "0 < po_quantity p" "po_quantity p < 10 ^ 25" "is_f64 ratio"
  shows "0 < cr_closed_quantity r \<and> 0 < po_quantity p' \<and>
    po_quantity p' + cr_closed_quantity r = po_quantity p \<and>
    po_realized_pnl p' = dadd (po_realized_pnl p) (cr_net_pnl r) \<and> po_is_open p'"
proof -
  note D = partial_close_InrD [OF assms(1)]
  have "cr_closed_quantity r < po_quantity p"
    "dsub (po_quantity p) (cr_closed_quantity r) = po_quantity p - cr_closed_quantity r"
    using grid_partial [OF assms(2-5) D(3,4,5)] by auto
  then show ?thesis using D by (simp add: po_is_open_iff)
qed

theorem position_partial_close_exact_witness:
  "\<exists>p' r. partial_close 110 (1 / 2) TAKER_FEE_RATE sample_position = (p', Inr r) \<and>
     po_quantity p' + cr_closed_quantity r = 2"
proof -
  have h: "repr10 (1 / 2) = 1 / 2" "is_f64 (1 / 2)" by code_simp+
  have "isl (snd (partial_close 110 (1 / 2) TAKER_FEE_RATE sample_position)) = False" by code_simp
  then obtain p' r where e: "partial_close 110 (1 / 2) TAKER_FEE_RATE sample_position = (p', Inr r)"
    by (metis prod.collapse sum.collapse(2))
  have "is_dec 2" by (simp add: is_dec_def dec_numeral)
  then show ?thesis
    using e position_partial_close_exact [OF e] h(2) by (simp add: sample_position_def)
qed


text \<open>
  C15. A tick decides an open position: it is closed exactly when the price reached its target
  or its stop, it keeps everything but its price otherwise, and a price at or beyond the
  liquidation price never passes unnoticed: the position is closed or the highest alarm is
  raised.
\<close>

theorem position_tick_decides:
  assumes "po_is_open p" "tick now fee c p = (p', Inr t)"
  shows "(po_status p' = Closed \<longleftrightarrow>
      (if po_direction p = LONG then po_take_profit p \<le> c \<or> c \<le> po_stop_loss p
       else c \<le> po_take_profit p \<or> po_stop_loss p \<le> c)) \<and>
    (po_status p' \<noteq> Closed \<longrightarrow> p' = p\<lparr>po_current_price := c\<rparr>) \<and>
    (tk_close_result t \<noteq> None \<longleftrightarrow> po_status p' = Closed) \<and>
    (liq_reached p c \<longrightarrow> po_status p' = Closed \<or> lc_action (tk_liq_check t) = LiqFullClose)"
proof (cases "check_tp_sl p c")
  case None
  then have c: "\<not> (if po_direction p = LONG then po_take_profit p \<le> c \<or> c \<le> po_stop_loss p
       else c \<le> po_take_profit p \<or> po_stop_loss p \<le> c)"
    using assms(1) by (auto simp: check_tp_sl_def split: if_splits)
  note D = tick_InrD(2) [OF assms(2) None]
  have o: "po_is_open p'" using D assms(1) by simp
  have "liq_reached p' c = liq_reached p c" using D by (simp add: liq_reached_def)
  moreover have "liq_reached p' c \<longrightarrow> lc_action (tk_liq_check t) = LiqFullClose"
    using D o liq_reached_full [of p' c] by simp
  ultimately show ?thesis using c D o by (simp add: po_is_open_iff)
next
  case (Some hit)
  then have "if po_direction p = LONG then po_take_profit p \<le> c \<or> c \<le> po_stop_loss p
       else c \<le> po_take_profit p \<or> po_stop_loss p \<le> c"
    by (auto simp: check_tp_sl_def split: if_splits)
  moreover have "check_tp_sl p c \<noteq> None" using Some by simp
  ultimately show ?thesis using tick_InrD(3) [OF assms(2)] by simp
qed

theorem position_tick_decides_witness:
  "po_status (fst (tick 5 TAKER_FEE_RATE 89 sample_position)) = Closed \<and>
   lc_action (tk_liq_check (projr (snd (tick 5 TAKER_FEE_RATE 80
     (sample_position\<lparr>po_stop_loss := 70\<rparr>))))) = LiqFullClose"
proof -
  let ?q = "sample_position\<lparr>po_stop_loss := 70\<rparr>"
  have r: "\<not> isl (snd (tick 5 TAKER_FEE_RATE 89 sample_position))"
    "\<not> isl (snd (tick 5 TAKER_FEE_RATE 80 ?q))" by code_simp+
  then have e: "tick 5 TAKER_FEE_RATE 89 sample_position =
      (fst (tick 5 TAKER_FEE_RATE 89 sample_position), Inr (projr (snd (tick 5 TAKER_FEE_RATE 89 sample_position))))"
    "tick 5 TAKER_FEE_RATE 80 ?q =
      (fst (tick 5 TAKER_FEE_RATE 80 ?q), Inr (projr (snd (tick 5 TAKER_FEE_RATE 80 ?q))))"
    by (simp_all add: prod_eq_iff)
  show ?thesis
    using position_tick_decides [OF sample_fields(8) e(1)] position_tick_decides [OF sample_fields(9) e(2)]
    by (auto simp: sample_fields liq_reached_def)
qed

text \<open>
  An average the check admits stays within the rule book: it is the second one at most,
  the price has moved by the required ATR, the estimated total risk is within twice the
  original, and the new entry, rounded to cents, is between the two entry prices.
\<close>

theorem position_average_bounded:
  assumes "de_eligible (check_dca_eligibility p d price risk atr acc)"
    and "apply_dca price v fee p = (p', Inr r)"
    and "0 < po_quantity p" "0 < dr_added_quantity r"
    and "of_int m * pw 10 (- 2) \<le> min (po_entry_price p) price"
      "max (po_entry_price p) price \<le> of_int n * pw 10 (- 2)" "0 \<le> m" "n \<le> 10 ^ 24"
  shows "po_dca_count p' = po_dca_count p + 1 \<and> po_dca_count p' \<le> MAX_DCA_COUNT \<and>
    po_direction p = d \<and> \<not> as_in_cooldown acc \<and>
    dmul atr DCA_MIN_PRICE_MOVE_ATR \<le> dabs (dsub price (po_entry_price p)) \<and>
    dadd (estimate_position_risk p) risk \<le> dmul (po_original_risk_usdt p) DCA_RISK_MULTIPLIER \<and>
    of_int m * pw 10 (- 2) \<le> po_entry_price p' \<and> po_entry_price p' \<le> of_int n * pw 10 (- 2)"
proof -
  have A: "po_dca_count p' = po_dca_count p + 1 \<and> po_entry_price p' = dr_new_avg_entry r \<and>
      recalculate_avg_entry (po_quantity p) (po_entry_price p) (dr_added_quantity r) price
        = Inr (po_entry_price p')"
    using assms(2) by (auto simp: apply_dca_def ebind_Inr_iff split: option.splits sum.splits if_splits)
  have C: "po_dca_count p < MAX_DCA_COUNT \<and> po_direction p = d \<and> \<not> as_in_cooldown acc \<and>
    dmul atr DCA_MIN_PRICE_MOVE_ATR \<le> dabs (dsub price (po_entry_price p)) \<and>
    dadd (estimate_position_risk p) risk \<le> dmul (po_original_risk_usdt p) DCA_RISK_MULTIPLIER"
    using assms(1) by (auto simp: check_dca_eligibility_def refuse_dca_def Let_def split: if_splits)
  have "of_int m * pw 10 (- 2) \<le> po_entry_price p'" "po_entry_price p' \<le> of_int n * pw 10 (- 2)"
    using average_between [where q = "po_quantity p" and d = "dr_added_quantity r"
        and ?e1.0 = "po_entry_price p" and ?e2.0 = price and m = m and n = n and v = "po_entry_price p'"]
      A assms(3-8) by auto
  then show ?thesis using A C by simp
qed

definition sample_dca :: validation_result where
  "sample_dca = (vr_default True)\<lparr>vr_quantity := Some 2, vr_margin_required_usdt := Some 40\<rparr>"

lemma sample_average:
  "\<exists>p' r. apply_dca 98 sample_dca TAKER_FEE_RATE sample_position = (p', Inr r) \<and>
     dr_added_quantity r = 2"
  by (simp add: apply_dca_def sample_dca_def vr_default_def sample_position_def
      recalculate_avg_entry_def ddivE_def dec_eval TAKER_FEE_RATE_def MAINTENANCE_MARGIN_RATE_def
      quantize_def rhe_def pw_def Let_def calc_liquidation_price_def)

lemma sample_eligible:
  "de_eligible (check_dca_eligibility sample_position LONG 98 10 1 sample_stats)"
  by (simp add: check_dca_eligibility_def sample_position_def sample_stats_def Let_def dec_eval
      pyconst dabs_def estimate_position_risk_def po_drawdown_pct_def po_unrealized_pnl_def
      DCA_DRAWDOWN_MAX_PCT_def po_is_open_def)

theorem position_average_bounded_witness:
  "\<exists>p'. fst (apply_dca 98 sample_dca TAKER_FEE_RATE sample_position) = p' \<and>
     98 \<le> po_entry_price p' \<and> po_entry_price p' \<le> 100 \<and> po_dca_count p' = 1"
proof -
  obtain p' r where e: "apply_dca 98 sample_dca TAKER_FEE_RATE sample_position = (p', Inr r)"
    "dr_added_quantity r = 2" using sample_average by blast
  have p: "pw 10 (- 2) = 1 / 100" by (simp add: pw_def)
  show ?thesis
    using position_average_bounded [OF sample_eligible e(1), of 9800 10000] e(2)
    by (simp add: e(1) sample_fields p)
qed

text \<open>
  Moving the stop to breakeven never loosens it and never fires it: a stop that is moved
  ends up strictly tighter than before, on the profitable side of the entry and strictly behind
  the price, so that a check of the exits at that price does not report the stop.
\<close>

theorem position_breakeven_tightens:
  assumes "move_sl_to_breakeven c fee p = (p', Inr (Some u))"
    and "is_dec (po_entry_price p)" "0 \<le> po_entry_price p" "0 \<le> fee"
  shows "(if po_direction p = LONG
      then po_stop_loss p < po_stop_loss p' \<and> po_entry_price p \<le> po_stop_loss p' \<and> po_stop_loss p' < c
      else po_stop_loss p' < po_stop_loss p \<and> po_stop_loss p' \<le> po_entry_price p \<and> c < po_stop_loss p') \<and>
    check_tp_sl p' c \<noteq> Some SlHit \<and> po_take_profit p' = po_take_profit p"
proof -
  note M = breakeven_moved [OF assms(1)]
  show ?thesis using M(1,3,4) breakeven_side [OF assms(2-4)] unfolding M(2)
    by (auto simp: check_tp_sl_def split: if_splits)
qed

theorem position_breakeven_tightens_witness:
  "100 \<le> po_stop_loss (fst (move_sl_to_breakeven 105 TAKER_FEE_RATE sample_position))"
proof -
  let ?a = "move_sl_to_breakeven 105 TAKER_FEE_RATE sample_position"
  have r: "\<not> isl (snd ?a) \<and> projr (snd ?a) \<noteq> None" by code_simp
  then have e: "?a = (fst ?a, Inr (Some (the (projr (snd ?a)))))" by (simp add: prod_eq_iff)
  have "is_dec 100" by (simp add: is_dec_def dec_numeral)
  then show ?thesis using position_breakeven_tightens [OF e]
    by (simp add: sample_fields TAKER_FEE_RATE_def)
qed

end
