(* ===== verification/FinalDecision.thy ===== *)
theory FinalDecision
  imports RiskEngine
begin

text \<open>
  \<open>agents/decision/final_decision.py\<close>: the last decision of the pipeline, which joins the
  candidate, the AI review and the risk verdict. A text of the decision is a constructor; the
  texts a risk verdict or a review supplies are not modelled. The risk argument is a
  \<open>RiskCheckResult\<close> or a \<open>ValidationResult\<close>: the code asks for \<open>passed\<close>, then for \<open>approved\<close>.
\<close>

datatype risk_arg = RiskCheck risk_check_result | RiskValidation validation_result

datatype decision_reason =
    NoCandidate | CandidateHold | UnknownStrategy | NoRiskResult | RiskRefused | NoReview
  | ReviewRejected | CriticalContradiction | LowReviewConfidence rat rat
  | LowNetProfit "rat option" rat | Accepted rat

record final_decision =
  fd_action :: direction
  fd_reason :: decision_reason
  fd_candidate :: "trade_candidate option"
  fd_ai_review :: "ai_review_result option"
  fd_risk_result :: "risk_arg option"

definition fd_hold ::
    "decision_reason \<Rightarrow> trade_candidate option \<Rightarrow> ai_review_result option \<Rightarrow> risk_arg option
       \<Rightarrow> final_decision" where
  "fd_hold reason candidate ai_review risk_result =
     \<lparr>fd_action = HOLD, fd_reason = reason, fd_candidate = candidate, fd_ai_review = ai_review,
      fd_risk_result = risk_result\<rparr>"

definition risk_passed :: "risk_arg \<Rightarrow> bool" where
  "risk_passed r = (case r of RiskCheck k \<Rightarrow> rk_passed k | RiskValidation v \<Rightarrow> vr_approved v)"

definition cf_direct :: "config option \<Rightarrow> string \<Rightarrow> cval option" where
  "cf_direct c key = (case c of None \<Rightarrow> None | Some c \<Rightarrow> cf_top c key)"

definition cf_nested :: "config option \<Rightarrow> string \<Rightarrow> cval option" where
  "cf_nested c key = (case c of None \<Rightarrow> None
     | Some c \<Rightarrow> (case cf_decision c of None \<Rightarrow> None | Some d \<Rightarrow> d key))"

definition min_expected_profit :: "trade_candidate \<Rightarrow> config option \<Rightarrow> rat result" where
  "min_expected_profit candidate config =
     (case cf_direct config ''min_expected_net_profit'' of
        Some explicit \<Rightarrow> c_decimal explicit
      | None \<Rightarrow> (case cf_nested config ''min_expected_net_profit'' of
          Some explicit \<Rightarrow> c_decimal explicit
        | None \<Rightarrow> ebind (c_decimal (cfg config ''min_expected_net_profit_pct''
                                   (CFloat MIN_EXPECTED_NET_PROFIT_PCT)))
                    (\<lambda>pct. Inr (dmul (tc_notional_size candidate) pct))))"

text \<open>The part of the decision after the review was found to exist.\<close>

definition decide_reviewed ::
    "trade_candidate \<Rightarrow> ai_review_result \<Rightarrow> risk_arg \<Rightarrow> config option \<Rightarrow> final_decision result" where
  "decide_reviewed c review risk config =
     (let hold = (\<lambda>r. fd_hold r (Some c) (Some review) (Some risk))
      in if ar_review_action review = REJECT then Inr (hold ReviewRejected)
         else if ar_critical_contradiction review \<and>
                 c_bool (cfg config ''reject_on_critical_contradiction''
                           (CBool REJECT_ON_CRITICAL_CONTRADICTION))
              then Inr (hold CriticalContradiction)
         else
           ebind (c_float (cfg config ''min_ai_review_confidence'' (CFloat MIN_AI_REVIEW_CONFIDENCE)))
             (\<lambda>min_confidence.
           if ar_confidence review < min_confidence
           then Inr (hold (LowReviewConfidence (ar_confidence review) min_confidence))
           else
             ebind (min_expected_profit c config) (\<lambda>min_profit.
             (case tc_expected_net_profit c of
                None \<Rightarrow> Inr (hold (LowNetProfit None min_profit))
              | Some profit \<Rightarrow>
                  if profit \<le> min_profit then Inr (hold (LowNetProfit (Some profit) min_profit))
                  else Inr \<lparr>fd_action = tc_action c, fd_reason = Accepted (ar_confidence review),
                            fd_candidate = Some c, fd_ai_review = Some review,
                            fd_risk_result = Some risk\<rparr>))))"

definition decide_final_action ::
    "trade_candidate option \<Rightarrow> ai_review_result option \<Rightarrow> risk_arg option \<Rightarrow> config option
       \<Rightarrow> final_decision result" where
  "decide_final_action candidate ai_review risk_result config =
     (case candidate of
        None \<Rightarrow> Inr (fd_hold NoCandidate None ai_review risk_result)
      | Some c \<Rightarrow>
          if tc_action c = HOLD then Inr (fd_hold CandidateHold (Some c) ai_review risk_result)
          else if tc_strategy_type c = UNKNOWN_STRATEGY
               then Inr (fd_hold UnknownStrategy (Some c) ai_review risk_result)
          else (case risk_result of
              None \<Rightarrow> Inr (fd_hold NoRiskResult (Some c) ai_review None)
            | Some risk \<Rightarrow>
                if \<not> risk_passed risk
                then Inr (fd_hold RiskRefused (Some c) ai_review risk_result)
                else (case ai_review of
                    None \<Rightarrow> Inr (fd_hold NoReview (Some c) None risk_result)
                  | Some review \<Rightarrow> decide_reviewed c review risk config)))"

text \<open>What a decision to trade rests on.\<close>

lemma decide_reviewed_trades:
  assumes "decide_reviewed c review risk config = Inr d" "fd_action d \<noteq> HOLD"
  shows "fd_action d = tc_action c" "fd_candidate d = Some c" "fd_ai_review d = Some review"
    "fd_risk_result d = Some risk" "ar_review_action review \<noteq> REJECT"
    "\<exists>m p profit. c_float (cfg config ''min_ai_review_confidence'' (CFloat MIN_AI_REVIEW_CONFIDENCE)) = Inr m \<and>
       m \<le> ar_confidence review \<and> min_expected_profit c config = Inr p \<and>
       tc_expected_net_profit c = Some profit \<and> p < profit"
    "ar_critical_contradiction review \<longrightarrow>
       \<not> c_bool (cfg config ''reject_on_critical_contradiction'' (CBool REJECT_ON_CRITICAL_CONTRADICTION))"
  using assms unfolding decide_reviewed_def Let_def
  by (auto simp: ebind_Inr_iff fd_hold_def not_less not_le split: if_splits option.splits)

lemma decide_final_trades:
  assumes "decide_final_action candidate ai_review risk_result config = Inr d" "fd_action d \<noteq> HOLD"
  obtains c review risk where "candidate = Some c" "ai_review = Some review" "risk_result = Some risk"
    "tc_action c \<noteq> HOLD" "tc_strategy_type c \<noteq> UNKNOWN_STRATEGY" "risk_passed risk"
    "decide_reviewed c review risk config = Inr d"
  using assms unfolding decide_final_action_def
  by (auto simp: fd_hold_def split: if_splits option.splits)

end
