(* ===== verification/Execution.thy ===== *)
theory Execution
  imports FinalDecision SafetyGate
begin

text \<open>
  \<open>agents/execution/{models,gateway,engine}.py\<close>: order tickets, the paper gateway and the engine
  that turns an approved decision into orders. The risk validator, the order gateway and the
  safety gate are arguments of the engine, as in the code, where they are protocols: actions on
  one shared state. Log lines are dropped; a rejection text is a constructor.
\<close>

section \<open>Orders\<close>

datatype order_side = BUY | SELL
datatype order_type = MARKET | TAKE_PROFIT_MARKET | STOP_MARKET
datatype order_purpose = EntryOrder | TakeProfitOrder | StopLossOrder | EmergencyOrder

record order_ticket =
  ot_symbol :: string
  ot_side :: order_side
  ot_order_type :: order_type
  ot_quantity :: rat
  ot_price :: rat
  ot_reduce_only :: bool
  ot_purpose :: order_purpose

record filled_order =
  fo_exchange_order_id :: string
  fo_symbol :: string
  fo_purpose :: order_purpose
  fo_side :: order_side
  fo_order_type :: order_type
  fo_quantity :: rat
  fo_avg_fill_price :: rat
  fo_fee_usdt :: rat
  fo_filled_at :: int

text \<open>
  An order is made from a raw signal or from a candidate: \<open>_direction\<close> reads \<open>direction\<close> of the one and
  \<open>action\<close> of the other.
\<close>

datatype order_signal = FromRaw raw_signal | FromCandidate trade_candidate

definition os_direction :: "order_signal \<Rightarrow> direction" where
  "os_direction g = (case g of FromRaw s \<Rightarrow> sg_direction s | FromCandidate c \<Rightarrow> tc_action c)"

definition os_symbol :: "order_signal \<Rightarrow> string" where
  "os_symbol g = (case g of FromRaw s \<Rightarrow> sg_symbol s | FromCandidate c \<Rightarrow> tc_symbol c)"

definition os_entry_price :: "order_signal \<Rightarrow> rat" where
  "os_entry_price g = (case g of FromRaw s \<Rightarrow> sg_entry_price s | FromCandidate c \<Rightarrow> tc_entry_price c)"

definition os_stop_loss :: "order_signal \<Rightarrow> rat option" where
  "os_stop_loss g = (case g of FromRaw s \<Rightarrow> sg_stop_loss s | FromCandidate c \<Rightarrow> tc_stop_loss c)"

definition os_take_profit :: "order_signal \<Rightarrow> rat option" where
  "os_take_profit g = (case g of FromRaw s \<Rightarrow> sg_take_profit s | FromCandidate c \<Rightarrow> tc_take_profit c)"

definition ENTRY_SIDE :: "direction \<rightharpoonup> order_side" where
  "ENTRY_SIDE = [LONG \<mapsto> BUY, SHORT \<mapsto> SELL]"

definition CLOSE_SIDE :: "direction \<rightharpoonup> order_side" where
  "CLOSE_SIDE = [LONG \<mapsto> SELL, SHORT \<mapsto> BUY]"

text \<open>
  The tickets. A direction outside the table is a \<open>KeyError\<close>; the local safety check leaves no
  missing price or quantity, for which the ticket's typed field has no value.
\<close>

definition make_ticket ::
    "(direction \<rightharpoonup> order_side) \<Rightarrow> order_type \<Rightarrow> bool \<Rightarrow> order_purpose \<Rightarrow> order_signal \<Rightarrow> rat option
       \<Rightarrow> rat option \<Rightarrow> order_ticket result" where
  "make_ticket sides order_type reduce_only purpose g quantity price =
     (case sides (os_direction g) of
        None \<Rightarrow> Inl KeyError
      | Some side \<Rightarrow> (case (quantity, price) of
          (Some q, Some p) \<Rightarrow> Inr \<lparr>ot_symbol = os_symbol g, ot_side = side,
             ot_order_type = order_type, ot_quantity = q, ot_price = p,
             ot_reduce_only = reduce_only, ot_purpose = purpose\<rparr>
        | _ \<Rightarrow> Inl TypeError))"

definition build_entry_ticket :: "order_signal \<Rightarrow> validation_result \<Rightarrow> order_ticket result" where
  "build_entry_ticket g v =
     make_ticket ENTRY_SIDE MARKET False EntryOrder g (vr_quantity v) (Some (os_entry_price g))"

definition build_tp_ticket :: "order_signal \<Rightarrow> validation_result \<Rightarrow> order_ticket result" where
  "build_tp_ticket g v =
     make_ticket CLOSE_SIDE TAKE_PROFIT_MARKET True TakeProfitOrder g (vr_quantity v) (os_take_profit g)"

definition build_sl_ticket :: "order_signal \<Rightarrow> validation_result \<Rightarrow> order_ticket result" where
  "build_sl_ticket g v =
     make_ticket CLOSE_SIDE STOP_MARKET True StopLossOrder g (vr_quantity v) (os_stop_loss g)"

definition build_emergency_close_ticket :: "order_signal \<Rightarrow> rat \<Rightarrow> order_ticket result" where
  "build_emergency_close_ticket g quantity =
     make_ticket CLOSE_SIDE MARKET True EmergencyOrder g (Some quantity) (Some (os_entry_price g))"

section \<open>Paper gateway\<close>

definition GATEWAY_TAKER_FEE_RATE :: rat where "GATEWAY_TAKER_FEE_RATE = 0.0004"

definition slippage_ratio :: "int \<Rightarrow> rat" where
  "slippage_ratio slippage_bps = ddiv (of_int slippage_bps) 10000"

definition apply_slippage :: "int \<Rightarrow> rat \<Rightarrow> order_side \<Rightarrow> rat" where
  "apply_slippage slippage_bps price side =
     (if price = 0 then price
      else if side = BUY then dmul price (dadd 1 (slippage_ratio slippage_bps))
      else dmul price (dsub 1 (slippage_ratio slippage_bps)))"

definition paper_place_order :: "int \<Rightarrow> string \<Rightarrow> int \<Rightarrow> order_ticket \<Rightarrow> filled_order result" where
  "paper_place_order now order_id slippage_bps t =
     (let fill_price = (if ot_order_type t = MARKET
                        then apply_slippage slippage_bps (ot_price t) (ot_side t) else ot_price t)
      in ebind (quantize rhe 5 (dmul (dmul (ot_quantity t) fill_price) GATEWAY_TAKER_FEE_RATE)) (\<lambda>fee.
         ebind (quantize rhe 2 fill_price) (\<lambda>avg.
         Inr \<lparr>fo_exchange_order_id = order_id, fo_symbol = ot_symbol t, fo_purpose = ot_purpose t,
              fo_side = ot_side t, fo_order_type = ot_order_type t, fo_quantity = ot_quantity t,
              fo_avg_fill_price = avg, fo_fee_usdt = fee, fo_filled_at = now\<rparr>)))"

text \<open>The gateway as an action: its state is the supply of the fresh order identifiers.\<close>

definition paper_gateway :: "int \<Rightarrow> int \<Rightarrow> order_ticket \<Rightarrow> (string list, filled_order) act" where
  "paper_gateway now slippage_bps t ids =
     (case ids of [] \<Rightarrow> ([], paper_place_order now [] slippage_bps t)
      | order_id # rest \<Rightarrow> (rest, paper_place_order now order_id slippage_bps t))"

section \<open>Requests and results\<close>

record execution_request =
  er_signal :: raw_signal
  er_user_ctx :: user_context
  er_account :: account_state
  er_daily_loss_usdt :: rat
  er_weekly_loss_usdt :: rat
  er_weekly_limit_usdt :: rat
  er_consecutive_losses :: int
  er_open_positions_count :: int
  er_same_coin_position :: "RiskModels.open_position option"
  er_candidate :: "trade_candidate option"
  er_final_decision :: "final_decision option"
  er_approved_validation :: "validation_result option"
  er_strategy_version :: "string option"

datatype exec_mode = PaperMode | TestnetMode | LiveMode

datatype exec_reason =
  ValidationReason "reason option" | LocalReason string | ShadowOnly | GateReason | ExecError pyexn

record execution_result =
  xr_approved :: bool
  xr_executed :: bool
  xr_mode :: exec_mode
  xr_rejection_code :: "string option"
  xr_rejection_reason :: "exec_reason option"
  xr_validation :: "validation_result option"
  xr_entry_order :: "filled_order option"
  xr_tp_order :: "filled_order option"
  xr_sl_order :: "filled_order option"
  xr_tp_sl_failed :: bool
  xr_emergency_close_order :: "filled_order option"
  xr_emergency_close_failed :: bool
  xr_warnings :: "warn list"

definition xr_base :: "bool \<Rightarrow> bool \<Rightarrow> exec_mode \<Rightarrow> validation_result option \<Rightarrow> execution_result" where
  "xr_base approved executed mode v =
     \<lparr>xr_approved = approved, xr_executed = executed, xr_mode = mode, xr_rejection_code = None,
      xr_rejection_reason = None, xr_validation = v, xr_entry_order = None, xr_tp_order = None,
      xr_sl_order = None, xr_tp_sl_failed = False, xr_emergency_close_order = None,
      xr_emergency_close_failed = False, xr_warnings = []\<rparr>"

definition xr_reject ::
    "exec_mode \<Rightarrow> string option \<Rightarrow> exec_reason \<Rightarrow> validation_result option \<Rightarrow> execution_result" where
  "xr_reject mode code reason v =
     (xr_base False False mode v)\<lparr>xr_rejection_code := code, xr_rejection_reason := Some reason\<rparr>"

section \<open>Engine\<close>

record execution_engine =
  ex_live :: bool
  ex_mode :: exec_mode

definition new_execution_engine :: "bool \<Rightarrow> exec_mode \<Rightarrow> execution_engine result" where
  "new_execution_engine live mode =
     (if live \<and> mode = PaperMode then Inl ValueError
      else Inr \<lparr>ex_live = live, ex_mode = mode\<rparr>)"

text \<open>\<open>_local_execution_safety\<close>: \<open>None\<close> is safe, otherwise the code and text of the refusal.\<close>

definition local_execution_safety ::
    "execution_request \<Rightarrow> validation_result \<Rightarrow> order_signal \<Rightarrow> (string option \<times> exec_reason) option" where
  "local_execution_safety req v g =
     (if \<not> vr_approved v then Some (vr_rejection_code v, ValidationReason (vr_rejection_reason v))
      else if er_approved_validation req \<noteq> None \<and> er_final_decision req = None
           then Some (Some ''FINAL_DECISION_MISSING'', LocalReason ''FINAL_DECISION_MISSING'')
      else if er_approved_validation req \<noteq> None \<and> er_candidate req = None
           then Some (Some ''CANDIDATE_MISSING'', LocalReason ''CANDIDATE_MISSING'')
      else if (case er_final_decision req of None \<Rightarrow> False | Some d \<Rightarrow> fd_action d \<notin> {LONG, SHORT})
           then Some (Some ''FINAL_DECISION_HOLD'', LocalReason ''FINAL_DECISION_HOLD'')
      else if os_direction g \<notin> {LONG, SHORT}
           then Some (Some ''INVALID_DIRECTION'', LocalReason ''INVALID_DIRECTION'')
      else if os_stop_loss g = None then Some (Some ''ORDER_003'', LocalReason ''ORDER_003'')
      else if os_take_profit g = None
           then Some (Some ''TAKE_PROFIT_MISSING'', LocalReason ''TAKE_PROFIT_MISSING'')
      else if (case vr_quantity v of None \<Rightarrow> True | Some q \<Rightarrow> q \<le> 0)
           then Some (Some ''SIZING'', LocalReason ''SIZING'')
      else if (case vr_final_leverage v of None \<Rightarrow> True | Some l \<Rightarrow> l \<le> 0)
           then Some (Some ''LEVERAGE'', LocalReason ''LEVERAGE'')
      else None)"

type_synonym 's gateway = "order_ticket \<Rightarrow> ('s, filled_order) act"
type_synonym 's validator = "execution_request \<Rightarrow> ('s, validation_result) act"
type_synonym 's order_gate = "string \<Rightarrow> ('s, safety_decision) act"

definition submit :: "'s gateway \<Rightarrow> order_ticket result \<Rightarrow> ('s, filled_order) act" where
  "submit G ticket s = (case ticket of Inl e \<Rightarrow> (s, Inl e) | Inr t \<Rightarrow> G t s)"

text \<open>
  One \<open>try\<close> block of step 3: place the target unless it is placed, then the stop. It returns the
  orders placed so far and whether the block completed.
\<close>

definition place_exits ::
    "'s gateway \<Rightarrow> order_signal \<Rightarrow> validation_result \<Rightarrow> filled_order option \<Rightarrow> filled_order option \<Rightarrow> 's
       \<Rightarrow> 's \<times> filled_order option \<times> filled_order option \<times> bool" where
  "place_exits G g v tp sl s =
     (case (case tp of Some x \<Rightarrow> (s, Inr x) | None \<Rightarrow> submit G (build_tp_ticket g v) s) of
        (s1, Inl e) \<Rightarrow> (s1, tp, sl, False)
      | (s1, Inr x) \<Rightarrow>
          (case (case sl of Some y \<Rightarrow> (s1, Inr y) | None \<Rightarrow> submit G (build_sl_ticket g v) s1) of
             (s2, Inl e) \<Rightarrow> (s2, Some x, sl, False)
           | (s2, Inr y) \<Rightarrow> (s2, Some x, Some y, True)))"

text \<open>Step 3: the entry, then the exits, one retry, and the emergency close.\<close>

definition place_orders ::
    "execution_engine \<Rightarrow> 's gateway \<Rightarrow> order_signal \<Rightarrow> validation_result \<Rightarrow> ('s, execution_result) act" where
  "place_orders en G g v =
     act_bind (submit G (build_entry_ticket g v)) (\<lambda>entry s.
       let filled = (xr_base True True (ex_mode en) (Some v))
             \<lparr>xr_entry_order := Some entry, xr_warnings := vr_warnings v\<rparr>;
           placed = (\<lambda>tp sl. filled\<lparr>xr_tp_order := tp, xr_sl_order := sl\<rparr>)
       in case place_exits G g v None None s of (s1, tp, sl, ok) \<Rightarrow>
            if ok then (s1, Inr (placed tp sl))
            else (case place_exits G g v tp sl s1 of (s2, tp2, sl2, ok2) \<Rightarrow>
              if ok2 then (s2, Inr (placed tp2 sl2))
              else (case submit G (build_emergency_close_ticket g (fo_quantity entry)) s2 of
                  (s3, Inl e) \<Rightarrow> (s3, Inr (filled\<lparr>xr_tp_sl_failed := True,
                                                 xr_emergency_close_failed := True\<rparr>))
                | (s3, Inr order) \<Rightarrow> (s3, Inr (filled\<lparr>xr_tp_sl_failed := True,
                                                 xr_emergency_close_order := Some order\<rparr>)))))"

text \<open>Step 1: the approved result that came with the request, or a validation.\<close>

definition request_validation ::
    "'s validator \<Rightarrow> execution_request \<Rightarrow> ('s, validation_result \<times> order_signal) act" where
  "request_validation V req =
     (case er_approved_validation req of
        Some v \<Rightarrow> act_return (v, case er_candidate req of
                                 Some c \<Rightarrow> FromCandidate c | None \<Rightarrow> FromRaw (er_signal req))
      | None \<Rightarrow> act_bind (V req) (\<lambda>v. act_return (v, FromRaw (er_signal req))))"

text \<open>\<open>safety.rejection_code or "SAFETY_GATE_BLOCKED"\<close>.\<close>

definition or_blocked :: "string option \<Rightarrow> string" where
  "or_blocked code = (case code of None \<Rightarrow> ''SAFETY_GATE_BLOCKED''
     | Some s \<Rightarrow> if s = [] then ''SAFETY_GATE_BLOCKED'' else s)"

definition gate_decision :: "'s order_gate option \<Rightarrow> string \<Rightarrow> ('s, safety_decision) act" where
  "gate_decision S user_id =
     (case S of None \<Rightarrow> act_return \<lparr>sd_allowed = True, sd_rejection_code = None\<rparr>
      | Some gate \<Rightarrow> gate user_id)"

definition execute_body ::
    "execution_engine \<Rightarrow> 's gateway \<Rightarrow> 's validator \<Rightarrow> 's order_gate option \<Rightarrow> execution_request
       \<Rightarrow> ('s, execution_result) act" where
  "execute_body en G V S req =
     (if ex_live en \<and> er_strategy_version req = Some ''fast_exit_v2''
      then act_return (xr_reject (ex_mode en) (Some ''SHADOW_STRATEGY_FORBIDDEN'') ShadowOnly None)
      else act_bind (request_validation V req) (\<lambda>(v, g).
        if \<not> vr_approved v
        then act_return (xr_reject (ex_mode en) (vr_rejection_code v)
                           (ValidationReason (vr_rejection_reason v)) (Some v))
        else case local_execution_safety req v g of
          Some (code, reason) \<Rightarrow> act_return (xr_reject (ex_mode en) code reason (Some v))
        | None \<Rightarrow>
            if \<not> ex_live en
            then act_return ((xr_base True False PaperMode (Some v))\<lparr>xr_warnings := vr_warnings v\<rparr>)
            else act_bind (gate_decision S (uc_user_id (er_user_ctx req))) (\<lambda>safety.
              if \<not> sd_allowed safety
              then act_return (xr_reject (ex_mode en) (Some (or_blocked (sd_rejection_code safety)))
                                 GateReason None)
              else place_orders en G g v)))"

definition execute ::
    "execution_engine \<Rightarrow> 's gateway \<Rightarrow> 's validator \<Rightarrow> 's order_gate option \<Rightarrow> execution_request
       \<Rightarrow> ('s, execution_result) act" where
  "execute en G V S req =
     act_catch (execute_body en G V S req)
       (\<lambda>e. act_return (xr_reject (ex_mode en) (Some ''SYSTEM_ERROR'') (ExecError e) None))"

text \<open>\<open>RiskEngine\<close> as the validator of the engine: the nine arguments step 1 passes.\<close>

definition risk_validator :: "'s redis \<Rightarrow> int \<Rightarrow> 's validator" where
  "risk_validator R now req =
     engine_validate R now (er_signal req) (er_user_ctx req) (er_account req)
       (er_daily_loss_usdt req) (er_weekly_loss_usdt req) (er_weekly_limit_usdt req)
       (er_consecutive_losses req) (er_open_positions_count req) (er_same_coin_position req)"

end
