(* ===== verification/ExecutionProps.thy ===== *)
theory ExecutionProps
  imports Execution RiskProps SafetyProps
begin

text \<open>
  What the execution engine may send to an exchange. The interface \<open>order_world\<close> states what the
  engine's collaborators may do to the list of orders sent so far: a gateway call appends its
  ticket, a validation and a gate decision send nothing. Every gateway, validator and gate
  provides it once the orders are recorded beside the state, which changes nothing else.
\<close>

section \<open>Clearance\<close>

text \<open>
  What must have happened for step 3 to be reached from \<open>s\<close>: the engine is live, a validation
  approved the request, the local check found nothing, and the gate allowed the user.
\<close>

definition cleared ::
    "execution_engine \<Rightarrow> 's validator \<Rightarrow> 's order_gate option \<Rightarrow> execution_request \<Rightarrow> 's
       \<Rightarrow> validation_result \<Rightarrow> order_signal \<Rightarrow> 's \<Rightarrow> bool" where
  "cleared en V S req s v g s2 \<longleftrightarrow>
     ex_live en \<and> er_strategy_version req \<noteq> Some ''fast_exit_v2'' \<and> vr_approved v \<and>
     local_execution_safety req v g = None \<and>
     (\<exists>s1. request_validation V req s = (s1, Inr (v, g)) \<and>
       (\<exists>d. gate_decision S (uc_user_id (er_user_ctx req)) s1 = (s2, Inr d) \<and> sd_allowed d))"

lemma xr_reject_simps [simp]: "\<not> xr_executed (xr_reject m c r v)" "\<not> xr_approved (xr_reject m c r v)"
  "\<not> xr_executed (xr_base b False m v)"
  by (simp_all add: xr_reject_def xr_base_def)

lemma local_safe:
  assumes "local_execution_safety req v g = None"
  shows "os_direction g \<in> {LONG, SHORT}" "\<exists>sl. os_stop_loss g = Some sl"
    "\<exists>tp. os_take_profit g = Some tp" "\<exists>q. vr_quantity v = Some q \<and> 0 < q"
    "\<exists>l. vr_final_leverage v = Some l \<and> 0 < l"
    "\<forall>d. er_final_decision req = Some d \<longrightarrow> fd_action d \<noteq> HOLD"
    "er_approved_validation req \<noteq> None \<Longrightarrow> er_final_decision req \<noteq> None \<and> er_candidate req \<noteq> None"
  using assms unfolding local_execution_safety_def
  by (auto simp: not_le split: if_splits option.splits)

lemma tickets_built:
  assumes "local_execution_safety req v g = None"
  shows "\<exists>t. build_entry_ticket g v = Inr t \<and> \<not> ot_reduce_only t \<and> ot_purpose t = EntryOrder \<and>
      Some (ot_quantity t) = vr_quantity v \<and> Some (ot_side t) = ENTRY_SIDE (os_direction g)"
proof -
  note L = local_safe(1,4) [OF assms]
  obtain q where "vr_quantity v = Some q" using L(2) by blast
  then show ?thesis using L(1) by (auto simp: build_entry_ticket_def make_ticket_def ENTRY_SIDE_def)
qed

text \<open>The ticket a submission sends: none when it could not be built.\<close>

definition sent_of :: "order_ticket result \<Rightarrow> order_ticket list" where
  "sent_of ticket = (case ticket of Inl e \<Rightarrow> [] | Inr t \<Rightarrow> [t])"

lemma sent_of_set: "Inr ` set (sent_of t) \<subseteq> {t}" "length (sent_of t) \<le> 1"
  by (auto simp: sent_of_def split: sum.splits)

text \<open>The orders that may follow an entry.\<close>

definition follow_up :: "order_signal \<Rightarrow> validation_result \<Rightarrow> order_ticket \<Rightarrow> bool" where
  "follow_up g v t \<longleftrightarrow> build_tp_ticket g v = Inr t \<or> build_sl_ticket g v = Inr t \<or>
     (\<exists>q. build_emergency_close_ticket g q = Inr t)"

lemma follow_upI:
  assumes "Inr ` set ts \<subseteq> {build_tp_ticket g v, build_sl_ticket g v}"
  shows "\<forall>t\<in>set ts. follow_up g v t"
proof
  fix t
  assume "t \<in> set ts"
  then have "Inr t \<in> {build_tp_ticket g v, build_sl_ticket g v}" using assms by blast
  then show "follow_up g v t" by (elim insertE emptyE) (simp_all add: follow_up_def)
qed

lemma follow_up_emergency: "\<forall>t\<in>set (sent_of (build_emergency_close_ticket g q)). follow_up g v t"
  by (auto simp: sent_of_def follow_up_def split: sum.splits)

section \<open>The interface\<close>

locale order_world =
  fixes orders :: "'s \<Rightarrow> order_ticket list"
    and G :: "'s gateway" and V :: "'s validator" and S :: "'s order_gate option"
  assumes place_sends: "orders (fst (G t s)) = orders s @ [t]"
    and validate_silent: "orders (fst (V req s)) = orders s"
    and gate_silent: "S = Some gate \<Longrightarrow> orders (fst (gate u s)) = orders s"
begin

lemma submit_sends:
  "submit G ticket s = (s', x) \<Longrightarrow>
   orders s' = orders s @ sent_of ticket"
  using place_sends by (auto simp: submit_def sent_of_def split: sum.splits) (metis fst_conv)

lemma optional_sends:
  "(case old of Some x \<Rightarrow> (s, Inr x) | None \<Rightarrow> submit G ticket s) = (s', y) \<Longrightarrow>
   orders s' = orders s @ (if old = None then sent_of ticket else [])"
  by (cases old) (auto dest: submit_sends)

lemma validation_silent:
  "request_validation V req s = (s', x) \<Longrightarrow> orders s' = orders s"
  using validate_silent [of req s]
  by (auto simp: request_validation_def act_bind_def split: option.splits prod.splits sum.splits)

lemma decision_silent: "gate_decision S u s = (s', x) \<Longrightarrow> orders s' = orders s"
  using gate_silent by (auto simp: gate_decision_def split: option.splits) (metis fst_conv)

text \<open>One block of exits: what it sends, and that completing means both orders are placed.\<close>

lemma exits_sent:
  assumes "place_exits G g v tp sl s = (s', tp', sl', ok)"
  shows "\<exists>ts. orders s' = orders s @ ts \<and>
    Inr ` set ts \<subseteq> {build_tp_ticket g v, build_sl_ticket g v} \<and>
    length ts \<le> (if tp = None then 2 else 1) \<and>
    (\<not> ok \<longrightarrow> length ts \<le> (if tp' = None then 1 else 2)) \<and>
    (ok \<longrightarrow> tp' \<noteq> None \<and> sl' \<noteq> None)"
proof -
  obtain s1 x where A: "(case tp of Some x \<Rightarrow> (s, Inr x) | None \<Rightarrow> submit G (build_tp_ticket g v) s) = (s1, x)"
    by (rule prod.exhaust)
  define t1 where "t1 = (if tp = None then sent_of (build_tp_ticket g v) else [])"
  have t1: "orders s1 = orders s @ t1" "Inr ` set t1 \<subseteq> {build_tp_ticket g v}"
    "length t1 \<le> (if tp = None then 1 else 0)"
    using optional_sends [OF A] sent_of_set [of "build_tp_ticket g v"] by (auto simp: t1_def)
  show ?thesis
  proof (cases x)
    case (Inl e)
    have "s' = s1 \<and> tp' = tp \<and> \<not> ok" using assms unfolding place_exits_def A Inl by simp
    moreover have "tp = None" using A Inl by (cases tp) simp_all
    ultimately show ?thesis using t1 by (intro exI [of _ t1]) auto
  next
    case (Inr y)
    obtain s2 z where B: "(case sl of Some y \<Rightarrow> (s1, Inr y) | None \<Rightarrow> submit G (build_sl_ticket g v) s1) = (s2, z)"
      by (rule prod.exhaust)
    define t2 where "t2 = (if sl = None then sent_of (build_sl_ticket g v) else [])"
    have t2: "orders s2 = orders s1 @ t2" "Inr ` set t2 \<subseteq> {build_sl_ticket g v}" "length t2 \<le> 1"
      using optional_sends [OF B] sent_of_set [of "build_sl_ticket g v"] by (auto simp: t2_def)
    have "s' = s2 \<and> tp' = Some y \<and> (ok \<longrightarrow> sl' \<noteq> None)"
      using assms unfolding place_exits_def A Inr by (cases z) (auto simp: B)
    then show ?thesis using t1 t2 by (intro exI [of _ "t1 @ t2"]) auto
  qed
qed

text \<open>
  Step 3: the entry goes first and is alone when it fails; after it come at most four orders,
  each a target, a stop or the emergency close.
\<close>

lemma orders_placed:
  assumes "place_orders en G g v s = (s', x)" "build_entry_ticket g v = Inr t0"
  shows "\<exists>ts. orders s' = orders s @ t0 # ts \<and> length ts \<le> 4 \<and> (\<forall>t\<in>set ts. follow_up g v t)"
proof -
  obtain s1 y where E: "submit G (build_entry_ticket g v) s = (s1, y)" by (rule prod.exhaust)
  have o1: "orders s1 = orders s @ [t0]" using submit_sends [OF E] assms(2) by (simp add: sent_of_def)
  show ?thesis
  proof (cases y)
    case (Inl e)
    then have "s' = s1" using assms(1) E by (simp add: place_orders_def act_bind_def)
    then show ?thesis using o1 by auto
  next
    case (Inr entry)
    obtain s2 tp sl ok where P: "place_exits G g v None None s1 = (s2, tp, sl, ok)" by (rule prod_cases4)
    from exits_sent [OF P] obtain t1 where r1: "orders s2 = orders s1 @ t1"
      "Inr ` set t1 \<subseteq> {build_tp_ticket g v, build_sl_ticket g v}"
      "\<not> ok \<longrightarrow> length t1 \<le> (if tp = None then 1 else 2)"
      "length t1 \<le> (if (None :: filled_order option) = None then 2 else 1)"
      by (elim exE conjE)
    note t1 = r1(1,3,4) follow_upI [OF r1(2)]
    show ?thesis
    proof (cases ok)
      case True
      then have "s' = s2" using assms(1) E Inr P by (simp add: place_orders_def act_bind_def Let_def)
      then show ?thesis using o1 t1 by auto
    next
      case False
      obtain s3 tp2 sl2 ok2 where Q: "place_exits G g v tp sl s2 = (s3, tp2, sl2, ok2)" by (rule prod_cases4)
      from exits_sent [OF Q] obtain t2 where r2: "orders s3 = orders s2 @ t2"
        "Inr ` set t2 \<subseteq> {build_tp_ticket g v, build_sl_ticket g v}"
        "length t2 \<le> (if tp = None then 2 else 1)"
        by (elim exE conjE)
      note t2 = r2(1,3) follow_upI [OF r2(2)]
      obtain s4 z where M: "submit G (build_emergency_close_ticket g (fo_quantity entry)) s3 = (s4, z)"
        by (rule prod.exhaust)
      define t3 where "t3 = sent_of (build_emergency_close_ticket g (fo_quantity entry))"
      have t3: "orders s4 = orders s3 @ t3" "\<forall>t\<in>set t3. follow_up g v t" "length t3 \<le> 1"
        unfolding t3_def by (rule submit_sends [OF M] follow_up_emergency sent_of_set(2))+
      have "s' = s3 \<or> s' = s4"
        using assms(1) E Inr P Q M False by (auto simp: place_orders_def act_bind_def Let_def split: sum.splits if_splits)
      then show ?thesis
      proof
        assume "s' = s3"
        then show ?thesis using o1 t1 t2 False by (intro exI [of _ "t1 @ t2"]) (auto split: if_splits)
      next
        assume "s' = s4"
        then show ?thesis using o1 t1 t2 t3 False
          by (intro exI [of _ "t1 @ t2 @ t3"]) (auto split: if_splits)
      qed
    qed
  qed
qed

text \<open>An execution either sends nothing and executes nothing, or it was cleared and ran step 3.\<close>

lemma execute_split:
  assumes "execute en G V S req s = (s', x)"
  obtains r where "x = Inr r" "\<not> xr_executed r" "orders s' = orders s"
  | v g s2 y where "cleared en V S req s v g s2" "orders s2 = orders s"
    "place_orders en G g v s2 = (s', y)"
    "x = (case y of Inr r \<Rightarrow> Inr r
          | Inl e \<Rightarrow> Inr (xr_reject (ex_mode en) (Some ''SYSTEM_ERROR'') (ExecError e) None))"
proof -
  obtain s3 z where B: "execute_body en G V S req s = (s3, z)" by (rule prod.exhaust)
  have X: "s' = s3" "x = (case z of Inr r \<Rightarrow> Inr r
          | Inl e \<Rightarrow> Inr (xr_reject (ex_mode en) (Some ''SYSTEM_ERROR'') (ExecError e) None))"
    using assms B by (auto simp: execute_def act_catch_def act_return_def split: sum.splits)
  have quiet: thesis if "orders s3 = orders s" "\<And>r. z = Inr r \<Longrightarrow> \<not> xr_executed r"
    using that X by (cases z) (auto intro!: that(1) \<open>\<And>r. x = Inr r \<Longrightarrow> \<not> xr_executed r \<Longrightarrow> orders s' = orders s \<Longrightarrow> thesis\<close>)
  show thesis
  proof (cases "ex_live en \<and> er_strategy_version req = Some ''fast_exit_v2''")
    case True
    then show thesis using B quiet by (auto simp: execute_body_def)
  next
    case version: False
    obtain s1 w where W: "request_validation V req s = (s1, w)" by (rule prod.exhaust)
    note o1 = validation_silent [OF W]
    show thesis
    proof (cases w)
      case (Inl e)
      then show thesis using B W version o1 quiet by (auto simp: execute_body_def act_bind_def)
    next
      case (Inr vg)
      obtain v g where vg: "vg = (v, g)" by (rule prod.exhaust)
      show thesis
      proof (cases "vr_approved v \<and> local_execution_safety req v g = None \<and> ex_live en")
        case False
        then show thesis using B W version o1 quiet Inr vg
          by (auto simp: execute_body_def act_bind_def split: if_splits option.splits)
      next
        case True
        obtain s2 d where D: "gate_decision S (uc_user_id (er_user_ctx req)) s1 = (s2, d)" by (rule prod.exhaust)
        note o2 = decision_silent [OF D]
        show thesis
        proof (cases "\<exists>k. d = Inr k \<and> sd_allowed k")
          case False
          then show thesis using B W version o1 o2 quiet Inr vg True D
            by (cases d) (auto simp: execute_body_def act_bind_def)
        next
          case allowed: True
          then have "place_orders en G g v s2 = (s3, z)"
            using B W version Inr vg True D by (auto simp: execute_body_def act_bind_def)
          moreover have "cleared en V S req s v g s2"
            using True version W Inr vg D allowed by (auto simp: cleared_def)
          ultimately show thesis using that(2) [of v g s2 z] o1 o2 X by simp
        qed
      qed
    qed
  qed
qed

end

section \<open>Recorded orders\<close>

text \<open>
  Any gateway, with the tickets it was given kept beside its state; the other collaborators act
  on their part of the pair.
\<close>

definition recorded :: "'s gateway \<Rightarrow> ('s \<times> order_ticket list) gateway" where
  "recorded G t sl = (case G t (fst sl) of (s', r) \<Rightarrow> ((s', snd sl @ [t]), r))"

definition beside :: "('s, 'a) act \<Rightarrow> ('s \<times> 'l, 'a) act" where
  "beside m sl = (case m (fst sl) of (s', r) \<Rightarrow> ((s', snd sl), r))"

definition recorded_execute ::
    "execution_engine \<Rightarrow> 's gateway \<Rightarrow> 's validator \<Rightarrow> 's order_gate option \<Rightarrow> execution_request
       \<Rightarrow> 's \<Rightarrow> ('s \<times> order_ticket list) \<times> execution_result result" where
  "recorded_execute en G V S req s =
     execute en (recorded G) (\<lambda>req. beside (V req)) (map_option (\<lambda>gate u. beside (gate u)) S) req (s, [])"

interpretation world: order_world snd "recorded G" "\<lambda>req. beside (V req)"
    "map_option (\<lambda>gate u. beside (gate u)) S" for G V S
  by unfold_locales (auto simp: recorded_def beside_def split: prod.splits)

lemma beside_simps: "beside (act_return x) = act_return x"
  "beside (act_bind m f) = act_bind (beside m) (\<lambda>x. beside (f x))"
  by (auto simp: beside_def act_return_def act_bind_def fun_eq_iff split: prod.splits sum.splits)

lemma beside_validation: "request_validation (\<lambda>req. beside (V req)) req = beside (request_validation V req)"
  by (simp add: request_validation_def beside_simps split: option.split)

lemma beside_decision: "gate_decision (map_option (\<lambda>gate u. beside (gate u)) S) u = beside (gate_decision S u)"
  by (simp add: gate_decision_def beside_simps split: option.split)

lemma beside_eq: "beside m sl = ((s', l'), x) \<longleftrightarrow> m (fst sl) = (s', x) \<and> l' = snd sl"
  by (auto simp: beside_def split: prod.splits)

lemma cleared_recorded:
  assumes "cleared en (\<lambda>req. beside (V req)) (map_option (\<lambda>gate u. beside (gate u)) S) req (s, l) v g sl2"
  shows "cleared en V S req s v g (fst sl2)"
  using assms unfolding cleared_def beside_validation beside_decision
  by (cases sl2) (auto simp: beside_eq)

text \<open>Recording changes neither the run nor its result.\<close>

definition mirrors :: "('s \<times> 'l, 'a) act \<Rightarrow> ('s, 'a) act \<Rightarrow> bool" where
  "mirrors m' m \<longleftrightarrow> (\<forall>s l. \<exists>l2. m' (s, l) = ((fst (m s), l2), snd (m s)))"

lemma mirrorsD: "mirrors m' m \<Longrightarrow> m s = (s1, x) \<Longrightarrow> \<exists>l1. m' (s, l) = ((s1, l1), x)"
  unfolding mirrors_def by (metis fst_conv snd_conv)

lemma mirrorsI: "(\<And>s l s1 x. m s = (s1, x) \<Longrightarrow> \<exists>l1. m' (s, l) = ((s1, l1), x)) \<Longrightarrow> mirrors m' m"
  unfolding mirrors_def by (metis prod.collapse)

lemma mirrors_basic:
  "mirrors (beside m) m" "mirrors (submit (recorded G) t) (submit G t)"
  "mirrors (act_return x) (act_return x)"
  by (auto simp: mirrors_def beside_def submit_def recorded_def split: prod.split sum.split)

lemma mirrors_bind:
  assumes "mirrors m' m" "\<And>x. mirrors (f' x) (f x)"
  shows "mirrors (act_bind m' f') (act_bind m f)"
proof (rule mirrorsI)
  fix s l s2 y
  assume B: "act_bind m f s = (s2, y)"
  obtain s1 x where m: "m s = (s1, x)" by (rule prod.exhaust)
  obtain l1 where m': "m' (s, l) = ((s1, l1), x)" using mirrorsD [OF assms(1) m] by blast
  show "\<exists>l1. act_bind m' f' (s, l) = ((s2, l1), y)"
    using B m m' mirrorsD [OF assms(2)] by (cases x) (auto simp: act_bind_def)
qed

lemma mirrors_catch:
  assumes "mirrors m' m" "\<And>x. mirrors (f' x) (f x)"
  shows "mirrors (act_catch m' f') (act_catch m f)"
proof (rule mirrorsI)
  fix s l s2 y
  assume B: "act_catch m f s = (s2, y)"
  obtain s1 x where m: "m s = (s1, x)" by (rule prod.exhaust)
  obtain l1 where m': "m' (s, l) = ((s1, l1), x)" using mirrorsD [OF assms(1) m] by blast
  show "\<exists>l1. act_catch m' f' (s, l) = ((s2, l1), y)"
    using B m m' mirrorsD [OF assms(2)] by (cases x) (auto simp: act_catch_def)
qed

lemma mirrors_optional:
  assumes "(case old of Some x \<Rightarrow> (s, Inr x) | None \<Rightarrow> submit G t s) = (s1, y)"
  shows "\<exists>l1. (case old of Some x \<Rightarrow> ((s, l), Inr x) | None \<Rightarrow> submit (recorded G) t (s, l)) = ((s1, l1), y)"
  using assms mirrorsD [OF mirrors_basic(2)] by (cases old) auto

lemma mirrors_exits:
  assumes "place_exits G g v tp sl s = (s', tp', sl', ok)"
  shows "\<exists>l'. place_exits (recorded G) g v tp sl (s, l) = ((s', l'), tp', sl', ok)"
proof -
  obtain s1 x where m: "(case tp of Some x \<Rightarrow> (s, Inr x) | None \<Rightarrow> submit G (build_tp_ticket g v) s) = (s1, x)"
    by (rule prod.exhaust)
  obtain l1 where m': "(case tp of Some x \<Rightarrow> ((s, l), Inr x)
      | None \<Rightarrow> submit (recorded G) (build_tp_ticket g v) (s, l)) = ((s1, l1), x)"
    using mirrors_optional [OF m] by blast
  obtain s2 y where n: "(case sl of Some x \<Rightarrow> (s1, Inr x) | None \<Rightarrow> submit G (build_sl_ticket g v) s1) = (s2, y)"
    by (rule prod.exhaust)
  obtain l2 where n': "(case sl of Some x \<Rightarrow> ((s1, l1), Inr x)
      | None \<Rightarrow> submit (recorded G) (build_sl_ticket g v) (s1, l1)) = ((s2, l2), y)"
    using mirrors_optional [OF n] by blast
  let ?r = "case x of Inl e \<Rightarrow> (tp, sl, False) | Inr xx \<Rightarrow>
    (case y of Inl e \<Rightarrow> (Some xx, sl, False) | Inr yy \<Rightarrow> (Some xx, Some yy, True))"
  have "place_exits G g v tp sl s = (case x of Inl e \<Rightarrow> s1 | Inr xx \<Rightarrow> s2, ?r)"
    unfolding place_exits_def m by (cases x; cases y) (simp_all add: n)
  moreover have "place_exits (recorded G) g v tp sl (s, l) =
      ((case x of Inl e \<Rightarrow> s1 | Inr xx \<Rightarrow> s2, case x of Inl e \<Rightarrow> l1 | Inr xx \<Rightarrow> l2), ?r)"
    unfolding place_exits_def m' by (cases x; cases y) (simp_all add: n')
  ultimately show ?thesis using assms by auto
qed

lemma mirrors_place: "mirrors (place_orders en (recorded G) g v) (place_orders en G g v)"
  unfolding place_orders_def
proof (rule mirrors_bind [OF mirrors_basic(2)], rule mirrorsI, goal_cases)
  case (1 entry s l s4 w)
  obtain s1 tp sl ok where P: "place_exits G g v None None s = (s1, tp, sl, ok)" by (rule prod_cases4)
  obtain l1 where P': "place_exits (recorded G) g v None None (s, l) = ((s1, l1), tp, sl, ok)"
    using mirrors_exits [OF P] by blast
  obtain s2 tp2 sl2 ok2 where Q: "place_exits G g v tp sl s1 = (s2, tp2, sl2, ok2)" by (rule prod_cases4)
  obtain l2 where Q': "place_exits (recorded G) g v tp sl (s1, l1) = ((s2, l2), tp2, sl2, ok2)"
    using mirrors_exits [OF Q] by blast
  obtain s3 z where R: "submit G (build_emergency_close_ticket g (fo_quantity entry)) s2 = (s3, z)"
    by (rule prod.exhaust)
  obtain l3 where R': "submit (recorded G) (build_emergency_close_ticket g (fo_quantity entry)) (s2, l2)
      = ((s3, l3), z)" using mirrorsD [OF mirrors_basic(2) R] by blast
  show ?case using 1 P P' Q Q' R R' by (cases ok; cases ok2; cases z) (simp_all add: Let_def)
qed

lemma recorded_run:
  "mirrors (execute en (recorded G) (\<lambda>req. beside (V req)) (map_option (\<lambda>gate u. beside (gate u)) S) req)
     (execute en G V S req)"
  unfolding execute_def execute_body_def beside_validation beside_decision
  by (auto intro!: mirrors_catch mirrors_bind mirrors_basic mirrors_place split: prod.split option.split)

lemma recorded_execute_run:
  "recorded_execute en G V S req s = ((s', sent), x) \<Longrightarrow> execute en G V S req s = (s', x)"
  using mirrorsD [OF recorded_run, of en G V S req s "fst (execute en G V S req s)"]
  unfolding recorded_execute_def by (metis (no_types, lifting) prod.collapse prod.inject)

section \<open>Results\<close>

text \<open>
  \<open>of_request\<close>: the validation and the signal are those of the request, the supplied approval with
  its candidate or a validator's answer with the raw signal. \<open>filled_by\<close>: the ticket was built, is
  among the orders sent, and the gateway answered it with this fill.
\<close>

definition of_request ::
    "'s validator \<Rightarrow> execution_request \<Rightarrow> 's \<Rightarrow> validation_result \<Rightarrow> order_signal \<Rightarrow> bool" where
  "of_request V req s v g \<longleftrightarrow>
     (case er_approved_validation req of
        Some w \<Rightarrow> v = w \<and> (\<exists>c. er_candidate req = Some c \<and> g = FromCandidate c)
      | None \<Rightarrow> snd (V req s) = Inr v \<and> g = FromRaw (er_signal req))"

definition filled_by :: "'s gateway \<Rightarrow> order_ticket result \<Rightarrow> order_ticket list \<Rightarrow> filled_order \<Rightarrow> bool" where
  "filled_by G ticket sent f \<longleftrightarrow> (\<exists>t u. ticket = Inr t \<and> t \<in> set sent \<and> snd (G t u) = Inr f)"

definition exits_filled ::
    "'s gateway \<Rightarrow> order_signal \<Rightarrow> validation_result \<Rightarrow> order_ticket list
       \<Rightarrow> filled_order option \<Rightarrow> filled_order option \<Rightarrow> bool" where
  "exits_filled G g v sent tp sl \<longleftrightarrow> (\<forall>f. tp = Some f \<longrightarrow> filled_by G (build_tp_ticket g v) sent f) \<and>
     (\<forall>f. sl = Some f \<longrightarrow> filled_by G (build_sl_ticket g v) sent f)"

text \<open>The emergency close: the last order, of the entry's filled quantity, filled or reported failed.\<close>

definition emergency_close_sent ::
    "'s gateway \<Rightarrow> order_signal \<Rightarrow> filled_order \<Rightarrow> order_ticket list \<Rightarrow> execution_result \<Rightarrow> bool" where
  "emergency_close_sent G g entry sent r \<longleftrightarrow>
     build_emergency_close_ticket g (fo_quantity entry) = Inr (last sent) \<and>
     (case xr_emergency_close_order r of
        Some f \<Rightarrow> \<not> xr_emergency_close_failed r \<and> (\<exists>u. snd (G (last sent) u) = Inr f)
      | None \<Rightarrow> xr_emergency_close_failed r \<and> (\<exists>u. isl (snd (G (last sent) u))))"

lemma cleared_of_request: "cleared en V S req s v g s2 \<Longrightarrow> of_request V req s v g"
  using local_safe(7) [of req v g]
  by (auto simp: cleared_def of_request_def request_validation_def act_bind_def act_return_def
      split: option.splits prod.splits sum.splits)

lemma filled_by_append: "filled_by G ticket l f \<Longrightarrow> filled_by G ticket (l @ m) f"
  by (auto simp: filled_by_def)

lemma exits_filled_append: "exits_filled G g v l tp sl \<Longrightarrow> exits_filled G g v (l @ m) tp sl"
  by (auto simp: exits_filled_def filled_by_append)

lemma submit_recorded:
  assumes "submit (recorded G) ticket (s, l) = ((s', l'), x)"
  shows "l' = l @ sent_of ticket"
    "x = Inr f \<Longrightarrow> \<exists>t. ticket = Inr t \<and> l' = l @ [t] \<and> snd (G t s) = Inr f"
    "x = Inl e \<Longrightarrow> ticket = Inr t \<Longrightarrow> l' = l @ [t] \<and> isl (snd (G t s))"
  using assms by (auto simp: submit_def recorded_def sent_of_def split: sum.splits prod.splits)

lemma optional_recorded:
  assumes "(case old of Some x \<Rightarrow> ((s, l), Inr x) | None \<Rightarrow> submit (recorded G) ticket (s, l)) = ((s', l'), x)"
    "\<forall>f. old = Some f \<longrightarrow> filled_by G ticket l f"
  shows "(\<exists>m. l' = l @ m) \<and> (\<forall>f. x = Inr f \<longrightarrow> filled_by G ticket l' f)"
proof (cases old)
  case None
  then have S: "submit (recorded G) ticket (s, l) = ((s', l'), x)" using assms(1) by simp
  have "filled_by G ticket l' f" if "x = Inr f" for f
    using submit_recorded(2) [OF S that] by (auto simp: filled_by_def)
  then show ?thesis using submit_recorded(1) [OF S] by blast
qed (use assms in auto)

lemma exits_recorded:
  assumes "place_exits (recorded G) g v tp sl (s, l) = ((s', l'), tp', sl', ok)" "exits_filled G g v l tp sl"
  shows "(\<exists>m. l' = l @ m) \<and> exits_filled G g v l' tp' sl' \<and> (ok \<longrightarrow> tp' \<noteq> None \<and> sl' \<noteq> None)"
proof -
  obtain s1 l1 x where A: "(case tp of Some x \<Rightarrow> ((s, l), Inr x)
      | None \<Rightarrow> submit (recorded G) (build_tp_ticket g v) (s, l)) = ((s1, l1), x)" by (metis prod.exhaust)
  obtain m where l1: "l1 = l @ m"
    and x: "\<And>f. x = Inr f \<Longrightarrow> filled_by G (build_tp_ticket g v) l1 f"
    using optional_recorded [OF A] assms(2) by (auto simp: exits_filled_def)
  have old: "exits_filled G g v l1 tp sl" using assms(2) unfolding l1 by (rule exits_filled_append)
  show ?thesis
  proof (cases x)
    case (Inl e)
    then show ?thesis using assms(1) old l1 unfolding place_exits_def A by auto
  next
    case tp: (Inr f)
    obtain s2 l2 y where B: "(case sl of Some y \<Rightarrow> ((s1, l1), Inr y)
        | None \<Rightarrow> submit (recorded G) (build_sl_ticket g v) (s1, l1)) = ((s2, l2), y)" by (metis prod.exhaust)
    obtain m2 where l2: "l2 = l1 @ m2"
      and y: "\<And>f. y = Inr f \<Longrightarrow> filled_by G (build_sl_ticket g v) l2 f"
      using optional_recorded [OF B] old by (auto simp: exits_filled_def)
    have "exits_filled G g v l2 tp sl" "filled_by G (build_tp_ticket g v) l2 f"
      using old x [OF tp] unfolding l2 by (simp_all add: exits_filled_append filled_by_append)
    moreover have "((s', l'), tp', sl', ok) = (case y of Inl e \<Rightarrow> ((s2, l2), Some f, sl, False)
        | Inr h \<Rightarrow> ((s2, l2), Some f, Some h, True))"
      using assms(1) by (cases y) (simp_all add: place_exits_def A tp B)
    ultimately show ?thesis using y l1 l2 by (cases y) (simp_all add: exits_filled_def)
  qed
qed

text \<open>Step 3 that returns: what was sent is what the result reports.\<close>

lemma orders_recorded:
  assumes "place_orders en (recorded G) g v (s, []) = ((s', sent), Inr r)"
    "local_execution_safety req v g = None"
  shows "xr_executed r \<and> xr_approved r \<and> (\<exists>entry. xr_entry_order r = Some entry \<and>
    filled_by G (build_entry_ticket g v) [hd sent] entry \<and>
    (if xr_tp_sl_failed r then emergency_close_sent G g entry sent r
     else \<exists>tp sl. xr_tp_order r = Some tp \<and> filled_by G (build_tp_ticket g v) (tl sent) tp \<and>
       xr_sl_order r = Some sl \<and> filled_by G (build_sl_ticket g v) (tl sent) sl))"
proof -
  obtain s0 l0 entry where E: "submit (recorded G) (build_entry_ticket g v) (s, []) = ((s0, l0), Inr entry)"
    using assms(1) by (auto simp: place_orders_def act_bind_Inr)
  obtain t where t: "build_entry_ticket g v = Inr t" "l0 = [t]" "snd (G t s) = Inr entry"
    using submit_recorded(2) [OF E] by auto
  obtain s1 l1 tp sl ok where P: "place_exits (recorded G) g v None None (s0, l0) = ((s1, l1), tp, sl, ok)"
    by (metis prod.exhaust)
  obtain s2 l2 tp2 sl2 ok2 where Q: "place_exits (recorded G) g v tp sl (s1, l1) = ((s2, l2), tp2, sl2, ok2)"
    by (metis prod.exhaust)
  obtain s3 l3 z where R: "submit (recorded G) (build_emergency_close_ticket g (fo_quantity entry)) (s2, l2)
    = ((s3, l3), z)" by (metis prod.exhaust)
  have p: "(\<exists>m. l1 = l0 @ m) \<and> exits_filled G g v l1 tp sl \<and> (ok \<longrightarrow> tp \<noteq> None \<and> sl \<noteq> None)"
    by (rule exits_recorded [OF P]) (simp add: exits_filled_def)
  have q: "(\<exists>m. l2 = l1 @ m) \<and> exits_filled G g v l2 tp2 sl2 \<and> (ok2 \<longrightarrow> tp2 \<noteq> None \<and> sl2 \<noteq> None)"
    using exits_recorded [OF Q] p by blast
  obtain c where c: "build_emergency_close_ticket g (fo_quantity entry) = Inr c"
    using local_safe(1) [OF assms(2)]
    by (auto simp: build_emergency_close_ticket_def make_ticket_def CLOSE_SIDE_def)
  have closing: "build_tp_ticket g v \<noteq> Inr t" "build_sl_ticket g v \<noteq> Inr t"
    using t(1) by (auto simp: build_tp_ticket_def build_sl_ticket_def build_entry_ticket_def make_ticket_def
        split: option.splits)
  have tail: "filled_by G ticket (tl (t # m)) f" if "filled_by G ticket (t # m) f" "ticket \<noteq> Inr t" for ticket m f
    using that by (auto simp: filled_by_def)
  have entry: "filled_by G (build_entry_ticket g v) [hd (t # m)] entry" for m
    using t by (auto simp: filled_by_def)
  consider "ok" | "\<not> ok" "ok2" | "\<not> ok" "\<not> ok2" by blast
  then show ?thesis
  proof cases
    case 1
    then show ?thesis using assms(1) E P p t entry tail closing
      by (auto simp: place_orders_def act_bind_def Let_def xr_base_def exits_filled_def)
  next
    case 2
    then show ?thesis using assms(1) E P Q p q t entry tail closing
      by (auto simp: place_orders_def act_bind_def Let_def xr_base_def exits_filled_def)
  next
    case 3
    obtain m where m: "l2 = t # m" using p q t(2) by auto
    have l3: "l3 = t # m @ [c]" using submit_recorded(1) [OF R] c m by (simp add: sent_of_def)
    show ?thesis
    proof (cases z)
      case (Inl e)
      then show ?thesis using assms(1) E P Q R 3 c l3 entry submit_recorded(3) [OF R _ c]
        by (auto simp: place_orders_def act_bind_def Let_def xr_base_def emergency_close_sent_def)
    next
      case (Inr f)
      then show ?thesis using assms(1) E P Q R 3 c l3 entry submit_recorded(2) [OF R]
        by (auto simp: place_orders_def act_bind_def Let_def xr_base_def emergency_close_sent_def)
    qed
  qed
qed

text \<open>Step 3 that does not return stopped at the entry.\<close>

lemma orders_recorded_Inl:
  assumes "place_orders en (recorded G) g v (s, []) = ((s', sent), Inl e)"
    "build_entry_ticket g v = Inr t"
  shows "sent = [t] \<and> (\<exists>u. isl (snd (G t u)))"
proof -
  obtain s0 l0 x where E: "submit (recorded G) (build_entry_ticket g v) (s, []) = ((s0, l0), x)"
    by (metis prod.exhaust)
  show ?thesis
  proof (cases x)
    case (Inl d)
    then show ?thesis using assms(1) E submit_recorded(3) [OF E Inl assms(2)]
      by (auto simp: place_orders_def act_bind_def)
  next
    case (Inr entry)
    obtain s1 l1 tp sl ok where P: "place_exits (recorded G) g v None None (s0, l0) = ((s1, l1), tp, sl, ok)"
      by (metis prod.exhaust)
    obtain s2 l2 tp2 sl2 ok2 where Q: "place_exits (recorded G) g v tp sl (s1, l1) = ((s2, l2), tp2, sl2, ok2)"
      by (metis prod.exhaust)
    obtain s3 l3 z where R: "submit (recorded G) (build_emergency_close_ticket g (fo_quantity entry)) (s2, l2)
      = ((s3, l3), z)" by (metis prod.exhaust)
    show ?thesis using assms(1) E P Q R Inr
      by (cases ok; cases ok2; cases z) (auto simp: place_orders_def act_bind_def Let_def)
  qed
qed

lemma recorded_Inr:
  obtains s' sent r where "recorded_execute en G V S req s = ((s', sent), Inr r)"
  unfolding recorded_execute_def
  by (cases "execute_body en (recorded G) (\<lambda>req. beside (V req)) (map_option (\<lambda>gate u. beside (gate u)) S) req (s, [])",
      cases "snd (execute_body en (recorded G) (\<lambda>req. beside (V req)) (map_option (\<lambda>gate u. beside (gate u)) S) req (s, []))")
    (auto simp: execute_def act_catch_def act_return_def)

section \<open>The validator and the safety layer on one server\<close>

lemma keeps_catch: "keeps A j m \<Longrightarrow> (\<And>e. keeps A j (h e)) \<Longrightarrow> keeps A j (act_catch m h)"
  unfolding keeps_def act_catch_def
  by (fastforce split: prod.splits sum.splits)

lemma keeps_kill_switch: "keeps A j (check_kill_switch R now u)"
  unfolding keeps_def using check_kill_switch_state [of R now u] by (metis fst_conv)

lemma keeps_halt_trading:
  "redis_model R A \<Longrightarrow> j \<noteq> UserHalt u \<Longrightarrow> keeps A j (halt_trading R now u tr reason)"
  unfolding halt_trading_def by (auto intro!: keeps_bind keeps_set keeps_basic)

lemma keeps_consecutive:
  "redis_model R A \<Longrightarrow> j \<noteq> UserCooldown u \<Longrightarrow> keeps A j (check_consecutive_losses R now u n)"
  unfolding check_consecutive_losses_def Let_def by (auto intro!: keeps_bind keeps_set keeps_basic)

lemma keeps_control:
  "keeps A j m \<Longrightarrow> keeps A j n \<Longrightarrow> keeps A j (if b then m else n)"
  "(\<And>a b. keeps A j (f a b)) \<Longrightarrow> keeps A j (case p of (a, b) \<Rightarrow> f a b)"
  "(\<And>a b c. keeps A j (h a b c)) \<Longrightarrow> keeps A j (case q of (a, b, c) \<Rightarrow> h a b c)"
  "(\<And>x. keeps A j (k x)) \<Longrightarrow> keeps A j (let x = y in k x)"
  by (simp_all split: prod.split)

lemma keeps_engine:
  assumes "redis_model R A" "j \<noteq> UserHalt (uc_user_id ctx)" "j \<noteq> UserCooldown (uc_user_id ctx)"
  shows "keeps A j (engine_validate R now sg ctx acc dl wl wlim cons cnt pos)"
  unfolding engine_validate_def validate_body_def
  by (intro keeps_catch keeps_bind keeps_control keeps_kill_switch keeps_basic
      keeps_halt_trading [OF assms(1,2)] keeps_consecutive [OF assms(1,3)])

lemma keeps_request:
  assumes "redis_model R A" "j \<notin> {UserHalt u, UserCooldown u}" "u = uc_user_id (er_user_ctx req)"
  shows "keeps A j (request_validation (risk_validator R now) req)"
  using assms unfolding request_validation_def risk_validator_def
  by (auto intro!: keeps_bind keeps_basic keeps_engine split: option.split)

lemma emergency_on_content:
  assumes "keeps A EmergencyKey m" "m s = (s', r)" "safety_store.emergency_on (emergency_view A) s"
    "redis_model R A"
  shows "safety_store.emergency_on (emergency_view A) s'"
proof -
  note C = redis_store_contract [OF assms(4)]
  have "content_get t EmergencyKey (A s') = content_get t EmergencyKey (A s)" for t
    using keepsD [OF assms(1,2)] .
  then have "emergency_view A t s' = emergency_view A t s" for t
    by (intro content_json_cong) simp
  then show ?thesis using assms(3) by (simp add: safety_store.emergency_on_def [OF C])
qed

lemma emergency_no_clearance:
  assumes "redis_model R A" "safety_store.emergency_on (emergency_view A) s"
  shows "\<not> cleared en (risk_validator R now)
    (Some (adapter_check_order_allowed (redis_safety_store R) config now)) req s v g s2"
proof
  assume "cleared en (risk_validator R now)
    (Some (adapter_check_order_allowed (redis_safety_store R) config now)) req s v g s2"
  then obtain s1 d where W: "request_validation (risk_validator R now) req s = (s1, Inr (v, g))"
    "adapter_check_order_allowed (redis_safety_store R) config now (uc_user_id (er_user_ctx req)) s1
      = (s2, Inr d)" "sd_allowed d"
    by (auto simp: cleared_def gate_decision_def)
  have "safety_store.emergency_on (emergency_view A) s1"
    using emergency_on_content [OF keeps_request [OF assms(1)] W(1) assms(2,1)] by simp
  moreover obtain r where "snd (check_order_allowed (redis_safety_store R) config now
      (uc_user_id (er_user_ctx req)) s1) = Inr r" "sk_allowed r"
    using W(2,3) by (auto simp: adapter_check_order_allowed_def act_bind_Inr)
  ultimately show False
    using safety_store.emergency_refuses [OF redis_store_contract [OF assms(1)]] by blast
qed

section \<open>Properties\<close>

text \<open>
  C16. No order without clearance: when an execution sends any order, the engine is live, the
  strategy is not restricted to shadow runs, the request was validated and approved, its
  direction, stop, target, quantity and leverage are present, an approved result came with a
  decision to trade and its candidate, and the safety gate, where there is one, allowed the user;
  the first order is the approved quantity on the entry side.
\<close>

theorem orders_only_when_cleared:
  assumes "recorded_execute en G V S req s = ((s', sent), x)" "sent \<noteq> []"
  shows "\<exists>v g s2. cleared en V S req s v g s2 \<and> vr_approved v \<and> ex_live en \<and>
    os_direction g \<in> {LONG, SHORT} \<and> os_stop_loss g \<noteq> None \<and> os_take_profit g \<noteq> None \<and>
    (er_approved_validation req \<noteq> None \<longrightarrow>
      (\<exists>d. er_final_decision req = Some d \<and> fd_action d \<noteq> HOLD) \<and> er_candidate req \<noteq> None) \<and>
    (\<exists>q. vr_quantity v = Some q \<and> 0 < q \<and> ot_quantity (hd sent) = q) \<and>
    Some (ot_side (hd sent)) = ENTRY_SIDE (os_direction g) \<and> ot_purpose (hd sent) = EntryOrder"
proof (rule world.execute_split [OF assms(1) [unfolded recorded_execute_def]])
  fix r assume "snd (s', sent) = snd (s, [] :: order_ticket list)"
  then show ?thesis using assms(2) by simp
next
  fix v g sl2 y
  assume C: "cleared en (\<lambda>req. beside (V req)) (map_option (\<lambda>gate u. beside (gate u)) S) req (s, []) v g sl2"
    and o: "snd sl2 = snd (s, [] :: order_ticket list)" and P: "place_orders en (recorded G) g v sl2 = ((s', sent), y)"
  have L: "local_execution_safety req v g = None" using C by (simp add: cleared_def)
  obtain t where t: "build_entry_ticket g v = Inr t" "ot_purpose t = EntryOrder"
    "Some (ot_quantity t) = vr_quantity v" "Some (ot_side t) = ENTRY_SIDE (os_direction g)"
    using tickets_built [OF L] by blast
  have "hd sent = t" using world.orders_placed [OF P t(1)] o by auto
  moreover have "vr_approved v" "ex_live en" using C by (simp_all add: cleared_def)
  ultimately show ?thesis
    using cleared_recorded [OF C] local_safe [OF L] t by (intro exI conjI) auto
qed

text \<open>
  C17. The order protocol: when an execution sends any order, the request was cleared with the
  validation and the signal that belong to it (the supplied approval with its candidate, or the
  validator's answer with the raw signal), the first order is the entry built from them, and at
  most four orders follow, every one of them reduce-only, on the closing side, for the same
  symbol, and either the target at that signal's target price for the approved quantity, or the
  stop at its stop price for the approved quantity, or the emergency close at the market; so an
  execution never opens a second position and never adds to one.
\<close>

theorem order_protocol:
  assumes "recorded_execute en G V S req s = ((s', sent), x)" "sent \<noteq> []"
  shows "\<exists>v g s2. cleared en V S req s v g s2 \<and> of_request V req s v g \<and>
    build_entry_ticket g v = Inr (hd sent) \<and> \<not> ot_reduce_only (hd sent) \<and> length sent \<le> 5 \<and>
    (\<forall>t\<in>set (tl sent). ot_reduce_only t \<and> Some (ot_side t) = CLOSE_SIDE (os_direction g) \<and>
      ot_side t \<noteq> ot_side (hd sent) \<and> ot_symbol t = os_symbol g \<and>
      (ot_purpose t = TakeProfitOrder \<and> ot_order_type t = TAKE_PROFIT_MARKET \<and>
         Some (ot_price t) = os_take_profit g \<and> Some (ot_quantity t) = vr_quantity v \<or>
       ot_purpose t = StopLossOrder \<and> ot_order_type t = STOP_MARKET \<and>
         Some (ot_price t) = os_stop_loss g \<and> Some (ot_quantity t) = vr_quantity v \<or>
       ot_purpose t = EmergencyOrder \<and> ot_order_type t = MARKET))"
proof (rule world.execute_split [OF assms(1) [unfolded recorded_execute_def]])
  fix r assume "snd (s', sent) = snd (s, [] :: order_ticket list)"
  then show ?thesis using assms(2) by simp
next
  fix v g sl2 y
  assume C: "cleared en (\<lambda>req. beside (V req)) (map_option (\<lambda>gate u. beside (gate u)) S) req (s, []) v g sl2"
    and o: "snd sl2 = snd (s, [] :: order_ticket list)" and P: "place_orders en (recorded G) g v sl2 = ((s', sent), y)"
  have L: "local_execution_safety req v g = None" using C by (simp add: cleared_def)
  obtain t0 where t: "build_entry_ticket g v = Inr t0" "\<not> ot_reduce_only t0"
    "Some (ot_side t0) = ENTRY_SIDE (os_direction g)" using tickets_built [OF L] by blast
  obtain ts where ts: "sent = t0 # ts" "length ts \<le> 4" "\<forall>t\<in>set ts. follow_up g v t"
    using world.orders_placed [OF P t(1)] o by auto
  have "ot_reduce_only u \<and> Some (ot_side u) = CLOSE_SIDE (os_direction g) \<and>
      ot_side u \<noteq> ot_side t0 \<and> ot_symbol u = os_symbol g \<and>
      (ot_purpose u = TakeProfitOrder \<and> ot_order_type u = TAKE_PROFIT_MARKET \<and>
         Some (ot_price u) = os_take_profit g \<and> Some (ot_quantity u) = vr_quantity v \<or>
       ot_purpose u = StopLossOrder \<and> ot_order_type u = STOP_MARKET \<and>
         Some (ot_price u) = os_stop_loss g \<and> Some (ot_quantity u) = vr_quantity v \<or>
       ot_purpose u = EmergencyOrder \<and> ot_order_type u = MARKET)" if "follow_up g v u" for u
    using that t(3) local_safe(1) [OF L]
    by (auto simp: follow_up_def build_tp_ticket_def build_sl_ticket_def build_emergency_close_ticket_def
        make_ticket_def ENTRY_SIDE_def CLOSE_SIDE_def
        split: option.splits prod.splits if_splits)
  then show ?thesis using t ts cleared_recorded [OF C] cleared_of_request [OF cleared_recorded [OF C]]
    by (intro exI conjI) auto
qed

text \<open>
  C18. An execution always returns a result, and the orders it sent are what the result says. Not
  live, it executes nothing and sends nothing. Not executed, it sent nothing, or only the entry,
  which the gateway refused. Executed, the request was cleared, the first order sent is its entry,
  filled as reported, and the position is covered or the result says so: either a target ticket
  and a stop ticket were sent after the entry and the gateway filled both as reported, or the
  failure is flagged, the last order sent is the emergency close of the entry's filled quantity,
  and it is reported filled or reported failed as the gateway answered it.
\<close>

theorem executed_is_covered:
  "\<exists>s' sent r. recorded_execute en G V S req s = ((s', sent), Inr r) \<and>
    execute en G V S req s = (s', Inr r) \<and>
    (\<not> ex_live en \<longrightarrow> \<not> xr_executed r \<and> sent = []) \<and>
    (\<not> xr_executed r \<longrightarrow> sent = [] \<or> (\<exists>v g t u. of_request V req s v g \<and>
       build_entry_ticket g v = Inr t \<and> sent = [t] \<and> isl (snd (G t u)))) \<and>
    (xr_executed r \<longrightarrow> xr_approved r \<and> (\<exists>v g s2 entry.
       cleared en V S req s v g s2 \<and> of_request V req s v g \<and> xr_entry_order r = Some entry \<and>
       filled_by G (build_entry_ticket g v) [hd sent] entry \<and>
       (if xr_tp_sl_failed r then emergency_close_sent G g entry sent r
        else \<exists>tp sl. xr_tp_order r = Some tp \<and> filled_by G (build_tp_ticket g v) (tl sent) tp \<and>
          xr_sl_order r = Some sl \<and> filled_by G (build_sl_ticket g v) (tl sent) sl)))"
proof -
  obtain s' sent r where X: "recorded_execute en G V S req s = ((s', sent), Inr r)" by (rule recorded_Inr)
  note run = recorded_execute_run [OF X]
  show ?thesis
  proof (rule world.execute_split [OF X [unfolded recorded_execute_def]])
    fix r' assume "(Inr r :: execution_result result) = Inr r'" "\<not> xr_executed r'"
      "snd (s', sent) = snd (s, [] :: order_ticket list)"
    then show ?thesis using X run by auto
  next
    fix v g sl2 y
    assume C: "cleared en (\<lambda>req. beside (V req)) (map_option (\<lambda>gate u. beside (gate u)) S) req (s, []) v g sl2"
      and o: "snd sl2 = snd (s, [] :: order_ticket list)" and P: "place_orders en (recorded G) g v sl2 = ((s', sent), y)"
      and y: "(Inr r :: execution_result result) = (case y of Inr r \<Rightarrow> Inr r
          | Inl e \<Rightarrow> Inr (xr_reject (ex_mode en) (Some ''SYSTEM_ERROR'') (ExecError e) None))"
    note c = cleared_recorded [OF C] cleared_of_request [OF cleared_recorded [OF C]]
    have L: "local_execution_safety req v g = None" "ex_live en" using C by (simp_all add: cleared_def)
    obtain t where t: "build_entry_ticket g v = Inr t" using tickets_built [OF L(1)] by blast
    have P': "place_orders en (recorded G) g v (fst sl2, []) = ((s', sent), y)"
      using P o by (metis prod.collapse snd_conv)
    show ?thesis
    proof (cases y)
      case (Inl e)
      then have "\<not> xr_executed r" using y by simp
      then show ?thesis using X run L(2) c(2) t orders_recorded_Inl [OF P' [unfolded Inl] t] by blast
    next
      case (Inr r')
      then have "place_orders en (recorded G) g v (fst sl2, []) = ((s', sent), Inr r)" using P' y by simp
      from orders_recorded [OF this L(1)] show ?thesis using X run L(2) c by blast
    qed
  qed
qed

text \<open>
  A triggered emergency stops live execution: with the risk engine and the safety gate on the
  same server, whatever happened since the trigger short of its deactivation, and whatever the
  gateway would do, an execution sends no order at all.
\<close>

theorem emergency_stops_execution:
  assumes "redis_model R A"
    "trigger_emergency (redis_safety_store R) now0 reason who s0 = (s, Inr ())"
    "\<forall>(t, v, e)\<in>set evs. e \<noteq> DeactivateEmergency"
    "recorded_execute en G (risk_validator R now)
       (Some (adapter_check_order_allowed (redis_safety_store R) config now)) req
       (run_events (redis_safety_store R) config evs s) = ((s', sent), x)"
  shows "sent = []"
proof (rule ccontr)
  assume "sent \<noteq> []"
  note C = redis_store_contract [OF assms(1)]
  have "safety_store.emergency_on (emergency_view A) s"
    using assms(2) by (auto intro: safety_store.emergency_activated [OF C]
      simp: trigger_emergency_def emergency_activate_def)
  from emergency_no_clearance [OF assms(1) safety_store.emergency_run [OF C this assms(3)]]
  have n: "\<not> cleared en (risk_validator R now)
      (Some (adapter_check_order_allowed (redis_safety_store R) config now)) req
      (run_events (redis_safety_store R) config evs s) v g s2" for v g s2 by blast
  show False
  proof (rule world.execute_split [OF assms(4) [unfolded recorded_execute_def]])
    fix r assume "snd (s', sent) = snd (run_events (redis_safety_store R) config evs s, [] :: order_ticket list)"
    then show False using \<open>sent \<noteq> []\<close> by simp
  next
    fix v g sl2 y
    assume c: "cleared en (\<lambda>req. beside (risk_validator R now req)) (map_option (\<lambda>gate u. beside (gate u))
        (Some (adapter_check_order_allowed (redis_safety_store R) config now))) req
        (run_events (redis_safety_store R) config evs s, []) v g sl2"
    show False using cleared_recorded [OF c] by (simp add: n)
  qed
qed

section \<open>A sample execution\<close>

definition sample_approval :: validation_result where
  "sample_approval = (vr_default True)\<lparr>vr_quantity := Some 2, vr_final_leverage := Some 5\<rparr>"

definition sample_raw :: raw_signal where
  "sample_raw = \<lparr>sg_direction = LONG, sg_coin = ''BTC'', sg_symbol = ''BTCUSDT'', sg_confidence = 1,
     sg_entry_price = 100, sg_take_profit = Some 120, sg_stop_loss = Some 90, sg_leverage = 5\<rparr>"

definition sample_user :: user_context where
  "sample_user = \<lparr>uc_user_id = ''u1'', uc_plan = ''pro'', uc_risk_profile = ''moderate'',
     uc_risk_per_trade = f64 0.01, uc_max_leverage = 10, uc_max_concurrent_positions = 3,
     uc_daily_loss_limit_pct = f64 0.03, uc_is_trading_active = True,
     uc_allowed_hours_start = None, uc_allowed_hours_end = None\<rparr>"

definition sample_decision :: final_decision where
  "sample_decision = \<lparr>fd_action = LONG, fd_reason = Accepted 1, fd_candidate = None,
     fd_ai_review = None, fd_risk_result = None\<rparr>"

definition sample_request :: execution_request where
  "sample_request = \<lparr>er_signal = sample_raw, er_user_ctx = sample_user,
     er_account = \<lparr>ac_available_balance = 1000, ac_total_balance = 1000, ac_initial_balance = 1000,
       ac_open_positions_count = 0, ac_open_positions_risk_usdt = 0\<rparr>,
     er_daily_loss_usdt = 0, er_weekly_loss_usdt = 0, er_weekly_limit_usdt = 100,
     er_consecutive_losses = 0, er_open_positions_count = 0, er_same_coin_position = None,
     er_candidate = Some sample_candidate, er_final_decision = Some sample_decision,
     er_approved_validation = Some sample_approval, er_strategy_version = None\<rparr>"

definition sample_engine_live :: execution_engine where
  "sample_engine_live = \<lparr>ex_live = True, ex_mode = TestnetMode\<rparr>"

definition sample_orders :: "(string list \<times> order_ticket list) \<times> execution_result result" where
  "sample_orders = recorded_execute sample_engine_live (paper_gateway 0 5)
     (\<lambda>_. act_return (vr_default False)) None sample_request [''a'', ''b'', ''c'']"

lemma sample_execution:
  "case sample_orders of ((ids, sent), x) \<Rightarrow> length sent = 3 \<and>
     (case x of Inl e \<Rightarrow> False | Inr r \<Rightarrow> xr_executed r \<and> \<not> xr_tp_sl_failed r)"
  by code_simp

lemma sample_sent: "length (snd (fst sample_orders)) = 3"
proof -
  obtain ids sent x where r: "sample_orders = ((ids, sent), x)" by (metis prod.exhaust)
  show ?thesis using sample_execution unfolding r by simp
qed

theorem orders_only_when_cleared_witness:
  "\<exists>v :: validation_result. vr_approved v \<and> ot_purpose (hd (snd (fst sample_orders))) = EntryOrder \<and>
    (\<exists>q. vr_quantity v = Some q \<and> ot_quantity (hd (snd (fst sample_orders))) = q)"
proof -
  obtain s' sent x where e: "sample_orders = ((s', sent), x)" by (metis prod.collapse)
  have "length sent = 3" using sample_sent unfolding e by simp
  then have "sent \<noteq> []" by auto
  from orders_only_when_cleared [OF e [unfolded sample_orders_def] this] show ?thesis
    unfolding e fst_conv snd_conv by blast
qed

theorem order_protocol_witness:
  "list_all ot_reduce_only (tl (snd (fst sample_orders)))"
proof -
  obtain s' sent x where e: "sample_orders = ((s', sent), x)" by (metis prod.collapse)
  have "length sent = 3" using sample_sent unfolding e by simp
  then have "sent \<noteq> []" by auto
  from order_protocol [OF e [unfolded sample_orders_def] this] show ?thesis
    unfolding e list_all_iff by auto
qed

theorem executed_is_covered_witness:
  "\<exists>ids sent r v g tp sl. sample_orders = ((ids, sent), Inr r) \<and> xr_executed r \<and>
    xr_tp_order r = Some tp \<and> filled_by (paper_gateway 0 5) (build_tp_ticket g v) (tl sent) tp \<and>
    xr_sl_order r = Some sl \<and> filled_by (paper_gateway 0 5) (build_sl_ticket g v) (tl sent) sl"
proof -
  obtain ids sent r where r: "sample_orders = ((ids, sent), Inr r)"
    and c: "xr_executed r \<longrightarrow> (\<exists>v g entry. if xr_tp_sl_failed r
        then emergency_close_sent (paper_gateway 0 5) g entry sent r
        else \<exists>tp sl. xr_tp_order r = Some tp \<and> filled_by (paper_gateway 0 5) (build_tp_ticket g v) (tl sent) tp \<and>
          xr_sl_order r = Some sl \<and> filled_by (paper_gateway 0 5) (build_sl_ticket g v) (tl sent) sl)"
    using executed_is_covered [of sample_engine_live "paper_gateway 0 5" "\<lambda>_. act_return (vr_default False)"
        None sample_request "[''a'', ''b'', ''c'']"] unfolding sample_orders_def by metis
  have "xr_executed r \<and> \<not> xr_tp_sl_failed r" using sample_execution unfolding r by simp
  then obtain v g tp sl where "xr_executed r" "xr_tp_order r = Some tp" "xr_sl_order r = Some sl"
    "filled_by (paper_gateway 0 5) (build_tp_ticket g v) (tl sent) tp"
    "filled_by (paper_gateway 0 5) (build_sl_ticket g v) (tl sent) sl" using c by auto
  then show ?thesis using r by blast
qed

theorem emergency_stops_execution_witness:
  "snd (fst (recorded_execute sample_engine_live (\<lambda>t. act_read (\<lambda>_. Inl ConnectionError))
     (risk_validator map_redis 5)
     (Some (adapter_check_order_allowed (redis_safety_store map_redis) live_config 5)) sample_request
     (run_events (redis_safety_store map_redis) live_config [(1, ''u1'', ResetDaily)]
       (fst (trigger_emergency (redis_safety_store map_redis) 0 ''stop'' ''admin'' Map.empty))))) = []"
proof -
  let ?S = "redis_safety_store map_redis"
  let ?s = "fst (trigger_emergency ?S 0 ''stop'' ''admin'' Map.empty)"
  have T: "trigger_emergency ?S 0 ''stop'' ''admin'' Map.empty = (?s, Inr ())"
    by (simp add: map_store_evals)
  have h: "\<forall>(t :: int, v :: string, e)\<in>set [(1, ''u1'', ResetDaily)]. e \<noteq> DeactivateEmergency" by simp
  let ?e = "recorded_execute sample_engine_live (\<lambda>t. act_read (\<lambda>_. Inl ConnectionError))
     (risk_validator map_redis 5) (Some (adapter_check_order_allowed ?S live_config 5)) sample_request
     (run_events ?S live_config [(1, ''u1'', ResetDaily)] ?s)"
  have e: "?e = ((fst (fst ?e), snd (fst ?e)), snd ?e)" by (simp only: prod.collapse)
  show ?thesis by (rule emergency_stops_execution [OF map_redis_model T h e])
qed

end
