(* ===== verification/SizingEngine.thy ===== *)
theory SizingEngine
  imports RiskSizing
begin

text \<open>
  \<open>agents/risk/{sizing_models,kelly,sizing_engine}.py\<close>: the four ways to choose the amount at
  risk, the Kelly fraction, and the position built from it. Ratios are floats, amounts
  Decimals; a warning text is a constructor with the values it prints, and the text renderings
  (\<open>to_dict\<close>, \<open>as_dict\<close>, \<open>summary\<close>) and the logarithmic growth rate are left out.
\<close>

section \<open>Data\<close>

datatype sizing_method = FIXED_RISK | FIXED_DOLLAR | PERCENT_RISK | KELLY

record sizing_config =
  zc_method :: sizing_method
  zc_risk_pct :: "rat option"
  zc_use_available_balance :: bool
  zc_risk_usdt :: "rat option"
  zc_kelly_fraction :: rat
  zc_kelly_min_trades :: int
  zc_kelly_lookback_days :: int
  zc_kelly_fallback_risk_pct :: rat
  zc_max_risk_pct :: rat
  zc_min_risk_pct :: rat

definition default_sizing_config :: "sizing_method \<Rightarrow> sizing_config" where
  "default_sizing_config m =
     \<lparr>zc_method = m, zc_risk_pct = None, zc_use_available_balance = True, zc_risk_usdt = None,
      zc_kelly_fraction = f64 0.25, zc_kelly_min_trades = 20, zc_kelly_lookback_days = 90,
      zc_kelly_fallback_risk_pct = f64 0.01, zc_max_risk_pct = f64 0.05,
      zc_min_risk_pct = f64 0.005\<rparr>"

record trade_statistics =
  ts_total_trades :: int
  ts_winning_trades :: int
  ts_losing_trades :: int
  ts_total_pnl :: rat
  ts_avg_win_usdt :: rat
  ts_avg_loss_usdt :: rat
  ts_gross_win_usdt :: rat
  ts_gross_loss_usdt :: rat
  ts_period_days :: int

definition ts_win_rate :: "trade_statistics \<Rightarrow> rat" where
  "ts_win_rate t = (if ts_total_trades t = 0 then 0
     else fdiv (of_int (ts_winning_trades t)) (of_int (ts_total_trades t)))"

definition ts_loss_rate :: "trade_statistics \<Rightarrow> rat" where
  "ts_loss_rate t = fsub 1 (ts_win_rate t)"

definition ts_avg_odds :: "trade_statistics \<Rightarrow> rat" where
  "ts_avg_odds t = (if ts_avg_loss_usdt t = 0 then 0
     else f64 (ddiv (ts_avg_win_usdt t) (ts_avg_loss_usdt t)))"

definition ts_profit_factor :: "trade_statistics \<Rightarrow> rat" where
  "ts_profit_factor t = (if ts_gross_loss_usdt t = 0 then 0
     else f64 (ddiv (ts_gross_win_usdt t) (ts_gross_loss_usdt t)))"

definition ts_is_sufficient :: "trade_statistics \<Rightarrow> bool" where
  "ts_is_sufficient t \<longleftrightarrow> 0 < ts_total_trades t"

datatype kelly_reason = FewSamples int int | LowWinRate | LowOdds | NegativeKelly rat | NoHistory

record kelly_result =
  kr_full_kelly_fraction :: rat
  kr_applied_fraction :: rat
  kr_kelly_multiplier :: rat
  kr_win_rate :: rat
  kr_avg_odds :: rat
  kr_sample_size :: int
  kr_is_valid :: bool
  kr_reason :: "kelly_reason option"

definition kr_capped_risk_pct :: "kelly_result \<Rightarrow> rat" where
  "kr_capped_risk_pct k = max RISK_PER_TRADE_MIN (min RISK_PER_TRADE_MAX (kr_applied_fraction k))"

datatype sizing_warning =
    DollarUnset | DollarCapped rat rat rat | KellyNoHistory rat
  | KellyInvalid "kelly_reason option" | KellyCapped rat rat
  | LeverageAbovePlan int int | BalanceShort rat rat

record sizing_result =
  zr_method :: sizing_method
  zr_risk_amount_usdt :: rat
  zr_risk_pct :: rat
  zr_quantity :: rat
  zr_margin_used :: rat
  zr_position_value :: rat
  zr_max_loss :: rat
  zr_max_profit :: rat
  zr_final_leverage :: int
  zr_rr_ratio :: rat
  zr_kelly :: "kelly_result option"
  zr_warnings :: "sizing_warning list"

section \<open>Kelly\<close>

definition KELLY_MAX_FRACTION :: rat where "KELLY_MAX_FRACTION = 1"
definition MIN_WIN_RATE :: rat where "MIN_WIN_RATE = f64 0.01"
definition MIN_AVG_ODDS :: rat where "MIN_AVG_ODDS = f64 0.01"

definition make_kelly ::
    "rat \<Rightarrow> rat \<Rightarrow> rat \<Rightarrow> trade_statistics \<Rightarrow> bool \<Rightarrow> kelly_reason option \<Rightarrow> kelly_result" where
  "make_kelly full applied multiplier t valid reason =
     \<lparr>kr_full_kelly_fraction = full, kr_applied_fraction = applied,
      kr_kelly_multiplier = multiplier, kr_win_rate = ts_win_rate t, kr_avg_odds = ts_avg_odds t,
      kr_sample_size = ts_total_trades t, kr_is_valid = valid, kr_reason = reason\<rparr>"

definition invalid_kelly :: "trade_statistics \<Rightarrow> rat \<Rightarrow> rat \<Rightarrow> kelly_reason \<Rightarrow> kelly_result" where
  "invalid_kelly t kelly_fraction fallback reason =
     make_kelly 0 fallback kelly_fraction t False (Some reason)"

text \<open>\<open>f* = (p b - q) / b\<close> in floats.\<close>

definition full_kelly :: "rat \<Rightarrow> rat \<Rightarrow> rat" where
  "full_kelly win_rate avg_odds =
     (let loss_rate = fsub 1 win_rate
      in fdiv (fsub (fmul win_rate avg_odds) loss_rate) avg_odds)"

definition calculate_kelly :: "trade_statistics \<Rightarrow> rat \<Rightarrow> int \<Rightarrow> rat \<Rightarrow> kelly_result" where
  "calculate_kelly t kelly_fraction min_sample_size fallback_risk_pct =
     (if ts_total_trades t < min_sample_size
      then make_kelly fallback_risk_pct fallback_risk_pct kelly_fraction t False
             (Some (FewSamples (ts_total_trades t) min_sample_size))
      else if ts_win_rate t < MIN_WIN_RATE
      then invalid_kelly t kelly_fraction fallback_risk_pct LowWinRate
      else if ts_avg_odds t < MIN_AVG_ODDS
      then invalid_kelly t kelly_fraction fallback_risk_pct LowOdds
      else
        let full = full_kelly (ts_win_rate t) (ts_avg_odds t)
        in if full \<le> 0
           then make_kelly full fallback_risk_pct kelly_fraction t False (Some (NegativeKelly full))
           else
             let full = min full KELLY_MAX_FRACTION;
                 applied = fmul full kelly_fraction;
                 applied = max RISK_PER_TRADE_MIN (min RISK_PER_TRADE_MAX applied)
             in make_kelly full applied kelly_fraction t True None)"

definition recommended_kelly_fraction :: "int \<Rightarrow> rat \<Rightarrow> rat \<Rightarrow> rat" where
  "recommended_kelly_fraction sample_size win_rate avg_odds =
     (if sample_size < 20 then 0
      else if sample_size < 50 then f64 0.125
      else if sample_size < 100 then f64 0.25
      else f64 0.5)"

section \<open>The amount at risk\<close>

definition clamp_risk_pct :: "rat \<Rightarrow> sizing_config \<Rightarrow> rat" where
  "clamp_risk_pct pct config = max (zc_min_risk_pct config) (min (zc_max_risk_pct config) pct)"

definition config_risk_pct :: "sizing_config \<Rightarrow> rat" where
  "config_risk_pct config =
     clamp_risk_pct (case zc_risk_pct config of Some p \<Rightarrow> p | None \<Rightarrow> RISK_PER_TRADE_MIN) config"

type_synonym risk_amount = "rat \<times> kelly_result option \<times> sizing_warning list"

definition fixed_risk_amount :: "sizing_config \<Rightarrow> account_state \<Rightarrow> risk_amount" where
  "fixed_risk_amount config account =
     (dmul (ac_total_balance account) (repr10 (config_risk_pct config)), None, [])"

definition fixed_dollar_amount :: "sizing_config \<Rightarrow> account_state \<Rightarrow> risk_amount" where
  "fixed_dollar_amount config account =
     (let (risk, warnings) =
            (case zc_risk_usdt config of
               None \<Rightarrow> (dmul (ac_total_balance account) 0.01, [DollarUnset])
             | Some r \<Rightarrow> if r \<le> 0 then (dmul (ac_total_balance account) 0.01, [DollarUnset])
                         else (r, []));
          max_risk = dmul (ac_total_balance account) (repr10 (zc_max_risk_pct config))
      in if max_risk < risk
         then (max_risk, None, warnings @ [DollarCapped risk max_risk (zc_max_risk_pct config)])
         else (risk, None, warnings))"

definition percent_risk_amount :: "sizing_config \<Rightarrow> account_state \<Rightarrow> risk_amount" where
  "percent_risk_amount config account =
     (dmul (ac_available_balance account) (repr10 (config_risk_pct config)), None, [])"

definition kelly_amount :: "sizing_config \<Rightarrow> account_state \<Rightarrow> trade_statistics option \<Rightarrow> risk_amount" where
  "kelly_amount config account trade_stats =
     (let without = (let fallback = repr10 (zc_kelly_fallback_risk_pct config)
            in (dmul (ac_total_balance account) fallback,
                Some \<lparr>kr_full_kelly_fraction = f64 fallback, kr_applied_fraction = f64 fallback,
                      kr_kelly_multiplier = zc_kelly_fraction config, kr_win_rate = 0,
                      kr_avg_odds = 0, kr_sample_size = 0, kr_is_valid = False,
                      kr_reason = Some NoHistory\<rparr>,
                [KellyNoHistory (zc_kelly_fallback_risk_pct config)]))
      in case trade_stats of
           None \<Rightarrow> without
         | Some t \<Rightarrow>
             if \<not> ts_is_sufficient t then without
             else
               let auto_fraction =
                     recommended_kelly_fraction (ts_total_trades t) (ts_win_rate t) (ts_avg_odds t);
                   effective_fraction = max auto_fraction (zc_kelly_fraction config);
                   k = calculate_kelly t effective_fraction (zc_kelly_min_trades config)
                         (zc_kelly_fallback_risk_pct config);
                   risk = dmul (ac_total_balance account) (repr10 (kr_capped_risk_pct k))
               in (risk, Some k,
                   (if \<not> kr_is_valid k then [KellyInvalid (kr_reason k)] else [])
                   @ (if zc_max_risk_pct config < kr_full_kelly_fraction k
                      then [KellyCapped (kr_full_kelly_fraction k) (zc_max_risk_pct config)] else [])))"

text \<open>The table \<open>_SIZERS\<close>.\<close>

definition get_risk_amount ::
    "sizing_config \<Rightarrow> account_state \<Rightarrow> trade_statistics option \<Rightarrow> risk_amount" where
  "get_risk_amount config account trade_stats =
     (case zc_method config of
        FIXED_RISK \<Rightarrow> fixed_risk_amount config account
      | FIXED_DOLLAR \<Rightarrow> fixed_dollar_amount config account
      | PERCENT_RISK \<Rightarrow> percent_risk_amount config account
      | KELLY \<Rightarrow> kelly_amount config account trade_stats)"

section \<open>The position\<close>

definition build_sizing_result ::
    "sizing_method \<Rightarrow> rat \<Rightarrow> raw_signal \<Rightarrow> rat \<Rightarrow> account_state \<Rightarrow> int \<Rightarrow> string \<Rightarrow> kelly_result option
       \<Rightarrow> sizing_warning list \<Rightarrow> sizing_result result" where
  "build_sizing_result meth risk_amount s sl account leverage symbol k warnings =
     (let entry = sg_entry_price s;
          sl_distance = dabs (dsub entry sl)
      in if sl_distance = 0 then Inl ValueError
         else
           let raw_qty = ddiv risk_amount sl_distance;
               quantity = round_to_lot_size raw_qty symbol;
               position_value = dmul quantity entry
           in ebind (ddivE position_value (of_int leverage)) (\<lambda>margin_used.
              let (rr, max_profit) =
                    (case sg_take_profit s of
                       None \<Rightarrow> (0, 0)
                     | Some tp \<Rightarrow>
                         let (ok, rr, reason) = validate_rr_ratio entry (Some tp) sl (sg_direction s)
                         in (rr, if ok \<and> 0 < rr then dmul quantity (dabs (dsub tp entry)) else 0));
                  actual_risk_pct =
                    (if 0 < ac_total_balance account
                     then f64 (ddiv risk_amount (ac_total_balance account)) else 0);
                  plan_max = get_or PLAN_MAX_LEVERAGE ''pro'' 10;
                  required = dmul margin_used (repr10 MARGIN_BUFFER_RATIO);
                  warnings = warnings
                    @ (if plan_max < leverage then [LeverageAbovePlan leverage plan_max] else [])
                    @ (if ac_available_balance account < required
                       then [BalanceShort required (ac_available_balance account)] else [])
              in ebind (cents risk_amount) (\<lambda>risk_q.
                 ebind (cents margin_used) (\<lambda>margin_q.
                 ebind (cents position_value) (\<lambda>value_q.
                 ebind (cents max_profit) (\<lambda>profit_q.
                 ebind (if rr \<noteq> 0 then cents rr else Inr 0) (\<lambda>rr_q.
                 Inr \<lparr>zr_method = meth, zr_risk_amount_usdt = risk_q, zr_risk_pct = actual_risk_pct,
                      zr_quantity = quantity, zr_margin_used = margin_q,
                      zr_position_value = value_q, zr_max_loss = risk_q, zr_max_profit = profit_q,
                      zr_final_leverage = leverage, zr_rr_ratio = rr_q, zr_kelly = k,
                      zr_warnings = warnings\<rparr>)))))))"

definition sizing_calculate ::
    "sizing_config \<Rightarrow> raw_signal \<Rightarrow> account_state \<Rightarrow> int \<Rightarrow> string \<Rightarrow> trade_statistics option
       \<Rightarrow> sizing_result result" where
  "sizing_calculate config s account leverage symbol trade_stats =
     (case sg_stop_loss s of
        None \<Rightarrow> Inl ValueError
      | Some sl \<Rightarrow>
          if sl \<le> 0 then Inl ValueError
          else let (risk_amount, k, warnings) = get_risk_amount config account trade_stats
               in build_sizing_result (zc_method config) risk_amount s sl account leverage symbol k
                    warnings)"

text \<open>\<open>base_risk_usdt or ...\<close>: a missing amount and 0 take the percentage.\<close>

definition comparison_configs :: "account_state \<Rightarrow> rat \<Rightarrow> rat option \<Rightarrow> rat \<Rightarrow> sizing_config list" where
  "comparison_configs account base_risk_pct base_risk_usdt kelly_fraction =
     (let usdt = (case base_risk_usdt of
                    None \<Rightarrow> dmul (ac_total_balance account) (repr10 base_risk_pct)
                  | Some u \<Rightarrow> if u = 0 then dmul (ac_total_balance account) (repr10 base_risk_pct) else u)
      in [(default_sizing_config FIXED_RISK)\<lparr>zc_risk_pct := Some base_risk_pct\<rparr>,
          (default_sizing_config FIXED_DOLLAR)\<lparr>zc_risk_usdt := Some usdt\<rparr>,
          (default_sizing_config PERCENT_RISK)\<lparr>zc_risk_pct := Some base_risk_pct\<rparr>,
          (default_sizing_config KELLY)\<lparr>zc_kelly_fraction := kelly_fraction\<rparr>])"

definition compare_all ::
    "raw_signal \<Rightarrow> account_state \<Rightarrow> int \<Rightarrow> string \<Rightarrow> rat \<Rightarrow> rat option \<Rightarrow> rat \<Rightarrow> trade_statistics option
       \<Rightarrow> (sizing_method \<times> sizing_result result) list" where
  "compare_all s account leverage symbol base_risk_pct base_risk_usdt kelly_fraction trade_stats =
     map (\<lambda>config. (zc_method config, sizing_calculate config s account leverage symbol trade_stats))
       (comparison_configs account base_risk_pct base_risk_usdt kelly_fraction)"

definition sizing_validate :: "sizing_result \<Rightarrow> rat \<Rightarrow> rat \<Rightarrow> string \<Rightarrow> bool \<times> reason" where
  "sizing_validate r available_balance entry_price symbol =
     validate_position_size
       \<lparr>ps_quantity = zr_quantity r, ps_margin_used = zr_margin_used r,
        ps_position_value = zr_position_value r, ps_max_loss = zr_max_loss r,
        ps_max_profit = zr_max_profit r, ps_final_leverage = zr_final_leverage r\<rparr>
       available_balance entry_price symbol"

end
