(* ===== verification/SizingProps.thy ===== *)
theory SizingProps
  imports SizingEngine
begin

text \<open>Bounds, errors and the agreement of the sizing engine with the sizing of the risk checks.\<close>

section \<open>The position never risks more than its amount\<close>

lemma lot_quantity_within:
  assumes "0 \<le> risk" "0 < d"
  shows "round_to_lot_size (ddiv risk d) s * d \<le> risk * (1 + 5 / 10 ^ 28)"
    "0 \<le> round_to_lot_size (ddiv risk d) s"
proof -
  have q: "is_dec (ddiv risk d)" "0 \<le> ddiv risk d" using assms by (simp_all add: ddiv_def)
  note B = round_to_lot_size_bounds [OF q, of s]
  have "ddiv risk d \<le> risk / d * (1 + 5 / 10 ^ 28)" unfolding ddiv_def using assms by (intro dec_le_err) simp
  then have "round_to_lot_size (ddiv risk d) s * d \<le> risk / d * (1 + 5 / 10 ^ 28) * d"
    using B(1) assms(2) by (intro mult_right_mono) auto
  then show "round_to_lot_size (ddiv risk d) s * d \<le> risk * (1 + 5 / 10 ^ 28)" using assms(2) by simp
  show "0 \<le> round_to_lot_size (ddiv risk d) s" using B(3) .
qed

lemma sizing_calculate_Inr:
  assumes "sizing_calculate config s account leverage symbol stats = Inr z"
  obtains sl risk k w where "sg_stop_loss s = Some sl" "0 < sl"
    "get_risk_amount config account stats = (risk, k, w)"
    "0 < dabs (dsub (sg_entry_price s) sl)" "leverage \<noteq> 0"
    "zr_quantity z = round_to_lot_size (ddiv risk (dabs (dsub (sg_entry_price s) sl))) symbol"
    "cents risk = Inr (zr_max_loss z)"
    "cents (ddiv (dmul (zr_quantity z) (sg_entry_price s)) (of_int leverage)) = Inr (zr_margin_used z)"
    "cents (dmul (zr_quantity z) (sg_entry_price s)) = Inr (zr_position_value z)"
    "zr_kelly z = k" "zr_method z = zc_method config" "zr_final_leverage z = leverage"
proof -
  obtain sl where sl: "sg_stop_loss s = Some sl" "0 < sl"
    using assms by (auto simp: sizing_calculate_def not_le split: option.splits if_splits)
  obtain risk k w where g: "get_risk_amount config account stats = (risk, k, w)" by (rule prod_cases3)
  have B: "build_sizing_result (zc_method config) risk s sl account leverage symbol k w = Inr z"
    using assms sl g by (simp add: sizing_calculate_def)
  show thesis
    by (rule that [OF sl g])
      (use B in \<open>auto simp: build_sizing_result_def Let_def ebind_Inr_iff ddivE_Inr dabs_def
        split: if_splits prod.splits\<close>)
qed

text \<open>The cap of a method: its percentage and the balance it is taken of.\<close>

definition risk_cap :: "sizing_config \<Rightarrow> account_state \<Rightarrow> trade_statistics option \<Rightarrow> rat" where
  "risk_cap config account stats =
     (case zc_method config of
        FIXED_RISK \<Rightarrow> dmul (ac_total_balance account) (repr10 (zc_max_risk_pct config))
      | FIXED_DOLLAR \<Rightarrow> dmul (ac_total_balance account) (repr10 (zc_max_risk_pct config))
      | PERCENT_RISK \<Rightarrow> dmul (ac_available_balance account) (repr10 (zc_max_risk_pct config))
      | KELLY \<Rightarrow> dmul (ac_total_balance account)
          (if \<exists>t. stats = Some t \<and> ts_is_sufficient t then 0.05
           else repr10 (zc_kelly_fallback_risk_pct config)))"

definition config_ok :: "sizing_config \<Rightarrow> bool" where
  "config_ok config \<longleftrightarrow> is_f64 (zc_min_risk_pct config) \<and> is_f64 (zc_max_risk_pct config) \<and>
     (\<forall>p. zc_risk_pct config = Some p \<longrightarrow> is_f64 p) \<and> is_f64 (zc_kelly_fallback_risk_pct config) \<and>
     0 \<le> zc_min_risk_pct config \<and> zc_min_risk_pct config \<le> zc_max_risk_pct config \<and>
     0 \<le> zc_kelly_fallback_risk_pct config"


lemma repr10_nonneg: "is_f64 x \<Longrightarrow> 0 \<le> x \<Longrightarrow> 0 \<le> repr10 x"
  using repr10_mono [of 0 x] by simp

lemma is_f64_minmax: "is_f64 x \<Longrightarrow> is_f64 y \<Longrightarrow> is_f64 (max x y) \<and> is_f64 (min x y)"
  by (simp add: max_def min_def)

lemma config_risk_pct_bounds:
  assumes "config_ok config"
  shows "0 \<le> repr10 (config_risk_pct config)"
    "repr10 (config_risk_pct config) \<le> repr10 (zc_max_risk_pct config)"
proof -
  have f: "is_f64 (config_risk_pct config)"
    using assms is_f64_minmax unfolding config_ok_def config_risk_pct_def clamp_risk_pct_def
    by (auto simp: RISK_PER_TRADE_MIN_def split: option.split)
  have b: "0 \<le> config_risk_pct config" "config_risk_pct config \<le> zc_max_risk_pct config"
    using assms unfolding config_ok_def config_risk_pct_def clamp_risk_pct_def by auto
  show "0 \<le> repr10 (config_risk_pct config)" using f b by (intro repr10_nonneg)
  show "repr10 (config_risk_pct config) \<le> repr10 (zc_max_risk_pct config)"
    using f b assms by (intro repr10_mono) (auto simp: config_ok_def)
qed

lemma kelly_applied_f64:
  "is_f64 fb \<Longrightarrow> is_f64 (kr_applied_fraction (calculate_kelly t f n fb))"
  using is_f64_minmax
  by (auto simp: calculate_kelly_def make_kelly_def invalid_kelly_def Let_def fmul_def
      RISK_PER_TRADE_MIN_def RISK_PER_TRADE_MAX_def)

lemma kelly_capped_bounds:
  assumes "is_f64 fb"
  shows "0 \<le> repr10 (kr_capped_risk_pct (calculate_kelly t f n fb))"
    "repr10 (kr_capped_risk_pct (calculate_kelly t f n fb)) \<le> 0.05"
proof -
  let ?c = "kr_capped_risk_pct (calculate_kelly t f n fb)"
  have m: "RISK_PER_TRADE_MIN \<le> RISK_PER_TRADE_MAX" "0 \<le> RISK_PER_TRADE_MIN" "is_f64 RISK_PER_TRADE_MAX"
    by (auto simp: RISK_PER_TRADE_MIN_def RISK_PER_TRADE_MAX_def intro: f64_mono)
  have f: "is_f64 ?c" unfolding kr_capped_risk_pct_def
    using kelly_applied_f64 [OF assms] is_f64_minmax m by (auto simp: RISK_PER_TRADE_MIN_def)
  have b: "0 \<le> ?c" "?c \<le> RISK_PER_TRADE_MAX" using m by (auto simp: kr_capped_risk_pct_def)
  show "0 \<le> repr10 ?c" using f b by (intro repr10_nonneg)
  have "repr10 ?c \<le> repr10 RISK_PER_TRADE_MAX" using f b m by (intro repr10_mono)
  then show "repr10 ?c \<le> 0.05" by (simp add: RISK_PER_TRADE_MAX_def pyconst)
qed

lemma risk_within_cap:
  assumes "get_risk_amount config account stats = (risk, k, w)" "config_ok config"
    "0 \<le> ac_total_balance account" "0 \<le> ac_available_balance account"
  shows "0 \<le> risk" "risk \<le> risk_cap config account stats"
proof -
  note B = config_risk_pct_bounds [OF assms(2)]
  have mx: "0 \<le> repr10 (zc_max_risk_pct config)" "0 \<le> repr10 (zc_kelly_fallback_risk_pct config)"
    using assms(2) repr10_nonneg unfolding config_ok_def by auto
  have D: "0 \<le> dmul b p" "dmul b p \<le> dmul b q" if "0 \<le> b" "0 \<le> p" "p \<le> q" for b p q
    using that unfolding dmul_def by (auto intro!: dec_mono mult_left_mono)
  have "0 \<le> risk \<and> risk \<le> risk_cap config account stats"
  proof (cases "zc_method config")
    case FIXED_RISK
    then show ?thesis using assms D B by (auto simp: get_risk_amount_def fixed_risk_amount_def risk_cap_def)
  next
    case PERCENT_RISK
    then show ?thesis using assms D B by (auto simp: get_risk_amount_def percent_risk_amount_def risk_cap_def)
  next
    case FIXED_DOLLAR
    have z: "0 \<le> dmul (ac_total_balance account) (1 / 100)" using assms(3) by (simp add: dmul_def)
    show ?thesis using FIXED_DOLLAR assms(1) z D(1) [OF assms(3) mx(1)] order_refl
      by (auto simp: get_risk_amount_def fixed_dollar_amount_def risk_cap_def Let_def
          split: if_splits option.splits)
  next
    case KELLY
    show ?thesis
    proof (cases "\<exists>t. stats = Some t \<and> ts_is_sufficient t")
      case True
      then obtain t where t: "stats = Some t" "ts_is_sufficient t" by blast
      have "is_f64 (zc_kelly_fallback_risk_pct config)" using assms(2) by (simp add: config_ok_def)
      note K = kelly_capped_bounds [OF this, of t "max (recommended_kelly_fraction (ts_total_trades t)
        (ts_win_rate t) (ts_avg_odds t)) (zc_kelly_fraction config)" "zc_kelly_min_trades config"]
      show ?thesis using KELLY assms(1) t D [OF assms(3) K]
        by (auto simp: get_risk_amount_def kelly_amount_def risk_cap_def Let_def)
    next
      case False
      then have "risk = dmul (ac_total_balance account) (repr10 (zc_kelly_fallback_risk_pct config))"
        using KELLY assms(1)
        by (cases stats) (auto simp: get_risk_amount_def kelly_amount_def Let_def)
      then show ?thesis using KELLY False D(1) [OF assms(3) mx(2) order_refl] by (auto simp: risk_cap_def)
    qed
  qed
  then show "0 \<le> risk" "risk \<le> risk_cap config account stats" by auto
qed

section \<open>Properties\<close>

definition sample_stats :: trade_statistics where
  "sample_stats = \<lparr>ts_total_trades = 40, ts_winning_trades = 30, ts_losing_trades = 10,
     ts_total_pnl = 500, ts_avg_win_usdt = 20, ts_avg_loss_usdt = 10, ts_gross_win_usdt = 600,
     ts_gross_loss_usdt = 100, ts_period_days = 90\<rparr>"

definition sample_balance :: account_state where
  "sample_balance = \<lparr>ac_available_balance = 1000, ac_total_balance = 1000, ac_initial_balance = 1000,
     ac_open_positions_count = 0, ac_open_positions_risk_usdt = 0\<rparr>"

definition sample_long :: raw_signal where
  "sample_long = \<lparr>sg_direction = LONG, sg_coin = ''BTC'', sg_symbol = ''BTCUSDT'', sg_confidence = 1,
     sg_entry_price = 100, sg_take_profit = Some 120, sg_stop_loss = Some 90, sg_leverage = 5\<rparr>"

text \<open>
  C19. A size is only given with a stop, and it keeps the method's budget: the loss at the stop is
  at most the configured maximal percentage of the balance the method uses, 5% of the total
  balance for Kelly with a history and the fallback percentage without one, up to one rounding
  to 28 digits; the quantity is not negative.
\<close>

theorem sizing_within_budget:
  assumes "sizing_calculate config s account leverage symbol stats = Inr z" "config_ok config"
    "0 \<le> ac_total_balance account" "0 \<le> ac_available_balance account"
  shows "\<exists>sl. sg_stop_loss s = Some sl \<and> 0 < sl \<and> 0 \<le> zr_quantity z \<and>
    zr_quantity z * dabs (dsub (sg_entry_price s) sl)
      \<le> risk_cap config account stats * (1 + 5 / 10 ^ 28)"
proof (rule sizing_calculate_Inr [OF assms(1)])
  fix sl risk k w
  assume sl: "sg_stop_loss s = Some sl" "0 < sl"
    and g: "get_risk_amount config account stats = (risk, k, w)"
    and d: "0 < dabs (dsub (sg_entry_price s) sl)"
    and q: "zr_quantity z = round_to_lot_size (ddiv risk (dabs (dsub (sg_entry_price s) sl))) symbol"
  note R = risk_within_cap [OF g assms(2-4)]
  have "risk * (1 + 5 / 10 ^ 28) \<le> risk_cap config account stats * (1 + 5 / 10 ^ 28)"
    using R by (intro mult_right_mono) auto
  then show ?thesis
    using sl lot_quantity_within [OF R(1) d, of symbol] unfolding q by (intro exI [of _ sl]) simp
qed

definition sample_fixed :: sizing_config where
  "sample_fixed = (default_sizing_config FIXED_RISK)\<lparr>zc_risk_pct := Some (f64 0.01)\<rparr>"

text \<open>The evaluations of this theory, done at once.\<close>

lemma sample_sizings:
  "\<not> isl (sizing_calculate (default_sizing_config KELLY) sample_long sample_balance 5 ''BTCUSDT'' (Some sample_stats)) \<and>
   \<not> isl (sizing_calculate sample_fixed sample_long sample_balance 5 ''BTCUSDT'' None) \<and>
   fst (get_risk_amount ((default_sizing_config KELLY)\<lparr>zc_max_risk_pct := f64 0.02\<rparr>) sample_balance
     (Some sample_stats)) = 50 \<and>
   map_option kr_kelly_multiplier (fst (snd (get_risk_amount (default_sizing_config KELLY)
     sample_balance (Some sample_stats)))) = Some (f64 0.25) \<and>
   20 \<le> ts_total_trades sample_stats \<and> MIN_WIN_RATE \<le> ts_win_rate sample_stats \<and>
   MIN_AVG_ODDS \<le> ts_avg_odds sample_stats \<and>
   fsub 1 (ts_win_rate sample_stats) < fmul (ts_win_rate sample_stats) (ts_avg_odds sample_stats)"
  by code_simp

lemma sample_config_ok: "config_ok (default_sizing_config m)"
  by (simp add: config_ok_def default_sizing_config_def f64_mono)

theorem sizing_within_budget_witness:
  "zr_quantity (projr (sizing_calculate (default_sizing_config KELLY) sample_long sample_balance 5
     ''BTCUSDT'' (Some sample_stats))) * dabs (dsub 100 90) \<le> dmul 1000 0.05 * (1 + 5 / 10 ^ 28)"
proof -
  let ?z = "sizing_calculate (default_sizing_config KELLY) sample_long sample_balance 5 ''BTCUSDT''
     (Some sample_stats)"
  have "\<not> isl ?z" using sample_sizings by blast
  then have z: "?z = Inr (projr ?z)" by simp
  show ?thesis using sizing_within_budget [OF z sample_config_ok]
    by (simp add: sample_balance_def sample_long_def risk_cap_def default_sizing_config_def
        ts_is_sufficient_def sample_stats_def)
qed

text \<open>
  The sizing engine agrees with the sizing of the risk checks: for the fixed and the percent
  method, where both give a size for the same balance and percentage, quantity, margin, value
  and leverage are the same, the size validation gives the same verdict, and the loss the risk
  checks report exceeds the engine's by at most a cent and one part in 10^26 of the budget.
\<close>

theorem sizing_agrees_with_risk_checks:
  assumes "sizing_calculate config s account leverage symbol stats = Inr z"
    "zc_method config = FIXED_RISK \<and> base = ac_total_balance account \<or>
     zc_method config = PERCENT_RISK \<and> base = ac_available_balance account"
    "sg_stop_loss s = Some sl" "config_ok config" "0 \<le> base"
    "calculate_position_size base (config_risk_pct config) (sg_entry_price s) sl leverage
       (sg_take_profit s) symbol = Inr ps"
  shows "zr_quantity z = ps_quantity ps \<and> zr_margin_used z = ps_margin_used ps \<and>
    zr_position_value z = ps_position_value ps \<and> zr_final_leverage z = ps_final_leverage ps \<and>
    sizing_validate z avail (sg_entry_price s) symbol
      = validate_position_size ps avail (sg_entry_price s) symbol \<and>
    ps_max_loss ps \<le> zr_max_loss z + 1 / 100 + dmul base (repr10 (config_risk_pct config)) / 10 ^ 26"
proof (rule sizing_calculate_Inr [OF assms(1)])
  fix sl' risk k w
  let ?R = "dmul base (repr10 (config_risk_pct config))"
  assume sl': "sg_stop_loss s = Some sl'"
    and g: "get_risk_amount config account stats = (risk, k, w)"
    and q: "zr_quantity z = round_to_lot_size (ddiv risk (dabs (dsub (sg_entry_price s) sl'))) symbol"
    and c: "cents risk = Inr (zr_max_loss z)"
      "cents (ddiv (dmul (zr_quantity z) (sg_entry_price s)) (of_int leverage)) = Inr (zr_margin_used z)"
      "cents (dmul (zr_quantity z) (sg_entry_price s)) = Inr (zr_position_value z)"
    and l: "zr_final_leverage z = leverage"
  note P = calculate_position_size_Inr [OF assms(6)]
  have r: "risk = ?R" using g assms(2) by (auto simp: get_risk_amount_def fixed_risk_amount_def percent_risk_amount_def)
  have e: "zr_quantity z = ps_quantity ps" using q P(4) sl' assms(3) r by simp
  then have m: "zr_margin_used z = ps_margin_used ps" "zr_position_value z = ps_position_value ps"
    using c(2,3) P(5,6) by simp_all
  have v: "sizing_validate z avail (sg_entry_price s) symbol
      = validate_position_size ps avail (sg_entry_price s) symbol"
    unfolding sizing_validate_def validate_position_size_def Let_def
    by (simp add: e m)
  have R0: "0 \<le> ?R"
    using config_risk_pct_bounds(1) [OF assms(4)] assms(5) by (simp add: dmul_def)
  have "\<bar>zr_max_loss z - ?R\<bar> \<le> 1 / 200"
    using quantize_rhe_err [OF c(1) [unfolded cents_def]] by (simp add: pw_def r)
  moreover have "?R * (1 + 11 / 10 ^ 28) \<le> ?R + ?R / 10 ^ 26" using R0 by (simp add: field_simps)
  ultimately have "ps_max_loss ps \<le> zr_max_loss z + 1 / 100 + ?R / 10 ^ 26"
    using position_size_max_loss [OF assms(6) R0] unfolding abs_le_iff by linarith
  then show ?thesis using e m v l P(3) by simp
qed

lemma sample_fixed_pct: "config_risk_pct sample_fixed = f64 0.01"
  using f64_mono [of "1/200" "1/100"] f64_mono [of "1/100" "1/20"]
  by (simp add: sample_fixed_def config_risk_pct_def clamp_risk_pct_def default_sizing_config_def)

lemma sample_rule_sized:
  "\<exists>p. calculate_position_size 1000 (f64 0.01) 100 90 5 (Some 120) ''BTCUSDT'' = Inr p"
  by (simp add: calculate_position_size_def pyconst dec_eval dabs_def Let_def round_to_lot_size_def
      lot_size_eq rdown_def ddivE_def cents_def quantize_def rhe_def pw_def)

theorem sizing_agrees_with_risk_checks_witness:
  "\<exists>p. calculate_position_size 1000 (f64 0.01) 100 90 5 (Some 120) ''BTCUSDT'' = Inr p \<and>
     zr_quantity (projr (sizing_calculate sample_fixed sample_long sample_balance 5 ''BTCUSDT'' None))
       = ps_quantity p"
proof -
  let ?z = "sizing_calculate sample_fixed sample_long sample_balance 5 ''BTCUSDT'' None"
  have z: "?z = Inr (projr ?z)" using sample_sizings by simp
  obtain p where p: "calculate_position_size 1000 (f64 0.01) 100 90 5 (Some 120) ''BTCUSDT'' = Inr p"
    using sample_rule_sized ..
  have "calculate_position_size 1000 (config_risk_pct sample_fixed) (sg_entry_price sample_long) 90 5
      (sg_take_profit sample_long) ''BTCUSDT'' = Inr p"
    using p by (simp add: sample_fixed_pct sample_long_def)
  moreover have "zc_method sample_fixed = FIXED_RISK \<and> 1000 = ac_total_balance sample_balance \<or>
     zc_method sample_fixed = PERCENT_RISK \<and> 1000 = ac_available_balance sample_balance"
    "sg_stop_loss sample_long = Some 90"
    by (simp_all add: sample_fixed_def default_sizing_config_def sample_balance_def sample_long_def)
  moreover have "config_ok sample_fixed"
    by (simp add: config_ok_def sample_fixed_def default_sizing_config_def f64_mono)
  ultimately show ?thesis
    using sizing_agrees_with_risk_checks [OF z, of 1000 90 p] p by simp
qed

text \<open>
  A Kelly result is valid exactly when there are enough trades, win rate and odds are at least
  1% and the edge is positive (the float of \<open>p b\<close> exceeds that of \<open>1 - p\<close>); a valid result has a raw
  fraction in (0, 1] and an applied one between 0.5% and 5%, and an invalid one applies the
  fallback.
\<close>

theorem kelly_valid_iff_edge:
  "let k = calculate_kelly t f n fb; p = ts_win_rate t; b = ts_avg_odds t in
    (kr_is_valid k \<longleftrightarrow> n \<le> ts_total_trades t \<and> MIN_WIN_RATE \<le> p \<and> MIN_AVG_ODDS \<le> b \<and>
       fsub 1 p < fmul p b) \<and>
    (kr_is_valid k \<longrightarrow> 0 < kr_full_kelly_fraction k \<and> kr_full_kelly_fraction k \<le> 1 \<and>
       RISK_PER_TRADE_MIN \<le> kr_applied_fraction k \<and> kr_applied_fraction k \<le> RISK_PER_TRADE_MAX) \<and>
    (\<not> kr_is_valid k \<longrightarrow> kr_applied_fraction k = fb)"
proof -
  let ?p = "ts_win_rate t" and ?b = "ts_avg_odds t"
  have m: "RISK_PER_TRADE_MIN \<le> RISK_PER_TRADE_MAX" "0 < MIN_AVG_ODDS"
    by (auto simp: RISK_PER_TRADE_MIN_def RISK_PER_TRADE_MAX_def MIN_AVG_ODDS_def intro: f64_mono)
  have edge: "0 < full_kelly ?p ?b \<longleftrightarrow> fsub 1 ?p < fmul ?p ?b" if "MIN_AVG_ODDS \<le> ?b"
  proof -
    have b: "0 < ?b" using that m by linarith
    have "0 < full_kelly ?p ?b \<longleftrightarrow> 0 < fsub (fmul ?p ?b) (fsub 1 ?p)"
      using b by (simp add: full_kelly_def Let_def fdiv_def zero_less_divide_iff)
    also have "\<dots> \<longleftrightarrow> fsub 1 ?p < fmul ?p ?b" by (simp add: fsub_def [of "fmul ?p ?b"])
    finally show ?thesis .
  qed
  show ?thesis
  proof (cases "n \<le> ts_total_trades t \<and> MIN_WIN_RATE \<le> ?p \<and> MIN_AVG_ODDS \<le> ?b \<and> 0 < full_kelly ?p ?b")
    case True
    then show ?thesis using edge m
      by (simp add: calculate_kelly_def make_kelly_def Let_def not_less not_le KELLY_MAX_FRACTION_def)
  next
    case False
    then show ?thesis using edge
      by (auto simp: calculate_kelly_def make_kelly_def invalid_kelly_def Let_def not_less not_le)
  qed
qed

theorem kelly_valid_iff_edge_witness:
  "kr_is_valid (calculate_kelly sample_stats 1 20 (f64 0.01)) \<and>
   kr_applied_fraction (calculate_kelly sample_stats 1 20 (f64 0.01)) \<le> RISK_PER_TRADE_MAX"
proof -
  have "20 \<le> ts_total_trades sample_stats \<and> MIN_WIN_RATE \<le> ts_win_rate sample_stats \<and>
      MIN_AVG_ODDS \<le> ts_avg_odds sample_stats \<and>
      fsub 1 (ts_win_rate sample_stats) < fmul (ts_win_rate sample_stats) (ts_avg_odds sample_stats)"
    using sample_sizings by blast
  then show ?thesis
    using kelly_valid_iff_edge [of sample_stats 1 20 "f64 0.01"] by (simp add: Let_def)
qed

text \<open>
  The configured maximum does not bind the Kelly method: with a maximum of 2% it still risks 5%,
  while its warning speaks of clipping; and the configured quarter overrides the table's
  eighth for a short history.
\<close>

lemma kelly_above_configured_cap:
  "fst (get_risk_amount ((default_sizing_config KELLY)\<lparr>zc_max_risk_pct := f64 0.02\<rparr>) sample_balance
     (Some sample_stats)) = 50"
  "map_option kr_kelly_multiplier (fst (snd (get_risk_amount (default_sizing_config KELLY)
     sample_balance (Some sample_stats)))) = Some (f64 0.25)"
  "recommended_kelly_fraction 40 p b = f64 0.125"
  using sample_sizings by (simp_all add: recommended_kelly_fraction_def)

end
