(* ===== verification/PySum.thy ===== *)
theory PySum
  imports PyNum
begin

text \<open>
  Python's \<open>sum\<close> over floats as CPython 3.12 computes it (Neumaier's compensated addition),
  its \<open>sum\<close> over Decimals (added from the left), the clamp of a score, and the range of a rounded
  value.
\<close>

fun neumaier :: "rat list \<Rightarrow> rat \<Rightarrow> rat \<Rightarrow> rat" where
  "neumaier [] acc c = fadd acc c"
| "neumaier (x # xs) acc c =
     (let t = fadd acc x
      in neumaier xs t
           (fadd c (if \<bar>x\<bar> \<le> \<bar>acc\<bar> then fadd (fsub acc t) x else fadd (fsub x t) acc)))"

definition fsum :: "rat list \<Rightarrow> rat" where
  "fsum xs = (case xs of [] \<Rightarrow> 0 | x # xs \<Rightarrow> neumaier xs x 0)"

definition dec_sum :: "rat list \<Rightarrow> rat" where "dec_sum xs = foldl dadd 0 xs"

text \<open>\<open>max(low, min(high, value))\<close>.\<close>

definition clamp :: "rat \<Rightarrow> rat \<Rightarrow> rat \<Rightarrow> rat" where "clamp value low high = max low (min high value)"

lemma fsum_Nil [simp]: "fsum [] = 0" by (simp add: fsum_def)

lemma neumaier_f64: "is_f64 (neumaier xs t c)"
  by (induction xs arbitrary: t c) (simp_all add: fadd_def Let_def)

lemma clamp_bounds: "low \<le> high \<Longrightarrow> low \<le> clamp v low high \<and> clamp v low high \<le> high"
  by (simp add: clamp_def)

lemma clamp_id: "low \<le> v \<Longrightarrow> v \<le> high \<Longrightarrow> clamp v low high = v"
  by (simp add: clamp_def)

lemma clamp_f64: "is_f64 v \<Longrightarrow> is_f64 low \<Longrightarrow> is_f64 high \<Longrightarrow> is_f64 (clamp v low high)"
  by (simp add: clamp_def max_def min_def)

lemma rhe_range: "of_int a \<le> x \<Longrightarrow> x \<le> of_int b \<Longrightarrow> a \<le> rhe x \<and> rhe x \<le> b"
  using rhe_mono [of "of_int a" x] rhe_mono [of x "of_int b"] by simp

lemma fround_range:
  assumes "of_int a \<le> x" "x \<le> of_int b" "\<bar>a\<bar> \<le> 2 ^ 53" "\<bar>b\<bar> \<le> 2 ^ 53"
  shows "of_int a \<le> fround k x" "fround k x \<le> of_int b"
proof -
  have "of_int (a * 10 ^ k) \<le> x * 10 ^ k" "x * 10 ^ k \<le> of_int (b * 10 ^ k)"
    using assms(1,2) by simp_all
  from rhe_range [OF this] have "a * 10 ^ k \<le> rhe (x * 10 ^ k)" "rhe (x * 10 ^ k) \<le> b * 10 ^ k" by auto
  then have "(of_int (a * 10 ^ k) :: rat) \<le> of_int (rhe (x * 10 ^ k))"
    "(of_int (rhe (x * 10 ^ k)) :: rat) \<le> of_int (b * 10 ^ k)" by (simp_all only: of_int_le_iff)
  then have "of_int a \<le> of_int (rhe (x * 10 ^ k)) / (10 ^ k :: rat)"
    "of_int (rhe (x * 10 ^ k)) / (10 ^ k :: rat) \<le> of_int b"
    by (simp_all add: field_simps)
  from f64_mono [OF this(1)] f64_mono [OF this(2)] show "of_int a \<le> fround k x" "fround k x \<le> of_int b"
    using assms(3,4) by (simp_all add: fround_def f64_int)
qed

lemma dec_sum_nonneg: "list_all (\<lambda>x. 0 \<le> x) xs \<Longrightarrow> 0 \<le> dec_sum xs"
proof -
  have "0 \<le> a \<Longrightarrow> list_all (\<lambda>x. 0 \<le> x) xs \<Longrightarrow> 0 \<le> foldl dadd a xs" for a
    by (induction xs arbitrary: a) (simp_all add: dadd_def dec_nonneg)
  then show "list_all (\<lambda>x. 0 \<le> x) xs \<Longrightarrow> 0 \<le> dec_sum xs" by (simp add: dec_sum_def)
qed

end
