(* ===== verification/MarketAnalysis.thy ===== *)
theory MarketAnalysis
  imports Prelude PySum
begin

text \<open>
  \<open>agents/technical_analysis\<close>, \<open>agents/market_structure\<close> and \<open>agents/sentiment\<close>: the scores that
  are computed from indicator values, funding and positioning, and classified headlines.
  The indicator series (pandas), the exchange's answers and the headline classifier are
  arguments. Floats are the dyadic rationals of \<open>PyNum\<close>; the comments on a score's origin
  and the \<open>to_dict\<close> renderings are left out.
\<close>

section \<open>Technical data\<close>

datatype alignment = BULLISH_EMA | BEARISH_EMA | MIXED_EMA
datatype macd_cross = BULLISH_CROSS | BEARISH_CROSS | NEUTRAL_CROSS
datatype bb_position = UPPER_THIRD | MIDDLE_BAND | LOWER_THIRD
datatype ta_signal = BULLISH | NEUTRAL | BEARISH

record macd_result =
  md_macd :: rat
  md_signal :: rat
  md_histogram :: rat
  md_cross :: macd_cross

record ema_result =
  em_ema9 :: rat
  em_ema21 :: rat
  em_ema50 :: rat
  em_ema200 :: rat
  em_alignment :: alignment

record bollinger_result =
  bb_upper :: rat
  bb_middle :: rat
  bb_lower :: rat
  bb_pos :: bb_position
  bb_bandwidth :: rat
  bb_percent_b :: rat

datatype fired =
    RsiOversold string | RsiOverbought string | MacdBullishCross string | MacdBearishCross string
  | BbLowerTouch string | BbUpperTouch string | Ema200Support string | Ema200Resistance string
  | VolumeSurge string

record timeframe_analysis =
  ta_symbol :: string
  ta_timeframe :: string
  ta_close :: rat
  ta_rsi :: rat
  ta_macd :: macd_result
  ta_ema :: ema_result
  ta_atr :: rat
  ta_vwap :: rat
  ta_bb :: bollinger_result
  ta_volume_ratio :: rat
  ta_score :: rat
  ta_verdict :: ta_signal
  ta_fired :: "fired list"

record technical_result =
  tr_coin :: string
  tr_symbol :: string
  tr_tech_score :: rat
  tr_timeframe_scores :: "(string, rat) pydict"
  tr_analyses :: "(string, timeframe_analysis) pydict"
  tr_fired :: "fired set"
  tr_support_levels :: "rat list"
  tr_resistance_levels :: "rat list"
  tr_latest_close :: rat

section \<open>Scores of the indicators\<close>

definition WEIGHT_TREND :: rat where "WEIGHT_TREND = f64 0.35"
definition WEIGHT_MOMENTUM :: rat where "WEIGHT_MOMENTUM = f64 0.3"
definition WEIGHT_VOLATILITY :: rat where "WEIGHT_VOLATILITY = f64 0.2"
definition WEIGHT_VOLUME :: rat where "WEIGHT_VOLUME = f64 0.15"

definition TIMEFRAME_WEIGHTS :: "(string, rat) pydict" where
  "TIMEFRAME_WEIGHTS = [(''1d'', f64 0.3), (''4h'', f64 0.25), (''1h'', f64 0.2),
     (''15m'', f64 0.15), (''5m'', f64 0.07), (''1m'', f64 0.03)]"

definition BULLISH_THRESHOLD :: rat where "BULLISH_THRESHOLD = f64 0.2"
definition BEARISH_THRESHOLD :: rat where "BEARISH_THRESHOLD = - f64 0.2"

definition score_rsi :: "rat \<Rightarrow> rat" where
  "score_rsi rsi =
     (if rsi \<le> 20 then 1 else if rsi \<le> 30 then f64 0.7 else if rsi \<le> 40 then f64 0.3
      else if rsi \<le> 60 then 0 else if rsi \<le> 70 then - f64 0.3
      else if rsi \<le> 80 then - f64 0.7 else -1)"

definition score_macd :: "rat \<Rightarrow> rat \<Rightarrow> rat" where
  "score_macd histogram prev_histogram =
     (if 0 < histogram \<and> prev_histogram \<le> 0 then f64 0.9
      else if histogram < 0 \<and> 0 \<le> prev_histogram then - f64 0.9
      else if 0 < histogram then f64 0.3
      else if histogram < 0 then - f64 0.3 else 0)"

definition score_ema_alignment :: "rat \<Rightarrow> rat \<Rightarrow> rat \<Rightarrow> rat \<Rightarrow> rat" where
  "score_ema_alignment ema9 ema21 ema50 ema200 =
     (if ema21 < ema9 \<and> ema50 < ema21 \<and> ema200 < ema50 then 1
      else if ema21 < ema9 \<and> ema200 < ema21 then f64 0.6
      else if ema200 < ema9 then f64 0.3
      else if ema9 < ema21 \<and> ema21 < ema50 \<and> ema50 < ema200 then -1
      else if ema9 < ema21 \<and> ema21 < ema200 then - f64 0.6
      else if ema9 < ema200 then - f64 0.3 else 0)"

definition score_bollinger :: "rat \<Rightarrow> rat \<Rightarrow> rat \<Rightarrow> rat" where
  "score_bollinger close upper lower =
     (let bandwidth = fsub upper lower
      in if bandwidth \<le> 0 then 0
         else let pct_b = fdiv (fsub close lower) bandwidth
              in if pct_b \<le> f64 0.02 then 1 else if pct_b \<le> f64 0.2 then f64 0.5
                 else if f64 0.98 \<le> pct_b then -1 else if f64 0.8 \<le> pct_b then - f64 0.5 else 0)"

definition score_volume :: "rat \<Rightarrow> rat \<Rightarrow> rat" where
  "score_volume current_volume ma20_volume =
     (if ma20_volume \<le> 0 then 0
      else let ratio = fdiv current_volume ma20_volume
           in if 3 \<le> ratio then f64 0.5 else if 2 \<le> ratio then f64 0.4
              else if f64 1.5 \<le> ratio then f64 0.3 else if 1 \<le> ratio then f64 0.1
              else - f64 0.1)"

definition calculate_trend_score :: "rat \<Rightarrow> rat \<Rightarrow> rat" where
  "calculate_trend_score ema_score macd_score = fadd (fmul ema_score (f64 0.5)) (fmul macd_score (f64 0.5))"

definition calculate_momentum_score :: "rat \<Rightarrow> rat" where
  "calculate_momentum_score rsi_score = rsi_score"

definition calculate_volatility_score :: "rat \<Rightarrow> rat \<Rightarrow> rat \<Rightarrow> rat" where
  "calculate_volatility_score bb_score atr prev_atr =
     (let atr_score =
        (if 0 < prev_atr
         then let atr_change = fdiv (fsub atr prev_atr) prev_atr
              in min (max (fmul atr_change 2) (- f64 0.5)) (f64 0.5)
         else 0)
      in fadd (fmul bb_score (f64 0.7)) (fmul atr_score (f64 0.3)))"

text \<open>\<open>max(-1.0, min(1.0, x))\<close>.\<close>

definition unit_clamp :: "rat \<Rightarrow> rat" where "unit_clamp x = max (-1) (min 1 x)"

definition calculate_timeframe_score :: "rat \<Rightarrow> rat \<Rightarrow> rat \<Rightarrow> rat \<Rightarrow> rat" where
  "calculate_timeframe_score trend momentum volatility volume =
     unit_clamp (fadd (fadd (fadd (fmul trend WEIGHT_TREND) (fmul momentum WEIGHT_MOMENTUM))
       (fmul volatility WEIGHT_VOLATILITY)) (fmul volume WEIGHT_VOLUME))"

fun weigh_scores :: "(string, rat) pydict \<Rightarrow> rat \<times> rat \<Rightarrow> rat \<times> rat" where
  "weigh_scores [] acc = acc"
| "weigh_scores ((tf, score) # rest) (weighted_sum, total_weight) =
     (let weight = (case map_of TIMEFRAME_WEIGHTS tf of Some w \<Rightarrow> w | None \<Rightarrow> 0)
      in weigh_scores rest (fadd weighted_sum (fmul score weight), fadd total_weight weight))"

definition aggregate_timeframe_scores :: "(string, rat) pydict \<Rightarrow> rat" where
  "aggregate_timeframe_scores scores =
     (let (weighted_sum, total_weight) = weigh_scores scores (0, 0)
      in if total_weight = 0 then 0 else unit_clamp (fdiv weighted_sum total_weight))"

definition score_to_signal :: "rat \<Rightarrow> ta_signal" where
  "score_to_signal score =
     (if BULLISH_THRESHOLD \<le> score then BULLISH
      else if score \<le> BEARISH_THRESHOLD then BEARISH else NEUTRAL)"

definition determine_macd_cross :: "rat \<Rightarrow> rat \<Rightarrow> macd_cross" where
  "determine_macd_cross histogram prev_histogram =
     (if 0 < histogram \<and> prev_histogram \<le> 0 then BULLISH_CROSS
      else if histogram < 0 \<and> 0 \<le> prev_histogram then BEARISH_CROSS else NEUTRAL_CROSS)"

definition determine_ema_alignment :: "rat \<Rightarrow> rat \<Rightarrow> rat \<Rightarrow> rat \<Rightarrow> alignment" where
  "determine_ema_alignment ema9 ema21 ema50 ema200 =
     (if ema21 < ema9 \<and> ema50 < ema21 \<and> ema200 < ema50 then BULLISH_EMA
      else if ema9 < ema21 \<and> ema21 < ema50 \<and> ema50 < ema200 then BEARISH_EMA else MIXED_EMA)"

definition determine_bb_position :: "rat \<Rightarrow> rat \<Rightarrow> rat \<Rightarrow> bb_position" where
  "determine_bb_position close upper lower =
     (let bandwidth = fsub upper lower
      in if bandwidth \<le> 0 then MIDDLE_BAND
         else let pct_b = fdiv (fsub close lower) bandwidth
              in if f64 0.667 \<le> pct_b then UPPER_THIRD
                 else if pct_b \<le> f64 0.333 then LOWER_THIRD else MIDDLE_BAND)"

section \<open>Analysis of one timeframe\<close>

text \<open>A frame holds its columns in the order of the index; a series may lack early values (NaN).\<close>

type_synonym series = "rat option list"

record frame =
  fr_columns :: "(string, rat list) pydict"

definition column :: "frame \<Rightarrow> string \<Rightarrow> rat list" where
  "column df c = (case map_of (fr_columns df) c of Some xs \<Rightarrow> xs | None \<Rightarrow> [])"

definition fr_rows :: "frame \<Rightarrow> nat" where
  "fr_rows df = foldr (\<lambda>c n. max (length (snd c)) n) (fr_columns df) 0"

text \<open>The series of \<open>indicators.py\<close>, which pandas computes: arguments.\<close>

record indicators =
  in_rsi :: "frame \<Rightarrow> series"
  in_macd :: "frame \<Rightarrow> series \<times> series \<times> series"
  in_ema :: "frame \<Rightarrow> nat \<Rightarrow> series"
  in_bollinger :: "frame \<Rightarrow> series \<times> series \<times> series"
  in_atr :: "frame \<Rightarrow> series"
  in_vwap :: "frame \<Rightarrow> series"
  in_volume_ma :: "frame \<Rightarrow> series"
  in_levels :: "frame \<Rightarrow> (rat list \<times> rat list) result"

definition REQUIRED_COLUMNS :: "string list" where
  "REQUIRED_COLUMNS = [''open'', ''high'', ''low'', ''close'', ''volume'']"

definition MIN_ROWS :: nat where "MIN_ROWS = 30"

definition validate_frame :: "frame option \<Rightarrow> bool" where
  "validate_frame df = (case df of None \<Rightarrow> False
     | Some df \<Rightarrow> fr_rows df \<noteq> 0 \<and>
         list_all (\<lambda>c. map_of (fr_columns df) c \<noteq> None) REQUIRED_COLUMNS \<and> MIN_ROWS \<le> fr_rows df)"

definition dropna :: "series \<Rightarrow> rat list" where "dropna s = map the (filter (\<lambda>x. x \<noteq> None) s)"

definition last_valid :: "series \<Rightarrow> rat \<Rightarrow> rat" where
  "last_valid s fallback = (let valid = dropna s in if valid = [] then fallback else last valid)"

definition nth_last :: "series \<Rightarrow> nat \<Rightarrow> rat \<Rightarrow> rat" where
  "nth_last s n fallback =
     (let valid = dropna s in if length valid < n then fallback else valid ! (length valid - n))"

definition detect_signals ::
    "string \<Rightarrow> rat \<Rightarrow> rat \<Rightarrow> rat \<Rightarrow> rat \<Rightarrow> rat \<Rightarrow> rat \<Rightarrow> rat \<Rightarrow> fired list" where
  "detect_signals interval rsi hist prev_hist close bb_pct_b ema200 vol_ratio =
     (if rsi \<le> 30 then [RsiOversold interval]
      else if 70 \<le> rsi then [RsiOverbought interval] else [])
     @ (if 0 < hist \<and> prev_hist \<le> 0 then [MacdBullishCross interval]
        else if hist < 0 \<and> 0 \<le> prev_hist then [MacdBearishCross interval] else [])
     @ (if bb_pct_b \<le> f64 0.05 then [BbLowerTouch interval]
        else if f64 0.95 \<le> bb_pct_b then [BbUpperTouch interval] else [])
     @ (if 0 < ema200
        then let dist_pct = fdiv (fsub close ema200) ema200
             in if 0 < dist_pct \<and> dist_pct \<le> f64 0.01 then [Ema200Support interval]
                else if - f64 0.01 \<le> dist_pct \<and> dist_pct < 0 then [Ema200Resistance interval] else []
        else [])
     @ (if f64 1.5 \<le> vol_ratio then [VolumeSurge interval] else [])"

definition analyze_frame :: "indicators \<Rightarrow> frame option \<Rightarrow> string \<Rightarrow> string \<Rightarrow> timeframe_analysis option" where
  "analyze_frame ind frame symbol interval =
     (if \<not> validate_frame frame then None
      else
        let df = the frame;
            close = last (column df ''close'');
            (macd_line, signal_line, histogram) = in_macd ind df;
            (upper, middle, lower) = in_bollinger ind df;
            rsi = last_valid (in_rsi ind df) 50;
            hist = last_valid histogram 0;
            prev_hist = nth_last histogram 2 0;
            ema9 = last_valid (in_ema ind df 9) close;
            ema21 = last_valid (in_ema ind df 21) close;
            ema50 = last_valid (in_ema ind df 50) close;
            ema200 = last_valid (in_ema ind df 200) close;
            bb_u = last_valid upper close;
            bb_m = last_valid middle close;
            bb_l = last_valid lower close;
            atr = last_valid (in_atr ind df) 0;
            prev_atr = nth_last (in_atr ind df) 2 0;
            vol_now = last (column df ''volume'');
            vol_ma20 = last_valid (in_volume_ma ind df) 1;
            pct_b = (if 0 < fsub bb_u bb_l then fdiv (fsub close bb_l) (fsub bb_u bb_l) else f64 0.5);
            bandwidth = (if 0 < bb_m then fmul (fdiv (fsub bb_u bb_l) bb_m) 100 else 0);
            vol_ratio = (if 0 < vol_ma20 then fdiv vol_now vol_ma20 else 1);
            score = calculate_timeframe_score
              (calculate_trend_score (score_ema_alignment ema9 ema21 ema50 ema200) (score_macd hist prev_hist))
              (calculate_momentum_score (score_rsi rsi))
              (calculate_volatility_score (score_bollinger close bb_u bb_l) atr prev_atr)
              (score_volume vol_now vol_ma20)
        in Some
          \<lparr>ta_symbol = symbol, ta_timeframe = interval, ta_close = close, ta_rsi = rsi,
           ta_macd = \<lparr>md_macd = last_valid macd_line 0, md_signal = last_valid signal_line 0,
                      md_histogram = hist, md_cross = determine_macd_cross hist prev_hist\<rparr>,
           ta_ema = \<lparr>em_ema9 = ema9, em_ema21 = ema21, em_ema50 = ema50, em_ema200 = ema200,
                     em_alignment = determine_ema_alignment ema9 ema21 ema50 ema200\<rparr>,
           ta_atr = atr, ta_vwap = last_valid (in_vwap ind df) close,
           ta_bb = \<lparr>bb_upper = bb_u, bb_middle = bb_m, bb_lower = bb_l,
                    bb_pos = determine_bb_position close bb_u bb_l,
                    bb_bandwidth = bandwidth, bb_percent_b = pct_b\<rparr>,
           ta_volume_ratio = vol_ratio, ta_score = score, ta_verdict = score_to_signal score,
           ta_fired = detect_signals interval rsi hist prev_hist close pct_b ema200 vol_ratio\<rparr>)"

section \<open>All timeframes\<close>

fun analyze_all ::
    "indicators \<Rightarrow> string \<Rightarrow> (string, frame option) pydict \<Rightarrow>
       (string, rat) pydict \<times> (string, timeframe_analysis) pydict \<times> fired list \<Rightarrow>
       (string, rat) pydict \<times> (string, timeframe_analysis) pydict \<times> fired list" where
  "analyze_all ind symbol [] acc = acc"
| "analyze_all ind symbol ((interval, df) # rest) (scores, analyses, signals) =
     analyze_all ind symbol rest
       (case analyze_frame ind df symbol interval of
          Some r \<Rightarrow> (AList.update interval (ta_score r) scores, AList.update interval r analyses,
                    signals @ ta_fired r)
        | None \<Rightarrow> (AList.update interval 0 scores, analyses, signals))"

fun richest_frame :: "frame option list \<Rightarrow> frame option \<Rightarrow> frame option" where
  "richest_frame [] best = best"
| "richest_frame (f # fs) best =
     richest_frame fs
       (case f of None \<Rightarrow> best
        | Some df \<Rightarrow> if fr_rows df = 0 then best
            else (case best of None \<Rightarrow> Some df
                  | Some b \<Rightarrow> if fr_rows b < fr_rows df then Some df else best))"

definition extract_sr_levels :: "indicators \<Rightarrow> (string, frame option) pydict \<Rightarrow> rat list \<times> rat list" where
  "extract_sr_levels ind ohlcv =
     (case richest_frame (dict_values ohlcv) None of
        None \<Rightarrow> ([], [])
      | Some df \<Rightarrow> if fr_rows df < 10 then ([], [])
          else (case in_levels ind df of Inl e \<Rightarrow> ([], []) | Inr lv \<Rightarrow> lv))"

fun latest_close_of :: "string list \<Rightarrow> (string, frame option) pydict \<Rightarrow> rat" where
  "latest_close_of [] ohlcv = 0"
| "latest_close_of (i # is) ohlcv =
     (case map_of ohlcv i of
        Some (Some df) \<Rightarrow>
          (if fr_rows df \<noteq> 0 \<and> map_of (fr_columns df) ''close'' \<noteq> None
           then last (column df ''close'') else latest_close_of is ohlcv)
      | _ \<Rightarrow> latest_close_of is ohlcv)"

definition get_latest_close :: "(string, frame option) pydict \<Rightarrow> rat" where
  "get_latest_close = latest_close_of [''1m'', ''5m'', ''15m'', ''1h'', ''4h'', ''1d'']"

definition technical_run ::
    "indicators \<Rightarrow> (string, frame option) pydict \<Rightarrow> string \<Rightarrow> string option \<Rightarrow> technical_result" where
  "technical_run ind ohlcv coin symbol =
     (let symbol = (case symbol of Some s \<Rightarrow> s | None \<Rightarrow> coin @ ''USDT'');
          (scores, analyses, signals) = analyze_all ind symbol ohlcv ([], [], []);
          (supports, resistances) = extract_sr_levels ind ohlcv
      in \<lparr>tr_coin = coin, tr_symbol = symbol, tr_tech_score = aggregate_timeframe_scores scores,
          tr_timeframe_scores = scores, tr_analyses = analyses, tr_fired = set signals,
          tr_support_levels = supports, tr_resistance_levels = resistances,
          tr_latest_close = get_latest_close ohlcv\<rparr>)"

section \<open>Market structure\<close>

definition score_funding_rate :: "rat \<Rightarrow> rat" where
  "score_funding_rate rate =
     (if f64 0.003 \<le> rate then -1 else if f64 0.001 \<le> rate then - f64 0.6
      else if f64 0.0001 \<le> rate then - f64 0.2 else if - f64 0.0001 \<le> rate then 0
      else if - f64 0.001 \<le> rate then f64 0.2 else if - f64 0.003 \<le> rate then f64 0.6 else 1)"

definition score_oi_change :: "rat \<Rightarrow> rat \<Rightarrow> rat" where
  "score_oi_change oi_change_pct price_change_pct =
     (if 2 < oi_change_pct \<and> 0 < price_change_pct then f64 0.8
      else if 2 < oi_change_pct \<and> price_change_pct < 0 then - f64 0.8
      else if oi_change_pct < -2 then 0
      else unit_clamp (fmul oi_change_pct (f64 0.2)))"

definition score_long_short :: "rat \<Rightarrow> rat" where
  "score_long_short ratio =
     (if 2 \<le> ratio then -1 else if f64 1.5 \<le> ratio then - f64 0.6
      else if f64 1.2 \<le> ratio then - f64 0.2 else if f64 0.8 \<le> ratio then 0
      else if f64 0.7 \<le> ratio then f64 0.2 else if f64 0.5 \<le> ratio then f64 0.6 else 1)"

definition score_taker_ratio :: "rat \<Rightarrow> rat" where
  "score_taker_ratio ratio =
     (if f64 1.5 \<le> ratio then 1 else if f64 1.2 \<le> ratio then f64 0.6
      else if f64 1.05 \<le> ratio then f64 0.2 else if f64 0.95 \<le> ratio then 0
      else if f64 0.8 \<le> ratio then - f64 0.2 else if f64 0.6 \<le> ratio then - f64 0.6 else -1)"

definition combine_market_scores :: "rat \<Rightarrow> rat \<Rightarrow> rat \<Rightarrow> rat \<Rightarrow> rat" where
  "combine_market_scores funding oi long_short taker =
     unit_clamp (fadd (fadd (fadd (fmul funding (f64 0.35)) (fmul oi (f64 0.3)))
       (fmul long_short (f64 0.2))) (fmul taker (f64 0.15)))"

datatype whale_activity = ACCUMULATING | DISTRIBUTING | WHALE_NEUTRAL
datatype structure_regime = BULLISH_STRUCTURE | BEARISH_STRUCTURE | RANGING

definition determine_whale_activity :: "rat \<Rightarrow> rat \<Rightarrow> whale_activity" where
  "determine_whale_activity whale_volume_usdt price_change_pct =
     (if whale_volume_usdt < 500000 then WHALE_NEUTRAL
      else if 0 \<le> price_change_pct then ACCUMULATING else DISTRIBUTING)"

definition determine_market_regime :: "rat \<Rightarrow> structure_regime" where
  "determine_market_regime combined_score =
     (if f64 0.3 \<le> combined_score then BULLISH_STRUCTURE
      else if combined_score \<le> - f64 0.3 then BEARISH_STRUCTURE else RANGING)"

record market_structure_data =
  sd_symbol :: string
  sd_funding_rate :: rat
  sd_open_interest :: rat
  sd_open_interest_prev :: rat
  sd_price_current :: rat
  sd_price_1h_ago :: rat
  sd_long_short_ratio :: rat
  sd_long_account_pct :: rat
  sd_taker_long_short_ratio :: rat
  sd_whale_volume_usdt :: rat

record market_structure_result =
  mx_coin :: string
  mx_symbol :: string
  mx_market_score :: rat
  mx_funding_score :: rat
  mx_oi_score :: rat
  mx_long_short_score :: rat
  mx_taker_score :: rat
  mx_funding_rate :: rat
  mx_oi_1h_change_pct :: rat
  mx_long_short_ratio :: rat
  mx_long_account_pct :: rat
  mx_whale_activity :: whale_activity
  mx_market_regime :: structure_regime

definition mx_neutral :: "string \<Rightarrow> string \<Rightarrow> market_structure_result" where
  "mx_neutral coin symbol =
     \<lparr>mx_coin = coin, mx_symbol = symbol, mx_market_score = 0, mx_funding_score = 0,
      mx_oi_score = 0, mx_long_short_score = 0, mx_taker_score = 0, mx_funding_rate = 0,
      mx_oi_1h_change_pct = 0, mx_long_short_ratio = 1, mx_long_account_pct = 50,
      mx_whale_activity = WHALE_NEUTRAL, mx_market_regime = RANGING\<rparr>"

definition pct_change :: "rat \<Rightarrow> rat \<Rightarrow> rat" where
  "pct_change now before = (if 0 < before then fmul (fdiv (fsub now before) before) 100 else 0)"

definition structure_score :: "string \<Rightarrow> market_structure_data \<Rightarrow> market_structure_result" where
  "structure_score coin d =
     (let oi_change_pct = pct_change (sd_open_interest d) (sd_open_interest_prev d);
          price_change_pct = pct_change (sd_price_current d) (sd_price_1h_ago d);
          f = score_funding_rate (sd_funding_rate d);
          oi = score_oi_change oi_change_pct price_change_pct;
          ls = score_long_short (sd_long_short_ratio d);
          tk = score_taker_ratio (sd_taker_long_short_ratio d);
          combined = combine_market_scores f oi ls tk
      in \<lparr>mx_coin = coin, mx_symbol = sd_symbol d, mx_market_score = fround 4 combined,
          mx_funding_score = fround 4 f, mx_oi_score = fround 4 oi,
          mx_long_short_score = fround 4 ls, mx_taker_score = fround 4 tk,
          mx_funding_rate = sd_funding_rate d, mx_oi_1h_change_pct = fround 2 oi_change_pct,
          mx_long_short_ratio = sd_long_short_ratio d, mx_long_account_pct = sd_long_account_pct d,
          mx_whale_activity = determine_whale_activity (sd_whale_volume_usdt d) price_change_pct,
          mx_market_regime = determine_market_regime combined\<rparr>)"

text \<open>
  \<open>_fetch_all\<close>: every request that failed (\<open>None\<close>) takes its neutral value; the previous
  open interest is an estimate from the present one.
\<close>

record exchange_answers =
  xa_funding :: "rat option"
  xa_open_interest :: "rat option"
  xa_prices :: "(rat \<times> rat) option"
  xa_long_short :: "rat option"
  xa_long_account :: "rat option"
  xa_taker :: "rat option"

definition opt_or :: "'a option \<Rightarrow> 'a \<Rightarrow> 'a" where
  "opt_or x d = (case x of Some v \<Rightarrow> v | None \<Rightarrow> d)"

definition structure_data :: "string \<Rightarrow> exchange_answers \<Rightarrow> market_structure_data" where
  "structure_data symbol a =
     (let oi_now = opt_or (xa_open_interest a) 0;
          (price_now, price_1h) = opt_or (xa_prices a) (0, 0)
      in \<lparr>sd_symbol = symbol, sd_funding_rate = opt_or (xa_funding a) 0,
          sd_open_interest = oi_now, sd_open_interest_prev = fmul oi_now (f64 0.99),
          sd_price_current = price_now,
          sd_price_1h_ago = (if price_1h \<noteq> 0 then price_1h else fmul price_now (f64 0.99)),
          sd_long_short_ratio = opt_or (xa_long_short a) 1,
          sd_long_account_pct = fmul (opt_or (xa_long_account a) (f64 0.5)) 100,
          sd_taker_long_short_ratio = opt_or (xa_taker a) 1, sd_whale_volume_usdt = 0\<rparr>)"

text \<open>\<open>analyze\<close>: \<open>None\<close> when fetching as a whole raised.\<close>

definition structure_analyze :: "string \<Rightarrow> string \<Rightarrow> exchange_answers option \<Rightarrow> market_structure_result" where
  "structure_analyze coin symbol answers =
     (case answers of None \<Rightarrow> mx_neutral coin symbol
      | Some a \<Rightarrow> structure_score coin (structure_data symbol a))"

section \<open>Sentiment\<close>

datatype sentiment_label = POSITIVE | NEGATIVE | NEUTRAL_NEWS

record news_item =
  ni_headline :: string
  ni_sentiment :: sentiment_label
  ni_confidence :: rat
  ni_score :: rat

record fear_greed =
  fg_index :: int
  fg_label :: string
  fg_score :: rat

definition FEAR_GREED_LABELS :: "((int \<times> int) \<times> string) list" where
  "FEAR_GREED_LABELS = [((0, 24), ''Extreme Fear''), ((25, 44), ''Fear''), ((45, 55), ''Neutral''),
     ((56, 74), ''Greed''), ((75, 100), ''Extreme Greed'')]"

definition label_fear_greed :: "int \<Rightarrow> string" where
  "label_fear_greed index =
     (case find (\<lambda>((lo, hi), label). lo \<le> index \<and> index \<le> hi) FEAR_GREED_LABELS of
        Some (r, label) \<Rightarrow> label | None \<Rightarrow> ''Unknown'')"

definition normalize_fear_greed :: "int \<Rightarrow> rat" where
  "normalize_fear_greed index = fdiv (of_int (50 - index)) 50"

text \<open>The classifier's answer: a label, already lower-cased, and its confidence.\<close>

definition make_item :: "string \<Rightarrow> string \<times> rat \<Rightarrow> news_item" where
  "make_item headline r =
     (case r of (label, confidence) \<Rightarrow>
        if label = ''positive''
        then \<lparr>ni_headline = headline, ni_sentiment = POSITIVE, ni_confidence = confidence,
              ni_score = confidence\<rparr>
        else if label = ''negative''
        then \<lparr>ni_headline = headline, ni_sentiment = NEGATIVE, ni_confidence = confidence,
              ni_score = - confidence\<rparr>
        else \<lparr>ni_headline = headline, ni_sentiment = NEUTRAL_NEWS, ni_confidence = confidence,
              ni_score = 0\<rparr>)"

text \<open>Weights 1, 1/2, 1/3, \<dots> on the newest headline first.\<close>

definition recency_weights :: "nat \<Rightarrow> rat list" where
  "recency_weights n = map (\<lambda>i. fdiv 1 (of_nat (i + 1))) [0..<n]"

definition recency_average :: "rat list \<Rightarrow> rat" where
  "recency_average scores =
     (let weights = recency_weights (length scores)
      in fdiv (fsum (map2 fmul scores weights)) (fsum weights))"

definition calculate_news_score ::
    "(string list \<Rightarrow> (string \<times> rat) list) \<Rightarrow> string list \<Rightarrow> (rat \<times> news_item list) result" where
  "calculate_news_score classifier headlines =
     (if headlines = [] then Inr (0, [])
      else let items = map2 make_item headlines (classifier headlines)
           in if fsum (recency_weights (length items)) = 0 then Inl DivisionByZero
              else Inr (recency_average (map ni_score items), items))"

definition combine_sentiment_scores :: "rat \<Rightarrow> rat \<Rightarrow> rat" where
  "combine_sentiment_scores news_score fear_greed_score =
     unit_clamp (fadd (fmul news_score (f64 0.65)) (fmul fear_greed_score (f64 0.35)))"

definition determine_dominant_sentiment :: "rat \<Rightarrow> sentiment_label" where
  "determine_dominant_sentiment score =
     (if f64 0.1 < score then POSITIVE else if score < - f64 0.1 then NEGATIVE else NEUTRAL_NEWS)"

record sentiment_result =
  st_coin :: string
  st_sentiment_score :: rat
  st_news_score :: rat
  st_fear_greed_score :: rat
  st_fear_greed_index :: int
  st_fear_greed_label :: string
  st_dominant :: sentiment_label
  st_news_items :: "news_item list"
  st_news_analyzed :: nat
  st_cache_used :: bool

definition st_neutral :: "string \<Rightarrow> bool \<Rightarrow> sentiment_result" where
  "st_neutral coin cache_used =
     \<lparr>st_coin = coin, st_sentiment_score = 0, st_news_score = 0, st_fear_greed_score = 0,
      st_fear_greed_index = 50, st_fear_greed_label = ''Neutral'', st_dominant = NEUTRAL_NEWS,
      st_news_items = [], st_news_analyzed = 0, st_cache_used = cache_used\<rparr>"

definition sentiment_analyze ::
    "(string list \<Rightarrow> (string \<times> rat) list) \<Rightarrow> string \<Rightarrow> fear_greed option \<Rightarrow> fear_greed \<Rightarrow>
       string list option \<Rightarrow> string list \<Rightarrow> sentiment_result result" where
  "sentiment_analyze classifier coin cached_fear_greed fetched_fear_greed cached_headlines
       fetched_headlines =
     (let fg = opt_or cached_fear_greed fetched_fear_greed;
          headlines = opt_or cached_headlines fetched_headlines
      in ebind (calculate_news_score classifier headlines) (\<lambda>(news_score, items).
         let score = combine_sentiment_scores news_score (fg_score fg)
         in Inr
           \<lparr>st_coin = coin, st_sentiment_score = fround 4 score, st_news_score = fround 4 news_score,
            st_fear_greed_score = fround 4 (fg_score fg), st_fear_greed_index = fg_index fg,
            st_fear_greed_label = fg_label fg, st_dominant = determine_dominant_sentiment score,
            st_news_items = items, st_news_analyzed = length items,
            st_cache_used = (cached_fear_greed \<noteq> None \<or> cached_headlines \<noteq> None)\<rparr>))"

end
