(* ===== verification/Strategy.thy ===== *)
theory Strategy
  imports DecisionModels MarketAnalysis "HOL-Library.Product_Lexorder"
begin

text \<open>
  \<open>agents/strategy\<close>: the three strategies, their aggregation by majority, the candidates that
  pass a regime's playbook (\<open>agents/decision/strategy_selector.py\<close>) and the bridge to the risk
  engine. Reason texts and the list of fired signals are left out.
\<close>

section \<open>Data\<close>

datatype trade_dir = GO_LONG | GO_SHORT | NO_TRADE

definition CONFIDENCE_LEVERAGE :: "(rat \<times> int) list" where
  "CONFIDENCE_LEVERAGE =
     [(f64 0.95, 15), (f64 0.9, 10), (f64 0.8, 7), (f64 0.7, 5), (f64 0.6, 3)]"

definition confidence_to_leverage :: "rat \<Rightarrow> int" where
  "confidence_to_leverage confidence =
     (case find (\<lambda>(threshold, lev). threshold \<le> confidence) CONFIDENCE_LEVERAGE of
        Some (t, lev) \<Rightarrow> lev | None \<Rightarrow> 3)"

record strategy_signal =
  gs_strategy_name :: string
  gs_direction :: trade_dir
  gs_confidence :: rat
  gs_entry :: rat
  gs_take_profit :: "rat option"
  gs_stop_loss :: "rat option"
  gs_leverage :: int
  gs_rr_ratio :: rat

record strategy_candidate =
  cd_strategy_name :: string
  cd_source_strategy :: string
  cd_direction :: trade_dir
  cd_confidence :: rat
  cd_entry :: rat
  cd_take_profit :: rat
  cd_stop_loss :: rat
  cd_leverage :: int
  cd_rr_ratio :: rat

record strategy_input =
  si_coin :: string
  si_symbol :: string
  si_current_price :: rat
  si_ta_result :: technical_result

record aggregated_signal =
  ag_direction :: trade_dir
  ag_confidence :: rat
  ag_entry :: rat
  ag_take_profit :: "rat option"
  ag_stop_loss :: "rat option"
  ag_leverage :: int
  ag_rr_ratio :: rat
  ag_contributing :: "string list"
  ag_all_signals :: "strategy_signal list"
  ag_candidates :: "strategy_candidate list"

section \<open>Signals\<close>

definition TARGET_RR :: rat where "TARGET_RR = f64 2.5"

definition no_trade_signal :: "string \<Rightarrow> rat \<Rightarrow> strategy_signal" where
  "no_trade_signal name entry =
     \<lparr>gs_strategy_name = name, gs_direction = NO_TRADE, gs_confidence = 0, gs_entry = entry,
      gs_take_profit = None, gs_stop_loss = None, gs_leverage = 1, gs_rr_ratio = 0\<rparr>"

text \<open>\<open>Decimal(str(round(x, 2)))\<close> of a float.\<close>

definition price2 :: "rat \<Rightarrow> rat" where "price2 x = repr10 (fround 2 x)"

definition build_signal ::
    "string \<Rightarrow> trade_dir \<Rightarrow> rat \<Rightarrow> rat \<Rightarrow> rat \<Rightarrow> rat \<Rightarrow> strategy_signal result" where
  "build_signal name dir confidence entry sl_distance rr =
     (if \<not> 0 < sl_distance then Inl AssertionError
      else
        let sl = (if dir = GO_LONG then fsub entry sl_distance else fadd entry sl_distance);
            tp = (if dir = GO_LONG then fadd entry (fmul sl_distance rr)
                  else fsub entry (fmul sl_distance rr))
        in Inr
          \<lparr>gs_strategy_name = name, gs_direction = dir,
           gs_confidence = fround 4 (min confidence 1), gs_entry = price2 entry,
           gs_take_profit = Some (price2 tp), gs_stop_loss = Some (price2 sl),
           gs_leverage = confidence_to_leverage confidence, gs_rr_ratio = fround 2 rr\<rparr>)"

section \<open>Following the trend\<close>

definition MIN_ATR :: rat where "MIN_ATR = 1"
definition EMA_SL_ATR_MULT :: rat where "EMA_SL_ATR_MULT = f64 1.5"

definition ema_trend_direction :: "timeframe_analysis \<Rightarrow> rat \<Rightarrow> trade_dir" where
  "ema_trend_direction t price =
     (let e = ta_ema t; h = md_histogram (ta_macd t)
      in if em_ema21 e < em_ema9 e \<and> em_ema50 e < em_ema21 e \<and> em_ema50 e < price \<and> 0 < h
         then GO_LONG
         else if em_ema9 e < em_ema21 e \<and> em_ema21 e < em_ema50 e \<and> price < em_ema50 e \<and> h < 0
         then GO_SHORT else NO_TRADE)"

definition ema_trend_confidence :: "timeframe_analysis \<Rightarrow> trade_dir \<Rightarrow> rat" where
  "ema_trend_confidence t dir =
     (let e = ta_ema t;
          c = f64 0.55;
          c = (if dir = GO_LONG \<and> em_ema200 e < em_ema50 e
                 \<or> dir = GO_SHORT \<and> em_ema50 e < em_ema200 e then fadd c (f64 0.1) else c);
          c = (if dir = GO_LONG \<and> md_cross (ta_macd t) = BULLISH_CROSS
                 \<or> dir = GO_SHORT \<and> md_cross (ta_macd t) = BEARISH_CROSS then fadd c (f64 0.08) else c);
          c = (if f64 1.5 \<le> ta_volume_ratio t then fadd c (f64 0.05)
               else if 1 \<le> ta_volume_ratio t then fadd c (f64 0.02) else c)
      in if dir = GO_LONG \<and> ta_rsi t < 60 \<or> dir = GO_SHORT \<and> 40 < ta_rsi t
         then fadd c (f64 0.05) else c)"

definition ema_trend_evaluate :: "string \<Rightarrow> strategy_input \<Rightarrow> strategy_signal result" where
  "ema_trend_evaluate tf inp =
     (case map_of (tr_analyses (si_ta_result inp)) tf of
        None \<Rightarrow> Inr (no_trade_signal ''ema_trend'' (si_current_price inp))
      | Some t \<Rightarrow>
          let atr = max (ta_atr t) MIN_ATR;
              price = f64 (si_current_price inp);
              dir = ema_trend_direction t price
          in if dir = NO_TRADE then Inr (no_trade_signal ''ema_trend'' (si_current_price inp))
             else build_signal ''ema_trend'' dir (ema_trend_confidence t dir) price
                    (fmul EMA_SL_ATR_MULT atr) TARGET_RR)"

section \<open>Reversal at the bands\<close>

definition RSI_SL_ATR_MULT :: rat where "RSI_SL_ATR_MULT = 1"

definition reversal_direction :: "timeframe_analysis \<Rightarrow> trade_dir" where
  "reversal_direction t =
     (if ta_rsi t \<le> 35 \<and> bb_percent_b (ta_bb t) \<le> f64 0.25 then GO_LONG
      else if 65 \<le> ta_rsi t \<and> f64 0.75 \<le> bb_percent_b (ta_bb t) then GO_SHORT else NO_TRADE)"

definition rsi_base_confidence :: "rat \<Rightarrow> trade_dir \<Rightarrow> rat" where
  "rsi_base_confidence rsi dir =
     (if dir = GO_LONG
      then (if rsi \<le> 25 then f64 0.78 else if rsi \<le> 30 then f64 0.68 else f64 0.58)
      else (if 75 \<le> rsi then f64 0.78 else if 70 \<le> rsi then f64 0.68 else f64 0.58))"

definition reversal_confidence :: "timeframe_analysis \<Rightarrow> trade_dir \<Rightarrow> rat" where
  "reversal_confidence t dir =
     (let b = bb_percent_b (ta_bb t);
          m = ta_macd t;
          c = rsi_base_confidence (ta_rsi t) dir;
          c = (if dir = GO_LONG \<and> b \<le> f64 0.1 \<or> dir = GO_SHORT \<and> f64 0.9 \<le> b
               then fadd c (f64 0.05) else c)
      in if dir = GO_LONG \<and> md_cross m = BULLISH_CROSS \<or> dir = GO_SHORT \<and> md_cross m = BEARISH_CROSS
         then fadd c (f64 0.08)
         else if dir = GO_LONG \<and> 0 < md_histogram m \<or> dir = GO_SHORT \<and> md_histogram m < 0
         then fadd c (f64 0.03) else c)"

definition rsi_reversal_evaluate :: "string \<Rightarrow> strategy_input \<Rightarrow> strategy_signal result" where
  "rsi_reversal_evaluate tf inp =
     (case map_of (tr_analyses (si_ta_result inp)) tf of
        None \<Rightarrow> Inr (no_trade_signal ''rsi_reversal'' (si_current_price inp))
      | Some t \<Rightarrow>
          let atr = max (ta_atr t) MIN_ATR;
              price = f64 (si_current_price inp);
              dir = reversal_direction t;
              sl_distance = fmul RSI_SL_ATR_MULT atr;
              bb_tp_distance = (if dir = GO_LONG then fsub (bb_middle (ta_bb t)) price
                                else fsub price (bb_middle (ta_bb t)));
              tp_distance = max bb_tp_distance (fmul sl_distance TARGET_RR);
              actual_rr = (if 0 < sl_distance then fdiv tp_distance sl_distance else TARGET_RR)
          in if dir = NO_TRADE then Inr (no_trade_signal ''rsi_reversal'' (si_current_price inp))
             else build_signal ''rsi_reversal'' dir (reversal_confidence t dir) price sl_distance
                    actual_rr)"

section \<open>Breakout\<close>

definition BREAKOUT_WINDOW :: rat where "BREAKOUT_WINDOW = f64 0.02"
definition SL_BUFFER_PCT :: rat where "SL_BUFFER_PCT = f64 0.003"
definition MIN_SL_ATR_MULT :: rat where "MIN_SL_ATR_MULT = f64 0.5"
definition VOLUME_THRESHOLD :: rat where "VOLUME_THRESHOLD = f64 1.5"

definition max_of :: "rat list \<Rightarrow> rat option" where
  "max_of xs = (if xs = [] then None else Some (fold max (tl xs) (hd xs)))"

definition min_of :: "rat list \<Rightarrow> rat option" where
  "min_of xs = (if xs = [] then None else Some (fold min (tl xs) (hd xs)))"

definition find_broken_level_below :: "rat \<Rightarrow> rat list \<Rightarrow> rat \<Rightarrow> rat option" where
  "find_broken_level_below price levels window =
     max_of (filter (\<lambda>lv. fmul price (fsub 1 window) \<le> lv \<and> lv < price) levels)"

definition find_broken_level_above :: "rat \<Rightarrow> rat list \<Rightarrow> rat \<Rightarrow> rat option" where
  "find_broken_level_above price levels window =
     min_of (filter (\<lambda>lv. price < lv \<and> lv \<le> fmul price (fadd 1 window)) levels)"

definition find_next_level_above :: "rat \<Rightarrow> rat list \<Rightarrow> rat option" where
  "find_next_level_above price levels = min_of (filter (\<lambda>lv. price < lv) levels)"

definition find_next_level_below :: "rat \<Rightarrow> rat list \<Rightarrow> rat option" where
  "find_next_level_below price levels = max_of (filter (\<lambda>lv. lv < price) levels)"

text \<open>Truth of an optional float: \<open>None\<close> and 0.0 are false.\<close>

definition level_set :: "rat option \<Rightarrow> bool" where "level_set lv \<longleftrightarrow> lv \<noteq> None \<and> lv \<noteq> Some 0"

definition broken_level :: "rat \<Rightarrow> rat option \<Rightarrow> rat option \<Rightarrow> (trade_dir \<times> rat) option" where
  "broken_level price resistance support =
     (if level_set resistance \<and> \<not> level_set support then Some (GO_LONG, the resistance)
      else if level_set support \<and> \<not> level_set resistance then Some (GO_SHORT, the support)
      else if level_set resistance \<and> level_set support
      then (if fsub price (the resistance) \<le> fsub (the support) price
            then Some (GO_LONG, the resistance) else Some (GO_SHORT, the support))
      else None)"

definition breakout_confidence :: "rat \<Rightarrow> rat \<Rightarrow> alignment \<Rightarrow> trade_dir \<Rightarrow> rat" where
  "breakout_confidence volume_ratio tech_score ema_alignment dir =
     (let c = f64 0.6;
          c = (if f64 2.5 \<le> volume_ratio then fadd c (f64 0.1)
               else if 2 \<le> volume_ratio then fadd c (f64 0.06)
               else if f64 1.5 \<le> volume_ratio then fadd c (f64 0.02) else c);
          c = (if dir = GO_LONG \<and> f64 0.3 \<le> tech_score then fadd c (f64 0.05)
               else if dir = GO_SHORT \<and> tech_score \<le> - f64 0.3 then fadd c (f64 0.05) else c);
          c = (if dir = GO_LONG \<and> ema_alignment = BULLISH_EMA
                 \<or> dir = GO_SHORT \<and> ema_alignment = BEARISH_EMA then fadd c (f64 0.05) else c)
      in min c 1)"

definition breakout_levels :: "rat \<Rightarrow> technical_result \<Rightarrow> (trade_dir \<times> rat) option" where
  "breakout_levels price r =
     broken_level price (find_broken_level_below price (tr_resistance_levels r) BREAKOUT_WINDOW)
       (find_broken_level_above price (tr_support_levels r) BREAKOUT_WINDOW)"

definition breakout_sl_distance :: "rat \<Rightarrow> rat \<Rightarrow> trade_dir \<Rightarrow> rat \<Rightarrow> rat" where
  "breakout_sl_distance price atr dir level =
     max (if dir = GO_LONG then fsub price (fmul level (fsub 1 SL_BUFFER_PCT))
          else fsub (fmul level (fadd 1 SL_BUFFER_PCT)) price)
       (fmul MIN_SL_ATR_MULT atr)"

definition breakout_tp_distance :: "rat \<Rightarrow> technical_result \<Rightarrow> trade_dir \<Rightarrow> rat \<Rightarrow> rat" where
  "breakout_tp_distance price r dir sl_distance =
     (let next_level = (if dir = GO_LONG then find_next_level_above price (tr_resistance_levels r)
                        else find_next_level_below price (tr_support_levels r));
          ideal = (if level_set next_level
                   then (if dir = GO_LONG then fsub (the next_level) price
                         else fsub price (the next_level)) else 0)
      in max ideal (fmul sl_distance TARGET_RR))"

definition breakout_evaluate :: "string \<Rightarrow> strategy_input \<Rightarrow> strategy_signal result" where
  "breakout_evaluate tf inp =
     (let r = si_ta_result inp;
          nothing = Inr (no_trade_signal ''breakout'' (si_current_price inp))
      in case map_of (tr_analyses r) tf of
           None \<Rightarrow> nothing
         | Some t \<Rightarrow>
             if ta_volume_ratio t < VOLUME_THRESHOLD then nothing
             else
               let price = f64 (si_current_price inp);
                   atr = max (ta_atr t) MIN_ATR
               in case breakout_levels price r of
                    None \<Rightarrow> nothing
                  | Some (dir, level) \<Rightarrow>
                      let sl_distance = breakout_sl_distance price atr dir level;
                          tp_distance = breakout_tp_distance price r dir sl_distance
                      in if sl_distance = 0 then Inl DivisionByZero
                         else build_signal ''breakout'' dir
                                (breakout_confidence (ta_volume_ratio t) (tr_tech_score r)
                                   (em_alignment (ta_ema t)) dir)
                                price sl_distance (fdiv tp_distance sl_distance))"

section \<open>The regime playbook\<close>

definition REGIME_ALLOWED_STRATEGIES :: "market_regime \<Rightarrow> string list" where
  "REGIME_ALLOWED_STRATEGIES r =
     (if r = TREND_UP \<or> r = TREND_DOWN
      then [''TREND_FOLLOWING'', ''TREND_PULLBACK'', ''BREAKOUT'', ''BREAKOUT_RETEST'', ''INTRADAY'']
      else if r = RANGE then [''MEAN_REVERSION'', ''RSI_REVERSAL'', ''SCALPING'', ''INTRADAY'']
      else [])"

definition upper_char :: "char \<Rightarrow> char" where
  "upper_char c = (let n = (of_char c :: nat) in if 97 \<le> n \<and> n \<le> 122 then char_of (n - 32) else c)"

definition is_space :: "char \<Rightarrow> bool" where
  "is_space c \<longleftrightarrow> (let n = (of_char c :: nat) in n = 32 \<or> 9 \<le> n \<and> n \<le> 13 \<or> 28 \<le> n \<and> n \<le> 31)"

definition py_strip :: "string \<Rightarrow> string" where
  "py_strip s = rev (dropWhile is_space (rev (dropWhile is_space s)))"

text \<open>Code equations on the bits of a character.\<close>

lemma upper_char_code [code]:
  "upper_char (Char b0 b1 b2 b3 b4 b5 b6 b7) =
     (if b6 \<and> b5 \<and> \<not> b7 \<and> (b0 \<or> b1 \<or> b2 \<or> b3 \<or> b4) \<and> \<not> (b4 \<and> b3 \<and> (b2 \<or> b1 \<and> b0))
      then Char b0 b1 b2 b3 b4 False b6 b7 else Char b0 b1 b2 b3 b4 b5 b6 b7)"
  by (cases b0; cases b1; cases b2; cases b3; cases b4; cases b5; cases b6; cases b7)
    (simp_all add: upper_char_def char_of_def bit_0)

lemma is_space_code [code]:
  "is_space (Char b0 b1 b2 b3 b4 b5 b6 b7) \<longleftrightarrow> \<not> b7 \<and> \<not> b6 \<and>
     (b5 \<and> \<not> b4 \<and> \<not> b3 \<and> \<not> b2 \<and> \<not> b1 \<and> \<not> b0 \<or>
      \<not> b5 \<and> \<not> b4 \<and> b3 \<and> (b2 \<and> \<not> b1 \<or> \<not> b2 \<and> (b1 \<or> b0)) \<or>
      \<not> b5 \<and> b4 \<and> b3 \<and> b2)"
  by (cases b0; cases b1; cases b2; cases b3; cases b4; cases b5; cases b6; cases b7)
    (simp_all add: is_space_def)

definition STRATEGY_ALIASES :: "string \<rightharpoonup> string" where
  "STRATEGY_ALIASES = map_of
     [(''TREND'', ''TREND_FOLLOWING''), (''TREND_PULLBACK_LONG'', ''TREND_PULLBACK''),
      (''TREND_PULLBACK_SHORT'', ''TREND_PULLBACK''), (''PULLBACK'', ''TREND_PULLBACK''),
      (''BREAKOUT_RETEST_LONG'', ''BREAKOUT_RETEST''), (''BREAKOUT_RETEST_SHORT'', ''BREAKOUT_RETEST''),
      (''RETEST'', ''BREAKOUT_RETEST''), (''RANGE_MEAN_REVERSION'', ''MEAN_REVERSION''),
      (''MEAN_REVERSION_LONG'', ''MEAN_REVERSION''), (''MEAN_REVERSION_SHORT'', ''MEAN_REVERSION'')]"

definition strategy_key :: "string \<Rightarrow> string" where
  "strategy_key name = (let key = map upper_char (py_strip name)
     in case STRATEGY_ALIASES key of Some k \<Rightarrow> k | None \<Rightarrow> key)"

definition is_strategy_allowed_for_regime :: "string \<Rightarrow> market_regime \<Rightarrow> bool" where
  "is_strategy_allowed_for_regime name r \<longleftrightarrow>
     List.member (REGIME_ALLOWED_STRATEGIES r) (strategy_key name)"

section \<open>Candidates and the majority\<close>

definition SIGNAL_TO_CANDIDATE_NAME :: "string \<rightharpoonup> string" where
  "SIGNAL_TO_CANDIDATE_NAME = map_of
     [(''ema_trend'', ''TREND_PULLBACK''), (''breakout'', ''BREAKOUT_RETEST''),
      (''rsi_reversal'', ''RANGE_MEAN_REVERSION'')]"

definition candidate_name :: "strategy_signal \<Rightarrow> string" where
  "candidate_name s = (case SIGNAL_TO_CANDIDATE_NAME (gs_strategy_name s) of
     Some n \<Rightarrow> n | None \<Rightarrow> map upper_char (gs_strategy_name s))"

definition to_candidate :: "market_regime option \<Rightarrow> strategy_signal \<Rightarrow> strategy_candidate option" where
  "to_candidate regime s =
     (case (gs_take_profit s, gs_stop_loss s) of
        (Some tp, Some sl) \<Rightarrow>
          (if (case regime of Some r \<Rightarrow> is_strategy_allowed_for_regime (candidate_name s) r
                | None \<Rightarrow> True) \<and> gs_direction s \<noteq> NO_TRADE \<and> 0 < gs_rr_ratio s
           then Some \<lparr>cd_strategy_name = candidate_name s, cd_source_strategy = gs_strategy_name s,
             cd_direction = gs_direction s, cd_confidence = gs_confidence s, cd_entry = gs_entry s,
             cd_take_profit = tp, cd_stop_loss = sl, cd_leverage = gs_leverage s,
             cd_rr_ratio = gs_rr_ratio s\<rparr>
           else None)
      | _ \<Rightarrow> None)"

text \<open>\<open>sorted(..., reverse=True)\<close> keeps the order of equal keys.\<close>

definition build_strategy_candidates ::
    "strategy_signal list \<Rightarrow> market_regime option \<Rightarrow> strategy_candidate list" where
  "build_strategy_candidates signals regime =
     sort_key (\<lambda>c. (- cd_confidence c, - cd_rr_ratio c)) (List.map_filter (to_candidate regime) signals)"

definition no_agreement :: "strategy_signal list \<Rightarrow> rat \<Rightarrow> rat \<Rightarrow> aggregated_signal" where
  "no_agreement signals confidence price =
     \<lparr>ag_direction = NO_TRADE, ag_confidence = confidence, ag_entry = price, ag_take_profit = None,
      ag_stop_loss = None, ag_leverage = 1, ag_rr_ratio = 0, ag_contributing = [],
      ag_all_signals = signals, ag_candidates = []\<rparr>"

text \<open>\<open>max(chosen, key=...)\<close>: the first of the largest.\<close>

fun best_signal :: "strategy_signal \<Rightarrow> strategy_signal list \<Rightarrow> strategy_signal" where
  "best_signal b [] = b"
| "best_signal b (s # ss) = best_signal (if gs_confidence b < gs_confidence s then s else b) ss"

definition aggregate_chosen ::
    "strategy_signal list \<Rightarrow> strategy_signal list \<Rightarrow> trade_dir \<Rightarrow> aggregated_signal" where
  "aggregate_chosen signals chosen dir =
     (let avg_confidence = fdiv (fsum (map gs_confidence chosen)) (of_nat (length chosen));
          best = best_signal (hd chosen) (tl chosen)
      in \<lparr>ag_direction = dir, ag_confidence = fround 4 avg_confidence, ag_entry = gs_entry best,
          ag_take_profit = gs_take_profit best, ag_stop_loss = gs_stop_loss best,
          ag_leverage = confidence_to_leverage avg_confidence, ag_rr_ratio = gs_rr_ratio best,
          ag_contributing = map gs_strategy_name chosen, ag_all_signals = signals,
          ag_candidates = []\<rparr>)"

definition aggregate_signals :: "strategy_signal list \<Rightarrow> strategy_input \<Rightarrow> aggregated_signal" where
  "aggregate_signals signals inp =
     (let long_sigs = filter (\<lambda>s. gs_direction s = GO_LONG) signals;
          short_sigs = filter (\<lambda>s. gs_direction s = GO_SHORT) signals
      in if length short_sigs < length long_sigs then aggregate_chosen signals long_sigs GO_LONG
         else if length long_sigs < length short_sigs then aggregate_chosen signals short_sigs GO_SHORT
         else no_agreement signals 0 (si_current_price inp))"

section \<open>The engine\<close>

record strategy_engine =
  se_enabled :: "string list"
  se_timeframe :: string
  se_min_confidence :: rat

definition default_strategy_engine :: strategy_engine where
  "default_strategy_engine = \<lparr>se_enabled = [''ema_trend'', ''rsi_reversal'', ''breakout''],
     se_timeframe = ''1h'', se_min_confidence = f64 0.6\<rparr>"

definition evaluate_strategy :: "string \<Rightarrow> string \<Rightarrow> strategy_input \<Rightarrow> strategy_signal result option" where
  "evaluate_strategy tf name inp =
     (if name = ''ema_trend'' then Some (ema_trend_evaluate tf inp)
      else if name = ''rsi_reversal'' then Some (rsi_reversal_evaluate tf inp)
      else if name = ''breakout'' then Some (breakout_evaluate tf inp) else None)"

fun evaluate_strategies :: "string \<Rightarrow> string list \<Rightarrow> strategy_input \<Rightarrow> strategy_signal list result" where
  "evaluate_strategies tf [] inp = Inr []"
| "evaluate_strategies tf (n # ns) inp =
     (case evaluate_strategy tf n inp of
        None \<Rightarrow> evaluate_strategies tf ns inp
      | Some r \<Rightarrow> ebind r (\<lambda>s. ebind (evaluate_strategies tf ns inp) (\<lambda>ss. Inr (s # ss))))"

definition strategy_evaluate :: "strategy_engine \<Rightarrow> strategy_input \<Rightarrow> aggregated_signal result" where
  "strategy_evaluate e inp =
     ebind (evaluate_strategies (se_timeframe e) (se_enabled e) inp) (\<lambda>signals.
     let agg = (aggregate_signals signals inp)\<lparr>ag_candidates := build_strategy_candidates signals None\<rparr>
     in if ag_direction agg \<noteq> NO_TRADE \<and> ag_confidence agg < se_min_confidence e
        then Inr (no_agreement signals (ag_confidence agg) (si_current_price inp))
        else Inr agg)"

definition generate_candidates ::
    "strategy_engine \<Rightarrow> strategy_input \<Rightarrow> market_regime option \<Rightarrow> strategy_candidate list result" where
  "generate_candidates e inp regime =
     ebind (evaluate_strategies (se_timeframe e) (se_enabled e) inp) (\<lambda>signals.
     Inr (build_strategy_candidates signals regime))"

section \<open>The bridge to the risk engine\<close>

definition dir_to_direction :: "trade_dir \<Rightarrow> direction" where
  "dir_to_direction d = (case d of GO_LONG \<Rightarrow> LONG | GO_SHORT \<Rightarrow> SHORT | NO_TRADE \<Rightarrow> HOLD)"

definition strategy_signal_to_raw :: "strategy_signal \<Rightarrow> string \<Rightarrow> string \<Rightarrow> raw_signal" where
  "strategy_signal_to_raw s coin symbol =
     \<lparr>sg_direction = dir_to_direction (gs_direction s), sg_coin = coin, sg_symbol = symbol,
      sg_confidence = gs_confidence s, sg_entry_price = gs_entry s,
      sg_take_profit = gs_take_profit s, sg_stop_loss = gs_stop_loss s, sg_leverage = gs_leverage s\<rparr>"

definition aggregated_signal_to_raw :: "aggregated_signal \<Rightarrow> string \<Rightarrow> string \<Rightarrow> raw_signal" where
  "aggregated_signal_to_raw s coin symbol =
     \<lparr>sg_direction = dir_to_direction (ag_direction s), sg_coin = coin, sg_symbol = symbol,
      sg_confidence = ag_confidence s, sg_entry_price = ag_entry s,
      sg_take_profit = ag_take_profit s, sg_stop_loss = ag_stop_loss s, sg_leverage = ag_leverage s\<rparr>"

end
