(* ===== verification/StrategyProps.thy ===== *)
theory StrategyProps
  imports Strategy
begin

text \<open>The signals of the strategies are admissible for the risk rules.\<close>

section \<open>Rounding, coarsely\<close>

lemma f64_near:
  assumes "- 1000000000 \<le> x" "x \<le> 1000000000"
  shows "x - 1 / 1000000 \<le> f64 x" "f64 x \<le> x + 1 / 1000000"
proof -
  have "\<bar>x\<bar> \<le> 1000000000" using assms by linarith
  then have "\<bar>f64 x - x\<bar> \<le> 1 / 1000000" using f64_err [of x] by simp
  then show "x - 1 / 1000000 \<le> f64 x" "f64 x \<le> x + 1 / 1000000" by linarith+
qed

lemma f64_rel_err: "0 \<le> x \<Longrightarrow> x * (999 / 1000) \<le> f64 x \<and> f64 x \<le> x * (1001 / 1000)"
proof -
  assume "0 \<le> x"
  then have "\<bar>f64 x - x\<bar> \<le> x / 1000" using f64_err [of x] by simp
  then show ?thesis unfolding abs_le_iff by (auto simp: field_simps)
qed

lemma dec_rel_err: "0 \<le> x \<Longrightarrow> x * (999 / 1000) \<le> dec x \<and> dec x \<le> x * (1001 / 1000)"
proof -
  assume "0 \<le> x"
  then have "\<bar>dec x - x\<bar> \<le> x / 1000" using dec_err [of x] by simp
  then show ?thesis unfolding abs_le_iff by (auto simp: field_simps)
qed

lemma price2_near:
  assumes "- 900000000 \<le> x" "x \<le> 900000000"
  shows "x - 51 / 10000 \<le> price2 x" "price2 x \<le> x + 51 / 10000"
proof -
  define y where "y = of_int (rhe (x * 100)) / (100 :: rat)"
  let ?r = "repr10 (f64 y)"
  have "\<bar>y - x\<bar> \<le> 1 / 200"
    using rhe_err [of "x * 100"] unfolding y_def by (simp add: abs_le_iff field_simps)
  then have y: "y \<le> x + 1 / 200" "x - 1 / 200 \<le> y" by linarith+
  have z: "y - 1 / 1000000 \<le> f64 y" "f64 y \<le> y + 1 / 1000000"
    by (rule f64_near; use y assms in linarith)+
  have r: "f64 ?r = f64 y" by (rule repr10_roundtrip) simp
  have "\<bar>f64 y - ?r\<bar> \<le> \<bar>?r\<bar> / 2 ^ 53" using f64_err [of ?r] unfolding r .
  then have w: "\<bar>f64 y - ?r\<bar> \<le> \<bar>?r\<bar> / 100" by simp
  have rb: "- 1000000000 \<le> ?r" "?r \<le> 1000000000" using w y z assms by linarith+
  have "?r - 1 / 1000000 \<le> f64 y" "f64 y \<le> ?r + 1 / 1000000"
    using f64_near [OF rb] unfolding r by auto
  then have "x - 51 / 10000 \<le> ?r" "?r \<le> x + 51 / 10000" using y z by linarith+
  then show "x - 51 / 10000 \<le> price2 x" "price2 x \<le> x + 51 / 10000"
    by (simp_all add: price2_def fround_def y_def)
qed

section \<open>One signal\<close>

definition admissible :: "strategy_signal \<Rightarrow> bool" where
  "admissible s \<longleftrightarrow> gs_direction s = NO_TRADE \<or>
     (\<exists>tp sl. gs_take_profit s = Some tp \<and> gs_stop_loss s = Some sl \<and>
        fst (validate_rr_ratio (gs_entry s) (Some tp) sl (dir_to_direction (gs_direction s))) \<and>
        (if gs_direction s = GO_LONG then sl < gs_entry s \<and> gs_entry s < tp
         else tp < gs_entry s \<and> gs_entry s < sl))"

lemma no_trade_admissible [simp]: "admissible (no_trade_signal n p)"
  by (simp add: admissible_def no_trade_signal_def)

lemma rr_enough:
  assumes "0 < b" "202 / 100 * b \<le> (a :: rat)"
  shows "2 \<le> ddiv (dec a) (dec b)" "0 < dec a" "0 < dec b"
proof -
  have a: "0 < a" using assms by linarith
  show p: "0 < dec a" "0 < dec b" using a assms by simp_all
  have q: "a * (999 / 1000) \<le> dec a" "dec b \<le> b * (1001 / 1000)"
    using dec_rel_err [of a] dec_rel_err [of b] a assms by auto
  have "2 * dec b \<le> dec a" using q assms by linarith
  then have "2 \<le> dec a / dec b" using p by (simp add: field_simps)
  then have "dec 2 \<le> dec (dec a / dec b)" by (rule dec_mono)
  then show "2 \<le> ddiv (dec a) (dec b)" by (simp add: ddiv_def dec_numeral)
qed

lemma build_signal_admissible:
  assumes "dir \<noteq> NO_TRADE" "1 / 2 \<le> d" "d \<le> 100000000" "0 \<le> price" "price \<le> 10000000"
    "24 / 10 * d \<le> fmul d rr" "fmul d rr \<le> 500000000"
  shows "\<exists>s. build_signal n dir confidence price d rr = Inr s \<and> gs_direction s = dir \<and> admissible s"
proof -
  let ?T = "fmul d rr"
  define e where "e = price2 price"
  define l1 where "l1 = price2 (fsub price d)"
  define l2 where "l2 = price2 (fadd price d)"
  define t1 where "t1 = price2 (fadd price ?T)"
  define t2 where "t2 = price2 (fsub price ?T)"
  have E: "x - 52 / 10000 \<le> price2 (f64 x) \<and> price2 (f64 x) \<le> x + 52 / 10000"
    if "- 600000000 \<le> x" "x \<le> 600000000" for x
  proof -
    have f: "x - 1 / 1000000 \<le> f64 x" "f64 x \<le> x + 1 / 1000000" by (rule f64_near; use that in linarith)+
    have "f64 x - 51 / 10000 \<le> price2 (f64 x)" "price2 (f64 x) \<le> f64 x + 51 / 10000"
      by (rule price2_near; use that f in linarith)+
    then show ?thesis using f by linarith
  qed
  have e: "price - 51 / 10000 \<le> e" "e \<le> price + 51 / 10000"
    unfolding e_def by (rule price2_near; use assms in linarith)+
  have l: "l1 \<le> price - d + 52 / 10000" "price - d - 52 / 10000 \<le> l1"
     "l2 \<le> price + d + 52 / 10000" "price + d - 52 / 10000 \<le> l2"
    using E [of "price - d"] E [of "price + d"] assms unfolding l1_def l2_def fsub_def fadd_def by auto
  have t: "t1 \<le> price + ?T + 52 / 10000" "price + ?T - 52 / 10000 \<le> t1"
     "t2 \<le> price - ?T + 52 / 10000" "price - ?T - 52 / 10000 \<le> t2"
    using E [of "price + ?T"] E [of "price - ?T"] assms
    unfolding t1_def t2_def fsub_def [of price] fadd_def by auto
  have T: "6 / 5 \<le> ?T" "12 / 5 * d \<le> ?T" using assms(2,6) by linarith+
  have L: "0 < e - l1" using e l assms(2) by linarith
  have "e - l1 \<le> d + 103 / 10000" "?T - 103 / 10000 \<le> t1 - e" using e l t by linarith+
  then have L2: "202 / 100 * (e - l1) \<le> t1 - e" using T assms(2) by (simp add: field_simps)
  have L3: "e < t1" using e t T by linarith
  have S: "0 < l2 - e" using e l assms(2) by linarith
  have "l2 - e \<le> d + 103 / 10000" "?T - 103 / 10000 \<le> e - t2" using e l t by linarith+
  then have S2: "202 / 100 * (l2 - e) \<le> e - t2" using T assms(2) by (simp add: field_simps)
  have S3: "t2 < e" using e t T by linarith
  note LR = rr_enough [OF L L2] and SR = rr_enough [OF S S2]
  show ?thesis
  proof (cases dir)
    case GO_LONG
    then show ?thesis
      using assms(2) L L3 LR
      by (simp add: build_signal_def Let_def admissible_def dir_to_direction_def
          validate_rr_ratio_def pyconst not_less not_le dsub_def
          flip: e_def l1_def t1_def)
  next
    case GO_SHORT
    then show ?thesis
      using assms(2) S S3 SR
      by (simp add: build_signal_def Let_def admissible_def dir_to_direction_def
          validate_rr_ratio_def pyconst not_less not_le dsub_def
          flip: e_def l2_def t2_def)
  qed (use assms in simp)
qed

section \<open>The three strategies\<close>

lemma target_rr [simp]: "TARGET_RR = 5 / 2"
  unfolding TARGET_RR_def using f64_exact [of 5 "-1"] by (simp add: pw_def)

lemma half_f64 [simp]: "f64 (1 / 2) = 1 / 2"
  using f64_exact [of 1 "-1"] by (simp add: pw_def)

lemma three_halves_f64 [simp]: "f64 (3 / 2) = 3 / 2"
  using f64_exact [of 3 "-1"] by (simp add: pw_def)

text \<open>A target chosen as \<open>max(ideal, 2.5 d)\<close> keeps 2.4 times the stop distance after rounding.\<close>

lemma ratio_kept:
  assumes "1 / 2 \<le> d" "d \<le> 100000000" "tp = max ideal (fmul d (5 / 2))" "ideal \<le> 100000000"
  shows "24 / 10 * d \<le> fmul d (fdiv tp d)" "fmul d (fdiv tp d) \<le> 500000000"
proof -
  have m: "d * (5 / 2) * (999 / 1000) \<le> fmul d (5 / 2)" "fmul d (5 / 2) \<le> d * (5 / 2) * (1001 / 1000)"
    using f64_rel_err [of "d * (5 / 2)"] assms(1) by (auto simp: fmul_def)
  have tp: "d * (5 / 2) * (999 / 1000) \<le> tp" "tp \<le> 300000000" "0 \<le> tp"
    using m assms by (auto simp: max_def)
  have q: "tp / d * (999 / 1000) \<le> fdiv tp d" "fdiv tp d \<le> tp / d * (1001 / 1000)" "0 \<le> fdiv tp d"
    using f64_rel_err [of "tp / d"] tp(3) assms(1) by (auto simp: fdiv_def f64_nonneg)
  have c: "d * (tp / d * c) = tp * c" for c using assms(1) by simp
  have w: "tp * (999 / 1000) \<le> d * fdiv tp d" "d * fdiv tp d \<le> tp * (1001 / 1000)"
    using mult_left_mono [OF q(1), of d] mult_left_mono [OF q(2), of d] assms(1) unfolding c by linarith+
  have "0 \<le> d * fdiv tp d" using q(3) assms(1) by simp
  note f64_rel_err [OF this]
  then show "24 / 10 * d \<le> fmul d (fdiv tp d)" "fmul d (fdiv tp d) \<le> 500000000"
    using w tp assms(1) unfolding fmul_def by linarith+
qed

text \<open>The readings a signal is computed from are within ten million.\<close>

definition readings_ok :: "strategy_input \<Rightarrow> bool" where
  "readings_ok inp \<longleftrightarrow>
     0 \<le> si_current_price inp \<and> f64 (si_current_price inp) \<le> 10000000 \<and>
     list_all (\<lambda>(tf, t). ta_atr t \<le> 10000000 \<and> \<bar>bb_middle (ta_bb t)\<bar> \<le> 10000000)
       (tr_analyses (si_ta_result inp)) \<and>
     list_all (\<lambda>l. \<bar>l\<bar> \<le> 10000000) (tr_support_levels (si_ta_result inp)) \<and>
     list_all (\<lambda>l. \<bar>l\<bar> \<le> 10000000) (tr_resistance_levels (si_ta_result inp))"

lemma readings_okD:
  assumes "readings_ok inp"
  shows "0 \<le> f64 (si_current_price inp)" "f64 (si_current_price inp) \<le> 10000000"
    "map_of (tr_analyses (si_ta_result inp)) tf = Some t \<Longrightarrow>
       ta_atr t \<le> 10000000 \<and> \<bar>bb_middle (ta_bb t)\<bar> \<le> 10000000"
    "l \<in> set (tr_support_levels (si_ta_result inp)) \<Longrightarrow> \<bar>l\<bar> \<le> 10000000"
    "l \<in> set (tr_resistance_levels (si_ta_result inp)) \<Longrightarrow> \<bar>l\<bar> \<le> 10000000"
  using assms unfolding readings_ok_def list_all_iff
  by (auto simp: f64_nonneg dest: map_of_SomeD)

lemma ema_trend_admissible:
  assumes "readings_ok inp"
  shows "\<exists>s. ema_trend_evaluate tf inp = Inr s \<and> admissible s"
proof (cases "map_of (tr_analyses (si_ta_result inp)) tf")
  case None
  then show ?thesis by (simp add: ema_trend_evaluate_def)
next
  case (Some t)
  let ?p = "f64 (si_current_price inp)" and ?d = "fmul (3 / 2) (max (ta_atr t) 1)"
  note R = readings_okD [OF assms]
  have a: "1 \<le> max (ta_atr t) 1" "max (ta_atr t) 1 \<le> 10000000" using R(3) [OF Some] by auto
  then have d: "1 / 2 \<le> ?d" "?d \<le> 20000000"
    using f64_rel_err [of "3 / 2 * max (ta_atr t) 1"] unfolding fmul_def by linarith+
  have "0 \<le> ?d * (5 / 2)" using d by linarith
  note f64_rel_err [OF this]
  then have "24 / 10 * ?d \<le> fmul ?d (5 / 2)" "fmul ?d (5 / 2) \<le> 500000000"
    using d unfolding fmul_def [of ?d] by linarith+
  then have B: "dir \<noteq> NO_TRADE \<Longrightarrow> \<exists>s. build_signal n dir c ?p ?d (5 / 2) = Inr s \<and>
      gs_direction s = dir \<and> admissible s" for n dir c
    using build_signal_admissible [of dir ?d ?p "5 / 2" n c] d R(1,2) by auto
  show ?thesis
    using Some B [of "ema_trend_direction t ?p" "''ema_trend''"]
    by (auto simp: ema_trend_evaluate_def Let_def EMA_SL_ATR_MULT_def MIN_ATR_def)
qed

lemma rsi_reversal_admissible:
  assumes "readings_ok inp"
  shows "\<exists>s. rsi_reversal_evaluate tf inp = Inr s \<and> admissible s"
proof (cases "map_of (tr_analyses (si_ta_result inp)) tf")
  case None
  then show ?thesis by (simp add: rsi_reversal_evaluate_def)
next
  case (Some t)
  let ?p = "f64 (si_current_price inp)" and ?d = "fmul 1 (max (ta_atr t) 1)"
  let ?dir = "reversal_direction t"
  let ?i = "if ?dir = GO_LONG then fsub (bb_middle (ta_bb t)) ?p else fsub ?p (bb_middle (ta_bb t))"
  note R = readings_okD [OF assms]
  have a: "1 \<le> max (ta_atr t) 1" "max (ta_atr t) 1 \<le> 10000000" using R(3) [OF Some] by auto
  then have d: "1 / 2 \<le> ?d" "?d \<le> 20000000"
    using f64_rel_err [of "1 * max (ta_atr t) 1"] unfolding fmul_def by linarith+
  have m: "\<bar>bb_middle (ta_bb t)\<bar> \<le> 10000000" using R(3) [OF Some] by simp
  have m': "bb_middle (ta_bb t) \<le> 10000000" "- 10000000 \<le> bb_middle (ta_bb t)" using m by linarith+
  have "f64 (bb_middle (ta_bb t) - ?p) \<le> bb_middle (ta_bb t) - ?p + 1 / 1000000"
    "f64 (?p - bb_middle (ta_bb t)) \<le> ?p - bb_middle (ta_bb t) + 1 / 1000000"
    by (rule f64_near; use m' R(1,2) in linarith)+
  then have "fsub (bb_middle (ta_bb t)) ?p \<le> 100000000" "fsub ?p (bb_middle (ta_bb t)) \<le> 100000000"
    using m' R(1,2) unfolding fsub_def by linarith+
  then have i: "?i \<le> 100000000" by simp
  note K = ratio_kept [OF d(1) _ refl i]
  have B: "?dir \<noteq> NO_TRADE \<Longrightarrow>
      \<exists>s. build_signal n ?dir c ?p ?d (fdiv (max ?i (fmul ?d (5 / 2))) ?d) = Inr s \<and>
        gs_direction s = ?dir \<and> admissible s" for n c
    by (rule build_signal_admissible) (use d R(1,2) K in auto)
  have pos: "0 < ?d" using d by linarith
  show ?thesis
    using Some B [of "''rsi_reversal''" "reversal_confidence t ?dir"] pos
    by (auto simp: rsi_reversal_evaluate_def Let_def RSI_SL_ATR_MULT_def MIN_ATR_def)
qed

lemma max_of_in: "max_of xs = Some x \<Longrightarrow> x \<in> set xs"
proof -
  have "fold max ys y \<in> insert y (set ys)" for ys :: "rat list" and y
    by (induction ys arbitrary: y) (auto simp: max_def split: if_splits)
  then show "max_of xs = Some x \<Longrightarrow> x \<in> set xs"
    by (cases xs) (auto simp: max_of_def split: if_splits)
qed

lemma min_of_in: "min_of xs = Some x \<Longrightarrow> x \<in> set xs"
proof -
  have "fold min ys y \<in> insert y (set ys)" for ys :: "rat list" and y
    by (induction ys arbitrary: y) (auto simp: min_def split: if_splits)
  then show "min_of xs = Some x \<Longrightarrow> x \<in> set xs"
    by (cases xs) (auto simp: min_of_def split: if_splits)
qed

lemma breakout_levels_in:
  assumes "breakout_levels price r = Some (dir, level)"
  shows "level \<in> set (tr_resistance_levels r) \<union> set (tr_support_levels r)" "dir \<noteq> NO_TRADE"
  using assms
  by (auto simp: breakout_levels_def broken_level_def level_set_def find_broken_level_below_def
      find_broken_level_above_def split: if_splits dest!: max_of_in min_of_in)

lemma buffer_range: "0 \<le> SL_BUFFER_PCT" "SL_BUFFER_PCT \<le> 1"
  using f64_mono [of "3 / 1000" 1] by (simp_all add: SL_BUFFER_PCT_def)

lemma breakout_sl_range:
  assumes "0 \<le> price" "price \<le> 10000000" "1 \<le> atr" "atr \<le> 10000000" "\<bar>level\<bar> \<le> 10000000"
  shows "1 / 2 \<le> breakout_sl_distance price atr dir level"
    "breakout_sl_distance price atr dir level \<le> 50000000"
proof -
  have b: "0 \<le> fsub 1 SL_BUFFER_PCT" "fsub 1 SL_BUFFER_PCT \<le> 1" "0 \<le> fadd 1 SL_BUFFER_PCT"
    "fadd 1 SL_BUFFER_PCT \<le> 2"
    using buffer_range f64_mono [of "1 - SL_BUFFER_PCT" 1] f64_mono [of "1 + SL_BUFFER_PCT" 2]
    by (auto simp: fsub_def fadd_def f64_nonneg f64_numeral)
  have k: "\<bar>level * k\<bar> \<le> 20000000" if "0 \<le> k" "k \<le> 2" for k
    using mult_mono [OF assms(5), of "\<bar>k\<bar>" 2] that by (simp add: abs_mult)
  have m: "\<bar>fmul level k\<bar> \<le> 20000001" if "0 \<le> k" "k \<le> 2" for k
    using k [OF that] f64_near [of "level * k"] unfolding fmul_def by linarith
  have "\<bar>fmul level (fsub 1 SL_BUFFER_PCT)\<bar> \<le> 20000001" "\<bar>fmul level (fadd 1 SL_BUFFER_PCT)\<bar> \<le> 20000001"
    using b by (auto intro!: m)
  then have d: "fsub price (fmul level (fsub 1 SL_BUFFER_PCT)) \<le> 40000000"
    "fsub (fmul level (fadd 1 SL_BUFFER_PCT)) price \<le> 40000000"
    using assms f64_near [of "price - fmul level (fsub 1 SL_BUFFER_PCT)"]
      f64_near [of "fmul level (fadd 1 SL_BUFFER_PCT) - price"]
    unfolding fsub_def [of price] fsub_def [of "fmul level (fadd 1 SL_BUFFER_PCT)"] by linarith+
  have h: "1 / 2 \<le> fmul (1 / 2) atr" using f64_mono [of "1 / 2" "1 / 2 * atr"] assms(3)
    by (simp add: fmul_def)
  have h2: "fmul (1 / 2) atr \<le> 40000000"
    using f64_near [of "1 / 2 * atr"] assms(3,4) unfolding fmul_def by linarith
  show "1 / 2 \<le> breakout_sl_distance price atr dir level"
    "breakout_sl_distance price atr dir level \<le> 50000000"
    using d h h2 by (auto simp: breakout_sl_distance_def MIN_SL_ATR_MULT_def max_def)
qed

lemma breakout_ideal_range:
  assumes "0 \<le> price" "price \<le> 10000000" "\<bar>l\<bar> \<le> 10000000"
  shows "fsub l price \<le> 100000000" "fsub price l \<le> 100000000"
  using f64_near [of "l - price"] f64_near [of "price - l"] assms
  unfolding fsub_def by linarith+

lemma breakout_tp_form:
  assumes "readings_ok inp"
  shows "\<exists>i. breakout_tp_distance (f64 (si_current_price inp)) (si_ta_result inp) dir d
      = max i (fmul d (5 / 2)) \<and> i \<le> 100000000"
proof -
  let ?p = "f64 (si_current_price inp)"
  note R = readings_okD [OF assms]
  have a: "find_next_level_above ?p (tr_resistance_levels (si_ta_result inp)) = Some l \<Longrightarrow> \<bar>l\<bar> \<le> 10000000" for l
    by (auto simp: find_next_level_above_def dest!: min_of_in intro: R(5))
  have b: "find_next_level_below ?p (tr_support_levels (si_ta_result inp)) = Some l \<Longrightarrow> \<bar>l\<bar> \<le> 10000000" for l
    by (auto simp: find_next_level_below_def dest!: max_of_in intro: R(4))
  show ?thesis
    using breakout_ideal_range [OF R(1,2)] a b
    by (auto simp: breakout_tp_distance_def Let_def level_set_def)
qed

lemma breakout_admissible:
  assumes "readings_ok inp"
  shows "\<exists>s. breakout_evaluate tf inp = Inr s \<and> admissible s"
proof (cases "map_of (tr_analyses (si_ta_result inp)) tf")
  case None
  then show ?thesis by (simp add: breakout_evaluate_def)
next
  case (Some t)
  let ?p = "f64 (si_current_price inp)" and ?r = "si_ta_result inp"
  show ?thesis
  proof (cases "ta_volume_ratio t < VOLUME_THRESHOLD \<or> breakout_levels ?p ?r = None")
    case True
    then show ?thesis using Some by (auto simp: breakout_evaluate_def Let_def)
  next
    case False
    then obtain dir level where l: "breakout_levels ?p ?r = Some (dir, level)" by auto
    note R = readings_okD [OF assms]
    define d where "d = breakout_sl_distance ?p (max (ta_atr t) 1) dir level"
    have "\<bar>level\<bar> \<le> 10000000" using breakout_levels_in(1) [OF l] R(4,5) by auto
    moreover have "1 \<le> max (ta_atr t) 1" "max (ta_atr t) 1 \<le> 10000000" using R(3) [OF Some] by auto
    ultimately have d: "1 / 2 \<le> d" "d \<le> 50000000"
      unfolding d_def using breakout_sl_range [OF R(1,2)] by blast+
    obtain i where i: "breakout_tp_distance ?p ?r dir d = max i (fmul d (5 / 2))" "i \<le> 100000000"
      using breakout_tp_form [OF assms] by blast
    have d8: "d \<le> 100000000" using d by linarith
    note K = ratio_kept [OF d(1) d8 i(1) i(2)]
    have "\<exists>s. build_signal n dir c ?p d (fdiv (breakout_tp_distance ?p ?r dir d) d) = Inr s \<and>
        gs_direction s = dir \<and> admissible s" for n c
      by (rule build_signal_admissible [OF breakout_levels_in(2) [OF l] d(1) d8 R(1,2) K])
    from this [of "''breakout''" "breakout_confidence (ta_volume_ratio t) (tr_tech_score ?r)
        (em_alignment (ta_ema t)) dir"]
    show ?thesis using Some False l d(1)
      by (auto simp: breakout_evaluate_def Let_def MIN_ATR_def simp flip: d_def)
  qed
qed

section \<open>The engine\<close>

lemma evaluate_strategies_admissible:
  assumes "readings_ok inp"
  shows "\<exists>ss. evaluate_strategies tf names inp = Inr ss \<and> list_all admissible ss"
proof (induction names)
  case (Cons n ns)
  then obtain ss where ss: "evaluate_strategies tf ns inp = Inr ss" "list_all admissible ss" by blast
  have "evaluate_strategy tf n inp = None \<or>
      (\<exists>s. evaluate_strategy tf n inp = Some (Inr s) \<and> admissible s)"
    using ema_trend_admissible [OF assms] rsi_reversal_admissible [OF assms]
      breakout_admissible [OF assms]
    unfolding evaluate_strategy_def by metis
  then show ?case using ss by auto
qed simp

lemma best_signal_in: "best_signal b ss \<in> insert b (set ss)"
  by (induction ss arbitrary: b) auto

lemma candidates_from_signals:
  "c \<in> set (build_strategy_candidates ss r) \<Longrightarrow> \<exists>s\<in>set ss. to_candidate r s = Some c"
  by (auto simp: build_strategy_candidates_def map_filter_def)

definition candidate_admissible :: "strategy_candidate \<Rightarrow> bool" where
  "candidate_admissible c \<longleftrightarrow> cd_direction c \<noteq> NO_TRADE \<and>
     fst (validate_rr_ratio (cd_entry c) (Some (cd_take_profit c)) (cd_stop_loss c)
       (dir_to_direction (cd_direction c)))"

lemma to_candidate_admissible:
  "to_candidate r s = Some c \<Longrightarrow> admissible s \<Longrightarrow> candidate_admissible c"
  by (auto simp: to_candidate_def candidate_admissible_def admissible_def split: option.splits if_splits)

lemma aggregate_direction:
  assumes "ag_direction (aggregate_signals ss inp) = dir" "dir \<noteq> NO_TRADE"
  shows "length (filter (\<lambda>s. gs_direction s = (if dir = GO_LONG then GO_SHORT else GO_LONG)) ss)
      < length (filter (\<lambda>s. gs_direction s = dir) ss)"
    "\<exists>best\<in>set ss. gs_direction best = dir \<and> ag_entry (aggregate_signals ss inp) = gs_entry best \<and>
       ag_take_profit (aggregate_signals ss inp) = gs_take_profit best \<and>
       ag_stop_loss (aggregate_signals ss inp) = gs_stop_loss best"
proof -
  have pick: "\<exists>best\<in>set ss. gs_direction best = d \<and> ag_entry (aggregate_chosen ss chosen d) = gs_entry best \<and>
       ag_take_profit (aggregate_chosen ss chosen d) = gs_take_profit best \<and>
       ag_stop_loss (aggregate_chosen ss chosen d) = gs_stop_loss best"
    if "chosen = filter (\<lambda>s. gs_direction s = d) ss" "n < length chosen" for d chosen n
  proof -
    have "best_signal (hd chosen) (tl chosen) \<in> set chosen"
      using best_signal_in [of "hd chosen" "tl chosen"] that(2) by (cases chosen) auto
    then show ?thesis using that(1)
      by (intro bexI [of _ "best_signal (hd chosen) (tl chosen)"]) (auto simp: aggregate_chosen_def Let_def)
  qed
  have d: "ag_direction (aggregate_chosen ss chosen d) = d" for chosen d
    by (simp add: aggregate_chosen_def Let_def)
  show "length (filter (\<lambda>s. gs_direction s = (if dir = GO_LONG then GO_SHORT else GO_LONG)) ss)
      < length (filter (\<lambda>s. gs_direction s = dir) ss)"
    "\<exists>best\<in>set ss. gs_direction best = dir \<and> ag_entry (aggregate_signals ss inp) = gs_entry best \<and>
       ag_take_profit (aggregate_signals ss inp) = gs_take_profit best \<and>
       ag_stop_loss (aggregate_signals ss inp) = gs_stop_loss best"
    using assms pick [OF refl]
    by (auto simp: aggregate_signals_def Let_def d no_agreement_def split: if_splits)
qed

lemma strategy_evaluate_Inr:
  assumes "strategy_evaluate e inp = Inr agg" "ag_direction agg \<noteq> NO_TRADE"
  obtains ss where "evaluate_strategies (se_timeframe e) (se_enabled e) inp = Inr ss"
    "agg = (aggregate_signals ss inp)\<lparr>ag_candidates := build_strategy_candidates ss None\<rparr>"
    "se_min_confidence e \<le> ag_confidence agg" "ag_all_signals agg = ss"
  using assms
  by (auto simp: strategy_evaluate_def Let_def ebind_Inr_iff no_agreement_def aggregate_signals_def
      aggregate_chosen_def not_less split: if_splits)

text \<open>
  C20. The strategies' signals are admissible: with readings within ten million and whatever
  strategies are enabled, the strategy engine returns a verdict; a LONG or SHORT verdict has more
  strategies for it than against it, at least the minimal confidence, its stop and target on
  the right sides after rounding to cents, and passes the risk engine's reward-to-risk check;
  so does every candidate it hands on.
\<close>

theorem strategy_signals_admissible:
  assumes "readings_ok inp"
  shows "\<exists>agg. strategy_evaluate e inp = Inr agg \<and>
    (ag_direction agg = NO_TRADE \<or>
       length (filter (\<lambda>s. gs_direction s = (if ag_direction agg = GO_LONG then GO_SHORT else GO_LONG))
           (ag_all_signals agg))
         < length (filter (\<lambda>s. gs_direction s = ag_direction agg) (ag_all_signals agg)) \<and>
       se_min_confidence e \<le> ag_confidence agg \<and>
       fst (check_rr_ratio (aggregated_signal_to_raw agg coin symbol))) \<and>
    list_all candidate_admissible (ag_candidates agg)"
proof -
  obtain ss where ss: "evaluate_strategies (se_timeframe e) (se_enabled e) inp = Inr ss" "list_all admissible ss"
    using evaluate_strategies_admissible [OF assms] by blast
  obtain agg where agg: "strategy_evaluate e inp = Inr agg"
    using ss(1) by (cases "strategy_evaluate e inp") (auto simp: strategy_evaluate_def Let_def split: if_splits)
  have c: "list_all candidate_admissible (build_strategy_candidates ss r)" for r
    using ss(2) unfolding list_all_iff by (blast dest: candidates_from_signals to_candidate_admissible)
  have cs: "list_all candidate_admissible (ag_candidates agg)"
    using agg ss(1) c by (auto simp: strategy_evaluate_def Let_def no_agreement_def split: if_splits)
  show ?thesis
  proof (cases "ag_direction agg = NO_TRADE")
    case True
    then show ?thesis using agg cs by auto
  next
    case False
    then obtain ss' where "evaluate_strategies (se_timeframe e) (se_enabled e) inp = Inr ss'"
      and a: "agg = (aggregate_signals ss' inp)\<lparr>ag_candidates := build_strategy_candidates ss' None\<rparr>"
      and m: "se_min_confidence e \<le> ag_confidence agg" and all: "ag_all_signals agg = ss'"
      using strategy_evaluate_Inr [OF agg] by metis
    then have eq: "ss' = ss" using ss(1) by simp
    have d: "ag_direction (aggregate_signals ss inp) = ag_direction agg" using a eq by simp
    note D = aggregate_direction [OF d False]
    obtain best where b: "best \<in> set ss" "gs_direction best = ag_direction agg"
      "ag_entry agg = gs_entry best" "ag_take_profit agg = gs_take_profit best"
      "ag_stop_loss agg = gs_stop_loss best"
      using D(2) a eq by auto
    have "admissible best" using ss(2) b(1) by (simp add: list_all_iff)
    then have "fst (check_rr_ratio (aggregated_signal_to_raw agg coin symbol))"
      using False b by (auto simp: admissible_def check_rr_ratio_def aggregated_signal_to_raw_def)
    then show ?thesis using agg cs D(1) m all eq by auto
  qed
qed

definition sample_analysis :: timeframe_analysis where
  "sample_analysis =
     \<lparr>ta_symbol = ''BTCUSDT'', ta_timeframe = ''1h'', ta_close = 100, ta_rsi = 50,
      ta_macd = \<lparr>md_macd = 2, md_signal = 1, md_histogram = 1, md_cross = BULLISH_CROSS\<rparr>,
      ta_ema = \<lparr>em_ema9 = 99, em_ema21 = 98, em_ema50 = 97, em_ema200 = 96, em_alignment = BULLISH_EMA\<rparr>,
      ta_atr = 2, ta_vwap = 99,
      ta_bb = \<lparr>bb_upper = 104, bb_middle = 100, bb_lower = 96, bb_pos = MIDDLE_BAND, bb_bandwidth = 8,
        bb_percent_b = 1 / 2\<rparr>,
      ta_volume_ratio = 1, ta_score = 1 / 2, ta_verdict = BULLISH, ta_fired = []\<rparr>"

definition sample_technical :: technical_result where
  "sample_technical =
     \<lparr>tr_coin = ''BTC'', tr_symbol = ''BTCUSDT'', tr_tech_score = 1 / 2,
      tr_timeframe_scores = [(''1h'', 1 / 2)], tr_analyses = [(''1h'', sample_analysis)], tr_fired = {},
      tr_support_levels = [90], tr_resistance_levels = [120], tr_latest_close = 100\<rparr>"

definition sample_input :: strategy_input where
  "sample_input = \<lparr>si_coin = ''BTC'', si_symbol = ''BTCUSDT'', si_current_price = 100,
     si_ta_result = sample_technical\<rparr>"

lemma sample_readings: "readings_ok sample_input"
  by (simp add: readings_ok_def sample_input_def sample_technical_def sample_analysis_def f64_numeral)

text \<open>The trend strategy is for LONG on this input.\<close>

lemma sample_input_long:
  "\<exists>s. ema_trend_evaluate ''1h'' sample_input = Inr s \<and> gs_direction s = GO_LONG"
proof -
  have "ema_trend_evaluate ''1h'' sample_input =
      build_signal ''ema_trend'' GO_LONG (ema_trend_confidence sample_analysis GO_LONG) 100
        (fmul EMA_SL_ATR_MULT 2) TARGET_RR"
    by (simp add: ema_trend_evaluate_def sample_input_def sample_technical_def sample_analysis_def
        ema_trend_direction_def MIN_ATR_def f64_numeral)
  then show ?thesis by (simp add: build_signal_def EMA_SL_ATR_MULT_def fmul_def)
qed

theorem strategy_signals_admissible_witness:
  "\<exists>agg. strategy_evaluate default_strategy_engine sample_input = Inr agg \<and>
     (ag_direction agg = NO_TRADE \<or>
        fst (check_rr_ratio (aggregated_signal_to_raw agg ''BTC'' ''BTCUSDT'')))"
proof -
  obtain agg where "strategy_evaluate default_strategy_engine sample_input = Inr agg"
    "ag_direction agg = NO_TRADE \<or> fst (check_rr_ratio (aggregated_signal_to_raw agg ''BTC'' ''BTCUSDT''))"
    using strategy_signals_admissible [OF sample_readings, of default_strategy_engine "''BTC''" "''BTCUSDT''"]
    by (elim exE conjE disjE) simp_all
  then show ?thesis by (intro exI conjI)
qed

end
