(* ===== verification/DecisionScores.thy ===== *)
theory DecisionScores
  imports Strategy
begin

text \<open>
  \<open>agents/decision/{regime,chart_signals,news_sentiment,derivatives_market}.py\<close>: the market
  regime and the three scores. A market snapshot is a dictionary of loosely typed values; a
  text holds the number it parses to, if it parses. The lists of reasons are left out.
\<close>

section \<open>Inputs\<close>

datatype dval =
    DNone | DInt int | DFloat rat | DDec rat | DBool bool | DText "rat option" | DOther

definition d_float :: "dval \<Rightarrow> rat result" where
  "d_float v = (case v of DInt n \<Rightarrow> Inr (f64 (of_int n)) | DFloat x \<Rightarrow> Inr x | DDec x \<Rightarrow> Inr (f64 x)
     | DBool b \<Rightarrow> Inr (if b then 1 else 0) | DText (Some x) \<Rightarrow> Inr (f64 x)
     | DText None \<Rightarrow> Inl ValueError | DNone \<Rightarrow> Inl TypeError | DOther \<Rightarrow> Inl TypeError)"

text \<open>\<open>Decimal(str(v))\<close>, \<open>None\<close> when it raises.\<close>

definition d_decimal :: "dval \<Rightarrow> rat option" where
  "d_decimal v = (case v of DInt n \<Rightarrow> Some (of_int n) | DFloat x \<Rightarrow> Some (repr10 x)
     | DDec x \<Rightarrow> Some x | DText t \<Rightarrow> t | _ \<Rightarrow> None)"

definition d_truthy :: "dval \<Rightarrow> bool" where
  "d_truthy v = (case v of DNone \<Rightarrow> False | DInt n \<Rightarrow> n \<noteq> 0 | DFloat x \<Rightarrow> x \<noteq> 0 | DDec x \<Rightarrow> x \<noteq> 0
     | DBool b \<Rightarrow> b | DText t \<Rightarrow> True | DOther \<Rightarrow> True)"

type_synonym ddict = "string \<rightharpoonup> dval"

definition dget :: "ddict \<Rightarrow> string \<Rightarrow> dval" where
  "dget d key = (case d key of Some v \<Rightarrow> v | None \<Rightarrow> DNone)"

text \<open>\<open>_first_float\<close>: the first value that is not \<open>None\<close> and converts.\<close>

fun first_float :: "dval list \<Rightarrow> rat option" where
  "first_float [] = None"
| "first_float (v # vs) = (case d_float v of Inr x \<Rightarrow> Some x | Inl e \<Rightarrow> first_float vs)"

datatype news_data =
    NewsResult "rat option" nat
  | NewsItems "rat option list"
  | NewsDict "rat option" nat

datatype fear_greed_data =
    FgObject int rat
  | FgDict "int option" "rat option"

record market_snapshot =
  ms_values :: ddict
  ms_news :: "news_data option"
  ms_fear_greed :: "fear_greed_data option"

definition no_snapshot :: market_snapshot where
  "no_snapshot = \<lparr>ms_values = Map.empty, ms_news = None, ms_fear_greed = None\<rparr>"

text \<open>\<open>config.get(key, default) if config else default\<close> of a dictionary.\<close>

definition flat_cfg :: "config option \<Rightarrow> string \<Rightarrow> cval \<Rightarrow> cval" where
  "flat_cfg c key dv = (case c of None \<Rightarrow> dv | Some c \<Rightarrow> get_or (cf_top c) key dv)"

definition cfg_float :: "config option \<Rightarrow> string \<Rightarrow> rat \<Rightarrow> rat result" where
  "cfg_float c key dv = c_float (flat_cfg c key (CFloat dv))"

text \<open>A float compared with a configured threshold; a text raises.\<close>

definition c_num :: "cval \<Rightarrow> rat result" where
  "c_num v = (case v of CInt n \<Rightarrow> Inr (of_int n) | CFloat x \<Rightarrow> Inr x
     | CBool b \<Rightarrow> Inr (if b then 1 else 0) | CStr s \<Rightarrow> Inl TypeError)"

section \<open>Market regime\<close>

definition BB_HIGH_VOL_BANDWIDTH_PCT :: rat where "BB_HIGH_VOL_BANDWIDTH_PCT = 10"
definition ATR_HIGH_VOL_PCT :: rat where "ATR_HIGH_VOL_PCT = 3"
definition VOLUME_SPIKE_RATIO :: rat where "VOLUME_SPIKE_RATIO = 2"
definition BB_RANGE_BANDWIDTH_PCT :: rat where "BB_RANGE_BANDWIDTH_PCT = 5"
definition TECH_SCORE_TREND_THRESHOLD :: rat where "TECH_SCORE_TREND_THRESHOLD = f64 0.3"
definition TECH_SCORE_RANGE_THRESHOLD :: rat where "TECH_SCORE_RANGE_THRESHOLD = f64 0.2"
definition REGIME_MIN_SIGNALS :: int where "REGIME_MIN_SIGNALS = 2"

definition PRIMARY_TF_ORDER :: "string list" where
  "PRIMARY_TF_ORDER = [''1h'', ''4h'', ''15m'', ''5m'', ''1d'']"

definition CONFIRM_TF_ORDER :: "string list" where
  "CONFIRM_TF_ORDER = [''4h'', ''1d'', ''1h'', ''15m'', ''5m'']"

definition analyses_of :: "technical_result option \<Rightarrow> (string, timeframe_analysis) pydict" where
  "analyses_of r = (case r of None \<Rightarrow> [] | Some r \<Rightarrow> tr_analyses r)"

definition select_timeframes :: "technical_result option \<Rightarrow> string option \<times> string option" where
  "select_timeframes r =
     (case analyses_of r of
        [] \<Rightarrow> (None, None)
      | kv # rest \<Rightarrow>
          let present = (\<lambda>tf. map_of (kv # rest) tf \<noteq> None);
              primary = (case find present PRIMARY_TF_ORDER of Some tf \<Rightarrow> tf | None \<Rightarrow> fst kv)
          in (Some primary, find (\<lambda>tf. present tf \<and> tf \<noteq> primary) CONFIRM_TF_ORDER))"

definition get_tf :: "technical_result option \<Rightarrow> string option \<Rightarrow> timeframe_analysis option" where
  "get_tf r tf = (case tf of None \<Rightarrow> None | Some t \<Rightarrow> map_of (analyses_of r) t)"

definition vote :: "bool \<Rightarrow> nat" where "vote b = (if b then 1 else 0)"

definition aligned :: "timeframe_analysis option \<Rightarrow> alignment \<Rightarrow> bool" where
  "aligned t a \<longleftrightarrow> (case t of None \<Rightarrow> False | Some t \<Rightarrow> em_alignment (ta_ema t) = a)"

text \<open>The votes of each regime; the comparisons are evaluated in the order of the code.\<close>

definition volatility_votes ::
    "config option \<Rightarrow> timeframe_analysis option \<Rightarrow> rat \<Rightarrow> nat result" where
  "volatility_votes config primary price =
     (case primary of None \<Rightarrow> Inr 0
      | Some t \<Rightarrow>
          ebind (c_num (flat_cfg config ''bb_high_vol_bw'' (CFloat BB_HIGH_VOL_BANDWIDTH_PCT))) (\<lambda>bw.
          ebind (if 0 < price
                 then ebind (c_num (flat_cfg config ''atr_high_vol_pct'' (CFloat ATR_HIGH_VOL_PCT)))
                        (\<lambda>th. Inr (vote (th < fmul (fdiv (ta_atr t) price) 100)))
                 else Inr 0) (\<lambda>atr.
          ebind (c_num (flat_cfg config ''volume_spike_ratio'' (CFloat VOLUME_SPIKE_RATIO))) (\<lambda>spike.
          Inr (vote (bw < bb_bandwidth (ta_bb t)) + atr + vote (spike < ta_volume_ratio t))))))"

definition trend_votes ::
    "config option \<Rightarrow> alignment \<Rightarrow> timeframe_analysis option \<Rightarrow> timeframe_analysis option \<Rightarrow> rat \<Rightarrow>
       bool \<Rightarrow> nat result" where
  "trend_votes config a primary confirm directed_score agrees =
     ebind (c_num (flat_cfg config ''tech_trend_th'' (CFloat TECH_SCORE_TREND_THRESHOLD))) (\<lambda>th.
     Inr (vote (aligned primary a) + vote (aligned confirm a) + vote (th < directed_score) + vote agrees))"

definition range_votes ::
    "config option \<Rightarrow> timeframe_analysis option \<Rightarrow> bool \<Rightarrow> rat \<Rightarrow> bool \<Rightarrow> nat result" where
  "range_votes config primary has_result tech_score undirected =
     ebind (case primary of None \<Rightarrow> Inr 0
            | Some t \<Rightarrow>
                ebind (c_num (flat_cfg config ''bb_range_bw'' (CFloat BB_RANGE_BANDWIDTH_PCT))) (\<lambda>bw.
                Inr (vote (em_alignment (ta_ema t) = MIXED_EMA) + vote (bb_bandwidth (ta_bb t) < bw))))
       (\<lambda>n.
     ebind (if has_result
            then ebind (c_num (flat_cfg config ''tech_range_th'' (CFloat TECH_SCORE_RANGE_THRESHOLD)))
                   (\<lambda>th. Inr (vote (\<bar>tech_score\<bar> < th)))
            else Inr 0) (\<lambda>flat.
     Inr (n + flat + vote undirected)))"

definition regime_result :: "market_regime \<Rightarrow> nat \<Rightarrow> nat \<Rightarrow> market_regime_result" where
  "regime_result r votes of_votes =
     \<lparr>mr_regime = r, mr_confidence = fround 3 (min 1 (fdiv (of_nat votes) (of_nat of_votes)))\<rparr>"

definition classify_market_regime ::
    "market_snapshot option \<Rightarrow> technical_result option \<Rightarrow> aggregated_signal option \<Rightarrow> config option \<Rightarrow>
       market_regime_result result" where
  "classify_market_regime market_data technical strategy config =
     (let data = (case market_data of Some s \<Rightarrow> ms_values s | None \<Rightarrow> Map.empty);
          tech_score = (case technical of Some r \<Rightarrow> tr_tech_score r | None \<Rightarrow> 0);
          dir = (case strategy of Some s \<Rightarrow> ag_direction s | None \<Rightarrow> NO_TRADE);
          (primary_tf, confirm_tf) = select_timeframes technical;
          primary = get_tf technical primary_tf;
          confirm = get_tf technical confirm_tf
      in
      ebind (case data ''current_price'' of None \<Rightarrow> Inr 0 | Some v \<Rightarrow> d_float v) (\<lambda>price.
      ebind (c_int (flat_cfg config ''min_signals'' (CInt REGIME_MIN_SIGNALS))) (\<lambda>min_signals.
      if d_truthy (dget data ''news_event'')
      then Inr \<lparr>mr_regime = NEWS_EVENT, mr_confidence = 1\<rparr>
      else
        ebind (volatility_votes config primary price) (\<lambda>hv.
        if min_signals \<le> int hv then Inr (regime_result HIGH_VOLATILITY hv 3)
        else
        ebind (trend_votes config BULLISH_EMA primary confirm tech_score (dir = GO_LONG)) (\<lambda>up.
        if min_signals \<le> int up then Inr (regime_result TREND_UP up 4)
        else
        ebind (trend_votes config BEARISH_EMA primary confirm (- tech_score) (dir = GO_SHORT)) (\<lambda>dn.
        if min_signals \<le> int dn then Inr (regime_result TREND_DOWN dn 4)
        else
        ebind (range_votes config primary (technical \<noteq> None) tech_score
                 (strategy \<noteq> None \<and> dir = NO_TRADE)) (\<lambda>rng.
        if min_signals \<le> int rng then Inr (regime_result RANGE rng 4)
        else Inr \<lparr>mr_regime = UNKNOWN_REGIME, mr_confidence = 0\<rparr>)))))))"

section \<open>Chart score\<close>

record chart_state =
  cs_long :: rat
  cs_short :: rat
  cs_no_trade :: rat
  cs_risk :: rat
  cs_ev_long :: nat
  cs_ev_short :: nat

definition add_long :: "rat \<Rightarrow> chart_state \<Rightarrow> chart_state" where
  "add_long p s = s\<lparr>cs_long := fadd (cs_long s) p, cs_ev_long := cs_ev_long s + 1\<rparr>"

definition add_short :: "rat \<Rightarrow> chart_state \<Rightarrow> chart_state" where
  "add_short p s = s\<lparr>cs_short := fadd (cs_short s) p, cs_ev_short := cs_ev_short s + 1\<rparr>"

definition wait_more :: "rat \<Rightarrow> chart_state \<Rightarrow> chart_state" where
  "wait_more p s = s\<lparr>cs_no_trade := fadd (cs_no_trade s) p\<rparr>"

definition risk_more :: "rat \<Rightarrow> chart_state \<Rightarrow> chart_state" where
  "risk_more p s = s\<lparr>cs_risk := fadd (cs_risk s) p\<rparr>"

definition scale_long :: "rat \<Rightarrow> chart_state \<Rightarrow> chart_state" where
  "scale_long f s = s\<lparr>cs_long := fmul (cs_long s) f\<rparr>"

definition scale_short :: "rat \<Rightarrow> chart_state \<Rightarrow> chart_state" where
  "scale_short f s = s\<lparr>cs_short := fmul (cs_short s) f\<rparr>"

definition bonus_long :: "rat \<Rightarrow> chart_state \<Rightarrow> chart_state" where
  "bonus_long p s = s\<lparr>cs_long := fadd (cs_long s) p\<rparr>"

definition bonus_short :: "rat \<Rightarrow> chart_state \<Rightarrow> chart_state" where
  "bonus_short p s = s\<lparr>cs_short := fadd (cs_short s) p\<rparr>"

text \<open>\<open>float(x or default)\<close>: 0.0 takes the default.\<close>

definition float_or :: "rat \<Rightarrow> rat \<Rightarrow> rat" where "float_or x d = (if x = 0 then d else x)"

definition select_primary :: "technical_result option \<Rightarrow> timeframe_analysis option" where
  "select_primary r =
     (case analyses_of r of
        [] \<Rightarrow> None
      | kv # rest \<Rightarrow>
          (case find (\<lambda>tf. map_of (kv # rest) tf \<noteq> None) PRIMARY_TF_ORDER of
             Some tf \<Rightarrow> map_of (kv # rest) tf | None \<Rightarrow> Some (snd kv)))"

definition chart_price ::
    "technical_result option \<Rightarrow> timeframe_analysis option \<Rightarrow> ddict \<Rightarrow> rat result" where
  "chart_price technical primary data =
     (if dget data ''current_price'' \<noteq> DNone then d_float (dget data ''current_price'')
      else if dget data ''price'' \<noteq> DNone then d_float (dget data ''price'')
      else case technical of Some r \<Rightarrow> Inr (tr_latest_close r)
      | None \<Rightarrow> (case primary of Some t \<Rightarrow> Inr (ta_close t) | None \<Rightarrow> Inr 0))"

fun first_present :: "string list \<Rightarrow> ddict \<Rightarrow> rat result" where
  "first_present [] data = Inr 0"
| "first_present (k # ks) data =
     (if dget data k \<noteq> DNone then d_float (dget data k) else first_present ks data)"

definition recent_price_change :: "ddict \<Rightarrow> rat result" where
  "recent_price_change =
     first_present [''recent_price_change_pct'', ''price_change_pct'', ''price_change_1h_pct'',
       ''price_change_5m_pct'']"

definition near_level :: "rat \<Rightarrow> rat list \<Rightarrow> rat \<Rightarrow> bool" where
  "near_level price levels threshold_pct \<longleftrightarrow>
     0 < price \<and>
     list_ex (\<lambda>l. fmul (fdiv \<bar>fsub price l\<bar> price) 100 \<le> threshold_pct) levels"

definition chart_rsi :: "rat \<Rightarrow> chart_state \<Rightarrow> chart_state" where
  "chart_rsi rsi s =
     (if rsi \<le> 35 then add_long 12 s else if 65 \<le> rsi then add_short 12 s
      else if 45 \<le> rsi \<and> rsi \<le> 55 then wait_more 5 s else s)"

definition chart_macd :: "macd_result \<Rightarrow> chart_state \<Rightarrow> chart_state" where
  "chart_macd m s =
     (let s = (if md_cross m = BULLISH_CROSS \<or> 0 < md_histogram m
               then add_long (if md_cross m = BULLISH_CROSS then 12 else 8) s else s)
      in if md_cross m = BEARISH_CROSS \<or> md_histogram m < 0
         then add_short (if md_cross m = BEARISH_CROSS then 12 else 8) s else s)"

definition chart_ema :: "alignment \<Rightarrow> chart_state \<Rightarrow> chart_state" where
  "chart_ema a s = (case a of BULLISH_EMA \<Rightarrow> add_long 14 s | BEARISH_EMA \<Rightarrow> add_short 14 s
     | MIXED_EMA \<Rightarrow> wait_more 6 s)"

definition chart_bb :: "rat \<Rightarrow> chart_state \<Rightarrow> chart_state" where
  "chart_bb pct_b s =
     (let pct_b = float_or pct_b (f64 0.5)
      in if pct_b \<le> f64 0.25 then add_long 10 s else if f64 0.75 \<le> pct_b then add_short 10 s
         else wait_more 4 s)"

definition chart_volume :: "rat \<Rightarrow> rat \<Rightarrow> rat \<Rightarrow> chart_state \<Rightarrow> chart_state" where
  "chart_volume volume_ratio spike price_change s =
     (if spike \<le> volume_ratio
      then let s = risk_more 8 s
           in if 0 < price_change then add_long 8 s
              else if price_change < 0 then add_short 8 s else wait_more 6 s
      else if volume_ratio < f64 0.8 then wait_more 6 s else s)"

definition chart_regime ::
    "market_regime \<Rightarrow> rat \<Rightarrow> rat \<Rightarrow> alignment \<Rightarrow> bool \<Rightarrow> bool \<Rightarrow> chart_state \<Rightarrow> chart_state" where
  "chart_regime regime rsi pct_b ema near_support near_resistance s =
     (case regime of
        TREND_UP \<Rightarrow>
          (let s = (if ema = BULLISH_EMA \<and> (rsi \<le> 45 \<or> near_support \<or> pct_b \<le> f64 0.45)
                    then bonus_long 18 s else s);
               s = scale_short (f64 0.65) s
           in wait_more (if cs_ev_long s < 2 then 8 else 0) s)
      | TREND_DOWN \<Rightarrow>
          (let s = (if ema = BEARISH_EMA \<and> (55 \<le> rsi \<or> near_resistance \<or> f64 0.55 \<le> pct_b)
                    then bonus_short 18 s else s);
               s = scale_long (f64 0.55) s
           in wait_more (if cs_ev_short s < 2 then 14 else 4) s)
      | RANGE \<Rightarrow>
          (let s = (if near_support \<or> rsi \<le> 35 \<or> pct_b \<le> f64 0.25 then bonus_long 12 s else s);
               s = (if near_resistance \<or> 65 \<le> rsi \<or> f64 0.75 \<le> pct_b then bonus_short 12 s else s)
           in if cs_ev_long s = 0 \<and> cs_ev_short s = 0 then wait_more 18 s else s)
      | HIGH_VOLATILITY \<Rightarrow>
          scale_short (f64 0.7) (scale_long (f64 0.7) (risk_more 35 (wait_more 35 s)))
      | NEWS_EVENT \<Rightarrow>
          scale_short (f64 0.6) (scale_long (f64 0.6) (risk_more 40 (wait_more 45 s)))
      | UNKNOWN_REGIME \<Rightarrow> risk_more 12 (wait_more 25 s))"

definition chart_evidence :: "rat \<Rightarrow> chart_state \<Rightarrow> chart_state" where
  "chart_evidence conflict_penalty s =
     (let s = (if cs_ev_long s = 1 then wait_more 12 (scale_long (f64 0.55) s) else s);
          s = (if cs_ev_short s = 1 then wait_more 12 (scale_short (f64 0.55) s) else s)
      in if 2 \<le> cs_ev_long s \<and> 2 \<le> cs_ev_short s then risk_more 8 (wait_more conflict_penalty s)
         else s)"

definition initial_chart :: chart_state where
  "initial_chart = \<lparr>cs_long = 0, cs_short = 0, cs_no_trade = 20, cs_risk = 10, cs_ev_long = 0,
     cs_ev_short = 0\<rparr>"

definition score100 :: "rat \<Rightarrow> rat" where "score100 x = fround 2 (clamp x 0 100)"

definition chart_result :: "chart_state \<Rightarrow> signal_score" where
  "chart_result s =
     \<lparr>sc_long_score = score100 (cs_long s), sc_short_score = score100 (cs_short s),
      sc_no_trade_score = score100 (cs_no_trade s), sc_risk_score = score100 (cs_risk s)\<rparr>"

text \<open>All the steps on one timeframe.\<close>

definition chart_steps ::
    "market_regime \<Rightarrow> timeframe_analysis \<Rightarrow> bool \<Rightarrow> bool \<Rightarrow> rat \<Rightarrow> rat \<Rightarrow> rat \<Rightarrow> chart_state" where
  "chart_steps regime t near_support near_resistance price_change spike conflict =
     (let rsi = float_or (ta_rsi t) 50;
          ema = em_alignment (ta_ema t);
          pct_b = bb_percent_b (ta_bb t);
          s = chart_bb pct_b (chart_ema ema (chart_macd (ta_macd t) (chart_rsi rsi initial_chart)));
          s = (if near_support then add_long 10 s else s);
          s = (if near_resistance then add_short 10 s else s);
          s = chart_volume (float_or (ta_volume_ratio t) 1) spike price_change s
      in chart_evidence conflict (chart_regime regime rsi pct_b ema near_support near_resistance s))"

definition score_chart_signals ::
    "market_regime_result \<Rightarrow> technical_result option \<Rightarrow> market_snapshot option \<Rightarrow> config option \<Rightarrow>
       signal_score result" where
  "score_chart_signals regime technical market_data config =
     (let data = (case market_data of Some s \<Rightarrow> ms_values s | None \<Rightarrow> Map.empty);
          primary = select_primary technical
      in
      ebind (chart_price technical primary data) (\<lambda>price.
      ebind (recent_price_change data) (\<lambda>price_change.
      ebind (cfg_float config ''near_level_pct'' (f64 0.8)) (\<lambda>near_pct.
      ebind (cfg_float config ''volume_spike_ratio'' (f64 1.8)) (\<lambda>spike.
      ebind (cfg_float config ''conflict_no_trade_bonus'' 20) (\<lambda>conflict.
      case primary of
        None \<Rightarrow> Inr \<lparr>sc_long_score = 0, sc_short_score = 0, sc_no_trade_score = 85,
                     sc_risk_score = 35\<rparr>
      | Some t \<Rightarrow>
          let supports = (case technical of Some r \<Rightarrow> tr_support_levels r | None \<Rightarrow> []);
              resistances = (case technical of Some r \<Rightarrow> tr_resistance_levels r | None \<Rightarrow> [])
          in Inr (chart_result (chart_steps (mr_regime regime) t (near_level price supports near_pct)
                    (near_level price resistances near_pct) price_change spike conflict))))))))"

section \<open>News score\<close>

definition FEAR_GREED_EXTREME_GREED :: int where "FEAR_GREED_EXTREME_GREED = 75"
definition FEAR_GREED_GREED :: int where "FEAR_GREED_GREED = 56"
definition FEAR_GREED_FEAR :: int where "FEAR_GREED_FEAR = 44"
definition FEAR_GREED_EXTREME_FEAR :: int where "FEAR_GREED_EXTREME_FEAR = 25"
definition MAJOR_EVENT_NEWS_THRESHOLD :: rat where "MAJOR_EVENT_NEWS_THRESHOLD = f64 0.8"
definition EXTREME_GREED_RISK_BONUS :: rat where "EXTREME_GREED_RISK_BONUS = 20"
definition EXTREME_FEAR_RISK_BONUS :: rat where "EXTREME_FEAR_RISK_BONUS = 10"
definition HIGH_VOL_NEWS_RISK_BONUS :: rat where "HIGH_VOL_NEWS_RISK_BONUS = 25"
definition NEWS_EVENT_RISK_BONUS :: rat where "NEWS_EVENT_RISK_BONUS = 35"
definition NEWS_MAX_SCORE_ADJUSTMENT :: rat where "NEWS_MAX_SCORE_ADJUSTMENT = 15"

definition extract_news_score :: "news_data option \<Rightarrow> rat \<times> nat" where
  "extract_news_score news =
     (case news of
        None \<Rightarrow> (0, 0)
      | Some (NewsResult score n) \<Rightarrow> (clamp (opt_or score 0) (-1) 1, n)
      | Some (NewsDict score n) \<Rightarrow> (clamp (opt_or score 0) (-1) 1, n)
      | Some (NewsItems items) \<Rightarrow>
          (let scores = List.map_filter (\<lambda>x. x) items
           in if scores = [] then (0, 0)
              else (clamp (recency_average scores) (-1) 1, length scores)))"

definition int_or :: "int \<Rightarrow> int \<Rightarrow> int" where "int_or x d = (if x = 0 then d else x)"

definition clamp_int :: "int \<Rightarrow> int \<Rightarrow> int \<Rightarrow> int" where "clamp_int v low high = max low (min high v)"

definition extract_fear_greed :: "fear_greed_data option \<Rightarrow> int \<times> rat" where
  "extract_fear_greed fg =
     (case fg of
        None \<Rightarrow> (50, 0)
      | Some (FgObject index score) \<Rightarrow> (clamp_int (int_or index 50) 0 100, clamp score (-1) 1)
      | Some (FgDict index score) \<Rightarrow>
          (let idx = int_or (opt_or index 50) 50
           in (clamp_int idx 0 100, clamp (opt_or score (fdiv (of_int (50 - idx)) 50)) (-1) 1)))"

definition greed_risk :: "int \<Rightarrow> int \<Rightarrow> int \<Rightarrow> rat" where
  "greed_risk index extreme_greed extreme_fear =
     (if extreme_greed \<le> index then EXTREME_GREED_RISK_BONUS
      else if FEAR_GREED_GREED \<le> index then 10
      else if index \<le> extreme_fear then EXTREME_FEAR_RISK_BONUS
      else if index \<le> FEAR_GREED_FEAR then 5 else 0)"

definition news_regime_risk :: "market_regime \<Rightarrow> rat" where
  "news_regime_risk r = (case r of NEWS_EVENT \<Rightarrow> NEWS_EVENT_RISK_BONUS
     | HIGH_VOLATILITY \<Rightarrow> HIGH_VOL_NEWS_RISK_BONUS | UNKNOWN_REGIME \<Rightarrow> 10 | _ \<Rightarrow> 0)"

definition score_news_sentiment ::
    "news_data option \<Rightarrow> fear_greed_data option \<Rightarrow> market_regime_result \<Rightarrow> config option \<Rightarrow>
       news_sentiment_score result" where
  "score_news_sentiment news fear_greed regime config =
     (let (news_score, news_count) = extract_news_score news;
          (fg_index, fg_score) = extract_fear_greed fear_greed
      in
      ebind (cfg_float config ''major_event_threshold'' MAJOR_EVENT_NEWS_THRESHOLD) (\<lambda>major_th.
      ebind (c_int (flat_cfg config ''extreme_greed_threshold'' (CInt FEAR_GREED_EXTREME_GREED)))
        (\<lambda>extreme_greed.
      ebind (c_int (flat_cfg config ''extreme_fear_threshold'' (CInt FEAR_GREED_EXTREME_FEAR)))
        (\<lambda>extreme_fear.
      ebind (cfg_float config ''max_score_adjustment'' NEWS_MAX_SCORE_ADJUSTMENT) (\<lambda>max_adj.
      let evt_block = c_bool (flat_cfg config ''news_event_block'' (CBool NEWS_EVENT_BLOCK));
          combined = fadd (fmul news_score (f64 0.65)) (fmul fg_score (f64 0.35));
          sentiment = fround 1 (clamp (fmul combined 100) (-100) 100);
          adj = min max_adj (fmul \<bar>sentiment\<bar> (f64 0.12));
          long_adj = (if 10 < sentiment then adj else 0);
          short_adj = (if sentiment < -10 then adj else 0);
          long_adj = (if extreme_greed \<le> fg_index then fmul long_adj (f64 0.5) else long_adj);
          major = (0 < news_count \<and> major_th \<le> \<bar>news_score\<bar>);
          risk = greed_risk fg_index extreme_greed extreme_fear;
          risk = (if major then fadd risk 40 else risk);
          risk = fadd risk (news_regime_risk (mr_regime regime))
      in Inr \<lparr>ns_sentiment_score = sentiment,
              ns_long_score_adjustment = fround 2 (clamp long_adj (-30) 30),
              ns_short_score_adjustment = fround 2 (clamp short_adj (-30) 30),
              ns_risk_score = fround 2 (clamp risk 0 100),
              ns_no_trade_flag = (major \<or> mr_regime regime = NEWS_EVENT \<and> evt_block)\<rparr>)))))"

section \<open>Derivatives score\<close>

record derivatives_data =
  dd_values :: ddict
  dd_liquidations :: "(dval \<times> dval \<times> dval) list option"

definition has_any_derivatives_data :: "derivatives_data option \<Rightarrow> bool" where
  "has_any_derivatives_data d =
     (case d of None \<Rightarrow> False
      | Some d \<Rightarrow> dd_liquidations d \<noteq> None \<or>
          list_ex (\<lambda>k. dget (dd_values d) k \<noteq> DNone)
            [''funding_rate'', ''open_interest'', ''open_interest_change'', ''open_interest_change_pct'',
             ''oi_change_pct'', ''long_short_ratio'', ''long_account_ratio'', ''short_account_ratio'',
             ''liquidation_volume'', ''liquidation_usdt''])"

definition first_of :: "ddict \<Rightarrow> string list \<Rightarrow> rat option" where
  "first_of d keys = first_float (map (dget d) keys)"

definition liquidation_item :: "dval \<times> dval \<times> dval \<Rightarrow> rat" where
  "liquidation_item i = (case i of (value_usdt, notional, amount) \<Rightarrow>
     opt_or (first_float [value_usdt, notional, amount]) 0)"

definition extract_liquidation_notional :: "derivatives_data \<Rightarrow> rat" where
  "extract_liquidation_notional d =
     (case first_of (dd_values d) [''liquidation_usdt'', ''liquidation_volume'', ''liquidations_usdt''] of
        Some x \<Rightarrow> x
      | None \<Rightarrow> (case dd_liquidations d of None \<Rightarrow> 0
          | Some items \<Rightarrow> foldl (\<lambda>acc i. fadd acc (liquidation_item i)) 0 items))"

definition account_pct :: "rat option \<Rightarrow> rat option" where
  "account_pct r = (case r of None \<Rightarrow> None | Some x \<Rightarrow> Some (if x \<le> 1 then fmul x 100 else x))"

definition at_least :: "rat option \<Rightarrow> rat \<Rightarrow> bool" where
  "at_least r th = (case r of None \<Rightarrow> False | Some x \<Rightarrow> th \<le> x)"

definition at_most :: "rat option \<Rightarrow> rat \<Rightarrow> bool" where
  "at_most r th = (case r of None \<Rightarrow> False | Some x \<Rightarrow> x \<le> th)"

record derivatives_thresholds =
  dt_high_funding :: rat
  dt_negative_funding :: rat
  dt_neutral_funding :: rat
  dt_oi_up :: rat
  dt_oi_drop :: rat
  dt_price_move :: rat
  dt_price_spike :: rat
  dt_long_crowd :: rat
  dt_short_crowd :: rat
  dt_account_crowd :: rat
  dt_liquidation :: rat
  dt_max_adj :: rat

definition read_thresholds :: "config option \<Rightarrow> derivatives_thresholds result" where
  "read_thresholds c =
     ebind (cfg_float c ''high_funding_rate'' (f64 0.001)) (\<lambda>hf.
     ebind (cfg_float c ''strong_negative_funding_rate'' (- f64 0.001)) (\<lambda>nf.
     ebind (cfg_float c ''neutral_funding_abs'' (f64 0.0003)) (\<lambda>nt.
     ebind (cfg_float c ''oi_up_pct'' (f64 0.5)) (\<lambda>ou.
     ebind (cfg_float c ''oi_drop_pct'' (-2)) (\<lambda>od.
     ebind (cfg_float c ''price_move_pct'' (f64 0.25)) (\<lambda>pm.
     ebind (cfg_float c ''price_spike_pct'' 2) (\<lambda>ps.
     ebind (cfg_float c ''long_crowd_ratio'' (f64 1.5)) (\<lambda>lc.
     ebind (cfg_float c ''short_crowd_ratio'' (f64 0.67)) (\<lambda>sc.
     ebind (cfg_float c ''account_crowd_pct'' 60) (\<lambda>ac.
     ebind (cfg_float c ''liquidation_risk_usdt'' 1000000) (\<lambda>lq.
     ebind (cfg_float c ''max_score_adjustment'' 30) (\<lambda>ma.
     Inr \<lparr>dt_high_funding = hf, dt_negative_funding = nf, dt_neutral_funding = nt, dt_oi_up = ou,
          dt_oi_drop = od, dt_price_move = pm, dt_price_spike = ps, dt_long_crowd = lc,
          dt_short_crowd = sc, dt_account_crowd = ac, dt_liquidation = lq, dt_max_adj = ma\<rparr>))))))))))))"

record derivatives_inputs =
  di_funding :: rat
  di_oi_change :: rat
  di_long_short :: "rat option"
  di_long_account :: "rat option"
  di_short_account :: "rat option"
  di_price_change :: rat
  di_volume_change :: rat
  di_liquidation :: rat

definition read_derivatives :: "derivatives_data \<Rightarrow> ddict \<Rightarrow> derivatives_inputs" where
  "read_derivatives d prices =
     (let v = dd_values d
      in \<lparr>di_funding = opt_or (first_of v [''funding_rate'']) 0,
          di_oi_change = opt_or (first_of v [''open_interest_change'', ''open_interest_change_pct'',
            ''oi_change_pct'', ''oi_1h_change_pct'']) 0,
          di_long_short = first_of v [''long_short_ratio''],
          di_long_account = first_of v [''long_account_ratio'', ''long_account_pct''],
          di_short_account = first_of v [''short_account_ratio'', ''short_account_pct''],
          di_price_change = opt_or (first_float
            [dget prices ''price_change'', dget prices ''price_change_pct'',
             dget prices ''recent_price_change_pct'', dget v ''price_change'', dget v ''price_change_pct'']) 0,
          di_volume_change = opt_or (first_float
            [dget prices ''volume_change'', dget prices ''volume_change_pct'',
             dget v ''volume_change'', dget v ''volume_change_pct'']) 0,
          di_liquidation = extract_liquidation_notional d\<rparr>)"

record derivatives_state =
  ds_long :: rat
  ds_short :: rat
  ds_risk :: rat
  ds_side :: crowded_side

definition ds_add :: "rat \<Rightarrow> rat \<Rightarrow> rat \<Rightarrow> derivatives_state \<Rightarrow> derivatives_state" where
  "ds_add l sh r s = s\<lparr>ds_long := fadd (ds_long s) l, ds_short := fadd (ds_short s) sh,
     ds_risk := fadd (ds_risk s) r\<rparr>"

definition long_crowded :: "derivatives_thresholds \<Rightarrow> derivatives_inputs \<Rightarrow> bool" where
  "long_crowded th i \<longleftrightarrow> at_least (di_long_short i) (dt_long_crowd th)
     \<or> at_least (account_pct (di_long_account i)) (dt_account_crowd th)"

definition short_crowded :: "derivatives_thresholds \<Rightarrow> derivatives_inputs \<Rightarrow> bool" where
  "short_crowded th i \<longleftrightarrow> at_most (di_long_short i) (dt_short_crowd th)
     \<or> at_least (account_pct (di_short_account i)) (dt_account_crowd th)"

definition ds_crowding :: "derivatives_thresholds \<Rightarrow> derivatives_inputs \<Rightarrow> derivatives_state \<Rightarrow> derivatives_state" where
  "ds_crowding th i s =
     (if long_crowded th i then (ds_add 0 0 18 s)\<lparr>ds_side := CROWD_LONG\<rparr>
      else if short_crowded th i then (ds_add 0 0 18 s)\<lparr>ds_side := CROWD_SHORT\<rparr> else s)"

definition ds_funding :: "derivatives_thresholds \<Rightarrow> derivatives_inputs \<Rightarrow> derivatives_state \<Rightarrow> derivatives_state" where
  "ds_funding th i s =
     (let up = dt_price_move th < di_price_change i;
          down = di_price_change i < - dt_price_move th;
          oi_up = dt_oi_up th < di_oi_change i;
          s = (if up \<and> oi_up \<and> \<bar>di_funding i\<bar> \<le> dt_neutral_funding th then ds_add 8 0 5 s else s);
          s = (if up \<and> oi_up \<and> dt_high_funding th \<le> di_funding i \<and> long_crowded th i
               then (ds_add (-14) 4 28 s)\<lparr>ds_side := CROWD_LONG\<rparr>
               else if dt_high_funding th \<le> di_funding i then ds_add (-6) 0 15 s else s)
      in if down \<and> oi_up \<and> di_funding i \<le> dt_negative_funding th \<and> short_crowded th i
         then (ds_add 4 (-14) 28 s)\<lparr>ds_side := CROWD_SHORT\<rparr>
         else if di_funding i \<le> dt_negative_funding th then ds_add 0 (-6) 15 s else s)"

definition ds_events :: "derivatives_thresholds \<Rightarrow> derivatives_inputs \<Rightarrow> derivatives_state \<Rightarrow> derivatives_state" where
  "ds_events th i s =
     (let s = (if dt_price_spike th \<le> \<bar>di_price_change i\<bar> \<and> di_oi_change i \<le> dt_oi_drop th
               then (if 0 < di_price_change i then ds_add 0 (-4) 25 s else ds_add (-4) 0 25 s) else s);
          s = (if dt_liquidation th \<le> di_liquidation i then ds_add 0 0 20 s else s)
      in if 50 \<le> \<bar>di_volume_change i\<bar> \<and> dt_price_move th \<le> \<bar>di_price_change i\<bar>
         then ds_add 0 0 6 s else s)"

definition ds_regime :: "market_regime \<Rightarrow> derivatives_state \<Rightarrow> derivatives_state" where
  "ds_regime r s = (case r of HIGH_VOLATILITY \<Rightarrow> ds_add 0 0 20 s | NEWS_EVENT \<Rightarrow> ds_add 0 0 25 s
     | UNKNOWN_REGIME \<Rightarrow> ds_add 0 0 5 s | _ \<Rightarrow> s)"

definition derivatives_steps ::
    "derivatives_thresholds \<Rightarrow> derivatives_inputs \<Rightarrow> market_regime \<Rightarrow> derivatives_state" where
  "derivatives_steps th i r =
     ds_regime r (ds_events th i (ds_funding th i (ds_crowding th i
       \<lparr>ds_long = 0, ds_short = 0, ds_risk = 0, ds_side = CROWD_NONE\<rparr>)))"

definition score_derivatives_market ::
    "derivatives_data option \<Rightarrow> ddict \<Rightarrow> market_regime_result \<Rightarrow> config option \<Rightarrow>
       derivatives_market_score result" where
  "score_derivatives_market data prices regime config =
     (if \<not> has_any_derivatives_data data then Inr dv_neutral
      else
        ebind (read_thresholds config) (\<lambda>th.
        let s = derivatives_steps th (read_derivatives (the data) prices) (mr_regime regime);
            m = dt_max_adj th
        in Inr \<lparr>dv_long_score_adjustment = fround 2 (clamp (ds_long s) (- m) m),
                dv_short_score_adjustment = fround 2 (clamp (ds_short s) (- m) m),
                dv_risk_score = fround 2 (clamp (ds_risk s) 0 100),
                dv_crowded_side = ds_side s\<rparr>))"

end
