(* ===== verification/CandidateGen.thy ===== *)
theory CandidateGen
  imports DecisionScores
begin

text \<open>
  \<open>agents/decision/strategy_selector.py\<close> and \<open>agents/decision/candidate_generator.py\<close>: the choice
  of a strategy type and the trade candidate. Reason lists are left out.
\<close>

section \<open>Strategy selection\<close>

definition STRATEGY_MIN_TREND_DIR_SCORE :: rat where "STRATEGY_MIN_TREND_DIR_SCORE = 55"
definition STRATEGY_MAX_RISK_FOR_TREND :: rat where "STRATEGY_MAX_RISK_FOR_TREND = 55"
definition STRATEGY_MIN_BREAKOUT_VOL_RATIO :: rat where "STRATEGY_MIN_BREAKOUT_VOL_RATIO = f64 1.8"
definition STRATEGY_MAX_BREAKOUT_PRICE_MOVE :: rat where "STRATEGY_MAX_BREAKOUT_PRICE_MOVE = 3"
definition STRATEGY_MAX_RISK_FOR_BREAKOUT :: rat where "STRATEGY_MAX_RISK_FOR_BREAKOUT = 50"
definition STRATEGY_MIN_INTRADAY_DIR_SCORE :: rat where "STRATEGY_MIN_INTRADAY_DIR_SCORE = 35"
definition STRATEGY_MAX_RISK_FOR_INTRADAY :: rat where "STRATEGY_MAX_RISK_FOR_INTRADAY = 60"
definition STRATEGY_MIN_SCALPING_DIR_SCORE :: rat where "STRATEGY_MIN_SCALPING_DIR_SCORE = 20"
definition STRATEGY_MAX_RISK_FOR_SCALPING :: rat where "STRATEGY_MAX_RISK_FOR_SCALPING = 40"

definition STRATEGY_MIN_RR :: "string \<rightharpoonup> rat" where
  "STRATEGY_MIN_RR = map_of
     [(''SCALPING'', 2), (''INTRADAY'', 2), (''TREND_FOLLOWING'', 2), (''TREND_PULLBACK'', 2),
      (''BREAKOUT'', 2), (''BREAKOUT_RETEST'', 2), (''MEAN_REVERSION'', 2), (''RSI_REVERSAL'', 2),
      (''UNKNOWN'', 999)]"

text \<open>\<open>chart * 0.4 + news * 0.3 + deriv * 0.3\<close>, clamped and rounded.\<close>

definition weigh_risks :: "rat \<Rightarrow> rat \<Rightarrow> rat \<Rightarrow> rat" where
  "weigh_risks chart news deriv =
     score100 (fadd (fadd (fmul chart (f64 0.4)) (fmul news (f64 0.3))) (fmul deriv (f64 0.3)))"

definition selector_combined_risk ::
    "signal_score option \<Rightarrow> news_sentiment_score option \<Rightarrow> derivatives_market_score option \<Rightarrow> rat" where
  "selector_combined_risk chart news deriv =
     weigh_risks (case chart of Some c \<Rightarrow> sc_risk_score c | None \<Rightarrow> 50)
       (case news of Some n \<Rightarrow> ns_risk_score n | None \<Rightarrow> 0)
       (case deriv of Some d \<Rightarrow> dv_risk_score d | None \<Rightarrow> 0)"

definition direction_label :: "signal_score \<Rightarrow> crowded_side" where
  "direction_label c =
     (if sc_short_score c < sc_long_score c then CROWD_LONG
      else if sc_long_score c < sc_short_score c then CROWD_SHORT else CROWD_NONE)"

definition first_or :: "ddict \<Rightarrow> string list \<Rightarrow> rat \<Rightarrow> rat" where
  "first_or d keys dv = opt_or (first_of d keys) dv"

definition make_selection :: "strategy_type \<Rightarrow> strategy_selection" where
  "make_selection t =
     \<lparr>ss_strategy_type = t,
      ss_expected_holding_minutes = the (STRATEGY_HOLDING_MINUTES (strategy_value t)),
      ss_min_required_rr = sth_min_risk_reward_ratio (the (STRATEGY_THRESHOLDS (strategy_value t)))\<rparr>"

definition unknown_selection :: strategy_selection where
  "unknown_selection = \<lparr>ss_strategy_type = UNKNOWN_STRATEGY, ss_expected_holding_minutes = 0,
     ss_min_required_rr = 0\<rparr>"

definition max_spread_of :: "string \<Rightarrow> rat" where
  "max_spread_of s = sth_max_spread_bps (the (STRATEGY_THRESHOLDS s))"

record selector_limits =
  sl_min_trend :: rat
  sl_risk_trend :: rat
  sl_min_vol :: rat
  sl_max_move :: rat
  sl_risk_bko :: rat
  sl_min_intraday :: rat
  sl_risk_intraday :: rat
  sl_min_scalping :: rat
  sl_risk_scalping :: rat

definition read_limits :: "config option \<Rightarrow> selector_limits result" where
  "read_limits c =
     ebind (cfg_float c ''min_trend_dir_score'' STRATEGY_MIN_TREND_DIR_SCORE) (\<lambda>a.
     ebind (cfg_float c ''max_risk_trend'' STRATEGY_MAX_RISK_FOR_TREND) (\<lambda>b.
     ebind (cfg_float c ''min_breakout_volume_ratio'' STRATEGY_MIN_BREAKOUT_VOL_RATIO) (\<lambda>d.
     ebind (cfg_float c ''max_breakout_price_move'' STRATEGY_MAX_BREAKOUT_PRICE_MOVE) (\<lambda>e.
     ebind (cfg_float c ''max_risk_breakout'' STRATEGY_MAX_RISK_FOR_BREAKOUT) (\<lambda>f.
     ebind (cfg_float c ''min_intraday_dir_score'' STRATEGY_MIN_INTRADAY_DIR_SCORE) (\<lambda>g.
     ebind (cfg_float c ''max_risk_intraday'' STRATEGY_MAX_RISK_FOR_INTRADAY) (\<lambda>h.
     ebind (cfg_float c ''min_scalping_dir_score'' STRATEGY_MIN_SCALPING_DIR_SCORE) (\<lambda>i.
     ebind (cfg_float c ''max_risk_scalping'' STRATEGY_MAX_RISK_FOR_SCALPING) (\<lambda>j.
     Inr \<lparr>sl_min_trend = a, sl_risk_trend = b, sl_min_vol = d, sl_max_move = e, sl_risk_bko = f,
          sl_min_intraday = g, sl_risk_intraday = h, sl_min_scalping = i,
          sl_risk_scalping = j\<rparr>)))))))))"

text \<open>The last two choices, and the four in their order.\<close>

definition select_slow ::
    "selector_limits \<Rightarrow> market_regime \<Rightarrow> rat \<Rightarrow> rat \<Rightarrow> rat \<Rightarrow> strategy_selection" where
  "select_slow limits regime combined max_dir spread =
     (if (regime = TREND_UP \<or> regime = TREND_DOWN \<or> regime = RANGE) \<and>
         spread \<le> max_spread_of ''INTRADAY'' \<and>
         sl_min_intraday limits \<le> max_dir \<and> combined \<le> sl_risk_intraday limits
      then make_selection INTRADAY
      else if spread \<le> max_spread_of ''SCALPING'' \<and>
         sl_min_scalping limits \<le> max_dir \<and> combined \<le> sl_risk_scalping limits
      then make_selection SCALPING
      else unknown_selection)"

definition select_fast ::
    "selector_limits \<Rightarrow> market_regime \<Rightarrow> rat \<Rightarrow> rat \<Rightarrow> bool \<Rightarrow> rat \<Rightarrow> rat \<Rightarrow> rat \<Rightarrow> strategy_selection" where
  "select_fast limits regime combined max_dir crowded spread vol_ratio price_move =
     (let effective = (if crowded then min 100 (fadd combined 10) else combined)
      in if (regime = TREND_UP \<or> regime = TREND_DOWN) \<and> sl_min_trend limits \<le> max_dir \<and>
            effective \<le> sl_risk_trend limits
         then make_selection TREND_FOLLOWING
         else if sl_min_vol limits \<le> vol_ratio \<and> \<not> sl_max_move limits \<le> price_move \<and> crowded
         then unknown_selection
         else if sl_min_vol limits \<le> vol_ratio \<and> \<not> sl_max_move limits \<le> price_move \<and>
            combined \<le> sl_risk_bko limits
         then make_selection BREAKOUT
         else select_slow limits regime combined max_dir spread)"

definition select_strategy_type ::
    "market_regime_result \<Rightarrow> signal_score option \<Rightarrow> news_sentiment_score option \<Rightarrow>
       derivatives_market_score option \<Rightarrow> market_snapshot option \<Rightarrow> config option \<Rightarrow>
       strategy_selection result" where
  "select_strategy_type regime chart news deriv market_data config =
     (let data = (case market_data of Some s \<Rightarrow> ms_values s | None \<Rightarrow> Map.empty)
      in
      ebind (read_limits config) (\<lambda>limits.
      if mr_regime regime = HIGH_VOLATILITY \<or> mr_regime regime = NEWS_EVENT
         \<or> (case news of Some n \<Rightarrow> ns_no_trade_flag n | None \<Rightarrow> False)
      then Inr unknown_selection
      else case chart of None \<Rightarrow> Inr unknown_selection
      | Some c \<Rightarrow>
          let side = (case deriv of Some d \<Rightarrow> dv_crowded_side d | None \<Rightarrow> CROWD_NONE)
          in Inr (select_fast limits (mr_regime regime) (selector_combined_risk chart news deriv)
                (max (sc_long_score c) (sc_short_score c))
                (side = direction_label c \<and> direction_label c \<noteq> CROWD_NONE)
                (first_or data [''spread_bps'', ''spread''] 0)
                (first_or data [''volume_ratio'', ''vol_ratio'', ''volume_multiplier''] 1)
                \<bar>first_or data [''price_change_pct'', ''recent_price_change_pct'',
                   ''price_change_1h_pct''] 0\<bar>)))"

section \<open>Inputs of the candidate\<close>

text \<open>The signal is absent, the aggregate of the strategies, or one strategy's candidate.\<close>

datatype signal_source =
    NoSignal | FromAggregate aggregated_signal | FromCandidate strategy_candidate

definition src_name :: "signal_source \<Rightarrow> string option" where
  "src_name s = (case s of FromCandidate c \<Rightarrow> if cd_strategy_name c = [] then None
     else Some (cd_strategy_name c) | _ \<Rightarrow> None)"

definition src_entry :: "signal_source \<Rightarrow> dval" where
  "src_entry s = (case s of NoSignal \<Rightarrow> DNone | FromAggregate a \<Rightarrow> DDec (ag_entry a)
     | FromCandidate c \<Rightarrow> DDec (cd_entry c))"

definition opt_dec :: "rat option \<Rightarrow> dval" where
  "opt_dec x = (case x of Some v \<Rightarrow> DDec v | None \<Rightarrow> DNone)"

definition src_stop_loss :: "signal_source \<Rightarrow> dval" where
  "src_stop_loss s = (case s of NoSignal \<Rightarrow> DNone | FromAggregate a \<Rightarrow> opt_dec (ag_stop_loss a)
     | FromCandidate c \<Rightarrow> DDec (cd_stop_loss c))"

definition src_take_profit :: "signal_source \<Rightarrow> dval" where
  "src_take_profit s = (case s of NoSignal \<Rightarrow> DNone | FromAggregate a \<Rightarrow> opt_dec (ag_take_profit a)
     | FromCandidate c \<Rightarrow> DDec (cd_take_profit c))"

definition src_leverage :: "signal_source \<Rightarrow> int \<Rightarrow> int" where
  "src_leverage s dv = (case s of NoSignal \<Rightarrow> dv | FromAggregate a \<Rightarrow> int_or (ag_leverage a) dv
     | FromCandidate c \<Rightarrow> int_or (cd_leverage c) dv)"

text \<open>\<open>_first_decimal\<close>: the first value that converts to a positive Decimal.\<close>

fun first_decimal :: "dval list \<Rightarrow> rat option" where
  "first_decimal [] = None"
| "first_decimal (v # vs) = (case d_decimal v of
     Some x \<Rightarrow> if 0 < x then Some x else first_decimal vs | None \<Rightarrow> first_decimal vs)"

definition cval_dval :: "cval \<Rightarrow> dval" where
  "cval_dval v = (case v of CInt n \<Rightarrow> DInt n | CFloat x \<Rightarrow> DFloat x | CBool b \<Rightarrow> DBool b
     | CStr s \<Rightarrow> DText None)"

definition q_price :: "rat \<Rightarrow> rat result" where "q_price x = quantize rhalf_up 2 x"
definition q_money :: "rat \<Rightarrow> rat result" where "q_money x = quantize rhalf_up 4 x"

definition candidate_price ::
    "market_snapshot option \<Rightarrow> technical_result option \<Rightarrow> signal_source \<Rightarrow> rat option" where
  "candidate_price snapshot technical source =
     (let data = (case snapshot of Some s \<Rightarrow> ms_values s | None \<Rightarrow> Map.empty)
      in first_decimal
        [dget data ''current_price'', dget data ''price'', dget data ''mark_price'',
         src_entry source, src_entry source,
         (case technical of Some r \<Rightarrow> DFloat (tr_latest_close r) | None \<Rightarrow> DNone),
         (case select_primary technical of Some t \<Rightarrow> DFloat (ta_close t) | None \<Rightarrow> DNone)])"

definition extract_atr :: "technical_result option \<Rightarrow> rat \<Rightarrow> config option \<Rightarrow> rat result" where
  "extract_atr technical entry config =
     (case first_decimal
        [(case select_primary technical of Some t \<Rightarrow> DFloat (ta_atr t) | None \<Rightarrow> DNone),
         (case config of Some c \<Rightarrow> (case cf_top c ''atr'' of Some v \<Rightarrow> cval_dval v | None \<Rightarrow> DNone)
          | None \<Rightarrow> DNone)] of
        Some atr \<Rightarrow> Inr atr
      | None \<Rightarrow> ebind (c_decimal (cfg config ''default_stop_pct'' (CFloat (f64 0.01)))) (\<lambda>p.
          Inr (max (dmul entry p) 0.01)))"

definition price_levels :: "rat list \<Rightarrow> rat list" where
  "price_levels raw = filter (\<lambda>x. 0 < x) (map repr10 raw)"

definition nearest_below :: "rat list \<Rightarrow> rat \<Rightarrow> rat option" where
  "nearest_below levels price = max_of (filter (\<lambda>l. l < price) levels)"

definition nearest_above :: "rat list \<Rightarrow> rat \<Rightarrow> rat option" where
  "nearest_above levels price = min_of (filter (\<lambda>l. price < l) levels)"

definition candidate_combined_risk ::
    "signal_score \<Rightarrow> news_sentiment_score \<Rightarrow> derivatives_market_score \<Rightarrow> rat" where
  "candidate_combined_risk chart news deriv =
     weigh_risks (float_or (sc_risk_score chart) 50) (ns_risk_score news) (dv_risk_score deriv)"

definition adjusted_scores :: "signal_score \<Rightarrow> derivatives_market_score \<Rightarrow> rat \<times> rat" where
  "adjusted_scores chart deriv =
     (score100 (fadd (sc_long_score chart) (dv_long_score_adjustment deriv)),
      score100 (fadd (sc_short_score chart) (dv_short_score_adjustment deriv)))"

section \<open>Exits\<close>

definition above :: "rat \<Rightarrow> rat option \<Rightarrow> rat option" where
  "above entry x = (case x of Some v \<Rightarrow> if entry < v then Some v else None | None \<Rightarrow> None)"

definition below :: "rat \<Rightarrow> rat option \<Rightarrow> rat option" where
  "below entry x = (case x of Some v \<Rightarrow> if v < entry then Some v else None | None \<Rightarrow> None)"

definition long_exits ::
    "rat \<Rightarrow> rat option \<Rightarrow> rat option \<Rightarrow> rat list \<Rightarrow> rat list \<Rightarrow> rat \<Rightarrow> rat \<Rightarrow> (rat \<times> rat) option" where
  "long_exits entry raw_sl raw_tp supports resistances stop_distance min_rr =
     (let stop = (case below entry raw_sl of Some s \<Rightarrow> s
                  | None \<Rightarrow> opt_or (nearest_below supports entry) (dsub entry stop_distance))
      in if entry \<le> stop then None
         else
           let min_tp = dadd entry (dmul (dsub entry stop) min_rr);
               tp = (case above entry raw_tp of Some t \<Rightarrow> Some t
                     | None \<Rightarrow> (case nearest_above resistances entry of
                         Some r \<Rightarrow> if min_tp \<le> r then Some r else None | None \<Rightarrow> None))
           in Some (stop, case tp of Some t \<Rightarrow> if t < min_tp then min_tp else t | None \<Rightarrow> min_tp))"

definition short_exits ::
    "rat \<Rightarrow> rat option \<Rightarrow> rat option \<Rightarrow> rat list \<Rightarrow> rat list \<Rightarrow> rat \<Rightarrow> rat \<Rightarrow> (rat \<times> rat) option" where
  "short_exits entry raw_sl raw_tp supports resistances stop_distance min_rr =
     (let stop = (case above entry raw_sl of Some s \<Rightarrow> s
                  | None \<Rightarrow> opt_or (nearest_above resistances entry) (dadd entry stop_distance))
      in if stop \<le> entry then None
         else
           let min_tp = dsub entry (dmul (dsub stop entry) min_rr);
               tp = (case below entry raw_tp of Some t \<Rightarrow> Some t
                     | None \<Rightarrow> (case nearest_below supports entry of
                         Some r \<Rightarrow> if r \<le> min_tp then Some r else None | None \<Rightarrow> None));
               tp = (case tp of Some t \<Rightarrow> if min_tp < t then min_tp else t | None \<Rightarrow> min_tp)
           in if tp \<le> 0 then None else Some (stop, tp))"

definition compute_exits ::
    "direction \<Rightarrow> rat \<Rightarrow> technical_result option \<Rightarrow> signal_source \<Rightarrow> rat \<Rightarrow> config option \<Rightarrow>
       (rat \<times> rat) option result" where
  "compute_exits action entry technical source min_required_rr config =
     ebind (extract_atr technical entry config) (\<lambda>atr.
     ebind (c_decimal (cfg config ''stop_atr_multiplier'' (CFloat (f64 1.5)))) (\<lambda>atr_mult.
     ebind (c_decimal (cfg config ''min_stop_pct'' (CFloat (f64 0.003)))) (\<lambda>min_stop.
     let stop_distance = max (dmul atr atr_mult) (dmul entry min_stop);
         min_rr = repr10 (max min_required_rr GLOBAL_MIN_RISK_REWARD_RATIO);
         supports = price_levels (case technical of Some r \<Rightarrow> tr_support_levels r | None \<Rightarrow> []);
         resistances = price_levels (case technical of Some r \<Rightarrow> tr_resistance_levels r | None \<Rightarrow> []);
         exits = (if action = LONG then long_exits else short_exits)
                   entry (first_decimal [src_stop_loss source]) (first_decimal [src_take_profit source])
                   supports resistances stop_distance min_rr
     in case exits of None \<Rightarrow> Inr None
        | Some (sl, tp) \<Rightarrow> ebind (q_price sl) (\<lambda>sl. ebind (q_price tp) (\<lambda>tp. Inr (Some (sl, tp)))))))"

definition candidate_liquidation_price :: "direction \<Rightarrow> rat \<Rightarrow> int \<Rightarrow> rat option result" where
  "candidate_liquidation_price action entry leverage =
     (if leverage \<le> 0 then Inr None
      else case action of
        LONG \<Rightarrow> ebind (q_price (dmul entry (dsub 1 (ddiv 1 (of_int leverage))))) (\<lambda>p. Inr (Some p))
      | SHORT \<Rightarrow> ebind (q_price (dmul entry (dadd 1 (ddiv 1 (of_int leverage))))) (\<lambda>p. Inr (Some p))
      | HOLD \<Rightarrow> Inr None)"

section \<open>The candidate\<close>

record candidate_meta =
  cm_coin :: string
  cm_symbol :: string
  cm_strategy_type :: strategy_type
  cm_strategy_name :: string
  cm_minutes :: int
  cm_min_rr :: rat
  cm_spread_bps :: rat
  cm_slippage_bps :: rat

definition make_hold :: "candidate_meta \<Rightarrow> rat option \<Rightarrow> trade_candidate result" where
  "make_hold m entry =
     ebind (q_price (opt_or entry 0)) (\<lambda>e.
     Inr \<lparr>tc_action = HOLD, tc_coin = cm_coin m, tc_symbol = cm_symbol m,
          tc_strategy_type = cm_strategy_type m, tc_expected_holding_minutes = cm_minutes m,
          tc_entry_price = e, tc_stop_loss = None, tc_take_profit = None, tc_leverage = 0,
          tc_margin_ratio = 0, tc_notional_size = 0, tc_actual_rr = 0, tc_min_required_rr = cm_min_rr m,
          tc_expected_gross_profit = None, tc_expected_gross_loss = None, tc_expected_fees = 0,
          tc_expected_slippage_cost = 0, tc_expected_net_profit = None, tc_expected_net_loss = None,
          tc_liquidation_price = None, tc_spread_bps = cm_spread_bps m,
          tc_slippage_bps = cm_slippage_bps m, tc_strategy_name = None\<rparr>)"

definition candidate_leverage :: "signal_source \<Rightarrow> config option \<Rightarrow> int result" where
  "candidate_leverage source config =
     ebind (c_int (cfg config ''max_leverage'' (CInt DECISION_MAX_LEVERAGE))) (\<lambda>max_leverage.
     Inr (max 1 (min (src_leverage source max_leverage) max_leverage)))"

definition candidate_margin_ratio :: "config option \<Rightarrow> rat result" where
  "candidate_margin_ratio config =
     ebind (c_float (cfg config ''max_entry_margin_ratio'' (CFloat DECISION_MAX_ENTRY_MARGIN_RATIO)))
       (\<lambda>max_ratio.
     ebind (c_float (cfg config ''default_margin_ratio'' (CFloat (min (f64 0.02) max_ratio)))) (\<lambda>ratio.
     Inr (fround 6 (clamp ratio 0 max_ratio))))"

definition candidate_balance :: "account_state option \<Rightarrow> config option \<Rightarrow> rat" where
  "candidate_balance account config =
     opt_or (first_decimal
       [(case account of Some a \<Rightarrow> DDec (ac_available_balance a) | None \<Rightarrow> DNone),
        (case account of Some a \<Rightarrow> DDec (ac_total_balance a) | None \<Rightarrow> DNone),
        cval_dval (cfg config ''default_account_balance'' (CFloat 0))]) 0"

text \<open>The amounts of a candidate: size, results, fees and the liquidation price.\<close>

definition price_candidate ::
    "candidate_meta \<Rightarrow> direction \<Rightarrow> rat \<Rightarrow> rat \<Rightarrow> rat \<Rightarrow> rat \<Rightarrow> rat \<Rightarrow> int \<Rightarrow> rat \<Rightarrow> rat \<Rightarrow>
       trade_candidate result" where
  "price_candidate m action entry sl tp profit_distance loss_distance leverage margin_ratio balance =
     (let actual_rr = f64 (ddiv profit_distance loss_distance);
          margin = dmul balance (repr10 margin_ratio)
      in
      ebind (q_money (dmul margin (of_int leverage))) (\<lambda>notional.
      ebind (q_money (ddiv (dmul notional profit_distance) entry)) (\<lambda>gross_profit.
      ebind (q_money (ddiv (dmul notional loss_distance) entry)) (\<lambda>gross_loss.
      ebind (q_money (dmul (dmul notional (repr10 DECISION_TAKER_FEE_RATE)) 2)) (\<lambda>fees.
      ebind (q_money (dmul (ddiv (dmul notional (repr10 (cm_slippage_bps m))) 10000) 2)) (\<lambda>slippage.
      ebind (q_money (dsub (dsub gross_profit fees) slippage)) (\<lambda>net_profit.
      ebind (q_money (dadd (dadd gross_loss fees) slippage)) (\<lambda>net_loss.
      ebind (q_price entry) (\<lambda>entry_q.
      ebind (candidate_liquidation_price action entry leverage) (\<lambda>liq.
      Inr \<lparr>tc_action = action, tc_coin = cm_coin m, tc_symbol = cm_symbol m,
           tc_strategy_type = cm_strategy_type m, tc_expected_holding_minutes = cm_minutes m,
           tc_entry_price = entry_q, tc_stop_loss = Some sl, tc_take_profit = Some tp,
           tc_leverage = leverage, tc_margin_ratio = margin_ratio, tc_notional_size = notional,
           tc_actual_rr = fround 4 actual_rr, tc_min_required_rr = cm_min_rr m,
           tc_expected_gross_profit = Some gross_profit, tc_expected_gross_loss = Some gross_loss,
           tc_expected_fees = fees, tc_expected_slippage_cost = slippage,
           tc_expected_net_profit = Some net_profit, tc_expected_net_loss = Some net_loss,
           tc_liquidation_price = liq, tc_spread_bps = cm_spread_bps m,
           tc_slippage_bps = cm_slippage_bps m, tc_strategy_name = Some (cm_strategy_name m)\<rparr>))))))))))"

definition directed_candidate ::
    "candidate_meta \<Rightarrow> direction \<Rightarrow> rat \<Rightarrow> technical_result option \<Rightarrow> signal_source \<Rightarrow>
       account_state option \<Rightarrow> config option \<Rightarrow> trade_candidate result" where
  "directed_candidate m action entry technical source account config =
     ebind (compute_exits action entry technical source (cm_min_rr m) config) (\<lambda>exits.
     case exits of
       None \<Rightarrow> make_hold m (Some entry)
     | Some (sl, tp) \<Rightarrow>
         let profit_distance = (if action = LONG then dsub tp entry else dsub entry tp);
             loss_distance = (if action = LONG then dsub entry sl else dsub sl entry)
         in if profit_distance \<le> 0 \<or> loss_distance \<le> 0 then make_hold m (Some entry)
            else
              ebind (candidate_leverage source config) (\<lambda>leverage.
              ebind (candidate_margin_ratio config) (\<lambda>margin_ratio.
              price_candidate m action entry sl tp profit_distance loss_distance leverage margin_ratio
                (candidate_balance account config))))"

text \<open>
  The direction the scores speak for, once nothing holds the candidate back: the checks of
  \<open>generate_trade_candidate\<close> before the exits, in their order.
\<close>

definition candidate_direction ::
    "strategy_type \<Rightarrow> bool \<Rightarrow> rat \<Rightarrow> rat \<Rightarrow> rat option \<Rightarrow> rat \<Rightarrow> rat \<Rightarrow> rat \<Rightarrow> rat \<Rightarrow> direction" where
  "candidate_direction t no_trade combined max_risk entry long_score short_score min_long min_short =
     (if t = UNKNOWN_STRATEGY \<or> no_trade \<or> max_risk < combined \<or> entry = None then HOLD
      else if min_long \<le> long_score \<and> min_short \<le> short_score then HOLD
      else if min_long \<le> long_score then LONG
      else if min_short \<le> short_score then SHORT else HOLD)"

text \<open>\<open>float(v or 0.0)\<close> of a configured value or, without one, of the snapshot's.\<close>

definition candidate_spread :: "market_snapshot option \<Rightarrow> config option \<Rightarrow> rat result" where
  "candidate_spread snapshot config =
     (let v = dget (case snapshot of Some s \<Rightarrow> ms_values s | None \<Rightarrow> Map.empty) ''spread_bps'';
          w = (case config of None \<Rightarrow> None
               | Some c \<Rightarrow> (case (case cf_decision c of Some d \<Rightarrow> d ''spread_bps'' | None \<Rightarrow> None) of
                   Some x \<Rightarrow> Some x | None \<Rightarrow> cf_top c ''spread_bps''))
      in case w of Some x \<Rightarrow> if c_bool x then c_float x else Inr 0
         | None \<Rightarrow> if d_truthy v then d_float v else Inr 0)"

definition generate_trade_candidate ::
    "string \<Rightarrow> string \<Rightarrow> market_snapshot option \<Rightarrow> technical_result option \<Rightarrow> signal_source \<Rightarrow>
       market_regime_result \<Rightarrow> signal_score \<Rightarrow> news_sentiment_score \<Rightarrow> derivatives_market_score \<Rightarrow>
       strategy_selection \<Rightarrow> account_state option \<Rightarrow> config option \<Rightarrow> trade_candidate result" where
  "generate_trade_candidate coin symbol snapshot technical source regime chart news deriv selection
       account config =
     (let t = ss_strategy_type selection;
          min_rr = (if ss_min_required_rr selection \<le> 0 \<and> t \<noteq> UNKNOWN_STRATEGY
                    then GLOBAL_MIN_RISK_REWARD_RATIO else ss_min_required_rr selection);
          entry = candidate_price snapshot technical source;
          (long_score, short_score) = adjusted_scores chart deriv
      in
      ebind (candidate_spread snapshot config) (\<lambda>spread.
      ebind (c_float (cfg config ''slippage_bps'' (CFloat DEFAULT_SLIPPAGE_BPS))) (\<lambda>slippage.
      ebind (c_float (cfg config ''max_risk_score'' (CFloat MAX_RISK_SCORE))) (\<lambda>max_risk.
      ebind (c_float (cfg config ''min_long_score'' (CFloat MIN_LONG_SCORE))) (\<lambda>min_long.
      ebind (c_float (cfg config ''min_short_score'' (CFloat MIN_SHORT_SCORE))) (\<lambda>min_short.
      let m = \<lparr>cm_coin = coin, cm_symbol = symbol, cm_strategy_type = t,
               cm_strategy_name = opt_or (src_name source) (strategy_value t),
               cm_minutes = ss_expected_holding_minutes selection, cm_min_rr = min_rr,
               cm_spread_bps = spread, cm_slippage_bps = slippage\<rparr>;
          action = candidate_direction t (ns_no_trade_flag news)
            (candidate_combined_risk chart news deriv) max_risk entry long_score short_score
            min_long min_short
      in if action = HOLD then make_hold m entry
         else directed_candidate m action (the entry) technical source account config))))))"

end
