(* ===== verification/DecisionEngine.thy ===== *)
theory DecisionEngine
  imports CandidateGen
begin

text \<open>
  \<open>agents/decision/engine.py\<close>: the chain from the market snapshot to the trade candidate. An
  exception leaves the chain; the pipeline turns it into a HOLD.
\<close>

record decision_result =
  dr_regime :: market_regime_result
  dr_chart_score :: signal_score
  dr_news_score :: news_sentiment_score
  dr_derivatives_score :: derivatives_market_score
  dr_strategy_selection :: strategy_selection
  dr_candidate :: trade_candidate
  dr_strategy_candidates :: "strategy_candidate list"
  dr_selected :: "strategy_candidate option"
  dr_confidence :: rat

definition extract_news_data :: "market_snapshot option \<Rightarrow> news_data option" where
  "extract_news_data snapshot =
     (case snapshot of None \<Rightarrow> None
      | Some s \<Rightarrow> if ms_news s = Some (NewsItems []) then None else ms_news s)"

definition extract_fear_greed_data :: "market_snapshot option \<Rightarrow> fear_greed_data option" where
  "extract_fear_greed_data snapshot = (case snapshot of None \<Rightarrow> None | Some s \<Rightarrow> ms_fear_greed s)"

definition snapshot_values :: "market_snapshot option \<Rightarrow> ddict" where
  "snapshot_values s = (case s of None \<Rightarrow> Map.empty | Some s \<Rightarrow> ms_values s)"

text \<open>The aggregated signal has none of the derivative fields, so only the snapshot supplies them.\<close>

definition extract_derivatives :: "market_snapshot option \<Rightarrow> derivatives_data" where
  "extract_derivatives snapshot =
     (let v = snapshot_values snapshot
      in \<lparr>dd_values = map_of (map (\<lambda>k. (k, dget v k))
            [''funding_rate'', ''open_interest'', ''oi_change_pct'', ''long_short_ratio'',
             ''long_account_pct'', ''short_account_pct'', ''liquidation_usdt'']),
          dd_liquidations = None\<rparr>)"

definition extract_price_data :: "market_snapshot option \<Rightarrow> ddict" where
  "extract_price_data snapshot =
     map_of (map (\<lambda>k. (k, dget (snapshot_values snapshot) k)) [''price_change_pct'', ''volume_change_pct''])"

definition allowed_candidates ::
    "aggregated_signal option \<Rightarrow> market_regime \<Rightarrow> strategy_candidate list" where
  "allowed_candidates signal regime =
     (case signal of None \<Rightarrow> []
      | Some a \<Rightarrow>
          if ag_candidates a \<noteq> []
          then filter (\<lambda>c. is_strategy_allowed_for_regime (cd_strategy_name c) regime) (ag_candidates a)
          else if ag_all_signals a = [] then []
          else build_strategy_candidates (ag_all_signals a) (Some regime))"

text \<open>\<open>part in name\<close>.\<close>

definition contains :: "string \<Rightarrow> string \<Rightarrow> bool" where
  "contains part name \<longleftrightarrow>
     list_ex (\<lambda>i. take (length part) (drop i name) = part) [0..<length name + 1]"

definition candidate_strategy_type :: "strategy_candidate \<Rightarrow> strategy_type" where
  "candidate_strategy_type c =
     (let name = map upper_char (cd_strategy_name c)
      in if contains ''BREAKOUT'' name then BREAKOUT
         else if contains ''SCALPING'' name then SCALPING
         else if contains ''MEAN_REVERSION'' name \<or> contains ''RSI_REVERSAL'' name then INTRADAY
         else if contains ''TREND'' name then TREND_FOLLOWING else UNKNOWN_STRATEGY)"

definition selection_from_candidate :: "strategy_candidate \<Rightarrow> strategy_selection" where
  "selection_from_candidate c =
     (let t = candidate_strategy_type c;
          name = (if cd_strategy_name c = [] then strategy_value t else cd_strategy_name c)
      in \<lparr>ss_strategy_type = t,
          ss_expected_holding_minutes = get_or STRATEGY_HOLDING_MINUTES (strategy_value t) 0,
          ss_min_required_rr = get_or STRATEGY_MIN_RR name (get_or STRATEGY_MIN_RR (strategy_value t) 2)\<rparr>)"

definition decision_run ::
    "string \<Rightarrow> string \<Rightarrow> market_snapshot option \<Rightarrow> technical_result option \<Rightarrow>
       aggregated_signal option \<Rightarrow> account_state option \<Rightarrow> config option \<Rightarrow> decision_result result" where
  "decision_run coin symbol snapshot technical signal account config =
     ebind (classify_market_regime snapshot technical signal config) (\<lambda>regime.
     ebind (score_chart_signals regime technical snapshot config) (\<lambda>chart.
     ebind (score_news_sentiment (extract_news_data snapshot) (extract_fear_greed_data snapshot)
              regime config) (\<lambda>news.
     ebind (score_derivatives_market (Some (extract_derivatives snapshot))
              (extract_price_data snapshot) regime config) (\<lambda>deriv.
     ebind (select_strategy_type regime (Some chart) (Some news) (Some deriv) snapshot config)
       (\<lambda>selection.
     let candidates = allowed_candidates signal (mr_regime regime);
         selected = (case candidates of [] \<Rightarrow> None | c # cs \<Rightarrow> Some c);
         source = (case selected of Some c \<Rightarrow> FromCandidate c
                   | None \<Rightarrow> (case signal of Some a \<Rightarrow> FromAggregate a | None \<Rightarrow> NoSignal));
         selection = (case selected of Some c \<Rightarrow> selection_from_candidate c | None \<Rightarrow> selection)
     in
     ebind (generate_trade_candidate coin symbol snapshot technical source regime chart news deriv
              selection account config) (\<lambda>candidate.
     Inr \<lparr>dr_regime = regime, dr_chart_score = chart, dr_news_score = news,
          dr_derivatives_score = deriv, dr_strategy_selection = selection, dr_candidate = candidate,
          dr_strategy_candidates = candidates, dr_selected = selected,
          dr_confidence = fround 4 (clamp (fdiv (max (sc_long_score chart) (sc_short_score chart)) 100)
            0 1)\<rparr>))))))"

end
