(* ===== verification/DecisionProps.thy ===== *)
theory DecisionProps
  imports DecisionEngine FinalDecision
begin

text \<open>
  The regime as a consensus of signs, the ranges of the decision chain's results, and what a
  decision to trade rests on.
\<close>

section \<open>Ranges\<close>

lemma clamp_range: "low \<le> high \<Longrightarrow> low \<le> clamp x low high" "low \<le> high \<Longrightarrow> clamp x low high \<le> high"
  using clamp_bounds [of low high x] by auto

lemma score100_range [simp]: "0 \<le> score100 x" "score100 x \<le> 100"
  using fround_range [of 0 "clamp x 0 100" 100 2] clamp_range [of 0 100 x] by (simp_all add: score100_def)

lemma rhalf_up_mono: "x \<le> y \<Longrightarrow> rhalf_up x \<le> rhalf_up y"
proof -
  assume "x \<le> y"
  moreover have "\<lceil>x - 1 / 2\<rceil> \<le> \<lfloor>y + 1 / 2\<rfloor>" if "x < 0" "0 \<le> y"
  proof -
    have "\<lceil>x - 1 / 2\<rceil> \<le> 0" "0 \<le> \<lfloor>y + 1 / 2\<rfloor>" using that by simp_all
    then show ?thesis by linarith
  qed
  ultimately show ?thesis
    by (auto simp: rhalf_up_def intro: floor_mono ceiling_mono)
qed

lemma rhalf_up_of_int [simp]: "rhalf_up (of_int n) = n"
  unfolding rhalf_up_def by (simp add: floor_eq_iff ceiling_eq_iff)

lemma quantize_half_mono:
  assumes "quantize rhalf_up k x = Inr a" "quantize rhalf_up k y = Inr b" "x \<le> y"
  shows "a \<le> b"
proof -
  have "rhalf_up (x * pw 10 k) \<le> rhalf_up (y * pw 10 k)"
    using assms(3) by (intro rhalf_up_mono mult_right_mono) auto
  moreover have "a = of_int (rhalf_up (x * pw 10 k)) * pw 10 (- k)"
    "b = of_int (rhalf_up (y * pw 10 k)) * pw 10 (- k)"
    using assms(1,2) by (auto simp: quantize_def Let_def split: if_splits)
  ultimately show ?thesis by (auto intro!: mult_right_mono)
qed

lemma quantize_half_idem:
  assumes "quantize rhalf_up k x = Inr a"
  shows "quantize rhalf_up k a = Inr a"
proof -
  have a: "a = of_int (rhalf_up (x * pw 10 k)) * pw 10 (- k)" "\<not> 10 ^ 28 \<le> \<bar>rhalf_up (x * pw 10 k)\<bar>"
    using assms by (auto simp: quantize_def Let_def split: if_splits)
  have "pw 10 (- k) * pw 10 k = (1 :: rat)" using pw_add [of 10 "- k" k] by simp
  then have "a * pw 10 k = of_int (rhalf_up (x * pw 10 k))" unfolding a(1) by (simp add: mult.assoc)
  then show ?thesis using a(2) by (simp only: quantize_def Let_def rhalf_up_of_int if_False a(1) [symmetric])
qed

lemma q_price_between:
  assumes "q_price x = Inr a" "q_price e = Inr b"
  shows "a \<le> e \<Longrightarrow> a \<le> b" "e \<le> a \<Longrightarrow> b \<le> a"
  using assms quantize_half_idem [OF assms(1) [unfolded q_price_def]]
  by (auto simp: q_price_def intro: quantize_half_mono)

section \<open>The candidate\<close>

definition sides_ok :: "direction \<Rightarrow> rat \<Rightarrow> rat \<Rightarrow> rat \<Rightarrow> bool" where
  "sides_ok d entry sl tp \<longleftrightarrow>
     (if d = LONG then sl \<le> entry \<and> entry \<le> tp \<and> sl < tp else tp \<le> entry \<and> entry \<le> sl \<and> tp < sl)"

definition candidate_typed :: "int \<Rightarrow> rat \<Rightarrow> trade_candidate \<Rightarrow> bool" where
  "candidate_typed max_lev max_ratio c \<longleftrightarrow>
     (if tc_action c = HOLD
      then tc_stop_loss c = None \<and> tc_take_profit c = None \<and> tc_leverage c = 0 \<and>
        tc_margin_ratio c = 0 \<and> tc_notional_size c = 0 \<and> tc_expected_net_profit c = None \<and>
        tc_liquidation_price c = None
      else tc_strategy_type c \<noteq> UNKNOWN_STRATEGY \<and>
        (\<exists>sl tp liq np nl. tc_stop_loss c = Some sl \<and> tc_take_profit c = Some tp \<and>
          tc_liquidation_price c = Some liq \<and> tc_expected_net_profit c = Some np \<and>
          tc_expected_net_loss c = Some nl \<and> sides_ok (tc_action c) (tc_entry_price c) sl tp) \<and>
        1 \<le> tc_leverage c \<and> tc_leverage c \<le> max 1 max_lev \<and>
        0 \<le> tc_margin_ratio c \<and> tc_margin_ratio c \<le> max_ratio + 1 / 10 ^ 6)"

lemma make_hold_typed: "make_hold m e = Inr c \<Longrightarrow> candidate_typed l r c \<and> tc_action c = HOLD"
  by (auto simp: make_hold_def ebind_Inr_iff candidate_typed_def)

lemma candidate_leverage_range:
  assumes "candidate_leverage source config = Inr lev"
    "c_int (cfg config ''max_leverage'' (CInt DECISION_MAX_LEVERAGE)) = Inr max_lev"
  shows "1 \<le> lev" "lev \<le> max 1 max_lev"
  using assms by (auto simp: candidate_leverage_def)

lemma fround_near: "0 \<le> x \<Longrightarrow> x \<le> 1 \<Longrightarrow> fround 6 x \<le> x + 1 / 10 ^ 6"
proof -
  assume x: "0 \<le> x" "x \<le> 1"
  define y where "y = of_int (rhe (x * 10 ^ 6)) / (10 ^ 6 :: rat)"
  have "\<bar>of_int (rhe (x * 10 ^ 6)) - x * 10 ^ 6\<bar> \<le> 1 / 2" by (rule rhe_err)
  then have "of_int (rhe (x * 10 ^ 6)) \<le> x * 10 ^ 6 + 1 / 2" unfolding abs_le_iff by linarith
  then have "y \<le> x + 1 / (2 * 10 ^ 6)" unfolding y_def by (simp add: field_simps)
  moreover have "0 \<le> rhe (x * 10 ^ 6)" using rhe_mono [of 0 "x * 10 ^ 6"] x by simp
  then have "0 \<le> y" by (simp add: y_def)
  then have "\<bar>f64 y - y\<bar> \<le> y / 2 ^ 53" using f64_err [of y] by simp
  then have "f64 y \<le> y + y / 2 ^ 53" by linarith
  ultimately show ?thesis using x by (simp add: fround_def y_def)
qed

lemma candidate_margin_range:
  assumes "candidate_margin_ratio config = Inr ratio"
    "c_float (cfg config ''max_entry_margin_ratio'' (CFloat DECISION_MAX_ENTRY_MARGIN_RATIO)) = Inr max_ratio"
    "0 \<le> max_ratio" "max_ratio \<le> 1"
  shows "0 \<le> ratio" "ratio \<le> max_ratio + 1 / 10 ^ 6"
proof -
  obtain x where r: "ratio = fround 6 (clamp x 0 max_ratio)"
    using assms(1,2) by (auto simp: candidate_margin_ratio_def ebind_Inr_iff)
  have c: "0 \<le> clamp x 0 max_ratio" "clamp x 0 max_ratio \<le> max_ratio"
    using clamp_range [OF assms(3)] by auto
  show "0 \<le> ratio" using fround_range(1) [of 0 _ 1] c assms(4) unfolding r by simp
  show "ratio \<le> max_ratio + 1 / 10 ^ 6" using fround_near [OF c(1)] c assms(4) unfolding r by linarith
qed

lemma directed_candidate_typed:
  assumes "directed_candidate m action entry technical source account config = Inr c"
    "action = LONG \<or> action = SHORT" "cm_strategy_type m \<noteq> UNKNOWN_STRATEGY"
    "c_int (cfg config ''max_leverage'' (CInt DECISION_MAX_LEVERAGE)) = Inr max_lev"
    "c_float (cfg config ''max_entry_margin_ratio'' (CFloat DECISION_MAX_ENTRY_MARGIN_RATIO)) = Inr max_ratio"
    "0 \<le> max_ratio" "max_ratio \<le> 1"
  shows "candidate_typed max_lev max_ratio c \<and> (tc_action c = HOLD \<or> tc_action c = action)"
proof -
  obtain exits where e: "compute_exits action entry technical source (cm_min_rr m) config = Inr exits"
    using assms(1) by (auto simp: directed_candidate_def ebind_Inr_iff)
  show ?thesis
  proof (cases exits)
    case None
    then have "make_hold m (Some entry) = Inr c" using assms(1) e by (simp add: directed_candidate_def)
    then show ?thesis by (auto dest: make_hold_typed)
  next
    case (Some x)
    obtain sl tp where x: "x = (sl, tp)" by (cases x)
    obtain sl0 tp0 where q: "q_price sl0 = Inr sl" "q_price tp0 = Inr tp"
      using e Some x unfolding compute_exits_def Let_def
      by (auto simp: ebind_Inr_iff split: option.splits)
    let ?p = "if action = LONG then dsub tp entry else dsub entry tp"
    let ?l = "if action = LONG then dsub entry sl else dsub sl entry"
    show ?thesis
    proof (cases "?p \<le> 0 \<or> ?l \<le> 0")
      case True
      then have "make_hold m (Some entry) = Inr c"
        using assms(1) e Some x by (simp add: directed_candidate_def Let_def split: if_splits)
      then show ?thesis by (auto dest: make_hold_typed)
    next
      case False
      obtain lev ratio where lr: "candidate_leverage source config = Inr lev"
        "candidate_margin_ratio config = Inr ratio"
        "price_candidate m action entry sl tp ?p ?l lev ratio (candidate_balance account config) = Inr c"
        using assms(1) e Some x False
        by (simp add: directed_candidate_def Let_def ebind_Inr_iff) blast
      note L = candidate_leverage_range [OF lr(1) assms(4)]
      note M = candidate_margin_range [OF lr(2) assms(5-7)]
      have side: "if action = LONG then sl < entry \<and> entry < tp else tp < entry \<and> entry < sl"
        using False by (auto simp: dsub_def not_le split: if_splits)
      obtain liq where liq: "candidate_liquidation_price action entry lev = Inr liq"
        and c: "tc_action c = action" "tc_strategy_type c = cm_strategy_type m" "tc_stop_loss c = Some sl"
          "tc_take_profit c = Some tp" "tc_leverage c = lev" "tc_margin_ratio c = ratio"
          "tc_liquidation_price c = liq" "q_price entry = Inr (tc_entry_price c)"
          "\<exists>np. tc_expected_net_profit c = Some np" "\<exists>nl. tc_expected_net_loss c = Some nl"
        using lr(3) by (auto simp: price_candidate_def Let_def ebind_Inr_iff)
      have "\<exists>l. liq = Some l"
        using liq L(1) assms(2) by (auto simp: candidate_liquidation_price_def ebind_Inr_iff)
      moreover have "sides_ok action (tc_entry_price c) sl tp"
        using side q_price_between [OF q(1) c(8)] q_price_between [OF q(2) c(8)] assms(2)
        by (auto simp: sides_ok_def)
      ultimately show ?thesis using c L M assms(2,3) by (auto simp: candidate_typed_def)
    qed
  qed
qed

lemma price_candidate_action:
  "price_candidate m action entry sl tp pd ld lev ratio bal = Inr c \<Longrightarrow> tc_action c = action"
  by (auto simp: price_candidate_def Let_def ebind_Inr_iff)

lemma directed_candidate_action:
  assumes "directed_candidate m action entry technical source account config = Inr c"
  shows "tc_action c = HOLD \<or> tc_action c = action"
proof -
  have "make_hold m (Some entry) = Inr c \<or>
      (\<exists>sl tp pd ld lev ratio bal. price_candidate m action entry sl tp pd ld lev ratio bal = Inr c)"
    using assms unfolding directed_candidate_def Let_def
    by (simp add: ebind_Inr_iff split: option.splits prod.splits if_splits; metis surj_pair)
  then show ?thesis using price_candidate_action make_hold_typed by blast
qed

lemma generate_candidate_cases:
  assumes "generate_trade_candidate coin symbol snapshot technical source regime chart news deriv
      selection account config = Inr c"
  obtains max_risk min_long min_short d m where
    "c_float (cfg config ''max_risk_score'' (CFloat MAX_RISK_SCORE)) = Inr max_risk"
    "c_float (cfg config ''min_long_score'' (CFloat MIN_LONG_SCORE)) = Inr min_long"
    "c_float (cfg config ''min_short_score'' (CFloat MIN_SHORT_SCORE)) = Inr min_short"
    "d = candidate_direction (ss_strategy_type selection) (ns_no_trade_flag news)
       (candidate_combined_risk chart news deriv) max_risk (candidate_price snapshot technical source)
       (fst (adjusted_scores chart deriv)) (snd (adjusted_scores chart deriv)) min_long min_short"
    "cm_strategy_type m = ss_strategy_type selection"
    "(if d = HOLD then make_hold m (candidate_price snapshot technical source)
      else directed_candidate m d (the (candidate_price snapshot technical source)) technical source
             account config) = Inr c"
proof -
  obtain spread slippage max_risk min_long min_short where cs:
    "c_float (cfg config ''max_risk_score'' (CFloat MAX_RISK_SCORE)) = Inr max_risk"
    "c_float (cfg config ''min_long_score'' (CFloat MIN_LONG_SCORE)) = Inr min_long"
    "c_float (cfg config ''min_short_score'' (CFloat MIN_SHORT_SCORE)) = Inr min_short"
    "candidate_spread snapshot config = Inr spread"
    "c_float (cfg config ''slippage_bps'' (CFloat DEFAULT_SLIPPAGE_BPS)) = Inr slippage"
    using assms(1) unfolding generate_trade_candidate_def Let_def
    by (auto simp: ebind_Inr_iff split: prod.splits)
  define d where "d = candidate_direction (ss_strategy_type selection) (ns_no_trade_flag news)
    (candidate_combined_risk chart news deriv) max_risk (candidate_price snapshot technical source)
    (fst (adjusted_scores chart deriv)) (snd (adjusted_scores chart deriv)) min_long min_short"
  obtain m where m: "cm_strategy_type m = ss_strategy_type selection"
    "(if d = HOLD then make_hold m (candidate_price snapshot technical source)
      else directed_candidate m d (the (candidate_price snapshot technical source)) technical source
             account config) = Inr c"
    using assms(1) cs unfolding generate_trade_candidate_def Let_def d_def
    by (simp add: case_prod_beta) (metis candidate_meta.select_convs(3))
  show thesis using that cs(1-3) d_def m by blast
qed

lemma generate_candidate_directed:
  assumes "generate_trade_candidate coin symbol snapshot technical source regime chart news deriv
      selection account config = Inr c" "tc_action c \<noteq> HOLD"
  shows "\<exists>max_risk min_long min_short.
       c_float (cfg config ''max_risk_score'' (CFloat MAX_RISK_SCORE)) = Inr max_risk \<and>
       c_float (cfg config ''min_long_score'' (CFloat MIN_LONG_SCORE)) = Inr min_long \<and>
       c_float (cfg config ''min_short_score'' (CFloat MIN_SHORT_SCORE)) = Inr min_short \<and>
       candidate_direction (ss_strategy_type selection) (ns_no_trade_flag news)
         (candidate_combined_risk chart news deriv) max_risk (candidate_price snapshot technical source)
         (fst (adjusted_scores chart deriv)) (snd (adjusted_scores chart deriv)) min_long min_short
       = tc_action c"
proof (rule generate_candidate_cases [OF assms(1)])
  fix max_risk min_long min_short d m
  assume t: "c_float (cfg config ''max_risk_score'' (CFloat MAX_RISK_SCORE)) = Inr max_risk"
    "c_float (cfg config ''min_long_score'' (CFloat MIN_LONG_SCORE)) = Inr min_long"
    "c_float (cfg config ''min_short_score'' (CFloat MIN_SHORT_SCORE)) = Inr min_short"
    and d: "d = candidate_direction (ss_strategy_type selection) (ns_no_trade_flag news)
       (candidate_combined_risk chart news deriv) max_risk (candidate_price snapshot technical source)
       (fst (adjusted_scores chart deriv)) (snd (adjusted_scores chart deriv)) min_long min_short"
    and m: "(if d = HOLD then make_hold m (candidate_price snapshot technical source)
      else directed_candidate m d (the (candidate_price snapshot technical source)) technical source
             account config) = Inr c"
  have "tc_action c = HOLD \<or> tc_action c = d"
    using m by (cases "d = HOLD") (auto dest: make_hold_typed directed_candidate_action)
  then show ?thesis using t d assms(2) by auto
qed

lemma generate_candidate_typed:
  assumes "generate_trade_candidate coin symbol snapshot technical source regime chart news deriv
      selection account config = Inr c"
    "c_int (cfg config ''max_leverage'' (CInt DECISION_MAX_LEVERAGE)) = Inr max_lev"
    "c_float (cfg config ''max_entry_margin_ratio'' (CFloat DECISION_MAX_ENTRY_MARGIN_RATIO)) = Inr max_ratio"
    "0 \<le> max_ratio" "max_ratio \<le> 1"
  shows "candidate_typed max_lev max_ratio c"
proof (rule generate_candidate_cases [OF assms(1)])
  fix max_risk min_long min_short d m
  assume d: "d = candidate_direction (ss_strategy_type selection) (ns_no_trade_flag news)
       (candidate_combined_risk chart news deriv) max_risk (candidate_price snapshot technical source)
       (fst (adjusted_scores chart deriv)) (snd (adjusted_scores chart deriv)) min_long min_short"
    and t: "cm_strategy_type m = ss_strategy_type selection"
    and m: "(if d = HOLD then make_hold m (candidate_price snapshot technical source)
      else directed_candidate m d (the (candidate_price snapshot technical source)) technical source
             account config) = Inr c"
  have u: "d \<noteq> HOLD \<Longrightarrow> ss_strategy_type selection \<noteq> UNKNOWN_STRATEGY"
    by (auto simp: d candidate_direction_def)
  have dd: "d \<noteq> HOLD \<Longrightarrow> d = LONG \<or> d = SHORT" by (cases d) auto
  show ?thesis
  proof (cases "d = HOLD")
    case True
    then show ?thesis using m by (auto dest: make_hold_typed)
  next
    case False
    then have "directed_candidate m d (the (candidate_price snapshot technical source)) technical source
        account config = Inr c" using m by simp
    then have "candidate_typed max_lev max_ratio c \<and> (tc_action c = HOLD \<or> tc_action c = d)"
      by (rule directed_candidate_typed) (use False dd u t assms in auto)
    then show ?thesis by simp
  qed
qed

section \<open>The chain\<close>

lemma regime_result_range: "0 \<le> mr_confidence (regime_result r n m)" "mr_confidence (regime_result r n m) \<le> 1"
proof -
  have "0 \<le> fdiv (of_nat n) (of_nat m)" by (simp add: fdiv_def f64_nonneg)
  then show "0 \<le> mr_confidence (regime_result r n m)" "mr_confidence (regime_result r n m) \<le> 1"
    using fround_range [of 0 "min 1 (fdiv (of_nat n) (of_nat m))" 1 3] by (simp_all add: regime_result_def)
qed

lemma regime_confidence_range:
  assumes "classify_market_regime snapshot technical signal config = Inr r"
  shows "0 \<le> mr_confidence r" "mr_confidence r \<le> 1"
  using assms regime_result_range unfolding classify_market_regime_def Let_def
  by (auto simp: ebind_Inr_iff split: if_splits prod.splits)

lemma chart_range:
  assumes "score_chart_signals regime technical snapshot config = Inr s"
  shows "list_all (\<lambda>x. 0 \<le> x \<and> x \<le> 100)
     [sc_long_score s, sc_short_score s, sc_no_trade_score s, sc_risk_score s]"
  using assms unfolding score_chart_signals_def Let_def
  by (auto simp: ebind_Inr_iff chart_result_def split: option.splits)

lemma risk_range: "0 \<le> fround 2 (clamp x 0 100)" "fround 2 (clamp x 0 100) \<le> 100"
  using score100_range [of x] by (simp_all add: score100_def)

lemma adjust_range: "- 30 \<le> fround 2 (clamp x (-30) 30)" "fround 2 (clamp x (-30) 30) \<le> 30"
  using fround_range [of "-30" "clamp x (-30) 30" 30 2] clamp_range [of "-30" 30 x] by simp_all

lemma news_range:
  assumes "score_news_sentiment news fg regime config = Inr s"
  shows "list_all (\<lambda>x. -30 \<le> x \<and> x \<le> 30) [ns_long_score_adjustment s, ns_short_score_adjustment s]"
    "0 \<le> ns_risk_score s" "ns_risk_score s \<le> 100"
    "-100 \<le> ns_sentiment_score s" "ns_sentiment_score s \<le> 100"
proof -
  have m: "-100 \<le> fround 1 (clamp x (-100) 100)" "fround 1 (clamp x (-100) 100) \<le> 100" for x
    using fround_range [of "-100" "clamp x (-100) 100" 100 1] clamp_range [of "-100" 100 x] by simp_all
  show "list_all (\<lambda>x. -30 \<le> x \<and> x \<le> 30) [ns_long_score_adjustment s, ns_short_score_adjustment s]"
    "0 \<le> ns_risk_score s" "ns_risk_score s \<le> 100"
    "-100 \<le> ns_sentiment_score s" "ns_sentiment_score s \<le> 100"
    using assms risk_range adjust_range m unfolding score_news_sentiment_def Let_def
    by (auto simp: ebind_Inr_iff split: prod.splits)
qed

lemma derivatives_range:
  assumes "score_derivatives_market data prices regime config = Inr s"
  shows "0 \<le> dv_risk_score s" "dv_risk_score s \<le> 100"
  using assms risk_range unfolding score_derivatives_market_def Let_def
  by (auto simp: ebind_Inr_iff dv_neutral_def split: if_splits)

lemma blocked_candidates:
  assumes "REGIME_ALLOWED_STRATEGIES r = []"
  shows "allowed_candidates signal r = []"
proof -
  have n: "\<not> is_strategy_allowed_for_regime name r" for name
    using assms by (simp add: is_strategy_allowed_for_regime_def)
  then have "to_candidate (Some r) s = None" for s
    by (simp add: to_candidate_def split: option.splits)
  then have "List.map_filter (to_candidate (Some r)) ss = []" for ss
    by (simp add: map_filter_def)
  then show ?thesis using n
    by (auto simp: allowed_candidates_def build_strategy_candidates_def split: option.splits)
qed

lemma decision_run_Inr:
  assumes "decision_run coin symbol snapshot technical signal account config = Inr r"
  obtains source where
    "classify_market_regime snapshot technical signal config = Inr (dr_regime r)"
    "score_chart_signals (dr_regime r) technical snapshot config = Inr (dr_chart_score r)"
    "score_news_sentiment (extract_news_data snapshot) (extract_fear_greed_data snapshot) (dr_regime r)
       config = Inr (dr_news_score r)"
    "score_derivatives_market (Some (extract_derivatives snapshot)) (extract_price_data snapshot)
       (dr_regime r) config = Inr (dr_derivatives_score r)"
    "generate_trade_candidate coin symbol snapshot technical source (dr_regime r) (dr_chart_score r)
       (dr_news_score r) (dr_derivatives_score r) (dr_strategy_selection r) account config
       = Inr (dr_candidate r)"
    "allowed_candidates signal (mr_regime (dr_regime r)) = [] \<Longrightarrow>
       select_strategy_type (dr_regime r) (Some (dr_chart_score r)) (Some (dr_news_score r))
         (Some (dr_derivatives_score r)) snapshot config = Inr (dr_strategy_selection r)"
    "dr_confidence r = fround 4 (clamp (fdiv (max (sc_long_score (dr_chart_score r))
        (sc_short_score (dr_chart_score r))) 100) 0 1)"
proof -
  obtain regime chart news deriv sel cand where e:
    "classify_market_regime snapshot technical signal config = Inr regime"
    "score_chart_signals regime technical snapshot config = Inr chart"
    "score_news_sentiment (extract_news_data snapshot) (extract_fear_greed_data snapshot) regime config
       = Inr news"
    "score_derivatives_market (Some (extract_derivatives snapshot)) (extract_price_data snapshot) regime
       config = Inr deriv"
    "select_strategy_type regime (Some chart) (Some news) (Some deriv) snapshot config = Inr sel"
    and r: "r = \<lparr>dr_regime = regime, dr_chart_score = chart, dr_news_score = news,
       dr_derivatives_score = deriv,
       dr_strategy_selection = (case (case allowed_candidates signal (mr_regime regime) of [] \<Rightarrow> None
          | c # cs \<Rightarrow> Some c) of Some c \<Rightarrow> selection_from_candidate c | None \<Rightarrow> sel),
       dr_candidate = cand, dr_strategy_candidates = allowed_candidates signal (mr_regime regime),
       dr_selected = (case allowed_candidates signal (mr_regime regime) of [] \<Rightarrow> None | c # cs \<Rightarrow> Some c),
       dr_confidence = fround 4 (clamp (fdiv (max (sc_long_score chart) (sc_short_score chart)) 100) 0 1)\<rparr>"
    and g: "\<exists>source. generate_trade_candidate coin symbol snapshot technical source regime chart news deriv
       (case (case allowed_candidates signal (mr_regime regime) of [] \<Rightarrow> None
          | c # cs \<Rightarrow> Some c) of Some c \<Rightarrow> selection_from_candidate c | None \<Rightarrow> sel) account config = Inr cand"
    using assms unfolding decision_run_def Let_def by (auto simp: ebind_Inr_iff) blast
  obtain source where "generate_trade_candidate coin symbol snapshot technical source regime chart news deriv
       (case (case allowed_candidates signal (mr_regime regime) of [] \<Rightarrow> None
          | c # cs \<Rightarrow> Some c) of Some c \<Rightarrow> selection_from_candidate c | None \<Rightarrow> sel) account config = Inr cand"
    using g by blast
  then show thesis using e by (intro that [of source]) (simp_all add: r)
qed

section \<open>A sample run\<close>

definition sample_config :: config where
  "sample_config = \<lparr>cf_decision = None, cf_top = map_of
     [(''min_signals'', CInt 1), (''min_long_score'', CInt 0), (''min_short_score'', CInt 200),
      (''max_risk_score'', CInt 100), (''min_ai_review_confidence'', CInt 0),
      (''min_expected_net_profit'', CInt (-1)), (''stop_atr_multiplier'', CInt 2),
      (''min_stop_pct'', CInt 0), (''default_stop_pct'', CInt 1), (''default_margin_ratio'', CInt 0)]\<rparr>"

definition sample_snapshot :: market_snapshot where
  "sample_snapshot = \<lparr>ms_values = [''current_price'' \<mapsto> DInt 100], ms_news = None, ms_fear_greed = None\<rparr>"

definition sample_pullback :: strategy_candidate where
  "sample_pullback = \<lparr>cd_strategy_name = ''TREND_PULLBACK'', cd_source_strategy = ''ema_trend'',
     cd_direction = GO_LONG, cd_confidence = 1, cd_entry = 100, cd_take_profit = 120, cd_stop_loss = 90,
     cd_leverage = 5, cd_rr_ratio = 2\<rparr>"

definition sample_aggregate :: aggregated_signal where
  "sample_aggregate = \<lparr>ag_direction = GO_LONG, ag_confidence = 1, ag_entry = 100,
     ag_take_profit = Some 120, ag_stop_loss = Some 90, ag_leverage = 5, ag_rr_ratio = 2,
     ag_contributing = [''ema_trend''], ag_all_signals = [], ag_candidates = [sample_pullback]\<rparr>"

lemma sample_cfg:
  "flat_cfg (Some sample_config) k dv = get_or (cf_top sample_config) k dv"
  "cfg (Some sample_config) k dv = get_or (cf_top sample_config) k dv"
  by (simp_all add: flat_cfg_def cfg_def sample_config_def)

lemma sample_top: "cf_top sample_config = map_of
     [(''min_signals'', CInt 1), (''min_long_score'', CInt 0), (''min_short_score'', CInt 200),
      (''max_risk_score'', CInt 100), (''min_ai_review_confidence'', CInt 0),
      (''min_expected_net_profit'', CInt (-1)), (''stop_atr_multiplier'', CInt 2),
      (''min_stop_pct'', CInt 0), (''default_stop_pct'', CInt 1), (''default_margin_ratio'', CInt 0)]"
  by (simp add: sample_config_def)

lemmas sample_cfgs = sample_cfg sample_top get_or_def c_float_def c_int_def c_bool_def c_decimal_def
  cfg_float_def c_num_def

lemma sample_values: "ms_values sample_snapshot = [''current_price'' \<mapsto> DInt 100]"
  by (simp add: sample_snapshot_def)

lemma sample_regime:
  "classify_market_regime (Some sample_snapshot) None (Some sample_aggregate) (Some sample_config)
     = Inr (regime_result TREND_UP 1 4)"
  by (simp add: classify_market_regime_def sample_values sample_aggregate_def sample_cfgs
      select_timeframes_def analyses_of_def get_tf_def d_float_def
      dget_def d_truthy_def volatility_votes_def trend_votes_def aligned_def vote_def
      TECH_SCORE_TREND_THRESHOLD_def)

lemma sample_chart:
  "score_chart_signals r None (Some sample_snapshot) (Some sample_config)
     = Inr \<lparr>sc_long_score = 0, sc_short_score = 0, sc_no_trade_score = 85, sc_risk_score = 35\<rparr>"
  by (simp add: score_chart_signals_def sample_values sample_cfgs select_primary_def analyses_of_def
      chart_price_def dget_def d_float_def recent_price_change_def)

lemma sample_news:
  "\<exists>n. score_news_sentiment (extract_news_data (Some sample_snapshot))
     (extract_fear_greed_data (Some sample_snapshot)) (regime_result TREND_UP 1 4) (Some sample_config)
     = Inr n \<and> \<not> ns_no_trade_flag n"
  by (simp add: score_news_sentiment_def sample_cfgs extract_news_score_def extract_news_data_def
      extract_fear_greed_data_def sample_snapshot_def extract_fear_greed_def Let_def regime_result_def)

lemma sample_derivatives:
  "score_derivatives_market (Some (extract_derivatives (Some sample_snapshot))) p r c = Inr dv_neutral"
  by (simp add: score_derivatives_market_def has_any_derivatives_data_def extract_derivatives_def
      snapshot_values_def sample_values dget_def)

lemma sample_selection:
  "\<exists>x. select_strategy_type r (Some a) (Some b) (Some d) (Some sample_snapshot) (Some sample_config) = Inr x"
  by (simp add: select_strategy_type_def read_limits_def sample_cfgs Let_def)

lemma sample_candidates:
  "allowed_candidates (Some sample_aggregate) TREND_UP = [sample_pullback]"
  by (simp add: allowed_candidates_def sample_aggregate_def sample_pullback_def
      is_strategy_allowed_for_regime_def REGIME_ALLOWED_STRATEGIES_def; code_simp)

lemma sample_selected: "selection_from_candidate sample_pullback =
    \<lparr>ss_strategy_type = TREND_FOLLOWING, ss_expected_holding_minutes = 120, ss_min_required_rr = 2\<rparr>"
  by code_simp

lemma sample_exits:
  "compute_exits LONG 100 None (FromCandidate sample_pullback) 2 (Some sample_config) = Inr (Some (90, 120))"
  by (simp add: compute_exits_def extract_atr_def select_primary_def analyses_of_def sample_cfgs
      src_stop_loss_def src_take_profit_def sample_pullback_def d_decimal_def price_levels_def
      long_exits_def below_def above_def nearest_above_def nearest_below_def max_of_def min_of_def
      GLOBAL_MIN_RISK_REWARD_RATIO_def dec_eval q_price_def quantize_def rhalf_up_def pw_def
      repr10_literals Let_def; simp add: floor_eq_iff)

lemma sample_generated:
  assumes "\<not> ns_no_trade_flag n"
  shows "\<exists>c. generate_trade_candidate ''BTC'' ''BTCUSDT'' (Some sample_snapshot) None
      (FromCandidate sample_pullback) r
      \<lparr>sc_long_score = 0, sc_short_score = 0, sc_no_trade_score = 85, sc_risk_score = 35\<rparr> n dv_neutral
      (selection_from_candidate sample_pullback) None (Some sample_config) = Inr c \<and>
    tc_action c = LONG \<and> tc_strategy_type c = TREND_FOLLOWING \<and> tc_expected_net_profit c = Some 0"
proof -
  have price: "candidate_price (Some sample_snapshot) None (FromCandidate sample_pullback) = Some 100"
    by (simp add: candidate_price_def sample_values dget_def d_decimal_def)
  have dir: "candidate_direction TREND_FOLLOWING False (candidate_combined_risk
      \<lparr>sc_long_score = 0, sc_short_score = 0, sc_no_trade_score = 85, sc_risk_score = 35\<rparr> n dv_neutral)
      100 (Some 100) (score100 x) (score100 y) 0 200 = LONG" for x y
  proof -
    have "score100 y < 200" using score100_range(2) [of y] by linarith
    then show ?thesis using score100_range(1) [of x]
      by (simp add: candidate_direction_def candidate_combined_risk_def weigh_risks_def not_less not_le)
  qed
  have margin: "candidate_margin_ratio (Some sample_config) = Inr 0"
    by (simp add: candidate_margin_ratio_def sample_cfgs clamp_def fround_def
        DECISION_MAX_ENTRY_MARGIN_RATIO_def f64_nonneg)
  have lev: "candidate_leverage (FromCandidate sample_pullback) (Some sample_config) = Inr 5"
    by (simp add: candidate_leverage_def sample_cfgs DECISION_MAX_LEVERAGE_def src_leverage_def
        sample_pullback_def int_or_def)
  have zero: "quantize rhalf_up k 0 = Inr 0" for k
    unfolding quantize_def Let_def by (simp add: rhalf_up_def floor_eq_iff)
  have liq: "candidate_liquidation_price LONG 100 5 = Inr (Some 80)"
    by (simp add: candidate_liquidation_price_def dec_eval q_price_def quantize_def rhalf_up_def pw_def
        Let_def; simp add: floor_eq_iff)
  have entry: "q_price 100 = Inr 100"
    by (simp add: q_price_def quantize_def rhalf_up_def pw_def Let_def; simp add: floor_eq_iff)
  have spread: "candidate_spread (Some sample_snapshot) (Some sample_config) = Inr 0"
    by (simp add: candidate_spread_def sample_values dget_def d_truthy_def sample_top sample_config_def)
  show ?thesis
    using assms
    by (simp add: generate_trade_candidate_def sample_selected price spread sample_cfgs dir adjusted_scores_def
        f64_numeral directed_candidate_def sample_exits dec_eval lev margin price_candidate_def liq entry zero
        q_money_def Let_def dmul_def ddiv_def dsub_def dadd_def DEFAULT_SLIPPAGE_BPS_def case_prod_beta)
qed

lemma sample_run:
  "\<exists>r. decision_run ''BTC'' ''BTCUSDT'' (Some sample_snapshot) None (Some sample_aggregate) None
      (Some sample_config) = Inr r \<and> tc_action (dr_candidate r) = LONG \<and>
    tc_strategy_type (dr_candidate r) = TREND_FOLLOWING \<and> tc_expected_net_profit (dr_candidate r) = Some 0"
proof -
  define R where "R = regime_result TREND_UP 1 4"
  have rg: "classify_market_regime (Some sample_snapshot) None (Some sample_aggregate) (Some sample_config) = Inr R"
    unfolding R_def by (rule sample_regime)
  obtain n where n: "score_news_sentiment (extract_news_data (Some sample_snapshot))
     (extract_fear_greed_data (Some sample_snapshot)) R (Some sample_config) = Inr n"
     "\<not> ns_no_trade_flag n" unfolding R_def using sample_news by blast
  obtain sel where sel: "select_strategy_type R
     (Some \<lparr>sc_long_score = 0, sc_short_score = 0, sc_no_trade_score = 85, sc_risk_score = 35\<rparr>)
     (Some n) (Some dv_neutral) (Some sample_snapshot) (Some sample_config) = Inr sel"
    using sample_selection by blast
  have t: "mr_regime R = TREND_UP" by (simp add: R_def regime_result_def)
  obtain c where "generate_trade_candidate ''BTC'' ''BTCUSDT'' (Some sample_snapshot) None
      (FromCandidate sample_pullback) R
      \<lparr>sc_long_score = 0, sc_short_score = 0, sc_no_trade_score = 85, sc_risk_score = 35\<rparr> n dv_neutral
      (selection_from_candidate sample_pullback) None (Some sample_config) = Inr c"
    "tc_action c = LONG" "tc_strategy_type c = TREND_FOLLOWING" "tc_expected_net_profit c = Some 0"
    using sample_generated [OF n(2)] by blast
  then show ?thesis
    by (simp add: decision_run_def rg sample_chart n(1) sample_derivatives sel t sample_candidates)
qed

definition sample_review :: ai_review_result where
  "sample_review = \<lparr>ar_review_action = APPROVE, ar_confidence = 1, ar_critical_contradiction = False\<rparr>"

definition sample_passed :: risk_arg where
  "sample_passed = RiskCheck \<lparr>rk_passed = True, rk_failed_checks = [], rk_warnings = [],
     rk_risk_per_trade_pct = 0, rk_expected_net_profit = None, rk_expected_net_loss = None\<rparr>"

lemma sample_decided:
  assumes "tc_action c = LONG" "tc_strategy_type c = TREND_FOLLOWING" "tc_expected_net_profit c = Some 0"
  shows "\<exists>d. decide_final_action (Some c) (Some sample_review) (Some sample_passed) (Some sample_config) = Inr d \<and>
    fd_action d = LONG"
  using assms
  by (simp add: decide_final_action_def sample_passed_def risk_passed_def decide_reviewed_def sample_review_def
      sample_cfgs min_expected_profit_def cf_direct_def)

section \<open>Properties\<close>

text \<open>
  C21. The results of the decision chain have their types: whenever the chain returns, the
  regime's confidence and the chain's are in [0, 1], every score and risk in [0, 100], news adjusts by
  at most 30 points; the candidate is a HOLD without exits and size, or a LONG or SHORT of a
  known strategy with stop, target and liquidation price, stop and target on their sides of the
  entry, a leverage from 1 to the configured maximum and a margin share up to the configured
  one (plus its rounding).
\<close>

theorem decision_results_typed:
  assumes "decision_run coin symbol snapshot technical signal account config = Inr r"
    "c_int (cfg config ''max_leverage'' (CInt DECISION_MAX_LEVERAGE)) = Inr max_lev"
    "c_float (cfg config ''max_entry_margin_ratio'' (CFloat DECISION_MAX_ENTRY_MARGIN_RATIO)) = Inr max_ratio"
    "0 \<le> max_ratio" "max_ratio \<le> 1"
  shows "list_all (\<lambda>x. 0 \<le> x \<and> x \<le> 1) [mr_confidence (dr_regime r), dr_confidence r] \<and>
    list_all (\<lambda>x. 0 \<le> x \<and> x \<le> 100)
      [sc_long_score (dr_chart_score r), sc_short_score (dr_chart_score r),
       sc_no_trade_score (dr_chart_score r), sc_risk_score (dr_chart_score r),
       ns_risk_score (dr_news_score r), dv_risk_score (dr_derivatives_score r)] \<and>
    list_all (\<lambda>x. -30 \<le> x \<and> x \<le> 30)
      [ns_long_score_adjustment (dr_news_score r), ns_short_score_adjustment (dr_news_score r)] \<and>
    candidate_typed max_lev max_ratio (dr_candidate r)"
proof (rule decision_run_Inr [OF assms(1)])
  fix source
  assume c: "classify_market_regime snapshot technical signal config = Inr (dr_regime r)"
    "score_chart_signals (dr_regime r) technical snapshot config = Inr (dr_chart_score r)"
    "score_news_sentiment (extract_news_data snapshot) (extract_fear_greed_data snapshot) (dr_regime r)
       config = Inr (dr_news_score r)"
    "score_derivatives_market (Some (extract_derivatives snapshot)) (extract_price_data snapshot)
       (dr_regime r) config = Inr (dr_derivatives_score r)"
    and g: "generate_trade_candidate coin symbol snapshot technical source (dr_regime r) (dr_chart_score r)
       (dr_news_score r) (dr_derivatives_score r) (dr_strategy_selection r) account config
       = Inr (dr_candidate r)"
    and k: "dr_confidence r = fround 4 (clamp (fdiv (max (sc_long_score (dr_chart_score r))
        (sc_short_score (dr_chart_score r))) 100) 0 1)"
  have "0 \<le> dr_confidence r" "dr_confidence r \<le> 1"
    using fround_range [of 0 _ 1 4] clamp_range [of 0 1] unfolding k by simp_all
  then show ?thesis
    using regime_confidence_range [OF c(1)] chart_range [OF c(2)] news_range [OF c(3)]
      derivatives_range [OF c(4)] generate_candidate_typed [OF g assms(2-5)] by simp
qed

theorem decision_results_typed_witness:
  "\<exists>r. decision_run ''BTC'' ''BTCUSDT'' (Some sample_snapshot) None (Some sample_aggregate) None
      (Some sample_config) = Inr r \<and> tc_action (dr_candidate r) = LONG \<and>
    candidate_typed 10 DECISION_MAX_ENTRY_MARGIN_RATIO (dr_candidate r)"
proof -
  obtain r where r: "decision_run ''BTC'' ''BTCUSDT'' (Some sample_snapshot) None (Some sample_aggregate) None
      (Some sample_config) = Inr r" "tc_action (dr_candidate r) = LONG"
    using sample_run by blast
  have c: "c_int (cfg (Some sample_config) ''max_leverage'' (CInt DECISION_MAX_LEVERAGE)) = Inr 10"
    "c_float (cfg (Some sample_config) ''max_entry_margin_ratio'' (CFloat DECISION_MAX_ENTRY_MARGIN_RATIO))
       = Inr DECISION_MAX_ENTRY_MARGIN_RATIO"
    by (simp_all add: sample_cfgs DECISION_MAX_LEVERAGE_def)
  have m: "0 \<le> DECISION_MAX_ENTRY_MARGIN_RATIO" "DECISION_MAX_ENTRY_MARGIN_RATIO \<le> 1"
    using f64_mono [of "1 / 20" 1] by (simp_all add: DECISION_MAX_ENTRY_MARGIN_RATIO_def f64_nonneg)
  show ?thesis using decision_results_typed [OF r(1) c m] r by blast
qed

text \<open>What a direction other than HOLD rests on, and that a blocked regime selects nothing.\<close>

lemma candidate_directionD:
  assumes "candidate_direction st flag combined max_risk price l s min_long min_short = a" "a \<noteq> HOLD"
  shows "st \<noteq> UNKNOWN_STRATEGY" "\<not> flag" "combined \<le> max_risk" "\<exists>entry. price = Some entry"
    "if a = LONG then min_long \<le> l \<and> s < min_short else min_short \<le> s \<and> l < min_long"
  using assms by (auto simp: candidate_direction_def split: if_splits option.splits)

lemma selection_not_blocked:
  assumes "allowed_candidates signal (mr_regime regime) = [] \<Longrightarrow>
      select_strategy_type regime chart news deriv snapshot config = Inr selection"
    "ss_strategy_type selection \<noteq> UNKNOWN_STRATEGY"
  shows "mr_regime regime \<noteq> HIGH_VOLATILITY \<and> mr_regime regime \<noteq> NEWS_EVENT"
proof (rule ccontr)
  assume "\<not> ?thesis"
  then have x: "mr_regime regime = HIGH_VOLATILITY \<or> mr_regime regime = NEWS_EVENT" by blast
  then have "allowed_candidates signal (mr_regime regime) = []"
    by (intro blocked_candidates) (auto simp: REGIME_ALLOWED_STRATEGIES_def)
  from assms(1) [OF this] x have "selection = unknown_selection"
    by (auto simp: select_strategy_type_def Let_def ebind_Inr_iff)
  then show False using assms(2) by (simp add: unknown_selection_def)
qed



section \<open>The regime as a consensus\<close>

text \<open>
  The abstract classification: each regime has a set of signs that speak for it, and the first
  regime, in the order of priority, with two of them is chosen.
\<close>

datatype regime_sign =
    WideBands | HighAtr | VolumeSpike | PrimaryAligned | ConfirmAligned | DirectedScore
  | SignalAgrees | MixedAverages | NarrowBands | FlatScore | NoDirection

definition regime_spec :: "bool \<Rightarrow> (market_regime \<Rightarrow> 'sign set) \<Rightarrow> market_regime" where
  "regime_spec news evidence =
     (if news then NEWS_EVENT
      else case find (\<lambda>r. 2 \<le> card (evidence r)) [HIGH_VOLATILITY, TREND_UP, TREND_DOWN, RANGE] of
        Some r \<Rightarrow> r | None \<Rightarrow> UNKNOWN_REGIME)"

text \<open>The abstraction: which signs the inputs show.\<close>

definition shows_sign ::
    "rat \<Rightarrow> technical_result option \<Rightarrow> aggregated_signal option \<Rightarrow> market_regime \<Rightarrow> regime_sign \<Rightarrow> bool" where
  "shows_sign price technical signal r s =
     (let primary = get_tf technical (fst (select_timeframes technical));
          confirm = get_tf technical (snd (select_timeframes technical));
          score = (case technical of Some t \<Rightarrow> tr_tech_score t | None \<Rightarrow> 0);
          dir = (case signal of Some a \<Rightarrow> ag_direction a | None \<Rightarrow> NO_TRADE);
          trend = (r = TREND_UP \<or> r = TREND_DOWN);
          a = (if r = TREND_UP then BULLISH_EMA else BEARISH_EMA);
          on = (\<lambda>P. case primary of Some t \<Rightarrow> P t | None \<Rightarrow> False)
      in case s of
        WideBands \<Rightarrow> r = HIGH_VOLATILITY \<and> on (\<lambda>t. 10 < bb_bandwidth (ta_bb t))
      | HighAtr \<Rightarrow> r = HIGH_VOLATILITY \<and> 0 < price \<and> on (\<lambda>t. 3 < fmul (fdiv (ta_atr t) price) 100)
      | VolumeSpike \<Rightarrow> r = HIGH_VOLATILITY \<and> on (\<lambda>t. 2 < ta_volume_ratio t)
      | PrimaryAligned \<Rightarrow> trend \<and> aligned primary a
      | ConfirmAligned \<Rightarrow> trend \<and> aligned confirm a
      | DirectedScore \<Rightarrow> trend \<and> f64 0.3 < (if r = TREND_UP then score else - score)
      | SignalAgrees \<Rightarrow> trend \<and> dir = (if r = TREND_UP then GO_LONG else GO_SHORT)
      | MixedAverages \<Rightarrow> r = RANGE \<and> aligned primary MIXED_EMA
      | NarrowBands \<Rightarrow> r = RANGE \<and> on (\<lambda>t. bb_bandwidth (ta_bb t) < 5)
      | FlatScore \<Rightarrow> r = RANGE \<and> technical \<noteq> None \<and> \<bar>score\<bar> < f64 0.2
      | NoDirection \<Rightarrow> r = RANGE \<and> signal \<noteq> None \<and> dir = NO_TRADE)"

lemma card_signs:
  "card {s. P s} = vote (P WideBands) + vote (P HighAtr) + vote (P VolumeSpike) + vote (P PrimaryAligned)
     + vote (P ConfirmAligned) + vote (P DirectedScore) + vote (P SignalAgrees) + vote (P MixedAverages)
     + vote (P NarrowBands) + vote (P FlatScore) + vote (P NoDirection)"
proof -
  let ?U = "{WideBands, HighAtr, VolumeSpike, PrimaryAligned, ConfirmAligned, DirectedScore,
    SignalAgrees, MixedAverages, NarrowBands, FlatScore, NoDirection}"
  have u: "s \<in> ?U" for s by (cases s) auto
  have "card {s. P s} = (\<Sum>s\<in>?U. vote (P s))"
  proof -
    have "{s. P s} = {s \<in> ?U. P s}" using u by blast
    then have "card {s. P s} = (\<Sum>s\<in>{s \<in> ?U. P s}. 1)" by simp
    also have "\<dots> = (\<Sum>s\<in>?U. if P s then 1 else 0)" by (rule sum.inter_filter) simp
    finally show ?thesis by (simp only: vote_def)
  qed
  then show ?thesis by simp
qed

lemma votes_count:
  fixes price technical signal
  defines "primary \<equiv> get_tf technical (fst (select_timeframes technical))"
    and "confirm \<equiv> get_tf technical (snd (select_timeframes technical))"
    and "score \<equiv> (case technical of Some t \<Rightarrow> tr_tech_score t | None \<Rightarrow> 0)"
    and "dir \<equiv> (case signal of Some a \<Rightarrow> ag_direction a | None \<Rightarrow> NO_TRADE)"
    and "ev \<equiv> (\<lambda>r. {s. shows_sign price technical signal r s})"
  shows "volatility_votes None primary price = Inr (card (ev HIGH_VOLATILITY))"
    "trend_votes None BULLISH_EMA primary confirm score (dir = GO_LONG) = Inr (card (ev TREND_UP))"
    "trend_votes None BEARISH_EMA primary confirm (- score) (dir = GO_SHORT) = Inr (card (ev TREND_DOWN))"
    "range_votes None primary (technical \<noteq> None) score (signal \<noteq> None \<and> dir = NO_TRADE)
       = Inr (card (ev RANGE))"
  unfolding ev_def card_signs shows_sign_def Let_def primary_def [symmetric] confirm_def [symmetric]
    score_def [symmetric] dir_def [symmetric]
  by (simp_all add: volatility_votes_def trend_votes_def range_votes_def flat_cfg_def c_num_def vote_def
      BB_HIGH_VOL_BANDWIDTH_PCT_def ATR_HIGH_VOL_PCT_def VOLUME_SPIKE_RATIO_def
      BB_RANGE_BANDWIDTH_PCT_def TECH_SCORE_TREND_THRESHOLD_def TECH_SCORE_RANGE_THRESHOLD_def
      aligned_def split: option.split)

text \<open>
  C23. The regime classification refines the consensus: with the default thresholds and a price
  that converts (or none), it returns the first regime in the order of priority for which
  two signs hold, NEWS_EVENT on a news flag and UNKNOWN without a consensus, and its confidence
  is the share of the signs that hold.
\<close>

theorem regime_refines_consensus:
  assumes "(case ms_values snapshot ''current_price'' of None \<Rightarrow> Inr 0 | Some v \<Rightarrow> d_float v) = Inr price"
  shows "let ev = (\<lambda>r. {s. shows_sign price technical signal r s});
             news = d_truthy (dget (ms_values snapshot) ''news_event'')
         in \<exists>res. classify_market_regime (Some snapshot) technical signal None = Inr res \<and>
              mr_regime res = regime_spec news ev \<and>
              mr_confidence res =
                (case regime_spec news ev of NEWS_EVENT \<Rightarrow> 1 | UNKNOWN_REGIME \<Rightarrow> 0
                 | r \<Rightarrow> fround 3 (min 1 (fdiv (of_nat (card (ev r))) (if r = HIGH_VOLATILITY then 3 else 4))))"
proof -
  note V = votes_count [where technical = technical and price = price and signal = signal]
  show ?thesis
    unfolding Let_def classify_market_regime_def case_prod_beta option.case assms ebind_simps V
    by (simp add: flat_cfg_def c_int_def REGIME_MIN_SIGNALS_def regime_spec_def regime_result_def
        split: market_regime.split)
qed

theorem regime_refines_consensus_witness:
  "\<exists>res. classify_market_regime (Some sample_snapshot) None (Some sample_aggregate) None = Inr res \<and>
     mr_regime res = regime_spec False
       (\<lambda>r. {s. shows_sign 100 None (Some sample_aggregate) r s})"
proof -
  have p: "(case ms_values sample_snapshot ''current_price'' of None \<Rightarrow> Inr 0 | Some v \<Rightarrow> d_float v)
      = Inr (100 :: rat)"
    by (simp add: sample_values d_float_def f64_numeral)
  have n: "\<not> d_truthy (dget (ms_values sample_snapshot) ''news_event'')"
    by (simp add: sample_values dget_def d_truthy_def)
  show ?thesis using regime_refines_consensus [OF p, of None "Some sample_aggregate"] n
    unfolding Let_def by auto
qed

end
