(* ===== verification/ShadowCosts.thy ===== *)
theory ShadowCosts
  imports DecisionModels KillSwitch
begin

text \<open>
  \<open>agents/shadow/{exchange_rules,pnl,risk_state}.py\<close>: exchange rules, the cost and profit of a
  virtual trade, and the loss state rebuilt from the closed trades. Instants are microseconds,
  UTC. The two \<open>while\<close> loops that count the funding events may not end for every interval, so
  they are partial functions: \<open>None\<close> is a loop that does not end.
\<close>

section \<open>Exchange rules\<close>

record symbol_rules =
  sy_symbol :: string
  sy_quantity_step :: rat
  sy_min_quantity :: rat
  sy_price_tick :: rat
  sy_min_notional :: rat

definition SHADOW_SYMBOL_RULES :: "string \<rightharpoonup> symbol_rules" where
  "SHADOW_SYMBOL_RULES =
     [''BTCUSDT'' \<mapsto> \<lparr>sy_symbol = ''BTCUSDT'', sy_quantity_step = 0.001, sy_min_quantity = 0.001,
                      sy_price_tick = 0.1, sy_min_notional = 5\<rparr>,
      ''ETHUSDT'' \<mapsto> \<lparr>sy_symbol = ''ETHUSDT'', sy_quantity_step = 0.01, sy_min_quantity = 0.01,
                      sy_price_tick = 0.01, sy_min_notional = 5\<rparr>]"

definition get_symbol_rules :: "string \<Rightarrow> symbol_rules option" where
  "get_symbol_rules symbol = SHADOW_SYMBOL_RULES symbol"

definition floor_to_step :: "rat \<Rightarrow> rat \<Rightarrow> rat" where
  "floor_to_step v step = dmul (of_int (rdown (ddiv v step))) step"

definition ceil_to_step :: "rat \<Rightarrow> rat \<Rightarrow> rat" where
  "ceil_to_step v step = dmul (of_int \<lceil>ddiv v step\<rceil>) step"

datatype exit_purpose = PurposeTP | PurposeSL

definition round_exit_price :: "rat \<Rightarrow> rat \<Rightarrow> direction \<Rightarrow> exit_purpose \<Rightarrow> rat" where
  "round_exit_price price tick d purpose =
     (if d = LONG \<and> purpose = PurposeTP \<or> d = SHORT \<and> purpose = PurposeSL
      then floor_to_step price tick else ceil_to_step price tick)"

section \<open>Costs\<close>

record shadow_cost_config =
  co_taker_fee_rate :: rat
  co_slippage_bps :: rat
  co_funding_rate_per_interval :: rat
  co_funding_interval_hours :: int

text \<open>\<open>__post_init__\<close> refuses a configuration outside these limits.\<close>

definition make_cost_config :: "rat \<Rightarrow> rat \<Rightarrow> rat \<Rightarrow> int \<Rightarrow> shadow_cost_config result" where
  "make_cost_config fee slippage funding interval =
     (if \<not> (0 \<le> fee \<and> fee \<le> 0.1) then Inl ValueError
      else if \<not> (0 \<le> slippage \<and> slippage \<le> 1000) then Inl ValueError
      else if interval \<le> 0 \<or> 24 mod interval \<noteq> 0 then Inl ValueError
      else Inr \<lparr>co_taker_fee_rate = fee, co_slippage_bps = slippage,
                co_funding_rate_per_interval = funding, co_funding_interval_hours = interval\<rparr>)"

definition default_cost_config :: shadow_cost_config where
  "default_cost_config =
     \<lparr>co_taker_fee_rate = 0.0004, co_slippage_bps = 5, co_funding_rate_per_interval = 0.0001,
      co_funding_interval_hours = 8\<rparr>"

definition money8 :: "rat \<Rightarrow> rat result" where "money8 x = quantize rhe 8 x"

definition gross_pnl :: "direction \<Rightarrow> rat \<Rightarrow> rat \<Rightarrow> rat \<Rightarrow> rat result" where
  "gross_pnl d entry_price exit_price quantity =
     (case d of LONG \<Rightarrow> Inr (dmul (dsub exit_price entry_price) quantity)
      | SHORT \<Rightarrow> Inr (dmul (dsub entry_price exit_price) quantity)
      | HOLD \<Rightarrow> Inl ValueError)"

definition fill_fee :: "rat \<Rightarrow> rat \<Rightarrow> rat \<Rightarrow> rat result" where
  "fill_fee price quantity fee_rate = money8 (dmul (dmul price quantity) fee_rate)"

definition fill_slippage_cost :: "rat \<Rightarrow> rat \<Rightarrow> rat \<Rightarrow> rat result" where
  "fill_slippage_cost price quantity slippage_bps =
     money8 (ddiv (dmul (dmul price quantity) slippage_bps) 10000)"

definition expected_fill_price :: "direction \<Rightarrow> rat \<Rightarrow> rat \<Rightarrow> bool \<Rightarrow> rat" where
  "expected_fill_price d price slippage_bps is_entry =
     (let rate = ddiv slippage_bps 10000;
          is_buy = d = LONG \<and> is_entry \<or> d = SHORT \<and> \<not> is_entry
      in dmul price (if is_buy then dadd 1 rate else dsub 1 rate))"

section \<open>Funding events\<close>

definition hour_us :: int where "hour_us = 3600 * 1000000"

definition hour_of :: "int \<Rightarrow> int" where "hour_of t = t div hour_us mod 24"

text \<open>The loop that moves the cursor to the first boundary after the opening.\<close>

partial_function (option) first_boundary :: "int \<Rightarrow> int \<Rightarrow> int \<Rightarrow> int option" where
  "first_boundary start interval_hours cursor =
     (if cursor \<le> start \<or> hour_of cursor mod interval_hours \<noteq> 0
      then first_boundary start interval_hours (cursor + hour_us) else Some cursor)"

text \<open>The loop that steps from boundary to boundary up to the closing.\<close>

partial_function (option) count_boundaries :: "int \<Rightarrow> int \<Rightarrow> int \<Rightarrow> int \<Rightarrow> int option" where
  "count_boundaries end_at interval_hours cursor count =
     (if cursor \<le> end_at
      then count_boundaries end_at interval_hours (cursor + interval_hours * hour_us) (count + 1)
      else Some count)"

definition funding_event_count :: "int \<Rightarrow> int \<Rightarrow> int \<Rightarrow> int option" where
  "funding_event_count opened_at closed_at interval_hours =
     (if closed_at \<le> opened_at then Some 0
      else Option.bind (first_boundary opened_at interval_hours (opened_at div hour_us * hour_us))
             (\<lambda>cursor. count_boundaries closed_at interval_hours cursor 0))"

section \<open>Profit\<close>

record shadow_pnl =
  pn_gross_pnl_usdt :: rat
  pn_entry_fee_usdt :: rat
  pn_exit_fee_usdt :: rat
  pn_funding_fee_usdt :: rat
  pn_entry_slippage_usdt :: rat
  pn_exit_slippage_usdt :: rat
  pn_slippage_cost_usdt :: rat
  pn_net_pnl_usdt :: rat
  pn_net_return_on_margin_pct :: "rat option"

text \<open>The net return, and the record of the result.\<close>

definition return_on_margin :: "rat \<Rightarrow> rat option \<Rightarrow> rat option result" where
  "return_on_margin net margin_usdt =
     (case margin_usdt of None \<Rightarrow> Inr None
      | Some m \<Rightarrow> if 0 < m
          then ebind (quantize rhe 4 (dmul (ddiv net m) 100)) (\<lambda>r. Inr (Some r)) else Inr None)"

definition shadow_pnl_of ::
    "direction \<Rightarrow> rat \<Rightarrow> rat \<Rightarrow> rat \<Rightarrow> rat option \<Rightarrow> int \<Rightarrow> shadow_cost_config \<Rightarrow> shadow_pnl result" where
  "shadow_pnl_of d entry_price exit_price quantity margin_usdt funding_events config =
     ebind (gross_pnl d entry_price exit_price quantity) (\<lambda>gross.
     ebind (fill_fee (expected_fill_price d entry_price (co_slippage_bps config) True) quantity
              (co_taker_fee_rate config)) (\<lambda>entry_fee.
     ebind (fill_fee (expected_fill_price d exit_price (co_slippage_bps config) False) quantity
              (co_taker_fee_rate config)) (\<lambda>exit_fee.
     ebind (fill_slippage_cost entry_price quantity (co_slippage_bps config)) (\<lambda>entry_slip.
     ebind (fill_slippage_cost exit_price quantity (co_slippage_bps config)) (\<lambda>exit_slip.
     let slippage = dadd entry_slip exit_slip;
         avg_notional = dmul (ddiv (dadd entry_price exit_price) 2) quantity
     in
     ebind (money8 (dmul (dmul (dmul avg_notional (co_funding_rate_per_interval config))
                            (of_int funding_events)) (if d = LONG then 1 else - 1))) (\<lambda>funding.
     ebind (money8 (dsub (dsub (dsub (dsub gross entry_fee) exit_fee) funding) slippage)) (\<lambda>net.
     ebind (return_on_margin net margin_usdt) (\<lambda>return_pct.
     ebind (money8 gross) (\<lambda>gross_q.
     Inr \<lparr>pn_gross_pnl_usdt = gross_q, pn_entry_fee_usdt = entry_fee, pn_exit_fee_usdt = exit_fee,
          pn_funding_fee_usdt = funding, pn_entry_slippage_usdt = entry_slip,
          pn_exit_slippage_usdt = exit_slip, pn_slippage_cost_usdt = slippage,
          pn_net_pnl_usdt = net, pn_net_return_on_margin_pct = return_pct\<rparr>)))))))))"

text \<open>
  \<open>calculate_shadow_pnl\<close>; the prices and fees are computed before the events are counted, so the
  exceptions they raise come first.
\<close>

definition calculate_shadow_pnl ::
    "direction \<Rightarrow> rat \<Rightarrow> rat \<Rightarrow> rat \<Rightarrow> rat option \<Rightarrow> int \<Rightarrow> int \<Rightarrow> shadow_cost_config
       \<Rightarrow> shadow_pnl result option" where
  "calculate_shadow_pnl d entry_price exit_price quantity margin_usdt opened_at closed_at config =
     map_option (\<lambda>n. shadow_pnl_of d entry_price exit_price quantity margin_usdt n config)
       (funding_event_count opened_at closed_at (co_funding_interval_hours config))"

section \<open>Loss state\<close>

record closed_shadow_pnl =
  cl_closed_at :: int
  cl_net_pnl_usdt :: "rat option"
  cl_gross_pnl_usdt :: "rat option"

record shadow_loss_state =
  ls_daily_loss_usdt :: rat
  ls_consecutive_losses :: nat
  ls_used_gross_fallback :: bool

definition row_pnl :: "closed_shadow_pnl \<Rightarrow> rat option" where
  "row_pnl r = (case cl_net_pnl_usdt r of Some p \<Rightarrow> Some p | None \<Rightarrow> cl_gross_pnl_usdt r)"

fun sum_daily_loss :: "int \<Rightarrow> closed_shadow_pnl list \<Rightarrow> rat \<Rightarrow> rat" where
  "sum_daily_loss today [] acc = acc"
| "sum_daily_loss today (r # rs) acc =
     (case row_pnl r of
        None \<Rightarrow> sum_daily_loss today rs acc
      | Some pnl \<Rightarrow> sum_daily_loss today rs
          (if date_of (cl_closed_at r) = today \<and> pnl < 0 then dadd acc (dabs pnl) else acc))"

definition rebuild_loss_state :: "closed_shadow_pnl list \<Rightarrow> int \<Rightarrow> shadow_loss_state" where
  "rebuild_loss_state rows now =
     (let ordered = sort_key cl_closed_at rows
      in \<lparr>ls_daily_loss_usdt = sum_daily_loss (date_of now) ordered 0,
          ls_consecutive_losses =
            length (takeWhile (\<lambda>pnl. pnl < 0) (rev (List.map_filter row_pnl ordered))),
          ls_used_gross_fallback = list_ex (\<lambda>r. cl_net_pnl_usdt r = None) ordered\<rparr>)"

section \<open>The loops end\<close>

text \<open>
  A boundary is an instant whose distance to midnight is a whole number of intervals, so with
  an interval that divides the day the boundaries are the multiples of the interval.
\<close>

lemma hour_boundary:
  assumes "0 < h" "24 mod h = 0"
  shows "hour_of (k * hour_us) mod h = k mod h"
proof -
  have "hour_of (k * hour_us) = k mod 24" by (simp add: hour_of_def hour_us_def)
  moreover have "h dvd 24" using assms(2) by (simp add: dvd_eq_mod_eq_0)
  ultimately show ?thesis by (simp add: mod_mod_cancel)
qed

lemma first_boundary_at:
  assumes "0 < h" "24 mod h = 0" "start < (j + 1) * h * hour_us" "j * h * hour_us \<le> start"
    "k \<le> (j + 1) * h" "j * h \<le> k"
  shows "first_boundary start h (k * hour_us) = Some ((j + 1) * h * hour_us)"
  using assms(5,6)
proof (induction "nat ((j + 1) * h - k)" arbitrary: k)
  case 0
  then have k: "k = (j + 1) * h" by simp
  then show ?case using assms(1-3) by (simp add: first_boundary.simps hour_boundary)
next
  case (Suc n)
  have lt: "k < (j + 1) * h" using Suc.hyps(2) by linarith
  have step: "first_boundary start h (k * hour_us + hour_us) = Some ((j + 1) * h * hour_us)"
    using Suc.hyps(1) [of "k + 1"] Suc.hyps(2) Suc.prems lt by (simp add: distrib_right)
  have go: "k * hour_us \<le> start \<or> k mod h \<noteq> 0"
  proof (cases "k = j * h")
    case True
    then show ?thesis using assms(4) by simp
  next
    case False
    then have "0 < k - j * h" "k - j * h < h" using Suc.prems lt by (auto simp: distrib_right)
    then have "(k - j * h) mod h \<noteq> 0" by simp
    moreover have "(k - j * h) mod h = k mod h" by (metis mod_mult_self1 diff_add_cancel)
    ultimately show ?thesis by simp
  qed
  show ?case
    by (subst first_boundary.simps) (use go step hour_boundary [OF assms(1,2)] in simp)
qed

lemma le_div_mult:
  assumes "0 < (p :: int)"
  shows "j * p \<le> t \<longleftrightarrow> j \<le> t div p"
proof
  assume "j * p \<le> t"
  then have "(j * p) div p \<le> t div p" using assms by (rule zdiv_mono1)
  then show "j \<le> t div p" using assms by simp
next
  assume "j \<le> t div p"
  then have "j * p \<le> t div p * p" using assms by simp
  also have "\<dots> \<le> t" using div_mult_mod_eq [of t p] pos_mod_sign [OF assms, of t] by linarith
  finally show "j * p \<le> t" .
qed

lemma count_boundaries_at:
  assumes "0 < h"
  shows "count_boundaries t h (j * (h * hour_us)) n = Some (n + max 0 (t div (h * hour_us) - j + 1))"
proof (induction "nat (t div (h * hour_us) - j + 1)" arbitrary: j n)
  case 0
  have "0 < h * hour_us" using assms by (simp add: hour_us_def)
  from le_div_mult [OF this] have "\<not> j * (h * hour_us) \<le> t" using 0 by simp
  then show ?case using 0 by (simp add: count_boundaries.simps)
next
  case (Suc m)
  have p: "0 < h * hour_us" using assms by (simp add: hour_us_def)
  have j: "j \<le> t div (h * hour_us)" using Suc.hyps(2) by linarith
  have "count_boundaries t h ((j + 1) * (h * hour_us)) (n + 1) =
      Some (n + 1 + max 0 (t div (h * hour_us) - (j + 1) + 1))"
    using Suc.hyps(2) by (intro Suc.hyps(1)) linarith
  moreover have "j * (h * hour_us) \<le> t" using j le_div_mult [OF p] by simp
  ultimately show ?case using j by (simp add: count_boundaries.simps [of t h "j * _"] distrib_right)
qed

text \<open>The number of events, and that both loops end.\<close>

lemma funding_event_count_eq:
  assumes "0 < h" "24 mod h = 0"
  shows "funding_event_count o1 t h =
    Some (max 0 (t div (h * hour_us) - o1 div (h * hour_us)))"
proof (cases "t \<le> o1")
  case True
  have "0 < h * hour_us" using assms by (simp add: hour_us_def)
  then have "t div (h * hour_us) \<le> o1 div (h * hour_us)" using True by (simp add: zdiv_mono1)
  then show ?thesis using True by (simp add: funding_event_count_def)
next
  case False
  define p where "p = h * hour_us"
  define j where "j = o1 div p"
  have p: "0 < p" and u: "0 < hour_us" using assms by (simp_all add: p_def hour_us_def)
  have j: "j * p \<le> o1" "\<not> (j + 1) * p \<le> o1" using le_div_mult [OF p] by (simp_all add: j_def)
  have k: "j * h \<le> o1 div hour_us" "\<not> (j + 1) * h \<le> o1 div hour_us"
    using j le_div_mult [OF u, of "j * h"] le_div_mult [OF u, of "(j + 1) * h"]
    by (simp_all add: p_def mult.assoc)
  have "first_boundary o1 h (o1 div hour_us * hour_us) = Some ((j + 1) * h * hour_us)"
    using j k by (intro first_boundary_at assms) (simp_all add: p_def mult.assoc)
  then show ?thesis
    using False count_boundaries_at [OF assms(1), of t "j + 1" 0]
    by (simp add: funding_event_count_def j_def p_def mult.assoc)
qed

end
