(* ===== verification/ShadowSizing.thy ===== *)
theory ShadowSizing
  imports ShadowCosts
begin

text \<open>
  \<open>agents/shadow/{sizing,experiment}.py\<close> and \<open>agents/shadow/strategies/fast_exit_v2.py\<close>: the size
  that a loss budget allows, the exits of the fast variant and its plan. A refusal keeps its code;
  the text that goes with each code is left out.
\<close>

section \<open>Size from a budget\<close>

record shadow_sizing_input =
  si_direction :: direction
  si_entry_price :: rat
  si_stop_loss :: rat
  si_take_profit :: rat
  si_equity_usdt :: rat
  si_available_balance_usdt :: rat
  si_risk_per_trade_pct :: rat
  si_open_strategy_risk_usdt :: rat
  si_max_portfolio_risk_pct :: rat
  si_max_single_position_margin_ratio :: rat
  si_margin_buffer_ratio :: rat
  si_plan_max_leverage :: int
  si_user_max_leverage :: int
  si_system_max_leverage :: int
  si_shadow_safe_leverage_cap :: int
  si_funding_intervals :: int
  si_symbol_rules :: symbol_rules
  si_cost_config :: shadow_cost_config

datatype leverage_note = MinimumLeverage | QuantityReduced | BaselineSizing

record shadow_sizing_result =
  sr_approved :: bool
  sr_rejection_code :: "string option"
  sr_quantity :: rat
  sr_leverage :: int
  sr_notional_usdt :: rat
  sr_margin_usdt :: "rat option"
  sr_risk_budget_usdt :: rat
  sr_actual_max_loss_usdt :: rat
  sr_risk_budget_utilization :: rat
  sr_worst_loss_per_coin :: rat
  sr_leverage_reason :: "leverage_note option"

definition sr_reject :: "string \<Rightarrow> rat \<Rightarrow> shadow_sizing_result" where
  "sr_reject code budget =
     \<lparr>sr_approved = False, sr_rejection_code = Some code, sr_quantity = 0, sr_leverage = 1,
      sr_notional_usdt = 0, sr_margin_usdt = Some 0, sr_risk_budget_usdt = budget,
      sr_actual_max_loss_usdt = 0, sr_risk_budget_utilization = 0, sr_worst_loss_per_coin = 0,
      sr_leverage_reason = None\<rparr>"

definition worst_loss_per_coin :: "shadow_sizing_input \<Rightarrow> rat result" where
  "worst_loss_per_coin inp =
     (let entry = si_entry_price inp;
          stop = si_stop_loss inp;
          c = si_cost_config inp;
          gross = dabs (dsub entry stop);
          entry_fill = expected_fill_price (si_direction inp) entry (co_slippage_bps c) True;
          stop_fill = expected_fill_price (si_direction inp) stop (co_slippage_bps c) False
      in
      ebind (fill_fee entry_fill 1 (co_taker_fee_rate c)) (\<lambda>entry_fee.
      ebind (fill_fee stop_fill 1 (co_taker_fee_rate c)) (\<lambda>exit_fee.
      ebind (fill_slippage_cost entry 1 (co_slippage_bps c)) (\<lambda>entry_slip.
      ebind (fill_slippage_cost stop 1 (co_slippage_bps c)) (\<lambda>exit_slip.
      let average_price = ddiv (dadd entry stop_fill) 2;
          funding = dmul (dmul average_price (dabs (co_funding_rate_per_interval c)))
                      (of_int (max 1 (si_funding_intervals inp)))
      in Inr (dadd (dadd (dadd (dadd (dadd gross entry_fee) exit_fee) entry_slip) exit_slip) funding))))))"

text \<open>\<open>int((notional / max_single_margin).to_integral_value(rounding=ROUND_CEILING))\<close>.\<close>

definition leverage_for :: "rat \<Rightarrow> rat \<Rightarrow> int" where
  "leverage_for notional max_single_margin = \<lceil>ddiv notional max_single_margin\<rceil>"

definition single_margin_cap :: "shadow_sizing_input \<Rightarrow> rat" where
  "single_margin_cap inp =
     min (dmul (si_equity_usdt inp) (si_max_single_position_margin_ratio inp))
         (ddiv (si_available_balance_usdt inp) (si_margin_buffer_ratio inp))"

definition leverage_cap :: "shadow_sizing_input \<Rightarrow> int" where
  "leverage_cap inp =
     min (min (min (si_plan_max_leverage inp) (si_user_max_leverage inp)) (si_system_max_leverage inp))
         (si_shadow_safe_leverage_cap inp)"

text \<open>The quantity of step 2: kept, or reduced to what the largest leverage allows.\<close>

definition capped_quantity :: "shadow_sizing_input \<Rightarrow> rat \<Rightarrow> rat \<times> leverage_note" where
  "capped_quantity inp quantity =
     (if leverage_cap inp < leverage_for (dmul quantity (si_entry_price inp)) (single_margin_cap inp)
      then (floor_to_step
              (min quantity (ddiv (dmul (single_margin_cap inp) (of_int (leverage_cap inp)))
                                  (si_entry_price inp)))
              (sy_quantity_step (si_symbol_rules inp)), QuantityReduced)
      else (quantity, MinimumLeverage))"

text \<open>The checks of the sized position, and the approval.\<close>

definition approve_size ::
    "shadow_sizing_input \<Rightarrow> rat \<Rightarrow> rat \<Rightarrow> rat \<Rightarrow> leverage_note \<Rightarrow> shadow_sizing_result" where
  "approve_size inp budget loss_per_coin quantity note =
     (let notional = dmul quantity (si_entry_price inp);
          leverage = max 1 (leverage_for notional (single_margin_cap inp));
          margin = ddiv notional (of_int leverage);
          actual_loss = dmul quantity loss_per_coin;
          utilization = (if 0 < budget then ddiv actual_loss budget else 0)
      in if notional < sy_min_notional (si_symbol_rules inp) then sr_reject ''MIN_NOTIONAL'' budget
         else if si_available_balance_usdt inp < dmul margin (si_margin_buffer_ratio inp)
              then sr_reject ''INSUFFICIENT_BALANCE'' budget
         else if budget < actual_loss then sr_reject ''RISK_BUDGET_EXCEEDED'' budget
         else if dmul (si_equity_usdt inp) (si_max_portfolio_risk_pct inp)
                  < dadd (si_open_strategy_risk_usdt inp) actual_loss
              then sr_reject ''PORTFOLIO_RISK_EXCEEDED'' budget
         else \<lparr>sr_approved = True, sr_rejection_code = None, sr_quantity = quantity,
               sr_leverage = leverage, sr_notional_usdt = notional, sr_margin_usdt = Some margin,
               sr_risk_budget_usdt = budget, sr_actual_max_loss_usdt = actual_loss,
               sr_risk_budget_utilization = utilization, sr_worst_loss_per_coin = loss_per_coin,
               sr_leverage_reason = Some note\<rparr>)"

definition size_from_risk_budget :: "shadow_sizing_input \<Rightarrow> shadow_sizing_result result" where
  "size_from_risk_budget inp =
     (if si_direction inp \<notin> {LONG, SHORT} then Inr (sr_reject ''INVALID_DIRECTION'' 0)
      else if min (min (min (min (si_entry_price inp) (si_stop_loss inp)) (si_take_profit inp))
                (si_equity_usdt inp)) (si_available_balance_usdt inp) \<le> 0
           then Inr (sr_reject ''INVALID_SIZING_INPUT'' 0)
      else if \<not> (0 < si_risk_per_trade_pct inp \<and> si_risk_per_trade_pct inp \<le> 1)
           then Inr (sr_reject ''INVALID_RISK_PCT'' 0)
      else if si_margin_buffer_ratio inp < 1 then Inr (sr_reject ''INVALID_MARGIN_BUFFER'' 0)
      else
        let budget = dmul (si_equity_usdt inp) (si_risk_per_trade_pct inp);
            rules = si_symbol_rules inp
        in ebind (worst_loss_per_coin inp) (\<lambda>loss_per_coin.
           if loss_per_coin \<le> 0 then Inr (sr_reject ''INVALID_WORST_LOSS'' budget)
           else
             let quantity = floor_to_step (ddiv budget loss_per_coin) (sy_quantity_step rules)
             in if quantity < sy_min_quantity rules then Inr (sr_reject ''MIN_QUANTITY'' budget)
                else if single_margin_cap inp \<le> 0 \<or> leverage_cap inp < 1
                     then Inr (sr_reject ''NO_MARGIN_CAPACITY'' budget)
                else
                  (case capped_quantity inp quantity of (q, note) \<Rightarrow>
                     if note = QuantityReduced \<and> q < sy_min_quantity rules
                     then Inr (sr_reject ''LEVERAGE_CAP'' budget)
                     else Inr (approve_size inp budget loss_per_coin q note))))"

text \<open>
  The risk of a quantity that was sized elsewhere; a missing quantity or leverage is a
  \<open>TypeError\<close> of the comparison that meets it.
\<close>

definition evaluate_fixed_quantity_risk ::
    "shadow_sizing_input \<Rightarrow> rat option \<Rightarrow> int option \<Rightarrow> rat option \<Rightarrow> shadow_sizing_result result" where
  "evaluate_fixed_quantity_risk inp quantity leverage margin_usdt =
     (let rules = si_symbol_rules inp;
          budget = dmul (si_equity_usdt inp) (si_risk_per_trade_pct inp)
      in case quantity of None \<Rightarrow> Inl TypeError | Some q \<Rightarrow>
         if q \<le> 0 \<or> q < sy_min_quantity rules then Inr (sr_reject ''MIN_QUANTITY'' budget)
         else if q \<noteq> floor_to_step q (sy_quantity_step rules) then Inr (sr_reject ''LOT_STEP'' budget)
         else case leverage of None \<Rightarrow> Inl TypeError | Some l \<Rightarrow>
         if l < 1 then Inr (sr_reject ''INVALID_LEVERAGE'' budget)
         else ebind (worst_loss_per_coin inp) (\<lambda>loss_per_coin.
           let actual_loss = dmul q loss_per_coin;
               notional = dmul q (si_entry_price inp);
               utilization = (if 0 < budget then ddiv actual_loss budget else 0)
           in if budget < actual_loss then Inr (sr_reject ''RISK_BUDGET_EXCEEDED'' budget)
              else if dmul (si_equity_usdt inp) (si_max_portfolio_risk_pct inp)
                       < dadd (si_open_strategy_risk_usdt inp) actual_loss
                   then Inr (sr_reject ''PORTFOLIO_RISK_EXCEEDED'' budget)
              else Inr \<lparr>sr_approved = True, sr_rejection_code = None, sr_quantity = q,
                        sr_leverage = l, sr_notional_usdt = notional, sr_margin_usdt = margin_usdt,
                        sr_risk_budget_usdt = budget, sr_actual_max_loss_usdt = actual_loss,
                        sr_risk_budget_utilization = utilization,
                        sr_worst_loss_per_coin = loss_per_coin,
                        sr_leverage_reason = Some BaselineSizing\<rparr>))"

section \<open>Fast exit\<close>

record fast_exit_config =
  fx_tp_pct :: rat
  fx_sl_pct :: rat
  fx_min_sl_pct :: rat
  fx_max_hold_seconds :: int
  fx_min_rr :: rat
  fx_min_tp_cost_multiple :: rat

record fast_exit_result =
  fe_approved :: bool
  fe_candidate :: "trade_candidate option"
  fe_rejection_code :: "string option"
  fe_expected_tp_net_profit_per_coin :: rat
  fe_expected_round_trip_cost_per_coin :: rat
  fe_funding_intervals :: int

definition fe_reject :: "string \<Rightarrow> fast_exit_result" where
  "fe_reject code =
     \<lparr>fe_approved = False, fe_candidate = None, fe_rejection_code = Some code,
      fe_expected_tp_net_profit_per_coin = 0, fe_expected_round_trip_cost_per_coin = 0,
      fe_funding_intervals = 1\<rparr>"

definition funding_intervals :: "int \<Rightarrow> int \<Rightarrow> int" where
  "funding_intervals max_hold_seconds interval_hours =
     max 1 \<lceil>ddiv (of_int max_hold_seconds) (of_int (interval_hours * 3600))\<rceil>"

text \<open>The costs of a round trip from the entry to the target, for one coin.\<close>

definition tp_costs ::
    "direction \<Rightarrow> rat \<Rightarrow> rat \<Rightarrow> int \<Rightarrow> shadow_cost_config \<Rightarrow> rat result" where
  "tp_costs d entry tp intervals c =
     ebind (fill_fee (expected_fill_price d entry (co_slippage_bps c) True) 1 (co_taker_fee_rate c))
       (\<lambda>entry_fee.
     ebind (fill_fee (expected_fill_price d tp (co_slippage_bps c) False) 1 (co_taker_fee_rate c))
       (\<lambda>exit_fee.
     ebind (fill_slippage_cost entry 1 (co_slippage_bps c)) (\<lambda>entry_slip.
     ebind (fill_slippage_cost tp 1 (co_slippage_bps c)) (\<lambda>exit_slip.
     let average_price = ddiv (dadd entry tp) 2;
         funding = dmul (dmul average_price (dabs (co_funding_rate_per_interval c))) (of_int intervals)
     in Inr (dadd (dadd (dadd (dadd entry_fee exit_fee) entry_slip) exit_slip) funding)))))"

text \<open>The rounded target and stop, and the distances to them.\<close>

definition fast_levels :: "direction \<Rightarrow> rat \<Rightarrow> fast_exit_config \<Rightarrow> symbol_rules \<Rightarrow> rat \<times> rat" where
  "fast_levels d entry config rules =
     (let tp_distance = dmul entry (fx_tp_pct config);
          sl_distance = dmul entry (max (fx_sl_pct config) (fx_min_sl_pct config));
          raw_tp = (if d = LONG then dadd entry tp_distance else dsub entry tp_distance);
          raw_sl = (if d = LONG then dsub entry sl_distance else dadd entry sl_distance)
      in (round_exit_price raw_tp (sy_price_tick rules) d PurposeTP,
          round_exit_price raw_sl (sy_price_tick rules) d PurposeSL))"

definition build_fast_exit ::
    "trade_candidate \<Rightarrow> fast_exit_config \<Rightarrow> shadow_cost_config \<Rightarrow> symbol_rules \<Rightarrow> fast_exit_result result" where
  "build_fast_exit candidate config cost_config rules =
     (let d = tc_action candidate; entry = tc_entry_price candidate
      in if d \<notin> {LONG, SHORT} then Inr (fe_reject ''INVALID_DIRECTION'')
         else if entry \<le> 0 \<or> min (min (fx_tp_pct config) (fx_sl_pct config)) (fx_min_sl_pct config) \<le> 0
              then Inr (fe_reject ''INVALID_FAST_EXIT_CONFIG'')
         else
           let (tp, sl) = fast_levels d entry config rules;
               reward = (if d = LONG then dsub tp entry else dsub entry tp);
               risk = (if d = LONG then dsub entry sl else dsub sl entry)
           in if reward \<le> 0 then Inr (fe_reject ''NON_POSITIVE_TP_PROFIT'')
              else if risk \<le> 0 then Inr (fe_reject ''INVALID_SL_DIRECTION'')
              else
                let rr = ddiv reward risk;
                    intervals = funding_intervals (fx_max_hold_seconds config)
                                  (co_funding_interval_hours cost_config)
                in if rr < fx_min_rr config then Inr (fe_reject ''MIN_RR_NOT_MET'')
                   else ebind (tp_costs d entry tp intervals cost_config) (\<lambda>costs.
                     let net = dsub reward costs
                     in if net \<le> 0 then Inr (fe_reject ''NON_POSITIVE_TP_NET'')
                        else if net < dmul costs (fx_min_tp_cost_multiple config)
                             then Inr (fe_reject ''TP_COST_MULTIPLE_NOT_MET'')
                        else Inr
                          \<lparr>fe_approved = True,
                           fe_candidate = Some (candidate
                             \<lparr>tc_take_profit := Some tp, tc_stop_loss := Some sl,
                              tc_expected_holding_minutes := max 1 (fx_max_hold_seconds config div 60),
                              tc_actual_rr := f64 rr\<rparr>),
                           fe_rejection_code = None,
                           fe_expected_tp_net_profit_per_coin = net,
                           fe_expected_round_trip_cost_per_coin = costs,
                           fe_funding_intervals = intervals\<rparr>))"

section \<open>The experiment\<close>

record shadow_experiment_config =
  xc_fast_exit_enabled :: bool
  xc_risk_sizing_enabled :: bool
  xc_experiment_label :: string
  xc_fast_exit :: "fast_exit_config option"
  xc_risk_per_trade_pct :: rat
  xc_safe_max_leverage :: int
  xc_max_portfolio_risk_pct :: rat
  xc_max_single_position_margin_ratio :: rat
  xc_margin_buffer_ratio :: rat
  xc_system_max_leverage :: int

definition default_experiment :: shadow_experiment_config where
  "default_experiment =
     \<lparr>xc_fast_exit_enabled = False, xc_risk_sizing_enabled = False,
      xc_experiment_label = ''fast_exit_v2_ab'', xc_fast_exit = None, xc_risk_per_trade_pct = 0.01,
      xc_safe_max_leverage = 5, xc_max_portfolio_risk_pct = 0.1,
      xc_max_single_position_margin_ratio = 0.2, xc_margin_buffer_ratio = 1.1,
      xc_system_max_leverage = 20\<rparr>"

definition xc_active :: "shadow_experiment_config \<Rightarrow> bool" where
  "xc_active c \<longleftrightarrow> xc_fast_exit_enabled c \<or> xc_risk_sizing_enabled c"

definition xc_validate :: "shadow_experiment_config \<Rightarrow> unit result" where
  "xc_validate c =
     (if xc_fast_exit_enabled c \<and> xc_fast_exit c = None then Inl ValueError
      else if \<not> (0 < xc_risk_per_trade_pct c \<and> xc_risk_per_trade_pct c \<le> 1) then Inl ValueError
      else if xc_safe_max_leverage c < 1 then Inl ValueError else Inr ())"

record fast_exit_plan =
  fp_exit_result :: fast_exit_result
  fp_sizing_result :: "shadow_sizing_result option"

definition fp_approved :: "fast_exit_plan \<Rightarrow> bool" where
  "fp_approved p \<longleftrightarrow> fe_approved (fp_exit_result p) \<and>
     (case fp_sizing_result p of None \<Rightarrow> True | Some s \<Rightarrow> sr_approved s)"

text \<open>The sizing input both users build from the account, the plan and the experiment.\<close>

definition experiment_sizing_input ::
    "direction \<Rightarrow> rat \<Rightarrow> rat \<Rightarrow> rat \<Rightarrow> int \<Rightarrow> symbol_rules \<Rightarrow> user_context \<Rightarrow> account_state \<Rightarrow> rat
       \<Rightarrow> shadow_experiment_config \<Rightarrow> shadow_cost_config \<Rightarrow> shadow_sizing_input" where
  "experiment_sizing_input d entry sl tp intervals rules user_ctx account open_risk config cost_config =
     \<lparr>si_direction = d, si_entry_price = entry, si_stop_loss = sl, si_take_profit = tp,
      si_equity_usdt = ac_total_balance account,
      si_available_balance_usdt = ac_available_balance account,
      si_risk_per_trade_pct = xc_risk_per_trade_pct config,
      si_open_strategy_risk_usdt = open_risk,
      si_max_portfolio_risk_pct = xc_max_portfolio_risk_pct config,
      si_max_single_position_margin_ratio = xc_max_single_position_margin_ratio config,
      si_margin_buffer_ratio = xc_margin_buffer_ratio config,
      si_plan_max_leverage = get_or PLAN_MAX_LEVERAGE (uc_plan user_ctx) 5,
      si_user_max_leverage = (if uc_max_leverage user_ctx = 0 then 1 else uc_max_leverage user_ctx),
      si_system_max_leverage = xc_system_max_leverage config,
      si_shadow_safe_leverage_cap = xc_safe_max_leverage config,
      si_funding_intervals = intervals, si_symbol_rules = rules, si_cost_config = cost_config\<rparr>"

definition plan_fast_exit ::
    "trade_candidate \<Rightarrow> user_context \<Rightarrow> account_state \<Rightarrow> rat \<Rightarrow> rat option \<Rightarrow> int option \<Rightarrow> rat option
       \<Rightarrow> shadow_experiment_config \<Rightarrow> shadow_cost_config \<Rightarrow> fast_exit_plan result" where
  "plan_fast_exit candidate user_ctx account open_risk quantity leverage margin config cost_config =
     (let refuse = (\<lambda>e. Inr \<lparr>fp_exit_result = e, fp_sizing_result = None\<rparr>)
      in ebind (xc_validate config) (\<lambda>_.
         case get_symbol_rules (tc_symbol candidate) of
           None \<Rightarrow> refuse (fe_reject ''UNSUPPORTED_SYMBOL_RULES'')
         | Some rules \<Rightarrow>
             (case (if xc_fast_exit_enabled config then xc_fast_exit config else None) of
                None \<Rightarrow> refuse (fe_reject ''FAST_EXIT_DISABLED'')
              | Some fx \<Rightarrow>
                  ebind (build_fast_exit candidate fx cost_config rules) (\<lambda>e.
                  (case fe_candidate e of
                     None \<Rightarrow> refuse e
                   | Some c \<Rightarrow>
                       let inp = experiment_sizing_input (tc_action c) (tc_entry_price c)
                             (the (tc_stop_loss c)) (the (tc_take_profit c)) (fe_funding_intervals e)
                             rules user_ctx account open_risk config cost_config
                       in ebind (if xc_risk_sizing_enabled config then size_from_risk_budget inp
                                 else evaluate_fixed_quantity_risk inp quantity leverage margin) (\<lambda>z.
                          Inr \<lparr>fp_exit_result = e, fp_sizing_result = Some z\<rparr>))))))"

end
