(* ===== verification/ShadowEngine.thy ===== *)
theory ShadowEngine
  imports ShadowSizing Execution
begin

text \<open>
  \<open>agents/shadow/{models,execution}.py\<close>: the record of a virtual trade and the engine that opens one
  instead of sending orders. The store is an argument, as in the code, where it is a protocol:
  actions on one state. An \<open>UnresolvedOpenRiskError\<close> of the store is the value \<open>None\<close> of the action
  that reads the open risk. The clock and the fresh identifiers are arguments. The review input
  that is stored for later analysis, the texts of leverage and rejection reasons and the signal
  identifier are left out.
\<close>

section \<open>Virtual trades\<close>

datatype shadow_status = ShOpen | ShTpHit | ShSlHit | ShMaxHold | ShRejected | ShCancelled

record shadow_trade =
  sh_id :: string
  sh_user_id :: string
  sh_coin :: string
  sh_symbol :: string
  sh_direction :: direction
  sh_entry_price :: rat
  sh_tp_price :: rat
  sh_sl_price :: rat
  sh_quantity :: rat
  sh_leverage :: "int option"
  sh_opened_at :: int
  sh_status :: shadow_status
  sh_exit_price :: "rat option"
  sh_pnl_usdt :: "rat option"
  sh_duration_seconds :: "rat option"
  sh_closed_at :: "int option"
  sh_strategy_version :: "string option"
  sh_experiment_label :: "string option"
  sh_position_size_usdt :: "rat option"
  sh_margin_usdt :: "rat option"
  sh_tp_distance :: "rat option"
  sh_sl_distance :: "rat option"
  sh_expected_max_loss_usdt :: "rat option"
  sh_actual_max_loss_usdt :: "rat option"
  sh_risk_budget_usdt :: "rat option"
  sh_risk_budget_utilization :: "rat option"
  sh_reviewer_result :: "ai_review_action option"
  sh_reviewer_score :: "rat option"
  sh_market_regime :: "string option"
  sh_exit_reason :: "shadow_status option"
  sh_gross_pnl_usdt :: "rat option"
  sh_entry_fee_usdt :: rat
  sh_exit_fee_usdt :: rat
  sh_entry_slippage_usdt :: rat
  sh_exit_slippage_usdt :: rat
  sh_funding_fee_usdt :: rat
  sh_estimated_slippage_usdt :: rat
  sh_net_pnl_usdt :: "rat option"
  sh_net_return_on_margin_pct :: "rat option"
  sh_cost_adjusted :: bool
  sh_data_error :: bool
  sh_system_error :: bool
  sh_max_hold_seconds :: "int option"
  sh_rejection_code :: "string option"

text \<open>\<open>ShadowTradeRecord.open\<close> with the defaults of the dataclass.\<close>

definition shadow_open ::
    "string \<Rightarrow> string \<Rightarrow> string \<Rightarrow> string \<Rightarrow> direction \<Rightarrow> rat \<Rightarrow> rat \<Rightarrow> rat \<Rightarrow> rat \<Rightarrow> int option \<Rightarrow> int
       \<Rightarrow> shadow_trade" where
  "shadow_open tid user_id coin symbol d entry tp sl quantity leverage opened_at =
     \<lparr>sh_id = tid, sh_user_id = user_id, sh_coin = coin, sh_symbol = symbol, sh_direction = d,
      sh_entry_price = entry, sh_tp_price = tp, sh_sl_price = sl, sh_quantity = quantity,
      sh_leverage = leverage, sh_opened_at = opened_at, sh_status = ShOpen, sh_exit_price = None,
      sh_pnl_usdt = None, sh_duration_seconds = None, sh_closed_at = None,
      sh_strategy_version = None, sh_experiment_label = None, sh_position_size_usdt = None,
      sh_margin_usdt = None, sh_tp_distance = None, sh_sl_distance = None,
      sh_expected_max_loss_usdt = None, sh_actual_max_loss_usdt = None, sh_risk_budget_usdt = None,
      sh_risk_budget_utilization = None, sh_reviewer_result = None, sh_reviewer_score = None,
      sh_market_regime = None, sh_exit_reason = None, sh_gross_pnl_usdt = None,
      sh_entry_fee_usdt = 0, sh_exit_fee_usdt = 0, sh_entry_slippage_usdt = 0,
      sh_exit_slippage_usdt = 0, sh_funding_fee_usdt = 0, sh_estimated_slippage_usdt = 0,
      sh_net_pnl_usdt = None, sh_net_return_on_margin_pct = None, sh_cost_adjusted = False,
      sh_data_error = False, sh_system_error = False, sh_max_hold_seconds = None,
      sh_rejection_code = None\<rparr>"

text \<open>
  \<open>close\<close>: \<open>None\<close> when the loops of the funding count do not end. The fields written before an
  exception are lost with the record in the model.
\<close>

definition shadow_close ::
    "rat \<Rightarrow> shadow_status \<Rightarrow> int \<Rightarrow> shadow_cost_config \<Rightarrow> shadow_trade \<Rightarrow> shadow_trade result option" where
  "shadow_close exit_price status closed_at cost_config t =
     (if status = ShOpen then Some (Inl AssertionError)
      else map_option (\<lambda>r. ebind r (\<lambda>p. Inr (t
        \<lparr>sh_exit_price := Some exit_price, sh_status := status, sh_closed_at := Some closed_at,
         sh_duration_seconds := Some (fdiv (of_int (closed_at - sh_opened_at t)) 1000000),
         sh_pnl_usdt := Some (f64 (pn_gross_pnl_usdt p)), sh_exit_reason := Some status,
         sh_gross_pnl_usdt := Some (pn_gross_pnl_usdt p),
         sh_entry_fee_usdt := pn_entry_fee_usdt p, sh_exit_fee_usdt := pn_exit_fee_usdt p,
         sh_entry_slippage_usdt := pn_entry_slippage_usdt p,
         sh_exit_slippage_usdt := pn_exit_slippage_usdt p,
         sh_estimated_slippage_usdt := pn_slippage_cost_usdt p,
         sh_funding_fee_usdt := pn_funding_fee_usdt p, sh_net_pnl_usdt := Some (pn_net_pnl_usdt p),
         sh_net_return_on_margin_pct := pn_net_return_on_margin_pct p,
         sh_cost_adjusted := True\<rparr>)))
       (calculate_shadow_pnl (sh_direction t) (sh_entry_price t) exit_price (sh_quantity t)
          (sh_margin_usdt t) (sh_opened_at t) closed_at cost_config))"

section \<open>The store and the engine\<close>

record 's shadow_store =
  st_save :: "shadow_trade \<Rightarrow> ('s, unit) act"
  st_open_risk :: "(string \<Rightarrow> ('s, rat option) act) option"
  st_loss_state :: "(string \<Rightarrow> string \<Rightarrow> ('s, shadow_loss_state) act) option"

record shadow_engine =
  se_cost_config :: shadow_cost_config
  se_experiment :: shadow_experiment_config

text \<open>A request with the fields that only this engine reads.\<close>

record shadow_request = execution_request +
  sq_market_regime :: "string option"
  sq_pipeline_errors :: "string option list"

definition os_coin :: "order_signal \<Rightarrow> string" where
  "os_coin g = (case g of FromRaw s \<Rightarrow> sg_coin s | FromCandidate c \<Rightarrow> tc_coin c)"

definition os_minutes :: "order_signal \<Rightarrow> int" where
  "os_minutes g = (case g of FromRaw s \<Rightarrow> 1
     | FromCandidate c \<Rightarrow> if tc_expected_holding_minutes c = 0 then 1 else tc_expected_holding_minutes c)"

definition read_open_risk :: "'s shadow_store \<Rightarrow> string \<Rightarrow> ('s, rat option) act" where
  "read_open_risk st user_id =
     (case st_open_risk st of None \<Rightarrow> act_return (Some 0) | Some getter \<Rightarrow> getter user_id)"

text \<open>
  \<open>_baseline_risk\<close>: \<open>Inl ()\<close> is the unresolved open risk, \<open>Inr None\<close> an inactive experiment.
\<close>

definition baseline_risk ::
    "shadow_engine \<Rightarrow> 's shadow_store \<Rightarrow> shadow_request \<Rightarrow> order_signal \<Rightarrow> rat \<Rightarrow> rat \<Rightarrow> validation_result
       \<Rightarrow> ('s, unit + shadow_sizing_result option) act" where
  "baseline_risk en st req g sl tp v =
     (if \<not> xc_active (se_experiment en) then act_return (Inr None)
      else case get_symbol_rules (os_symbol g) of
        None \<Rightarrow> act_return (Inr (Some (sr_reject ''UNSUPPORTED_SYMBOL_RULES'' 0)))
      | Some rules \<Rightarrow>
          act_bind (read_open_risk st (uc_user_id (er_user_ctx req))) (\<lambda>risk.
          case risk of None \<Rightarrow> act_return (Inl ())
          | Some open_risk \<Rightarrow>
              let intervals = funding_intervals (max 1 (os_minutes g) * 60)
                    (co_funding_interval_hours (se_cost_config en));
                  inp = experiment_sizing_input (os_direction g) (os_entry_price g) sl tp intervals
                    rules (er_user_ctx req) (er_account req) open_risk (se_experiment en)
                    (se_cost_config en)
              in act_read (\<lambda>_. ebind (evaluate_fixed_quantity_risk inp (vr_quantity v)
                   (vr_final_leverage v) (vr_margin_required_usdt v)) (\<lambda>z. Inr (Inr (Some z))))))"

text \<open>The entry costs of a virtual fill.\<close>

definition entry_costs ::
    "shadow_cost_config \<Rightarrow> direction \<Rightarrow> rat \<Rightarrow> rat \<Rightarrow> (rat \<times> rat) result" where
  "entry_costs c d entry quantity =
     ebind (fill_fee (expected_fill_price d entry (co_slippage_bps c) True) quantity
              (co_taker_fee_rate c)) (\<lambda>fee.
     ebind (fill_slippage_cost entry quantity (co_slippage_bps c)) (\<lambda>slip. Inr (fee, slip)))"

definition is_data_agent :: "string option \<Rightarrow> bool" where
  "is_data_agent a \<longleftrightarrow> a \<in> {Some ''market_data'', Some ''technical'', Some ''strategy''}"

definition review_of :: "shadow_request \<Rightarrow> ai_review_result option" where
  "review_of req = (case er_final_decision req of None \<Rightarrow> None | Some d \<Rightarrow> fd_ai_review d)"

text \<open>Step 2: the record of the baseline.\<close>

definition baseline_record ::
    "shadow_engine \<Rightarrow> int \<Rightarrow> string \<Rightarrow> shadow_request \<Rightarrow> order_signal \<Rightarrow> rat \<Rightarrow> rat \<Rightarrow> validation_result
       \<Rightarrow> shadow_sizing_result option \<Rightarrow> shadow_trade result" where
  "baseline_record en now tid req g sl tp v risk =
     (case vr_quantity v of None \<Rightarrow> Inl TypeError | Some qty \<Rightarrow>
      let entry = os_entry_price g; x = se_experiment en in
      ebind (entry_costs (se_cost_config en) (os_direction g) entry qty) (\<lambda>(fee, slip).
      Inr ((shadow_open tid (uc_user_id (er_user_ctx req)) (os_coin g) (os_symbol g) (os_direction g)
              entry tp sl qty (vr_final_leverage v) now)
        \<lparr>sh_strategy_version := Some (if xc_active x then ''baseline_v1''
           else case er_strategy_version req of None \<Rightarrow> ''unknown''
                | Some n \<Rightarrow> if n = [] then ''unknown'' else n),
         sh_experiment_label := (if xc_active x then Some (xc_experiment_label x) else None),
         sh_position_size_usdt := Some (dmul entry qty), sh_margin_usdt := vr_margin_required_usdt v,
         sh_tp_distance := Some (dabs (dsub tp entry)), sh_sl_distance := Some (dabs (dsub entry sl)),
         sh_expected_max_loss_usdt := vr_max_loss_usdt v,
         sh_actual_max_loss_usdt := (case risk of Some z \<Rightarrow> Some (sr_actual_max_loss_usdt z)
                                     | None \<Rightarrow> vr_max_loss_usdt v),
         sh_risk_budget_usdt := map_option sr_risk_budget_usdt risk,
         sh_risk_budget_utilization := map_option sr_risk_budget_utilization risk,
         sh_reviewer_result := map_option ar_review_action (review_of req),
         sh_reviewer_score := map_option ar_confidence (review_of req),
         sh_market_regime := sq_market_regime req, sh_entry_fee_usdt := fee,
         sh_estimated_slippage_usdt := slip, sh_entry_slippage_usdt := slip,
         sh_data_error := list_ex is_data_agent (sq_pipeline_errors req),
         sh_system_error := list_ex (\<lambda>a. \<not> is_data_agent a) (sq_pipeline_errors req)\<rparr>)))"

section \<open>The fast variant\<close>

text \<open>The code of the loss limit that stops the variant, and whether the next loss would.\<close>

definition loss_halt_code ::
    "shadow_loss_state option \<Rightarrow> rat \<Rightarrow> shadow_sizing_result option \<Rightarrow> string option" where
  "loss_halt_code loss daily_limit sizing =
     (case loss of None \<Rightarrow> None
      | Some l \<Rightarrow>
          if 0 < daily_limit \<and> daily_limit \<le> ls_daily_loss_usdt l then Some ''SHADOW_DAILY_LOSS_LIMIT''
          else if 5 \<le> ls_consecutive_losses l then Some ''SHADOW_CONSECUTIVE_LOSS_LIMIT''
          else (case sizing of None \<Rightarrow> None
            | Some z \<Rightarrow> if sr_approved z \<and> 0 < daily_limit \<and>
                           daily_limit < dadd (ls_daily_loss_usdt l) (sr_actual_max_loss_usdt z)
                        then Some ''SHADOW_PROJECTED_DAILY_LOSS_LIMIT'' else None))"

text \<open>The record of the variant; \<open>plan\<close> is its exits and size.\<close>

definition variant_record ::
    "shadow_engine \<Rightarrow> int \<Rightarrow> string \<Rightarrow> shadow_request \<Rightarrow> trade_candidate \<Rightarrow> shadow_trade
       \<Rightarrow> validation_result \<Rightarrow> fast_exit_plan \<Rightarrow> shadow_loss_state option \<Rightarrow> shadow_trade result" where
  "variant_record en now tid req candidate baseline v plan loss =
     (let x = se_experiment en;
          e = fp_exit_result plan;
          sizing = fp_sizing_result plan;
          sized = (case sizing of None \<Rightarrow> None | Some z \<Rightarrow> if sr_approved z then Some z else None);
          daily_limit = dmul (ac_total_balance (er_account req))
                             (repr10 (uc_daily_loss_limit_pct (er_user_ctx req)));
          halt = loss_halt_code loss daily_limit sizing;
          approved = fp_approved plan \<and> halt = None;
          code = (if halt = None \<and> fe_approved e \<and> sizing \<noteq> None \<and> sized = None
                  then Option.bind sizing sr_rejection_code
                  else if halt = None then fe_rejection_code e else halt);
          c = (case fe_candidate e of Some c \<Rightarrow> c | None \<Rightarrow> candidate);
          entry = tc_entry_price c
      in case (tc_take_profit c, tc_stop_loss c, if \<not> approved then Some 0
               else case sized of Some z \<Rightarrow> Some (sr_quantity z) | None \<Rightarrow> vr_quantity v) of
        (Some tp, Some sl, Some quantity) \<Rightarrow>
          ebind (if approved then entry_costs (se_cost_config en) (tc_action c) entry quantity
                 else Inr (0, 0)) (\<lambda>(fee, slip).
          Inr ((shadow_open tid (uc_user_id (er_user_ctx req)) (tc_coin c) (tc_symbol c) (tc_action c)
                  entry tp sl quantity
                  (if \<not> approved then Some 1
                   else case sized of Some z \<Rightarrow> Some (sr_leverage z) | None \<Rightarrow> vr_final_leverage v) now)
            \<lparr>sh_status := (if approved then ShOpen else ShRejected),
             sh_strategy_version := Some ''fast_exit_v2'',
             sh_experiment_label := Some (xc_experiment_label x),
             sh_position_size_usdt := Some (dmul entry quantity),
             sh_margin_usdt := (if \<not> approved then Some 0
               else case sized of Some z \<Rightarrow> sr_margin_usdt z | None \<Rightarrow> vr_margin_required_usdt v),
             sh_tp_distance := Some (dabs (dsub tp entry)), sh_sl_distance := Some (dabs (dsub entry sl)),
             sh_expected_max_loss_usdt := (case sized of Some z \<Rightarrow> Some (sr_actual_max_loss_usdt z)
                                           | None \<Rightarrow> vr_max_loss_usdt v),
             sh_actual_max_loss_usdt := map_option sr_actual_max_loss_usdt sized,
             sh_risk_budget_usdt := map_option sr_risk_budget_usdt sizing,
             sh_risk_budget_utilization := map_option sr_risk_budget_utilization sized,
             sh_reviewer_result := sh_reviewer_result baseline,
             sh_reviewer_score := sh_reviewer_score baseline,
             sh_market_regime := sq_market_regime req, sh_entry_fee_usdt := fee,
             sh_entry_slippage_usdt := slip, sh_estimated_slippage_usdt := slip,
             sh_max_hold_seconds := map_option fx_max_hold_seconds (xc_fast_exit x),
             sh_rejection_code := code\<rparr>))
      | _ \<Rightarrow> Inl TypeError)"

definition save_fast_variant ::
    "shadow_engine \<Rightarrow> 's shadow_store \<Rightarrow> int \<Rightarrow> string \<Rightarrow> shadow_request \<Rightarrow> shadow_trade
       \<Rightarrow> validation_result \<Rightarrow> ('s, unit) act" where
  "save_fast_variant en st now tid req baseline v =
     (case (if xc_fast_exit_enabled (se_experiment en) then er_candidate req else None) of
        None \<Rightarrow> act_return ()
      | Some candidate \<Rightarrow>
          let user = uc_user_id (er_user_ctx req) in
          act_bind (read_open_risk st user) (\<lambda>risk.
          act_bind (act_read (\<lambda>_. case risk of None \<Rightarrow> Inl RuntimeError
             | Some open_risk \<Rightarrow> plan_fast_exit candidate (er_user_ctx req) (er_account req) open_risk
                 (vr_quantity v) (vr_final_leverage v) (vr_margin_required_usdt v)
                 (se_experiment en) (se_cost_config en))) (\<lambda>plan.
          act_bind (case st_loss_state st of None \<Rightarrow> act_return None
             | Some getter \<Rightarrow> act_bind (getter user ''fast_exit_v2'') (\<lambda>l. act_return (Some l))) (\<lambda>loss.
          act_bind (act_read (\<lambda>_. variant_record en now tid req candidate baseline v plan loss))
            (st_save st)))))"

section \<open>Execution\<close>

definition shadow_refuse ::
    "string option \<Rightarrow> exec_reason \<Rightarrow> validation_result \<Rightarrow> ('s, execution_result) act" where
  "shadow_refuse code reason v = act_return (xr_reject PaperMode code reason (Some v))"

definition shadow_fill ::
    "string \<Rightarrow> int \<Rightarrow> string \<Rightarrow> order_purpose \<Rightarrow> order_side \<Rightarrow> order_type \<Rightarrow> rat \<Rightarrow> rat \<Rightarrow> filled_order" where
  "shadow_fill tid now symbol purpose side type qty price =
     \<lparr>fo_exchange_order_id =
        (case purpose of EntryOrder \<Rightarrow> ''shadow-entry-'' | TakeProfitOrder \<Rightarrow> ''shadow-take_profit-''
         | StopLossOrder \<Rightarrow> ''shadow-stop_loss-'' | EmergencyOrder \<Rightarrow> ''shadow-emergency_close-'') @ tid,
      fo_symbol = symbol, fo_purpose = purpose, fo_side = side, fo_order_type = type,
      fo_quantity = qty, fo_avg_fill_price = price, fo_fee_usdt = 0, fo_filled_at = now\<rparr>"

definition shadow_filled :: "string \<Rightarrow> int \<Rightarrow> shadow_trade \<Rightarrow> validation_result \<Rightarrow> execution_result" where
  "shadow_filled tid now t v =
     (let fill = (\<lambda>purpose side type price.
            Some (shadow_fill tid now (sh_symbol t) purpose side type (sh_quantity t) price));
          enter = (if sh_direction t = LONG then BUY else SELL);
          leave = (if sh_direction t = LONG then SELL else BUY)
      in (xr_base True True PaperMode (Some v))
           \<lparr>xr_entry_order := fill EntryOrder enter MARKET (sh_entry_price t),
            xr_tp_order := fill TakeProfitOrder leave TAKE_PROFIT_MARKET (sh_tp_price t),
            xr_sl_order := fill StopLossOrder leave STOP_MARKET (sh_sl_price t),
            xr_warnings := vr_warnings v\<rparr>)"

text \<open>Steps 2 and 3, after the checks; a failing variant leaves the baseline alone.\<close>

definition shadow_open_trade ::
    "shadow_engine \<Rightarrow> 's shadow_store \<Rightarrow> int \<Rightarrow> string \<Rightarrow> string \<Rightarrow> shadow_request \<Rightarrow> order_signal \<Rightarrow> rat
       \<Rightarrow> rat \<Rightarrow> validation_result \<Rightarrow> shadow_sizing_result option \<Rightarrow> ('s, execution_result) act" where
  "shadow_open_trade en st now tid vid req g sl tp v risk =
     act_bind (act_read (\<lambda>_. baseline_record en now tid req g sl tp v risk)) (\<lambda>record.
     act_bind (st_save st record) (\<lambda>_.
     act_bind (act_catch (save_fast_variant en st now vid req record v) (\<lambda>_. act_return ())) (\<lambda>_.
     act_return (shadow_filled tid now record v))))"

definition shadow_checked ::
    "shadow_engine \<Rightarrow> 's shadow_store \<Rightarrow> int \<Rightarrow> string \<Rightarrow> string \<Rightarrow> shadow_request
       \<Rightarrow> validation_result \<times> order_signal \<Rightarrow> ('s, execution_result) act" where
  "shadow_checked en st now tid vid req = (\<lambda>(v, g).
     if \<not> vr_approved v
     then shadow_refuse (vr_rejection_code v) (ValidationReason (vr_rejection_reason v)) v
     else if er_approved_validation req \<noteq> None \<and> (er_final_decision req = None \<or> er_candidate req = None)
     then shadow_refuse (Some ''FINAL_DECISION_MISSING'') (LocalReason ''FINAL_DECISION_MISSING'') v
     else if os_direction g \<notin> {LONG, SHORT}
     then shadow_refuse (Some ''INVALID_DIRECTION'') (LocalReason ''INVALID_DIRECTION'') v
     else case os_stop_loss g of
       None \<Rightarrow> shadow_refuse (Some ''ORDER_003'') (LocalReason ''ORDER_003'') v
     | Some sl \<Rightarrow> (case os_take_profit g of
         None \<Rightarrow> shadow_refuse (Some ''TAKE_PROFIT_MISSING'') (LocalReason ''TAKE_PROFIT_MISSING'') v
       | Some tp \<Rightarrow>
           act_bind (baseline_risk en st req g sl tp v) (\<lambda>risk.
           case risk of
             Inl _ \<Rightarrow> shadow_refuse (Some ''OPEN_RISK_UNRESOLVED'') (LocalReason ''OPEN_RISK_UNRESOLVED'') v
           | Inr (Some z) \<Rightarrow>
               if \<not> sr_approved z
               then shadow_refuse (sr_rejection_code z) (LocalReason (case sr_rejection_code z of
                      None \<Rightarrow> [] | Some c \<Rightarrow> c)) v
               else shadow_open_trade en st now tid vid req g sl tp v (Some z)
           | Inr None \<Rightarrow> shadow_open_trade en st now tid vid req g sl tp v None)))"

definition shadow_execute ::
    "shadow_engine \<Rightarrow> 's shadow_store \<Rightarrow> 's validator \<Rightarrow> int \<Rightarrow> string \<Rightarrow> string \<Rightarrow> shadow_request
       \<Rightarrow> ('s, execution_result) act" where
  "shadow_execute en st V now tid vid req =
     act_catch
       (act_bind (request_validation V (execution_request.truncate req)) (shadow_checked en st now tid vid req))
       (\<lambda>e. act_return (xr_reject PaperMode (Some ''SYSTEM_ERROR'') (ExecError e) None))"

end
