(* ===== verification/ShadowProps.thy ===== *)
theory ShadowProps
  imports ShadowEngine
begin

text \<open>
  Virtual trades: the loops of the funding count end, a size taken from the budget keeps every
  limit, and the engine writes a trade exactly when it reports one.
\<close>

section \<open>Sizes\<close>

abbreviation eps :: rat where "eps \<equiv> 5 / 10 ^ 28"

lemma dmul_le_err: "0 \<le> x \<Longrightarrow> 0 \<le> y \<Longrightarrow> dmul x y \<le> x * y * (1 + eps)"
  unfolding dmul_def by (intro dec_le_err) simp

lemma ddiv_le_err: "0 \<le> x \<Longrightarrow> 0 \<le> y \<Longrightarrow> ddiv x y \<le> x / y * (1 + eps)"
  unfolding ddiv_def by (intro dec_le_err) simp

lemma ddiv_ge_err: "0 \<le> x \<Longrightarrow> 0 \<le> y \<Longrightarrow> x / y * (1 - eps) \<le> ddiv x y"
  unfolding ddiv_def by (intro dec_ge_err) simp

lemma dnonneg: "0 \<le> x \<Longrightarrow> 0 \<le> y \<Longrightarrow> 0 \<le> dmul x y" "0 \<le> x \<Longrightarrow> 0 \<le> y \<Longrightarrow> 0 \<le> ddiv x y"
  by (simp_all add: dmul_def ddiv_def dec_nonneg)

lemma floor_to_step_le:
  assumes "0 \<le> v" "0 < step"
  shows "floor_to_step v step \<le> v * (1 + eps) * (1 + eps)" "0 \<le> floor_to_step v step"
proof -
  have d: "0 \<le> ddiv v step" using assms by (simp add: dnonneg)
  then have r: "0 \<le> rdown (ddiv v step)" "of_int (rdown (ddiv v step)) \<le> ddiv v step"
    by (simp_all add: rdown_def)
  show "0 \<le> floor_to_step v step" using r assms by (simp add: floor_to_step_def dnonneg)
  have "floor_to_step v step \<le> of_int (rdown (ddiv v step)) * step * (1 + eps)"
    unfolding floor_to_step_def using r assms by (intro dmul_le_err) auto
  also have "\<dots> \<le> (v / step * (1 + eps)) * step * (1 + eps)"
    using order_trans [OF r(2) ddiv_le_err [of v step]] assms by (intro mult_right_mono) auto
  also have "\<dots> = v * (1 + eps) * (1 + eps)" using assms by simp
  finally show "floor_to_step v step \<le> v * (1 + eps) * (1 + eps)" .
qed

lemma leverage_for_ge:
  assumes "0 \<le> n" "0 < m"
  shows "n * (1 - eps) \<le> m * of_int (leverage_for n m)"
proof -
  have "n / m * (1 - eps) \<le> of_int (leverage_for n m)"
    using ddiv_ge_err [of n m] le_of_int_ceiling [of "ddiv n m"] assms unfolding leverage_for_def by linarith
  then have "m * (n / m * (1 - eps)) \<le> m * of_int (leverage_for n m)"
    using assms by (intro mult_left_mono) auto
  then show ?thesis using assms by simp
qed

lemma eps_collapse:
  assumes "0 \<le> n" "n * (1 - eps) \<le> b"
  shows "n \<le> b * (1 + 3 / 10 ^ 27)"
proof -
  have "n \<le> n * (1 - eps) * (1 + 3 / 10 ^ 27)" using assms(1) by (simp add: field_simps)
  also have "\<dots> \<le> b * (1 + 3 / 10 ^ 27)" using assms by (intro mult_right_mono) auto
  finally show ?thesis .
qed

text \<open>The quantity of step 2 keeps to the largest position value.\<close>

lemma capped_notional:
  assumes "capped_quantity inp quantity = (q, why)" "0 \<le> quantity" "0 < si_entry_price inp"
    "0 < single_margin_cap inp" "1 \<le> leverage_cap inp" "0 < sy_quantity_step (si_symbol_rules inp)"
  shows "0 \<le> q" "dmul q (si_entry_price inp) \<le>
    single_margin_cap inp * of_int (leverage_cap inp) * (1 + 3 / 10 ^ 27)"
proof -
  let ?e = "si_entry_price inp" and ?m = "single_margin_cap inp" and ?l = "of_int (leverage_cap inp) :: rat"
  define M where "M = dmul ?m ?l"
  define v where "v = min quantity (ddiv M ?e)"
  have M: "0 \<le> M" "M \<le> ?m * ?l * (1 + eps)" using dmul_le_err [of ?m ?l] dnonneg(1) [of ?m ?l] assms unfolding M_def by auto
  have v: "0 \<le> v" "v \<le> M / ?e * (1 + eps)"
    using M ddiv_le_err [of M ?e] dnonneg(2) [of M ?e] assms(2,3) unfolding v_def by auto
  note f = floor_to_step_le [OF v(1) assms(6)]
  have "0 \<le> q \<and> dmul q ?e \<le> ?m * ?l * (1 + 3 / 10 ^ 27)"
  proof (cases "leverage_cap inp < leverage_for (dmul quantity ?e) ?m")
    case True
    then have q: "q = floor_to_step v (sy_quantity_step (si_symbol_rules inp))"
      using assms(1) by (simp add: capped_quantity_def v_def M_def)
    have "dmul q ?e \<le> q * ?e * (1 + eps)" using dmul_le_err [of q ?e] f(2) assms(3) unfolding q by simp
    also have "\<dots> \<le> (M / ?e * (1 + eps) * (1 + eps) * (1 + eps)) * ?e * (1 + eps)"
      using f(1) v(2) assms(3) unfolding q
      by (intro mult_right_mono order_trans [OF f(1)]) auto
    also have "\<dots> = M * ((1 + eps) * (1 + eps) * (1 + eps) * (1 + eps))" using assms(3) by simp
    also have "\<dots> \<le> (?m * ?l * (1 + eps)) * ((1 + eps) * (1 + eps) * (1 + eps) * (1 + eps))"
      using M(2) by (intro mult_right_mono) auto
    also have "\<dots> = ?m * ?l * ((1 + eps) * ((1 + eps) * (1 + eps) * (1 + eps) * (1 + eps)))" by simp
    also have "\<dots> \<le> ?m * ?l * (1 + 3 / 10 ^ 27)" using assms(4,5) by (intro mult_left_mono) auto
    finally show ?thesis using f(2) q by simp
  next
    case False
    then have q: "q = quantity" using assms(1) by (simp add: capped_quantity_def)
    have n: "0 \<le> dmul q ?e" using q assms by (simp add: dnonneg)
    have "dmul q ?e * (1 - eps) \<le> ?m * of_int (leverage_for (dmul q ?e) ?m)"
      using n assms by (intro leverage_for_ge)
    also have "\<dots> \<le> ?m * ?l" using False q assms(4) by (intro mult_left_mono) auto
    finally show ?thesis using eps_collapse [OF n] q assms(2) by simp
  qed
  then show "0 \<le> q" "dmul q ?e \<le> ?m * ?l * (1 + 3 / 10 ^ 27)" by auto
qed

lemma margin_within_cap:
  assumes "0 \<le> n" "0 < m" "l = max 1 (leverage_for n m)"
  shows "ddiv n (of_int l) \<le> m * (1 + 4 / 10 ^ 27)"
proof -
  have l: "0 < (of_int l :: rat)" using assms(3) by simp
  have "n * (1 - eps) \<le> m * of_int (leverage_for n m)" using assms by (intro leverage_for_ge)
  also have "\<dots> \<le> m * of_int l" using assms by (intro mult_left_mono) auto
  finally have "n \<le> m * of_int l * (1 + 3 / 10 ^ 27)" using eps_collapse [OF assms(1)] by simp
  then have "n / of_int l \<le> m * (1 + 3 / 10 ^ 27)" using l by (simp add: pos_divide_le_eq ac_simps)
  then have "n / of_int l * (1 + eps) \<le> m * (1 + 3 / 10 ^ 27) * (1 + eps)" by (intro mult_right_mono) auto
  also have "\<dots> \<le> m * (1 + 4 / 10 ^ 27)" using assms(2) unfolding mult.assoc by (intro mult_left_mono) auto
  finally show ?thesis using ddiv_le_err [of n "of_int l"] assms l by (simp add: less_imp_le)
qed

lemma rules_step: "get_symbol_rules s = Some r \<Longrightarrow> 0 < sy_quantity_step r \<and> 0 < sy_min_quantity r"
  by (auto simp: get_symbol_rules_def SHADOW_SYMBOL_RULES_def split: if_splits)

lemma not_rejected [simp]: "\<not> sr_approved (sr_reject c b)"
  by (simp add: sr_reject_def)

lemma sr_guard:
  assumes "(if c then Inr (sr_reject k b) else X) = Inr r" "sr_approved r"
  shows "\<not> c" "X = Inr r"
  using assms by (auto split: if_splits)

lemma size_from_risk_budget_approved:
  assumes "size_from_risk_budget inp = Inr r" "sr_approved r"
  obtains loss q0 q why where
    "si_direction inp \<in> {LONG, SHORT}" "0 < si_entry_price inp" "1 \<le> si_margin_buffer_ratio inp"
    "worst_loss_per_coin inp = Inr loss" "0 < loss"
    "q0 = floor_to_step (ddiv (dmul (si_equity_usdt inp) (si_risk_per_trade_pct inp)) loss)
       (sy_quantity_step (si_symbol_rules inp))"
    "sy_min_quantity (si_symbol_rules inp) \<le> q0" "0 < single_margin_cap inp" "1 \<le> leverage_cap inp"
    "capped_quantity inp q0 = (q, why)" "sy_min_quantity (si_symbol_rules inp) \<le> q"
    "r = approve_size inp (dmul (si_equity_usdt inp) (si_risk_per_trade_pct inp)) loss q why"
proof -
  obtain loss where l: "worst_loss_per_coin inp = Inr loss"
    using assms by (cases "worst_loss_per_coin inp")
      (auto simp: size_from_risk_budget_def Let_def split: if_splits)
  let ?b = "dmul (si_equity_usdt inp) (si_risk_per_trade_pct inp)"
  define q0 where "q0 = floor_to_step (ddiv ?b loss) (sy_quantity_step (si_symbol_rules inp))"
  obtain q why where c: "capped_quantity inp q0 = (q, why)" by fastforce
  have k: "why = MinimumLeverage \<and> q = q0 \<or> why = QuantityReduced"
    using c by (auto simp: capped_quantity_def split: if_splits)
  note g1 = sr_guard [OF assms(1) [unfolded size_from_risk_budget_def Let_def l ebind_simps
    q0_def [symmetric] c prod.case] assms(2)]
  note g2 = sr_guard [OF g1(2) assms(2)]
  note g3 = sr_guard [OF g2(2) assms(2)]
  note g4 = sr_guard [OF g3(2) assms(2)]
  note g5 = sr_guard [OF g4(2) assms(2)]
  note g6 = sr_guard [OF g5(2) assms(2)]
  note g7 = sr_guard [OF g6(2) assms(2)]
  note g8 = sr_guard [OF g7(2) assms(2)]
  have "0 < si_entry_price inp" using g2(1) by auto
  moreover have "sy_min_quantity (si_symbol_rules inp) \<le> q" using k g6(1) g8(1) by auto
  ultimately show ?thesis using g1(1) g4(1) g5(1) g6(1) g7(1) g8(2) l c
    by (intro that [of loss q0 q why]) (auto simp: q0_def)
qed


section \<open>What the sizing promises\<close>

definition sample_costs :: shadow_cost_config where
  "sample_costs =
     \<lparr>co_taker_fee_rate = 0.0625, co_slippage_bps = 0, co_funding_rate_per_interval = 0,
      co_funding_interval_hours = 8\<rparr>"

definition sample_sizing :: shadow_sizing_input where
  "sample_sizing =
     \<lparr>si_direction = LONG, si_entry_price = 50000, si_stop_loss = 30000, si_take_profit = 90000,
      si_equity_usdt = 100000, si_available_balance_usdt = 100000, si_risk_per_trade_pct = 0.025,
      si_open_strategy_risk_usdt = 0, si_max_portfolio_risk_pct = 0.1,
      si_max_single_position_margin_ratio = 0.025, si_margin_buffer_ratio = 1.25,
      si_plan_max_leverage = 10, si_user_max_leverage = 5, si_system_max_leverage = 20,
      si_shadow_safe_leverage_cap = 5, si_funding_intervals = 1,
      si_symbol_rules = the (get_symbol_rules ''BTCUSDT''), si_cost_config = sample_costs\<rparr>"

lemmas shadow_eval =
  fill_fee_def fill_slippage_cost_def money8_def expected_fill_price_def quantize_def pw_def rhe_def
  get_symbol_rules_def SHADOW_SYMBOL_RULES_def floor_to_step_def rdown_def leverage_for_def
  single_margin_cap_def leverage_cap_def capped_quantity_def approve_size_def dec_eval

lemma sample_loss: "worst_loss_per_coin sample_sizing = Inr 25000"
  by (simp add: worst_loss_per_coin_def sample_sizing_def sample_costs_def shadow_eval Let_def)

lemma sample_size:
  "\<exists>r. size_from_risk_budget sample_sizing = Inr r \<and> sr_approved r \<and> sr_quantity r = 0.1 \<and> sr_leverage r = 2"
  using sample_loss
  by (simp add: size_from_risk_budget_def sample_sizing_def sample_costs_def shadow_eval Let_def)


text \<open>
  An approved size keeps every limit: with the rules of a supported symbol, the loss of the
  whole quantity at the stop (distance, fees, slippage and funding) is within the budget, the
  strategy's open risk with it within the portfolio limit, the buffered margin within the
  available balance; the quantity is a number of lot steps and at least the minimum, the value at
  least the smallest order, and value and margin exceed what the leverage cap and the margin cap
  allow by no more than the rounding of the divisions.
\<close>

theorem shadow_sizing_within_budget:
  assumes "size_from_risk_budget inp = Inr r" "sr_approved r"
    "get_symbol_rules symbol = Some (si_symbol_rules inp)"
  shows "\<exists>loss n. worst_loss_per_coin inp = Inr loss \<and> 0 < loss \<and>
    dmul (sr_quantity r) loss \<le> dmul (si_equity_usdt inp) (si_risk_per_trade_pct inp) \<and>
    dadd (si_open_strategy_risk_usdt inp) (dmul (sr_quantity r) loss)
      \<le> dmul (si_equity_usdt inp) (si_max_portfolio_risk_pct inp) \<and>
    sr_quantity r = dmul (of_int n) (sy_quantity_step (si_symbol_rules inp)) \<and>
    sy_min_quantity (si_symbol_rules inp) \<le> sr_quantity r \<and>
    sy_min_notional (si_symbol_rules inp) \<le> sr_notional_usdt r \<and>
    sr_notional_usdt r \<le> single_margin_cap inp * of_int (leverage_cap inp) * (1 + 3 / 10 ^ 27) \<and>
    1 \<le> sr_leverage r \<and>
    (\<exists>m. sr_margin_usdt r = Some m \<and> m \<le> single_margin_cap inp * (1 + 4 / 10 ^ 27) \<and>
      dmul m (si_margin_buffer_ratio inp) \<le> si_available_balance_usdt inp)"
proof (rule size_from_risk_budget_approved [OF assms(1,2)])
  fix loss q0 q why
  let ?b = "dmul (si_equity_usdt inp) (si_risk_per_trade_pct inp)"
    and ?step = "sy_quantity_step (si_symbol_rules inp)"
  assume h: "0 < si_entry_price inp" "worst_loss_per_coin inp = Inr loss" "0 < loss"
    "q0 = floor_to_step (ddiv ?b loss) ?step" "sy_min_quantity (si_symbol_rules inp) \<le> q0"
    "0 < single_margin_cap inp" "1 \<le> leverage_cap inp" "capped_quantity inp q0 = (q, why)"
    "sy_min_quantity (si_symbol_rules inp) \<le> q" "r = approve_size inp ?b loss q why"
  note rules = rules_step [OF assms(3)]
  have q0: "0 \<le> q0" using h(5) rules by linarith
  note cap = capped_notional [OF h(8) q0 h(1) h(6,7)]
  have "\<exists>v. q = floor_to_step v ?step"
    using h(8) unfolding h(4) capped_quantity_def by (auto split: if_splits)
  then obtain n where n: "q = dmul (of_int n) ?step" by (auto simp: floor_to_step_def)
  note g1 = sr_guard [OF arg_cong [OF h(10) [symmetric, unfolded approve_size_def Let_def], of Inr,
    unfolded if_distrib [of Inr]] assms(2)]
  note g2 = sr_guard [OF g1(2) assms(2)]
  note g3 = sr_guard [OF g2(2) assms(2)]
  note g4 = sr_guard [OF g3(2) assms(2)]
  have v: "0 \<le> dmul q (si_entry_price inp)" using cap(1) rules h(1) by (simp add: dnonneg)
  have m: "ddiv (dmul q (si_entry_price inp))
      (of_int (max 1 (leverage_for (dmul q (si_entry_price inp)) (single_margin_cap inp))))
      \<le> single_margin_cap inp * (1 + 4 / 10 ^ 27)"
    by (intro margin_within_cap v h(6)) simp
  have r: "sr_quantity r = q" "sr_notional_usdt r = dmul q (si_entry_price inp)"
    "sr_leverage r = max 1 (leverage_for (dmul q (si_entry_price inp)) (single_margin_cap inp))"
    "sr_margin_usdt r = Some (ddiv (dmul q (si_entry_price inp)) (of_int (sr_leverage r)))"
    using g4(2) by auto
  show ?thesis
    using h(2,3,9) g1(1) g2(1) g3(1) g4(1) n m cap(2) rules unfolding r(1,2) r(4) r(3)
    by (intro exI [of _ loss] exI [of _ n]) (auto simp: not_less)
qed

theorem shadow_sizing_within_budget_witness:
  "\<exists>r. size_from_risk_budget sample_sizing = Inr r \<and> sr_quantity r = 0.1 \<and>
     (\<exists>loss. dmul (sr_quantity r) loss \<le> dmul 100000 0.025 \<and> worst_loss_per_coin sample_sizing = Inr loss)"
proof -
  obtain r where r: "size_from_risk_budget sample_sizing = Inr r" "sr_approved r" "sr_quantity r = 0.1"
    using sample_size by blast
  have "get_symbol_rules ''BTCUSDT'' = Some (si_symbol_rules sample_sizing)"
    by (simp add: sample_sizing_def get_symbol_rules_def SHADOW_SYMBOL_RULES_def)
  from shadow_sizing_within_budget [OF r(1,2) this] obtain loss where
    "worst_loss_per_coin sample_sizing = Inr loss"
    "dmul (sr_quantity r) loss \<le> dmul (si_equity_usdt sample_sizing) (si_risk_per_trade_pct sample_sizing)"
    by blast
  moreover have "si_equity_usdt sample_sizing = 100000" "si_risk_per_trade_pct sample_sizing = 0.025"
    by (simp_all add: sample_sizing_def)
  ultimately show ?thesis using r(1,3) by metis
qed

section \<open>The loops end\<close>

text \<open>
  C24. Closing a virtual trade returns: with any cost configuration that the constructor accepts,
  both loops of the funding count end, the count is the number of interval boundaries in
  (opened, closed], and \<open>close\<close> gives a record or an exception for every final status and price.
\<close>

theorem shadow_close_returns:
  assumes "make_cost_config fee slippage rate h = Inr c"
  shows "funding_event_count from until (co_funding_interval_hours c) =
      Some (max 0 (until div (h * hour_us) - from div (h * hour_us))) \<and>
    (\<exists>res. shadow_close price status until c t = Some res)"
proof -
  have c: "co_funding_interval_hours c = h" "0 < h" "24 mod h = 0"
    using assms by (auto simp: make_cost_config_def split: if_splits)
  note count = funding_event_count_eq [OF c(2,3)]
  then have "\<exists>x. calculate_shadow_pnl d entry exit q m o1 until c = Some x" for d entry exit q m o1
    by (simp add: calculate_shadow_pnl_def c(1))
  then show ?thesis using count c(1) by (force simp: shadow_close_def)
qed

text \<open>Held from 01:00 to 17:00, a trade pays at 08:00 and 16:00.\<close>

theorem shadow_close_returns_witness:
  "funding_event_count hour_us (17 * hour_us) 8 = Some 2"
proof -
  have "make_cost_config 0.0004 5 0.0001 8 = Inr default_cost_config"
    by (simp add: make_cost_config_def default_cost_config_def)
  from shadow_close_returns [OF this, of hour_us "17 * hour_us"] show ?thesis
    by (simp add: default_cost_config_def hour_us_def)
qed


section \<open>The engine\<close>

lemma approve_size_budget:
  "sr_approved (approve_size inp b l q w) \<Longrightarrow>
    sr_actual_max_loss_usdt (approve_size inp b l q w) \<le> sr_risk_budget_usdt (approve_size inp b l q w)"
  by (auto simp: approve_size_def Let_def split: if_splits)

lemma size_within_budget:
  assumes "size_from_risk_budget inp = Inr z" "sr_approved z"
  shows "sr_actual_max_loss_usdt z \<le> sr_risk_budget_usdt z"
  using size_from_risk_budget_approved [OF assms] approve_size_budget assms(2) by metis

lemma fixed_within_budget:
  assumes "evaluate_fixed_quantity_risk inp q l m = Inr z" "sr_approved z"
  shows "sr_actual_max_loss_usdt z \<le> sr_risk_budget_usdt z"
  using assms unfolding evaluate_fixed_quantity_risk_def Let_def
  by (auto simp: ebind_Inr_iff sr_reject_def split: option.splits if_splits)

lemma plan_within_budget:
  assumes "plan_fast_exit c u a r q l m x k = Inr p" "fp_approved p"
  obtains z where "fp_sizing_result p = Some z" "sr_approved z"
    "sr_actual_max_loss_usdt z \<le> sr_risk_budget_usdt z"
proof -
  have refused: "\<not> fe_approved (fe_reject code)" for code by (simp add: fe_reject_def)
  have cand: "build_fast_exit c fx k rules = Inr e \<Longrightarrow> fe_candidate e = None \<Longrightarrow> \<not> fe_approved e" for fx rules e
    by (auto simp: build_fast_exit_def fe_reject_def Let_def ebind_Inr_iff case_prod_beta split: if_splits)
  obtain z where z: "fp_sizing_result p = Some z"
    using assms refused cand unfolding plan_fast_exit_def Let_def
    by (auto simp: ebind_Inr_iff fp_approved_def split: option.splits)
  have "sr_approved z" using assms(2) z by (simp add: fp_approved_def)
  moreover have "\<exists>inp. size_from_risk_budget inp = Inr z \<or> evaluate_fixed_quantity_risk inp q l m = Inr z"
    using assms(1) z unfolding plan_fast_exit_def Let_def
    by (cases "xc_risk_sizing_enabled x") (auto simp: ebind_Inr_iff split: option.split_asm if_splits, blast+)
  ultimately show ?thesis using that [OF z] size_within_budget fixed_within_budget by blast
qed

text \<open>A store that logs what it saves, and actions that leave the log alone.\<close>

definition keeps_log :: "('s \<Rightarrow> shadow_trade list) \<Rightarrow> ('s, 'a) act \<Rightarrow> bool" where
  "keeps_log jr m \<longleftrightarrow> (\<forall>s. jr (fst (m s)) = jr s)"

definition store_logs :: "'s shadow_store \<Rightarrow> ('s \<Rightarrow> shadow_trade list) \<Rightarrow> bool" where
  "store_logs st jr \<longleftrightarrow>
     (\<forall>t s. jr (fst (st_save st t s)) = jr s @ (case snd (st_save st t s) of Inr _ \<Rightarrow> [t] | Inl _ \<Rightarrow> [])) \<and>
     (case st_open_risk st of None \<Rightarrow> True | Some g \<Rightarrow> \<forall>u. keeps_log jr (g u)) \<and>
     (case st_loss_state st of None \<Rightarrow> True | Some g \<Rightarrow> \<forall>u v. keeps_log jr (g u v))"

lemma save_log:
  "store_logs st jr \<Longrightarrow> st_save st t s = (s1, Inr u) \<Longrightarrow> jr s1 = jr s @ [t]"
  "store_logs st jr \<Longrightarrow> st_save st t s = (s1, Inl e) \<Longrightarrow> jr s1 = jr s"
  unfolding store_logs_def by (metis fst_conv snd_conv sum.simps(5,6) append_Nil2)+

lemma log_bind: "keeps_log jr m \<Longrightarrow> m s = (s1, r) \<Longrightarrow> jr s1 = jr s"
  unfolding keeps_log_def by (metis fst_conv)

lemma log_basic [simp]: "keeps_log jr (act_return x)" "keeps_log jr (act_read f)"
  by (simp_all add: keeps_log_def)

lemma log_act_bind:
  assumes "keeps_log jr m" "\<And>x. keeps_log jr (f x)"
  shows "keeps_log jr (act_bind m f)"
  using assms unfolding keeps_log_def act_bind_def by (auto split: prod.splits sum.splits) (metis fst_conv)+

lemma log_open_risk: "store_logs st jr \<Longrightarrow> keeps_log jr (read_open_risk st u)"
  by (auto simp: read_open_risk_def store_logs_def split: option.splits)

lemma log_loss:
  "store_logs st jr \<Longrightarrow> st_loss_state st = Some g \<Longrightarrow> keeps_log jr (g u v)"
  by (simp add: store_logs_def)

lemma log_baseline_risk: "store_logs st jr \<Longrightarrow> keeps_log jr (baseline_risk en st req g sl tp v)"
  unfolding baseline_risk_def Let_def
  by (auto intro!: log_act_bind log_open_risk split: option.splits)

lemma log_request:
  "(\<And>r. keeps_log jr (V r)) \<Longrightarrow> keeps_log jr (request_validation V req)"
  unfolding request_validation_def by (auto intro!: log_act_bind split: option.splits)

lemma act_bind_assoc: "act_bind (act_bind m f) g = act_bind m (\<lambda>x. act_bind (f x) g)"
  by (auto simp: act_bind_def fun_eq_iff split: prod.splits sum.splits)

text \<open>What the variant may add to the log.\<close>

definition variant_ok :: "shadow_trade \<Rightarrow> bool" where
  "variant_ok f \<longleftrightarrow> sh_strategy_version f = Some ''fast_exit_v2'' \<and>
     (sh_status f = ShRejected \<and> sh_quantity f = 0 \<or>
      sh_status f = ShOpen \<and> sh_rejection_code f = None \<and>
      (\<exists>l b. sh_actual_max_loss_usdt f = Some l \<and> sh_risk_budget_usdt f = Some b \<and> l \<le> b))"


lemma variant_record_ok:
  assumes "variant_record en now vid req c b v plan loss = Inr f"
    "fp_approved plan \<longrightarrow> (\<exists>z. fp_sizing_result plan = Some z \<and> sr_approved z \<and>
       sr_actual_max_loss_usdt z \<le> sr_risk_budget_usdt z)"
    "fp_approved plan \<longrightarrow> fe_rejection_code (fp_exit_result plan) = None"
  shows "variant_ok f"
proof (cases "fp_approved plan")
  case True
  then obtain z where z: "fp_sizing_result plan = Some z" "sr_approved z"
    "sr_actual_max_loss_usdt z \<le> sr_risk_budget_usdt z" using assms(2) by blast
  show ?thesis
    using assms(1,3) True z unfolding variant_record_def Let_def
    by (cases "loss_halt_code loss (dmul (ac_total_balance (er_account req))
          (repr10 (uc_daily_loss_limit_pct (er_user_ctx req)))) (Some z)")
      (auto simp: ebind_Inr_iff shadow_open_def variant_ok_def split: option.splits)
next
  case False
  then show ?thesis using assms(1) unfolding variant_record_def Let_def
    by (auto simp: ebind_Inr_iff shadow_open_def variant_ok_def split: option.splits)
qed

lemma plan_approved_code:
  assumes "plan_fast_exit c u a r q l m x k = Inr p" "fp_approved p"
  shows "fe_rejection_code (fp_exit_result p) = None"
proof -
  have b: "build_fast_exit c fx k rules = Inr e \<Longrightarrow> fe_approved e \<Longrightarrow> fe_rejection_code e = None" for fx rules e
    by (auto simp: build_fast_exit_def fe_reject_def Let_def ebind_Inr_iff case_prod_beta split: if_splits)
  have "\<not> fe_approved (fe_reject code)" for code by (simp add: fe_reject_def)
  then show ?thesis using assms b unfolding plan_fast_exit_def Let_def
    by (auto simp: ebind_Inr_iff fp_approved_def split: option.splits)
qed

lemma save_fast_variant_log:
  assumes "store_logs st jr" "save_fast_variant en st now vid req b v s = (s1, r)"
  shows "\<exists>rest. jr s1 = jr s @ rest \<and> length rest \<le> 1 \<and> list_all variant_ok rest"
proof (cases "if xc_fast_exit_enabled (se_experiment en) then er_candidate req else None")
  case None
  then show ?thesis using assms(2) by (auto simp: save_fast_variant_def act_return_def)
next
  case (Some c)
  define M where "M = act_bind (read_open_risk st (uc_user_id (er_user_ctx req))) (\<lambda>risk.
     act_bind (act_read (\<lambda>_. case risk of None \<Rightarrow> Inl RuntimeError
       | Some open_risk \<Rightarrow> plan_fast_exit c (er_user_ctx req) (er_account req) open_risk
           (vr_quantity v) (vr_final_leverage v) (vr_margin_required_usdt v)
           (se_experiment en) (se_cost_config en))) (\<lambda>plan.
     act_bind (case st_loss_state st of None \<Rightarrow> act_return None
       | Some getter \<Rightarrow> act_bind (getter (uc_user_id (er_user_ctx req)) ''fast_exit_v2'')
           (\<lambda>l. act_return (Some l))) (\<lambda>loss.
     act_read (\<lambda>_. variant_record en now vid req c b v plan loss))))"
  have "save_fast_variant en st now vid req b v = act_bind M (st_save st)"
    using Some unfolding save_fast_variant_def M_def
    by (simp add: act_bind_assoc Let_def)
  then have run: "act_bind M (st_save st) s = (s1, r)" using assms(2) by simp
  have keeps: "keeps_log jr M" unfolding M_def
    by (intro log_act_bind log_basic log_open_risk [OF assms(1)])
      (auto intro!: log_act_bind intro: log_loss [OF assms(1)] split: option.splits)
  obtain s0 x where M: "M s = (s0, x)" by fastforce
  note j = log_bind [OF keeps M]
  show ?thesis
  proof (cases x)
    case (Inl e)
    then show ?thesis using run M j by simp
  next
    case (Inr f)
    then obtain risk plan loss where p: "plan_fast_exit c (er_user_ctx req) (er_account req) risk
        (vr_quantity v) (vr_final_leverage v) (vr_margin_required_usdt v) (se_experiment en) (se_cost_config en)
        = Inr plan" and f: "variant_record en now vid req c b v plan loss = Inr f"
      using M unfolding Inr M_def act_bind_Inr by (auto simp: act_read_def split: option.splits)
    have "variant_ok f"
      using variant_record_ok [OF f] plan_within_budget [OF p] plan_approved_code [OF p] by metis
    moreover have "st_save st f s0 = (s1, r)" using run M Inr by simp
    ultimately show ?thesis using save_log [OF assms(1), of f s0 s1] j by (cases r) auto
  qed
qed


text \<open>What the engine reports and what it left in the log, from \<open>s\<close> to \<open>s1\<close>.\<close>

definition opened_as_reported ::
    "shadow_engine \<Rightarrow> ('s \<Rightarrow> shadow_trade list) \<Rightarrow> 's \<Rightarrow> 's \<Rightarrow> execution_result \<Rightarrow> bool" where
  "opened_as_reported en jr s s1 x \<longleftrightarrow>
     (if xr_executed x
      then \<exists>b rest v. jr s1 = jr s @ b # rest \<and> length rest \<le> 1 \<and> list_all variant_ok rest \<and>
        sh_status b = ShOpen \<and> sh_direction b \<noteq> HOLD \<and>
        xr_validation x = Some v \<and> vr_approved v \<and> vr_quantity v = Some (sh_quantity b) \<and>
        (\<exists>o1 o2 o3. xr_entry_order x = Some o1 \<and> fo_avg_fill_price o1 = sh_entry_price b \<and>
           xr_tp_order x = Some o2 \<and> fo_avg_fill_price o2 = sh_tp_price b \<and>
           xr_sl_order x = Some o3 \<and> fo_avg_fill_price o3 = sh_sl_price b \<and>
           fo_side o2 = fo_side o3 \<and> fo_side o1 \<noteq> fo_side o3) \<and>
        (xc_active (se_experiment en) \<longrightarrow>
           (\<exists>l c. sh_actual_max_loss_usdt b = Some l \<and> sh_risk_budget_usdt b = Some c \<and> l \<le> c))
      else jr s1 = jr s)"

lemma baseline_record_fields:
  assumes "baseline_record en now tid req g sl tp v risk = Inr b"
  shows "sh_status b = ShOpen" "sh_direction b = os_direction g" "vr_quantity v = Some (sh_quantity b)"
    "\<And>z. risk = Some z \<Longrightarrow> sh_actual_max_loss_usdt b = Some (sr_actual_max_loss_usdt z) \<and>
       sh_risk_budget_usdt b = Some (sr_risk_budget_usdt z)"
  using assms unfolding baseline_record_def Let_def
  by (auto simp: ebind_Inr_iff shadow_open_def split: option.splits)

lemma shadow_open_trade_log:
  assumes "store_logs st jr" "shadow_open_trade en st now tid vid req g sl tp v risk s = (s1, r)"
    "vr_approved v" "os_direction g \<noteq> HOLD"
    "xc_active (se_experiment en) \<Longrightarrow>
      \<exists>z. risk = Some z \<and> sr_actual_max_loss_usdt z \<le> sr_risk_budget_usdt z"
  shows "(\<exists>e. r = Inl e \<and> jr s1 = jr s) \<or> (\<exists>x. r = Inr x \<and> opened_as_reported en jr s s1 x \<and> xr_mode x = PaperMode)"
proof (cases "baseline_record en now tid req g sl tp v risk")
  case (Inl e)
  then show ?thesis using assms(2) by (auto simp: shadow_open_trade_def)
next
  case (Inr b)
  note rec = baseline_record_fields [OF Inr]
  obtain s2 y where save: "st_save st b s = (s2, y)" by fastforce
  show ?thesis
  proof (cases y)
    case (Inl e)
    then show ?thesis using assms(2) save Inr save_log(2) [OF assms(1), of b s s2]
      by (auto simp: shadow_open_trade_def \<open>baseline_record _ _ _ _ _ _ _ _ _ = Inr b\<close>)
  next
    case (Inr u)
    then have j: "jr s2 = jr s @ [b]" using save save_log(1) [OF assms(1), of b s s2] by simp
    obtain s3 z where var: "save_fast_variant en st now vid req b v s2 = (s3, z)" by fastforce
    have run: "s1 = s3 \<and> r = Inr (shadow_filled tid now b v)"
      using assms(2) save Inr var \<open>baseline_record _ _ _ _ _ _ _ _ _ = Inr b\<close>
      by (cases z) (simp_all add: shadow_open_trade_def act_bind_def act_catch_def)
    obtain rest where "jr s3 = jr s2 @ rest" "length rest \<le> 1" "list_all variant_ok rest"
      using save_fast_variant_log [OF assms(1) var] by blast
    then have "opened_as_reported en jr s s3 (shadow_filled tid now b v)"
      using j rec assms(3-5)
      by (auto simp: opened_as_reported_def shadow_filled_def shadow_fill_def xr_base_def)
    then show ?thesis using run by (simp add: shadow_filled_def xr_base_def)
  qed
qed

lemma shadow_refuse_reported:
  "shadow_refuse c reason v s = (s1, r) \<Longrightarrow> \<exists>x. r = Inr x \<and> opened_as_reported en jr s s1 x \<and> xr_mode x = PaperMode"
  by (intro exI [of _ "xr_reject PaperMode c reason (Some v)"])
    (auto simp: shadow_refuse_def act_return_def opened_as_reported_def xr_reject_def xr_base_def)

lemma baseline_risk_active:
  assumes "baseline_risk en st req g sl tp v s = (s1, Inr (Inr risk))" "xc_active (se_experiment en)"
  shows "\<exists>z. risk = Some z \<and> (sr_approved z \<longrightarrow> sr_actual_max_loss_usdt z \<le> sr_risk_budget_usdt z)"
  using assms unfolding baseline_risk_def
  by (auto simp: act_bind_Inr act_read_def act_return_def Let_def ebind_Inr_iff sr_reject_def
      split: option.splits)
    (blast intro: fixed_within_budget)

lemma shadow_checked_log:
  assumes "store_logs st jr" "shadow_checked en st now tid vid req (v, g) s = (s1, r)"
  shows "(\<exists>e. r = Inl e \<and> jr s1 = jr s) \<or> (\<exists>x. r = Inr x \<and> opened_as_reported en jr s s1 x \<and> xr_mode x = PaperMode)"
proof (cases "vr_approved v \<and> os_direction g \<in> {LONG, SHORT} \<and> os_stop_loss g \<noteq> None \<and> os_take_profit g \<noteq> None \<and>
    \<not> (er_approved_validation req \<noteq> None \<and> (er_final_decision req = None \<or> er_candidate req = None))")
  case False
  then show ?thesis using assms(2) shadow_refuse_reported [of _ _ v s s1 r en jr]
    unfolding shadow_checked_def by (auto split: if_splits option.splits)
next
  case True
  then obtain sl tp where g: "os_stop_loss g = Some sl" "os_take_profit g = Some tp" by auto
  obtain s2 x where risk: "baseline_risk en st req g sl tp v s = (s2, x)" by fastforce
  note j = log_bind [OF log_baseline_risk [OF assms(1)] risk]
  define K where "K = (\<lambda>k. case k of
             Inl (_ :: unit) \<Rightarrow> shadow_refuse (Some ''OPEN_RISK_UNRESOLVED'') (LocalReason ''OPEN_RISK_UNRESOLVED'') v
           | Inr (Some z) \<Rightarrow>
               if \<not> sr_approved z
               then shadow_refuse (sr_rejection_code z) (LocalReason (case sr_rejection_code z of
                      None \<Rightarrow> [] | Some c \<Rightarrow> c)) v
               else shadow_open_trade en st now tid vid req g sl tp v (Some z)
           | Inr None \<Rightarrow> shadow_open_trade en st now tid vid req g sl tp v None)"
  have "shadow_checked en st now tid vid req (v, g) = act_bind (baseline_risk en st req g sl tp v) K"
    using True g by (auto simp: shadow_checked_def K_def)
  then have run: "act_bind (baseline_risk en st req g sl tp v) K s = (s1, r)" using assms(2) by simp
  have opened: "opened_as_reported en jr s2 s1 y \<Longrightarrow> opened_as_reported en jr s s1 y" for y
    unfolding opened_as_reported_def j .
  show ?thesis
  proof (cases x)
    case (Inl e)
    then show ?thesis using run risk j by auto
  next
    case (Inr k)
    then have k: "K k s2 = (s1, r)" using run risk by simp
    show ?thesis
    proof (cases "\<exists>z. k = Inr z \<and> (case z of None \<Rightarrow> True | Some z \<Rightarrow> sr_approved z)")
      case False
      then have "\<exists>c l. shadow_refuse c l v s2 = (s1, r)"
      proof (cases k)
        case (Inl u)
        then show ?thesis using k unfolding K_def by auto
      next
        case (Inr z)
        then obtain y where "z = Some y" "\<not> sr_approved y" using False by (cases z) auto
        then show ?thesis using k Inr unfolding K_def by auto
      qed
      then obtain c l where "shadow_refuse c l v s2 = (s1, r)" by blast
      from shadow_refuse_reported [OF this] opened show ?thesis by metis
    next
      case True2: True
      then obtain z where z: "k = Inr z" "case z of None \<Rightarrow> True | Some z \<Rightarrow> sr_approved z" by blast
      then have k2: "shadow_open_trade en st now tid vid req g sl tp v z s2 = (s1, r)"
        using k unfolding K_def by (auto split: option.splits)
      have "xc_active (se_experiment en) \<Longrightarrow>
          \<exists>y. z = Some y \<and> sr_actual_max_loss_usdt y \<le> sr_risk_budget_usdt y"
        using baseline_risk_active [OF risk [unfolded Inr z(1)]] z(2) by auto
      from shadow_open_trade_log [OF assms(1) k2 _ _ this] True show ?thesis
        using opened j by auto
    qed
  qed
qed




text \<open>The store of the tests: a list of records.\<close>

definition mem_store :: "shadow_trade list shadow_store" where
  "mem_store = \<lparr>st_save = (\<lambda>t ts. (ts @ [t], Inr ())), st_open_risk = None, st_loss_state = None\<rparr>"

definition shadow_sample_engine :: shadow_engine where
  "shadow_sample_engine = \<lparr>se_cost_config = sample_costs, se_experiment = default_experiment\<rparr>"

definition shadow_sample_request :: shadow_request where
  "shadow_sample_request =
     \<lparr>er_signal = \<lparr>sg_direction = SHORT, sg_coin = ''BTC'', sg_symbol = ''BTCUSDT'', sg_confidence = 1,
        sg_entry_price = 100, sg_take_profit = Some 80, sg_stop_loss = Some 110, sg_leverage = 5\<rparr>,
      er_user_ctx = \<lparr>uc_user_id = ''u1'', uc_plan = ''pro'', uc_risk_profile = ''moderate'',
        uc_risk_per_trade = f64 0.01, uc_max_leverage = 10, uc_max_concurrent_positions = 3,
        uc_daily_loss_limit_pct = f64 0.03, uc_is_trading_active = True,
        uc_allowed_hours_start = None, uc_allowed_hours_end = None\<rparr>,
      er_account = \<lparr>ac_available_balance = 1000, ac_total_balance = 1000, ac_initial_balance = 1000,
        ac_open_positions_count = 0, ac_open_positions_risk_usdt = 0\<rparr>,
      er_daily_loss_usdt = 0, er_weekly_loss_usdt = 0, er_weekly_limit_usdt = 100,
      er_consecutive_losses = 0, er_open_positions_count = 0, er_same_coin_position = None,
      er_candidate = None, er_final_decision = None, er_approved_validation = None,
      er_strategy_version = None, sq_market_regime = None, sq_pipeline_errors = []\<rparr>"

definition shadow_sample_approval :: validation_result where
  "shadow_sample_approval = (vr_default True)\<lparr>vr_quantity := Some 2, vr_final_leverage := Some 5\<rparr>"

definition shadow_sample_run :: "shadow_trade list \<times> execution_result result" where
  "shadow_sample_run = shadow_execute shadow_sample_engine mem_store
     (\<lambda>_. act_return shadow_sample_approval) 0 ''t'' ''v'' shadow_sample_request []"

lemma shadow_sample_saved: "map sh_quantity (fst shadow_sample_run) = [2]"
  by (simp add: shadow_sample_run_def shadow_execute_def act_catch_def request_validation_def
      shadow_sample_request_def execution_request.defs shadow_checked_def shadow_sample_approval_def
      vr_default_def os_direction_def os_stop_loss_def os_take_profit_def baseline_risk_def
      shadow_sample_engine_def default_experiment_def xc_active_def shadow_open_trade_def
      baseline_record_def entry_costs_def os_entry_price_def sample_costs_def shadow_eval Let_def
      mem_store_def save_fast_variant_def shadow_open_def)


end
