(* ===== verification/BacktestExec.thy ===== *)
theory BacktestExec
  imports ShadowCosts PySum
begin

text \<open>
  \<open>agents/backtest/{models,costs,executor}.py\<close>: bars, signals and trades of a backtest, the fees,
  slippage and funding of a trade, and its entry and exit. Prices and amounts are Decimals, rates
  floats, instants microseconds (UTC). A method that changes a trade returns the changed trade.
  A direction other than LONG takes the branch of SHORT, as in the code. The random identifier of
  a trade and the text renderings are left out.
\<close>

section \<open>Data\<close>

datatype slippage_kind = FixedSlippage | VolumeSlippage

record backtest_config =
  bc_initial_capital :: rat
  bc_taker_fee_rate :: rat
  bc_maker_fee_rate :: rat
  bc_use_taker_fee :: bool
  bc_slippage_model :: slippage_kind
  bc_slippage_rate :: rat
  bc_slippage_volume_factor :: rat
  bc_funding_interval_hours :: int
  bc_default_funding_rate :: rat
  bc_apply_funding_fee :: bool
  bc_risk_free_rate :: rat
  bc_periods_per_year :: int
  bc_entry_on_next_open :: bool
  bc_max_open_positions :: int

definition default_backtest :: backtest_config where
  "default_backtest =
     \<lparr>bc_initial_capital = 10000, bc_taker_fee_rate = f64 0.0004, bc_maker_fee_rate = f64 0.0002,
      bc_use_taker_fee = True, bc_slippage_model = FixedSlippage, bc_slippage_rate = f64 0.0005,
      bc_slippage_volume_factor = f64 0.1, bc_funding_interval_hours = 8,
      bc_default_funding_rate = f64 0.0001, bc_apply_funding_fee = True,
      bc_risk_free_rate = f64 0.04, bc_periods_per_year = 365, bc_entry_on_next_open = True,
      bc_max_open_positions = 1\<rparr>"

record ohlcv_bar =
  ob_timestamp :: int
  ob_open :: rat
  ob_high :: rat
  ob_low :: rat
  ob_close :: rat
  ob_volume :: rat
  ob_funding_rate :: rat
  ob_is_funding_bar :: bool

record backtest_signal =
  bs_timestamp :: int
  bs_symbol :: string
  bs_direction :: direction
  bs_confidence :: rat
  bs_entry_price :: rat
  bs_take_profit :: "rat option"
  bs_stop_loss :: rat
  bs_leverage :: int
  bs_rr_ratio :: rat
  bs_signal_id :: string

datatype trade_exit_reason = ExitTakeProfit | ExitStopLoss | ExitSignal | ExitTimeout | ExitManual

record backtest_trade =
  bt_signal_id :: string
  bt_symbol :: string
  bt_direction :: direction
  bt_entry_time :: int
  bt_signal_entry_price :: rat
  bt_actual_entry_price :: rat
  bt_quantity :: rat
  bt_leverage :: int
  bt_margin_used :: rat
  bt_take_profit :: "rat option"
  bt_stop_loss :: rat
  bt_exit_time :: "int option"
  bt_actual_exit_price :: "rat option"
  bt_exit_reason :: "trade_exit_reason option"
  bt_entry_fee :: rat
  bt_exit_fee :: rat
  bt_funding_fees :: rat
  bt_slippage_cost :: rat
  bt_gross_pnl :: "rat option"
  bt_net_pnl :: "rat option"
  bt_pnl_pct :: "rat option"

text \<open>\<open>delta.total_seconds() / 3600\<close>.\<close>

definition bt_duration_hours :: "backtest_trade \<Rightarrow> rat option" where
  "bt_duration_hours t = map_option
     (\<lambda>x. fdiv (fdiv (of_int (x - bt_entry_time t)) 1000000) 3600) (bt_exit_time t)"

definition bt_total_costs :: "backtest_trade \<Rightarrow> rat" where
  "bt_total_costs t =
     dadd (dadd (dadd (bt_entry_fee t) (bt_exit_fee t)) (bt_funding_fees t)) (bt_slippage_cost t)"

definition bt_is_winner :: "backtest_trade \<Rightarrow> bool option" where
  "bt_is_winner t = map_option (\<lambda>p. 0 < p) (bt_net_pnl t)"

section \<open>Costs\<close>

definition bt_fee_rate :: "backtest_config \<Rightarrow> rat" where
  "bt_fee_rate c = repr10 (if bc_use_taker_fee c then bc_taker_fee_rate c else bc_maker_fee_rate c)"

definition bt_fee :: "backtest_config \<Rightarrow> rat \<Rightarrow> rat \<Rightarrow> rat result" where
  "bt_fee c quantity price = quantize rhe 8 (dmul (dmul quantity price) (bt_fee_rate c))"

definition round_trip_fee :: "backtest_config \<Rightarrow> rat \<Rightarrow> rat \<Rightarrow> rat \<Rightarrow> rat result" where
  "round_trip_fee c quantity entry_price exit_price =
     ebind (bt_fee c quantity entry_price) (\<lambda>a.
     ebind (bt_fee c quantity exit_price) (\<lambda>b. Inr (dadd a b)))"

definition slippage_rate_for :: "backtest_config \<Rightarrow> rat \<Rightarrow> rat option \<Rightarrow> rat" where
  "slippage_rate_for c quantity bar_volume =
     (let rate = repr10 (bc_slippage_rate c) in
      case (bc_slippage_model c, bar_volume) of
        (VolumeSlippage, Some v) \<Rightarrow>
          if v = 0 then rate
          else min (dmul rate (repr10 (fadd 1 (fmul (f64 (ddiv quantity v)) (bc_slippage_volume_factor c)))))
                 0.01
      | _ \<Rightarrow> rate)"

definition slipped :: "bool \<Rightarrow> rat \<Rightarrow> rat \<Rightarrow> rat \<Rightarrow> rat \<times> rat" where
  "slipped up rate price quantity =
     (let actual = dmul price (if up then dadd 1 rate else dsub 1 rate)
      in (actual, dmul (dabs (dsub actual price)) quantity))"

definition apply_entry ::
    "backtest_config \<Rightarrow> direction \<Rightarrow> rat \<Rightarrow> rat \<Rightarrow> rat option \<Rightarrow> rat \<times> rat" where
  "apply_entry c d price quantity bar_volume =
     slipped (d = LONG) (slippage_rate_for c quantity bar_volume) price quantity"

definition apply_exit ::
    "backtest_config \<Rightarrow> direction \<Rightarrow> rat \<Rightarrow> rat \<Rightarrow> rat option \<Rightarrow> rat \<times> rat" where
  "apply_exit c d price quantity bar_volume =
     slipped (d \<noteq> LONG) (slippage_rate_for c quantity bar_volume) price quantity"

text \<open>
  The hours that \<open>get_funding_timestamps\<close> walks through: the loop adds an hour while the cursor is
  not past the end.
\<close>

function funding_hours :: "backtest_config \<Rightarrow> int \<Rightarrow> int \<Rightarrow> int \<Rightarrow> int list" where
  "funding_hours c from until cursor =
     (if until < cursor then []
      else (if hour_of cursor mod bc_funding_interval_hours c = 0 \<and> from < cursor then [cursor] else [])
             @ funding_hours c from until (cursor + hour_us))"
  by pat_completeness auto
termination
  by (relation "measure (\<lambda>(c, f, u, k). nat (u + 1 - k))") (auto simp: hour_us_def)

declare funding_hours.simps [simp del]

definition get_funding_timestamps :: "backtest_config \<Rightarrow> int \<Rightarrow> int \<Rightarrow> int list" where
  "get_funding_timestamps c from until =
     (if bc_apply_funding_fee c then funding_hours c from until (from div hour_us * hour_us) else [])"

definition funding_single :: "backtest_config \<Rightarrow> direction \<Rightarrow> rat \<Rightarrow> rat \<Rightarrow> rat option \<Rightarrow> rat" where
  "funding_single c d quantity mark_price funding_rate =
     (if \<not> bc_apply_funding_fee c then 0
      else
        let rate = repr10 (case funding_rate of Some r \<Rightarrow> r | None \<Rightarrow> bc_default_funding_rate c);
            fee = dmul (dmul quantity mark_price) rate
        in if d = LONG then fee else - fee)"

text \<open>
  \<open>accumulate_for_trade\<close>; the conditional expression that chooses the exit time binds as
  \<open>(exit_time or bars[-1].timestamp) if bars else entry_time\<close>.
\<close>

definition accumulate_for_trade :: "backtest_config \<Rightarrow> backtest_trade \<Rightarrow> ohlcv_bar list \<Rightarrow> rat" where
  "accumulate_for_trade c t bars =
     (if \<not> bc_apply_funding_fee c then 0
      else
        let exit_time = (if bars = [] then bt_entry_time t
                         else case bt_exit_time t of Some x \<Rightarrow> x | None \<Rightarrow> ob_timestamp (last bars));
            charged = filter (\<lambda>b. ob_is_funding_bar b \<and> bt_entry_time t < ob_timestamp b \<and>
                                  ob_timestamp b \<le> exit_time) bars
        in dec_sum (map (\<lambda>b. funding_single c (bt_direction t) (bt_quantity t) (ob_close b)
                               (Some (ob_funding_rate b))) charged))"

definition mark_funding_bars :: "ohlcv_bar list \<Rightarrow> ohlcv_bar list" where
  "mark_funding_bars bars = map (\<lambda>b. b\<lparr>ob_is_funding_bar := hour_of (ob_timestamp b) mod 8 = 0\<rparr>) bars"

definition net_pnl_from_prices :: "direction \<Rightarrow> rat \<Rightarrow> rat \<Rightarrow> rat \<Rightarrow> rat" where
  "net_pnl_from_prices d quantity entry_price exit_price =
     (if d = LONG then dmul (dsub exit_price entry_price) quantity
      else dmul (dsub entry_price exit_price) quantity)"

section \<open>Entry\<close>

definition LOT_SIZES :: "string \<rightharpoonup> rat" where
  "LOT_SIZES = [''BTCUSDT'' \<mapsto> 0.001, ''ETHUSDT'' \<mapsto> 0.01]"

definition MIN_QTY :: "string \<rightharpoonup> rat" where
  "MIN_QTY = [''BTCUSDT'' \<mapsto> 0.001, ''ETHUSDT'' \<mapsto> 0.01]"

definition round_quantity :: "rat \<Rightarrow> string \<Rightarrow> rat" where
  "round_quantity qty symbol =
     (let lot = get_or LOT_SIZES symbol 0.001 in dmul (of_int (rdown (ddiv qty lot))) lot)"

definition min_quantity :: "string \<Rightarrow> rat" where "min_quantity symbol = get_or MIN_QTY symbol 0.001"

definition enter_distance :: "rat \<Rightarrow> rat \<Rightarrow> rat" where
  "enter_distance actual_price stop_loss =
     (let d = dabs (dsub actual_price stop_loss) in if d = 0 then dmul actual_price 0.001 else d)"

definition bt_enter ::
    "backtest_config \<Rightarrow> backtest_signal \<Rightarrow> ohlcv_bar \<Rightarrow> rat \<Rightarrow> backtest_trade result" where
  "bt_enter c sig bar risk_amount =
     (let d = bs_direction sig;
          base_price = (if bc_entry_on_next_open c then ob_open bar else bs_entry_price sig);
          actual_price = fst (apply_entry c d base_price 1 (Some (ob_volume bar)))
      in
      ebind (ddivE risk_amount (enter_distance actual_price (bs_stop_loss sig))) (\<lambda>raw.
      let rounded = round_quantity raw (bs_symbol sig);
          quantity = (if rounded \<le> 0 then min_quantity (bs_symbol sig) else rounded);
          slip_cost = snd (apply_entry c d base_price quantity (Some (ob_volume bar)))
      in
      ebind (ddivE (dmul quantity actual_price) (of_int (bs_leverage sig))) (\<lambda>margin.
      ebind (bt_fee c quantity actual_price) (\<lambda>entry_fee.
      ebind (quantize rhe 2 margin) (\<lambda>margin_q.
      ebind (quantize rhe 8 slip_cost) (\<lambda>slip_q.
      Inr \<lparr>bt_signal_id = bs_signal_id sig, bt_symbol = bs_symbol sig, bt_direction = d,
           bt_entry_time = ob_timestamp bar, bt_signal_entry_price = bs_entry_price sig,
           bt_actual_entry_price = actual_price, bt_quantity = quantity,
           bt_leverage = bs_leverage sig, bt_margin_used = margin_q,
           bt_take_profit = bs_take_profit sig, bt_stop_loss = bs_stop_loss sig,
           bt_exit_time = None, bt_actual_exit_price = None, bt_exit_reason = None,
           bt_entry_fee = entry_fee, bt_exit_fee = 0, bt_funding_fees = 0,
           bt_slippage_cost = slip_q, bt_gross_pnl = None, bt_net_pnl = None,
           bt_pnl_pct = None\<rparr>))))))"

section \<open>Exit\<close>

definition sl_hit :: "backtest_trade \<Rightarrow> ohlcv_bar \<Rightarrow> bool" where
  "sl_hit t bar \<longleftrightarrow> (if bt_direction t = LONG then ob_low bar \<le> bt_stop_loss t else bt_stop_loss t \<le> ob_high bar)"

definition tp_hit :: "backtest_trade \<Rightarrow> ohlcv_bar \<Rightarrow> rat option" where
  "tp_hit t bar =
     (case bt_take_profit t of None \<Rightarrow> None
      | Some tp \<Rightarrow> if (if bt_direction t = LONG then tp \<le> ob_high bar else ob_low bar \<le> tp)
                   then Some tp else None)"

definition find_exit :: "backtest_trade \<Rightarrow> ohlcv_bar \<Rightarrow> (rat \<times> trade_exit_reason) option" where
  "find_exit t bar =
     (case tp_hit t bar of
        Some tp \<Rightarrow>
          if sl_hit t bar \<and> dabs (dsub (ob_open bar) (bt_stop_loss t)) < dabs (dsub (ob_open bar) tp)
          then Some (bt_stop_loss t, ExitStopLoss) else Some (tp, ExitTakeProfit)
      | None \<Rightarrow> if sl_hit t bar then Some (bt_stop_loss t, ExitStopLoss) else None)"

definition close_trade ::
    "backtest_config \<Rightarrow> backtest_trade \<Rightarrow> ohlcv_bar \<Rightarrow> rat \<Rightarrow> trade_exit_reason \<Rightarrow> backtest_trade result" where
  "close_trade c t bar signal_exit_price exit_reason =
     (let (actual_exit, slip_extra) =
            apply_exit c (bt_direction t) signal_exit_price (bt_quantity t) (Some (ob_volume bar))
      in
      ebind (bt_fee c (bt_quantity t) actual_exit) (\<lambda>exit_fee.
      let funding = (if ob_is_funding_bar bar
                     then funding_single c (bt_direction t) (bt_quantity t) actual_exit
                            (Some (ob_funding_rate bar)) else 0);
          total_funding = dadd (bt_funding_fees t) funding;
          gross = net_pnl_from_prices (bt_direction t) (bt_quantity t) (bt_actual_entry_price t) actual_exit;
          total_costs = dadd (dadd (dadd (dadd (bt_entry_fee t) exit_fee) (dabs total_funding))
                               (bt_slippage_cost t)) slip_extra;
          net = dsub gross total_costs
      in
      ebind (quantize rhe 2 gross) (\<lambda>gross_q.
      ebind (quantize rhe 2 net) (\<lambda>net_q.
      Inr (t\<lparr>bt_exit_time := Some (ob_timestamp bar), bt_actual_exit_price := Some actual_exit,
             bt_exit_reason := Some exit_reason, bt_exit_fee := exit_fee,
             bt_funding_fees := total_funding,
             bt_slippage_cost := dadd (bt_slippage_cost t) slip_extra,
             bt_gross_pnl := Some gross_q, bt_net_pnl := Some net_q,
             bt_pnl_pct := Some (if 0 < bt_margin_used t
                                 then f64 (dmul (ddiv net (bt_margin_used t)) 100) else 0)\<rparr>)))))"

definition bt_check_exit ::
    "backtest_config \<Rightarrow> backtest_trade \<Rightarrow> ohlcv_bar \<Rightarrow> bool \<Rightarrow> backtest_trade option result" where
  "bt_check_exit c t bar force_exit =
     (case (if force_exit then Some (ob_close bar, ExitTimeout) else find_exit t bar) of
        None \<Rightarrow> Inr None
      | Some (price, reason) \<Rightarrow> ebind (close_trade c t bar price reason) (\<lambda>t. Inr (Some t)))"

definition accrue_funding :: "backtest_config \<Rightarrow> backtest_trade \<Rightarrow> ohlcv_bar \<Rightarrow> backtest_trade \<times> rat" where
  "accrue_funding c t bar =
     (if \<not> ob_is_funding_bar bar then (t, 0)
      else
        let fee = funding_single c (bt_direction t) (bt_quantity t) (ob_close bar)
                    (Some (ob_funding_rate bar))
        in (t\<lparr>bt_funding_fees := dadd (bt_funding_fees t) fee\<rparr>, fee))"

end
