(* ===== verification/PyStat.thy ===== *)
theory PyStat
  imports PySum
begin

text \<open>
  \<open>math.sqrt\<close> and the parts of Python's \<open>statistics\<close> module the code uses. Both are correctly
  rounded: the square root of a rational is computed with enough integer digits and a sticky
  bit, and the mean and the sample variance are exact before their one rounding.
\<close>

section \<open>Square roots\<close>

function isqrt :: "int \<Rightarrow> int" where
  "isqrt n = (if n \<le> 0 then 0
     else let s = 2 * isqrt (n div 4) in if (s + 1) * (s + 1) \<le> n then s + 1 else s)"
  by pat_completeness auto
termination by (relation "measure nat") auto

declare isqrt.simps [simp del]

lemma isqrt_bounds: "0 \<le> n \<Longrightarrow> 0 \<le> isqrt n \<and> isqrt n * isqrt n \<le> n \<and> n < (isqrt n + 1) * (isqrt n + 1)"
proof (induction n rule: isqrt.induct)
  case (1 n)
  show ?case
  proof (cases "n \<le> 0")
    case True
    then show ?thesis using 1(2) by (simp add: isqrt.simps)
  next
    case False
    define q s where "q = isqrt (n div 4)" and "s = 2 * q"
    have IH: "0 \<le> q" "q * q \<le> n div 4" "n div 4 < (q + 1) * (q + 1)"
      using 1(1) False by (simp_all add: q_def)
    have "4 * (n div 4) \<le> n" "n < 4 * (n div 4) + 4" by simp_all
    then have lo: "s * s \<le> n" and hi: "n < (s + 2) * (s + 2)"
      using IH unfolding s_def by (auto simp: algebra_simps)
    have e: "isqrt n = (if (s + 1) * (s + 1) \<le> n then s + 1 else s)"
      using False by (simp add: isqrt.simps [of n] q_def s_def Let_def)
    show ?thesis unfolding e using lo hi IH(1) by (auto simp: s_def algebra_simps)
  qed
qed

text \<open>The scale brings the radicand to at least 110 bits, so the root has at least 55.\<close>

definition fsqrt :: "rat \<Rightarrow> rat" where
  "fsqrt x = (if x \<le> 0 then 0
     else let k = nat (60 - ilog 2 x div 2);
              y = x * 4 ^ k;
              s = isqrt \<lfloor>y\<rfloor>
          in f64 ((of_int s + (if of_int (s * s) = y then 0 else 1 / 2)) / 2 ^ k))"

lemma fsqrt_nonneg: "0 \<le> fsqrt x"
proof (cases "x \<le> 0")
  case False
  define k where "k = nat (60 - ilog 2 x div 2)"
  have "0 \<le> isqrt \<lfloor>x * 4 ^ k\<rfloor>" using False by (intro isqrt_bounds [THEN conjunct1]) simp
  then have "0 \<le> ((of_int (isqrt \<lfloor>x * 4 ^ k\<rfloor>) +
      (if of_int (isqrt \<lfloor>x * 4 ^ k\<rfloor> * isqrt \<lfloor>x * 4 ^ k\<rfloor>) = x * 4 ^ k then 0 else 1 / 2)) / 2 ^ k :: rat)"
    by (intro divide_nonneg_pos add_nonneg_nonneg) auto
  then show ?thesis using False unfolding fsqrt_def Let_def k_def by (simp add: f64_nonneg)
qed (simp add: fsqrt_def)

lemma fsqrt_f64 [simp]: "is_f64 (fsqrt x)"
  by (simp add: fsqrt_def Let_def)

lemma fsqrt_zero [simp]: "fsqrt 0 = 0" by (simp add: fsqrt_def)

section \<open>Mean and deviation\<close>

definition exact_mean :: "rat list \<Rightarrow> rat" where
  "exact_mean xs = sum_list xs / of_nat (length xs)"

definition stat_mean :: "rat list \<Rightarrow> rat" where "stat_mean xs = f64 (exact_mean xs)"

text \<open>The square root of the exact sample variance, rounded once; at least two values.\<close>

definition stat_stdev :: "rat list \<Rightarrow> rat" where
  "stat_stdev xs =
     (let m = exact_mean xs
      in fsqrt (sum_list (map (\<lambda>x. (x - m) * (x - m)) xs) / of_nat (length xs - 1)))"

text \<open>A float result that may be infinite.\<close>

datatype xfloat = Finite rat | PosInfinity

end
