(* ===== verification/BacktestEngine.thy ===== *)
theory BacktestEngine
  imports BacktestExec PyStat
begin

text \<open>
  \<open>agents/backtest/{metrics,engine}.py\<close>: the performance figures and the run of a backtest, bar by
  bar. The power function of a float with a fractional exponent belongs to the platform's C library
  and is a parameter \<open>fpow\<close>. Log lines and the text summary are left out.
\<close>

section \<open>Data\<close>

record equity_point =
  ep_timestamp :: int
  ep_equity :: rat
  ep_cash :: rat
  ep_unrealized_pnl :: rat
  ep_open_positions :: nat
  ep_peak_equity :: rat
  ep_drawdown_pct :: rat

record backtest_metrics =
  bm_total_return :: rat
  bm_cagr :: rat
  bm_max_drawdown :: rat
  bm_sharpe_ratio :: rat
  bm_profit_factor :: xfloat
  bm_win_rate :: rat
  bm_sortino_ratio :: rat
  bm_calmar_ratio :: rat
  bm_total_trades :: nat
  bm_winning_trades :: nat
  bm_losing_trades :: nat
  bm_avg_win_usdt :: rat
  bm_avg_loss_usdt :: rat
  bm_avg_trade_duration_hours :: rat
  bm_best_trade :: rat
  bm_worst_trade :: rat
  bm_total_fees :: rat
  bm_total_slippage :: rat
  bm_total_funding_fees :: rat
  bm_total_costs :: rat
  bm_cost_drag_pct :: rat
  bm_start_date :: int
  bm_end_date :: int
  bm_duration_days :: int
  bm_total_bars :: nat
  bm_initial_capital :: rat
  bm_final_equity :: rat

record backtest_result =
  br_trades :: "backtest_trade list"
  br_equity_curve :: "equity_point list"
  br_metrics :: backtest_metrics

section \<open>Figures\<close>

type_synonym power_fun = "rat \<Rightarrow> rat \<Rightarrow> rat"

definition calc_total_return :: "rat \<Rightarrow> rat \<Rightarrow> rat" where
  "calc_total_return initial final_equity =
     (if initial = 0 then 0 else f64 (dmul (ddiv (dsub final_equity initial) initial) 100))"

definition calc_cagr :: "power_fun \<Rightarrow> rat \<Rightarrow> rat \<Rightarrow> int \<Rightarrow> int \<Rightarrow> rat" where
  "calc_cagr fpow initial final_equity duration_days periods_per_year =
     (if initial \<le> 0 \<or> duration_days \<le> 0 then 0
      else
        let ratio = f64 (ddiv final_equity initial)
        in if ratio \<le> 0 then - 100
           else fmul (fsub (fpow ratio (fdiv (of_int periods_per_year) (of_int duration_days))) 1) 100)"

fun max_drawdown_from :: "rat \<Rightarrow> rat \<Rightarrow> equity_point list \<Rightarrow> rat" where
  "max_drawdown_from peak max_dd [] = max_dd"
| "max_drawdown_from peak max_dd (p # ps) =
     (let val = f64 (ep_equity p);
          peak = (if peak < val then val else peak);
          dd = fmul (fdiv (fsub val peak) peak) 100
      in max_drawdown_from peak (if 0 < peak \<and> dd < max_dd then dd else max_dd) ps)"

definition calc_max_drawdown :: "equity_point list \<Rightarrow> rat" where
  "calc_max_drawdown curve =
     (case curve of [] \<Rightarrow> 0 | p # ps \<Rightarrow> max_drawdown_from (f64 (ep_equity p)) 0 curve)"

fun returns_of :: "rat list \<Rightarrow> rat list" where
  "returns_of (a # b # rest) =
     (if 0 < a then [fdiv (fsub b a) a] else []) @ returns_of (b # rest)"
| "returns_of _ = []"

definition daily_returns :: "equity_point list \<Rightarrow> rat list" where
  "daily_returns curve = returns_of (map (\<lambda>p. f64 (ep_equity p)) curve)"

definition risk_free_daily :: "power_fun \<Rightarrow> rat \<Rightarrow> rat" where
  "risk_free_daily fpow rate = fsub (fpow (fadd 1 rate) (fdiv 1 365)) 1"

definition calc_sharpe_ratio :: "power_fun \<Rightarrow> equity_point list \<Rightarrow> rat \<Rightarrow> int \<Rightarrow> rat" where
  "calc_sharpe_ratio fpow curve risk_free_rate periods_per_year =
     (if length curve < 2 then 0
      else
        let returns = daily_returns curve
        in if length returns < 2 then 0
           else
             let std = stat_stdev returns
             in if std = 0 then 0
                else
                  let excess = fsub (stat_mean returns) (risk_free_daily fpow risk_free_rate)
                  in fmul (fdiv excess std) (fsqrt (of_int periods_per_year)))"

definition calc_sortino_ratio :: "power_fun \<Rightarrow> equity_point list \<Rightarrow> rat \<Rightarrow> int \<Rightarrow> rat" where
  "calc_sortino_ratio fpow curve risk_free_rate periods_per_year =
     (if length curve < 2 then 0
      else
        let returns = daily_returns curve
        in if returns = [] then 0
           else
             let daily = risk_free_daily fpow risk_free_rate;
                 excess = fsub (stat_mean returns) daily;
                 downside = filter (\<lambda>r. r < daily) returns
             in if length downside < 2 then 0
                else
                  let std = stat_stdev downside
                  in if std = 0 then 0
                     else fmul (fdiv excess std) (fsqrt (of_int periods_per_year)))"

definition calc_calmar_ratio :: "rat \<Rightarrow> rat \<Rightarrow> rat" where
  "calc_calmar_ratio cagr mdd = (if mdd = 0 then 0 else fdiv cagr \<bar>mdd\<bar>)"

text \<open>The net results of the closed trades, in order.\<close>

definition net_pnls :: "backtest_trade list \<Rightarrow> rat list" where
  "net_pnls trades = List.map_filter bt_net_pnl trades"

definition calc_profit_factor :: "backtest_trade list \<Rightarrow> xfloat" where
  "calc_profit_factor trades =
     (let pnls = net_pnls trades;
          gross_win = fsum (map f64 (filter (\<lambda>p. 0 < p) pnls));
          gross_loss = fsum (map (\<lambda>p. \<bar>f64 p\<bar>) (filter (\<lambda>p. p < 0) pnls))
      in if gross_loss = 0 then (if 0 < gross_win then PosInfinity else Finite 1)
         else Finite (fdiv gross_win gross_loss))"

definition calc_win_rate :: "backtest_trade list \<Rightarrow> rat" where
  "calc_win_rate trades =
     (let pnls = net_pnls trades
      in if pnls = [] then 0
         else fdiv (of_nat (length (filter (\<lambda>p. 0 < p) pnls))) (of_nat (length pnls)))"

definition dec_average :: "rat list \<Rightarrow> rat" where
  "dec_average xs = (if xs = [] then 0 else ddiv (dec_sum xs) (of_nat (length xs)))"

definition calc_expectancy :: "backtest_trade list \<Rightarrow> rat" where
  "calc_expectancy trades =
     (let pnls = net_pnls trades;
          winners = filter (\<lambda>p. 0 < p) pnls;
          losers = map dabs (filter (\<lambda>p. p < 0) pnls)
      in if pnls = [] then 0
         else
           let win_rate = fdiv (of_nat (length winners)) (of_nat (length pnls));
               loss_rate = fsub 1 win_rate
           in dsub (dmul (repr10 win_rate) (dec_average winners))
                   (dmul (repr10 loss_rate) (dec_average losers)))"

definition calc_cost_drag :: "rat \<Rightarrow> rat \<Rightarrow> rat" where
  "calc_cost_drag total_costs initial_capital =
     (if initial_capital = 0 then 0 else f64 (dmul (ddiv total_costs initial_capital) 100))"

fun drawdown_from :: "rat \<Rightarrow> equity_point list \<Rightarrow> equity_point list" where
  "drawdown_from peak [] = []"
| "drawdown_from peak (p # ps) =
     (let val = f64 (ep_equity p);
          peak = (if peak < val then val else peak)
      in p\<lparr>ep_peak_equity := repr10 peak,
           ep_drawdown_pct := (if 0 < peak then fmul (fdiv (fsub val peak) peak) 100 else 0)\<rparr>
         # drawdown_from peak ps)"

definition build_equity_curve_with_drawdown :: "equity_point list \<Rightarrow> equity_point list" where
  "build_equity_curve_with_drawdown points =
     (case points of [] \<Rightarrow> [] | p # ps \<Rightarrow> drawdown_from (f64 (ep_equity p)) points)"

definition first_max :: "rat list \<Rightarrow> rat" where
  "first_max xs = (case xs of [] \<Rightarrow> 0 | x # xs \<Rightarrow> foldl max x xs)"

definition first_min :: "rat list \<Rightarrow> rat" where
  "first_min xs = (case xs of [] \<Rightarrow> 0 | x # xs \<Rightarrow> foldl min x xs)"

definition cents2 :: "rat \<Rightarrow> rat result" where "cents2 x = quantize rhe 2 x"

definition calculate_metrics ::
    "power_fun \<Rightarrow> backtest_config \<Rightarrow> backtest_trade list \<Rightarrow> equity_point list \<Rightarrow> int \<Rightarrow> int \<Rightarrow> rat \<Rightarrow> nat
       \<Rightarrow> backtest_metrics result" where
  "calculate_metrics fpow c trades curve start_date end_date initial_capital total_bars =
     (let ended = filter (\<lambda>t. bt_net_pnl t \<noteq> None) trades;
          pnls = net_pnls ended;
          final_equity = (if curve = [] then initial_capital else ep_equity (last curve));
          duration_days = max 1 ((end_date - start_date) div day_us);
          cagr = calc_cagr fpow initial_capital final_equity duration_days (bc_periods_per_year c);
          mdd = calc_max_drawdown curve;
          winners = filter (\<lambda>p. 0 < p) pnls;
          losers = filter (\<lambda>p. p \<le> 0) pnls;
          durations = List.map_filter bt_duration_hours ended;
          fees = dec_sum (map (\<lambda>t. dadd (bt_entry_fee t) (bt_exit_fee t)) ended);
          slippage = dec_sum (map bt_slippage_cost ended);
          funding = dec_sum (map (\<lambda>t. dabs (bt_funding_fees t)) ended);
          costs = dadd (dadd fees slippage) funding
      in
      ebind (cents2 (dec_average winners)) (\<lambda>avg_win.
      ebind (cents2 (dec_average (map dabs losers))) (\<lambda>avg_loss.
      ebind (cents2 (first_max pnls)) (\<lambda>best.
      ebind (cents2 (first_min pnls)) (\<lambda>worst.
      ebind (cents2 fees) (\<lambda>fees_q.
      ebind (cents2 slippage) (\<lambda>slippage_q.
      ebind (cents2 funding) (\<lambda>funding_q.
      ebind (cents2 costs) (\<lambda>costs_q.
      ebind (cents2 final_equity) (\<lambda>final_q.
      Inr \<lparr>bm_total_return = calc_total_return initial_capital final_equity, bm_cagr = cagr,
           bm_max_drawdown = mdd,
           bm_sharpe_ratio = calc_sharpe_ratio fpow curve (bc_risk_free_rate c) (bc_periods_per_year c),
           bm_profit_factor = calc_profit_factor ended, bm_win_rate = calc_win_rate ended,
           bm_sortino_ratio = calc_sortino_ratio fpow curve (bc_risk_free_rate c) (bc_periods_per_year c),
           bm_calmar_ratio = calc_calmar_ratio cagr mdd, bm_total_trades = length ended,
           bm_winning_trades = length winners, bm_losing_trades = length losers,
           bm_avg_win_usdt = avg_win, bm_avg_loss_usdt = avg_loss,
           bm_avg_trade_duration_hours = (if durations = [] then 0 else stat_mean durations),
           bm_best_trade = best, bm_worst_trade = worst, bm_total_fees = fees_q,
           bm_total_slippage = slippage_q, bm_total_funding_fees = funding_q,
           bm_total_costs = costs_q, bm_cost_drag_pct = calc_cost_drag costs initial_capital,
           bm_start_date = start_date, bm_end_date = end_date, bm_duration_days = duration_days,
           bm_total_bars = total_bars, bm_initial_capital = initial_capital,
           bm_final_equity = final_q\<rparr>))))))))))"

section \<open>The run\<close>

record bt_state =
  rs_cash :: rat
  rs_open :: "backtest_trade list"
  rs_closed :: "backtest_trade list"
  rs_curve :: "equity_point list"
  rs_pending :: "backtest_signal option"

definition bt_start :: "backtest_config \<Rightarrow> bt_state" where
  "bt_start c =
     \<lparr>rs_cash = bc_initial_capital c, rs_open = [], rs_closed = [], rs_curve = [], rs_pending = None\<rparr>"

text \<open>\<open>_build_signal_index\<close>: the signals of an instant, in the order of the list.\<close>

definition build_signal_index :: "backtest_signal list \<Rightarrow> int \<Rightarrow> backtest_signal list" where
  "build_signal_index signals t = filter (\<lambda>s. bs_timestamp s = t) signals"

definition calc_unrealized_pnl :: "backtest_trade list \<Rightarrow> rat \<Rightarrow> rat" where
  "calc_unrealized_pnl open_trades price =
     dec_sum (map (\<lambda>t. net_pnl_from_prices (bt_direction t) (bt_quantity t) (bt_actual_entry_price t) price)
       open_trades)"

definition has_room :: "backtest_config \<Rightarrow> 'a list \<Rightarrow> bool" where
  "has_room c open_trades \<longleftrightarrow> int (length open_trades) < bc_max_open_positions c"

text \<open>Step 1: the signal that waits for this bar.\<close>

definition enter_pending :: "backtest_config \<Rightarrow> rat \<Rightarrow> ohlcv_bar \<Rightarrow> bt_state \<Rightarrow> bt_state result" where
  "enter_pending c risk bar s =
     (case rs_pending s of
        None \<Rightarrow> Inr s
      | Some sig \<Rightarrow>
          if has_room c (rs_open s)
          then ebind (bt_enter c sig bar risk) (\<lambda>t.
            Inr (s\<lparr>rs_cash := dsub (rs_cash s) (dadd (bt_margin_used t) (bt_entry_fee t)),
                   rs_open := rs_open s @ [t], rs_pending := None\<rparr>))
          else Inr (s\<lparr>rs_pending := None\<rparr>))"

text \<open>Step 2: funding of the open trades.\<close>

fun accrue_all :: "backtest_config \<Rightarrow> ohlcv_bar \<Rightarrow> backtest_trade list \<Rightarrow> rat \<Rightarrow> backtest_trade list \<times> rat" where
  "accrue_all c bar [] cash = ([], cash)"
| "accrue_all c bar (t # ts) cash =
     (let (t1, fee) = accrue_funding c t bar;
          (ts1, cash1) = accrue_all c bar ts (dsub cash fee)
      in (t1 # ts1, cash1))"

definition accrue_step :: "backtest_config \<Rightarrow> ohlcv_bar \<Rightarrow> bt_state \<Rightarrow> bt_state" where
  "accrue_step c bar s =
     (if ob_is_funding_bar bar
      then let (ts, cash) = accrue_all c bar (rs_open s) (rs_cash s)
           in s\<lparr>rs_open := ts, rs_cash := cash\<rparr>
      else s)"

text \<open>Step 3: the trades that end on this bar leave the list; \<open>force\<close> is the end of the data.\<close>

fun exit_all ::
    "backtest_config \<Rightarrow> ohlcv_bar \<Rightarrow> bool \<Rightarrow> backtest_trade list \<Rightarrow> rat \<Rightarrow> backtest_trade list
       \<Rightarrow> (backtest_trade list \<times> rat \<times> backtest_trade list) result" where
  "exit_all c bar force [] cash ended = Inr ([], cash, ended)"
| "exit_all c bar force (t # ts) cash ended =
     ebind (bt_check_exit c t bar force) (\<lambda>r.
     case r of
       Some x \<Rightarrow>
         exit_all c bar force ts
           (dadd cash (dadd (bt_margin_used x) (case bt_net_pnl x of Some p \<Rightarrow> p | None \<Rightarrow> 0)))
           (ended @ [x])
     | None \<Rightarrow> ebind (exit_all c bar force ts cash ended) (\<lambda>(still, cash1, closed1).
                Inr (t # still, cash1, closed1)))"

definition exit_step :: "backtest_config \<Rightarrow> ohlcv_bar \<Rightarrow> bool \<Rightarrow> bt_state \<Rightarrow> bt_state result" where
  "exit_step c bar force s =
     ebind (exit_all c bar force (rs_open s) (rs_cash s) (rs_closed s)) (\<lambda>(still, cash, ended).
     Inr (s\<lparr>rs_open := still, rs_cash := cash, rs_closed := ended\<rparr>))"

text \<open>Step 4: the first signal of this instant waits for the next bar.\<close>

definition signal_step :: "backtest_config \<Rightarrow> backtest_signal list \<Rightarrow> ohlcv_bar \<Rightarrow> bt_state \<Rightarrow> bt_state" where
  "signal_step c signals bar s =
     (case build_signal_index signals (ob_timestamp bar) of
        [] \<Rightarrow> s | sig # _ \<Rightarrow> if has_room c (rs_open s) then s\<lparr>rs_pending := Some sig\<rparr> else s)"

text \<open>Step 5: the equity of this bar.\<close>

definition equity_step :: "ohlcv_bar \<Rightarrow> bt_state \<Rightarrow> bt_state result" where
  "equity_step bar s =
     (let unrealized = calc_unrealized_pnl (rs_open s) (ob_close bar);
          equity = dadd (dadd (rs_cash s) (dec_sum (map bt_margin_used (rs_open s)))) unrealized
      in
      ebind (cents2 equity) (\<lambda>equity_q.
      ebind (cents2 (rs_cash s)) (\<lambda>cash_q.
      ebind (cents2 unrealized) (\<lambda>unrealized_q.
      Inr (s\<lparr>rs_curve := rs_curve s @
        [\<lparr>ep_timestamp = ob_timestamp bar, ep_equity = equity_q, ep_cash = cash_q,
          ep_unrealized_pnl = unrealized_q, ep_open_positions = length (rs_open s),
          ep_peak_equity = 0, ep_drawdown_pct = 0\<rparr>]\<rparr>)))))"

definition bar_step ::
    "backtest_config \<Rightarrow> backtest_signal list \<Rightarrow> rat \<Rightarrow> ohlcv_bar \<Rightarrow> bt_state \<Rightarrow> bt_state result" where
  "bar_step c signals risk bar s =
     ebind (enter_pending c risk bar s) (\<lambda>s.
     ebind (exit_step c bar False (accrue_step c bar s)) (\<lambda>s.
     equity_step bar (signal_step c signals bar s)))"

fun run_bars ::
    "backtest_config \<Rightarrow> backtest_signal list \<Rightarrow> rat \<Rightarrow> ohlcv_bar list \<Rightarrow> bt_state \<Rightarrow> bt_state result" where
  "run_bars c signals risk [] s = Inr s"
| "run_bars c signals risk (bar # bars) s =
     ebind (bar_step c signals risk bar s) (run_bars c signals risk bars)"

text \<open>After the loop: close what is open at the last close and write the last point again.\<close>

definition close_out :: "backtest_config \<Rightarrow> ohlcv_bar \<Rightarrow> bt_state \<Rightarrow> bt_state result" where
  "close_out c last_bar s =
     (if rs_open s = [] then Inr s
      else
        ebind (exit_step c last_bar True s) (\<lambda>s.
        ebind (cents2 (rs_cash s)) (\<lambda>cash_q.
        Inr (if rs_curve s = [] then s
             else s\<lparr>rs_curve := butlast (rs_curve s) @
               [(last (rs_curve s))\<lparr>ep_equity := cash_q, ep_cash := cash_q\<rparr>]\<rparr>))))"

definition backtest_run ::
    "power_fun \<Rightarrow> backtest_config \<Rightarrow> backtest_signal list \<Rightarrow> ohlcv_bar list \<Rightarrow> rat option
       \<Rightarrow> backtest_result result" where
  "backtest_run fpow c signals bars risk_amount =
     (if bars = [] then Inl ValueError
      else
        let marked = mark_funding_bars bars;
            risk = (case risk_amount of
                      Some r \<Rightarrow> if r = 0 then dmul (bc_initial_capital c) 0.02 else r
                    | None \<Rightarrow> dmul (bc_initial_capital c) 0.02)
        in
        ebind (run_bars c signals risk marked (bt_start c)) (\<lambda>s.
        ebind (close_out c (last marked) s) (\<lambda>s.
        let curve = build_equity_curve_with_drawdown (rs_curve s)
        in ebind (calculate_metrics fpow c (rs_closed s) curve (ob_timestamp (hd marked))
                    (ob_timestamp (last marked)) (bc_initial_capital c) (length marked)) (\<lambda>m.
           Inr \<lparr>br_trades = rs_closed s, br_equity_curve = curve, br_metrics = m\<rparr>))))"

definition run_with_risk_pct ::
    "power_fun \<Rightarrow> backtest_config \<Rightarrow> backtest_signal list \<Rightarrow> ohlcv_bar list \<Rightarrow> rat \<Rightarrow> backtest_result result" where
  "run_with_risk_pct fpow c signals bars risk_pct =
     backtest_run fpow c signals bars (Some (dmul (bc_initial_capital c) (repr10 risk_pct)))"

end
