(* ===== verification/BacktestProps.thy ===== *)
theory BacktestProps
  imports BacktestEngine
begin

text \<open>
  A backtest never looks ahead and keeps its books: the invariant of the loop over the bars, and
  what it gives for the trades, the equity curve and the figures of a run.
\<close>

section \<open>Trades\<close>

lemma min_quantity_pos: "0 < min_quantity s"
  by (simp add: min_quantity_def MIN_QTY_def get_or_def)

lemma bt_enter_fields:
  assumes "bt_enter c sig bar risk = Inr t"
  shows "bt_signal_id t = bs_signal_id sig" "bt_direction t = bs_direction sig"
    "bt_entry_time t = ob_timestamp bar" "bt_stop_loss t = bs_stop_loss sig"
    "bt_take_profit t = bs_take_profit sig" "0 < bt_quantity t" "bt_exit_time t = None"
  using assms min_quantity_pos [of "bs_symbol sig"]
  by (auto simp: bt_enter_def Let_def ebind_Inr_iff)

text \<open>Why a trade may end: a level was touched in the bar, or the data ended.\<close>

definition exit_justified :: "backtest_trade \<Rightarrow> ohlcv_bar \<Rightarrow> bool" where
  "exit_justified t bar \<longleftrightarrow>
     (case bt_exit_reason t of
        Some ExitTakeProfit \<Rightarrow> (\<exists>tp. bt_take_profit t = Some tp \<and>
          (if bt_direction t = LONG then tp \<le> ob_high bar else ob_low bar \<le> tp))
      | Some ExitStopLoss \<Rightarrow>
          (if bt_direction t = LONG then ob_low bar \<le> bt_stop_loss t else bt_stop_loss t \<le> ob_high bar)
      | Some ExitTimeout \<Rightarrow> True
      | _ \<Rightarrow> False)"

lemma close_trade_fields:
  assumes "close_trade c t bar price reason = Inr x"
  shows "bt_signal_id x = bt_signal_id t" "bt_direction x = bt_direction t"
    "bt_entry_time x = bt_entry_time t" "bt_stop_loss x = bt_stop_loss t"
    "bt_take_profit x = bt_take_profit t" "bt_quantity x = bt_quantity t"
    "bt_exit_time x = Some (ob_timestamp bar)" "bt_exit_reason x = Some reason"
    "\<exists>n. bt_net_pnl x = Some n"
  using assms by (auto simp: close_trade_def Let_def ebind_Inr_iff case_prod_beta)

lemma bt_check_exit_Some:
  assumes "bt_check_exit c t bar force = Inr (Some x)"
  shows "bt_signal_id x = bt_signal_id t \<and> bt_direction x = bt_direction t \<and>
    bt_entry_time x = bt_entry_time t \<and> bt_quantity x = bt_quantity t \<and>
    bt_exit_time x = Some (ob_timestamp bar) \<and> exit_justified x bar \<and> (\<exists>n. bt_net_pnl x = Some n)"
proof -
  obtain price reason where p: "(if force then Some (ob_close bar, ExitTimeout) else find_exit t bar) = Some (price, reason)"
    "close_trade c t bar price reason = Inr x"
    using assms by (auto simp: bt_check_exit_def ebind_Inr_iff split: option.splits if_splits)
  note f = close_trade_fields [OF p(2)]
  have "exit_justified x bar"
    using p(1) f unfolding exit_justified_def find_exit_def tp_hit_def sl_hit_def
    by (auto split: if_splits option.splits)
  then show ?thesis using f by simp
qed

section \<open>The loop\<close>

definition from_signal :: "backtest_signal list \<Rightarrow> int list \<Rightarrow> backtest_trade \<Rightarrow> bool" where
  "from_signal signals stamps t \<longleftrightarrow> bt_entry_time t \<in> set stamps \<and> 0 < bt_quantity t \<and>
     (\<exists>sig\<in>set signals. bt_signal_id t = bs_signal_id sig \<and> bt_direction t = bs_direction sig \<and>
        bs_timestamp sig \<in> set stamps \<and> bs_timestamp sig < bt_entry_time t)"

definition ended_ok :: "backtest_signal list \<Rightarrow> ohlcv_bar list \<Rightarrow> backtest_trade \<Rightarrow> bool" where
  "ended_ok signals bars t \<longleftrightarrow> from_signal signals (map ob_timestamp bars) t \<and>
     (\<exists>bar\<in>set bars. bt_exit_time t = Some (ob_timestamp bar) \<and> bt_entry_time t \<le> ob_timestamp bar \<and>
        exit_justified t bar) \<and> (\<exists>n. bt_net_pnl t = Some n)"

text \<open>The state after the bars \<open>bars\<close>.\<close>

definition bt_ok :: "backtest_config \<Rightarrow> backtest_signal list \<Rightarrow> ohlcv_bar list \<Rightarrow> bt_state \<Rightarrow> bool" where
  "bt_ok c signals bars s \<longleftrightarrow>
     list_all (\<lambda>t. from_signal signals (map ob_timestamp bars) t) (rs_open s) \<and>
     list_all (ended_ok signals bars) (rs_closed s) \<and>
     int (length (rs_open s)) \<le> bc_max_open_positions c \<and>
     (case rs_pending s of None \<Rightarrow> True
      | Some sig \<Rightarrow> sig \<in> set signals \<and> bs_timestamp sig \<in> set (map ob_timestamp bars)) \<and>
     map ep_timestamp (rs_curve s) = map ob_timestamp bars \<and>
     list_all (\<lambda>p. int (ep_open_positions p) \<le> bc_max_open_positions c) (rs_curve s)"

lemma from_signal_mono: "from_signal signals stamps t \<Longrightarrow> from_signal signals (stamps @ xs) t"
  by (auto simp: from_signal_def)

lemma ended_ok_mono: "ended_ok signals bars t \<Longrightarrow> ended_ok signals (bars @ xs) t"
  by (auto simp: ended_ok_def from_signal_def)

lemma list_all_mono': "list_all P xs \<Longrightarrow> (\<And>x. P x \<Longrightarrow> Q x) \<Longrightarrow> list_all Q xs"
  by (auto simp: list_all_iff)

text \<open>Between the bars: the same facts about the trades, with the books not yet written.\<close>

definition mid_ok :: "backtest_config \<Rightarrow> backtest_signal list \<Rightarrow> ohlcv_bar list \<Rightarrow> bt_state \<Rightarrow> bool" where
  "mid_ok c signals bars s \<longleftrightarrow>
     list_all (\<lambda>t. from_signal signals (map ob_timestamp bars) t) (rs_open s) \<and>
     list_all (ended_ok signals bars) (rs_closed s) \<and>
     int (length (rs_open s)) \<le> bc_max_open_positions c \<and> rs_pending s = None"

lemma enter_pending_ok:
  assumes "enter_pending c risk bar s = Inr s1" "bt_ok c signals bars s"
    "\<forall>b\<in>set bars. ob_timestamp b < ob_timestamp bar"
  shows "mid_ok c signals (bars @ [bar]) s1 \<and> rs_curve s1 = rs_curve s"
proof -
  have old: "list_all (\<lambda>t. from_signal signals (map ob_timestamp (bars @ [bar])) t) (rs_open s)"
    "list_all (ended_ok signals (bars @ [bar])) (rs_closed s)"
    using assms(2) from_signal_mono ended_ok_mono unfolding bt_ok_def map_append
    by (blast intro: list_all_mono')+
  show ?thesis
  proof (cases "rs_pending s")
    case None
    then show ?thesis using assms(1,2) old by (simp add: enter_pending_def mid_ok_def bt_ok_def)
  next
    case (Some sig)
    show ?thesis
    proof (cases "has_room c (rs_open s)")
      case False
      then show ?thesis using assms(1,2) old Some by (auto simp: enter_pending_def mid_ok_def bt_ok_def)
    next
      case True
      then obtain t where t: "bt_enter c sig bar risk = Inr t"
        "s1 = s\<lparr>rs_cash := dsub (rs_cash s) (dadd (bt_margin_used t) (bt_entry_fee t)),
                   rs_open := rs_open s @ [t], rs_pending := None\<rparr>"
        using assms(1) Some by (auto simp: enter_pending_def ebind_Inr_iff)
      note f = bt_enter_fields [OF t(1)]
      have "sig \<in> set signals" "bs_timestamp sig \<in> set (map ob_timestamp bars)"
        using assms(2) Some by (simp_all add: bt_ok_def)
      moreover from this have "bs_timestamp sig < ob_timestamp bar" using assms(3) by auto
      ultimately have "from_signal signals (map ob_timestamp (bars @ [bar])) t"
        using f unfolding from_signal_def by auto
      then show ?thesis using t(2) old True by (simp add: mid_ok_def has_room_def)
    qed
  qed
qed

lemma accrue_all_trades:
  assumes "accrue_all c bar ts cash = (ts1, cash1)"
  shows "length ts1 = length ts"
    "(\<And>t. P t \<Longrightarrow> P (fst (accrue_funding c t bar))) \<Longrightarrow> list_all P ts \<Longrightarrow> list_all P ts1"
  using assms
  by (induction ts arbitrary: cash ts1 cash1) (auto simp: Let_def split: prod.splits, fastforce)

lemma accrue_funding_same:
  "from_signal signals stamps t \<Longrightarrow> from_signal signals stamps (fst (accrue_funding c t bar))"
  by (simp add: accrue_funding_def from_signal_def Let_def)

lemma accrue_step_ok:
  "mid_ok c signals bars s \<Longrightarrow>
    mid_ok c signals bars (accrue_step c bar s) \<and> rs_curve (accrue_step c bar s) = rs_curve s"
  using accrue_all_trades [of c bar "rs_open s" "rs_cash s"] accrue_funding_same
  by (auto simp: accrue_step_def mid_ok_def Let_def split: prod.splits)

lemma exit_all_ok:
  assumes "exit_all c bar force ts cash ended = Inr (still, cash1, ended1)"
    "list_all (\<lambda>t. from_signal signals (map ob_timestamp bars) t) ts"
    "list_all (ended_ok signals bars) ended" "bar \<in> set bars"
    "\<forall>b\<in>set bars. ob_timestamp b \<le> ob_timestamp bar"
  shows "list_all (\<lambda>t. from_signal signals (map ob_timestamp bars) t) still \<and>
    list_all (ended_ok signals bars) ended1 \<and> length still \<le> length ts \<and> (force \<longrightarrow> still = [])"
  using assms
proof (induction ts arbitrary: cash ended still cash1 ended1)
  case (Cons t ts)
  obtain r where r: "bt_check_exit c t bar force = Inr r" using Cons.prems(1) by (auto simp: ebind_Inr_iff)
  show ?case
  proof (cases r)
    case None
    then have "\<not> force" using r by (auto simp: bt_check_exit_def ebind_Inr_iff)
    moreover obtain still2 where "still = t # still2"
      "exit_all c bar force ts cash ended = Inr (still2, cash1, ended1)"
      using Cons.prems(1) r None by (auto simp: ebind_Inr_iff)
    ultimately show ?thesis using Cons.IH [of cash ended still2 cash1 ended1] Cons.prems(2-) by auto
  next
    case (Some x)
    note f = bt_check_exit_Some [OF r [unfolded Some]]
    have t: "from_signal signals (map ob_timestamp bars) t" using Cons.prems(2) by simp
    then have "bt_entry_time t \<le> ob_timestamp bar" using Cons.prems(5) by (auto simp: from_signal_def)
    then have "ended_ok signals bars x"
      using f t Cons.prems(4) unfolding ended_ok_def by (auto simp: from_signal_def)
    then show ?thesis
      using Cons.prems r Some Cons.IH [of _ "ended @ [x]" still cash1 ended1] by fastforce
  qed
qed simp

lemma exit_step_ok:
  assumes "exit_step c bar force s = Inr s1" "mid_ok c signals bars s" "bar \<in> set bars"
    "\<forall>b\<in>set bars. ob_timestamp b \<le> ob_timestamp bar"
  shows "mid_ok c signals bars s1 \<and> rs_curve s1 = rs_curve s \<and> (force \<longrightarrow> rs_open s1 = [])"
  using assms(1,2) exit_all_ok [OF _ _ _ assms(3,4), of c force "rs_open s" "rs_cash s" "rs_closed s" _ _ _ signals]
  by (auto simp: exit_step_def ebind_Inr_iff mid_ok_def intro: order_trans)

lemma bar_step_ok:
  assumes "bar_step c signals risk bar s = Inr s1" "bt_ok c signals bars s"
    "\<forall>b\<in>set bars. ob_timestamp b < ob_timestamp bar"
  shows "bt_ok c signals (bars @ [bar]) s1"
proof -
  obtain a b where s: "enter_pending c risk bar s = Inr a" "exit_step c bar False (accrue_step c bar a) = Inr b"
    "equity_step bar (signal_step c signals bar b) = Inr s1"
    using assms(1) by (auto simp: bar_step_def ebind_Inr_iff)
  have a: "mid_ok c signals (bars @ [bar]) a" "rs_curve a = rs_curve s"
    using enter_pending_ok [OF s(1) assms(2,3)] by auto
  have le: "\<forall>b\<in>set (bars @ [bar]). ob_timestamp b \<le> ob_timestamp bar" using assms(3) by auto
  have b: "mid_ok c signals (bars @ [bar]) b" "rs_curve b = rs_curve s"
    using exit_step_ok [OF s(2) _ _ le] accrue_step_ok [OF a(1), of bar] a(2) by auto
  have p: "rs_pending (signal_step c signals bar b) = Some sig \<Longrightarrow> sig \<in> set signals \<and> bs_timestamp sig = ob_timestamp bar"
    for sig
  proof -
    assume p: "rs_pending (signal_step c signals bar b) = Some sig"
    then have "sig \<in> set (build_signal_index signals (ob_timestamp bar))"
      using b(1) by (auto simp: signal_step_def mid_ok_def split: list.splits if_splits)
    then show ?thesis by (simp add: build_signal_index_def)
  qed
  have same: "rs_open (signal_step c signals bar b) = rs_open b" "rs_closed (signal_step c signals bar b) = rs_closed b"
    "rs_curve (signal_step c signals bar b) = rs_curve b"
    by (auto simp: signal_step_def split: list.splits)
  show ?thesis
    using s(3) b assms(2) same p unfolding equity_step_def bt_ok_def mid_ok_def
    by (auto simp: Let_def ebind_Inr_iff split: option.splits)
qed

lemma run_bars_ok:
  assumes "run_bars c signals risk bars s = Inr s1" "bt_ok c signals before s"
    "sorted_wrt (<) (map ob_timestamp (before @ bars))"
  shows "bt_ok c signals (before @ bars) s1"
  using assms
proof (induction bars arbitrary: s before)
  case (Cons bar bars)
  obtain s2 where s2: "bar_step c signals risk bar s = Inr s2" "run_bars c signals risk bars s2 = Inr s1"
    using Cons.prems(1) by (auto simp: ebind_Inr_iff)
  have "\<forall>b\<in>set before. ob_timestamp b < ob_timestamp bar"
    using Cons.prems(3) by (auto simp: sorted_wrt_append)
  from bar_step_ok [OF s2(1) Cons.prems(2) this] have "bt_ok c signals (before @ [bar]) s2" .
  from Cons.IH [OF s2(2) this] Cons.prems(3) show ?case by simp
qed simp


section \<open>The run\<close>

lemma bt_start_ok: "0 \<le> bc_max_open_positions c \<Longrightarrow> bt_ok c signals [] (bt_start c)"
  by (simp add: bt_ok_def bt_start_def)

lemma close_out_ok:
  assumes "close_out c (last bars) s = Inr s1" "bt_ok c signals bars s" "bars \<noteq> []"
    "sorted_wrt (<) (map ob_timestamp bars)"
  shows "rs_open s1 = [] \<and> list_all (ended_ok signals bars) (rs_closed s1) \<and>
    map ep_timestamp (rs_curve s1) = map ob_timestamp bars \<and>
    list_all (\<lambda>p. int (ep_open_positions p) \<le> bc_max_open_positions c) (rs_curve s1)"
proof (cases "rs_open s = []")
  case True
  then show ?thesis using assms(1,2) by (simp add: close_out_def bt_ok_def)
next
  case False
  have "sorted_wrt (\<lambda>a b. ob_timestamp a < ob_timestamp b) (butlast bars @ [last bars])"
    using assms(3,4) by (simp add: sorted_wrt_map)
  then have "\<forall>b\<in>set (butlast bars @ [last bars]). ob_timestamp b \<le> ob_timestamp (last bars)"
    by (auto simp: sorted_wrt_append)
  then have le: "\<forall>b\<in>set bars. ob_timestamp b \<le> ob_timestamp (last bars)"
    unfolding append_butlast_last_id [OF assms(3)] .
  obtain still cash ended q s0 where e: "exit_all c (last bars) True (rs_open s) (rs_cash s) (rs_closed s) = Inr (still, cash, ended)"
    "s1 = (if rs_curve s0 = [] then s0
       else s0\<lparr>rs_curve := butlast (rs_curve s0) @ [(last (rs_curve s0))\<lparr>ep_equity := q, ep_cash := q\<rparr>]\<rparr>)"
    "s0 = s\<lparr>rs_open := still, rs_cash := cash, rs_closed := ended\<rparr>"
    using assms(1) False by (auto simp: close_out_def exit_step_def ebind_Inr_iff)
  have s0: "rs_curve s0 = rs_curve s" "rs_open s0 = still" "rs_closed s0 = ended" unfolding e(3) by simp_all
  have ok: "still = []" "list_all (ended_ok signals bars) ended"
    using exit_all_ok [OF e(1) _ _ last_in_set [OF assms(3)] le] assms(2) by (auto simp: bt_ok_def)
  have curve: "map ep_timestamp (rs_curve s1) = map ep_timestamp (rs_curve s)"
    "map ep_open_positions (rs_curve s1) = map ep_open_positions (rs_curve s)"
    unfolding e(2) s0(1) by (cases "rs_curve s" rule: rev_cases; simp add: s0)+
  have "list_all (\<lambda>n. int n \<le> bc_max_open_positions c) (map ep_open_positions (rs_curve s1))"
    using assms(2) unfolding curve(2) by (simp add: bt_ok_def list_all_iff)
  then show ?thesis using ok curve(1) assms(2) e(2) s0 by (auto simp: bt_ok_def list_all_iff)
qed

lemma drawdown_same:
  "map ep_timestamp (drawdown_from m ps) = map ep_timestamp ps"
  "map ep_open_positions (drawdown_from m ps) = map ep_open_positions ps"
  "map ep_equity (drawdown_from m ps) = map ep_equity ps"
  by (induction m ps rule: drawdown_from.induct) (simp_all add: Let_def)

lemma curve_same:
  "map ep_timestamp (build_equity_curve_with_drawdown ps) = map ep_timestamp ps"
  "map ep_open_positions (build_equity_curve_with_drawdown ps) = map ep_open_positions ps"
  by (auto simp: build_equity_curve_with_drawdown_def drawdown_same simp del: drawdown_from.simps split: list.split)

lemma mark_stamps [simp]: "map ob_timestamp (mark_funding_bars bars) = map ob_timestamp bars"
  by (simp add: mark_funding_bars_def)

lemma exit_justified_marked [simp]: "exit_justified t (b\<lparr>ob_is_funding_bar := x\<rparr>) = exit_justified t b"
  by (simp add: exit_justified_def split: option.split trade_exit_reason.split)

lemma ended_ok_marked: "ended_ok signals (mark_funding_bars bars) t \<Longrightarrow> ended_ok signals bars t"
  unfolding ended_ok_def mark_stamps by (simp add: mark_funding_bars_def)

lemma backtest_run_parts:
  assumes "backtest_run fpow c signals bars risk = Inr r" "sorted_wrt (<) (map ob_timestamp bars)"
    "0 \<le> bc_max_open_positions c"
  shows "bars \<noteq> []" "list_all (ended_ok signals bars) (br_trades r)"
    "map ep_timestamp (br_equity_curve r) = map ob_timestamp bars"
    "list_all (\<lambda>p. int (ep_open_positions p) \<le> bc_max_open_positions c) (br_equity_curve r)"
    "calculate_metrics fpow c (br_trades r) (br_equity_curve r) (ob_timestamp (hd bars))
       (ob_timestamp (last bars)) (bc_initial_capital c) (length bars) = Inr (br_metrics r)"
proof -
  let ?m = "mark_funding_bars bars"
  show ne: "bars \<noteq> []" using assms(1) by (auto simp: backtest_run_def)
  then have m: "?m \<noteq> []" "ob_timestamp (hd ?m) = ob_timestamp (hd bars)"
    "ob_timestamp (last ?m) = ob_timestamp (last bars)" "length ?m = length bars"
    by (simp_all add: mark_funding_bars_def hd_map last_map)
  obtain k s1 s2 where s: "run_bars c signals k ?m (bt_start c) = Inr s1" "close_out c (last ?m) s1 = Inr s2"
    "br_trades r = rs_closed s2" "br_equity_curve r = build_equity_curve_with_drawdown (rs_curve s2)"
    "calculate_metrics fpow c (br_trades r) (br_equity_curve r) (ob_timestamp (hd ?m))
       (ob_timestamp (last ?m)) (bc_initial_capital c) (length ?m) = Inr (br_metrics r)"
    using assms(1) ne by (auto simp: backtest_run_def Let_def ebind_Inr_iff)
  have "bt_ok c signals ([] @ ?m) s1"
    using s(1) bt_start_ok [OF assms(3)] by (rule run_bars_ok) (use assms(2) in simp)
  from close_out_ok [OF s(2) this [simplified] m(1)] assms(2)
  have ok: "list_all (ended_ok signals ?m) (rs_closed s2)"
    "map ep_timestamp (rs_curve s2) = map ob_timestamp bars"
    "list_all (\<lambda>p. int (ep_open_positions p) \<le> bc_max_open_positions c) (rs_curve s2)" by simp_all
  show "list_all (ended_ok signals bars) (br_trades r)"
    using ok(1) ended_ok_marked unfolding s(3) by (rule list_all_mono')
  show "map ep_timestamp (br_equity_curve r) = map ob_timestamp bars" unfolding s(4) curve_same ok(2) ..
  have "list_all (\<lambda>n. int n \<le> bc_max_open_positions c) (map ep_open_positions (br_equity_curve r))"
    using ok(3) unfolding s(4) curve_same by (simp add: list_all_iff)
  then show "list_all (\<lambda>p. int (ep_open_positions p) \<le> bc_max_open_positions c) (br_equity_curve r)"
    by (simp add: list_all_iff)
  show "calculate_metrics fpow c (br_trades r) (br_equity_curve r) (ob_timestamp (hd bars))
       (ob_timestamp (last bars)) (bc_initial_capital c) (length bars) = Inr (br_metrics r)"
    using s(5) m by simp
qed


section \<open>What a backtest promises\<close>

definition bt_sample_bar :: "int \<Rightarrow> rat \<Rightarrow> rat \<Rightarrow> rat \<Rightarrow> rat \<Rightarrow> ohlcv_bar" where
  "bt_sample_bar t o1 h l c1 =
     \<lparr>ob_timestamp = t, ob_open = o1, ob_high = h, ob_low = l, ob_close = c1, ob_volume = 1000,
      ob_funding_rate = 0, ob_is_funding_bar = False\<rparr>"

text \<open>A day of three bars: the signal comes with the first, the target is touched in the third.\<close>

definition bt_sample_bars :: "ohlcv_bar list" where
  "bt_sample_bars =
     [bt_sample_bar hour_us 100 101 99 100, bt_sample_bar (2 * hour_us) 100 105 98 104,
      bt_sample_bar (3 * hour_us) 104 120 103 118]"

definition bt_sample_signals :: "backtest_signal list" where
  "bt_sample_signals =
     [\<lparr>bs_timestamp = hour_us, bs_symbol = ''BTCUSDT'', bs_direction = LONG, bs_confidence = 1,
       bs_entry_price = 100, bs_take_profit = Some 110, bs_stop_loss = 90, bs_leverage = 5,
       bs_rr_ratio = 1, bs_signal_id = ''s''\<rparr>]"

definition bt_sample_config :: backtest_config where
  "bt_sample_config = default_backtest\<lparr>bc_taker_fee_rate := 0, bc_slippage_rate := 0\<rparr>"

definition bt_sample_run :: "backtest_result result" where
  "bt_sample_run = backtest_run (\<lambda>x y. 1) bt_sample_config bt_sample_signals bt_sample_bars (Some 100)"

lemmas bt_eval =
  bt_sample_config_def default_backtest_def bt_fee_def bt_fee_rate_def apply_entry_def apply_exit_def
  slipped_def slippage_rate_for_def net_pnl_from_prices_def round_quantity_def get_or_def LOT_SIZES_def
  enter_distance_def has_room_def cents2_def quantize_def pw_def rhe_def rdown_def ddivE_def
  dec_sum_def dec_eval

lemma bt_sample_marked: "mark_funding_bars bt_sample_bars = bt_sample_bars"
  by (simp add: mark_funding_bars_def bt_sample_bars_def bt_sample_bar_def hour_of_def hour_us_def)

abbreviation "sample_bar1 \<equiv> bt_sample_bar hour_us 100 101 99 100"
abbreviation "sample_bar2 \<equiv> bt_sample_bar (2 * hour_us) 100 105 98 104"
abbreviation "sample_bar3 \<equiv> bt_sample_bar (3 * hour_us) 104 120 103 118"

definition bt_sample_trade :: backtest_trade where
  "bt_sample_trade =
     \<lparr>bt_signal_id = ''s'', bt_symbol = ''BTCUSDT'', bt_direction = LONG, bt_entry_time = 2 * hour_us,
      bt_signal_entry_price = 100, bt_actual_entry_price = 100, bt_quantity = 10, bt_leverage = 5,
      bt_margin_used = 200, bt_take_profit = Some 110, bt_stop_loss = 90, bt_exit_time = None,
      bt_actual_exit_price = None, bt_exit_reason = None, bt_entry_fee = 0, bt_exit_fee = 0,
      bt_funding_fees = 0, bt_slippage_cost = 0, bt_gross_pnl = None, bt_net_pnl = None,
      bt_pnl_pct = None\<rparr>"

text \<open>The pieces of the sample, evaluated one by one.\<close>

lemma bt_sample_pieces [simp]:
  "apply_entry bt_sample_config LONG 100 1 (Some 1000) = (100, 0)"
  "apply_entry bt_sample_config LONG 100 10 (Some 1000) = (100, 0)"
  "apply_exit bt_sample_config LONG 110 10 (Some 1000) = (110, 0)"
  "round_quantity 10 ''BTCUSDT'' = 10" "enter_distance 100 90 = 10"
  "bt_fee bt_sample_config 10 100 = Inr 0" "bt_fee bt_sample_config 10 110 = Inr 0"
  "bc_entry_on_next_open bt_sample_config" "bc_max_open_positions bt_sample_config = 1"
  "bc_initial_capital bt_sample_config = 10000" "ddivE 100 10 = Inr 10" "ddivE 1000 5 = Inr 200"
  "net_pnl_from_prices LONG 10 100 110 = 100" "net_pnl_from_prices LONG 10 100 104 = 40"
  "cents2 10000 = Inr 10000" "cents2 10040 = Inr 10040" "cents2 10100 = Inr 10100"
  "cents2 9800 = Inr 9800" "cents2 40 = Inr 40" "cents2 0 = Inr 0" "cents2 100 = Inr 100"
  "quantize rhe 2 100 = Inr 100" "quantize rhe 2 200 = Inr 200" "quantize rhe 8 0 = Inr 0"
  by (simp_all add: bt_eval Let_def)

lemma bt_sample_entry: "bt_enter bt_sample_config (hd bt_sample_signals) sample_bar2 100 = Inr bt_sample_trade"
  by (simp add: bt_enter_def bt_sample_signals_def bt_sample_bar_def bt_sample_trade_def Let_def dec_eval)

lemma bt_sample_exit:
  "bt_check_exit bt_sample_config bt_sample_trade sample_bar2 False = Inr None"
  "\<exists>x. bt_check_exit bt_sample_config bt_sample_trade sample_bar3 False = Inr (Some x) \<and>
     bt_margin_used x = 200 \<and> bt_net_pnl x = Some 100 \<and> bt_entry_fee x = 0 \<and> bt_exit_fee x = 0 \<and>
     bt_slippage_cost x = 0 \<and> bt_funding_fees x = 0"
  by (simp_all add: bt_check_exit_def find_exit_def tp_hit_def sl_hit_def close_trade_def
      bt_sample_bar_def bt_sample_trade_def Let_def dec_eval)


text \<open>The three bars, one step each.\<close>

definition bt_sample_point :: "int \<Rightarrow> rat \<Rightarrow> rat \<Rightarrow> rat \<Rightarrow> nat \<Rightarrow> equity_point" where
  "bt_sample_point t equity cash unrealized n =
     \<lparr>ep_timestamp = t, ep_equity = equity, ep_cash = cash, ep_unrealized_pnl = unrealized,
      ep_open_positions = n, ep_peak_equity = 0, ep_drawdown_pct = 0\<rparr>"

lemmas bt_step_defs =
  bar_step_def enter_pending_def accrue_step_def exit_step_def signal_step_def equity_step_def
  calc_unrealized_pnl_def has_room_def bt_sample_point_def dec_sum_def Let_def

lemma bt_sample_index:
  "build_signal_index bt_sample_signals hour_us = [hd bt_sample_signals]"
  "build_signal_index bt_sample_signals (2 * hour_us) = []"
  "build_signal_index bt_sample_signals (3 * hour_us) = []"
  by (simp_all add: build_signal_index_def bt_sample_signals_def hour_us_def)

lemma bt_sample_step1:
  "bar_step bt_sample_config bt_sample_signals 100 sample_bar1 (bt_start bt_sample_config) =
     Inr \<lparr>rs_cash = 10000, rs_open = [], rs_closed = [],
          rs_curve = [bt_sample_point hour_us 10000 10000 0 0], rs_pending = Some (hd bt_sample_signals)\<rparr>"
  by (simp add: bt_step_defs bt_start_def bt_sample_bar_def bt_sample_index dec_eval)

lemma bt_sample_step2:
  "bar_step bt_sample_config bt_sample_signals 100 sample_bar2
     \<lparr>rs_cash = 10000, rs_open = [], rs_closed = [], rs_curve = ps, rs_pending = Some (hd bt_sample_signals)\<rparr> =
     Inr \<lparr>rs_cash = 9800, rs_open = [bt_sample_trade], rs_closed = [],
          rs_curve = ps @ [bt_sample_point (2 * hour_us) 10040 9800 40 1], rs_pending = None\<rparr>"
proof -
  have t: "bt_margin_used bt_sample_trade = 200" "bt_entry_fee bt_sample_trade = 0"
    "bt_direction bt_sample_trade = LONG" "bt_quantity bt_sample_trade = 10"
    "bt_actual_entry_price bt_sample_trade = 100"
    by (simp_all add: bt_sample_trade_def)
  have b: "ob_is_funding_bar sample_bar2 = False" "ob_timestamp sample_bar2 = 2 * hour_us" "ob_close sample_bar2 = 104"
    by (simp_all add: bt_sample_bar_def)
  show ?thesis
    by (simp add: bt_step_defs bt_sample_index bt_sample_entry bt_sample_exit(1) t b dec_eval)
qed

lemma bt_sample_step3:
  "\<exists>x. bar_step bt_sample_config bt_sample_signals 100 sample_bar3
     \<lparr>rs_cash = 9800, rs_open = [bt_sample_trade], rs_closed = [], rs_curve = ps, rs_pending = None\<rparr> =
     Inr \<lparr>rs_cash = 10100, rs_open = [], rs_closed = [x],
          rs_curve = ps @ [bt_sample_point (3 * hour_us) 10100 10100 0 0], rs_pending = None\<rparr> \<and>
     bt_net_pnl x = Some 100 \<and> bt_entry_fee x = 0 \<and> bt_exit_fee x = 0 \<and> bt_slippage_cost x = 0 \<and>
     bt_funding_fees x = 0"
proof -
  obtain x where x: "bt_check_exit bt_sample_config bt_sample_trade sample_bar3 False = Inr (Some x)"
    "bt_margin_used x = 200" "bt_net_pnl x = Some 100" "bt_entry_fee x = 0" "bt_exit_fee x = 0"
    "bt_slippage_cost x = 0" "bt_funding_fees x = 0" using bt_sample_exit(2) by blast
  have b: "ob_is_funding_bar sample_bar3 = False" "ob_timestamp sample_bar3 = 3 * hour_us"
    by (simp_all add: bt_sample_bar_def)
  show ?thesis
    by (intro exI [of _ x]) (simp add: bt_step_defs bt_sample_index x b dec_eval)
qed

lemma bt_sample_metrics:
  assumes "curve \<noteq> []" "ep_equity (last curve) = 10100" "bt_net_pnl x = Some 100" "bt_entry_fee x = 0"
    "bt_exit_fee x = 0" "bt_slippage_cost x = 0" "bt_funding_fees x = 0"
  shows "\<exists>m. calculate_metrics f bt_sample_config [x] curve a b 10000 n = Inr m"
  using assms(1)
  by (simp add: calculate_metrics_def net_pnls_def map_filter_simps assms(2-) dec_average_def first_max_def
      first_min_def dec_sum_def Let_def dec_eval)

definition bt_sample_curve :: "equity_point list" where
  "bt_sample_curve =
     [bt_sample_point hour_us 10000 10000 0 0, bt_sample_point (2 * hour_us) 10040 9800 40 1,
      bt_sample_point (3 * hour_us) 10100 10100 0 0]"

lemma bt_sample_curve_end:
  "build_equity_curve_with_drawdown bt_sample_curve \<noteq> []"
  "ep_equity (last (build_equity_curve_with_drawdown bt_sample_curve)) = 10100"
  by (simp_all add: bt_sample_curve_def build_equity_curve_with_drawdown_def Let_def bt_sample_point_def)

lemma bt_sample_ok: "\<exists>r x. bt_sample_run = Inr r \<and> br_trades r = [x] \<and> bt_net_pnl x = Some 100"
proof -
  obtain x where x: "run_bars bt_sample_config bt_sample_signals 100 bt_sample_bars (bt_start bt_sample_config) =
     Inr \<lparr>rs_cash = 10100, rs_open = [], rs_closed = [x], rs_curve = bt_sample_curve, rs_pending = None\<rparr>"
     "bt_net_pnl x = Some 100" "bt_entry_fee x = 0" "bt_exit_fee x = 0" "bt_slippage_cost x = 0"
     "bt_funding_fees x = 0"
    using bt_sample_step3 [of "[bt_sample_point hour_us 10000 10000 0 0, bt_sample_point (2 * hour_us) 10040 9800 40 1]"]
    by (auto simp: bt_sample_bars_def bt_sample_curve_def bt_sample_step1 bt_sample_step2)
  note m = bt_sample_metrics [OF bt_sample_curve_end x(2-)]
  show ?thesis
    using x(1,2) m [of "\<lambda>x y. 1" "ob_timestamp (hd bt_sample_bars)" "ob_timestamp (last bt_sample_bars)" "length bt_sample_bars"]
    by (auto simp: bt_sample_run_def backtest_run_def bt_sample_marked close_out_def Let_def)
      (simp add: bt_sample_bars_def)
qed

text \<open>
  C26. A backtest does not look ahead: over bars in strictly increasing time, every trade of the
  result comes from a signal of the list with its direction, was entered at a bar after the bar of
  the signal and left at that bar or a later one, with a positive quantity; it ended at its target
  or stop only where the bar's range touched that level, and otherwise at the end of the data.
\<close>

theorem backtest_no_lookahead:
  assumes "backtest_run fpow c signals bars risk = Inr r" "sorted_wrt (<) (map ob_timestamp bars)"
    "0 \<le> bc_max_open_positions c" "t \<in> set (br_trades r)"
  shows "0 < bt_quantity t \<and>
    (\<exists>sig\<in>set signals. bt_signal_id t = bs_signal_id sig \<and> bt_direction t = bs_direction sig \<and>
       bs_timestamp sig \<in> set (map ob_timestamp bars) \<and> bs_timestamp sig < bt_entry_time t) \<and>
    (\<exists>bar\<in>set bars. bt_exit_time t = Some (ob_timestamp bar) \<and> bt_entry_time t \<le> ob_timestamp bar \<and>
       exit_justified t bar)"
proof -
  have "ended_ok signals bars t"
    using backtest_run_parts(2) [OF assms(1-3)] assms(4) by (simp add: list_all_iff)
  then show ?thesis by (auto simp: ended_ok_def from_signal_def)
qed

lemma bt_sample_sorted: "sorted_wrt (<) (map ob_timestamp bt_sample_bars)" "0 \<le> bc_max_open_positions bt_sample_config"
  by (simp_all add: bt_sample_bars_def bt_sample_bar_def hour_us_def)

theorem backtest_no_lookahead_witness:
  "\<exists>r t. bt_sample_run = Inr r \<and> t \<in> set (br_trades r) \<and> hour_us < bt_entry_time t \<and> bt_signal_id t = ''s''"
proof -
  obtain r x where r: "bt_sample_run = Inr r" "br_trades r = [x]" using bt_sample_ok by blast
  then have "x \<in> set (br_trades r)" by simp
  from backtest_no_lookahead [OF r(1) [unfolded bt_sample_run_def] bt_sample_sorted this]
  have "hour_us < bt_entry_time x \<and> bt_signal_id x = ''s''" by (simp add: bt_sample_signals_def)
  then show ?thesis using r by auto
qed


section \<open>The books\<close>

lemma max_drawdown_nonpos: "m \<le> 0 \<Longrightarrow> max_drawdown_from peak m ps \<le> 0"
  by (induction peak m ps rule: max_drawdown_from.induct) (auto simp: Let_def)

lemma drawdown_from_nonpos: "list_all (\<lambda>p. ep_drawdown_pct p \<le> 0) (drawdown_from peak ps)"
proof (induction ps arbitrary: peak)
  case (Cons p ps)
  define v k where "v = f64 (ep_equity p)" and "k = (if peak < v then v else peak)"
  have "fmul (fdiv (fsub v k) k) 100 \<le> 0" if "0 < k"
  proof -
    have "v - k \<le> 0" by (simp add: k_def)
    then have "fsub v k \<le> 0" by (simp add: fsub_def)
    then have "fdiv (fsub v k) k \<le> 0" using that by (simp add: fdiv_def divide_nonpos_pos)
    then show ?thesis by (simp add: fmul_def)
  qed
  then show ?case using Cons [of k] by (simp add: Let_def v_def [symmetric] k_def [symmetric])
qed simp

lemma split_winners: "length (filter (\<lambda>p. 0 < p) xs) + length (filter (\<lambda>p. p \<le> 0) xs) = length (xs :: rat list)"
  using sum_length_filter_compl [of "\<lambda>p. 0 < p" xs] by (simp add: not_less)

lemma win_rate_range: "0 \<le> calc_win_rate ts" "calc_win_rate ts \<le> 1"
proof -
  let ?n = "net_pnls ts"
  have "fdiv (of_nat (length (filter (\<lambda>p. 0 < p) ?n))) (of_nat (length ?n)) \<le> 1" if "?n \<noteq> []"
    unfolding fdiv_def using that by (intro f64_le_of_le) (simp_all add: is_f64_def divide_le_eq)
  moreover have "0 \<le> fdiv (of_nat (length (filter (\<lambda>p. 0 < p) ?n))) (of_nat (length ?n))"
    by (simp add: fdiv_def f64_nonneg)
  ultimately show "0 \<le> calc_win_rate ts" "calc_win_rate ts \<le> 1" by (simp_all add: calc_win_rate_def Let_def)
qed

lemma net_pnls_length: "list_all (\<lambda>t. bt_net_pnl t \<noteq> None) ts \<Longrightarrow> length (net_pnls ts) = length ts"
  by (induction ts) (auto simp: net_pnls_def map_filter_simps)

lemma metrics_fields:
  assumes "calculate_metrics fpow c ts curve a b k n = Inr m" "list_all (\<lambda>t. bt_net_pnl t \<noteq> None) ts" "curve \<noteq> []"
  shows "bm_total_trades m = length ts"
    "bm_winning_trades m = length (filter (\<lambda>p. 0 < p) (net_pnls ts))"
    "bm_losing_trades m = length (filter (\<lambda>p. p \<le> 0) (net_pnls ts))"
    "bm_win_rate m = calc_win_rate ts" "bm_max_drawdown m = calc_max_drawdown curve"
    "cents2 (ep_equity (last curve)) = Inr (bm_final_equity m)"
proof -
  have all: "filter (\<lambda>t. bt_net_pnl t \<noteq> None) ts = ts" using assms(2) by (simp add: filter_id_conv list_all_iff)
  show "bm_total_trades m = length ts"
    "bm_winning_trades m = length (filter (\<lambda>p. 0 < p) (net_pnls ts))"
    "bm_losing_trades m = length (filter (\<lambda>p. p \<le> 0) (net_pnls ts))"
    "bm_win_rate m = calc_win_rate ts" "bm_max_drawdown m = calc_max_drawdown curve"
    "cents2 (ep_equity (last curve)) = Inr (bm_final_equity m)"
    using assms(1,3) unfolding calculate_metrics_def all Let_def by (auto simp: ebind_Inr_iff)
qed

text \<open>
  C27. The books of a backtest are complete: over bars in strictly increasing time the equity curve
  has one point per bar, never more open trades than the configured maximum, and no positive
  drawdown; the figures count every trade of the result once, as a winner or a loser, the win
  rate is between 0 and 1, the largest drawdown is not positive, and the final equity is the last
  point's, in cents.
\<close>

theorem backtest_books:
  assumes "backtest_run fpow c signals bars risk = Inr r" "sorted_wrt (<) (map ob_timestamp bars)"
    "0 \<le> bc_max_open_positions c"
  shows "map ep_timestamp (br_equity_curve r) = map ob_timestamp bars \<and>
    list_all (\<lambda>p. int (ep_open_positions p) \<le> bc_max_open_positions c \<and> ep_drawdown_pct p \<le> 0) (br_equity_curve r) \<and>
    bm_total_trades (br_metrics r) = length (br_trades r) \<and>
    bm_winning_trades (br_metrics r) + bm_losing_trades (br_metrics r) = length (br_trades r) \<and>
    0 \<le> bm_win_rate (br_metrics r) \<and> bm_win_rate (br_metrics r) \<le> 1 \<and> bm_max_drawdown (br_metrics r) \<le> 0 \<and>
    cents2 (ep_equity (last (br_equity_curve r))) = Inr (bm_final_equity (br_metrics r))"
proof -
  note p = backtest_run_parts [OF assms]
  have net: "list_all (\<lambda>t. bt_net_pnl t \<noteq> None) (br_trades r)"
    using p(2) by (auto simp: list_all_iff ended_ok_def)
  have ne: "br_equity_curve r \<noteq> []" using p(1,3) by (metis map_is_Nil_conv)
  obtain ps where "br_equity_curve r = build_equity_curve_with_drawdown ps"
    using assms(1) by (auto simp: backtest_run_def Let_def ebind_Inr_iff split: if_splits)
  then have dd: "list_all (\<lambda>p. ep_drawdown_pct p \<le> 0) (br_equity_curve r)"
    by (simp add: build_equity_curve_with_drawdown_def drawdown_from_nonpos del: drawdown_from.simps split: list.split)
  have mdd: "calc_max_drawdown cs \<le> 0" for cs
    by (simp add: calc_max_drawdown_def max_drawdown_nonpos del: max_drawdown_from.simps split: list.split)
  note m = metrics_fields [OF p(5) net ne]
  from m show ?thesis
    using p(3,4) dd win_rate_range mdd split_winners [of "net_pnls (br_trades r)"] net_pnls_length [OF net]
    by (simp add: list_all_iff)
qed

theorem backtest_books_witness:
  "\<exists>r. bt_sample_run = Inr r \<and> map ep_timestamp (br_equity_curve r) = map ob_timestamp bt_sample_bars \<and>
     bm_total_trades (br_metrics r) = 1"
proof -
  obtain r x where r: "bt_sample_run = Inr r" "br_trades r = [x]" using bt_sample_ok by blast
  from backtest_books [OF r(1) [unfolded bt_sample_run_def] bt_sample_sorted]
  have "map ep_timestamp (br_equity_curve r) = map ob_timestamp bt_sample_bars \<and> bm_total_trades (br_metrics r) = 1"
    using r(2) by simp
  then show ?thesis using r(1) by blast
qed

text \<open>
  A trade pays its slippage twice and its entry fee once more than it should: the gross result
  already uses the slipped prices, and the cash was reduced by the entry fee before. Ten coins
  bought and sold at the price 100 with slippage of 1 percent lose 20 by the prices, and the
  result says 40.
\<close>

lemma slippage_counted_twice:
  "\<exists>x. close_trade (default_backtest\<lparr>bc_taker_fee_rate := 0, bc_slippage_rate := f64 0.01\<rparr>)
     (bt_sample_trade\<lparr>bt_actual_entry_price := 101, bt_slippage_cost := 10\<rparr>) sample_bar2 100 ExitTimeout = Inr x \<and>
     bt_gross_pnl x = Some (- 20) \<and> bt_net_pnl x = Some (- 40)"
  by (simp add: close_trade_def bt_sample_trade_def bt_sample_bar_def default_backtest_def apply_exit_def
      slipped_def slippage_rate_for_def repr10_fractions repr10_literals bt_fee_def bt_fee_rate_def
      net_pnl_from_prices_def quantize_def pw_def rhe_def Let_def dec_eval)

end
