(* ===== verification/Portfolio.thy ===== *)
theory Portfolio
  imports RiskModels PyStat
begin

text \<open>
  \<open>agents/portfolio/{models,calculator,correlation,scorer,engine}.py\<close>: exposures, the correlation of
  the two coins and the risk score of a portfolio. Amounts are Decimals, ratios and scores floats.
  A reason text is a constructor with the values it prints. The power of a float is a parameter
  \<open>fpow\<close> (the platform's C library).
\<close>

section \<open>Constants and data\<close>

definition ACCOUNT_EMERGENCY_THRESHOLD :: rat where "ACCOUNT_EMERGENCY_THRESHOLD = f64 0.1"
definition MAX_SINGLE_COIN_PORTFOLIO_RATIO :: rat where "MAX_SINGLE_COIN_PORTFOLIO_RATIO = f64 0.5"
definition PORTFOLIO_RISK_WARNING_PCT :: rat where "PORTFOLIO_RISK_WARNING_PCT = f64 0.8"
definition CONCENTRATION_WARNING_PCT :: rat where "CONCENTRATION_WARNING_PCT = f64 0.8"
definition BTC_ETH_CORRELATION :: rat where "BTC_ETH_CORRELATION = f64 0.85"
definition SCORE_WEIGHT_PORTFOLIO_RISK :: rat where "SCORE_WEIGHT_PORTFOLIO_RISK = f64 0.4"
definition SCORE_WEIGHT_CONCENTRATION :: rat where "SCORE_WEIGHT_CONCENTRATION = f64 0.25"
definition SCORE_WEIGHT_CORRELATION :: rat where "SCORE_WEIGHT_CORRELATION = f64 0.2"
definition SCORE_WEIGHT_LEVERAGE :: rat where "SCORE_WEIGHT_LEVERAGE = f64 0.15"

datatype score_level = Safe | Moderate | Elevated | Critical

definition SCORE_LEVELS :: "(rat \<times> score_level) list" where
  "SCORE_LEVELS = [(f64 0.3, Safe), (f64 0.5, Moderate), (f64 0.75, Elevated), (f64 1.01, Critical)]"

record portfolio_position =
  qp_id :: string
  qp_coin :: string
  qp_symbol :: string
  qp_direction :: direction
  qp_entry_price :: rat
  qp_current_price :: rat
  qp_stop_loss :: rat
  qp_quantity :: rat
  qp_leverage :: int
  qp_margin_used :: rat
  qp_unrealized_pnl :: rat

definition qp_notional_value :: "portfolio_position \<Rightarrow> rat" where
  "qp_notional_value p = dmul (qp_quantity p) (qp_current_price p)"

definition qp_risk_usdt :: "portfolio_position \<Rightarrow> rat" where
  "qp_risk_usdt p =
     (if qp_direction p = LONG
      then max 0 (dmul (dsub (qp_entry_price p) (qp_stop_loss p)) (qp_quantity p))
      else max 0 (dmul (dsub (qp_stop_loss p) (qp_entry_price p)) (qp_quantity p)))"

record account_context =
  qa_available_balance :: rat
  qa_initial_balance :: rat
  qa_risk_profile :: string

definition portfolio_risk_limit :: "account_context \<Rightarrow> rat" where
  "portfolio_risk_limit a =
     (if qa_risk_profile a = ''aggressive'' then repr10 MAX_PORTFOLIO_RISK_AGGRESSIVE
      else repr10 MAX_PORTFOLIO_RISK)"

definition max_risk_usdt :: "account_context \<Rightarrow> rat" where
  "max_risk_usdt a = dmul (qa_available_balance a) (portfolio_risk_limit a)"

record symbol_exposure =
  xe_coin :: string
  xe_symbol :: string
  xe_direction :: direction
  xe_notional_value :: rat
  xe_margin_used :: rat
  xe_unrealized_pnl :: rat
  xe_risk_usdt :: rat
  xe_portfolio_weight :: rat

record portfolio_snapshot =
  qs_available_balance :: rat
  qs_total_balance :: rat
  qs_total_notional :: rat
  qs_total_margin_used :: rat
  qs_margin_utilization :: rat
  qs_total_risk_usdt :: rat
  qs_total_risk_pct :: rat
  qs_coin_concentrations :: "(string, rat) pydict"
  qs_max_concentration_coin :: string
  qs_max_concentration_pct :: rat
  qs_position_count :: nat
  qs_symbol_exposures :: "symbol_exposure list"
  qs_is_emergency :: bool

record correlation_risk =
  cr_raw_risk_usdt :: rat
  cr_adjusted_risk_usdt :: rat
  cr_adjustment_factor :: rat
  cr_correlation_coefficient :: rat
  cr_pairs :: "(direction \<times> direction \<times> direction \<times> direction \<times> rat) list"

record risk_score_components =
  rc_portfolio_risk_ratio :: rat
  rc_concentration_ratio :: rat
  rc_correlation_penalty :: rat
  rc_leverage_ratio :: rat

datatype portfolio_reason =
    PortfolioOk | EmergencyBalance rat | PortfolioRiskOver rat rat | PortfolioRiskWarning rat
  | ConcentrationOver string rat | ConcentrationWarning string rat
  | NoBalance | MarginOver string rat

record portfolio_risk_score =
  qr_score :: rat
  qr_level :: score_level
  qr_components :: risk_score_components
  qr_breaches :: "portfolio_reason list"
  qr_warnings :: "portfolio_reason list"
  qr_can_add_position :: bool
  qr_max_additional_risk_usdt :: rat

section \<open>Snapshot\<close>

definition is_emergency :: "account_context \<Rightarrow> bool" where
  "is_emergency a \<longleftrightarrow> qa_available_balance a < dmul (qa_initial_balance a) (repr10 ACCOUNT_EMERGENCY_THRESHOLD)"

definition build_symbol_exposures :: "portfolio_position list \<Rightarrow> symbol_exposure list" where
  "build_symbol_exposures ps =
     (let total_notional = dec_sum (map qp_notional_value ps)
      in map (\<lambda>p. \<lparr>xe_coin = qp_coin p, xe_symbol = qp_symbol p, xe_direction = qp_direction p,
                   xe_notional_value = qp_notional_value p, xe_margin_used = qp_margin_used p,
                   xe_unrealized_pnl = qp_unrealized_pnl p, xe_risk_usdt = qp_risk_usdt p,
                   xe_portfolio_weight = fround 6 (if 0 < total_notional
                     then f64 (ddiv (qp_notional_value p) total_notional) else 0)\<rparr>) ps)"

fun coin_notionals :: "symbol_exposure list \<Rightarrow> (string, rat) pydict \<Rightarrow> (string, rat) pydict" where
  "coin_notionals [] d = d"
| "coin_notionals (e # es) d =
     coin_notionals es (AList.update (xe_coin e)
       (dadd (case map_of d (xe_coin e) of Some n \<Rightarrow> n | None \<Rightarrow> 0) (xe_notional_value e)) d)"

definition calc_coin_concentrations :: "symbol_exposure list \<Rightarrow> rat \<Rightarrow> (string, rat) pydict" where
  "calc_coin_concentrations es total_notional =
     (if total_notional \<le> 0 then []
      else map (\<lambda>(coin, n). (coin, fround 6 (f64 (ddiv n total_notional)))) (coin_notionals es []))"

text \<open>\<open>max(d, key=lambda c: d[c], default="")\<close>: the first key with the largest value.\<close>

fun max_entry :: "string \<times> rat \<Rightarrow> (string, rat) pydict \<Rightarrow> string \<times> rat" where
  "max_entry best [] = best"
| "max_entry best (kv # d) = max_entry (if snd best < snd kv then kv else best) d"

definition max_concentration :: "(string, rat) pydict \<Rightarrow> string \<times> rat" where
  "max_concentration d = (case d of [] \<Rightarrow> ([], 0) | kv # d \<Rightarrow> max_entry kv d)"

definition empty_snapshot :: "account_context \<Rightarrow> portfolio_snapshot" where
  "empty_snapshot a =
     \<lparr>qs_available_balance = qa_available_balance a, qs_total_balance = qa_available_balance a,
      qs_total_notional = 0, qs_total_margin_used = 0, qs_margin_utilization = 0,
      qs_total_risk_usdt = 0, qs_total_risk_pct = 0, qs_coin_concentrations = [],
      qs_max_concentration_coin = [], qs_max_concentration_pct = 0, qs_position_count = 0,
      qs_symbol_exposures = [], qs_is_emergency = is_emergency a\<rparr>"

definition build_snapshot :: "portfolio_position list \<Rightarrow> account_context \<Rightarrow> portfolio_snapshot" where
  "build_snapshot ps a =
     (if ps = [] then empty_snapshot a
      else
        let exposures = build_symbol_exposures ps;
            total_notional = dec_sum (map xe_notional_value exposures);
            total_margin = dec_sum (map qp_margin_used ps);
            total_risk = dec_sum (map qp_risk_usdt ps);
            total_unrealized = dec_sum (map qp_unrealized_pnl ps);
            concentrations = calc_coin_concentrations exposures total_notional;
            (max_coin, max_pct) = max_concentration concentrations;
            available = qa_available_balance a;
            share = (\<lambda>x. if 0 < available then f64 (ddiv x available) else 0)
        in \<lparr>qs_available_balance = available, qs_total_balance = dadd available total_unrealized,
            qs_total_notional = total_notional, qs_total_margin_used = total_margin,
            qs_margin_utilization = fround 6 (share total_margin),
            qs_total_risk_usdt = total_risk, qs_total_risk_pct = fround 6 (share total_risk),
            qs_coin_concentrations = concentrations, qs_max_concentration_coin = max_coin,
            qs_max_concentration_pct = fround 6 max_pct, qs_position_count = length ps,
            qs_symbol_exposures = exposures, qs_is_emergency = is_emergency a\<rparr>)"

definition check_concentration :: "portfolio_snapshot \<Rightarrow> bool \<times> portfolio_reason" where
  "check_concentration s =
     (case find (\<lambda>(coin, pct). MAX_SINGLE_COIN_PORTFOLIO_RATIO < pct) (qs_coin_concentrations s) of
        Some (coin, pct) \<Rightarrow> (False, ConcentrationOver coin pct)
      | None \<Rightarrow> (True, PortfolioOk))"

definition check_single_position_margin ::
    "portfolio_position \<Rightarrow> account_context \<Rightarrow> bool \<times> portfolio_reason" where
  "check_single_position_margin p a =
     (if qa_available_balance a \<le> 0 then (False, NoBalance)
      else
        let limit = repr10 MAX_SINGLE_POSITION_MARGIN_RATIO;
            ratio = ddiv (qp_margin_used p) (qa_available_balance a)
        in if limit < ratio then (False, MarginOver (qp_symbol p) ratio) else (True, PortfolioOk))"

section \<open>Correlation\<close>

definition calc_2asset_risk :: "(rat \<Rightarrow> rat \<Rightarrow> rat) \<Rightarrow> rat \<Rightarrow> rat \<Rightarrow> rat \<Rightarrow> rat" where
  "calc_2asset_risk fpow r1 r2 rho =
     (let variance = fadd (fadd (fpow r1 2) (fpow r2 2)) (fmul (fmul (fmul 2 rho) r1) r2)
      in fsqrt (max variance 0))"

definition calculate_correlation_risk ::
    "(rat \<Rightarrow> rat \<Rightarrow> rat) \<Rightarrow> portfolio_position list \<Rightarrow> rat \<Rightarrow> correlation_risk" where
  "calculate_correlation_risk fpow ps corr =
     (let plain = (\<lambda>risk. \<lparr>cr_raw_risk_usdt = risk, cr_adjusted_risk_usdt = risk,
            cr_adjustment_factor = 1, cr_correlation_coefficient = corr, cr_pairs = []\<rparr>);
          raw_risk = dec_sum (map qp_risk_usdt ps);
          btc = filter (\<lambda>p. qp_coin p = ''BTC'') ps;
          eth = filter (\<lambda>p. qp_coin p = ''ETH'') ps
      in if ps = [] then plain 0
         else (case (btc, eth) of
           (b # _, e # _) \<Rightarrow>
             let rho = (if qp_direction b = qp_direction e then corr else - corr);
                 adjusted = calc_2asset_risk fpow (f64 (dec_sum (map qp_risk_usdt btc)))
                              (f64 (dec_sum (map qp_risk_usdt eth))) rho;
                 raw_float = f64 raw_risk;
                 factor = (if 0 < raw_float then fdiv adjusted raw_float else 1)
             in \<lparr>cr_raw_risk_usdt = raw_risk, cr_adjusted_risk_usdt = repr10 (fround 4 adjusted),
                 cr_adjustment_factor = fround 4 factor, cr_correlation_coefficient = corr,
                 cr_pairs = [(qp_direction b, qp_direction b, qp_direction e, qp_direction e,
                              fround 4 rho)]\<rparr>
         | _ \<Rightarrow> plain raw_risk))"

section \<open>Score\<close>

definition calc_correlation_penalty :: "correlation_risk \<Rightarrow> rat" where
  "calc_correlation_penalty c =
     (case find (\<lambda>(_, dir_a, _, dir_b, rho). dir_a = dir_b \<and> 0 < rho) (cr_pairs c) of
        Some (_, _, _, _, rho) \<Rightarrow> min rho 1 | None \<Rightarrow> 0)"

definition score_to_level :: "rat \<Rightarrow> score_level" where
  "score_to_level score =
     (case find (\<lambda>(threshold, level). score < threshold) SCORE_LEVELS of
        Some (_, level) \<Rightarrow> level | None \<Rightarrow> Critical)"

definition check_rules ::
    "portfolio_snapshot \<Rightarrow> account_context \<Rightarrow> portfolio_reason list \<times> portfolio_reason list" where
  "check_rules s a =
     (let limit = max_risk_usdt a;
          ratio = f64 (ddiv (qs_total_risk_usdt s) limit);
          (b1, w1) = (if 0 < limit
             then (if 1 \<le> ratio then ([PortfolioRiskOver (qs_total_risk_usdt s) limit], [])
                   else if PORTFOLIO_RISK_WARNING_PCT \<le> ratio then ([], [PortfolioRiskWarning ratio])
                   else ([], []))
             else ([], []));
          (ok, reason) = check_concentration s;
          (b2, w2) = (if \<not> ok then ([reason], [])
             else if fmul MAX_SINGLE_COIN_PORTFOLIO_RATIO CONCENTRATION_WARNING_PCT
                       \<le> qs_max_concentration_pct s
             then ([], [ConcentrationWarning (qs_max_concentration_coin s) (qs_max_concentration_pct s)])
             else ([], []));
          b3 = (if qs_is_emergency s then [EmergencyBalance (qs_available_balance s)] else [])
      in (b1 @ b2 @ b3, w1 @ w2))"

definition calc_max_additional_risk :: "portfolio_snapshot \<Rightarrow> account_context \<Rightarrow> rat" where
  "calc_max_additional_risk s a = max (dsub (max_risk_usdt a) (qs_total_risk_usdt s)) 0"

definition calculate_risk_score ::
    "portfolio_snapshot \<Rightarrow> correlation_risk \<Rightarrow> account_context \<Rightarrow> int list \<Rightarrow> portfolio_risk_score" where
  "calculate_risk_score s corr a leverages =
     (let limit = max_risk_usdt a;
          risk_ratio = min (if 0 < limit then f64 (ddiv (qs_total_risk_usdt s) limit) else 0) 1;
          concentration_ratio =
            min (fdiv (qs_max_concentration_pct s) MAX_SINGLE_COIN_PORTFOLIO_RATIO) 1;
          penalty = calc_correlation_penalty corr;
          avg_leverage = (if leverages = [] then 0
            else f64 (of_int (sum_list leverages) / of_nat (length leverages)));
          leverage_ratio = min (fdiv avg_leverage (of_int SYSTEM_MAX_LEVERAGE)) 1;
          score = fadd (fadd (fadd (fmul SCORE_WEIGHT_PORTFOLIO_RISK risk_ratio)
                       (fmul SCORE_WEIGHT_CONCENTRATION concentration_ratio))
                       (fmul SCORE_WEIGHT_CORRELATION penalty))
                       (fmul SCORE_WEIGHT_LEVERAGE leverage_ratio);
          score = fround 4 (min score 1);
          (breaches, warnings) = check_rules s a;
          max_additional = calc_max_additional_risk s a
      in \<lparr>qr_score = score, qr_level = score_to_level score,
          qr_components = \<lparr>rc_portfolio_risk_ratio = fround 4 risk_ratio,
            rc_concentration_ratio = fround 4 concentration_ratio,
            rc_correlation_penalty = fround 4 penalty, rc_leverage_ratio = fround 4 leverage_ratio\<rparr>,
          qr_breaches = breaches, qr_warnings = warnings,
          qr_can_add_position = \<not> qs_is_emergency s \<and> breaches = [] \<and> 0 < max_additional,
          qr_max_additional_risk_usdt = max_additional\<rparr>)"

section \<open>Engine\<close>

definition portfolio_score ::
    "(rat \<Rightarrow> rat \<Rightarrow> rat) \<Rightarrow> rat \<Rightarrow> portfolio_position list \<Rightarrow> account_context \<Rightarrow> portfolio_risk_score" where
  "portfolio_score fpow corr ps a =
     calculate_risk_score (build_snapshot ps a) (calculate_correlation_risk fpow ps corr) a
       (map qp_leverage ps)"

definition can_add_position ::
    "portfolio_position list \<Rightarrow> account_context \<Rightarrow> rat \<Rightarrow> bool \<times> portfolio_reason" where
  "can_add_position ps a new_risk =
     (let s = build_snapshot ps a;
          projected = dadd (qs_total_risk_usdt s) new_risk;
          limit = max_risk_usdt a
      in if qs_is_emergency s then (False, EmergencyBalance (qs_available_balance s))
         else if limit < projected then (False, PortfolioRiskOver projected limit)
         else (True, PortfolioOk))"

definition engine_check_concentration ::
    "portfolio_position list \<Rightarrow> account_context \<Rightarrow> bool \<times> portfolio_reason" where
  "engine_check_concentration ps a = check_concentration (build_snapshot ps a)"

end
