(* ===== verification/PortfolioProps.thy ===== *)
theory PortfolioProps
  imports Portfolio
begin

text \<open>
  The score of a portfolio stays in its range, and what it takes for the score to admit another
  position.
\<close>

section \<open>Ranges\<close>

definition position_ok :: "portfolio_position \<Rightarrow> bool" where
  "position_ok p \<longleftrightarrow> 0 < qp_quantity p \<and> 0 < qp_current_price p \<and> 0 \<le> qp_leverage p"

lemma unit_round: "0 \<le> x \<Longrightarrow> x \<le> 1 \<Longrightarrow> 0 \<le> fround k x \<and> fround k x \<le> 1"
  using fround_range [of 0 x 1 k] by simp

lemma qp_risk_nonneg [simp]: "0 \<le> qp_risk_usdt p"
  by (simp add: qp_risk_usdt_def)

lemma total_risk_nonneg: "0 \<le> qs_total_risk_usdt (build_snapshot ps a)"
  by (auto simp: build_snapshot_def empty_snapshot_def Let_def case_prod_beta list_all_iff intro!: dec_sum_nonneg)

lemma fdiv_nonneg: "0 \<le> x \<Longrightarrow> 0 \<le> y \<Longrightarrow> 0 \<le> fdiv x y"
  by (simp add: fdiv_def f64_nonneg)

lemma notional_pos: "position_ok p \<Longrightarrow> 0 < qp_notional_value p"
  by (simp add: position_ok_def qp_notional_value_def dmul_def)

lemma exposure_notionals: "map xe_notional_value (build_symbol_exposures ps) = map qp_notional_value ps"
  "map xe_coin (build_symbol_exposures ps) = map qp_coin ps"
  by (simp_all add: build_symbol_exposures_def Let_def)

lemma coin_notionals_nonneg:
  "list_all (\<lambda>e. 0 \<le> xe_notional_value e) es \<Longrightarrow> list_all (\<lambda>kv. 0 \<le> snd kv) d \<Longrightarrow>
    list_all (\<lambda>kv. 0 \<le> snd kv) (coin_notionals es d)"
proof (induction es d rule: coin_notionals.induct)
  case (2 e es d)
  have "0 \<le> (case map_of d (xe_coin e) of Some n \<Rightarrow> n | None \<Rightarrow> 0)"
    using 2(3) by (force simp: list_all_iff dest: map_of_SomeD split: option.split)
  then have "0 \<le> dadd (case map_of d (xe_coin e) of Some n \<Rightarrow> n | None \<Rightarrow> 0) (xe_notional_value e)"
    using 2(2) by (simp add: dadd_def dec_nonneg)
  moreover have "list_all (\<lambda>kv. 0 \<le> snd kv) (AList.update k v d)" if "0 \<le> v" for k v
    using 2(3) that by (induction d) auto
  ultimately show ?case using 2 by simp
qed simp

lemma max_entry_nonneg: "0 \<le> snd kv \<Longrightarrow> list_all (\<lambda>kv. 0 \<le> snd kv) d \<Longrightarrow> 0 \<le> snd (max_entry kv d)"
  by (induction kv d rule: max_entry.induct) auto

lemma fround_nonneg: "0 \<le> x \<Longrightarrow> 0 \<le> fround k x"
proof -
  assume "0 \<le> x"
  then have "0 \<le> rhe (x * 10 ^ k)" using rhe_mono [of 0 "x * 10 ^ k"] by simp
  then show ?thesis by (simp add: fround_def f64_nonneg)
qed

lemma max_concentration_nonneg:
  assumes "list_all position_ok ps"
  shows "0 \<le> qs_max_concentration_pct (build_snapshot ps a)"
proof -
  define es where "es = build_symbol_exposures ps"
  have "list_all (\<lambda>x. 0 \<le> x) (map xe_notional_value es)"
    using assms notional_pos unfolding es_def exposure_notionals by (auto simp: list_all_iff less_imp_le)
  then have "list_all (\<lambda>e. 0 \<le> xe_notional_value e) es" by (simp add: list_all_iff)
  then have n: "list_all (\<lambda>kv. 0 \<le> snd kv) (coin_notionals es [])" by (intro coin_notionals_nonneg) simp_all
  have "list_all (\<lambda>kv. 0 \<le> snd kv) (calc_coin_concentrations es t)" for t
  proof (cases "t \<le> 0")
    case False
    then have "0 \<le> m \<Longrightarrow> 0 \<le> fround 6 (f64 (ddiv m t))" for m
      by (simp add: fround_nonneg f64_nonneg ddiv_def dec_nonneg)
    then show ?thesis using n False by (simp add: calc_coin_concentrations_def list_all_iff case_prod_beta)
  qed (simp add: calc_coin_concentrations_def)
  moreover have "list_all (\<lambda>kv. 0 \<le> snd kv) d \<Longrightarrow> 0 \<le> snd (max_concentration d)" for d
    by (cases d) (simp_all add: max_concentration_def max_entry_nonneg)
  ultimately have "0 \<le> snd (max_concentration (calc_coin_concentrations es t))" for t by blast
  then show ?thesis
    by (auto simp: build_snapshot_def empty_snapshot_def es_def Let_def case_prod_beta intro: fround_nonneg)
qed

lemma weights: "0 \<le> f64 0.4" "0 \<le> f64 0.25" "0 \<le> f64 0.2" "0 \<le> f64 0.15" "0 \<le> f64 0.5"
  by (simp_all add: f64_nonneg)

section \<open>One coin\<close>

lemma coin_notionals_single:
  assumes "\<forall>e\<in>set es. xe_coin e = k"
  shows "coin_notionals es [(k, n)] = [(k, foldl dadd n (map xe_notional_value es))]"
  using assms by (induction es arbitrary: n) auto

lemma foldl_dadd_pos: "0 < n \<Longrightarrow> list_all (\<lambda>x. 0 < x) xs \<Longrightarrow> 0 < foldl dadd n xs"
  by (induction xs arbitrary: n) (simp_all add: dadd_def)

lemma dec_half: "\<not> 1 \<le> f64 0.5"
proof -
  have "f64 0.5 \<le> f64 (1 / 2)" by (intro f64_mono) simp
  also have "f64 (1 / 2) = 1 / 2" using f64_exact [of 1 "- 1"] by (simp add: pw_def)
  finally show ?thesis by simp
qed

lemma single_coin_breaches:
  assumes "list_all position_ok ps" "ps \<noteq> []" "\<forall>p\<in>set ps. qp_coin p = k"
  shows "\<not> fst (check_concentration (build_snapshot ps a))"
proof -
  define es where "es = build_symbol_exposures ps"
  have ne: "es \<noteq> []" and coins: "\<forall>e\<in>set es. xe_coin e = k"
    using assms(2,3) by (auto simp: es_def build_symbol_exposures_def Let_def)
  then obtain e rest where es: "es = e # rest" by (cases es) auto
  have "list_all (\<lambda>x. 0 < x) (map xe_notional_value es)"
    using assms(1) notional_pos unfolding es_def exposure_notionals by (auto simp: list_all_iff)
  then have pos: "0 < xe_notional_value e" "list_all (\<lambda>x. 0 < x) (map xe_notional_value rest)"
    unfolding es by simp_all
  define t where "t = foldl dadd (dadd 0 (xe_notional_value e)) (map xe_notional_value rest)"
  have t: "dec_sum (map xe_notional_value es) = t" "coin_notionals es [] = [(k, t)]"
    using coins coin_notionals_single [of rest k] by (simp_all add: es dec_sum_def t_def)
  have "0 < t" unfolding t_def using pos by (intro foldl_dadd_pos) (simp_all add: dadd_def)
  then have c: "calc_coin_concentrations es t = [(k, fround 6 1)]"
    by (simp add: calc_coin_concentrations_def t(2) ddiv_def)
  have "qs_coin_concentrations (build_snapshot ps a) = [(k, fround 6 1)]"
    using assms(2) c t(1) by (simp add: build_snapshot_def es_def [symmetric] Let_def case_prod_beta)
  moreover have "fround 6 1 = 1" using fround_range [of 1 1 1 6] by simp
  ultimately show ?thesis using dec_half
    by (simp add: check_concentration_def MAX_SINGLE_COIN_PORTFOLIO_RATIO_def)
qed

section \<open>What the score promises\<close>

lemma score_fields:
  "qr_can_add_position (calculate_risk_score s corr a ls) \<longleftrightarrow>
     \<not> qs_is_emergency s \<and> fst (check_rules s a) = [] \<and> qs_total_risk_usdt s < max_risk_usdt a"
  by (auto simp: calculate_risk_score_def Let_def case_prod_beta calc_max_additional_risk_def dsub_def less_max_iff_disj)

lemma check_rules_clear:
  "fst (check_rules s a) = [] \<Longrightarrow> fst (check_concentration s) \<and> \<not> qs_is_emergency s"
  by (auto simp: check_rules_def Let_def case_prod_beta split: if_splits)

lemma find_SomeD: "find P xs = Some x \<Longrightarrow> x \<in> set xs \<and> P x"
  by (auto simp: find_Some_iff)

lemma check_concentration_ok:
  "fst (check_concentration s) \<longleftrightarrow> list_all (\<lambda>kv. snd kv \<le> MAX_SINGLE_COIN_PORTFOLIO_RATIO) (qs_coin_concentrations s)"
proof (cases "find (\<lambda>(coin, pct). MAX_SINGLE_COIN_PORTFOLIO_RATIO < pct) (qs_coin_concentrations s)")
  case None
  then have "\<forall>kv\<in>set (qs_coin_concentrations s). snd kv \<le> MAX_SINGLE_COIN_PORTFOLIO_RATIO"
    by (auto simp: find_None_iff not_less)
  then show ?thesis using None by (simp add: check_concentration_def list_all_iff)
next
  case (Some kv)
  note find_SomeD [OF Some]
  then have "\<exists>kv\<in>set (qs_coin_concentrations s). \<not> snd kv \<le> MAX_SINGLE_COIN_PORTFOLIO_RATIO"
    by (intro bexI [of _ kv]) (auto simp: not_le)
  then show ?thesis using Some by (auto simp: check_concentration_def list_all_iff split: prod.splits)
qed

lemma penalty_range: "0 \<le> calc_correlation_penalty c \<and> calc_correlation_penalty c \<le> 1"
  by (auto simp: calc_correlation_penalty_def dest!: find_SomeD split: option.split)

lemma score_range:
  assumes "0 \<le> qs_total_risk_usdt s" "0 \<le> qs_max_concentration_pct s" "\<forall>l\<in>set ls. 0 \<le> l"
  shows "0 \<le> qr_score (calculate_risk_score s corr a ls) \<and> qr_score (calculate_risk_score s corr a ls) \<le> 1"
proof -
  define r1 where "r1 = min (if 0 < max_risk_usdt a then f64 (ddiv (qs_total_risk_usdt s) (max_risk_usdt a)) else 0) 1"
  define r2 where "r2 = min (fdiv (qs_max_concentration_pct s) MAX_SINGLE_COIN_PORTFOLIO_RATIO) 1"
  define r3 where "r3 = calc_correlation_penalty corr"
  define r4 where "r4 = min (fdiv (if ls = [] then 0 else f64 (of_int (sum_list ls) / of_nat (length ls)))
    (of_int SYSTEM_MAX_LEVERAGE)) 1"
  have "0 \<le> sum_list ls" using assms(3) by (intro sum_list_nonneg) simp
  then have "0 \<le> r1" "0 \<le> r2" "0 \<le> r3" "0 \<le> r4"
    using assms(1,2) penalty_range unfolding r1_def r2_def r3_def r4_def
    by (auto simp: ddiv_def MAX_SINGLE_COIN_PORTFOLIO_RATIO_def SYSTEM_MAX_LEVERAGE_def weights
        intro!: fdiv_nonneg f64_nonneg dec_nonneg divide_nonneg_nonneg)
  then have "0 \<le> fadd (fadd (fadd (fmul (f64 0.4) r1) (fmul (f64 0.25) r2)) (fmul (f64 0.2) r3)) (fmul (f64 0.15) r4)"
    unfolding fadd_def fmul_def by (intro f64_nonneg add_nonneg_nonneg mult_nonneg_nonneg weights)
  then show ?thesis
    unfolding calculate_risk_score_def Let_def r1_def [symmetric] r2_def [symmetric] r3_def [symmetric]
      r4_def [symmetric] SCORE_WEIGHT_PORTFOLIO_RISK_def SCORE_WEIGHT_CONCENTRATION_def
      SCORE_WEIGHT_CORRELATION_def SCORE_WEIGHT_LEVERAGE_def
    by (simp add: case_prod_beta unit_round)
qed


lemma snapshot_fields:
  "qs_is_emergency (build_snapshot ps a) = is_emergency a"
  "qs_total_risk_usdt (build_snapshot ps a) = dec_sum (map qp_risk_usdt ps)"
  by (simp_all add: build_snapshot_def empty_snapshot_def Let_def case_prod_beta dec_sum_def)

text \<open>
  C28. The score of a portfolio is between 0 and 1, and a score that admits another position means:
  the balance is not at the emergency threshold, the risk at the stops is below the limit, no
  coin's share exceeds one half, and therefore the portfolio is empty or holds at least two coins.
  In particular no portfolio of a single coin, hence no portfolio of one position, admits another.
\<close>

theorem portfolio_admits_only_balanced:
  assumes "list_all position_ok ps"
  shows "0 \<le> qr_score (portfolio_score fpow corr ps a) \<and> qr_score (portfolio_score fpow corr ps a) \<le> 1 \<and>
    (qr_can_add_position (portfolio_score fpow corr ps a) \<longrightarrow>
       \<not> is_emergency a \<and> dec_sum (map qp_risk_usdt ps) < max_risk_usdt a \<and>
       list_all (\<lambda>kv. snd kv \<le> f64 0.5) (qs_coin_concentrations (build_snapshot ps a)) \<and>
       (ps = [] \<or> (\<exists>p\<in>set ps. \<exists>q\<in>set ps. qp_coin p \<noteq> qp_coin q)))"
proof -
  let ?s = "build_snapshot ps a"
  have "0 \<le> l" if "l \<in> set (map qp_leverage ps)" for l
    using assms that by (auto simp: list_all_iff position_ok_def)
  then have score: "0 \<le> qr_score (portfolio_score fpow corr ps a) \<and> qr_score (portfolio_score fpow corr ps a) \<le> 1"
    unfolding portfolio_score_def
    by (intro score_range total_risk_nonneg max_concentration_nonneg [OF assms]) blast
  have "\<not> is_emergency a \<and> dec_sum (map qp_risk_usdt ps) < max_risk_usdt a \<and>
       list_all (\<lambda>kv. snd kv \<le> f64 0.5) (qs_coin_concentrations ?s) \<and>
       (ps = [] \<or> (\<exists>p\<in>set ps. \<exists>q\<in>set ps. qp_coin p \<noteq> qp_coin q))"
    if c: "qr_can_add_position (portfolio_score fpow corr ps a)"
  proof -
    have f: "\<not> qs_is_emergency ?s" "fst (check_rules ?s a) = []" "qs_total_risk_usdt ?s < max_risk_usdt a"
      using c unfolding portfolio_score_def score_fields by blast+
    have conc: "fst (check_concentration ?s)" using check_rules_clear [OF f(2)] by blast
    have "ps = [] \<or> (\<exists>p\<in>set ps. \<exists>q\<in>set ps. qp_coin p \<noteq> qp_coin q)"
    proof (rule ccontr)
      assume "\<not> ?thesis"
      then have ne: "ps \<noteq> []" and same: "\<And>p q. p \<in> set ps \<Longrightarrow> q \<in> set ps \<Longrightarrow> qp_coin p = qp_coin q" by blast+
      have "\<forall>p\<in>set ps. qp_coin p = qp_coin (hd ps)" by (intro ballI same hd_in_set [OF ne])
      from single_coin_breaches [OF assms ne this] conc show False by blast
    qed
    then show ?thesis
      using f conc by (simp add: snapshot_fields check_concentration_ok MAX_SINGLE_COIN_PORTFOLIO_RATIO_def)
  qed
  then show ?thesis using score by blast
qed

definition sample_btc :: portfolio_position where
  "sample_btc =
     \<lparr>qp_id = ''1'', qp_coin = ''BTC'', qp_symbol = ''BTCUSDT'', qp_direction = LONG,
      qp_entry_price = 100, qp_current_price = 100, qp_stop_loss = 90, qp_quantity = 1, qp_leverage = 5,
      qp_margin_used = 20, qp_unrealized_pnl = 0\<rparr>"

definition sample_context :: account_context where
  "sample_context = \<lparr>qa_available_balance = 1000, qa_initial_balance = 1000, qa_risk_profile = ''moderate''\<rparr>"

theorem portfolio_admits_only_balanced_witness:
  "\<not> qr_can_add_position (portfolio_score (\<lambda>x y. x) BTC_ETH_CORRELATION [sample_btc] sample_context) \<and>
    can_add_position [sample_btc] sample_context 10 = (True, PortfolioOk)"
proof -
  have "list_all position_ok [sample_btc]" by (simp add: position_ok_def sample_btc_def)
  from portfolio_admits_only_balanced [OF this]
  have "\<not> qr_can_add_position (portfolio_score (\<lambda>x y. x) BTC_ETH_CORRELATION [sample_btc] sample_context)" by fastforce
  moreover have "dec_sum (map qp_risk_usdt [sample_btc]) = 10"
    by (simp add: qp_risk_usdt_def sample_btc_def dec_sum_def dec_eval)
  moreover have "max_risk_usdt sample_context = 100"
    by (simp add: max_risk_usdt_def portfolio_risk_limit_def sample_context_def MAX_PORTFOLIO_RISK_def
        repr10_fractions dmul_def dec_numeral)
  moreover have "\<not> is_emergency sample_context"
    by (simp add: is_emergency_def sample_context_def ACCOUNT_EMERGENCY_THRESHOLD_def repr10_fractions
        dmul_def dec_numeral)
  moreover have "dadd 10 10 = 20" by (simp add: dadd_def dec_numeral)
  ultimately have "\<not> qr_can_add_position (portfolio_score (\<lambda>x y. x) BTC_ETH_CORRELATION [sample_btc] sample_context)"
    "can_add_position [sample_btc] sample_context 10 = (True, PortfolioOk)"
    by (simp_all add: can_add_position_def snapshot_fields)
  then show ?thesis by blast
qed

end
