(* ===== verification/AgentRunner.thy ===== *)
theory AgentRunner
  imports PyNum
begin

text \<open>
  \<open>agents/orchestrator/runner.py\<close> and the step results of \<open>agents/orchestrator/models.py\<close>. A coroutine is
  given by what awaiting it for at most \<open>t\<close> seconds leaves behind and yields: a value, an exception,
  or the timeout, which cancels it and keeps the effects it had. The runner calls its coroutine
  factory again after every failure, sleeping in between, and never raises. The instants of a
  result (\<open>started_at\<close>, \<open>finished_at\<close>, \<open>latency_ms\<close>) are left out.
\<close>

datatype 'a outcome = Returned 'a | Raised pyexn | TimedOut

type_synonym ('s, 'a) coro = "rat \<Rightarrow> 's \<Rightarrow> 's \<times> 'a outcome"

text \<open>A coroutine that needs less than its time: an action, or a pure function in a thread.\<close>

definition coro_of :: "('s, 'a) act \<Rightarrow> ('s, 'a) coro" where
  "coro_of m t s = (case m s of (s1, Inl e) \<Rightarrow> (s1, Raised e) | (s1, Inr x) \<Rightarrow> (s1, Returned x))"

definition to_thread :: "'a result \<Rightarrow> ('s, 'a) coro" where
  "to_thread r = coro_of (act_read (\<lambda>_. r))"

datatype agent_status = AgentPending | AgentRunning | AgentSuccess | AgentFailed | AgentSkipped

text \<open>The error text of a step: a timeout, an exception, or (\<open>'r\<close>) the reason it was skipped.\<close>

datatype 'r step_error = NoAttempt | TimeoutExceeded rat | AgentRaised pyexn | SkipReason 'r

record 'r agent_result =
  an_agent_name :: string
  an_status :: agent_status
  an_error :: "'r step_error option"
  an_attempt :: nat

text \<open>The constructor's defaults, and the three marks; the output is returned beside the result.\<close>

definition new_result :: "string \<Rightarrow> agent_status \<Rightarrow> 'r agent_result" where
  "new_result name status =
     \<lparr>an_agent_name = name, an_status = status, an_error = None, an_attempt = 1\<rparr>"

definition mark_success :: "'r agent_result \<Rightarrow> 'r agent_result" where
  "mark_success r = r\<lparr>an_status := AgentSuccess\<rparr>"

definition mark_failed :: "'r step_error \<Rightarrow> 'r agent_result \<Rightarrow> 'r agent_result" where
  "mark_failed e r = r\<lparr>an_status := AgentFailed, an_error := Some e\<rparr>"

definition mark_skipped :: "'r \<Rightarrow> 'r agent_result \<Rightarrow> 'r agent_result" where
  "mark_skipped why r = r\<lparr>an_status := AgentSkipped, an_error := Some (SkipReason why)\<rparr>"

definition an_succeeded :: "'r agent_result \<Rightarrow> bool" where
  "an_succeeded r \<longleftrightarrow> an_status r = AgentSuccess"

definition an_failed :: "'r agent_result \<Rightarrow> bool" where
  "an_failed r \<longleftrightarrow> an_status r = AgentFailed"

section \<open>The runner\<close>

record 's agent_runner =
  ru_max_retries :: nat
  ru_base_delay :: rat
  ru_default_timeout :: rat
  ru_sleep :: "rat \<Rightarrow> 's \<Rightarrow> 's"

text \<open>The delay before attempt \<open>n + 1\<close>: \<open>base_delay * (2 ** (n - 1))\<close>.\<close>

definition retry_delay :: "'s agent_runner \<Rightarrow> nat \<Rightarrow> rat" where
  "retry_delay R attempt = fmul (ru_base_delay R) (f64 (2 ^ (attempt - 1)))"

text \<open>The loop over the attempts, \<open>tries\<close> of them, from the attempt \<open>n\<close> on.\<close>

function run_attempts ::
    "'s agent_runner \<Rightarrow> rat \<Rightarrow> ('s, 'a) coro \<Rightarrow> nat \<Rightarrow> nat \<Rightarrow> 'r step_error \<Rightarrow> 'r agent_result \<Rightarrow> 's
       \<Rightarrow> 's \<times> 'r agent_result \<times> 'a option" where
  "run_attempts R t coro tries n last_error r s =
     (if tries < n then (s, mark_failed last_error r, None)
      else
        let r1 = r\<lparr>an_attempt := n\<rparr>;
            sleep = (if n < tries then ru_sleep R (retry_delay R n) else (\<lambda>s. s))
        in case coro t s of
          (s1, Returned x) \<Rightarrow> (s1, mark_success r1, Some x)
        | (s1, TimedOut) \<Rightarrow> run_attempts R t coro tries (n + 1) (TimeoutExceeded t) r1 (sleep s1)
        | (s1, Raised e) \<Rightarrow> run_attempts R t coro tries (n + 1) (AgentRaised e) r1 (sleep s1))"
  by pat_completeness auto
termination by (relation "measure (\<lambda>(R, t, coro, tries, n, rest). Suc tries - n)") auto

declare run_attempts.simps [simp del]

definition runner_run ::
    "'s agent_runner \<Rightarrow> string \<Rightarrow> ('s, 'a) coro \<Rightarrow> rat option \<Rightarrow> nat option \<Rightarrow> 's
       \<Rightarrow> 's \<times> 'r agent_result \<times> 'a option" where
  "runner_run R name coro timeout max_retries =
     (let t = (case timeout of Some x \<Rightarrow> x | None \<Rightarrow> ru_default_timeout R);
          retries = (case max_retries of Some n \<Rightarrow> n | None \<Rightarrow> ru_max_retries R)
      in run_attempts R t coro (retries + 1) 1 NoAttempt (new_result name AgentRunning))"

section \<open>A rule for runs of the runner\<close>

text \<open>
  An invariant that the coroutine and the sleeps keep is kept by the whole run, however many
  attempts it takes; an output is what the coroutine returned in a state with the invariant; and
  the result is a success with an output or a failure without one.
\<close>

lemma run_attempts_rule:
  assumes "\<And>s s1 w. I s \<Longrightarrow> coro t s = (s1, w) \<Longrightarrow> I s1 \<and> (\<forall>x. w = Returned x \<longrightarrow> Q x)"
    "\<And>d s. I s \<Longrightarrow> I (ru_sleep R d s)"
    "I s" "run_attempts R t coro tries n e r s = (s1, r1, x)"
  shows "I s1 \<and> (case x of Some y \<Rightarrow> Q y \<and> an_status r1 = AgentSuccess | None \<Rightarrow> an_status r1 = AgentFailed) \<and>
    an_agent_name r1 = an_agent_name r"
  using assms(3,4)
proof (induction "Suc tries - n" arbitrary: n e r s)
  case 0
  then show ?case by (subst (asm) run_attempts.simps) (auto simp: mark_failed_def)
next
  case (Suc k)
  obtain s2 w where w: "coro t s = (s2, w)" by fastforce
  have k: "k = Suc tries - (n + 1)" and n: "\<not> tries < n" using Suc(2) by simp_all
  have I: "I s2" "\<And>x. w = Returned x \<Longrightarrow> Q x" using assms(1) [OF Suc(3) w] by auto
  have sl: "I ((if n < tries then ru_sleep R (retry_delay R n) else (\<lambda>s. s)) s2)"
    using I(1) assms(2) by simp
  note run = Suc(4) [unfolded run_attempts.simps [of R t coro tries n] Let_def w]
  show ?case
  proof (cases w)
    case (Returned y)
    then show ?thesis using run n I by (auto simp: mark_success_def)
  next
    case (Raised ex)
    then show ?thesis using run n Suc(1) [OF k sl] by simp
  next
    case TimedOut
    then show ?thesis using run n Suc(1) [OF k sl] by simp
  qed
qed

lemma runner_run_rule:
  assumes "\<And>s s1 w. I s \<Longrightarrow>
      coro (case timeout of Some y \<Rightarrow> y | None \<Rightarrow> ru_default_timeout R) s = (s1, w) \<Longrightarrow>
      I s1 \<and> (\<forall>x. w = Returned x \<longrightarrow> Q x)"
    "\<And>d s. I s \<Longrightarrow> I (ru_sleep R d s)"
    "I s" "runner_run R name coro timeout retries s = (s1, r1, x)"
  shows "I s1 \<and> (case x of Some y \<Rightarrow> Q y \<and> an_status r1 = AgentSuccess | None \<Rightarrow> an_status r1 = AgentFailed) \<and>
    an_agent_name r1 = name"
proof -
  have "run_attempts R (case timeout of Some y \<Rightarrow> y | None \<Rightarrow> ru_default_timeout R) coro
      ((case retries of Some n \<Rightarrow> n | None \<Rightarrow> ru_max_retries R) + 1) 1 NoAttempt
      (new_result name AgentRunning) s = (s1, r1, x)"
    using assms(4) by (simp only: runner_run_def Let_def)
  from run_attempts_rule [of I coro _ Q R, OF assms(1,2,3) this] show ?thesis
    by (simp add: new_result_def)
qed

end
