(* ===== verification/PipelineModels.thy ===== *)
theory PipelineModels
  imports AgentRunner DecisionEngine ShadowEngine Portfolio PositionManager
begin

text \<open>
  The data of \<open>agents/orchestrator\<close>: input, context and result of a run, the agents it is given, the
  request and the events it builds, and the row of its decision log. Reasons are constructors with
  the data their texts contain; the columns of the log that copy fields of the candidate, the
  review or the verdict are these records themselves.
\<close>

section \<open>Statuses, input and context\<close>

datatype pipeline_status =
  PipeRunning | PipeCompleted | PipeHold | PipeRejected | PipeFailed | PipeEmergencyClosed

datatype pipeline_reason =
    MarketDataFailed | DecisionFailed | CandidateHeld | ReviewFailed | ReviewRefusal
  | RiskException | RiskRefusal "reason option" | FinalDecisionFailed | FinalHold decision_reason
  | PortfolioFailed | PortfolioRefusal portfolio_reason | PositionManagerFailed | ExecutionFailed
  | EmergencyCloseFailed | EmergencyCloseDone | ShadowReviewSkipped | Upstream

type_synonym agent_step = "pipeline_reason agent_result"

text \<open>A snapshot with the two entries only the pipeline reads.\<close>

record pipeline_snapshot = market_snapshot +
  ps_ohlcv :: "(string, frame option) pydict"
  ps_funding_context :: "funding_context option"

record pipeline_input =
  pi_coin :: string
  pi_user_id :: "string option"
  pi_user_ctx :: user_context
  pi_account_state :: account_state
  pi_daily_loss_usdt :: "rat option"
  pi_weekly_loss_usdt :: "rat option"
  pi_weekly_limit_usdt :: "rat option"
  pi_consecutive_losses :: int
  pi_open_positions :: "open_position list"
  pi_portfolio_account :: account_context
  pi_decision_config :: "config option"

record pipeline_context =
  pc_coin :: string
  pc_user_id :: "string option"
  pc_market_snapshot :: "pipeline_snapshot option"
  pc_tech_result :: "technical_result option"
  pc_strategy_signal :: "aggregated_signal option"
  pc_decision_result :: "decision_result option"
  pc_candidate :: "trade_candidate option"
  pc_ai_review :: "ai_review_result option"
  pc_risk_result :: "validation_result option"
  pc_final_decision :: "final_decision option"
  pc_portfolio_check :: "(bool \<times> portfolio_reason) option"
  pc_position_state :: "(position_state \<times> rat) option"
  pc_execution_result :: "execution_result option"
  pc_raw_signal :: "raw_signal option"
  pc_errors :: "string list"

definition new_context :: "pipeline_input \<Rightarrow> pipeline_context" where
  "new_context inp =
     \<lparr>pc_coin = pi_coin inp, pc_user_id = pi_user_id inp, pc_market_snapshot = None,
      pc_tech_result = None, pc_strategy_signal = None, pc_decision_result = None,
      pc_candidate = None, pc_ai_review = None, pc_risk_result = None, pc_final_decision = None,
      pc_portfolio_check = None, pc_position_state = None, pc_execution_result = None,
      pc_raw_signal = None, pc_errors = []\<rparr>"

record pipeline_result =
  pr_coin :: string
  pr_status :: pipeline_status
  pr_steps :: "agent_step list"
  pr_execution_result :: "execution_result option"
  pr_rejection_reason :: "pipeline_reason option"

definition pr_step :: "pipeline_result \<Rightarrow> string \<Rightarrow> agent_step option" where
  "pr_step r name = find (\<lambda>s. an_agent_name s = name) (pr_steps r)"

definition failed_steps :: "pipeline_result \<Rightarrow> agent_step list" where
  "failed_steps r = filter (\<lambda>s. an_status s = AgentFailed) (pr_steps r)"

definition skipped_steps :: "pipeline_result \<Rightarrow> agent_step list" where
  "skipped_steps r = filter (\<lambda>s. an_status s = AgentSkipped) (pr_steps r)"

section \<open>Steps\<close>

definition STEP_NAMES :: "string list" where
  "STEP_NAMES = [''market_data'', ''technical'', ''strategy'', ''decision'', ''ai_review'', ''risk'',
     ''final_decision'', ''portfolio'', ''position_manager'', ''execution'']"

definition STEP_TIMEOUT :: "string \<rightharpoonup> rat" where
  "STEP_TIMEOUT = map_of [(''market_data'', 10), (''technical'', 10), (''strategy'', 5),
     (''decision'', 5), (''ai_review'', 30), (''risk'', 5), (''final_decision'', 3),
     (''portfolio'', 3), (''position_manager'', 3), (''execution'', 15)]"

definition STEP_RETRIES :: "string \<rightharpoonup> nat" where
  "STEP_RETRIES = map_of [(''market_data'', 2), (''technical'', 1), (''strategy'', 1),
     (''decision'', 0), (''ai_review'', 1), (''risk'', 0), (''final_decision'', 0),
     (''portfolio'', 0), (''position_manager'', 0), (''execution'', 3)]"

definition append_skipped :: "agent_step list \<Rightarrow> string list \<Rightarrow> pipeline_reason \<Rightarrow> agent_step list" where
  "append_skipped steps names why =
     steps @ map (\<lambda>n. mark_skipped why (new_result n AgentPending))
       (filter (\<lambda>n. n \<notin> an_agent_name ` set steps) names)"

section \<open>What the pipeline puts in the place of a failed agent\<close>

definition neutral_ta_result :: technical_result where
  "neutral_ta_result =
     \<lparr>tr_coin = ''UNKNOWN'', tr_symbol = ''UNKNOWNUSDT'', tr_tech_score = 0, tr_timeframe_scores = [],
      tr_analyses = [], tr_fired = {}, tr_support_levels = [], tr_resistance_levels = [],
      tr_latest_close = 0\<rparr>"

definition neutral_strategy_signal :: aggregated_signal where
  "neutral_strategy_signal =
     \<lparr>ag_direction = NO_TRADE, ag_confidence = 0, ag_entry = 0, ag_take_profit = None,
      ag_stop_loss = None, ag_leverage = 1, ag_rr_ratio = 0, ag_contributing = [],
      ag_all_signals = [], ag_candidates = []\<rparr>"

definition ai_review_required :: "config option \<Rightarrow> bool" where
  "ai_review_required c =
     (case c of None \<Rightarrow> True
      | Some c \<Rightarrow> (case cf_top c ''ai_review_required'' of None \<Rightarrow> True | Some v \<Rightarrow> c_bool v))"

definition shadow_ai_review_skipped :: ai_review_result where
  "shadow_ai_review_skipped =
     \<lparr>ar_review_action = APPROVE, ar_confidence = 1, ar_critical_contradiction = False\<rparr>"

definition safe_reject_review :: ai_review_result where
  "safe_reject_review =
     \<lparr>ar_review_action = REJECT, ar_confidence = 0, ar_critical_contradiction = True\<rparr>"

text \<open>\<open>x.startswith(prefix)\<close>.\<close>

fun starts_with :: "string \<Rightarrow> string \<Rightarrow> bool" where
  "starts_with xs [] = True"
| "starts_with [] (y # ys) = False"
| "starts_with (x # xs) (y # ys) = (x = y \<and> starts_with xs ys)"

fun find_same_coin_from ::
    "open_position list \<Rightarrow> string \<Rightarrow> direction \<Rightarrow> open_position option \<Rightarrow> open_position option" where
  "find_same_coin_from [] coin d fallback = fallback"
| "find_same_coin_from (p # ps) coin d fallback =
     (if op_coin p = coin \<or> starts_with (op_symbol p) coin
      then if op_direction p = d then Some p
           else find_same_coin_from ps coin d (case fallback of None \<Rightarrow> Some p | Some q \<Rightarrow> Some q)
      else find_same_coin_from ps coin d fallback)"

definition find_same_coin_position ::
    "open_position list \<Rightarrow> string \<Rightarrow> direction \<Rightarrow> open_position option" where
  "find_same_coin_position ps coin d = find_same_coin_from ps coin d None"

section \<open>Inputs of the agents\<close>

definition build_raw_signal ::
    "string \<Rightarrow> string \<Rightarrow> trade_candidate \<Rightarrow> rat \<Rightarrow> raw_signal" where
  "build_raw_signal coin symbol c confidence =
     \<lparr>sg_direction = tc_action c, sg_coin = coin, sg_symbol = symbol, sg_confidence = confidence,
      sg_entry_price = tc_entry_price c, sg_take_profit = tc_take_profit c,
      sg_stop_loss = tc_stop_loss c, sg_leverage = tc_leverage c\<rparr>"

definition regime_value :: "market_regime \<Rightarrow> string" where
  "regime_value r = (case r of TREND_UP \<Rightarrow> ''TREND_UP'' | TREND_DOWN \<Rightarrow> ''TREND_DOWN'' | RANGE \<Rightarrow> ''RANGE''
     | HIGH_VOLATILITY \<Rightarrow> ''HIGH_VOLATILITY'' | NEWS_EVENT \<Rightarrow> ''NEWS_EVENT''
     | UNKNOWN_REGIME \<Rightarrow> ''UNKNOWN'')"

definition direction_value :: "direction \<Rightarrow> string" where
  "direction_value d = (case d of LONG \<Rightarrow> ''LONG'' | SHORT \<Rightarrow> ''SHORT'' | HOLD \<Rightarrow> ''HOLD'')"

record review_input =
  rw_coin :: string
  rw_symbol :: string
  rw_market_regime :: string
  rw_regime_confidence :: rat
  rw_chart_long_score :: rat
  rw_chart_short_score :: rat
  rw_chart_risk_score :: rat
  rw_news_sentiment_score :: rat
  rw_news_risk_score :: rat
  rw_news_no_trade_flag :: bool
  rw_deriv_risk_score :: rat
  rw_deriv_crowded_side :: crowded_side
  rw_strategy_type :: string
  rw_expected_holding_minutes :: int
  rw_action :: string
  rw_entry_price :: rat
  rw_stop_loss :: "rat option"
  rw_take_profit :: "rat option"
  rw_leverage :: int
  rw_notional_size :: rat
  rw_margin_ratio :: rat
  rw_actual_rr :: rat
  rw_min_required_rr :: rat
  rw_expected_net_profit :: "rat option"
  rw_expected_net_loss :: "rat option"
  rw_spread_bps :: rat
  rw_slippage_bps :: rat
  rw_liquidation_price :: "rat option"

text \<open>Prices become floats; a strategy without a name is given by its type.\<close>

definition build_review_input :: "string \<Rightarrow> decision_result \<Rightarrow> trade_candidate \<Rightarrow> review_input" where
  "build_review_input symbol d c =
     \<lparr>rw_coin = tc_coin c, rw_symbol = symbol,
      rw_market_regime = regime_value (mr_regime (dr_regime d)),
      rw_regime_confidence = mr_confidence (dr_regime d),
      rw_chart_long_score = sc_long_score (dr_chart_score d),
      rw_chart_short_score = sc_short_score (dr_chart_score d),
      rw_chart_risk_score = sc_risk_score (dr_chart_score d),
      rw_news_sentiment_score = ns_sentiment_score (dr_news_score d),
      rw_news_risk_score = ns_risk_score (dr_news_score d),
      rw_news_no_trade_flag = ns_no_trade_flag (dr_news_score d),
      rw_deriv_risk_score = dv_risk_score (dr_derivatives_score d),
      rw_deriv_crowded_side = dv_crowded_side (dr_derivatives_score d),
      rw_strategy_type = (case tc_strategy_name c of
          Some n \<Rightarrow> if n = [] then strategy_value (tc_strategy_type c) else n
        | None \<Rightarrow> strategy_value (tc_strategy_type c)),
      rw_expected_holding_minutes = tc_expected_holding_minutes c,
      rw_action = direction_value (tc_action c),
      rw_entry_price = f64 (tc_entry_price c), rw_stop_loss = map_option f64 (tc_stop_loss c),
      rw_take_profit = map_option f64 (tc_take_profit c), rw_leverage = tc_leverage c,
      rw_notional_size = f64 (tc_notional_size c), rw_margin_ratio = tc_margin_ratio c,
      rw_actual_rr = tc_actual_rr c, rw_min_required_rr = tc_min_required_rr c,
      rw_expected_net_profit = map_option f64 (tc_expected_net_profit c),
      rw_expected_net_loss = map_option f64 (tc_expected_net_loss c),
      rw_spread_bps = tc_spread_bps c, rw_slippage_bps = tc_slippage_bps c,
      rw_liquidation_price = map_option f64 (tc_liquidation_price c)\<rparr>"

text \<open>\<open>x or Decimal("0")\<close>.\<close>

definition or_zero :: "rat option \<Rightarrow> rat" where
  "or_zero x = (case x of Some v \<Rightarrow> v | None \<Rightarrow> 0)"

definition build_execution_request ::
    "pipeline_input \<Rightarrow> pipeline_context \<Rightarrow> decision_result \<Rightarrow> raw_signal \<Rightarrow> open_position option
       \<Rightarrow> shadow_request" where
  "build_execution_request inp ctx d raw same_coin =
     \<lparr>er_signal = raw, er_user_ctx = pi_user_ctx inp, er_account = pi_account_state inp,
      er_daily_loss_usdt = or_zero (pi_daily_loss_usdt inp),
      er_weekly_loss_usdt = or_zero (pi_weekly_loss_usdt inp),
      er_weekly_limit_usdt = or_zero (pi_weekly_limit_usdt inp),
      er_consecutive_losses = pi_consecutive_losses inp,
      er_open_positions_count = int (length (pi_open_positions inp)),
      er_same_coin_position = same_coin, er_candidate = pc_candidate ctx,
      er_final_decision = pc_final_decision ctx, er_approved_validation = pc_risk_result ctx,
      er_strategy_version = Some ''decision-pipeline-v2'',
      sq_market_regime = Some (regime_value (mr_regime (dr_regime d))),
      sq_pipeline_errors = map Some (pc_errors ctx)\<rparr>"

section \<open>Events after the execution\<close>

text \<open>
  \<open>_fire_post_trade_hook\<close> reads the attribute \<open>balance\<close> of the account state, which \<open>AccountState\<close> does
  not have (it has \<open>available_balance\<close>, \<open>total_balance\<close> and \<open>initial_balance\<close>): \<open>getattr\<close> gives its
  default.
\<close>

definition account_balance_attribute :: "account_state \<Rightarrow> rat" where
  "account_balance_attribute a = 0"

definition emergency_pnl :: "direction \<Rightarrow> filled_order \<Rightarrow> filled_order \<Rightarrow> rat" where
  "emergency_pnl d entry exit =
     f64 (dmul (if d = LONG then dsub (fo_avg_fill_price exit) (fo_avg_fill_price entry)
                else dsub (fo_avg_fill_price entry) (fo_avg_fill_price exit)) (fo_quantity entry))"

definition build_post_trade_event ::
    "pipeline_input \<Rightarrow> pipeline_context \<Rightarrow> execution_result \<Rightarrow> post_trade_event option" where
  "build_post_trade_event inp ctx er =
     (case xr_entry_order er of None \<Rightarrow> None
      | Some entry \<Rightarrow>
          let balance = account_balance_attribute (pi_account_state inp);
              d = (case pc_raw_signal ctx of Some raw \<Rightarrow> sg_direction raw | None \<Rightarrow> LONG)
          in Some
            \<lparr>pe_user_id = (case pi_user_id inp of Some u \<Rightarrow> u | None \<Rightarrow> []),
             pe_realized_pnl_usdt = map_option (emergency_pnl d entry) (xr_emergency_close_order er),
             pe_max_loss_usdt = f64 (or_zero (Option.bind (pc_risk_result ctx) vr_max_loss_usdt)),
             pe_period_start_balance = fadd balance (f64 (or_zero (pi_daily_loss_usdt inp))),
             pe_week_start_balance = fadd balance (f64 (or_zero (pi_weekly_loss_usdt inp))),
             pe_current_balance = balance\<rparr>)"

datatype alert_event =
    OrderFilled string direction rat rat int "rat option" "rat option"
  | EmergencyClosed string direction rat rat

definition order_filled_event ::
    "pipeline_input \<Rightarrow> pipeline_context \<Rightarrow> execution_result \<Rightarrow> alert_event option" where
  "order_filled_event inp ctx er =
     (case (xr_entry_order er, pc_raw_signal ctx) of
        (Some entry, Some raw) \<Rightarrow>
          if sg_direction raw \<notin> {LONG, SHORT} then None
          else
            let lev = (case Option.bind (pc_risk_result ctx) vr_final_leverage of
                         Some l \<Rightarrow> if l \<noteq> 0 then Some l else map_option tc_leverage (pc_candidate ctx)
                       | None \<Rightarrow> map_option tc_leverage (pc_candidate ctx));
                leverage = (case lev of Some l \<Rightarrow> if l \<noteq> 0 then l else 1 | None \<Rightarrow> 1)
            in Some (OrderFilled (fo_symbol entry) (sg_direction raw) (fo_avg_fill_price entry)
                      (fo_quantity entry) leverage (sg_take_profit raw) (sg_stop_loss raw))
      | _ \<Rightarrow> None)"

definition emergency_event ::
    "pipeline_input \<Rightarrow> pipeline_context \<Rightarrow> execution_result \<Rightarrow> alert_event option" where
  "emergency_event inp ctx er =
     (case xr_entry_order er of None \<Rightarrow> None
      | Some entry \<Rightarrow>
          let exit_price = (case xr_emergency_close_order er of
                 Some x \<Rightarrow> if fo_avg_fill_price x \<noteq> 0 then fo_avg_fill_price x else fo_avg_fill_price entry
               | None \<Rightarrow> fo_avg_fill_price entry);
              d = (case pc_raw_signal ctx of Some raw \<Rightarrow> sg_direction raw | None \<Rightarrow> LONG)
          in Some (EmergencyClosed (pi_coin inp @ ''USDT'') d (fo_avg_fill_price entry) exit_price))"

section \<open>The decision log\<close>

text \<open>\<open>_cfg\<close> of the pipeline: a value that is no number falls back to the default.\<close>

definition diagnostic_cfg :: "config option \<Rightarrow> string \<Rightarrow> rat \<Rightarrow> rat" where
  "diagnostic_cfg c key dv =
     (case c_float (flat_cfg c key (CFloat dv)) of Inr x \<Rightarrow> x | Inl e \<Rightarrow> dv)"

record score_diagnostics =
  sd_scores :: "(rat \<times> rat \<times> rat) option"
  sd_min_long_score :: rat
  sd_min_short_score :: rat
  sd_max_risk_score :: rat

definition decision_score_diagnostics :: "decision_result option \<Rightarrow> config option \<Rightarrow> score_diagnostics" where
  "decision_score_diagnostics decision config =
     \<lparr>sd_scores = (case decision of None \<Rightarrow> None
        | Some d \<Rightarrow>
            (case adjusted_scores (dr_chart_score d) (dr_derivatives_score d) of (long_score, short_score) \<Rightarrow>
             Some (long_score, short_score, candidate_combined_risk (dr_chart_score d)
                     (dr_news_score d) (dr_derivatives_score d)))),
      sd_min_long_score = diagnostic_cfg config ''min_long_score'' MIN_LONG_SCORE,
      sd_min_short_score = diagnostic_cfg config ''min_short_score'' MIN_SHORT_SCORE,
      sd_max_risk_score = diagnostic_cfg config ''max_risk_score'' MAX_RISK_SCORE\<rparr>"

definition decision_outcome ::
    "string \<Rightarrow> string option \<Rightarrow> pipeline_reason option \<Rightarrow> execution_result option \<Rightarrow> string" where
  "decision_outcome final_action stage reason er =
     (if (case er of None \<Rightarrow> False | Some x \<Rightarrow> xr_executed x)
      then (case er of None \<Rightarrow> [] | Some x \<Rightarrow>
              if xr_emergency_close_failed x then ''EXECUTION_FAILED''
              else if xr_tp_sl_failed x then ''EXECUTION_EMERGENCY_CLOSED'' else ''EXECUTED'')
      else if stage = Some ''ai_review'' then ''AI_REJECT''
      else if stage = Some ''risk'' then ''RISK_REJECT''
      else if stage = Some ''portfolio'' then ''PORTFOLIO_REJECT''
      else if stage \<in> {Some ''position_manager'', Some ''execution''} then ''EXECUTION_FAILED''
      else if final_action = ''HOLD'' \<or> reason \<noteq> None then ''HOLD''
      else final_action)"

definition liq_stop_distance :: "trade_candidate option \<Rightarrow> rat option" where
  "liq_stop_distance c =
     (case c of None \<Rightarrow> None
      | Some c \<Rightarrow> (case (tc_liquidation_price c, tc_stop_loss c) of
          (Some liq, Some sl) \<Rightarrow> Some (dabs (dsub sl liq)) | _ \<Rightarrow> None))"

record decision_log =
  dl_coin :: string
  dl_user_id :: "string option"
  dl_symbol :: string
  dl_market_price :: dval
  dl_signal_price :: "rat option"
  dl_simulated_fill_price :: "rat option"
  dl_candidate :: "trade_candidate option"
  dl_decision :: "decision_result option"
  dl_diagnostics :: score_diagnostics
  dl_ai_review :: "ai_review_result option"
  dl_risk_result :: "validation_result option"
  dl_final_action :: string
  dl_decision_outcome :: string
  dl_rejection_stage :: "string option"
  dl_rejection_reason :: "pipeline_reason option"
  dl_liq_stop_distance :: "rat option"
  dl_actual_result :: "execution_result option"

text \<open>
  The payload of one run. The pipeline passes a reason always with its stage, and no reason only
  with a decision to trade, so the stage is never inferred from the text of a reason.
\<close>

definition build_decision_log ::
    "pipeline_input \<Rightarrow> pipeline_context \<Rightarrow> pipeline_reason option \<Rightarrow> execution_result option
       \<Rightarrow> string option \<Rightarrow> decision_log" where
  "build_decision_log inp ctx reason er stage =
     (let symbol = pi_coin inp @ ''USDT'';
          final_action = (case pc_final_decision ctx of
              Some d \<Rightarrow> direction_value (fd_action d)
            | None \<Rightarrow> (case (reason, pc_candidate ctx) of
                (None, Some c) \<Rightarrow> direction_value (tc_action c) | _ \<Rightarrow> ''HOLD''));
          prices = (case pc_market_snapshot ctx of Some s \<Rightarrow> ms_values s | None \<Rightarrow> Map.empty)
      in \<lparr>dl_coin = pc_coin ctx, dl_user_id = pc_user_id ctx,
          dl_symbol = (case pc_candidate ctx of Some c \<Rightarrow> tc_symbol c | None \<Rightarrow> symbol),
          dl_market_price = (if d_truthy (dget prices ''current_price'') then dget prices ''current_price''
                             else dget prices ''price''),
          dl_signal_price = map_option sg_entry_price (pc_raw_signal ctx),
          dl_simulated_fill_price = map_option fo_avg_fill_price (Option.bind er xr_entry_order),
          dl_candidate = pc_candidate ctx, dl_decision = pc_decision_result ctx,
          dl_diagnostics = decision_score_diagnostics (pc_decision_result ctx) (pi_decision_config inp),
          dl_ai_review = pc_ai_review ctx, dl_risk_result = pc_risk_result ctx,
          dl_final_action = final_action,
          dl_decision_outcome = decision_outcome final_action stage reason er,
          dl_rejection_stage = stage, dl_rejection_reason = reason,
          dl_liq_stop_distance = liq_stop_distance (pc_candidate ctx), dl_actual_result = er\<rparr>)"

end
