(* ===== verification/Pipeline.thy ===== *)
theory Pipeline
  imports PipelineModels
begin

text \<open>
  \<open>agents/orchestrator/pipeline.py\<close>: the run of the ten steps over agents that are arguments. Each step
  is a definition that ends the run or goes on with the next one, so the code's order is read from
  the last definition of this theory upwards. The state of a run is that of the world with the list
  of the results so far. Storing a log row and sending an alert never raise (the code catches what
  they raise), so they are functions on the world; the row of the whole run, which the code
  schedules as a task, is written when the run returns.
\<close>

record 's deps =
  dp_market_data :: "string \<Rightarrow> ('s, pipeline_snapshot) coro"
  dp_technical :: "(string, frame option) pydict \<Rightarrow> string \<Rightarrow> string \<Rightarrow> ('s, technical_result) coro"
  dp_strategy :: "strategy_input \<Rightarrow> ('s, aggregated_signal) coro"
  dp_decision :: "string \<Rightarrow> string \<Rightarrow> pipeline_snapshot \<Rightarrow> technical_result \<Rightarrow> aggregated_signal
    \<Rightarrow> account_state \<Rightarrow> config option \<Rightarrow> ('s, decision_result) coro"
  dp_reviewer :: "review_input \<Rightarrow> ('s, ai_review_result) coro"
  dp_risk :: "trade_candidate \<Rightarrow> user_context \<Rightarrow> account_state \<Rightarrow> rat \<Rightarrow> rat \<Rightarrow> rat \<Rightarrow> int \<Rightarrow> int
    \<Rightarrow> open_position option \<Rightarrow> regime_arg \<Rightarrow> funding_context option \<Rightarrow> ('s, validation_result) coro"
  dp_portfolio :: "open_position list \<Rightarrow> account_context \<Rightarrow> rat \<Rightarrow> ('s, bool \<times> portfolio_reason) coro"
  dp_position_manager :: "string \<Rightarrow> raw_signal \<Rightarrow> validation_result \<Rightarrow> ('s, position_state \<times> rat) coro"
  dp_execution :: "shadow_request \<Rightarrow> ('s, execution_result) coro"
  dp_post_trade_hook :: "(post_trade_event \<Rightarrow> ('s, unit) act) option"
  dp_alert_dispatcher :: "(alert_event \<Rightarrow> 's \<Rightarrow> 's) option"

record 's orchestrator =
  oc_deps :: "'s deps"
  oc_runner :: "'s agent_runner"
  oc_log_step :: "agent_step \<Rightarrow> 's \<Rightarrow> 's"
  oc_log_decision :: "decision_log \<Rightarrow> 's \<Rightarrow> 's"
  oc_log_pipeline :: "pipeline_result \<Rightarrow> 's \<Rightarrow> 's"

type_synonym 's run_state = "'s \<times> agent_step list"
type_synonym 's run_act = "('s run_state, pipeline_result) act"

section \<open>The local functions of \<open>run\<close>\<close>

text \<open>\<open>_run_step\<close>: the output is \<open>None\<close> when the step failed.\<close>

definition run_step :: "'s orchestrator \<Rightarrow> string \<Rightarrow> ('s, 'a) coro \<Rightarrow> ('s run_state, 'a option) act" where
  "run_step oc name coro = (\<lambda>(s, steps).
     case runner_run (oc_runner oc) name coro (STEP_TIMEOUT name) (STEP_RETRIES name) s of
       (s1, r, x) \<Rightarrow> ((oc_log_step oc r s1, steps @ [r]), Inr x))"

definition on_world :: "('s \<Rightarrow> 's) \<Rightarrow> ('s run_state, unit) act" where
  "on_world f = (\<lambda>(s, steps). ((f s, steps), Inr ()))"

definition finish ::
    "'s orchestrator \<Rightarrow> pipeline_input \<Rightarrow> pipeline_status \<Rightarrow> pipeline_reason option \<Rightarrow> string list
       \<Rightarrow> execution_result option \<Rightarrow> 's run_act" where
  "finish oc inp status reason skip er = (\<lambda>(s, steps).
     let steps1 = append_skipped steps skip (case reason of Some r \<Rightarrow> r | None \<Rightarrow> Upstream);
         result = \<lparr>pr_coin = pi_coin inp, pr_status = status, pr_steps = steps1,
                   pr_execution_result = er, pr_rejection_reason = reason\<rparr>
     in ((oc_log_pipeline oc result s, steps1), Inr result))"

definition log_decision ::
    "'s orchestrator \<Rightarrow> pipeline_input \<Rightarrow> pipeline_context \<Rightarrow> pipeline_reason option \<Rightarrow> execution_result option
       \<Rightarrow> string option \<Rightarrow> ('s run_state, unit) act" where
  "log_decision oc inp ctx reason er stage =
     on_world (oc_log_decision oc (build_decision_log inp ctx reason er stage))"

text \<open>An early end: log the reason with its stage, and skip the steps from index \<open>n\<close> on.\<close>

definition stop_run ::
    "'s orchestrator \<Rightarrow> pipeline_input \<Rightarrow> pipeline_context \<Rightarrow> pipeline_status \<Rightarrow> pipeline_reason \<Rightarrow> string \<Rightarrow> nat
       \<Rightarrow> 's run_act" where
  "stop_run oc inp ctx status reason stage n =
     act_bind (log_decision oc inp ctx (Some reason) None (Some stage)) (\<lambda>_.
     finish oc inp status (Some reason) (drop n STEP_NAMES) None)"

definition add_error :: "string \<Rightarrow> pipeline_context \<Rightarrow> pipeline_context" where
  "add_error agent ctx = ctx\<lparr>pc_errors := pc_errors ctx @ [agent]\<rparr>"

section \<open>Step 10: execution\<close>

definition fire_post_trade_hook ::
    "'s deps \<Rightarrow> pipeline_input \<Rightarrow> pipeline_context \<Rightarrow> execution_result \<Rightarrow> 's \<Rightarrow> 's" where
  "fire_post_trade_hook d inp ctx er s =
     (case (dp_post_trade_hook d, build_post_trade_event inp ctx er) of
        (Some hook, Some event) \<Rightarrow> fst (hook event s) | _ \<Rightarrow> s)"

definition fire_alert :: "'s deps \<Rightarrow> alert_event option \<Rightarrow> 's \<Rightarrow> 's" where
  "fire_alert d event s =
     (case (dp_alert_dispatcher d, event) of (Some send, Some e) \<Rightarrow> send e s | _ \<Rightarrow> s)"

definition after_execution ::
    "'s orchestrator \<Rightarrow> pipeline_input \<Rightarrow> pipeline_context \<Rightarrow> execution_result \<Rightarrow> 's run_act" where
  "after_execution oc inp ctx er =
     (let d = oc_deps oc in
      if xr_emergency_close_failed er
      then act_bind (log_decision oc inp ctx (Some EmergencyCloseFailed) (Some er) (Some ''execution'')) (\<lambda>_.
           finish oc inp PipeFailed (Some EmergencyCloseFailed) [] (Some er))
      else if xr_tp_sl_failed er
      then act_bind (on_world (fire_post_trade_hook d inp ctx er)) (\<lambda>_.
           act_bind (on_world (fire_alert d (emergency_event inp ctx er))) (\<lambda>_.
           act_bind (log_decision oc inp ctx (Some EmergencyCloseDone) (Some er) (Some ''execution'')) (\<lambda>_.
           finish oc inp PipeEmergencyClosed (Some EmergencyCloseDone) [] (Some er))))
      else act_bind (on_world (if xr_executed er then fire_alert d (order_filled_event inp ctx er)
                               else (\<lambda>s. s))) (\<lambda>_.
           act_bind (log_decision oc inp ctx None (Some er) None) (\<lambda>_.
           finish oc inp PipeCompleted None [] (Some er))))"

definition step_execution ::
    "'s orchestrator \<Rightarrow> pipeline_input \<Rightarrow> pipeline_context \<Rightarrow> decision_result \<Rightarrow> raw_signal
       \<Rightarrow> open_position option \<Rightarrow> 's run_act" where
  "step_execution oc inp ctx d raw same_coin =
     act_bind (run_step oc ''execution''
        (dp_execution (oc_deps oc) (build_execution_request inp ctx d raw same_coin))) (\<lambda>out.
     case out of
       None \<Rightarrow>
         let ctx = add_error ''execution'' ctx
         in act_bind (log_decision oc inp ctx (Some ExecutionFailed) None (Some ''execution'')) (\<lambda>_.
            finish oc inp PipeFailed (Some ExecutionFailed) [] None)
     | Some er \<Rightarrow> after_execution oc inp (ctx\<lparr>pc_execution_result := Some er\<rparr>) er)"

section \<open>Steps 9 to 6: position manager, portfolio, final decision, risk\<close>

definition step_position_manager ::
    "'s orchestrator \<Rightarrow> pipeline_input \<Rightarrow> pipeline_context \<Rightarrow> decision_result \<Rightarrow> raw_signal
       \<Rightarrow> open_position option \<Rightarrow> validation_result \<Rightarrow> 's run_act" where
  "step_position_manager oc inp ctx d raw same_coin v =
     act_bind (run_step oc ''position_manager''
        (dp_position_manager (oc_deps oc)
           (case pi_user_id inp of Some u \<Rightarrow> u | None \<Rightarrow> []) raw v)) (\<lambda>out.
     case out of
       None \<Rightarrow> stop_run oc inp (add_error ''position_manager'' ctx) PipeFailed PositionManagerFailed
                 ''position_manager'' 9
     | Some p \<Rightarrow> step_execution oc inp (ctx\<lparr>pc_position_state := Some p\<rparr>) d raw same_coin)"

definition step_portfolio ::
    "'s orchestrator \<Rightarrow> pipeline_input \<Rightarrow> pipeline_context \<Rightarrow> decision_result \<Rightarrow> raw_signal
       \<Rightarrow> open_position option \<Rightarrow> validation_result \<Rightarrow> 's run_act" where
  "step_portfolio oc inp ctx d raw same_coin v =
     act_bind (run_step oc ''portfolio''
        (dp_portfolio (oc_deps oc) (pi_open_positions inp) (pi_portfolio_account inp)
           (or_zero (vr_max_loss_usdt v)))) (\<lambda>out.
     case out of
       None \<Rightarrow> stop_run oc inp (add_error ''portfolio'' ctx) PipeRejected PortfolioFailed ''portfolio'' 8
     | Some (can_add, why) \<Rightarrow>
         let ctx = ctx\<lparr>pc_portfolio_check := Some (can_add, why)\<rparr>
         in if \<not> can_add then stop_run oc inp ctx PipeRejected (PortfolioRefusal why) ''portfolio'' 8
            else step_position_manager oc inp ctx d raw same_coin v)"

definition step_final_decision ::
    "'s orchestrator \<Rightarrow> pipeline_input \<Rightarrow> pipeline_context \<Rightarrow> decision_result \<Rightarrow> raw_signal
       \<Rightarrow> open_position option \<Rightarrow> validation_result \<Rightarrow> 's run_act" where
  "step_final_decision oc inp ctx d raw same_coin v =
     act_bind (run_step oc ''final_decision''
        (to_thread (decide_final_action (pc_candidate ctx) (pc_ai_review ctx)
           (map_option RiskValidation (pc_risk_result ctx)) (pi_decision_config inp)))) (\<lambda>out.
     case out of
       None \<Rightarrow> stop_run oc inp (add_error ''final_decision'' ctx) PipeHold FinalDecisionFailed
                 ''final_decision'' 7
     | Some f \<Rightarrow>
         let ctx = ctx\<lparr>pc_final_decision := Some f\<rparr>
         in if fd_action f = HOLD
            then stop_run oc inp ctx PipeHold (FinalHold (fd_reason f)) ''final_decision'' 7
            else step_portfolio oc inp ctx d raw same_coin v)"

definition step_risk ::
    "'s orchestrator \<Rightarrow> pipeline_input \<Rightarrow> pipeline_context \<Rightarrow> decision_result \<Rightarrow> pipeline_snapshot
       \<Rightarrow> 's run_act" where
  "step_risk oc inp ctx d snap =
     (let c = dr_candidate d;
          raw = build_raw_signal (pi_coin inp) (pi_coin inp @ ''USDT'') c (dr_confidence d);
          ctx = ctx\<lparr>pc_raw_signal := Some raw\<rparr>;
          same_coin = find_same_coin_position (pi_open_positions inp) (pi_coin inp) (sg_direction raw)
      in act_bind (run_step oc ''risk''
           (dp_risk (oc_deps oc) c (pi_user_ctx inp) (pi_account_state inp)
              (or_zero (pi_daily_loss_usdt inp)) (or_zero (pi_weekly_loss_usdt inp))
              (or_zero (pi_weekly_limit_usdt inp)) (pi_consecutive_losses inp)
              (int (length (pi_open_positions inp))) same_coin (RegimeResult (dr_regime d))
              (ps_funding_context snap))) (\<lambda>out.
      case out of
        None \<Rightarrow> stop_run oc inp (add_error ''risk'' ctx) PipeHold RiskException ''risk'' 6
      | Some v \<Rightarrow>
          let ctx = ctx\<lparr>pc_risk_result := Some v\<rparr>
          in if \<not> vr_approved v
             then stop_run oc inp ctx PipeHold (RiskRefusal (vr_rejection_reason v)) ''risk'' 6
             else step_final_decision oc inp ctx d raw same_coin v))"

section \<open>Steps 5 to 1: review, decision, strategy, analysis, market data\<close>

definition step_ai_review ::
    "'s orchestrator \<Rightarrow> pipeline_input \<Rightarrow> pipeline_context \<Rightarrow> decision_result \<Rightarrow> pipeline_snapshot
       \<Rightarrow> 's run_act" where
  "step_ai_review oc inp ctx d snap =
     (if \<not> ai_review_required (pi_decision_config inp)
      then act_bind (\<lambda>(s, steps). ((s, append_skipped steps [''ai_review''] ShadowReviewSkipped), Inr ())) (\<lambda>_.
           step_risk oc inp (ctx\<lparr>pc_ai_review := Some shadow_ai_review_skipped\<rparr>) d snap)
      else act_bind (run_step oc ''ai_review''
             (dp_reviewer (oc_deps oc) (build_review_input (pi_coin inp @ ''USDT'') d (dr_candidate d)))) (\<lambda>out.
           case out of
             None \<Rightarrow> stop_run oc inp ((add_error ''ai_review'' ctx)\<lparr>pc_ai_review := Some safe_reject_review\<rparr>)
                       PipeHold ReviewFailed ''ai_review'' 5
           | Some review \<Rightarrow>
               let ctx = ctx\<lparr>pc_ai_review := Some review\<rparr>
               in if ar_review_action review = REJECT
                  then stop_run oc inp ctx PipeHold ReviewRefusal ''ai_review'' 5
                  else step_risk oc inp ctx d snap))"

definition step_decision ::
    "'s orchestrator \<Rightarrow> pipeline_input \<Rightarrow> pipeline_context \<Rightarrow> pipeline_snapshot \<Rightarrow> technical_result
       \<Rightarrow> aggregated_signal \<Rightarrow> 's run_act" where
  "step_decision oc inp ctx snap technical signal =
     act_bind (run_step oc ''decision''
        (dp_decision (oc_deps oc) (pi_coin inp) (pi_coin inp @ ''USDT'') snap technical signal
           (pi_account_state inp) (pi_decision_config inp))) (\<lambda>out.
     case out of
       None \<Rightarrow> stop_run oc inp (add_error ''decision'' ctx) PipeHold DecisionFailed ''decision'' 4
     | Some d \<Rightarrow>
         let ctx = ctx\<lparr>pc_decision_result := Some d, pc_candidate := Some (dr_candidate d)\<rparr>
         in if tc_action (dr_candidate d) = HOLD
            then stop_run oc inp ctx PipeHold CandidateHeld ''decision'' 4
            else step_ai_review oc inp ctx d snap)"

text \<open>
  A failed strategy or analysis is replaced by its neutral result. The price of the strategy's input
  is \<open>Decimal(str(...))\<close> of the snapshot's entry, computed outside every step: an entry that is no
  number raises out of the run.
\<close>

definition step_strategy ::
    "'s orchestrator \<Rightarrow> pipeline_input \<Rightarrow> pipeline_context \<Rightarrow> pipeline_snapshot \<Rightarrow> technical_result
       \<Rightarrow> 's run_act" where
  "step_strategy oc inp ctx snap technical =
     act_bind (act_read (\<lambda>_. case d_decimal (get_or (ms_values snap) ''current_price'' (DInt 0)) of
         None \<Rightarrow> Inl InvalidOperation | Some price \<Rightarrow> Inr price)) (\<lambda>price.
     act_bind (run_step oc ''strategy'' (dp_strategy (oc_deps oc)
        \<lparr>si_coin = pi_coin inp, si_symbol = pi_coin inp @ ''USDT'', si_current_price = price,
         si_ta_result = technical\<rparr>)) (\<lambda>out.
     case out of
       None \<Rightarrow> step_decision oc inp
          ((add_error ''strategy'' ctx)\<lparr>pc_strategy_signal := Some neutral_strategy_signal\<rparr>) snap
          technical neutral_strategy_signal
     | Some signal \<Rightarrow> step_decision oc inp (ctx\<lparr>pc_strategy_signal := Some signal\<rparr>) snap technical signal))"

definition step_technical ::
    "'s orchestrator \<Rightarrow> pipeline_input \<Rightarrow> pipeline_context \<Rightarrow> pipeline_snapshot \<Rightarrow> 's run_act" where
  "step_technical oc inp ctx snap =
     act_bind (run_step oc ''technical''
        (dp_technical (oc_deps oc) (ps_ohlcv snap) (pi_coin inp) (pi_coin inp @ ''USDT''))) (\<lambda>out.
     case out of
       None \<Rightarrow> step_strategy oc inp ((add_error ''technical'' ctx)\<lparr>pc_tech_result := Some neutral_ta_result\<rparr>)
                 snap neutral_ta_result
     | Some t \<Rightarrow> step_strategy oc inp (ctx\<lparr>pc_tech_result := Some t\<rparr>) snap t)"

definition step_market_data :: "'s orchestrator \<Rightarrow> pipeline_input \<Rightarrow> pipeline_context \<Rightarrow> 's run_act" where
  "step_market_data oc inp ctx =
     act_bind (run_step oc ''market_data'' (dp_market_data (oc_deps oc) (pi_coin inp))) (\<lambda>out.
     case out of
       None \<Rightarrow> stop_run oc inp (add_error ''market_data'' ctx) PipeFailed MarketDataFailed ''market_data'' 1
     | Some snap \<Rightarrow> step_technical oc inp (ctx\<lparr>pc_market_snapshot := Some snap\<rparr>) snap)"

definition pipeline_run :: "'s orchestrator \<Rightarrow> pipeline_input \<Rightarrow> ('s, pipeline_result) act" where
  "pipeline_run oc inp s =
     (case step_market_data oc inp (new_context inp) (s, []) of ((s1, steps), r) \<Rightarrow> (s1, r))"

end
