(* ===== verification/PipelineProps.thy ===== *)
theory PipelineProps
  imports Pipeline ExecutionProps
begin

text \<open>
  What every run of the orchestrator guarantees. The interface \<open>pipeline_world\<close> lists what the
  agents, the log, the alerts and the hook may do to an invariant of the world; its one rule walks
  through the ten steps, and the properties are its interpretations.
\<close>

section \<open>Clearance of an execution\<close>

definition returned :: "('s, 'a) coro \<Rightarrow> 'a \<Rightarrow> bool" where
  "returned c x \<longleftrightarrow> (\<exists>t s s1. c t s = (s1, Returned x))"

text \<open>
  What happened before an execution request was built: the decision made a candidate to trade from
  the snapshot, the reviewer did not reject it (or no review is required), the risk agent approved
  it, the final decision is to trade, the portfolio admits it and the position manager took it; the
  request carries exactly these results.
\<close>

definition pipeline_cleared :: "'s orchestrator \<Rightarrow> pipeline_input \<Rightarrow> shadow_request \<Rightarrow> bool" where
  "pipeline_cleared oc inp req \<longleftrightarrow>
     (\<exists>snap technical signal d review v f why p.
       returned (dp_market_data (oc_deps oc) (pi_coin inp)) snap \<and>
       returned (dp_decision (oc_deps oc) (pi_coin inp) (pi_coin inp @ ''USDT'') snap technical signal
          (pi_account_state inp) (pi_decision_config inp)) d \<and>
       tc_action (dr_candidate d) \<noteq> HOLD \<and>
       (if ai_review_required (pi_decision_config inp)
        then returned (dp_reviewer (oc_deps oc)
               (build_review_input (pi_coin inp @ ''USDT'') d (dr_candidate d))) review \<and>
             ar_review_action review = APPROVE
        else review = shadow_ai_review_skipped) \<and>
       returned (dp_risk (oc_deps oc) (dr_candidate d) (pi_user_ctx inp) (pi_account_state inp)
          (or_zero (pi_daily_loss_usdt inp)) (or_zero (pi_weekly_loss_usdt inp))
          (or_zero (pi_weekly_limit_usdt inp)) (pi_consecutive_losses inp)
          (int (length (pi_open_positions inp))) (er_same_coin_position req)
          (RegimeResult (dr_regime d)) (ps_funding_context snap)) v \<and>
       vr_approved v \<and>
       decide_final_action (Some (dr_candidate d)) (Some review) (Some (RiskValidation v))
         (pi_decision_config inp) = Inr f \<and>
       fd_action f \<noteq> HOLD \<and>
       returned (dp_portfolio (oc_deps oc) (pi_open_positions inp) (pi_portfolio_account inp)
          (or_zero (vr_max_loss_usdt v))) (True, why) \<and>
       returned (dp_position_manager (oc_deps oc) (case pi_user_id inp of Some u \<Rightarrow> u | None \<Rightarrow> [])
          (er_signal req) v) p \<and>
       er_signal req = build_raw_signal (pi_coin inp) (pi_coin inp @ ''USDT'') (dr_candidate d) (dr_confidence d) \<and>
       er_user_ctx req = pi_user_ctx inp \<and>
       er_candidate req = Some (dr_candidate d) \<and> er_final_decision req = Some f \<and>
       er_approved_validation req = Some v)"

section \<open>The record of a run\<close>

definition ran_or_bypassed :: "agent_step \<Rightarrow> bool" where
  "ran_or_bypassed x \<longleftrightarrow> an_status x \<in> {AgentSuccess, AgentFailed} \<or>
     an_agent_name x = ''ai_review'' \<and> an_error x = Some (SkipReason ShadowReviewSkipped)"

definition essential_ok :: "agent_step \<Rightarrow> bool" where
  "essential_ok x \<longleftrightarrow> an_status x = AgentSuccess \<or>
     an_agent_name x \<in> {''technical'', ''strategy'', ''ai_review''}"

definition skipped_for :: "pipeline_reason option \<Rightarrow> agent_step \<Rightarrow> bool" where
  "skipped_for reason x \<longleftrightarrow> an_status x = AgentSkipped \<and>
     (\<exists>why. reason = Some why \<and> an_error x = Some (SkipReason why))"

definition recorded_run :: "pipeline_result \<Rightarrow> bool" where
  "recorded_run r \<longleftrightarrow>
     map an_agent_name (pr_steps r) = STEP_NAMES \<and>
     (\<exists>n>0. list_all ran_or_bypassed (take n (pr_steps r)) \<and>
        list_all (skipped_for (pr_rejection_reason r)) (drop n (pr_steps r))) \<and>
     (pr_status r = PipeCompleted \<longleftrightarrow> pr_rejection_reason r = None) \<and>
     (pr_status r \<in> {PipeCompleted, PipeEmergencyClosed} \<longrightarrow> list_all essential_ok (pr_steps r)) \<and>
     (pr_execution_result r \<noteq> None \<longrightarrow> list_all essential_ok (pr_steps r))"

definition so_far :: "nat \<Rightarrow> agent_step list \<Rightarrow> bool" where
  "so_far n steps \<longleftrightarrow> map an_agent_name steps = take n STEP_NAMES \<and> list_all ran_or_bypassed steps \<and>
     list_all essential_ok steps"

lemma STEP_length: "length STEP_NAMES = 10"
  by (simp add: STEP_NAMES_def)

lemma take_step: "m < 10 \<Longrightarrow> take (Suc m) STEP_NAMES = take m STEP_NAMES @ [STEP_NAMES ! m]"
  by (simp add: take_Suc_conv_app_nth STEP_length)

lemma skip_rest:
  assumes "map an_agent_name steps = take n STEP_NAMES"
  shows "append_skipped steps (drop n STEP_NAMES) why =
      steps @ map (\<lambda>m. mark_skipped why (new_result m AgentPending)) (drop n STEP_NAMES)"
proof -
  have "distinct STEP_NAMES" by (simp add: STEP_NAMES_def)
  then have "set (take n STEP_NAMES) \<inter> set (drop n STEP_NAMES) = {}"
    by (simp add: set_take_disj_set_drop_if_distinct)
  moreover have "an_agent_name ` set steps = set (take n STEP_NAMES)" using assms by (metis set_map)
  ultimately show ?thesis by (auto simp: append_skipped_def intro!: arg_cong [of _ _ "map _"] filter_True)
qed

lemma finish_stopped:
  assumes "map an_agent_name steps = take n STEP_NAMES" "list_all ran_or_bypassed steps" "0 < n" "n < 11"
    "status \<notin> {PipeCompleted, PipeEmergencyClosed}"
    "finish oc inp status (Some why) (drop n STEP_NAMES) None (s, steps) = (st1, res)"
  shows "st1 = (oc_log_pipeline oc (projr res) s, pr_steps (projr res)) \<and> (\<exists>r. res = Inr r \<and> recorded_run r)"
proof -
  have len: "length steps = n"
    using arg_cong [OF assms(1), of length] assms(4) by (simp add: STEP_NAMES_def)
  let ?rest = "map (\<lambda>m. mark_skipped why (new_result m AgentPending)) (drop n STEP_NAMES)"
  have "list_all (skipped_for (Some why)) ?rest"
    by (simp add: list_all_iff skipped_for_def mark_skipped_def)
  moreover have "map an_agent_name (steps @ ?rest) = STEP_NAMES"
    using assms(1) by (simp add: mark_skipped_def new_result_def comp_def)
  ultimately show ?thesis
    using assms(2,3,5,6) len unfolding finish_def skip_rest [OF assms(1)] option.case Let_def split
    by (auto simp: recorded_run_def intro!: exI [of _ "length steps"])
qed

section \<open>The interface\<close>

definition keeps_inv :: "('s \<Rightarrow> bool) \<Rightarrow> ('s, 'a) coro \<Rightarrow> bool" where
  "keeps_inv I c \<longleftrightarrow> (\<forall>t s. I s \<longrightarrow> I (fst (c t s)))"

lemma keeps_inv_to_thread [simp]: "keeps_inv I (to_thread r)"
  by (auto simp: keeps_inv_def to_thread_def coro_of_def act_read_def split: sum.splits)

text \<open>The one way to raise: a snapshot whose price entry is no number.\<close>

definition priceless :: "'s orchestrator \<Rightarrow> pipeline_input \<Rightarrow> bool" where
  "priceless oc inp \<longleftrightarrow> (\<exists>snap. returned (dp_market_data (oc_deps oc) (pi_coin inp)) snap \<and>
     d_decimal (get_or (ms_values snap) ''current_price'' (DInt 0)) = None)"

definition ends_well ::
    "'s orchestrator \<Rightarrow> pipeline_input \<Rightarrow> ('s \<Rightarrow> bool) \<Rightarrow> 's run_state \<times> pipeline_result result \<Rightarrow> bool" where
  "ends_well oc inp I z \<longleftrightarrow> I (fst (fst z)) \<and>
     (case snd z of Inr r \<Rightarrow> recorded_run r | Inl e \<Rightarrow> e = InvalidOperation \<and> priceless oc inp)"

locale pipeline_world =
  fixes oc :: "'s orchestrator" and inp :: pipeline_input and I :: "'s \<Rightarrow> bool"
  assumes market: "keeps_inv I (dp_market_data (oc_deps oc) coin)"
    and technical: "keeps_inv I (dp_technical (oc_deps oc) ohlcv coin symbol)"
    and strategy: "keeps_inv I (dp_strategy (oc_deps oc) si)"
    and decision: "keeps_inv I (dp_decision (oc_deps oc) coin symbol snap ta signal account config)"
    and reviewer: "keeps_inv I (dp_reviewer (oc_deps oc) ri)"
    and risk: "keeps_inv I (dp_risk (oc_deps oc) c ctx account daily weekly weekly_limit losses n same regime funding)"
    and portfolio: "keeps_inv I (dp_portfolio (oc_deps oc) ps pa new_risk)"
    and position_manager: "keeps_inv I (dp_position_manager (oc_deps oc) user raw v)"
    and execution: "pipeline_cleared oc inp req \<Longrightarrow> keeps_inv I (dp_execution (oc_deps oc) req)"
    and hook: "dp_post_trade_hook (oc_deps oc) = Some h \<Longrightarrow> build_post_trade_event inp pc er = Some event \<Longrightarrow>
      I s \<Longrightarrow> I (fst (h event s))"
    and alert: "dp_alert_dispatcher (oc_deps oc) = Some send \<Longrightarrow> I s \<Longrightarrow> I (send e s)"
    and sleep: "I s \<Longrightarrow> I (ru_sleep (oc_runner oc) delay s)"
    and log_step: "I s \<Longrightarrow> I (oc_log_step oc sr s)"
    and log_row: "I s \<Longrightarrow> I (oc_log_decision oc row s)"
    and log_run: "I s \<Longrightarrow> I (oc_log_pipeline oc result s)"
begin

text \<open>The rule of a step: what is left is the continuation, after a failure and after an output.\<close>

lemma step_rule:
  assumes "keeps_inv I coro" "I s"
    "\<And>s2 r. I s2 \<Longrightarrow> an_agent_name r = name \<Longrightarrow> an_status r = AgentFailed \<Longrightarrow>
       ends_well oc inp I (k None (s2, steps @ [r]))"
    "\<And>s2 r y. I s2 \<Longrightarrow> an_agent_name r = name \<Longrightarrow> an_status r = AgentSuccess \<Longrightarrow> returned coro y \<Longrightarrow>
       ends_well oc inp I (k (Some y) (s2, steps @ [r]))"
  shows "ends_well oc inp I (act_bind (run_step oc name coro) k (s, steps))"
proof -
  obtain s1 x and r :: agent_step where e: "runner_run (oc_runner oc) name coro (STEP_TIMEOUT name) (STEP_RETRIES name) s = (s1, r, x)"
    by (metis prod.collapse)
  have keep: "I s1 \<and> (\<forall>x. w = Returned x \<longrightarrow> returned coro x)" if "I s2" "coro t s2 = (s1, w)" for s2 s1 t w
    using assms(1) that unfolding keeps_inv_def returned_def by (metis fst_conv)
  have r: "I s1 \<and> (case x of Some y \<Rightarrow> returned coro y \<and> an_status r = AgentSuccess
      | None \<Rightarrow> an_status r = AgentFailed) \<and> an_agent_name r = name"
    by (rule runner_run_rule [where I = I, OF keep sleep assms(2) e])
  then have I: "I (oc_log_step oc r s1)" using log_step by blast
  show ?thesis
    using r assms(3) [OF I] assms(4) [OF I] by (cases x) (auto simp: act_bind_def run_step_def e)
qed

lemma stop_ends:
  assumes "map an_agent_name steps = take n STEP_NAMES" "list_all ran_or_bypassed steps" "0 < n" "n < 11"
    "status \<notin> {PipeCompleted, PipeEmergencyClosed}" "I s"
  shows "ends_well oc inp I (stop_run oc inp ctx status why stage n (s, steps))"
proof -
  let ?s = "oc_log_decision oc (build_decision_log inp ctx (Some why) None (Some stage)) s"
  obtain st1 res where e: "finish oc inp status (Some why) (drop n STEP_NAMES) None (?s, steps) = (st1, res)"
    by fastforce
  have "stop_run oc inp ctx status why stage n (s, steps) = (st1, res)"
    by (simp add: stop_run_def act_bind_def log_decision_def on_world_def e)
  then show ?thesis
    using finish_stopped [OF assms(1-5) e] log_run log_row assms(6) by (auto simp: ends_well_def)
qed

text \<open>A failed step ends the run; \<open>n\<close> steps are recorded, the last of them failed or refused.\<close>

lemma stop_after:
  assumes "so_far m steps" "an_agent_name r = STEP_NAMES ! m" "an_status r \<in> {AgentFailed, AgentSuccess}"
    "m < 10" "n = m + 1" "status \<notin> {PipeCompleted, PipeEmergencyClosed}" "I s"
  shows "ends_well oc inp I (stop_run oc inp ctx status why stage n (s, steps @ [r]))"
proof (rule stop_ends)
  show "map an_agent_name (steps @ [r]) = take n STEP_NAMES"
    using assms(1,2,4,5) by (simp add: so_far_def take_step)
qed (use assms in \<open>auto simp: so_far_def ran_or_bypassed_def\<close>)

lemma so_far_snoc:
  assumes "so_far m steps" "an_agent_name r = STEP_NAMES ! m" "m < 10"
    "an_status r = AgentSuccess \<or> an_status r = AgentFailed \<and> STEP_NAMES ! m \<in> {''technical'', ''strategy''}"
  shows "so_far (Suc m) (steps @ [r])"
  using assms by (auto simp: so_far_def take_step ran_or_bypassed_def essential_ok_def)

text \<open>The end of a run all of whose steps are recorded.\<close>

lemma finish_complete:
  assumes "map an_agent_name steps = STEP_NAMES" "list_all ran_or_bypassed steps" "I s"
    "er \<noteq> None \<or> status \<in> {PipeCompleted, PipeEmergencyClosed} \<Longrightarrow> list_all essential_ok steps"
    "status = PipeCompleted \<longleftrightarrow> reason = None"
  shows "ends_well oc inp I (finish oc inp status reason [] er (s, steps))"
proof -
  have len: "length steps = 10" using arg_cong [OF assms(1), of length] by (simp add: STEP_length)
  then have "list_all ran_or_bypassed (take 10 steps) \<and> list_all (skipped_for reason) (drop 10 steps)"
    using assms(2) by simp
  then have "\<exists>n>0. list_all ran_or_bypassed (take n steps) \<and> list_all (skipped_for reason) (drop n steps)"
    by (intro exI [of _ 10]) simp
  then show ?thesis
    using assms log_run
    by (auto simp: finish_def ends_well_def recorded_run_def append_skipped_def Let_def)
qed

lemma logged_finish:
  assumes "map an_agent_name steps = STEP_NAMES" "list_all ran_or_bypassed steps" "I s"
    "er \<noteq> None \<or> status \<in> {PipeCompleted, PipeEmergencyClosed} \<Longrightarrow> list_all essential_ok steps"
    "status = PipeCompleted \<longleftrightarrow> reason = None"
  shows "ends_well oc inp I (act_bind (log_decision oc inp ctx why er2 stage)
    (\<lambda>_. finish oc inp status reason [] er) (s, steps))"
  using finish_complete [OF assms(1,2) _ assms(4,5)] log_row [OF assms(3)]
  by (simp add: log_decision_def on_world_def act_bind_def)

lemma world_then:
  "(I s \<Longrightarrow> I (f s)) \<Longrightarrow> I s \<Longrightarrow> (\<And>s1. I s1 \<Longrightarrow> ends_well oc inp I (k () (s1, steps))) \<Longrightarrow>
   ends_well oc inp I (act_bind (on_world f) k (s, steps))"
  by (simp add: on_world_def act_bind_def)

lemma hook_keeps: "I s \<Longrightarrow> I (fire_post_trade_hook (oc_deps oc) inp pc er s)"
  using hook by (auto simp: fire_post_trade_hook_def split: option.splits)

lemma alert_keeps: "I s \<Longrightarrow> I (fire_alert (oc_deps oc) event s)"
  using alert by (auto simp: fire_alert_def split: option.splits)

lemma after_execution_ends:
  assumes "so_far 10 steps" "I s"
  shows "ends_well oc inp I (after_execution oc inp pc er (s, steps))"
proof -
  have st: "map an_agent_name steps = STEP_NAMES" "list_all ran_or_bypassed steps" "list_all essential_ok steps"
    using assms(1) by (simp_all add: so_far_def STEP_length)
  show ?thesis
    using assms(2) st unfolding after_execution_def Let_def
    by (auto intro!: world_then logged_finish hook_keeps alert_keeps)
qed

lemma request_upd [simp]:
  "build_execution_request inp (pc\<lparr>pc_position_state := p\<rparr>) = build_execution_request inp pc"
  "build_execution_request inp (pc\<lparr>pc_portfolio_check := q\<rparr>) = build_execution_request inp pc"
  by (simp_all add: build_execution_request_def fun_eq_iff)

lemma execution_ends:
  assumes "pipeline_cleared oc inp (build_execution_request inp pc d raw same)" "so_far 9 steps" "I s"
  shows "ends_well oc inp I (step_execution oc inp pc d raw same (s, steps))"
  unfolding step_execution_def
proof (rule step_rule [OF execution [OF assms(1)] assms(3)], goal_cases)
  case (1 s2 r)
  have "map an_agent_name (steps @ [r]) = STEP_NAMES" "list_all ran_or_bypassed (steps @ [r])"
    using assms(2) 1 take_step [of 9] by (simp_all add: so_far_def STEP_length ran_or_bypassed_def STEP_NAMES_def)
  then show ?case using 1(1) by (auto simp: Let_def intro!: logged_finish)
next
  case (2 s2 r y)
  then show ?case
    using so_far_snoc [OF assms(2), of r] by (auto simp: STEP_NAMES_def intro!: after_execution_ends)
qed

lemma position_ends:
  assumes "\<And>p. returned (dp_position_manager (oc_deps oc) (case pi_user_id inp of Some u \<Rightarrow> u | None \<Rightarrow> []) raw v) p
      \<Longrightarrow> pipeline_cleared oc inp (build_execution_request inp pc d raw same)"
    "so_far 8 steps" "I s"
  shows "ends_well oc inp I (step_position_manager oc inp pc d raw same v (s, steps))"
  unfolding step_position_manager_def
  by (rule step_rule [OF position_manager assms(3)])
    (use so_far_snoc [OF assms(2)] assms(1) in \<open>auto simp: STEP_NAMES_def intro!: stop_after [OF assms(2)] execution_ends\<close>)

lemma portfolio_ends:
  assumes "\<And>p why. returned (dp_position_manager (oc_deps oc) (case pi_user_id inp of Some u \<Rightarrow> u | None \<Rightarrow> []) raw v) p
      \<Longrightarrow> returned (dp_portfolio (oc_deps oc) (pi_open_positions inp) (pi_portfolio_account inp)
            (or_zero (vr_max_loss_usdt v))) (True, why)
      \<Longrightarrow> pipeline_cleared oc inp (build_execution_request inp pc d raw same)"
    "so_far 7 steps" "I s"
  shows "ends_well oc inp I (step_portfolio oc inp pc d raw same v (s, steps))"
  unfolding step_portfolio_def
  by (rule step_rule [OF portfolio assms(3)])
    (use so_far_snoc [OF assms(2)] assms(1) in \<open>auto simp: STEP_NAMES_def Let_def intro!: stop_after [OF assms(2)] position_ends\<close>)

lemma returned_thread: "returned (to_thread r) y \<Longrightarrow> r = Inr y"
  by (cases r) (auto simp: returned_def to_thread_def coro_of_def act_read_def)

lemma final_ends:
  assumes "\<And>f p why. decide_final_action (pc_candidate pc) (pc_ai_review pc)
        (map_option RiskValidation (pc_risk_result pc)) (pi_decision_config inp) = Inr f \<Longrightarrow> fd_action f \<noteq> HOLD \<Longrightarrow>
      returned (dp_position_manager (oc_deps oc) (case pi_user_id inp of Some u \<Rightarrow> u | None \<Rightarrow> []) raw v) p \<Longrightarrow>
      returned (dp_portfolio (oc_deps oc) (pi_open_positions inp) (pi_portfolio_account inp)
            (or_zero (vr_max_loss_usdt v))) (True, why) \<Longrightarrow>
      pipeline_cleared oc inp (build_execution_request inp (pc\<lparr>pc_final_decision := Some f\<rparr>) d raw same)"
    "so_far 6 steps" "I s"
  shows "ends_well oc inp I (step_final_decision oc inp pc d raw same v (s, steps))"
  unfolding step_final_decision_def
  by (rule step_rule [OF keeps_inv_to_thread assms(3)])
    (use so_far_snoc [OF assms(2)] assms(1) in
      \<open>auto simp: STEP_NAMES_def Let_def dest!: returned_thread intro!: stop_after [OF assms(2)] portfolio_ends\<close>)

text \<open>From the risk check on: what the candidate and its review have passed is given.\<close>

lemma risk_ends:
  assumes "pc_candidate pc = Some (dr_candidate d)" "pc_ai_review pc = Some review"
    "returned (dp_market_data (oc_deps oc) (pi_coin inp)) snap"
    "returned (dp_decision (oc_deps oc) (pi_coin inp) (pi_coin inp @ ''USDT'') snap technical signal
       (pi_account_state inp) (pi_decision_config inp)) d"
    "tc_action (dr_candidate d) \<noteq> HOLD"
    "if ai_review_required (pi_decision_config inp)
     then returned (dp_reviewer (oc_deps oc)
            (build_review_input (pi_coin inp @ ''USDT'') d (dr_candidate d))) review \<and>
          ar_review_action review = APPROVE
     else review = shadow_ai_review_skipped"
    "so_far 5 steps" "I s"
  shows "ends_well oc inp I (step_risk oc inp pc d snap (s, steps))"
  unfolding step_risk_def Let_def
proof (rule step_rule [OF risk assms(8)], goal_cases)
  case (1 s2 r)
  then show ?case by (auto simp: STEP_NAMES_def intro!: stop_after [OF assms(7)])
next
  case (2 s2 r v)
  then have "so_far 6 (steps @ [r])" using so_far_snoc [OF assms(7)] by (simp add: STEP_NAMES_def)
  then show ?case
    using 2 assms(1-6)
    by (auto simp: STEP_NAMES_def intro!: stop_after [OF assms(7)] final_ends)
      (auto simp: pipeline_cleared_def build_execution_request_def build_raw_signal_def intro!: exI)
qed

lemma review_cases: "ar_review_action review = REJECT \<or> ar_review_action review = APPROVE"
  by (cases "ar_review_action review") simp_all

lemma review_ends:
  assumes "pc_candidate pc = Some (dr_candidate d)"
    "returned (dp_market_data (oc_deps oc) (pi_coin inp)) snap"
    "returned (dp_decision (oc_deps oc) (pi_coin inp) (pi_coin inp @ ''USDT'') snap technical signal
       (pi_account_state inp) (pi_decision_config inp)) d"
    "tc_action (dr_candidate d) \<noteq> HOLD" "so_far 4 steps" "I s"
  shows "ends_well oc inp I (step_ai_review oc inp pc d snap (s, steps))"
proof (cases "ai_review_required (pi_decision_config inp)")
  case False
  let ?steps = "append_skipped steps [''ai_review''] ShadowReviewSkipped"
  have names: "map an_agent_name steps = take 4 STEP_NAMES" using assms(5) by (simp add: so_far_def)
  have "an_agent_name ` set steps = set (take 4 STEP_NAMES)" using names by (metis set_map)
  then have "?steps = steps @ [mark_skipped ShadowReviewSkipped (new_result ''ai_review'' AgentPending)]"
    by (simp add: append_skipped_def STEP_NAMES_def)
  then have "so_far 5 ?steps"
    using assms(5) take_step [of 4] by (simp add: so_far_def ran_or_bypassed_def essential_ok_def mark_skipped_def
        new_result_def STEP_NAMES_def)
  then show ?thesis
    using False assms unfolding step_ai_review_def
    by (auto simp: act_bind_def intro!: risk_ends)
next
  case True
  have "ends_well oc inp I (act_bind (run_step oc ''ai_review''
      (dp_reviewer (oc_deps oc) (build_review_input (pi_coin inp @ ''USDT'') d (dr_candidate d))))
      (case_option (stop_run oc inp ((add_error ''ai_review'' pc)\<lparr>pc_ai_review := Some safe_reject_review\<rparr>)
                       PipeHold ReviewFailed ''ai_review'' 5)
        (\<lambda>review. let pc = pc\<lparr>pc_ai_review := Some review\<rparr>
               in if ar_review_action review = REJECT
                  then stop_run oc inp pc PipeHold ReviewRefusal ''ai_review'' 5
                  else step_risk oc inp pc d snap)) (s, steps))"
  proof (rule step_rule [OF reviewer assms(6)], goal_cases)
    case (1 s2 r)
    then show ?case by (auto simp: STEP_NAMES_def intro!: stop_after [OF assms(5)])
  next
    case (2 s2 r review)
    then have "so_far 5 (steps @ [r])" using so_far_snoc [OF assms(5)] by (simp add: STEP_NAMES_def)
    then show ?case
      using 2 assms(1-4) True review_cases [of review]
      by (auto simp: STEP_NAMES_def Let_def intro!: stop_after [OF assms(5)] risk_ends)
  qed
  then show ?thesis using True by (simp add: step_ai_review_def)
qed

lemma decision_ends:
  assumes "returned (dp_market_data (oc_deps oc) (pi_coin inp)) snap" "so_far 3 steps" "I s"
  shows "ends_well oc inp I (step_decision oc inp pc snap technical signal (s, steps))"
  unfolding step_decision_def
proof (rule step_rule [OF decision assms(3)], goal_cases)
  case (1 s2 r)
  then show ?case by (auto simp: STEP_NAMES_def intro!: stop_after [OF assms(2)])
next
  case (2 s2 r d)
  then have "so_far 4 (steps @ [r])" using so_far_snoc [OF assms(2)] by (simp add: STEP_NAMES_def)
  then show ?case
    using 2 assms(1) by (auto simp: STEP_NAMES_def Let_def intro!: stop_after [OF assms(2)] review_ends)
qed

lemma strategy_ends:
  assumes "returned (dp_market_data (oc_deps oc) (pi_coin inp)) snap" "so_far 2 steps" "I s"
  shows "ends_well oc inp I (step_strategy oc inp pc snap technical (s, steps))"
proof (cases "d_decimal (get_or (ms_values snap) ''current_price'' (DInt 0))")
  case None
  then show ?thesis using assms(1,3) by (auto simp: step_strategy_def act_read_bind ends_well_def priceless_def)
next
  case (Some price)
  show ?thesis
    unfolding step_strategy_def act_read_bind Some option.case sum.case
    by (rule step_rule [OF strategy assms(3)])
      (use so_far_snoc [OF assms(2)] assms(1) in \<open>auto simp: STEP_NAMES_def intro!: decision_ends\<close>)
qed

lemma technical_ends:
  assumes "returned (dp_market_data (oc_deps oc) (pi_coin inp)) snap" "so_far 1 steps" "I s"
  shows "ends_well oc inp I (step_technical oc inp pc snap (s, steps))"
  unfolding step_technical_def
  by (rule step_rule [OF technical assms(3)])
    (use so_far_snoc [OF assms(2)] assms(1) in \<open>auto simp: STEP_NAMES_def numeral_2_eq_2 intro!: strategy_ends\<close>)

lemma market_ends:
  assumes "I s"
  shows "ends_well oc inp I (step_market_data oc inp pc (s, []))"
proof -
  have zero: "so_far 0 []" by (simp add: so_far_def)
  show ?thesis
    unfolding step_market_data_def
    by (rule step_rule [OF market assms])
      (use so_far_snoc [OF zero] in \<open>auto simp: STEP_NAMES_def intro!: stop_after [OF zero, simplified] technical_ends\<close>)
qed

lemma run_ends:
  assumes "pipeline_run oc inp s = (s1, res)" "I s"
  shows "I s1 \<and> (case res of Inr r \<Rightarrow> recorded_run r | Inl e \<Rightarrow> e = InvalidOperation \<and> priceless oc inp)"
  using market_ends [OF assms(2), of "new_context inp"] assms(1)
  by (auto simp: pipeline_run_def ends_well_def split: prod.splits)

end

end
