(* ===== verification/RunProps.thy ===== *)
theory RunProps
  imports PipelineProps "HOL-Library.Sublist"
begin

text \<open>
  Properties of runs of the orchestrator, as interpretations of \<open>pipeline_world\<close>: what a run records,
  which orders it may send, and what it does to the protections of the safety layer.
\<close>

section \<open>Every run\<close>

interpretation quiet: pipeline_world oc inp "\<lambda>_. True" for oc inp
  by unfold_locales (simp_all add: keeps_inv_def)

text \<open>
  C31. A run records every step: unless the price of the snapshot is no number, a run returns; its
  steps are the ten of the pipeline in their order, of which the first, at least one, were run or
  bypassed and all others are marked as skipped with the reason of the rejection. It is completed
  exactly when it has no such reason, and when it is completed, closed in an emergency or has an
  execution result, every step but the analysis, the strategy and the review succeeded.
\<close>

theorem pipeline_records_every_step:
  "case snd (pipeline_run oc inp s) of
     Inl e \<Rightarrow> e = InvalidOperation \<and> priceless oc inp
   | Inr r \<Rightarrow> map an_agent_name (pr_steps r) = STEP_NAMES \<and>
       (\<exists>n>0. list_all ran_or_bypassed (take n (pr_steps r)) \<and>
          list_all (skipped_for (pr_rejection_reason r)) (drop n (pr_steps r))) \<and>
       (pr_status r = PipeCompleted \<longleftrightarrow> pr_rejection_reason r = None) \<and>
       (pr_status r \<in> {PipeCompleted, PipeEmergencyClosed} \<or> pr_execution_result r \<noteq> None \<longrightarrow>
          list_all essential_ok (pr_steps r))"
proof -
  obtain s1 res where "pipeline_run oc inp s = (s1, res)" by fastforce
  from quiet.run_ends [OF this] this show ?thesis by (auto simp: recorded_run_def split: sum.splits)
qed

section \<open>What the agents leave alone\<close>

text \<open>Every agent but the execution keeps \<open>I\<close>, and so do the log, the alerts and the pauses.\<close>

definition agents_keep :: "('s \<Rightarrow> bool) \<Rightarrow> 's orchestrator \<Rightarrow> bool" where
  "agents_keep I oc \<longleftrightarrow> (let d = oc_deps oc in
     (\<forall>coin. keeps_inv I (dp_market_data d coin)) \<and>
     (\<forall>ohlcv coin symbol. keeps_inv I (dp_technical d ohlcv coin symbol)) \<and>
     (\<forall>si. keeps_inv I (dp_strategy d si)) \<and>
     (\<forall>coin symbol snap ta signal account config.
        keeps_inv I (dp_decision d coin symbol snap ta signal account config)) \<and>
     (\<forall>ri. keeps_inv I (dp_reviewer d ri)) \<and>
     (\<forall>c ctx account daily weekly weekly_limit losses n same regime funding.
        keeps_inv I (dp_risk d c ctx account daily weekly weekly_limit losses n same regime funding)) \<and>
     (\<forall>ps pa risk. keeps_inv I (dp_portfolio d ps pa risk)) \<and>
     (\<forall>user raw v. keeps_inv I (dp_position_manager d user raw v)) \<and>
     (\<forall>send e s. dp_alert_dispatcher d = Some send \<longrightarrow> I s \<longrightarrow> I (send e s)) \<and>
     (\<forall>delay s. I s \<longrightarrow> I (ru_sleep (oc_runner oc) delay s)) \<and>
     (\<forall>sr s. I s \<longrightarrow> I (oc_log_step oc sr s)) \<and>
     (\<forall>row s. I s \<longrightarrow> I (oc_log_decision oc row s)) \<and>
     (\<forall>result s. I s \<longrightarrow> I (oc_log_pipeline oc result s)))"

definition hook_keeps :: "('s \<Rightarrow> bool) \<Rightarrow> 's orchestrator \<Rightarrow> bool" where
  "hook_keeps I oc \<longleftrightarrow>
     (\<forall>h event s. dp_post_trade_hook (oc_deps oc) = Some h \<longrightarrow> I s \<longrightarrow> I (fst (h event s)))"

lemma keeps_view:
  assumes "\<And>x. keeps_inv (\<lambda>w. v w = x) c"
  shows "keeps_inv (\<lambda>w. P (v w)) c"
  using assms unfolding keeps_inv_def by metis

lemma agents_keepD:
  assumes "agents_keep I oc"
  shows "keeps_inv I (dp_market_data (oc_deps oc) coin)"
    "keeps_inv I (dp_technical (oc_deps oc) ohlcv coin symbol)" "keeps_inv I (dp_strategy (oc_deps oc) si)"
    "keeps_inv I (dp_decision (oc_deps oc) coin symbol snap ta signal account config)"
    "keeps_inv I (dp_reviewer (oc_deps oc) ri)"
    "keeps_inv I (dp_risk (oc_deps oc) c ctx account daily weekly weekly_limit losses n same regime funding)"
    "keeps_inv I (dp_portfolio (oc_deps oc) ps pa risk)"
    "keeps_inv I (dp_position_manager (oc_deps oc) user raw v)"
    "dp_alert_dispatcher (oc_deps oc) = Some send \<Longrightarrow> I s \<Longrightarrow> I (send e s)"
    "I s \<Longrightarrow> I (ru_sleep (oc_runner oc) delay s)" "I s \<Longrightarrow> I (oc_log_step oc sr s)"
    "I s \<Longrightarrow> I (oc_log_decision oc row s)" "I s \<Longrightarrow> I (oc_log_pipeline oc result s)"
  using assms by (simp_all add: agents_keep_def Let_def)

lemma agents_keep_view:
  assumes "\<forall>x. agents_keep (\<lambda>w. v w = x) oc"
  shows "agents_keep (\<lambda>w. P (v w)) oc"
proof -
  note D = agents_keepD [OF spec [OF assms]]
  note W = keeps_view [OF D(1)] keeps_view [OF D(2)] keeps_view [OF D(3)] keeps_view [OF D(4)]
    keeps_view [OF D(5)] keeps_view [OF D(6)] keeps_view [OF D(7)] keeps_view [OF D(8)]
  have "P (v (send e s))" if "dp_alert_dispatcher (oc_deps oc) = Some send" "P (v s)" for send e s
    using D(9) [OF that(1) refl] that(2) by simp
  moreover have "P (v (ru_sleep (oc_runner oc) delay s))" "P (v (oc_log_step oc sr s))"
    "P (v (oc_log_decision oc row s))" "P (v (oc_log_pipeline oc result s))" if "P (v s)" for s delay sr row result
    using D(10-13) [OF refl] that by simp_all
  ultimately show ?thesis unfolding agents_keep_def Let_def by (simp add: W)
qed

lemma hook_keeps_view: "\<forall>x. hook_keeps (\<lambda>w. v w = x) oc \<Longrightarrow> hook_keeps (\<lambda>w. P (v w)) oc"
  unfolding hook_keeps_def by metis

lemma hook_keepsD:
  "hook_keeps I oc \<Longrightarrow> dp_post_trade_hook (oc_deps oc) = Some h \<Longrightarrow> I s \<Longrightarrow> I (fst (h event s))"
  by (simp add: hook_keeps_def)

lemma agents_world:
  assumes "agents_keep I oc" "\<And>req. pipeline_cleared oc inp req \<Longrightarrow> keeps_inv I (dp_execution (oc_deps oc) req)"
    "\<And>h pc er event s. dp_post_trade_hook (oc_deps oc) = Some h \<Longrightarrow>
       build_post_trade_event inp pc er = Some event \<Longrightarrow> I s \<Longrightarrow> I (fst (h event s))"
  shows "pipeline_world oc inp I"
  using assms(2,3) by unfold_locales (simp_all add: agents_keepD [OF assms(1)])

lemma hooked_world:
  assumes "\<And>req. pipeline_cleared oc inp req \<Longrightarrow> keeps_inv I (dp_execution (oc_deps oc) req)"
    "agents_keep I oc" "hook_keeps I oc"
  shows "pipeline_world oc inp I"
  by (rule agents_world [OF assms(2,1)]) (simp_all add: hook_keepsD [OF assms(3)])

text \<open>Runs one after the other, of any coins and users.\<close>

definition pipeline_runs :: "'s orchestrator \<Rightarrow> pipeline_input list \<Rightarrow> 's \<Rightarrow> 's" where
  "pipeline_runs oc inps s = foldl (\<lambda>s inp. fst (pipeline_run oc inp s)) s inps"

lemma runs_keep:
  assumes "\<And>inp. pipeline_world oc inp I" "I s"
  shows "I (pipeline_runs oc inps s)"
  using assms(2)
proof (induction inps arbitrary: s)
  case (Cons inp inps)
  obtain s1 res where e: "pipeline_run oc inp s = (s1, res)" by fastforce
  have "I s1" using pipeline_world.run_ends [OF assms(1) e Cons.prems] by blast
  from Cons.IH [OF this] show ?case by (simp add: pipeline_runs_def e)
qed (simp add: pipeline_runs_def)

section \<open>Orders\<close>

text \<open>
  The execution agent is the engine with its orders recorded. A timeout may cut a call short: the
  orders then sent are a prefix of those of the engine.
\<close>

definition recorded_engine ::
    "execution_engine \<Rightarrow> 's gateway \<Rightarrow> 's validator \<Rightarrow> 's order_gate option \<Rightarrow> shadow_request
       \<Rightarrow> ('s \<times> order_ticket list, execution_result) act" where
  "recorded_engine en G V S req =
     execute en (recorded G) (\<lambda>q. beside (V q)) (map_option (\<lambda>gate u. beside (gate u)) S)
       (execution_request.truncate req)"

definition sends_like ::
    "('s \<times> order_ticket list, 'a) coro \<Rightarrow> (int \<Rightarrow> ('s \<times> order_ticket list, 'a) act) \<Rightarrow> bool" where
  "sends_like c m \<longleftrightarrow> (\<forall>t w. \<exists>now. prefix (snd (fst (c t w))) (snd (fst (m now w))))"

lemma follow_up_reduces: "follow_up g v t \<Longrightarrow> ot_reduce_only t"
  by (auto simp: follow_up_def build_tp_ticket_def build_sl_ticket_def build_emergency_close_ticket_def
      make_ticket_def split: option.splits prod.splits)

lemma truncate_simps [simp]:
  "er_approved_validation (execution_request.truncate req) = er_approved_validation req"
  "er_candidate (execution_request.truncate req) = er_candidate req"
  "er_user_ctx (execution_request.truncate req) = er_user_ctx req"
  by (simp_all add: execution_request.defs)

text \<open>An order that opens: the engine is live, the gate allowed the user, and the ticket is the entry
  of the approved quantity for the candidate of a cleared request.\<close>

definition allowed_entry ::
    "'w orchestrator \<Rightarrow> pipeline_input \<Rightarrow> execution_engine \<Rightarrow> (int \<Rightarrow> 's order_gate option) \<Rightarrow> order_ticket \<Rightarrow> bool" where
  "allowed_entry oc inp en S t \<longleftrightarrow>
     (\<exists>req v c. pipeline_cleared oc inp req \<and> er_approved_validation req = Some v \<and> er_candidate req = Some c \<and>
        vr_approved v \<and> vr_quantity v = Some (ot_quantity t) \<and>
        ENTRY_SIDE (tc_action c) = Some (ot_side t) \<and> ot_symbol t = tc_symbol c \<and> ex_live en \<and>
        (\<exists>now s1 s2 d. gate_decision (S now) (uc_user_id (pi_user_ctx inp)) s1 = (s2, Inr d) \<and> sd_allowed d))"

lemma cleared_request:
  assumes "pipeline_cleared oc inp req" "cleared en V S (execution_request.truncate req) w v g w2"
  shows "er_approved_validation req = Some v" "vr_approved v" "\<exists>c. er_candidate req = Some c \<and> g = FromCandidate c"
    "er_user_ctx req = pi_user_ctx inp"
  using assms by (auto simp: pipeline_cleared_def cleared_def request_validation_def act_return_def)

lemma engine_sends_allowed:
  assumes "pipeline_cleared oc inp req" "recorded_engine en G (V now) (S now) req w = (w1, x)"
    "t \<in> set (snd w1)"
  shows "t \<in> set (snd w) \<or> ot_reduce_only t \<or> allowed_entry oc inp en S t"
proof (rule world.execute_split [OF assms(2) [unfolded recorded_engine_def]])
  fix v g w2 y
  assume C: "cleared en (\<lambda>q. beside (V now q)) (map_option (\<lambda>gate u. beside (gate u)) (S now))
      (execution_request.truncate req) w v g w2"
    and o: "snd w2 = snd w" and P: "place_orders en (recorded G) g v w2 = (w1, y)"
  have L: "local_execution_safety (execution_request.truncate req) v g = None" "ex_live en"
    using C by (simp_all add: cleared_def)
  obtain t0 where t0: "build_entry_ticket g v = Inr t0" "Some (ot_quantity t0) = vr_quantity v"
    "Some (ot_side t0) = ENTRY_SIDE (os_direction g)" using tickets_built [OF L(1)] by blast
  obtain ts where ts: "snd w1 = snd w @ t0 # ts" "\<forall>t\<in>set ts. follow_up g v t"
    using world.orders_placed [OF P t0(1)] o by auto
  note R = cleared_request [OF assms(1) C]
  obtain c where c: "er_candidate req = Some c" "g = FromCandidate c" using R(3) by blast
  have "cleared en (V now) (S now) (execution_request.truncate req) (fst w) v g (fst w2)"
    using cleared_recorded [of en "V now" "S now" "execution_request.truncate req" "fst w" "snd w" v g w2] C by simp
  then have "\<exists>s1 s2 d. gate_decision (S now) (uc_user_id (pi_user_ctx inp)) s1 = (s2, Inr d) \<and> sd_allowed d"
    using R(4) by (auto simp: cleared_def)
  moreover have "ot_symbol t0 = tc_symbol c"
    using t0(1) c by (auto simp: build_entry_ticket_def make_ticket_def os_symbol_def split: option.splits)
  ultimately have "allowed_entry oc inp en S t0"
    unfolding allowed_entry_def
    by (intro exI [of _ req] exI [of _ v] exI [of _ c] conjI)
      (use assms(1) R c t0 L(2) in \<open>auto simp: os_direction_def\<close>)
  then show ?thesis using assms(3) ts follow_up_reduces by auto
qed (use assms(3) in simp)

lemma orders_allowed:
  fixes oc :: "('s \<times> order_ticket list) orchestrator"
  assumes "\<forall>l. agents_keep (\<lambda>w. snd w = l) oc \<and> hook_keeps (\<lambda>w. snd w = l) oc"
    "\<forall>req. sends_like (dp_execution (oc_deps oc) req) (\<lambda>now. recorded_engine en G (V now) (S now) req)"
    "pipeline_run oc inp (s, []) = ((s', sent), res)" "t \<in> set sent" "\<not> ot_reduce_only t"
  shows "allowed_entry oc inp en S t"
proof -
  let ?ok = "\<lambda>l. \<forall>t\<in>set l. ot_reduce_only t \<or> allowed_entry oc inp en S t"
  have "keeps_inv (\<lambda>w. ?ok (snd w)) (dp_execution (oc_deps oc) req)" if "pipeline_cleared oc inp req" for req
    unfolding keeps_inv_def
  proof (intro allI impI)
    fix d and w :: "'s \<times> order_ticket list"
    assume ok: "?ok (snd w)"
    obtain now where p: "prefix (snd (fst (dp_execution (oc_deps oc) req d w)))
        (snd (fst (recorded_engine en G (V now) (S now) req w)))"
      using assms(2) unfolding sends_like_def by blast
    show "?ok (snd (fst (dp_execution (oc_deps oc) req d w)))"
      using set_mono_prefix [OF p] ok
        engine_sends_allowed [OF that, of en G V now S w, OF prod.collapse [symmetric]] by blast
  qed
  moreover have "agents_keep (\<lambda>w. ?ok (snd w)) oc" "hook_keeps (\<lambda>w. ?ok (snd w)) oc"
    using agents_keep_view [of snd oc ?ok] hook_keeps_view [of snd oc ?ok] assms(1) by blast+
  ultimately have "pipeline_world oc inp (\<lambda>w. ?ok (snd w))"
    by (rule hooked_world)
  from pipeline_world.run_ends [OF this assms(3)] have ok: "?ok (snd (s', sent))"
    by (rule conjunct1) simp
  show ?thesis using bspec [OF ok, of t] assms(4,5) by simp
qed


definition emergency_and_orders ::
    "('s \<Rightarrow> redis_key \<Rightarrow> (rvalue \<times> int option) option) \<Rightarrow> 's \<times> order_ticket list \<Rightarrow> (int \<Rightarrow> emergency_state) \<times> order_ticket list" where
  "emergency_and_orders A w = ((\<lambda>t. emergency_view A t (fst w)), snd w)"

lemma emergency_silences:
  fixes c :: "('s \<times> order_ticket list, execution_result) coro"
  assumes "redis_model R A" "\<And>x. keeps_inv (\<lambda>w. fst (emergency_and_orders A w) = x) c"
    "sends_like c (\<lambda>now. recorded_engine en G (risk_validator R now)
       (Some (adapter_check_order_allowed (redis_safety_store R) config now)) req)"
  shows "keeps_inv (\<lambda>w. (\<forall>t. em_is_active (fst (emergency_and_orders A w) t)) \<and> snd (emergency_and_orders A w) = []) c"
  unfolding keeps_inv_def
proof (intro allI impI)
  fix d and w :: "'s \<times> order_ticket list"
  assume I: "(\<forall>t. em_is_active (fst (emergency_and_orders A w) t)) \<and> snd (emergency_and_orders A w) = []"
  obtain now where p: "prefix (snd (fst (c d w))) (snd (fst (recorded_engine en G (risk_validator R now)
     (Some (adapter_check_order_allowed (redis_safety_store R) config now)) req w)))"
    using assms(3) unfolding sends_like_def by blast
  have on: "safety_store.emergency_on (emergency_view A) (fst w)"
    using I by (simp add: emergency_and_orders_def safety_store.emergency_on_def [OF redis_store_contract [OF assms(1)]])
  have n: "\<not> cleared en (\<lambda>q. beside (risk_validator R now q)) (map_option (\<lambda>gate u. beside (gate u))
      (Some (adapter_check_order_allowed (redis_safety_store R) config now))) req' w v g w2" for req' v g w2
    using cleared_recorded [where s = "fst w" and l = "snd w", unfolded prod.collapse]
      emergency_no_clearance [OF assms(1) on] by blast
  have quiet: "snd w1 = []" if "recorded_engine en G (risk_validator R now)
     (Some (adapter_check_order_allowed (redis_safety_store R) config now)) req w = (w1, x)" for w1 x
    by (rule world.execute_split [OF that [unfolded recorded_engine_def]])
      (use I n in \<open>auto simp: emergency_and_orders_def\<close>)
  have "snd (fst (c d w)) = []" using p quiet [OF prod.collapse [symmetric]] by simp
  moreover have "fst (emergency_and_orders A (fst (c d w))) = fst (emergency_and_orders A w)"
    using assms(2) unfolding keeps_inv_def by blast
  ultimately show "(\<forall>t. em_is_active (fst (emergency_and_orders A (fst (c d w))) t)) \<and>
      snd (emergency_and_orders A (fst (c d w))) = []"
    using I by (simp add: emergency_and_orders_def)
qed

text \<open>
  C30. An emergency stops the orchestrator: with the safety gate and the risk engine on the server
  that holds the emergency, and no agent lifting it, no sequence of runs, of whatever coins and
  users, sends a single order after the emergency was triggered, whatever the agents answer and
  however the retries fall.
\<close>

theorem pipeline_stops_in_emergency:
  fixes oc :: "('s \<times> order_ticket list) orchestrator"
  assumes "redis_model R A"
    "trigger_emergency (redis_safety_store R) now0 reason who s0 = (s, Inr ())"
    "\<forall>x. agents_keep (\<lambda>w. emergency_and_orders A w = x) oc \<and> hook_keeps (\<lambda>w. emergency_and_orders A w = x) oc"
    "\<forall>x req. keeps_inv (\<lambda>w. fst (emergency_and_orders A w) = x) (dp_execution (oc_deps oc) req)"
    "\<forall>req. sends_like (dp_execution (oc_deps oc) req) (\<lambda>now. recorded_engine en G (risk_validator R now)
       (Some (adapter_check_order_allowed (redis_safety_store R) config now)) req)"
  shows "snd (pipeline_runs oc inps (s, [])) = []"
proof -
  note C = redis_store_contract [OF assms(1)]
  let ?on = "\<lambda>x :: (int \<Rightarrow> emergency_state) \<times> order_ticket list. (\<forall>t. em_is_active (fst x t)) \<and> snd x = []"
  let ?I = "\<lambda>w. ?on (emergency_and_orders A w)"
  have "keeps_inv ?I (dp_execution (oc_deps oc) req)" for req
    using emergency_silences [OF assms(1) _ spec [OF assms(5)], of req] assms(4) by blast
  moreover have "agents_keep ?I oc" "hook_keeps ?I oc"
    using agents_keep_view [of "emergency_and_orders A" oc ?on]
      hook_keeps_view [of "emergency_and_orders A" oc ?on] assms(3) by blast+
  ultimately have "pipeline_world oc inp ?I" for inp
    by (rule hooked_world)
  moreover have "?I (s, [])"
  proof -
    have "safety_store.emergency_on (emergency_view A) s"
      using assms(2) by (auto intro: safety_store.emergency_activated [OF C]
        simp: trigger_emergency_def emergency_activate_def)
    then show ?thesis by (simp add: emergency_and_orders_def safety_store.emergency_on_def [OF C])
  qed
  ultimately show ?thesis using runs_keep [of oc ?I] by (simp add: emergency_and_orders_def)
qed

text \<open>
  A step whose coroutine always times out performs its effect once for every attempt: the execution
  step, with its three retries, sends the orders of its request four times.
\<close>

lemma timeouts_repeat:
  assumes "\<And>s. c d s = (f s, TimedOut)" "\<And>x s. ru_sleep R x s = s"
  shows "fst (run_attempts R d c tries n e r s) = (f ^^ (Suc tries - n)) s"
proof (induction "Suc tries - n" arbitrary: n e r s)
  case 0
  then show ?case by (subst run_attempts.simps) simp
next
  case (Suc k)
  then have n: "\<not> tries < n" "k = Suc tries - (n + 1)" "Suc tries - n = Suc k" by simp_all
  have "fst (run_attempts R d c tries n e r s) = (f ^^ k) (f s)"
    using Suc.hyps(1) [OF n(2)] n(1,2) by (subst run_attempts.simps) (simp add: assms Let_def)
  then show ?case unfolding n(3) by (simp add: funpow_swap1)
qed

lemma execution_resends:
  assumes "\<And>s. dp_execution (oc_deps oc) req 15 s = (f s, TimedOut)"
    "\<And>x s. ru_sleep (oc_runner oc) x s = s" "\<And>x s. oc_log_step oc x s = s"
  shows "fst (fst (run_step oc ''execution'' (dp_execution (oc_deps oc) req) (s, steps))) = f (f (f (f s)))"
proof -
  have "fst (runner_run (oc_runner oc) ''execution'' (dp_execution (oc_deps oc) req) (Some 15) (Some 3) s)
      = f (f (f (f s)))"
    unfolding runner_run_def Let_def option.case
    by (subst timeouts_repeat [where f = f]) (simp_all add: assms numeral_eq_Suc)
  then show ?thesis
    by (simp add: run_step_def STEP_TIMEOUT_def STEP_RETRIES_def assms(3) split_beta)
qed

section \<open>The post-trade hook\<close>

context safety_store
begin

definition drawdown_blind :: "string \<Rightarrow> 's \<Rightarrow> bool" where
  "drawdown_blind v s \<longleftrightarrow> (\<forall>t. \<not> dd_is_halted (draw t v s) \<and> dd_peak_balance (draw t v s) \<le> 0)"

lemma blind_writes [simp]:
  "preserves (drawdown_blind v) (so_set_daily S now u st)" "preserves (drawdown_blind v) (so_set_weekly S now u st)"
  "preserves (drawdown_blind v) (so_set_disconnect S now dc)"
  using other_writes(5-7) [of "\<lambda>d. \<forall>t. \<not> dd_is_halted (d t) \<and> dd_peak_balance (d t) \<le> 0"]
  unfolding drawdown_blind_def by auto

lemma blind_set:
  assumes "u = v \<Longrightarrow> \<not> dd_is_halted d \<and> dd_peak_balance d \<le> 0"
  shows "preserves (drawdown_blind v) (so_set_drawdown S now u d)"
proof (rule preservesI)
  fix s s' r
  assume "drawdown_blind v s" and w: "so_set_drawdown S now u d s = (s', r)"
  then show "drawdown_blind v s'" using assms draw_either [OF w] draw_frame [OF w]
    unfolding drawdown_blind_def by (metis empty_iff insert_iff)
qed

lemma blind_update: "preserves (drawdown_blind v) (drawdown_update S config now u 0)"
  unfolding drawdown_update_def Let_def
proof (rule preserves_bind_post)
  fix s s' r
  assume "drawdown_blind v s" "so_get_drawdown S now u s = (s', r)"
  then show "drawdown_blind v s' \<and> (\<forall>x. r = Inr x \<longrightarrow> u = v \<longrightarrow> \<not> dd_is_halted x \<and> dd_peak_balance x \<le> 0)"
    using get_draw [of now u s s' r] by (auto simp: drawdown_blind_def)
qed (intro preserves_if preserves_bind blind_set preserves_return; auto split: if_splits)

lemma blind_trade:
  assumes "pe_current_balance p = 0"
  shows "preserves (drawdown_blind v) (on_trade_executed S config now p)"
  using handlers_preserve [of "drawdown_blind v", OF blind_writes] blind_update
  unfolding on_trade_executed_def on_trade_closed_def Let_def assms
  by (auto intro!: preserves_bind)

end

lemma posted_balance: "build_post_trade_event inp pc er = Some event \<Longrightarrow> pe_current_balance event = 0"
  by (auto simp: build_post_trade_event_def account_balance_attribute_def Let_def split: option.splits)

text \<open>
  C32. The orchestrator cannot trip the drawdown protection: its hook reports the attribute
  \<open>balance\<close> of an account state, which has none, so the balance posted is always 0. Whatever is
  traded and lost in any sequence of runs, a user whose drawdown state is fresh is never halted by
  the drawdown protection, when nothing but the hook writes that state.
\<close>

theorem pipeline_drawdown_blind:
  assumes "redis_model R A" "\<forall>t. drawdown_view A t u s = dd_default"
    "\<forall>x. agents_keep (\<lambda>s. (\<lambda>t. drawdown_view A t u s) = x) oc"
    "\<forall>x req. keeps_inv (\<lambda>s. (\<lambda>t. drawdown_view A t u s) = x) (dp_execution (oc_deps oc) req)"
    "\<forall>h event s. dp_post_trade_hook (oc_deps oc) = Some h \<longrightarrow>
       (\<exists>now. fst (h event s) = fst (on_trade_executed (redis_safety_store R) config now event s))"
  shows "\<not> dd_is_halted (drawdown_view A now u (pipeline_runs oc inps s))"
proof -
  note C = redis_store_contract [OF assms(1)]
  let ?I = "safety_store.drawdown_blind (drawdown_view A) u"
  let ?P = "\<lambda>x :: int \<Rightarrow> drawdown_state. \<forall>t. \<not> dd_is_halted (x t) \<and> dd_peak_balance (x t) \<le> 0"
  have I: "?I = (\<lambda>s. ?P (\<lambda>t. drawdown_view A t u s))"
    by (simp add: fun_eq_iff safety_store.drawdown_blind_def [OF C])
  have "?I (fst (h event s))" if h: "dp_post_trade_hook (oc_deps oc) = Some h"
    "build_post_trade_event inp pc er = Some event" "?I s" for h event s inp pc er
  proof -
    obtain now where "fst (h event s) = fst (on_trade_executed (redis_safety_store R) config now event s)"
      using assms(5) h(1) by blast
    then show ?thesis
      using preservesD [OF safety_store.blind_trade [OF C posted_balance [OF h(2)]] h(3)] by simp
  qed
  moreover have "agents_keep ?I oc" unfolding I by (rule agents_keep_view [where P = ?P]) (rule assms(3))
  moreover have "keeps_inv ?I (dp_execution (oc_deps oc) req)" for req
    unfolding I by (rule keeps_view [where P = ?P]) (use assms(4) in blast)
  ultimately have "pipeline_world oc inp ?I" for inp by (intro agents_world)
  moreover have "?I s" unfolding I by (simp only: assms(2) [rule_format]) (simp add: dd_default_def)
  ultimately have "?I (pipeline_runs oc inps s)" by (rule runs_keep)
  then show ?thesis by (simp add: I)
qed

section \<open>A sample orchestrator\<close>

text \<open>Agents that always give the same answers; the execution and the hook are open.\<close>

definition sample_result :: decision_result where
  "sample_result =
     \<lparr>dr_regime = \<lparr>mr_regime = TREND_UP, mr_confidence = 1\<rparr>,
      dr_chart_score = \<lparr>sc_long_score = 80, sc_short_score = 20, sc_no_trade_score = 0, sc_risk_score = 10\<rparr>,
      dr_news_score = ns_neutral, dr_derivatives_score = dv_neutral,
      dr_strategy_selection = \<lparr>ss_strategy_type = TREND_FOLLOWING, ss_expected_holding_minutes = 120,
        ss_min_required_rr = 2\<rparr>,
      dr_candidate = sample_candidate, dr_strategy_candidates = [], dr_selected = None, dr_confidence = 1\<rparr>"

definition priced_snapshot :: pipeline_snapshot where
  "priced_snapshot = \<lparr>ms_values = [''current_price'' \<mapsto> DInt 100], ms_news = None, ms_fear_greed = None,
     ps_ohlcv = [], ps_funding_context = None\<rparr>"

definition sample_holding :: position_state where
  "sample_holding =
     \<lparr>po_id = ''p1'', po_user_id = ''u1'', po_coin = ''BTC'', po_symbol = ''BTCUSDT'',
      po_direction = LONG, po_status = position_status.Open, po_entry_price = 100, po_take_profit = 130,
      po_stop_loss = 90, po_liquidation_price = 80.4, po_current_price = 100, po_quantity = 2,
      po_original_quantity = 2, po_leverage = 5, po_margin_used = 40, po_original_margin = 40,
      po_original_risk_usdt = 20, po_realized_pnl = 0, po_dca_count = 0, po_opened_at = 0,
      po_closed_at = None, po_close_reason = None\<rparr>"

definition reviewed_oc ::
    "(review_input \<Rightarrow> ('s, ai_review_result) coro) \<Rightarrow> (shadow_request \<Rightarrow> ('s, execution_result) coro) \<Rightarrow>
       (post_trade_event \<Rightarrow> ('s, unit) act) option \<Rightarrow> 's orchestrator" where
  "reviewed_oc reviewer execution hook =
     \<lparr>oc_deps = \<lparr>dp_market_data = (\<lambda>_. to_thread (Inr priced_snapshot)),
        dp_technical = (\<lambda>_ _ _. to_thread (Inr neutral_ta_result)),
        dp_strategy = (\<lambda>_. to_thread (Inr neutral_strategy_signal)),
        dp_decision = (\<lambda>_ _ _ _ _ _ _. to_thread (Inr sample_result)),
        dp_reviewer = reviewer,
        dp_risk = (\<lambda>_ _ _ _ _ _ _ _ _ _ _. to_thread (Inr sample_approval)),
        dp_portfolio = (\<lambda>_ _ _. to_thread (Inr (True, PortfolioOk))),
        dp_position_manager = (\<lambda>_ _ _. to_thread (Inr (sample_holding, 0))),
        dp_execution = execution, dp_post_trade_hook = hook, dp_alert_dispatcher = None\<rparr>,
      oc_runner = \<lparr>ru_max_retries = 3, ru_base_delay = 1, ru_default_timeout = 30, ru_sleep = (\<lambda>_ s. s)\<rparr>,
      oc_log_step = (\<lambda>_ s. s), oc_log_decision = (\<lambda>_ s. s), oc_log_pipeline = (\<lambda>_ s. s)\<rparr>"

abbreviation sample_oc ::
    "(shadow_request \<Rightarrow> ('s, execution_result) coro) \<Rightarrow> (post_trade_event \<Rightarrow> ('s, unit) act) option \<Rightarrow> 's orchestrator" where
  "sample_oc \<equiv> reviewed_oc (\<lambda>_. to_thread (Inr shadow_ai_review_skipped))"

definition sample_input :: pipeline_input where
  "sample_input =
     \<lparr>pi_coin = ''BTC'', pi_user_id = Some ''u1'', pi_user_ctx = sample_user,
      pi_account_state = \<lparr>ac_available_balance = 1000, ac_total_balance = 1000, ac_initial_balance = 1000,
        ac_open_positions_count = 0, ac_open_positions_risk_usdt = 0\<rparr>,
      pi_daily_loss_usdt = Some 0, pi_weekly_loss_usdt = Some 0, pi_weekly_limit_usdt = Some 100,
      pi_consecutive_losses = 0, pi_open_positions = [],
      pi_portfolio_account = \<lparr>qa_available_balance = 1000, qa_initial_balance = 1000, qa_risk_profile = ''moderate''\<rparr>,
      pi_decision_config = None\<rparr>"

definition engine_agent ::
    "('s \<times> order_ticket list, execution_result) act \<Rightarrow> ('s \<times> order_ticket list, execution_result) coro" where
  "engine_agent m = coro_of (\<lambda>w. case m w of ((s, sent), x) \<Rightarrow> ((fst w, sent), x))"

lemma reviewed_keeps: "(\<And>ri. keeps_inv I (reviewer ri)) \<Longrightarrow> agents_keep I (reviewed_oc reviewer execution hook)"
  by (simp add: agents_keep_def reviewed_oc_def)

lemma sample_keeps: "agents_keep I (sample_oc execution hook)"
  by (simp add: reviewed_keeps)

lemma sample_hookless: "hook_keeps I (reviewed_oc reviewer execution None)"
  by (simp add: hook_keeps_def reviewed_oc_def)

lemma dp_sample [simp]: "dp_execution (oc_deps (reviewed_oc reviewer execution hook)) = execution"
  "dp_post_trade_hook (oc_deps (reviewed_oc reviewer execution hook)) = hook"
  "dp_reviewer (oc_deps (reviewed_oc reviewer execution hook)) = reviewer"
  by (simp_all add: reviewed_oc_def)

definition done_step :: "string \<Rightarrow> agent_step" where
  "done_step name = mark_success ((new_result name AgentRunning)\<lparr>an_attempt := 1\<rparr>)"

lemma attempts_returned:
  "coro d s = (s1, Returned x) \<Longrightarrow> n \<le> tries \<Longrightarrow>
   run_attempts R d coro tries n e r s = (s1, mark_success (r\<lparr>an_attempt := n\<rparr>), Some x)"
  by (subst run_attempts.simps) (simp add: Let_def)

lemma run_returned:
  assumes "coro (case STEP_TIMEOUT name of Some t \<Rightarrow> t | None \<Rightarrow> 30) s = (s1, Returned x)"
  shows "run_step (reviewed_oc rv ex h) name coro (s, steps) = ((s1, steps @ [done_step name]), Inr (Some x))"
proof -
  have "ru_default_timeout (oc_runner (reviewed_oc rv ex h)) = 30" "oc_log_step (reviewed_oc rv ex h) = (\<lambda>_ s. s)"
    by (simp_all add: reviewed_oc_def)
  then show ?thesis using assms
    by (cases "STEP_TIMEOUT name") (simp_all add: run_step_def runner_run_def attempts_returned done_step_def)
qed

lemma run_answered [simp]:
  "run_step (reviewed_oc rv ex h) name (to_thread (Inr x)) (s, steps) = ((s, steps @ [done_step name]), Inr (Some x))"
  by (rule run_returned) (simp add: to_thread_def coro_of_def act_read_def)

definition sample_final :: final_decision where
  "sample_final = \<lparr>fd_action = LONG, fd_reason = Accepted 1, fd_candidate = Some sample_candidate,
     fd_ai_review = Some shadow_ai_review_skipped, fd_risk_result = Some (RiskValidation sample_approval)\<rparr>"

lemma sample_final: "decide_final_action (Some sample_candidate) (Some shadow_ai_review_skipped)
     (Some (RiskValidation sample_approval)) None = Inr sample_final"
proof -
  have "tc_expected_net_profit sample_candidate = Some 298" "tc_notional_size sample_candidate = 1000"
    "tc_action sample_candidate = LONG" "tc_strategy_type sample_candidate = TREND_FOLLOWING"
    by (simp_all add: sample_candidate_def)
  moreover have "f64 (7 / 10) \<le> 1" using f64_mono [of "7 / 10" 1] by simp
  ultimately show ?thesis
    by (simp add: decide_final_action_def decide_reviewed_def shadow_ai_review_skipped_def sample_approval_def
        vr_default_def risk_passed_def MIN_AI_REVIEW_CONFIDENCE_def min_expected_profit_def cf_direct_def
        cf_nested_def MIN_EXPECTED_NET_PROFIT_PCT_def pyconst dec_eval not_less not_le sample_final_def Let_def)
qed

definition sample_exec :: shadow_request where
  "sample_exec = build_execution_request sample_input
     ((new_context sample_input)\<lparr>pc_candidate := Some sample_candidate, pc_final_decision := Some sample_final,
        pc_risk_result := Some sample_approval\<rparr>)
     sample_result (build_raw_signal ''BTC'' ''BTCUSDT'' sample_candidate 1) None"

lemma reviewed_whole_run:
  assumes "execution sample_exec 15 w = (w1, Returned er)" "\<not> xr_emergency_close_failed er" "\<not> xr_tp_sl_failed er"
    "reviewer (build_review_input ''BTCUSDT'' sample_result sample_candidate) = to_thread (Inr shadow_ai_review_skipped)"
  shows "pipeline_run (reviewed_oc reviewer execution hook) sample_input w =
    (w1, Inr \<lparr>pr_coin = ''BTC'', pr_status = PipeCompleted, pr_steps = map done_step STEP_NAMES,
       pr_execution_result = Some er, pr_rejection_reason = None\<rparr>)"
proof -
  let ?oc = "reviewed_oc reviewer execution hook"
  have oc: "dp_market_data (oc_deps ?oc) c = to_thread (Inr priced_snapshot)"
    "dp_technical (oc_deps ?oc) = (\<lambda>_ _ _. to_thread (Inr neutral_ta_result))"
    "dp_strategy (oc_deps ?oc) = (\<lambda>_. to_thread (Inr neutral_strategy_signal))"
    "dp_decision (oc_deps ?oc) = (\<lambda>_ _ _ _ _ _ _. to_thread (Inr sample_result))"
    "dp_reviewer (oc_deps ?oc) = reviewer"
    "dp_risk (oc_deps ?oc) = (\<lambda>_ _ _ _ _ _ _ _ _ _ _. to_thread (Inr sample_approval))"
    "dp_portfolio (oc_deps ?oc) = (\<lambda>_ _ _. to_thread (Inr (True, PortfolioOk)))"
    "dp_position_manager (oc_deps ?oc) = (\<lambda>_ _ _. to_thread (Inr (sample_holding, 0)))"
    "oc_log_decision ?oc = (\<lambda>_ s. s)" "oc_log_pipeline ?oc = (\<lambda>_ s. s)"
    "dp_alert_dispatcher (oc_deps ?oc) = None" for c
    by (simp_all add: reviewed_oc_def)
  have inp: "pi_coin sample_input = ''BTC''" "pi_decision_config sample_input = None"
    "pi_open_positions sample_input = []" by (simp_all add: sample_input_def)
  have facts: "dr_candidate sample_result = sample_candidate" "dr_confidence sample_result = 1"
    "tc_action sample_candidate = LONG" "vr_approved sample_approval"
    "ar_review_action shadow_ai_review_skipped = APPROVE" "fd_action sample_final = LONG"
    "ms_values priced_snapshot = [''current_price'' \<mapsto> DInt 100]"
    by (simp_all add: sample_result_def sample_candidate_def sample_approval_def vr_default_def
        shadow_ai_review_skipped_def sample_final_def priced_snapshot_def)
  have exec: "run_step ?oc ''execution'' (execution sample_exec) (w, steps) =
      ((w1, steps @ [done_step ''execution'']), Inr (Some er))" for steps
    by (rule run_returned) (simp add: STEP_TIMEOUT_def assms(1))
  have req: "build_execution_request sample_input pc sample_result
      (build_raw_signal ''BTC'' ''BTCUSDT'' sample_candidate 1) None = sample_exec"
    if "pc_candidate pc = Some sample_candidate" "pc_final_decision pc = Some sample_final"
      "pc_risk_result pc = Some sample_approval" "pc_errors pc = []" for pc
    using that by (simp add: sample_exec_def build_execution_request_def new_context_def)
  have "step_execution ?oc sample_input pc sample_result
      (build_raw_signal ''BTC'' ''BTCUSDT'' sample_candidate 1) None (w, map done_step (take 9 STEP_NAMES)) =
      ((w1, map done_step STEP_NAMES), Inr \<lparr>pr_coin = ''BTC'', pr_status = PipeCompleted,
         pr_steps = map done_step STEP_NAMES, pr_execution_result = Some er, pr_rejection_reason = None\<rparr>)"
    if "pc_candidate pc = Some sample_candidate" "pc_final_decision pc = Some sample_final"
      "pc_risk_result pc = Some sample_approval" "pc_errors pc = []" for pc
    using assms(2,3)
    by (simp add: step_execution_def act_bind_def req [OF that] exec after_execution_def Let_def on_world_def
        log_decision_def finish_def append_skipped_def fire_alert_def oc inp STEP_NAMES_def)
  note end_of_run = this
  show ?thesis
    unfolding pipeline_run_def step_market_data_def step_technical_def step_strategy_def act_read_bind
      step_decision_def step_ai_review_def step_risk_def step_final_decision_def step_portfolio_def
      step_position_manager_def Let_def
    by (simp add: act_bind_def oc inp facts sample_final find_same_coin_position_def ai_review_required_def
        new_context_def get_or_def d_decimal_def assms(4) end_of_run [unfolded STEP_NAMES_def, simplified] STEP_NAMES_def)
qed

lemma sample_whole_run:
  assumes "execution sample_exec 15 w = (w1, Returned er)" "\<not> xr_emergency_close_failed er" "\<not> xr_tp_sl_failed er"
  shows "pipeline_run (sample_oc execution hook) sample_input w =
    (w1, Inr \<lparr>pr_coin = ''BTC'', pr_status = PipeCompleted, pr_steps = map done_step STEP_NAMES,
       pr_execution_result = Some er, pr_rejection_reason = None\<rparr>)"
  by (rule reviewed_whole_run [where execution = execution, OF assms]) simp

theorem pipeline_records_every_step_witness:
  "\<exists>r. snd (pipeline_run (sample_oc (\<lambda>_. to_thread (Inr (xr_base True False PaperMode None))) None) sample_input ())
      = Inr r \<and> pr_status r = PipeCompleted \<and> map an_agent_name (pr_steps r) = STEP_NAMES \<and>
    list_all essential_ok (pr_steps r)"
proof -
  let ?execution = "\<lambda>_ :: shadow_request. to_thread (Inr (xr_base True False PaperMode None)) :: (unit, execution_result) coro"
  have "?execution sample_exec 15 () = ((), Returned (xr_base True False PaperMode None))"
    by (simp add: to_thread_def coro_of_def act_read_def)
  from sample_whole_run [where execution = ?execution, OF this, of None] pipeline_records_every_step [of "sample_oc ?execution None" sample_input "()"]
  show ?thesis by (simp add: xr_base_def)
qed

definition sample_engine_agent :: "shadow_request \<Rightarrow> (string list \<times> order_ticket list, execution_result) act" where
  "sample_engine_agent =
     recorded_engine sample_engine_live (paper_gateway 0 5) (\<lambda>_. act_return (vr_default False)) None"

lemma sample_engine_sends:
  "case sample_engine_agent sample_exec ([''a'', ''b'', ''c''], []) of (w, x) \<Rightarrow>
     (case x of Inl _ \<Rightarrow> False | Inr r \<Rightarrow> \<not> xr_emergency_close_failed r \<and> \<not> xr_tp_sl_failed r) \<and>
     map ot_reduce_only (snd w) = [False, True, True]"
  by code_simp

lemma sends_like_engine: "sends_like (coro_of m) (\<lambda>_. m)" "sends_like (engine_agent m) (\<lambda>_. m)"
  by (auto simp: sends_like_def coro_of_def engine_agent_def split: prod.splits sum.splits)


theorem pipeline_stops_in_emergency_witness:
  "snd (pipeline_runs (sample_oc (\<lambda>req. engine_agent (recorded_engine sample_engine_live
       (\<lambda>t. act_read (\<lambda>_. Inl ConnectionError)) (risk_validator map_redis 5)
       (Some (adapter_check_order_allowed (redis_safety_store map_redis) live_config 5)) req)) None)
     [sample_input, sample_input]
     (fst (trigger_emergency (redis_safety_store map_redis) 0 ''stop'' ''admin'' Map.empty), [])) = []"
proof -
  let ?S = "redis_safety_store map_redis"
  let ?s = "fst (trigger_emergency ?S 0 ''stop'' ''admin'' Map.empty)"
  let ?m = "\<lambda>req. recorded_engine sample_engine_live (\<lambda>t. act_read (\<lambda>_. Inl ConnectionError))
       (risk_validator map_redis 5) (Some (adapter_check_order_allowed ?S live_config 5)) req"
  have T: "trigger_emergency ?S 0 ''stop'' ''admin'' Map.empty = (?s, Inr ())"
    by (simp add: map_store_evals)
  have "keeps_inv (\<lambda>w. fst (emergency_and_orders (\<lambda>m. m) w) = x) (engine_agent (?m req))" for x req
    by (auto simp: keeps_inv_def engine_agent_def coro_of_def emergency_and_orders_def split: prod.splits sum.splits)
  moreover have "sends_like (engine_agent (?m req)) (\<lambda>now. recorded_engine sample_engine_live
      (\<lambda>t. act_read (\<lambda>_. Inl ConnectionError)) (risk_validator map_redis now)
      (Some (adapter_check_order_allowed ?S live_config now)) req)" for req
    using sends_like_engine(2) [of "?m req"] unfolding sends_like_def by blast
  ultimately show ?thesis
    by (intro pipeline_stops_in_emergency [OF map_redis_model T, where en = sample_engine_live and
          G = "\<lambda>t. act_read (\<lambda>_. Inl ConnectionError)" and config = live_config])
      (simp_all add: sample_keeps sample_hookless)
qed

theorem pipeline_drawdown_blind_witness:
  "\<not> dd_is_halted (drawdown_view (\<lambda>m. m) 7 ''u1'' (pipeline_runs (sample_oc
     (\<lambda>_. to_thread (Inr ((xr_base True True LiveMode None)\<lparr>xr_tp_sl_failed := True\<rparr>)))
     (Some (\<lambda>e. act_bind (on_trade_executed (redis_safety_store map_redis) live_config 0 e) (\<lambda>_. act_return ()))))
     [sample_input] Map.empty))"
proof -
  let ?hook = "\<lambda>e. act_bind (on_trade_executed (redis_safety_store map_redis) live_config 0 e) (\<lambda>_. act_return ())"
  have "fst (?hook e s) = fst (on_trade_executed (redis_safety_store map_redis) live_config 0 e s)" for e s
    by (auto simp: act_bind_def act_return_def split: prod.splits sum.splits)
  then show ?thesis
    by (intro pipeline_drawdown_blind [OF map_redis_model, where config = live_config])
      (auto simp: sample_keeps content_json_def)
qed

end
