(* ===== verification/WalkForward.thy ===== *)
theory WalkForward
  imports PyStat
begin

text \<open>
  \<open>backend/app/backtesting\<close>: walk-forward testing of a strategy on rolling windows. A frame is the list
  of its bars, with the instants of its index; the columns are the fields of a bar, so the check of
  the columns always passes. The functions \<open>mean\<close> and \<open>std\<close> of numpy and the power function of a float
  are arguments; the element-wise operations on arrays are float operations. Log lines are left out
  and the notes of the validation are constructors with their numbers.
\<close>

section \<open>Data\<close>

text \<open>A float that may be infinite or no number: \<open>numpy.std\<close> of one value with \<open>ddof=1\<close> is no number.\<close>

datatype wfloat = Num rat | Infinite | NotANumber

definition w_less :: "wfloat \<Rightarrow> wfloat \<Rightarrow> bool" where
  "w_less x y = (case (x, y) of (Num a, Num b) \<Rightarrow> a < b | (Num a, Infinite) \<Rightarrow> True | _ \<Rightarrow> False)"

definition w_le :: "wfloat \<Rightarrow> wfloat \<Rightarrow> bool" where
  "w_le x y = (case (x, y) of (Num a, Num b) \<Rightarrow> a \<le> b | (Num a, Infinite) \<Rightarrow> True
     | (Infinite, Infinite) \<Rightarrow> True | _ \<Rightarrow> False)"

text \<open>A quotient whose divisor is a number other than 0, or no number.\<close>

definition w_div :: "wfloat \<Rightarrow> wfloat \<Rightarrow> wfloat" where
  "w_div x y = (case (x, y) of (Num a, Num b) \<Rightarrow> Num (fdiv a b) | _ \<Rightarrow> NotANumber)"

record numeric_lib =
  nl_mean :: "rat list \<Rightarrow> rat"
  nl_std :: "nat \<Rightarrow> rat list \<Rightarrow> rat"
  nl_pow :: "rat \<Rightarrow> rat \<Rightarrow> rat"

definition WF_MAX_LEVERAGE :: int where "WF_MAX_LEVERAGE = 20"
definition WF_MIN_RR_RATIO :: rat where "WF_MIN_RR_RATIO = 2"
definition WF_MIN_CONFIDENCE :: rat where "WF_MIN_CONFIDENCE = f64 0.6"

datatype wf_side = GoLong | GoShort

record wf_bar =
  wb_time :: int
  wb_open :: rat
  wb_high :: rat
  wb_low :: rat
  wb_close :: rat

record wf_signal =
  ws_timestamp :: int
  ws_direction :: wf_side
  ws_entry_price :: rat
  ws_take_profit :: rat
  ws_stop_loss :: rat
  ws_confidence :: rat
  ws_leverage :: int

datatype wf_close_reason = TpHit | SlHit | WindowEnd

record wf_trade =
  wt_entry_time :: int
  wt_exit_time :: int
  wt_direction :: wf_side
  wt_entry_price :: rat
  wt_exit_price :: rat
  wt_quantity :: rat
  wt_leverage :: int
  wt_margin_used :: rat
  wt_pnl_usdt :: rat
  wt_pnl_pct :: rat
  wt_rr_ratio :: rat
  wt_close_reason :: wf_close_reason
  wt_gross_pnl :: rat
  wt_commission :: rat

record wf_metrics =
  wm_cagr :: rat
  wm_sharpe_ratio :: wfloat
  wm_max_drawdown :: rat
  wm_profit_factor :: wfloat
  wm_win_rate :: rat
  wm_total_trades :: nat
  wm_total_pnl_usdt :: rat
  wm_avg_pnl_usdt :: rat
  wm_calmar_ratio :: rat
  wm_best_trade_usdt :: rat
  wm_worst_trade_usdt :: rat
  wm_final_equity :: rat

definition wm_empty :: wf_metrics where
  "wm_empty = \<lparr>wm_cagr = 0, wm_sharpe_ratio = Num 0, wm_max_drawdown = 0, wm_profit_factor = Num 0,
     wm_win_rate = 0, wm_total_trades = 0, wm_total_pnl_usdt = 0, wm_avg_pnl_usdt = 0,
     wm_calmar_ratio = 0, wm_best_trade_usdt = 0, wm_worst_trade_usdt = 0, wm_final_equity = 0\<rparr>"

record wf_config =
  wc_initial_capital :: rat
  wc_risk_per_trade :: rat
  wc_commission_rate :: rat
  wc_slippage_rate :: rat
  wc_max_leverage :: int
  wc_is_window_days :: int
  wc_oos_window_days :: int
  wc_step_days :: int
  wc_min_trades_per_window :: nat
  wc_efficiency_threshold :: rat
  wc_optimization_metric :: string
  wc_risk_free_rate :: rat

definition wc_default :: wf_config where
  "wc_default = \<lparr>wc_initial_capital = 10000, wc_risk_per_trade = f64 0.02,
     wc_commission_rate = f64 0.0004, wc_slippage_rate = f64 0.0001, wc_max_leverage = 5,
     wc_is_window_days = 90, wc_oos_window_days = 30, wc_step_days = 30,
     wc_min_trades_per_window = 5, wc_efficiency_threshold = f64 0.5,
     wc_optimization_metric = ''sharpe_ratio'', wc_risk_free_rate = f64 0.05\<rparr>"

text \<open>
  A value of a parameter: an integer, a float or a text, where a text is not the text of a number.
\<close>

datatype pval = PInt int | PFloat rat | PText string

type_synonym wf_params = "(string, pval) pydict"

record wf_strategy =
  st_signals :: "wf_bar list \<Rightarrow> wf_params \<Rightarrow> wf_signal list result"
  st_space :: "(string, pval list) pydict"

datatype wf_note =
    OosTooFew nat | IsTooFew nat | IsSharpeBad wfloat | EfficiencyLow wfloat | OosDrawdown rat | Passed

record wf_window =
  ww_id :: nat
  ww_is_start :: int
  ww_is_end :: int
  ww_oos_start :: int
  ww_oos_end :: int
  ww_is_trades :: "wf_trade list"
  ww_is_metrics :: wf_metrics
  ww_is_best_params :: wf_params
  ww_is_equity :: "rat list"
  ww_oos_trades :: "wf_trade list"
  ww_oos_metrics :: wf_metrics
  ww_oos_equity :: "rat list"
  ww_is_valid :: bool
  ww_efficiency :: wfloat
  ww_notes :: "wf_note list"

datatype wf_stability =
    Numeric rat rat rat bool
  | Symbolic "pval list" bool

datatype wf_risk = LowRisk | MediumRisk | HighRisk

record wf_result =
  wr_total_windows :: nat
  wr_valid_windows :: nat
  wr_combined_metrics :: wf_metrics
  wr_combined_equity :: "rat list"
  wr_windows :: "wf_window list"
  wr_avg_efficiency :: rat
  wr_consistency :: rat
  wr_stability :: "(string, wf_stability) pydict"
  wr_overfitting :: wf_risk

section \<open>Windows\<close>

definition days_us :: "int \<Rightarrow> int" where "days_us d = d * 86400000000"

definition bars_between :: "int \<Rightarrow> int \<Rightarrow> wf_bar list \<Rightarrow> wf_bar list" where
  "bars_between a b bars = filter (\<lambda>x. a \<le> wb_time x \<and> wb_time x < b) bars"

text \<open>The loop over the cursor; it has no value when it does not end.\<close>

partial_function (option) split_from ::
    "wf_config \<Rightarrow> wf_bar list \<Rightarrow> int \<Rightarrow> int \<Rightarrow> (wf_bar list \<times> wf_bar list) list \<Rightarrow> (wf_bar list \<times> wf_bar list) list option" where
  "split_from c bars end cursor windows =
     (let is_end = cursor + days_us (wc_is_window_days c);
          oos_end = is_end + days_us (wc_oos_window_days c)
      in if end < oos_end then Some windows
         else
           let is_bars = bars_between cursor is_end bars;
               oos_bars = bars_between is_end oos_end bars
           in split_from c bars end (cursor + days_us (wc_step_days c))
                (if is_bars \<noteq> [] \<and> oos_bars \<noteq> [] then windows @ [(is_bars, oos_bars)] else windows))"

definition split_windows :: "wf_config \<Rightarrow> wf_bar list \<Rightarrow> (wf_bar list \<times> wf_bar list) list option" where
  "split_windows c bars =
     (if bars = [] then Some [] else split_from c bars (wb_time (last bars)) (wb_time (hd bars)) [])"

section \<open>Simulation\<close>

definition wf_rr_ratio :: "wf_signal \<Rightarrow> rat" where
  "wf_rr_ratio s =
     (let (profit, loss) = (if ws_direction s = GoLong
            then (fsub (ws_take_profit s) (ws_entry_price s), fsub (ws_entry_price s) (ws_stop_loss s))
            else (fsub (ws_entry_price s) (ws_take_profit s), fsub (ws_stop_loss s) (ws_entry_price s)))
      in if loss \<le> 0 then 0 else fdiv profit loss)"

definition wf_validate_signal :: "wf_signal \<Rightarrow> bool" where
  "wf_validate_signal s \<longleftrightarrow> \<not> ws_confidence s < WF_MIN_CONFIDENCE \<and> \<not> wf_rr_ratio s < WF_MIN_RR_RATIO"

text \<open>Quantity, margin and leverage; a zero entry price raises \<open>ZeroDivisionError\<close>.\<close>

definition wf_calc_position :: "wf_signal \<Rightarrow> wf_config \<Rightarrow> rat \<Rightarrow> (rat \<times> rat \<times> int) result" where
  "wf_calc_position s c balance =
     (let lev = min (min (ws_leverage s) (wc_max_leverage c)) WF_MAX_LEVERAGE;
          distance = \<bar>fsub (ws_entry_price s) (ws_stop_loss s)\<bar>
      in if distance \<le> 0 then Inr (0, 0, lev)
         else
           let margin = fdiv (fmul balance (wc_risk_per_trade c)) distance
           in if ws_entry_price s = 0 then Inl DivisionByZero
              else Inr (fdiv (fmul margin (of_int lev)) (ws_entry_price s), margin, lev))"

text \<open>\<open>searchsorted(ts, side="right")\<close> of an ascending index: the bars up to \<open>ts\<close> are left out.\<close>

definition find_entry_bar :: "wf_bar list \<Rightarrow> int \<Rightarrow> nat option" where
  "find_entry_bar bars ts =
     (let idx = length (takeWhile (\<lambda>b. wb_time b \<le> ts) bars)
      in if length bars \<le> idx then None else Some idx)"

text \<open>The scan for an exit; on a bar that reaches both levels the stop comes first.\<close>

fun scan_exit :: "wf_signal \<Rightarrow> wf_bar list \<Rightarrow> (wf_close_reason \<times> rat \<times> int) option" where
  "scan_exit s [] = None"
| "scan_exit s (b # bs) =
     (case ws_direction s of
        GoLong \<Rightarrow>
          if wb_low b \<le> ws_stop_loss s then Some (SlHit, ws_stop_loss s, wb_time b)
          else if ws_take_profit s \<le> wb_high b then Some (TpHit, ws_take_profit s, wb_time b)
          else scan_exit s bs
      | GoShort \<Rightarrow>
          if ws_stop_loss s \<le> wb_high b then Some (SlHit, ws_stop_loss s, wb_time b)
          else if wb_low b \<le> ws_take_profit s then Some (TpHit, ws_take_profit s, wb_time b)
          else scan_exit s bs)"

definition simulate_trade ::
    "wf_bar list \<Rightarrow> wf_signal \<Rightarrow> nat \<Rightarrow> rat \<Rightarrow> rat \<Rightarrow> int \<Rightarrow> wf_config \<Rightarrow> wf_trade" where
  "simulate_trade bars s entry quantity margin lev c =
     (let raw = wb_open (bars ! entry);
          slippage = fmul raw (wc_slippage_rate c);
          price = (if ws_direction s = GoLong then fadd raw slippage else fsub raw slippage);
          (reason, exit_price, exit_time) = (case scan_exit s (drop (entry + 1) bars) of
              Some x \<Rightarrow> x | None \<Rightarrow> (WindowEnd, wb_close (last bars), wb_time (last bars)));
          gross = (if ws_direction s = GoLong then fmul (fsub exit_price price) quantity
                   else fmul (fsub price exit_price) quantity);
          commission = fmul (fadd (fmul price quantity) (fmul exit_price quantity)) (wc_commission_rate c);
          pnl = fsub gross commission
      in \<lparr>wt_entry_time = wb_time (bars ! entry), wt_exit_time = exit_time,
          wt_direction = ws_direction s, wt_entry_price = price, wt_exit_price = exit_price,
          wt_quantity = quantity, wt_leverage = lev, wt_margin_used = margin, wt_pnl_usdt = pnl,
          wt_pnl_pct = (if 0 < margin then fdiv pnl margin else 0), wt_rr_ratio = wf_rr_ratio s,
          wt_close_reason = reason, wt_gross_pnl = gross, wt_commission = commission\<rparr>)"

text \<open>One signal: nothing, or a trade that changes the balance.\<close>

definition simulate_signal :: "wf_bar list \<Rightarrow> wf_config \<Rightarrow> wf_signal \<Rightarrow> rat \<Rightarrow> wf_trade option result" where
  "simulate_signal bars c s balance =
     (if \<not> wf_validate_signal s then Inr None
      else case find_entry_bar bars (ws_timestamp s) of
        None \<Rightarrow> Inr None
      | Some entry \<Rightarrow>
          ebind (wf_calc_position s c balance) (\<lambda>(quantity, margin, lev).
          Inr (if quantity \<le> 0 then None
               else Some (simulate_trade bars s entry quantity margin lev c))))"

fun simulate_from ::
    "wf_bar list \<Rightarrow> wf_config \<Rightarrow> wf_signal list \<Rightarrow> rat \<Rightarrow> (wf_trade list \<times> rat list) result" where
  "simulate_from bars c [] balance = Inr ([], [])"
| "simulate_from bars c (s # ss) balance =
     ebind (simulate_signal bars c s balance) (\<lambda>t.
     case t of
       None \<Rightarrow> simulate_from bars c ss balance
     | Some t \<Rightarrow>
         let balance1 = fadd balance (wt_pnl_usdt t)
         in ebind (simulate_from bars c ss balance1) (\<lambda>(ts, curve). Inr (t # ts, balance1 # curve)))"

definition simulator_run ::
    "wf_bar list \<Rightarrow> wf_signal list \<Rightarrow> wf_config \<Rightarrow> rat \<Rightarrow> (wf_trade list \<times> rat list) result" where
  "simulator_run bars signals c capital =
     ebind (simulate_from bars c signals capital) (\<lambda>(ts, curve). Inr (ts, capital # curve))"

section \<open>Figures\<close>

definition wf_cagr :: "numeric_lib \<Rightarrow> rat \<Rightarrow> rat \<Rightarrow> int \<Rightarrow> int \<Rightarrow> rat" where
  "wf_cagr L initial final start_dt end_dt =
     (let days = (end_dt - start_dt) div days_us 1
      in if days \<le> 0 \<or> initial \<le> 0 \<or> final \<le> 0 then 0
         else
           let years = fdiv (of_int days) 365.25
           in if years < fdiv 1 365.25 then 0
              else fsub (nl_pow L (fdiv final initial) (fdiv 1 years)) 1)"

fun running_max :: "rat \<Rightarrow> rat list \<Rightarrow> rat list" where
  "running_max m [] = []"
| "running_max m (x # xs) = max m x # running_max (max m x) xs"

definition wf_max_drawdown :: "rat list \<Rightarrow> rat" where
  "wf_max_drawdown curve =
     (if length curve < 2 then 0
      else Min (set (map (\<lambda>(x, peak). if 0 < peak then fdiv (fsub x peak) peak else 0)
             (zip curve (running_max (hd curve) curve)))))"

definition wf_returns :: "rat list \<Rightarrow> rat list" where
  "wf_returns curve = map (\<lambda>(a, b). fdiv (fsub b a) (if a \<noteq> 0 then a else 1)) (zip curve (tl curve))"

definition wf_sharpe :: "numeric_lib \<Rightarrow> rat list \<Rightarrow> rat \<Rightarrow> wfloat" where
  "wf_sharpe L curve risk_free_rate =
     (if length curve < 2 then Num 0
      else
        let returns = wf_returns curve
        in if length returns < 2 then NotANumber
           else
             let std = nl_std L 1 returns
             in if std = 0 then Num 0
                else
                  let rf = fdiv risk_free_rate 252;
                      excess = map (\<lambda>r. fsub r rf) returns
                  in Num (fmul (fdiv (nl_mean L excess) std) (fsqrt 252)))"

definition wf_profit_factor :: "wf_trade list \<Rightarrow> wfloat" where
  "wf_profit_factor trades =
     (if trades = [] then Num 0
      else
        let profit = fsum (filter (\<lambda>x. 0 < x) (map wt_pnl_usdt trades));
            loss = \<bar>fsum (filter (\<lambda>x. x < 0) (map wt_pnl_usdt trades))\<bar>
        in if loss = 0 then (if 0 < profit then Infinite else Num 0)
           else Num (fdiv profit loss))"

definition wf_calculate_metrics ::
    "numeric_lib \<Rightarrow> wf_trade list \<Rightarrow> rat list \<Rightarrow> wf_config \<Rightarrow> int \<Rightarrow> int \<Rightarrow> wf_metrics" where
  "wf_calculate_metrics L trades curve c start_dt end_dt =
     (if trades = [] \<or> length curve < 2 then wm_empty
      else
        let cagr = wf_cagr L (hd curve) (last curve) start_dt end_dt;
            mdd = wf_max_drawdown curve;
            pnls = map wt_pnl_usdt trades;
            wins = filter (\<lambda>x. 0 < x) pnls
        in \<lparr>wm_cagr = cagr, wm_sharpe_ratio = wf_sharpe L curve (wc_risk_free_rate c),
            wm_max_drawdown = mdd, wm_profit_factor = wf_profit_factor trades,
            wm_win_rate = fdiv (of_nat (length wins)) (of_nat (length trades)),
            wm_total_trades = length trades, wm_total_pnl_usdt = fsum pnls,
            wm_avg_pnl_usdt = fdiv (fsum pnls) (of_nat (length pnls)),
            wm_calmar_ratio = (if mdd < 0 then fdiv cagr \<bar>mdd\<bar> else 0),
            wm_best_trade_usdt = Max (set pnls), wm_worst_trade_usdt = Min (set pnls),
            wm_final_equity = last curve\<rparr>)"

section \<open>Validation of a window\<close>

definition validate_window ::
    "wf_metrics \<Rightarrow> wf_metrics \<Rightarrow> wf_config \<Rightarrow> bool \<times> wfloat \<times> wf_note list" where
  "validate_window is_m oos_m c =
     (if wm_total_trades oos_m < wc_min_trades_per_window c
      then (False, Num 0, [OosTooFew (wm_total_trades oos_m)])
      else if wm_total_trades is_m < wc_min_trades_per_window c
      then (False, Num 0, [IsTooFew (wm_total_trades is_m)])
      else if w_le (wm_sharpe_ratio is_m) (Num 0)
      then (False, Num 0, [IsSharpeBad (wm_sharpe_ratio is_m)])
      else
        let ratio = w_div (wm_sharpe_ratio oos_m) (wm_sharpe_ratio is_m)
        in if w_less ratio (Num (wc_efficiency_threshold c)) then (False, ratio, [EfficiencyLow ratio])
           else (True, ratio, if wm_max_drawdown oos_m < f64 (- 0.3) then [OosDrawdown (wm_max_drawdown oos_m)]
                              else [Passed]))"

section \<open>Search\<close>

text \<open>\<open>itertools.product\<close>: the last value varies fastest.\<close>

fun product_of :: "'a list list \<Rightarrow> 'a list list" where
  "product_of [] = [[]]"
| "product_of (xs # xss) = concat (map (\<lambda>x. map (Cons x) (product_of xss)) xs)"

definition param_combinations :: "(string, pval list) pydict \<Rightarrow> wf_params list" where
  "param_combinations space =
     (if space = [] then [[]] else map (zip (map fst space)) (product_of (map snd space)))"

definition get_metric_value :: "wf_metrics \<Rightarrow> string \<Rightarrow> wfloat" where
  "get_metric_value m name =
     (if name = ''cagr'' then Num (wm_cagr m) else if name = ''sharpe_ratio'' then wm_sharpe_ratio m
      else if name = ''max_drawdown'' then Num (wm_max_drawdown m)
      else if name = ''profit_factor'' then wm_profit_factor m
      else if name = ''win_rate'' then Num (wm_win_rate m)
      else if name = ''total_trades'' then Num (of_nat (wm_total_trades m))
      else if name = ''total_pnl_usdt'' then Num (wm_total_pnl_usdt m)
      else if name = ''avg_pnl_usdt'' then Num (wm_avg_pnl_usdt m)
      else if name = ''calmar_ratio'' then Num (wm_calmar_ratio m)
      else if name = ''best_trade_usdt'' then Num (wm_best_trade_usdt m)
      else if name = ''worst_trade_usdt'' then Num (wm_worst_trade_usdt m)
      else if name = ''final_equity'' then Num (wm_final_equity m)
      else Num 0)"

definition wf_run_window ::
    "wf_strategy \<Rightarrow> wf_config \<Rightarrow> wf_bar list \<Rightarrow> wf_params \<Rightarrow> (wf_trade list \<times> rat list) result" where
  "wf_run_window st c bars params =
     ebind (st_signals st bars params) (\<lambda>signals. simulator_run bars signals c (wc_initial_capital c))"

record wf_best =
  wx_score :: "wfloat option"
  wx_params :: wf_params
  wx_trades :: "wf_trade list"
  wx_metrics :: wf_metrics
  wx_equity :: "rat list"

text \<open>The loop over the combinations; a score of \<open>None\<close> is the initial minus infinity.\<close>

fun optimize_from ::
    "numeric_lib \<Rightarrow> wf_strategy \<Rightarrow> wf_config \<Rightarrow> wf_bar list \<Rightarrow> wf_params list \<Rightarrow> wf_best \<Rightarrow> wf_best result" where
  "optimize_from L st c bars [] best = Inr best"
| "optimize_from L st c bars (params # rest) best =
     ebind (wf_run_window st c bars params) (\<lambda>(trades, equity).
     if length trades < wc_min_trades_per_window c then optimize_from L st c bars rest best
     else
       let metrics = wf_calculate_metrics L trades equity c (wb_time (hd bars)) (wb_time (last bars));
           score = get_metric_value metrics (wc_optimization_metric c);
           better = (case wx_score best of None \<Rightarrow> score \<noteq> NotANumber | Some b \<Rightarrow> w_less b score)
       in optimize_from L st c bars rest
            (if better
             then \<lparr>wx_score = Some score, wx_params = params, wx_trades = trades,
                   wx_metrics = metrics, wx_equity = equity\<rparr>
             else best))"

definition optimize_is :: "numeric_lib \<Rightarrow> wf_strategy \<Rightarrow> wf_config \<Rightarrow> wf_bar list \<Rightarrow> wf_best result" where
  "optimize_is L st c bars =
     (let combos = param_combinations (st_space st)
      in optimize_from L st c bars combos
           \<lparr>wx_score = None, wx_params = (case combos of [] \<Rightarrow> [] | p # ps \<Rightarrow> p), wx_trades = [],
            wx_metrics = wm_empty, wx_equity = [wc_initial_capital c]\<rparr>)"

section \<open>Analysis\<close>

definition setdefault_append :: "(string, pval list) pydict \<Rightarrow> string \<times> pval \<Rightarrow> (string, pval list) pydict" where
  "setdefault_append d kv =
     AList.update (fst kv) ((case map_of d (fst kv) of None \<Rightarrow> [] | Some vs \<Rightarrow> vs) @ [snd kv]) d"

definition pval_float :: "pval \<Rightarrow> rat option" where
  "pval_float v = (case v of PInt n \<Rightarrow> Some (f64 (of_int n)) | PFloat x \<Rightarrow> Some x | PText t \<Rightarrow> None)"

text \<open>
  The distinct texts of the values of a symbolic parameter are represented by the distinct values;
  the order in which their texts are listed is left out.
\<close>

definition stability_of :: "numeric_lib \<Rightarrow> pval list \<Rightarrow> wf_stability" where
  "stability_of L values =
     (if list_all (\<lambda>v. pval_float v \<noteq> None) values
      then
        let arr = map (\<lambda>v. the (pval_float v)) values;
            mean = nl_mean L arr;
            std = nl_std L 0 arr;
            cv = (if mean \<noteq> 0 then fdiv std mean else 0)
        in Numeric (fround 4 mean) (fround 4 std) (fround 4 cv) (cv \<le> f64 0.5)
      else Symbolic (remdups values) (length (remdups values) = 1))"

definition analyze_param_stability :: "numeric_lib \<Rightarrow> wf_window list \<Rightarrow> (string, wf_stability) pydict" where
  "analyze_param_stability L windows =
     map (\<lambda>(k, vs). (k, stability_of L vs))
       (foldl setdefault_append [] (concat (map ww_is_best_params windows)))"

definition assess_overfitting_risk :: "rat \<Rightarrow> rat \<Rightarrow> wf_risk" where
  "assess_overfitting_risk avg_efficiency consistency =
     (if f64 0.7 \<le> avg_efficiency \<and> f64 0.7 \<le> consistency then LowRisk
      else if f64 0.5 \<le> avg_efficiency \<and> f64 0.5 \<le> consistency then MediumRisk
      else HighRisk)"

section \<open>The whole cycle\<close>

definition wf_window_result ::
    "numeric_lib \<Rightarrow> wf_strategy \<Rightarrow> wf_config \<Rightarrow> nat \<Rightarrow> wf_bar list \<Rightarrow> wf_bar list \<Rightarrow> wf_window result" where
  "wf_window_result L st c idx is_bars oos_bars =
     ebind (optimize_is L st c is_bars) (\<lambda>best.
     ebind (wf_run_window st c oos_bars (wx_params best)) (\<lambda>(trades, equity).
     let metrics = wf_calculate_metrics L trades equity c (wb_time (hd oos_bars)) (wb_time (last oos_bars));
         (valid, ratio, notes) = validate_window (wx_metrics best) metrics c
     in Inr \<lparr>ww_id = idx, ww_is_start = wb_time (hd is_bars), ww_is_end = wb_time (last is_bars),
             ww_oos_start = wb_time (hd oos_bars), ww_oos_end = wb_time (last oos_bars),
             ww_is_trades = wx_trades best, ww_is_metrics = wx_metrics best,
             ww_is_best_params = wx_params best, ww_is_equity = wx_equity best,
             ww_oos_trades = trades, ww_oos_metrics = metrics, ww_oos_equity = equity,
             ww_is_valid = valid, ww_efficiency = ratio, ww_notes = notes\<rparr>))"

fun wf_windows_from ::
    "numeric_lib \<Rightarrow> wf_strategy \<Rightarrow> wf_config \<Rightarrow> nat \<Rightarrow> (wf_bar list \<times> wf_bar list) list \<Rightarrow> wf_window list result" where
  "wf_windows_from L st c idx [] = Inr []"
| "wf_windows_from L st c idx ((is_bars, oos_bars) # rest) =
     ebind (wf_window_result L st c idx is_bars oos_bars) (\<lambda>w.
     ebind (wf_windows_from L st c (idx + 1) rest) (\<lambda>ws. Inr (w # ws)))"

text \<open>The equity over all windows: the running value and the curve after the trades of one window.\<close>

fun add_deltas :: "rat \<Rightarrow> rat list \<Rightarrow> rat \<Rightarrow> rat list" where
  "add_deltas capital [] running = []"
| "add_deltas capital (e # es) running =
     (let running1 = fadd running (fsub e capital) in running1 # add_deltas capital es running1)"

fun combine_equity :: "rat \<Rightarrow> wf_window list \<Rightarrow> rat \<Rightarrow> rat list" where
  "combine_equity capital [] running = []"
| "combine_equity capital (w # ws) running =
     (let part = (if ww_oos_trades w \<noteq> [] \<and> 1 < length (ww_oos_equity w)
                  then add_deltas capital (tl (ww_oos_equity w)) running else [])
      in part @ combine_equity capital ws (if part = [] then running else last part))"

definition wf_summary :: "numeric_lib \<Rightarrow> wf_config \<Rightarrow> wf_window list \<Rightarrow> wf_result" where
  "wf_summary L c ws =
     (let capital = wc_initial_capital c;
          combined = capital # combine_equity capital ws capital;
          valid = length (filter ww_is_valid ws);
          ratios = concat (map (\<lambda>w. case ww_efficiency w of Num r \<Rightarrow> if 0 < r then [r] else [] | _ \<Rightarrow> []) ws);
          avg = (if ratios = [] then 0 else nl_mean L ratios);
          consistency = fdiv (of_nat valid) (of_nat (length ws))
      in \<lparr>wr_total_windows = length ws, wr_valid_windows = valid,
          wr_combined_metrics = wf_calculate_metrics L (concat (map ww_oos_trades ws)) combined c
            (ww_oos_start (hd ws)) (ww_oos_end (last ws)),
          wr_combined_equity = combined, wr_windows = ws, wr_avg_efficiency = avg,
          wr_consistency = consistency, wr_stability = analyze_param_stability L ws,
          wr_overfitting = assess_overfitting_risk avg consistency\<rparr>)"

text \<open>\<open>None\<close> when the loop of the windows does not end; no window is a \<open>ValueError\<close>.\<close>

definition wf_run :: "numeric_lib \<Rightarrow> wf_strategy \<Rightarrow> wf_config \<Rightarrow> wf_bar list \<Rightarrow> wf_result result option" where
  "wf_run L st c bars =
     map_option (\<lambda>windows.
       if windows = [] then Inl ValueError
       else ebind (wf_windows_from L st c 0 windows) (\<lambda>ws. Inr (wf_summary L c ws)))
       (split_windows c bars)"

end
