(* ===== verification/WalkForwardProps.thy ===== *)
theory WalkForwardProps
  imports WalkForward
begin

text \<open>
  Walk-forward testing: the windows are found when the cursor moves forward, every trade of a window
  uses only bars of the window after its signal, and the parameters that are tested out of sample
  are a best choice in sample.
\<close>

section \<open>Windows\<close>

definition window_ok :: "wf_config \<Rightarrow> wf_bar list \<Rightarrow> wf_bar list \<times> wf_bar list \<Rightarrow> bool" where
  "window_ok c bars = (\<lambda>(is_bars, oos_bars). is_bars \<noteq> [] \<and> oos_bars \<noteq> [] \<and>
     (\<exists>cursor. is_bars = bars_between cursor (cursor + days_us (wc_is_window_days c)) bars \<and>
        oos_bars = bars_between (cursor + days_us (wc_is_window_days c))
          (cursor + days_us (wc_is_window_days c) + days_us (wc_oos_window_days c)) bars))"

lemma window_separated:
  "window_ok c bars (is_bars, oos_bars) \<Longrightarrow> x \<in> set is_bars \<Longrightarrow> y \<in> set oos_bars \<Longrightarrow> wb_time x < wb_time y"
  by (auto simp: window_ok_def bars_between_def)

lemma split_from_ends:
  assumes "0 < wc_step_days c"
  shows "\<exists>ws. split_from c bars fin cursor acc = Some (acc @ ws) \<and> list_all (window_ok c bars) ws"
proof (induction "nat (fin - cursor - days_us (wc_is_window_days c) - days_us (wc_oos_window_days c) + 1)"
    arbitrary: cursor acc rule: less_induct)
  case less
  let ?oos_end = "cursor + days_us (wc_is_window_days c) + days_us (wc_oos_window_days c)"
  let ?w = "(bars_between cursor (cursor + days_us (wc_is_window_days c)) bars,
      bars_between (cursor + days_us (wc_is_window_days c)) ?oos_end bars)"
  show ?case
  proof (cases "fin < ?oos_end")
    case True
    then show ?thesis by (simp add: split_from.simps)
  next
    case False
    define acc1 where "acc1 = (if fst ?w \<noteq> [] \<and> snd ?w \<noteq> [] then acc @ [?w] else acc)"
    have "0 < days_us (wc_step_days c)" using assms by (simp add: days_us_def)
    then have "\<exists>ws. split_from c bars fin (cursor + days_us (wc_step_days c)) acc1 = Some (acc1 @ ws) \<and>
        list_all (window_ok c bars) ws"
      using False by (intro less.hyps) simp
    then obtain ws where ws: "split_from c bars fin (cursor + days_us (wc_step_days c)) acc1 = Some (acc1 @ ws)"
      "list_all (window_ok c bars) ws" by blast
    have "split_from c bars fin cursor acc = Some (acc1 @ ws)"
      using False ws(1) by (subst split_from.simps) (simp add: Let_def acc1_def)
    moreover have "fst ?w \<noteq> [] \<Longrightarrow> snd ?w \<noteq> [] \<Longrightarrow> window_ok c bars ?w"
      unfolding window_ok_def by auto
    ultimately show ?thesis
      using ws(2) by (cases "fst ?w \<noteq> [] \<and> snd ?w \<noteq> []") (auto simp: acc1_def)
  qed
qed

lemma split_from_stuck:
  assumes "split_from c bars fin cursor acc = Some ws" "wc_step_days c \<le> 0"
    "cursor + days_us (wc_is_window_days c) + days_us (wc_oos_window_days c) \<le> fin"
  shows False
proof -
  let ?P = "\<lambda>c bars fin cursor acc ws. wc_step_days c \<le> 0 \<longrightarrow>
      \<not> cursor + days_us (wc_is_window_days c) + days_us (wc_oos_window_days c) \<le> fin"
  have "?P c bars fin cursor acc ws"
  proof (rule split_from.raw_induct [OF _ assms(1), where P = ?P], goal_cases)
    case (1 f c bars fin cursor acc ws)
    show ?case
    proof (intro impI notI)
      assume x: "wc_step_days c \<le> 0" "cursor + days_us (wc_is_window_days c) + days_us (wc_oos_window_days c) \<le> fin"
      then obtain acc1 where "f c bars fin (cursor + days_us (wc_step_days c)) acc1 = Some ws"
        using 1(2) by (auto simp: Let_def split: if_splits)
      from 1(1) [OF this] x show False by (simp add: days_us_def)
    qed
  qed
  then show False using assms(2,3) by blast
qed

section \<open>Trades\<close>

definition touched :: "wf_side \<Rightarrow> wf_close_reason \<Rightarrow> rat \<Rightarrow> wf_bar \<Rightarrow> bool" where
  "touched side reason level b \<longleftrightarrow>
     (case reason of SlHit \<Rightarrow> (if side = GoLong then wb_low b \<le> level else level \<le> wb_high b)
      | TpHit \<Rightarrow> (if side = GoLong then level \<le> wb_high b else wb_low b \<le> level)
      | WindowEnd \<Rightarrow> True)"

text \<open>A trade of a frame: entered on the first bar after an admissible signal, ended by a bar of the frame.\<close>

definition trade_at :: "wf_config \<Rightarrow> wf_bar list \<Rightarrow> wf_signal \<Rightarrow> nat \<Rightarrow> nat \<Rightarrow> wf_trade \<Rightarrow> bool" where
  "trade_at c bars s e x t \<longleftrightarrow>
     ws_timestamp s < wb_time (bars ! e) \<and> (\<forall>i<e. wb_time (bars ! i) \<le> ws_timestamp s) \<and>
     WF_MIN_CONFIDENCE \<le> ws_confidence s \<and> WF_MIN_RR_RATIO \<le> wf_rr_ratio s \<and>
     wt_direction t = ws_direction s \<and> wt_entry_time t = wb_time (bars ! e) \<and>
     wt_exit_time t = wb_time (bars ! x) \<and> e \<le> x \<and> 0 < wt_quantity t \<and>
     wt_leverage t \<le> wc_max_leverage c \<and> wt_leverage t \<le> WF_MAX_LEVERAGE \<and>
     (case wt_close_reason t of
        SlHit \<Rightarrow> e < x \<and> wt_exit_price t = ws_stop_loss s
      | TpHit \<Rightarrow> e < x \<and> wt_exit_price t = ws_take_profit s
      | WindowEnd \<Rightarrow> x = length bars - 1 \<and> wt_exit_price t = wb_close (last bars)) \<and>
     touched (ws_direction s) (wt_close_reason t) (wt_exit_price t) (bars ! x)"

definition trade_of :: "wf_config \<Rightarrow> wf_bar list \<Rightarrow> wf_signal list \<Rightarrow> wf_trade \<Rightarrow> bool" where
  "trade_of c bars signals t \<longleftrightarrow>
     (\<exists>s\<in>set signals. \<exists>e<length bars. \<exists>x<length bars. trade_at c bars s e x t)"

lemma scan_exit_Some:
  "scan_exit s bs = Some (reason, price, time) \<Longrightarrow>
   \<exists>i<length bs. time = wb_time (bs ! i) \<and> touched (ws_direction s) reason price (bs ! i) \<and>
     (reason = SlHit \<and> price = ws_stop_loss s \<or> reason = TpHit \<and> price = ws_take_profit s)"
proof (induction bs)
  case (Cons b bs)
  let ?now = "if ws_direction s = GoLong
      then if wb_low b \<le> ws_stop_loss s then Some (SlHit, ws_stop_loss s, wb_time b)
           else if ws_take_profit s \<le> wb_high b then Some (TpHit, ws_take_profit s, wb_time b) else None
      else if ws_stop_loss s \<le> wb_high b then Some (SlHit, ws_stop_loss s, wb_time b)
           else if wb_low b \<le> ws_take_profit s then Some (TpHit, ws_take_profit s, wb_time b) else None"
  have e: "scan_exit s (b # bs) = (case ?now of Some x \<Rightarrow> Some x | None \<Rightarrow> scan_exit s bs)"
    by (cases "ws_direction s") simp_all
  show ?case
  proof (cases ?now)
    case None
    then obtain i where "i < length bs" "time = wb_time (bs ! i)" "touched (ws_direction s) reason price (bs ! i)"
      "reason = SlHit \<and> price = ws_stop_loss s \<or> reason = TpHit \<and> price = ws_take_profit s"
      using Cons.IH Cons.prems e by auto
    then show ?thesis by (intro exI [of _ "Suc i"]) simp
  next
    case (Some x)
    then have "x = (reason, price, time)" using Cons.prems e by simp
    with Some show ?thesis by (intro exI [of _ 0]) (auto simp: touched_def split: if_splits)
  qed
qed simp

lemma simulate_trade_of:
  assumes "simulate_signal bars c s balance = Inr (Some t)" "s \<in> set signals"
  shows "trade_of c bars signals t"
proof -
  obtain e quantity margin lev where e: "wf_validate_signal s" "find_entry_bar bars (ws_timestamp s) = Some e"
    "wf_calc_position s c balance = Inr (quantity, margin, lev)" "0 < quantity"
    "t = simulate_trade bars s e quantity margin lev c"
    using assms(1) by (auto simp: simulate_signal_def ebind_Inr_iff split: if_splits option.splits)
  have E: "e = length (takeWhile (\<lambda>b. wb_time b \<le> ws_timestamp s) bars)" "e < length bars"
    using e(2) by (auto simp: find_entry_bar_def Let_def split: if_splits)
  have after: "ws_timestamp s < wb_time (bars ! e)"
    using nth_length_takeWhile [of "\<lambda>b. wb_time b \<le> ws_timestamp s" bars] E by (simp add: not_le)
  have before: "\<forall>i<e. wb_time (bars ! i) \<le> ws_timestamp s"
    using E(1) by (metis nth_mem set_takeWhileD takeWhile_nth)
  have lev: "lev \<le> wc_max_leverage c" "lev \<le> WF_MAX_LEVERAGE"
    using e(3) by (auto simp: wf_calc_position_def Let_def split: if_splits)
  have ok: "WF_MIN_CONFIDENCE \<le> ws_confidence s" "WF_MIN_RR_RATIO \<le> wf_rr_ratio s"
    using e(1) by (simp_all add: wf_validate_signal_def not_less)
  have tail: "last bars = bars ! (length bars - 1)" using E(2) by (intro last_conv_nth) auto
  have "\<exists>x<length bars. trade_at c bars s e x t"
  proof (cases "scan_exit s (drop (e + 1) bars)")
    case None
    then have "trade_at c bars s e (length bars - 1) t"
      using E(2) after before lev ok e(4)
      by (auto simp: trade_at_def e(5) simulate_trade_def Let_def touched_def tail)
    then show ?thesis using E(2) by (intro exI [of _ "length bars - 1"]) auto
  next
    case (Some r)
    obtain reason price time where r: "r = (reason, price, time)" by (cases r)
    obtain i where i: "i < length (drop (e + 1) bars)" "time = wb_time (drop (e + 1) bars ! i)"
      "touched (ws_direction s) reason price (drop (e + 1) bars ! i)"
      "reason = SlHit \<and> price = ws_stop_loss s \<or> reason = TpHit \<and> price = ws_take_profit s"
      using scan_exit_Some [OF Some [unfolded r]] by blast
    then have "trade_at c bars s e (e + 1 + i) t"
      using E(2) after before lev ok e(4) Some r
      by (auto simp: trade_at_def e(5) simulate_trade_def Let_def)
    then show ?thesis using i(1) by (intro exI [of _ "e + 1 + i"]) auto
  qed
  then show ?thesis using E(2) assms(2) unfolding trade_of_def by blast
qed

lemma simulate_from_trades:
  "simulate_from bars c ss balance = Inr (ts, curve) \<Longrightarrow> set ss \<subseteq> set signals \<Longrightarrow>
   list_all (trade_of c bars signals) ts \<and> length curve = length ts"
proof (induction ss arbitrary: balance ts curve)
  case (Cons s ss)
  obtain x where x: "simulate_signal bars c s balance = Inr x" using Cons.prems(1) by (auto simp: ebind_Inr_iff)
  show ?case
  proof (cases x)
    case None
    then show ?thesis using Cons.IH [of balance ts curve] Cons.prems x by simp
  next
    case (Some t)
    obtain ts1 curve1 where rest: "simulate_from bars c ss (fadd balance (wt_pnl_usdt t)) = Inr (ts1, curve1)"
      "ts = t # ts1" "curve = fadd balance (wt_pnl_usdt t) # curve1"
      using Cons.prems(1) x Some by (auto simp: ebind_Inr_iff Let_def)
    have "s \<in> set signals" using Cons.prems(2) by simp
    then have "trade_of c bars signals t" using simulate_trade_of x Some by blast
    then show ?thesis using Cons.IH [OF rest(1)] Cons.prems(2) rest(2,3) by simp
  qed
qed simp

lemma simulator_trades:
  assumes "wf_run_window st c bars params = Inr (ts, curve)"
  shows "\<exists>signals. st_signals st bars params = Inr signals \<and> list_all (trade_of c bars signals) ts \<and>
    length curve = length ts + 1"
  using assms simulate_from_trades [OF _ subset_refl]
  by (fastforce simp: wf_run_window_def simulator_run_def ebind_Inr_iff)

section \<open>Search\<close>

text \<open>What the search keeps: the score is the best among those seen.\<close>

definition qualifies :: "numeric_lib \<Rightarrow> wf_strategy \<Rightarrow> wf_config \<Rightarrow> wf_bar list \<Rightarrow> wf_params \<Rightarrow> wfloat \<Rightarrow> bool" where
  "qualifies L st c bars p score \<longleftrightarrow>
     (\<exists>ts eq. wf_run_window st c bars p = Inr (ts, eq) \<and> wc_min_trades_per_window c \<le> length ts \<and>
        score = get_metric_value (wf_calculate_metrics L ts eq c (wb_time (hd bars)) (wb_time (last bars)))
          (wc_optimization_metric c))"

definition best_of :: "numeric_lib \<Rightarrow> wf_strategy \<Rightarrow> wf_config \<Rightarrow> wf_bar list \<Rightarrow> wf_params set \<Rightarrow> wf_best \<Rightarrow> bool" where
  "best_of L st c bars seen best \<longleftrightarrow>
     (case wx_score best of
        None \<Rightarrow> \<forall>p\<in>seen. \<forall>score. qualifies L st c bars p score \<longrightarrow> score = NotANumber
      | Some b \<Rightarrow> b \<noteq> NotANumber \<and> wx_params best \<in> seen \<and> qualifies L st c bars (wx_params best) b \<and>
          (\<forall>p\<in>seen. \<forall>score. qualifies L st c bars p score \<longrightarrow> \<not> w_less b score))"

lemma w_less_trans: "\<not> w_less b score \<Longrightarrow> w_less b x \<Longrightarrow> \<not> w_less x score"
  by (auto simp: w_less_def split: wfloat.splits)

lemma w_less_number: "w_less x y \<Longrightarrow> y \<noteq> NotANumber"
  by (auto simp: w_less_def split: wfloat.splits)

lemma w_less_simps [simp]: "\<not> w_less x x" "\<not> w_less x NotANumber" "\<not> w_less NotANumber x"
  by (simp_all add: w_less_def split: wfloat.splits)

lemma optimize_from_best:
  "optimize_from L st c bars ps best = Inr best' \<Longrightarrow> best_of L st c bars seen best \<Longrightarrow>
   best_of L st c bars (seen \<union> set ps) best'"
proof (induction ps arbitrary: best seen)
  case (Cons p ps)
  obtain ts eq where w: "wf_run_window st c bars p = Inr (ts, eq)" using Cons.prems(1) by (auto simp: ebind_Inr_iff)
  define score where "score = get_metric_value (wf_calculate_metrics L ts eq c (wb_time (hd bars)) (wb_time (last bars)))
      (wc_optimization_metric c)"
  have q: "qualifies L st c bars p x \<longleftrightarrow> wc_min_trades_per_window c \<le> length ts \<and> x = score" for x
    by (auto simp: qualifies_def w score_def)
  show ?case
  proof (cases "length ts < wc_min_trades_per_window c")
    case True
    then have "best_of L st c bars (insert p seen) best"
      using Cons.prems(2) q by (auto simp: best_of_def split: option.splits)
    then show ?thesis using Cons.IH [of best "insert p seen"] Cons.prems(1) w True by simp
  next
    case False
    define better where "better = (case wx_score best of None \<Rightarrow> score \<noteq> NotANumber | Some b \<Rightarrow> w_less b score)"
    define best1 where "best1 = (if better then \<lparr>wx_score = Some score, wx_params = p, wx_trades = ts,
        wx_metrics = wf_calculate_metrics L ts eq c (wb_time (hd bars)) (wb_time (last bars)), wx_equity = eq\<rparr>
      else best)"
    have "best_of L st c bars (insert p seen) best1"
      using Cons.prems(2) q False
      by (cases "wx_score best") (auto simp: best_of_def best1_def better_def dest: w_less_trans w_less_number)
    moreover have "optimize_from L st c bars ps best1 = Inr best'"
      using Cons.prems(1) w False unfolding best1_def better_def score_def by (simp add: Let_def split del: if_split)
    ultimately show ?thesis using Cons.IH [of best1 "insert p seen"] by simp
  qed
qed simp

lemma optimize_is_best:
  assumes "optimize_is L st c bars = Inr best"
  shows "best_of L st c bars (set (param_combinations (st_space st))) best"
proof -
  have "best_of L st c bars {} \<lparr>wx_score = None, wx_params = (case param_combinations (st_space st) of
      [] \<Rightarrow> [] | p # ps \<Rightarrow> p), wx_trades = [], wx_metrics = wm_empty, wx_equity = [wc_initial_capital c]\<rparr>"
    by (simp add: best_of_def)
  from optimize_from_best [OF _ this] assms show ?thesis by (simp add: optimize_is_def Let_def)
qed

section \<open>Figures\<close>

lemma wf_max_drawdown_nonpos: "wf_max_drawdown curve \<le> 0"
proof (cases curve)
  case (Cons x xs)
  let ?f = "\<lambda>(x, peak :: rat). if 0 < peak then fdiv (fsub x peak) peak else 0"
  have "?f (x, x) \<in> set (map ?f (zip curve (running_max (hd curve) curve)))" using Cons by simp
  moreover have "?f (x, x) = 0" by (simp add: fsub_def fdiv_def)
  ultimately have "0 \<in> set (map ?f (zip curve (running_max (hd curve) curve)))" by simp
  then have "Min (set (map ?f (zip curve (running_max (hd curve) curve)))) \<le> 0"
    by (rule Min_le [OF List.finite_set])
  then show ?thesis by (simp add: wf_max_drawdown_def)
qed (simp add: wf_max_drawdown_def)

text \<open>
  The combined equity adds, for every trade of a window, the profit of the window so far: two trades
  with a profit of 10 each raise it by 30.
\<close>

lemma combined_equity_counts_again: "add_deltas 10000 [10010, 10020] 10000 = [10010, 10030]"
proof -
  have "fsub 10010 10000 = 10" "fsub 10020 10000 = 20" "fadd 10000 10 = 10010" "fadd 10010 20 = 10030"
    by (simp_all add: fsub_def fadd_def f64_numeral)
  then show ?thesis by (simp add: Let_def)
qed

section \<open>The whole cycle\<close>

lemma windows_from:
  assumes "wf_windows_from L st c idx pairs = Inr ws" "w \<in> set ws"
  shows "\<exists>k is_bars oos_bars. (is_bars, oos_bars) \<in> set pairs \<and> wf_window_result L st c k is_bars oos_bars = Inr w"
  using assms
proof (induction pairs arbitrary: idx ws)
  case (Cons p pairs)
  obtain i oo where p: "p = (i, oo)" by (rule prod.exhaust)
  then obtain w0 ws0 where "wf_window_result L st c idx i oo = Inr w0"
    "wf_windows_from L st c (idx + 1) pairs = Inr ws0" "ws = w0 # ws0"
    using Cons.prems(1) by (auto simp: ebind_Inr_iff)
  then show ?case using Cons.IH Cons.prems(2) p by (auto intro: exI [of _ idx]) blast+
qed simp

lemma windows_ok:
  assumes "split_windows c bars = Some ws" "(is_bars, oos_bars) \<in> set ws"
  shows "is_bars \<noteq> [] \<and> oos_bars \<noteq> [] \<and> set is_bars \<subseteq> set bars \<and> set oos_bars \<subseteq> set bars \<and>
    (\<forall>x\<in>set is_bars. \<forall>y\<in>set oos_bars. wb_time x < wb_time y)"
proof -
  let ?fin = "wb_time (last bars)" and ?start = "wb_time (hd bars)"
  have ne: "bars \<noteq> []" using assms by (auto simp: split_windows_def)
  have "window_ok c bars (is_bars, oos_bars)"
  proof (cases "0 < wc_step_days c")
    case True
    then show ?thesis
      using split_from_ends [OF True, of bars ?fin ?start "[]"] assms ne by (auto simp: split_windows_def list_all_iff)
  next
    case False
    then have "?fin < ?start + days_us (wc_is_window_days c) + days_us (wc_oos_window_days c)"
      using split_from_stuck [of c bars ?fin ?start "[]" ws] assms(1) ne
      by (simp add: split_windows_def) (meson not_less)
    then show ?thesis using assms ne by (simp add: split_windows_def split_from.simps)
  qed
  then show ?thesis using window_separated by (auto simp: window_ok_def bars_between_def)
qed




section \<open>A sample cycle\<close>

definition wf_sample_bar :: "int \<Rightarrow> wf_bar" where
  "wf_sample_bar d = \<lparr>wb_time = days_us d, wb_open = 100, wb_high = 100, wb_low = 100, wb_close = 100\<rparr>"

definition wf_sample_bars :: "wf_bar list" where
  "wf_sample_bars = map wf_sample_bar [0, 1, 2, 3, 4]"

text \<open>A strategy with one signal, at the first bar, whose target lies at twice the distance of its stop.\<close>

definition wf_sample_strategy :: wf_strategy where
  "wf_sample_strategy = \<lparr>st_signals = (\<lambda>bars _. Inr [\<lparr>ws_timestamp = wb_time (hd bars), ws_direction = GoLong,
      ws_entry_price = 128, ws_take_profit = 256, ws_stop_loss = 64, ws_confidence = 1, ws_leverage = 1\<rparr>]),
     st_space = [(''period'', [PInt 14, PInt 21])]\<rparr>"

definition wf_sample_config :: wf_config where
  "wf_sample_config = wc_default\<lparr>wc_initial_capital := 8192, wc_risk_per_trade := 1 / 64, wc_commission_rate := 0,
     wc_slippage_rate := 0, wc_is_window_days := 2, wc_oos_window_days := 2, wc_step_days := 2\<rparr>"

definition wf_sample_lib :: numeric_lib where
  "wf_sample_lib = \<lparr>nl_mean = stat_mean, nl_std = (\<lambda>_. stat_stdev), nl_pow = (\<lambda>x y. x)\<rparr>"

lemma wf_sample_split: "split_windows wf_sample_config wf_sample_bars =
    Some [(map wf_sample_bar [0, 1], map wf_sample_bar [2, 3])]"
  by (simp add: split_windows_def wf_sample_bars_def wf_sample_bar_def split_from.simps Let_def bars_between_def
      days_us_def wf_sample_config_def wc_default_def)


lemma wf_sample_run:
  "\<exists>t curve. wf_run_window wf_sample_strategy wf_sample_config (map wf_sample_bar [d, d + 1]) p = Inr ([t], curve)"
proof -
  let ?s = "\<lparr>ws_timestamp = days_us d, ws_direction = GoLong, ws_entry_price = 128, ws_take_profit = 256,
      ws_stop_loss = 64, ws_confidence = 1, ws_leverage = 1\<rparr>"
  let ?bars = "map wf_sample_bar [d, d + 1]"
  have f: "fsub 256 128 = 128" "fsub 128 64 = 64" "fdiv 128 64 = 2" "f64 (3 / 5) \<le> 1"
    using f64_mono [of "3 / 5" 1] by (simp_all add: fsub_def fdiv_def f64_numeral)
  have ok: "wf_validate_signal ?s"
    by (simp add: wf_validate_signal_def wf_rr_ratio_def WF_MIN_CONFIDENCE_def WF_MIN_RR_RATIO_def f not_less)
  have entry: "find_entry_bar ?bars (days_us d) = Some 1"
    by (simp add: find_entry_bar_def wf_sample_bar_def days_us_def)
  obtain q m l where q: "wf_calc_position ?s wf_sample_config 8192 = Inr (q, m, l)" "0 < q"
    by (simp add: wf_calc_position_def Let_def f wf_sample_config_def wc_default_def WF_MAX_LEVERAGE_def)
      (simp add: fmul_def fdiv_def)
  have sig: "simulate_signal ?bars wf_sample_config ?s 8192 =
      Inr (Some (simulate_trade ?bars ?s 1 q m l wf_sample_config))"
    using ok entry q by (simp add: simulate_signal_def)
  have "st_signals wf_sample_strategy ?bars p = Inr [?s]" "wc_initial_capital wf_sample_config = 8192"
    by (simp_all add: wf_sample_strategy_def wf_sample_config_def wf_sample_bar_def)
  then show ?thesis using sig by (simp add: wf_run_window_def simulator_run_def Let_def)
qed

lemma wf_sample_window:
  "\<exists>w. wf_window_result wf_sample_lib wf_sample_strategy wf_sample_config 0 (map wf_sample_bar [0, 1])
       (map wf_sample_bar [2, 3]) = Inr w \<and> length (ww_oos_trades w) = 1"
proof -
  have few: "wc_min_trades_per_window wf_sample_config = 5" by (simp add: wf_sample_config_def wc_default_def)
  have "\<exists>best. optimize_from wf_sample_lib wf_sample_strategy wf_sample_config (map wf_sample_bar [0, 1]) ps b = Inr best"
    for ps b
  proof (induction ps)
    case (Cons p ps)
    then show ?case using wf_sample_run [of 0 p] few by auto
  qed simp
  then obtain best where b: "optimize_is wf_sample_lib wf_sample_strategy wf_sample_config (map wf_sample_bar [0, 1]) = Inr best"
    unfolding optimize_is_def Let_def by blast
  obtain t curve where "wf_run_window wf_sample_strategy wf_sample_config (map wf_sample_bar [2, 3]) (wx_params best)
      = Inr ([t], curve)" using wf_sample_run [of 2 "wx_params best"] by auto
  then show ?thesis unfolding wf_window_result_def b by (simp add: Let_def case_prod_beta)
qed


end
