(* ===== verification/ShadowJournal.thy ===== *)
theory ShadowJournal
  imports ShadowEngine PySum
begin

text \<open>
  \<open>backend/app/repositories/shadow_trade_repository.py\<close> and the check of
  \<open>backend/app/workers/shadow_monitor_worker.py\<close>: the table of the virtual trades and the worker that
  closes them. The table is the list of its rows in the order of their insertion, a query is a
  filter over it and an \<open>UPDATE\<close> a map; a column holds the value written to it (the rounding of
  \<open>NUMERIC(20, 8)\<close> is left out), and a violated constraint is a \<open>RuntimeError\<close>. A transaction that is
  not committed leaves the table as it was.
\<close>

section \<open>Rows\<close>

text \<open>
  The column \<open>pnl_calculation_status\<close> is \<open>COST_ADJUSTED\<close> when \<open>sh_cost_adjusted\<close>, otherwise
  \<open>GROSS_FALLBACK\<close> when \<open>rw_gross_fallback\<close> (rows of an older version), otherwise \<open>UNKNOWN\<close>.
\<close>

record shadow_row = shadow_trade +
  rw_signal_id :: "string option"
  rw_mfe_usdt :: rat
  rw_mae_usdt :: rat
  rw_gross_fallback :: bool

type_synonym shadow_table = "shadow_row list"

definition row_of :: "string option \<Rightarrow> shadow_trade \<Rightarrow> shadow_row" where
  "row_of signal t =
     shadow_trade.extend
       (t\<lparr>sh_strategy_version := Some (case sh_strategy_version t of None \<Rightarrow> ''legacy_unknown''
           | Some v \<Rightarrow> if v = [] then ''legacy_unknown'' else v)\<rparr>)
       (shadow_row.fields signal 0 0 False)"

definition row_key :: "shadow_row \<Rightarrow> string option \<times> string option" where
  "row_key r = (rw_signal_id r, sh_strategy_version r)"

section \<open>Queries\<close>

text \<open>
  \<open>save\<close>: \<open>INSERT ... ON CONFLICT (signal_id, strategy_version) DO NOTHING\<close>, whose value says whether a
  row was written. A missing leverage or a used id violates the table.
\<close>

definition repo_save :: "string option \<Rightarrow> shadow_trade \<Rightarrow> (shadow_table, bool) act" where
  "repo_save signal t tab =
     (if signal = None \<or> signal = Some [] then (tab, Inl ValueError)
      else let r = row_of signal t
        in if sh_leverage r = None then (tab, Inl RuntimeError)
           else if list_ex (\<lambda>x. row_key x = row_key r) tab then (tab, Inr False)
           else if list_ex (\<lambda>x. sh_id x = sh_id r) tab then (tab, Inl RuntimeError)
           else (tab @ [r], Inr True))"

definition get_open_trades :: "string option \<Rightarrow> shadow_table \<Rightarrow> shadow_row list" where
  "get_open_trades user tab =
     filter (\<lambda>r. sh_status r = ShOpen \<and> (case user of None \<Rightarrow> True | Some u \<Rightarrow> sh_user_id r = u)) tab"

definition unresolved_risk :: "shadow_row \<Rightarrow> bool" where
  "unresolved_risk r = (case sh_actual_max_loss_usdt r of None \<Rightarrow> True | Some l \<Rightarrow> l \<le> 0)"

definition row_risk :: "shadow_row \<Rightarrow> rat" where
  "row_risk r = (case sh_actual_max_loss_usdt r of None \<Rightarrow> 0 | Some l \<Rightarrow> l)"

text \<open>\<open>None\<close> is the \<open>UnresolvedOpenRiskError\<close>.\<close>

definition get_open_risk_usdt :: "string \<Rightarrow> string option \<Rightarrow> shadow_table \<Rightarrow> rat option" where
  "get_open_risk_usdt user version tab =
     (let trades = filter (\<lambda>r. case version of None \<Rightarrow> True | Some v \<Rightarrow> sh_strategy_version r = Some v)
            (get_open_trades (Some user) tab)
      in if list_ex unresolved_risk trades then None else Some (dec_sum (map row_risk trades)))"

definition is_exit :: "shadow_status \<Rightarrow> bool" where
  "is_exit st \<longleftrightarrow> st \<in> {ShTpHit, ShSlHit, ShMaxHold}"

text \<open>The profit that a loss state reads from a row of an older version.\<close>

definition fallback_pnl :: "shadow_row \<Rightarrow> rat option" where
  "fallback_pnl r =
     (if \<not> sh_cost_adjusted r \<and> rw_gross_fallback r
      then (case sh_gross_pnl_usdt r of Some g \<Rightarrow> Some g | None \<Rightarrow> map_option repr10 (sh_pnl_usdt r))
      else None)"

definition get_loss_state :: "string \<Rightarrow> string \<Rightarrow> int \<Rightarrow> shadow_table \<Rightarrow> shadow_loss_state" where
  "get_loss_state user version now tab =
     rebuild_loss_state
       (map (\<lambda>r. \<lparr>cl_closed_at = the (sh_closed_at r), cl_net_pnl_usdt = sh_net_pnl_usdt r,
                  cl_gross_pnl_usdt = fallback_pnl r\<rparr>)
         (sort_key (\<lambda>r. the (sh_closed_at r))
           (filter (\<lambda>r. sh_user_id r = user \<and> sh_strategy_version r = Some version \<and>
              is_exit (sh_status r) \<and> sh_closed_at r \<noteq> None) tab))) now"

section \<open>Open positions for the risk checks\<close>

fun group_legs :: "shadow_row list \<Rightarrow> ((string \<times> direction) \<times> shadow_row list) list
    \<Rightarrow> ((string \<times> direction) \<times> shadow_row list) list" where
  "group_legs [] groups = groups"
| "group_legs (r # rs) groups =
     (let k = (sh_coin r, sh_direction r)
      in group_legs rs (AList.update k ((case map_of groups k of None \<Rightarrow> [] | Some l \<Rightarrow> l) @ [r]) groups))"

definition weighted :: "(shadow_row \<Rightarrow> rat) \<Rightarrow> shadow_row list \<Rightarrow> rat" where
  "weighted f legs = dec_sum (map (\<lambda>l. dmul (f l) (sh_quantity l)) legs)"

definition leg_leverage :: "shadow_row \<Rightarrow> rat" where
  "leg_leverage l = (case sh_leverage l of None \<Rightarrow> 0 | Some n \<Rightarrow> of_int n)"

fun earliest_leg :: "('a \<Rightarrow> int) \<Rightarrow> 'a \<Rightarrow> 'a list \<Rightarrow> 'a" where
  "earliest_leg f m [] = m"
| "earliest_leg f m (x # xs) = earliest_leg f (if f x < f m then x else m) xs"

definition position_of_legs :: "shadow_row list \<Rightarrow> open_position option" where
  "position_of_legs legs =
     (let qty = dec_sum (map sh_quantity legs);
          original = earliest_leg sh_opened_at (hd legs) (tl legs)
      in if qty \<le> 0 then None
         else Some \<lparr>op_id = sh_id original, op_coin = sh_coin original, op_symbol = sh_symbol original,
             op_direction = sh_direction original,
             op_entry_price = ddiv (weighted sh_entry_price legs) qty, op_quantity = qty,
             op_stop_loss = ddiv (weighted sh_sl_price legs) qty,
             op_leverage = rhe (ddiv (weighted leg_leverage legs) qty),
             op_dca_count = int (length legs) - 1,
             op_original_risk_usdt = dec_sum (map row_risk legs)\<rparr>)"

definition get_open_positions_for_risk :: "string \<Rightarrow> shadow_table \<Rightarrow> open_position list option" where
  "get_open_positions_for_risk user tab =
     (let trades = get_open_trades (Some user) tab
      in if list_ex unresolved_risk trades then None
         else Some (List.map_filter position_of_legs (map snd (group_legs trades []))))"

definition list_trades ::
    "string \<Rightarrow> shadow_status option \<Rightarrow> nat \<Rightarrow> nat \<Rightarrow> shadow_table \<Rightarrow> shadow_row list \<times> nat" where
  "list_trades user status limit_rows offset tab =
     (let rows = filter (\<lambda>r. sh_user_id r = user \<and>
            (case status of None \<Rightarrow> True | Some st \<Rightarrow> sh_status r = st)) tab
      in (take limit_rows (drop offset (sort_key (\<lambda>r. - sh_opened_at r) rows)), length rows))"

section \<open>Statistics\<close>

record shadow_stats =
  ss_total_trades :: nat
  ss_open_trades :: nat
  ss_closed_trades :: nat
  ss_tp_hit :: nat
  ss_sl_hit :: nat
  ss_win_rate :: rat
  ss_total_pnl_usdt :: rat
  ss_avg_pnl_usdt :: rat
  ss_best_pnl_usdt :: "rat option"
  ss_worst_pnl_usdt :: "rat option"
  ss_avg_duration_minutes :: "rat option"

definition count_status :: "shadow_status \<Rightarrow> shadow_row list \<Rightarrow> nat" where
  "count_status st rows = length (filter (\<lambda>r. sh_status r = st) rows)"

definition closed_pnl :: "shadow_row \<Rightarrow> rat option" where
  "closed_pnl r =
     (if \<not> is_exit (sh_status r) then None
      else if sh_cost_adjusted r then map_option f64 (sh_net_pnl_usdt r)
      else if rw_gross_fallback r
      then map_option f64 (case sh_gross_pnl_usdt r of Some g \<Rightarrow> Some g | None \<Rightarrow> sh_pnl_usdt r)
      else None)"

definition get_stats :: "string \<Rightarrow> shadow_table \<Rightarrow> shadow_stats" where
  "get_stats user tab =
     (let rows = filter (\<lambda>r. sh_user_id r = user) tab;
          tp = count_status ShTpHit rows; sl = count_status ShSlHit rows;
          done_trades = tp + sl + count_status ShMaxHold rows;
          pnls = List.map_filter closed_pnl rows;
          pnl = (if pnls = [] then 0 else fsum pnls);
          durations = List.map_filter sh_duration_seconds rows;
          wins = length (filter (\<lambda>p. 0 < p) pnls)
      in \<lparr>ss_total_trades = length (filter (\<lambda>r. sh_status r \<noteq> ShRejected) rows),
          ss_open_trades = count_status ShOpen rows, ss_closed_trades = done_trades,
          ss_tp_hit = tp, ss_sl_hit = sl,
          ss_win_rate = fround 1 (if 0 < done_trades then fmul (fdiv (of_nat wins) (of_nat done_trades)) 100 else 0),
          ss_total_pnl_usdt = fround 2 pnl,
          ss_avg_pnl_usdt = fround 2 (if pnls = [] then 0 else fdiv pnl (of_nat (length pnls))),
          ss_best_pnl_usdt = (if pnls = [] then None else Some (fround 2 (Max (set pnls)))),
          ss_worst_pnl_usdt = (if pnls = [] then None else Some (fround 2 (Min (set pnls)))),
          ss_avg_duration_minutes = (if durations = [] then None
            else Some (fround 1 (fdiv (fdiv (fsum durations) (of_nat (length durations))) 60)))\<rparr>)"

section \<open>Updates\<close>

text \<open>Every update is restricted to an open row.\<close>

definition update_open :: "string \<Rightarrow> (shadow_row \<Rightarrow> shadow_row) \<Rightarrow> shadow_table \<Rightarrow> shadow_table" where
  "update_open tid f tab = map (\<lambda>r. if sh_id r = tid \<and> sh_status r = ShOpen then f r else r) tab"

definition closed_row :: "rat \<Rightarrow> shadow_status \<Rightarrow> int \<Rightarrow> shadow_pnl \<Rightarrow> shadow_row \<Rightarrow> shadow_row" where
  "closed_row exit_price status now p r = r
     \<lparr>sh_exit_price := Some exit_price, sh_pnl_usdt := Some (f64 (pn_gross_pnl_usdt p)),
      sh_duration_seconds := Some (fdiv (of_int (now - sh_opened_at r)) 1000000),
      sh_status := status, sh_closed_at := Some now,
      sh_gross_pnl_usdt := Some (pn_gross_pnl_usdt p), sh_net_pnl_usdt := Some (pn_net_pnl_usdt p),
      sh_exit_reason := Some status, sh_entry_fee_usdt := pn_entry_fee_usdt p,
      sh_exit_fee_usdt := pn_exit_fee_usdt p, sh_funding_fee_usdt := pn_funding_fee_usdt p,
      sh_estimated_slippage_usdt := pn_slippage_cost_usdt p,
      sh_entry_slippage_usdt := pn_entry_slippage_usdt p,
      sh_exit_slippage_usdt := pn_exit_slippage_usdt p,
      sh_net_return_on_margin_pct := pn_net_return_on_margin_pct p, sh_cost_adjusted := True\<rparr>"

definition repo_close_trade :: "string \<Rightarrow> rat \<Rightarrow> shadow_status \<Rightarrow> int \<Rightarrow> shadow_pnl \<Rightarrow> shadow_table \<Rightarrow> shadow_table" where
  "repo_close_trade tid exit_price status now p = update_open tid (closed_row exit_price status now p)"

definition excursion_row :: "rat \<Rightarrow> rat \<Rightarrow> shadow_row \<Rightarrow> shadow_row" where
  "excursion_row favorable adverse r =
     r\<lparr>rw_mfe_usdt := max (rw_mfe_usdt r) favorable, rw_mae_usdt := min (rw_mae_usdt r) adverse\<rparr>"

definition update_excursions :: "string \<Rightarrow> rat \<Rightarrow> rat \<Rightarrow> shadow_table \<Rightarrow> shadow_table" where
  "update_excursions tid favorable adverse = update_open tid (excursion_row favorable adverse)"

definition mark_data_error :: "string \<Rightarrow> shadow_table \<Rightarrow> shadow_table" where
  "mark_data_error tid = update_open tid (\<lambda>r. r\<lparr>sh_data_error := True\<rparr>)"

text \<open>The store of the engine, for one signal; the value of \<open>save\<close> is ignored there.\<close>

definition repo_store :: "string option \<Rightarrow> int \<Rightarrow> shadow_table shadow_store" where
  "repo_store signal now =
     \<lparr>st_save = (\<lambda>t. act_bind (repo_save signal t) (\<lambda>_. act_return ())),
      st_open_risk = Some (\<lambda>user. act_read (\<lambda>tab. Inr (get_open_risk_usdt user None tab))),
      st_loss_state = Some (\<lambda>user version. act_read (\<lambda>tab. Inr (get_loss_state user version now tab)))\<rparr>"

section \<open>The monitor\<close>

definition mark_pnl :: "rat \<Rightarrow> shadow_row \<Rightarrow> rat" where
  "mark_pnl price r =
     (if sh_direction r = LONG then dmul (dsub price (sh_entry_price r)) (sh_quantity r)
      else dmul (dsub (sh_entry_price r) price) (sh_quantity r))"

definition level_hit :: "rat \<Rightarrow> shadow_row \<Rightarrow> (rat \<times> shadow_status) option" where
  "level_hit price r =
     (if sh_direction r = LONG
      then if sh_tp_price r \<le> price then Some (sh_tp_price r, ShTpHit)
           else if price \<le> sh_sl_price r then Some (sh_sl_price r, ShSlHit) else None
      else if price \<le> sh_tp_price r then Some (sh_tp_price r, ShTpHit)
           else if sh_sl_price r \<le> price then Some (sh_sl_price r, ShSlHit) else None)"

definition held_too_long :: "int \<Rightarrow> shadow_row \<Rightarrow> bool" where
  "held_too_long now r =
     (case sh_max_hold_seconds r of None \<Rightarrow> False
      | Some m \<Rightarrow> 0 < m \<and> of_int m \<le> fdiv (of_int (now - sh_opened_at r)) 1000000)"

definition exit_of :: "rat \<Rightarrow> int \<Rightarrow> shadow_row \<Rightarrow> (rat \<times> shadow_status) option" where
  "exit_of price now r =
     (case level_hit price r of Some x \<Rightarrow> Some x
      | None \<Rightarrow> if held_too_long now r then Some (price, ShMaxHold) else None)"

definition decimal_cost :: "rat option \<Rightarrow> rat" where
  "decimal_cost v = (case v of None \<Rightarrow> 0 | Some x \<Rightarrow> x)"

text \<open>One trade: \<open>None\<close> when the funding loops do not end; the value says whether it was closed.\<close>

definition check_trade ::
    "(string \<rightharpoonup> rat) \<Rightarrow> shadow_cost_config \<Rightarrow> int \<Rightarrow> shadow_row \<Rightarrow> shadow_table
       \<Rightarrow> (shadow_table \<times> bool) result option" where
  "check_trade prices costs now r tab =
     (case prices (sh_symbol r) of
        None \<Rightarrow> Some (Inr (mark_data_error (sh_id r) tab, False))
      | Some price \<Rightarrow>
          let mark = mark_pnl price r;
              tab1 = update_excursions (sh_id r) (max 0 mark) (min 0 mark) tab
          in (case exit_of price now r of
                None \<Rightarrow> Some (Inr (tab1, False))
              | Some (exit_price, status) \<Rightarrow>
                  map_option (\<lambda>res. ebind res (\<lambda>p.
                    Inr (repo_close_trade (sh_id r) exit_price status now p tab1, True)))
                  (calculate_shadow_pnl (sh_direction r) (sh_entry_price r) exit_price (sh_quantity r)
                     (Some (decimal_cost (sh_margin_usdt r))) (sh_opened_at r) now costs)))"

text \<open>The loop over the open trades; \<open>clock\<close> gives the instant at which a trade is looked at.\<close>

fun check_trades ::
    "(string \<rightharpoonup> rat) \<Rightarrow> shadow_cost_config \<Rightarrow> (string \<Rightarrow> int) \<Rightarrow> shadow_row list \<Rightarrow> shadow_table \<Rightarrow> nat
       \<Rightarrow> (shadow_table \<times> nat) result option" where
  "check_trades prices costs clock [] tab n = Some (Inr (tab, n))"
| "check_trades prices costs clock (r # rs) tab n =
     (case check_trade prices costs (clock (sh_id r)) r tab of
        None \<Rightarrow> None
      | Some (Inl e) \<Rightarrow> Some (Inl e)
      | Some (Inr (tab1, hit)) \<Rightarrow>
          check_trades prices costs clock rs tab1 (if hit then n + 1 else n))"

definition check_and_close_shadow_trades ::
    "(string \<rightharpoonup> rat) \<Rightarrow> shadow_cost_config \<Rightarrow> (string \<Rightarrow> int) \<Rightarrow> shadow_table
       \<Rightarrow> (shadow_table \<times> nat) result option" where
  "check_and_close_shadow_trades prices costs clock tab =
     check_trades prices costs clock (get_open_trades None tab) tab 0"

text \<open>The cached closing prices; other symbols are never asked for.\<close>

definition get_latest_prices :: "(string \<rightharpoonup> rat) \<Rightarrow> string \<rightharpoonup> rat" where
  "get_latest_prices cache symbol = (if symbol \<in> {''BTCUSDT'', ''ETHUSDT''} then cache symbol else None)"

text \<open>
  One run of the task: \<open>cache\<close> holds the floats of the price keys or the exception of the server. A
  run that raises commits nothing (the task is retried later).
\<close>

definition run_shadow_monitor ::
    "bool \<Rightarrow> (string \<rightharpoonup> rat) result \<Rightarrow> rat \<Rightarrow> rat \<Rightarrow> rat \<Rightarrow> int \<Rightarrow> (string \<Rightarrow> int) \<Rightarrow> shadow_table
       \<Rightarrow> (shadow_table \<times> nat result) option" where
  "run_shadow_monitor enabled cache fee slippage funding interval clock tab =
     (if \<not> enabled then Some (tab, Inr 0)
      else case ebind cache (\<lambda>c. ebind (make_cost_config fee slippage funding interval) (\<lambda>costs.
             Inr (map_option repr10 \<circ> get_latest_prices c, costs))) of
        Inl e \<Rightarrow> Some (tab, Inl e)
      | Inr (prices, costs) \<Rightarrow>
          (case check_and_close_shadow_trades prices costs clock tab of
             None \<Rightarrow> None
           | Some (Inl e) \<Rightarrow> Some (tab, Inl e)
           | Some (Inr (tab1, n)) \<Rightarrow> Some (tab1, Inr n)))"

end
