(* ===== verification/JournalProps.thy ===== *)
theory JournalProps
  imports ShadowJournal ShadowProps
begin

text \<open>
  The virtual trades over their whole life: what the engine saves, what the monitor makes of it, and
  what stays of it afterwards.
\<close>

section \<open>One row under the monitor\<close>

text \<open>What a check makes of one open row, and whether it closes it.\<close>

definition check_row ::
    "(string \<rightharpoonup> rat) \<Rightarrow> shadow_cost_config \<Rightarrow> int \<Rightarrow> shadow_row \<Rightarrow> (shadow_row \<times> bool) result option" where
  "check_row prices costs now r =
     (case prices (sh_symbol r) of
        None \<Rightarrow> Some (Inr (r\<lparr>sh_data_error := True\<rparr>, False))
      | Some price \<Rightarrow>
          let r1 = excursion_row (max 0 (mark_pnl price r)) (min 0 (mark_pnl price r)) r
          in (case exit_of price now r of
                None \<Rightarrow> Some (Inr (r1, False))
              | Some (px, st) \<Rightarrow>
                  map_option (\<lambda>res. ebind res (\<lambda>p. Inr (closed_row px st now p r1, True)))
                    (calculate_shadow_pnl (sh_direction r) (sh_entry_price r) px (sh_quantity r)
                       (Some (decimal_cost (sh_margin_usdt r))) (sh_opened_at r) now costs)))"

definition terms_of :: "shadow_row \<Rightarrow> (string \<times> string \<times> string \<times> direction) \<times> (rat \<times> rat \<times> rat \<times> rat) \<times>
    int option \<times> int \<times> string option \<times> string option \<times> rat option \<times> rat option" where
  "terms_of r = ((sh_id r, sh_user_id r, sh_symbol r, sh_direction r),
     (sh_entry_price r, sh_tp_price r, sh_sl_price r, sh_quantity r),
     sh_leverage r, sh_opened_at r, sh_strategy_version r, rw_signal_id r, sh_margin_usdt r,
     sh_actual_max_loss_usdt r)"

lemma terms_id: "terms_of a = terms_of b \<Longrightarrow> sh_id a = sh_id b \<and> row_key a = row_key b"
  by (simp add: terms_of_def row_key_def)

lemma row_updates [simp]:
  "terms_of (excursion_row a b r) = terms_of r" "terms_of (closed_row px st now p r) = terms_of r"
  "terms_of (r\<lparr>sh_data_error := True\<rparr>) = terms_of r"
  "sh_status (excursion_row a b r) = sh_status r" "sh_id (excursion_row a b r) = sh_id r"
  "sh_status (closed_row px st now p r) = st" "sh_id (closed_row px st now p r) = sh_id r"
  "sh_exit_price (closed_row px st now p r) = Some px" "sh_closed_at (closed_row px st now p r) = Some now"
  by (simp_all add: terms_of_def excursion_row_def closed_row_def)

lemma exit_of_status: "exit_of price now r = Some (px, st) \<Longrightarrow>
    st = ShTpHit \<and> px = sh_tp_price r \<or> st = ShSlHit \<and> px = sh_sl_price r \<or> st = ShMaxHold \<and> px = price"
  by (auto simp: exit_of_def level_hit_def split: option.splits if_splits)

lemma exit_of_is_exit: "exit_of price now r = Some (px, st) \<Longrightarrow> is_exit st"
  using exit_of_status by (fastforce simp: is_exit_def)

section \<open>A check is a row-wise map\<close>

definition replace_row :: "shadow_row \<Rightarrow> shadow_row \<Rightarrow> shadow_table \<Rightarrow> shadow_table" where
  "replace_row r r1 tab = map (\<lambda>x. if sh_id x = sh_id r then r1 else x) tab"

lemma replace_row_nth [simp]: "length (replace_row r r1 tab) = length tab"
  "i < length tab \<Longrightarrow> replace_row r r1 tab ! i = (if sh_id (tab ! i) = sh_id r then r1 else tab ! i)"
  by (simp_all add: replace_row_def)

lemma replace_row_ids: "sh_id r1 = sh_id r \<Longrightarrow> map sh_id (replace_row r r1 tab) = map sh_id tab"
  by (simp add: replace_row_def)

lemma replace_row_rest:
  "set rs \<subseteq> set tab \<Longrightarrow> sh_id r \<notin> sh_id ` set rs \<Longrightarrow> set rs \<subseteq> set (replace_row r r1 tab)"
  by (auto simp: replace_row_def subset_iff) (metis imageI)

lemma update_open_row:
  assumes "distinct (map sh_id tab)" "r \<in> set tab" "sh_status r = ShOpen"
  shows "update_open (sh_id r) f tab = replace_row r (f r) tab"
  using assms unfolding update_open_def replace_row_def by (auto simp: eq_key_imp_eq_value distinct_map inj_on_def)

lemma check_trade_row:
  assumes "distinct (map sh_id tab)" "r \<in> set tab" "sh_status r = ShOpen"
  shows "check_trade prices costs now r tab =
    map_option (\<lambda>res. ebind res (\<lambda>(r1, b). Inr (replace_row r r1 tab, b)))
      (check_row prices costs now r)"
proof -
  have two: "update_open (sh_id r) g (replace_row r y tab) = replace_row r (g y) tab"
    if "sh_id y = sh_id r" "sh_status y = ShOpen" for y g
    using that by (auto simp: update_open_def replace_row_def)
  show ?thesis
    using update_open_row [OF assms] assms(3)
    by (auto simp: check_trade_def check_row_def mark_data_error_def update_excursions_def repo_close_trade_def
        Let_def two option.map_comp comp_def ebind_assoc split: option.splits prod.splits
        intro!: arg_cong2 [of _ _ _ _ ebind] ext)
qed

lemma check_row_keeps:
  "check_row prices costs now r = Some (Inr (r1, b)) \<Longrightarrow> terms_of r1 = terms_of r \<and>
     rw_mfe_usdt r \<le> rw_mfe_usdt r1 \<and> rw_mae_usdt r1 \<le> rw_mae_usdt r"
  by (auto simp: check_row_def Let_def ebind_Inr_iff excursion_row_def closed_row_def terms_of_def
      split: option.splits prod.splits)

definition due :: "(string \<rightharpoonup> rat) \<Rightarrow> int \<Rightarrow> shadow_row \<Rightarrow> bool" where
  "due prices now r \<longleftrightarrow> (case prices (sh_symbol r) of None \<Rightarrow> False | Some price \<Rightarrow> exit_of price now r \<noteq> None)"

lemma check_row_due: "check_row prices costs now r = Some (Inr (r1, b)) \<Longrightarrow> b = due prices now r"
  by (auto simp: check_row_def due_def Let_def ebind_Inr_iff split: option.splits prod.splits)

lemma check_trades_rows:
  assumes "check_trades prices costs clock rs tab n = Some (Inr (tab1, m))"
    "distinct (map sh_id tab)" "set rs \<subseteq> set tab" "distinct (map sh_id rs)" "\<forall>r\<in>set rs. sh_status r = ShOpen"
  shows "length tab1 = length tab \<and> m = n + length (filter (\<lambda>r. due prices (clock (sh_id r)) r) rs) \<and>
    (\<forall>i<length tab. if tab ! i \<in> set rs
       then \<exists>b. check_row prices costs (clock (sh_id (tab ! i))) (tab ! i) = Some (Inr (tab1 ! i, b))
       else tab1 ! i = tab ! i)"
  using assms
proof (induction rs arbitrary: tab n)
  case (Cons r rs)
  have r: "r \<in> set tab" "sh_status r = ShOpen" using Cons.prems(3,5) by auto
  note row = check_trade_row [OF Cons.prems(2) r]
  obtain r1 b where r1: "check_row prices costs (clock (sh_id r)) r = Some (Inr (r1, b))"
    using Cons.prems(1) row by (cases "check_row prices costs (clock (sh_id r)) r") (auto simp: ebind_Inr_iff split: sum.splits prod.splits)
  define tab2 where "tab2 = replace_row r r1 tab"
  have id1: "sh_id r1 = sh_id r" using check_row_keeps [OF r1] terms_id by blast
  note ids = replace_row_ids [OF id1, of tab, folded tab2_def]
  have rest: "check_trades prices costs clock rs tab2 (if b then n + 1 else n) = Some (Inr (tab1, m))"
    using Cons.prems(1) row r1 by (simp add: tab2_def)
  have other: "sh_id r \<notin> sh_id ` set rs" using Cons.prems(4) by auto
  have "set rs \<subseteq> set tab2" using replace_row_rest [OF _ other] Cons.prems(3) by (simp add: tab2_def)
  then have IH: "length tab1 = length tab2"
    "m = (if b then n + 1 else n) + length (filter (\<lambda>r. due prices (clock (sh_id r)) r) rs)"
    "\<forall>i<length tab2. if tab2 ! i \<in> set rs
       then \<exists>b. check_row prices costs (clock (sh_id (tab2 ! i))) (tab2 ! i) = Some (Inr (tab1 ! i, b))
       else tab1 ! i = tab2 ! i"
    using Cons.IH [OF rest] ids Cons.prems(2,4,5) by auto
  have len: "length tab2 = length tab" by (simp add: tab2_def)
  have "if tab ! i \<in> set (r # rs)
       then \<exists>b. check_row prices costs (clock (sh_id (tab ! i))) (tab ! i) = Some (Inr (tab1 ! i, b))
       else tab1 ! i = tab ! i" if i: "i < length tab" for i
  proof (cases "sh_id (tab ! i) = sh_id r")
    case True
    have eq: "tab ! i = r" using Cons.prems(2) i r(1) True by (auto simp: distinct_map inj_on_def)
    have t2: "tab2 ! i = r1" using i True by (simp add: tab2_def)
    have "r1 \<notin> set rs" using other id1 by (metis imageI)
    then have "tab1 ! i = r1" using IH(3) i len t2 by auto
    then show ?thesis using eq r1 by auto
  next
    case False
    then have "tab2 ! i = tab ! i" "tab ! i \<noteq> r" using i by (auto simp: tab2_def)
    then show ?thesis using IH(3) i len by auto
  qed
  then show ?case using IH(1,2) len check_row_due [OF r1] by auto
qed auto

text \<open>With a cost configuration that its constructor accepts, the loops of the funding count end.\<close>

lemma check_row_returns:
  assumes "make_cost_config fee slip fund interval = Inr costs"
  shows "check_row prices costs now r \<noteq> None"
proof -
  have "0 < co_funding_interval_hours costs" "24 mod co_funding_interval_hours costs = 0"
    using assms by (auto simp: make_cost_config_def split: if_splits)
  from funding_event_count_eq [OF this] show ?thesis
    by (auto simp: check_row_def Let_def calculate_shadow_pnl_def split: option.splits prod.splits)
qed

lemma check_trades_returns:
  assumes "make_cost_config fee slip fund interval = Inr costs" "distinct (map sh_id tab)"
    "set rs \<subseteq> set tab" "distinct (map sh_id rs)" "\<forall>r\<in>set rs. sh_status r = ShOpen"
  shows "check_trades prices costs clock rs tab n \<noteq> None"
  using assms(2-)
proof (induction rs arbitrary: tab n)
  case (Cons r rs)
  note row = check_trade_row [OF Cons.prems(1), of r prices costs "clock (sh_id r)"]
  obtain res where res: "check_row prices costs (clock (sh_id r)) r = Some res"
    using check_row_returns [OF assms(1)] by blast
  show ?case
  proof (cases res)
    case (Inl e)
    then show ?thesis using row res Cons.prems(2,4) by simp
  next
    case (Inr p)
    then obtain r1 b where r1: "check_row prices costs (clock (sh_id r)) r = Some (Inr (r1, b))"
      using res by (cases p) auto
    have id1: "sh_id r1 = sh_id r" using check_row_keeps [OF r1] terms_id by blast
    have "set rs \<subseteq> set (replace_row r r1 tab)" using Cons.prems(2,3) by (intro replace_row_rest) auto
    then have "check_trades prices costs clock rs (replace_row r r1 tab) k \<noteq> None" for k
      using Cons.prems replace_row_ids [OF id1, of tab] by (intro Cons.IH) auto
    then show ?thesis using row r1 Cons.prems(2,4) by simp
  qed
qed simp

lemma open_trades:
  assumes "distinct (map sh_id tab)"
  shows "set (get_open_trades u tab) \<subseteq> set tab" "distinct (map sh_id (get_open_trades u tab))"
    "\<forall>r\<in>set (get_open_trades u tab). sh_status r = ShOpen"
  using assms by (auto simp: get_open_trades_def distinct_map inj_on_def)

section \<open>The table over time\<close>

text \<open>A closed row: left at its level for its status, with the profit of the cost model.\<close>

definition honest_close :: "shadow_row \<Rightarrow> bool" where
  "honest_close r \<longleftrightarrow>
     (\<exists>px p t costs. sh_exit_price r = Some px \<and> sh_closed_at r = Some t \<and>
        (sh_status r = ShTpHit \<longrightarrow> px = sh_tp_price r) \<and> (sh_status r = ShSlHit \<longrightarrow> px = sh_sl_price r) \<and>
        calculate_shadow_pnl (sh_direction r) (sh_entry_price r) px (sh_quantity r)
          (Some (decimal_cost (sh_margin_usdt r))) (sh_opened_at r) t costs = Some (Inr p) \<and>
        sh_net_pnl_usdt r = Some (pn_net_pnl_usdt p) \<and> sh_gross_pnl_usdt r = Some (pn_gross_pnl_usdt p))"

definition table_ok :: "shadow_table \<Rightarrow> bool" where
  "table_ok tab \<longleftrightarrow> distinct (map sh_id tab) \<and> distinct (map row_key tab) \<and>
     (\<forall>r\<in>set tab. is_exit (sh_status r) \<longrightarrow> honest_close r)"

text \<open>A row at a later time: its terms stay, and once it is not open nothing of it changes.\<close>

definition later_row :: "shadow_row \<Rightarrow> shadow_row \<Rightarrow> bool" where
  "later_row r r1 \<longleftrightarrow> terms_of r1 = terms_of r \<and> (sh_status r \<noteq> ShOpen \<longrightarrow> r1 = r) \<and>
     rw_mfe_usdt r \<le> rw_mfe_usdt r1 \<and> rw_mae_usdt r1 \<le> rw_mae_usdt r"

definition later_table :: "shadow_table \<Rightarrow> shadow_table \<Rightarrow> bool" where
  "later_table tab tab1 \<longleftrightarrow> length tab \<le> length tab1 \<and> (\<forall>i<length tab. later_row (tab ! i) (tab1 ! i))"

lemma later_refl: "later_table t t"
  by (simp add: later_table_def later_row_def)

lemma later_row_trans: "later_row r s \<Longrightarrow> later_row s u \<Longrightarrow> later_row r u"
  unfolding later_row_def by (metis order_trans)

lemma later_trans: "later_table t u \<Longrightarrow> later_table u v \<Longrightarrow> later_table t v"
  unfolding later_table_def by (meson later_row_trans order_less_le_trans order_trans)

lemma closed_honest:
  assumes "check_row prices costs now r = Some (Inr (r1, b))" "sh_status r = ShOpen" "is_exit (sh_status r1)"
  shows "honest_close r1"
proof -
  obtain price px st p where p: "prices (sh_symbol r) = Some price" "exit_of price now r = Some (px, st)"
    "calculate_shadow_pnl (sh_direction r) (sh_entry_price r) px (sh_quantity r)
       (Some (decimal_cost (sh_margin_usdt r))) (sh_opened_at r) now costs = Some (Inr p)"
    "r1 = closed_row px st now p (excursion_row (max 0 (mark_pnl price r)) (min 0 (mark_pnl price r)) r)"
    using assms by (auto simp: check_row_def Let_def ebind_Inr_iff is_exit_def split: option.splits prod.splits)
  then show ?thesis using exit_of_status [OF p(2)]
    by (auto simp: honest_close_def closed_row_def excursion_row_def)
qed

lemma check_row_shape:
  assumes "check_row prices costs now r = Some (Inr (r1, b))" "sh_status r = ShOpen"
  shows "case prices (sh_symbol r) of
      None \<Rightarrow> r1 = r\<lparr>sh_data_error := True\<rparr>
    | Some price \<Rightarrow>
        (case exit_of price now r of
           None \<Rightarrow> r1 = excursion_row (max 0 (mark_pnl price r)) (min 0 (mark_pnl price r)) r
         | Some (px, st) \<Rightarrow> sh_status r1 = st \<and> sh_exit_price r1 = Some px \<and>
             sh_closed_at r1 = Some now \<and> honest_close r1)"
  using assms closed_honest [OF assms] exit_of_is_exit [of _ now r]
  by (auto simp: check_row_def Let_def ebind_Inr_iff split: option.splits prod.splits)

text \<open>A check with the distinct ids of a sound table.\<close>

lemma check_steps:
  assumes "check_and_close_shadow_trades prices costs clock tab = Some (Inr (tab1, n))" "table_ok tab"
  shows "length tab1 = length tab" "n = length (filter (\<lambda>r. sh_status r = ShOpen \<and> due prices (clock (sh_id r)) r) tab)"
    "\<And>i. i < length tab \<Longrightarrow> if sh_status (tab ! i) = ShOpen
       then \<exists>b. check_row prices costs (clock (sh_id (tab ! i))) (tab ! i) = Some (Inr (tab1 ! i, b))
       else tab1 ! i = tab ! i"
proof -
  have d: "distinct (map sh_id tab)" using assms(2) by (simp add: table_ok_def)
  note rows = check_trades_rows [OF assms(1) [unfolded check_and_close_shadow_trades_def] d open_trades [OF d]]
  show "length tab1 = length tab" using rows by blast
  show "n = length (filter (\<lambda>r. sh_status r = ShOpen \<and> due prices (clock (sh_id r)) r) tab)"
    using rows by (simp add: get_open_trades_def conj_commute)
  show "if sh_status (tab ! i) = ShOpen
       then \<exists>b. check_row prices costs (clock (sh_id (tab ! i))) (tab ! i) = Some (Inr (tab1 ! i, b))
       else tab1 ! i = tab ! i" if "i < length tab" for i
    using rows that by (auto simp: get_open_trades_def)
qed

lemma check_keeps:
  assumes "check_and_close_shadow_trades prices costs clock tab = Some (Inr (tab1, n))" "table_ok tab"
  shows "table_ok tab1 \<and> later_table tab tab1"
proof -
  note steps = check_steps [OF assms]
  have row: "later_row (tab ! i) (tab1 ! i)" "is_exit (sh_status (tab1 ! i)) \<Longrightarrow> honest_close (tab1 ! i)"
    if i: "i < length tab" for i
  proof -
    have "later_row (tab ! i) (tab1 ! i) \<and> (is_exit (sh_status (tab1 ! i)) \<longrightarrow> honest_close (tab1 ! i))"
    proof (cases "sh_status (tab ! i) = ShOpen")
      case True
      then obtain b where b: "check_row prices costs (clock (sh_id (tab ! i))) (tab ! i) = Some (Inr (tab1 ! i, b))"
        using steps(3) [OF i] by auto
      show ?thesis using check_row_keeps [OF b] closed_honest [OF b True] True by (simp add: later_row_def)
    next
      case False
      then show ?thesis using steps(3) [OF i] assms(2) i by (auto simp: table_ok_def later_row_def)
    qed
    then show "later_row (tab ! i) (tab1 ! i)" "is_exit (sh_status (tab1 ! i)) \<Longrightarrow> honest_close (tab1 ! i)" by auto
  qed
  have same: "sh_id (tab1 ! i) = sh_id (tab ! i) \<and> row_key (tab1 ! i) = row_key (tab ! i)" if "i < length tab" for i
    using row(1) [OF that] terms_id unfolding later_row_def by blast
  have "map sh_id tab1 = map sh_id tab" "map row_key tab1 = map row_key tab"
    using steps(1) same by (auto intro: nth_equalityI)
  moreover have "\<forall>r\<in>set tab1. is_exit (sh_status r) \<longrightarrow> honest_close r"
    using row(2) steps(1) by (auto simp: in_set_conv_nth)
  ultimately show ?thesis
    using assms(2) row(1) steps(1) by (auto simp: table_ok_def later_table_def)
qed

lemma monitor_keeps:
  assumes "run_shadow_monitor enabled cache fee slip fund interval clock tab = Some (tab1, res)" "table_ok tab"
  shows "table_ok tab1 \<and> later_table tab tab1"
  using assms check_keeps later_refl unfolding run_shadow_monitor_def
  by (auto split: if_splits sum.splits option.splits prod.splits)

section \<open>The engine on the table\<close>

lemma preserves_read [simp]: "preserves P (act_read f)"
  by (simp add: preserves_def)

lemma preserves_read_bind:
  "(\<And>x s. f s = Inr x \<Longrightarrow> preserves P (g x)) \<Longrightarrow> preserves P (act_bind (act_read f) g)"
  by (auto simp: preserves_def act_read_bind split: sum.splits)

lemma preserves_catch:
  "preserves P m \<Longrightarrow> (\<And>e. preserves P (h e)) \<Longrightarrow> preserves P (act_catch m h)"
  unfolding preserves_def act_catch_def by (force split: prod.splits sum.splits)

lemmas preserves_intros = preserves_return preserves_read preserves_catch preserves_bind

text \<open>
  The interface the engine relies on: reading keeps a property of the state, and so does saving a
  trade that is open or rejected.
\<close>

locale kept_store =
  fixes st :: "'s shadow_store" and P :: "'s \<Rightarrow> bool"
  assumes save_keeps: "sh_status t \<in> {ShOpen, ShRejected} \<Longrightarrow> preserves P (st_save st t)"
    and risk_keeps: "st_open_risk st = Some g \<Longrightarrow> preserves P (g u)"
    and loss_keeps: "st_loss_state st = Some h \<Longrightarrow> preserves P (h u v)"
begin

lemma read_risk_keeps: "preserves P (read_open_risk st u)"
  using risk_keeps by (auto simp: read_open_risk_def split: option.splits)

lemma baseline_risk_keeps: "preserves P (baseline_risk en st req g sl tp v)"
  unfolding baseline_risk_def Let_def
  by (auto intro!: preserves_intros read_risk_keeps split: option.splits)

lemma variant_keeps: "preserves P (save_fast_variant en st now tid req b v)"
proof -
  have "variant_record en now tid req c b v plan loss = Inr f \<Longrightarrow> sh_status f \<in> {ShOpen, ShRejected}"
    for c plan loss f
    unfolding variant_record_def Let_def
    by (auto simp: ebind_Inr_iff shadow_open_def split: option.splits prod.splits if_splits)
  then show ?thesis
    unfolding save_fast_variant_def Let_def
    by (auto intro!: preserves_intros preserves_read_bind read_risk_keeps loss_keeps save_keeps
        split: option.splits)
qed

lemma open_keeps: "preserves P (shadow_open_trade en st now tid vid req g sl tp v risk)"
  unfolding shadow_open_trade_def
  using baseline_record_fields(1) save_keeps
  by (intro preserves_read_bind preserves_bind preserves_catch preserves_return variant_keeps) auto

lemma checked_keeps: "preserves P (shadow_checked en st now tid vid req (v, g))"
  unfolding shadow_checked_def
  by (auto simp: shadow_refuse_def intro!: preserves_intros baseline_risk_keeps open_keeps
      split: option.splits sum.splits)

lemma execute_keeps:
  assumes "\<And>q. preserves P (V q)"
  shows "preserves P (shadow_execute en st V now tid vid req)"
proof -
  have "preserves P (request_validation V (execution_request.truncate req))"
    using assms unfolding request_validation_def
    by (auto intro!: preserves_intros split: option.splits)
  then show ?thesis
    using checked_keeps unfolding shadow_execute_def
    by (auto intro!: preserves_catch preserves_bind)
qed

end

lemma save_row:
  "repo_save signal t tab = (tab1, res) \<Longrightarrow> tab1 = tab \<or>
     tab1 = tab @ [row_of signal t] \<and> row_key (row_of signal t) \<notin> set (map row_key tab) \<and>
     sh_id (row_of signal t) \<notin> set (map sh_id tab)"
  by (auto simp: repo_save_def Let_def list_ex_iff split: if_splits)

lemma save_keeps_table:
  assumes "sh_status t \<in> {ShOpen, ShRejected}" "table_ok tab" "later_table tab0 tab"
  shows "table_ok (fst (repo_save signal t tab)) \<and> later_table tab0 (fst (repo_save signal t tab))"
proof -
  obtain tab1 res where s: "repo_save signal t tab = (tab1, res)" by fastforce
  have st: "\<not> is_exit (sh_status (row_of signal t))"
    using assms(1) by (auto simp: row_of_def is_exit_def shadow_trade.defs)
  have "later_table tab (tab @ [r])" for r
    by (simp add: later_table_def later_row_def nth_append)
  then show ?thesis
    using save_row [OF s] s st assms(2,3) by (auto simp: table_ok_def intro: later_trans)
qed

interpretation journal: kept_store "repo_store signal now" "\<lambda>tab. table_ok tab \<and> later_table tab0 tab"
  for signal now tab0
proof unfold_locales
  show "preserves (\<lambda>tab. table_ok tab \<and> later_table tab0 tab) (st_save (repo_store signal now) t)"
    if "sh_status t \<in> {ShOpen, ShRejected}" for t
  proof -
    have "preserves (\<lambda>tab. table_ok tab \<and> later_table tab0 tab) (repo_save signal t)"
      using save_keeps_table [OF that] unfolding preserves_def by blast
    then show ?thesis by (simp add: repo_store_def preserves_bind)
  qed
qed (auto simp: repo_store_def)

section \<open>Sequences of executions and checks\<close>

text \<open>
  A step of the journal: an execution of the virtual engine with any request, any validator that does
  not write the table and any experiment, or a run of the monitor.
\<close>

inductive journal_step :: "shadow_table \<Rightarrow> shadow_table \<Rightarrow> bool" where
  executed: "(\<And>q t. fst (V q t) = t) \<Longrightarrow>
     shadow_execute en (repo_store signal now) V now tid vid req tab = (tab1, res) \<Longrightarrow> journal_step tab tab1"
| monitored: "run_shadow_monitor enabled cache fee slip fund interval clock tab = Some (tab1, n) \<Longrightarrow>
     journal_step tab tab1"

lemma journal_step_keeps: "journal_step tab tab1 \<Longrightarrow> table_ok tab \<Longrightarrow> table_ok tab1 \<and> later_table tab tab1"
proof (induction rule: journal_step.induct)
  case (executed V en signal now tid vid req tab tab1 res)
  have "preserves (\<lambda>t. table_ok t \<and> later_table tab t) (shadow_execute en (repo_store signal now) V now tid vid req)"
    using executed(1) by (intro journal.execute_keeps) (simp add: preserves_def)
  then show ?case using preservesD [of _ _ tab] executed(2,3) later_refl by fastforce
next
  case (monitored enabled cache fee slip fund interval clock tab tab1 n)
  then show ?case by (rule monitor_keeps)
qed

lemma journal_steps_keep:
  "journal_step\<^sup>*\<^sup>* tab tab1 \<Longrightarrow> table_ok tab \<Longrightarrow> table_ok tab1 \<and> later_table tab tab1"
  by (induction rule: rtranclp_induct) (auto simp: later_refl dest: journal_step_keeps intro: later_trans)

lemma journal_ok: "journal_step\<^sup>*\<^sup>* [] tab \<Longrightarrow> table_ok tab"
  using journal_steps_keep [of "[]" tab] by (simp add: table_ok_def)

text \<open>
  C35. The journal of the virtual trades, whatever sequence of executions (retries included) and
  monitor runs wrote it: ids are unique and a signal opens at most one trade per strategy version,
  every row stays and keeps its terms, a row that is closed or rejected never changes again, and a
  closed row left at its target or stop, or at the price of its time limit, with the profit of the
  cost model.
\<close>

theorem shadow_journal_over_time:
  assumes "journal_step\<^sup>*\<^sup>* [] tab" "journal_step\<^sup>*\<^sup>* tab tab1"
  shows "distinct (map sh_id tab1) \<and> distinct (map row_key tab1) \<and> length tab \<le> length tab1 \<and>
    (\<forall>i<length tab. terms_of (tab1 ! i) = terms_of (tab ! i) \<and>
       (sh_status (tab ! i) \<noteq> ShOpen \<longrightarrow> tab1 ! i = tab ! i)) \<and>
    (\<forall>r\<in>set tab1. is_exit (sh_status r) \<longrightarrow> honest_close r)"
  using journal_steps_keep [OF assms(2) journal_ok [OF assms(1)]]
  by (auto simp: table_ok_def later_table_def later_row_def)


section \<open>A sample journal\<close>

definition journal_sample :: shadow_table where
  "journal_sample = fst (shadow_execute shadow_sample_engine (repo_store (Some ''s'') 0)
     (\<lambda>_. act_return shadow_sample_approval) 0 ''t'' ''v'' shadow_sample_request [])"

lemma journal_sample_reached: "journal_step\<^sup>*\<^sup>* [] journal_sample"
  unfolding journal_sample_def
  by (intro r_into_rtranclp executed [where V = "\<lambda>_. act_return shadow_sample_approval"])
    (auto intro: prod.collapse [symmetric])

lemma journal_sample_row:
  "map (\<lambda>r. (sh_id r, sh_status r, sh_symbol r, sh_direction r, sh_entry_price r, sh_tp_price r, sh_quantity r,
     sh_margin_usdt r, sh_opened_at r)) journal_sample =
   [(''t'', ShOpen, ''BTCUSDT'', SHORT, 100, 80, 2, None, 0)]"
  by (simp add: journal_sample_def shadow_execute_def act_catch_def request_validation_def
      shadow_sample_request_def execution_request.defs shadow_checked_def shadow_sample_approval_def
      vr_default_def os_direction_def os_symbol_def os_stop_loss_def os_take_profit_def baseline_risk_def
      shadow_sample_engine_def default_experiment_def xc_active_def shadow_open_trade_def
      baseline_record_def entry_costs_def os_entry_price_def sample_costs_def shadow_eval Let_def
      repo_store_def repo_save_def row_of_def shadow_trade.defs shadow_row.defs save_fast_variant_def shadow_open_def)

lemma journal_sample_is:
  obtains r where "journal_sample = [r]" "sh_status r = ShOpen" "sh_symbol r = ''BTCUSDT''" "sh_direction r = SHORT"
    "sh_entry_price r = 100" "sh_tp_price r = 80" "sh_quantity r = 2" "sh_margin_usdt r = None" "sh_opened_at r = 0"
  using journal_sample_row by (cases journal_sample) auto

definition journal_sample_prices :: "string \<rightharpoonup> rat" where
  "journal_sample_prices = [''BTCUSDT'' \<mapsto> 80]"

text \<open>The check of the sample at its target price.\<close>

lemma journal_sample_check:
  "\<exists>tab1. check_and_close_shadow_trades journal_sample_prices sample_costs (\<lambda>_. 0) journal_sample =
     Some (Inr (tab1, 1))"
proof -
  obtain r where r: "journal_sample = [r]" "sh_status r = ShOpen" "sh_symbol r = ''BTCUSDT''" "sh_direction r = SHORT"
    "sh_entry_price r = 100" "sh_tp_price r = 80" "sh_quantity r = 2" "sh_margin_usdt r = None" "sh_opened_at r = 0"
    by (rule journal_sample_is)
  have "exit_of 80 0 r = Some (80, ShTpHit)" using r(2-) by (simp add: exit_of_def level_hit_def)
  moreover have "\<exists>p. calculate_shadow_pnl SHORT 100 80 2 (Some 0) 0 0 sample_costs = Some (Inr p)"
    by (simp add: calculate_shadow_pnl_def funding_event_count_def shadow_pnl_of_def gross_pnl_def
        return_on_margin_def sample_costs_def shadow_eval Let_def)
  ultimately show ?thesis
    unfolding r(1) using r(2-) by (auto simp: check_and_close_shadow_trades_def get_open_trades_def
        journal_sample_prices_def check_trade_def decimal_cost_def Let_def)
qed


theorem shadow_journal_over_time_witness:
  "length journal_sample = 1 \<and> journal_step\<^sup>*\<^sup>* [] journal_sample \<and> distinct (map row_key journal_sample)"
proof -
  have "length journal_sample = 1" using arg_cong [OF journal_sample_row, of length] by simp
  moreover have "distinct (map row_key journal_sample)"
    using shadow_journal_over_time [OF journal_sample_reached rtranclp.rtrancl_refl] by blast
  ultimately show ?thesis using journal_sample_reached by blast
qed

end
