(* ===== verification/AIReview.thy ===== *)
theory AIReview
  imports PipelineModels AgentRunner
begin

text \<open>
  \<open>agents/synthesis/{agent,parser}.py\<close>: the reviewer that asks a language model about a candidate. The
  model is an action on a state of its own, given the review input its prompt is made of; the
  search for a JSON object in a text (\<open>re\<close> and \<open>json.loads\<close>) and the reading of a number from a text
  are arguments. The texts of a review (warnings, summary) are left out.
\<close>

section \<open>Values of an answer\<close>

datatype pfloat = Finite rat | PosInf | NegInf | NotNumber

text \<open>What \<open>json.loads\<close> makes of an answer; it reads \<open>NaN\<close> and \<open>Infinity\<close>, too.\<close>

datatype answer =
    AnNull | AnBool bool | AnNumber pfloat | AnText string | AnList "answer list"
  | AnObject "(string \<times> answer) list"

type_synonym answer_object = "(string \<times> answer) list"

definition answer_get :: "answer_object \<Rightarrow> string \<Rightarrow> answer \<Rightarrow> answer" where
  "answer_get d k dv = (case map_of d k of None \<Rightarrow> dv | Some v \<Rightarrow> v)"

fun answer_true :: "answer \<Rightarrow> bool" where
  "answer_true AnNull = False"
| "answer_true (AnBool b) = b"
| "answer_true (AnNumber x) = (x \<noteq> Finite 0)"
| "answer_true (AnText s) = (s \<noteq> [])"
| "answer_true (AnList xs) = (xs \<noteq> [])"
| "answer_true (AnObject kvs) = (kvs \<noteq> [])"

text \<open>\<open>float(v)\<close>.\<close>

fun answer_float :: "(string \<Rightarrow> pfloat option) \<Rightarrow> answer \<Rightarrow> pfloat result" where
  "answer_float read (AnNumber x) = Inr x"
| "answer_float read (AnBool b) = Inr (Finite (if b then 1 else 0))"
| "answer_float read (AnText s) = (case read s of None \<Rightarrow> Inl ValueError | Some x \<Rightarrow> Inr x)"
| "answer_float read v = Inl TypeError"

text \<open>
  \<open>str(v).upper()\<close>, which is compared with the names of the two actions; the text of a value that
  is not a text is neither.
\<close>

definition action_of :: "answer \<Rightarrow> ai_review_action option" where
  "action_of v =
     (case v of AnText s \<Rightarrow>
        (if map upper_char s = ''APPROVE'' then Some APPROVE
         else if map upper_char s = ''REJECT'' then Some REJECT else None)
      | _ \<Rightarrow> None)"

text \<open>\<open>max(0.0, min(1.0, x))\<close>: a comparison with no number is false, so \<open>min\<close> keeps 1.\<close>

definition clamp_confidence :: "pfloat \<Rightarrow> rat" where
  "clamp_confidence x =
     (case x of Finite r \<Rightarrow> max 0 (min 1 r) | PosInf \<Rightarrow> 1 | NegInf \<Rightarrow> 0 | NotNumber \<Rightarrow> 1)"

section \<open>The parser\<close>

definition review_safe_reject :: ai_review_result where
  "review_safe_reject =
     \<lparr>ar_review_action = REJECT, ar_confidence = 0, ar_critical_contradiction = True\<rparr>"

definition build_review_result :: "(string \<Rightarrow> pfloat option) \<Rightarrow> answer_object \<Rightarrow> ai_review_result result" where
  "build_review_result read data =
     (case action_of (answer_get data ''review_action'' (AnText [])) of
        None \<Rightarrow> Inr review_safe_reject
      | Some action \<Rightarrow>
          ebind (answer_float read (answer_get data ''confidence'' (AnNumber (Finite 0)))) (\<lambda>x.
          Inr \<lparr>ar_review_action = action, ar_confidence = fround 4 (clamp_confidence x),
               ar_critical_contradiction =
                 answer_true (answer_get data ''critical_contradiction'' (AnBool False))\<rparr>))"

definition parse_review_response ::
    "(string \<Rightarrow> answer_object result) \<Rightarrow> (string \<Rightarrow> pfloat option) \<Rightarrow> string \<Rightarrow> ai_review_result" where
  "parse_review_response extract_json read raw =
     (case ebind (extract_json raw) (build_review_result read) of
        Inl e \<Rightarrow> review_safe_reject | Inr r \<Rightarrow> r)"

section \<open>The playbook\<close>

text \<open>\<open>_strategy_key\<close> of this file, which knows only two aliases.\<close>

definition review_strategy_key :: "string \<Rightarrow> string" where
  "review_strategy_key name =
     (let key = map upper_char (py_strip name)
      in if key = ''PULLBACK'' then ''TREND_PULLBACK'' else if key = ''RETEST'' then ''BREAKOUT_RETEST'' else key)"

definition playbook_reject :: ai_review_result where
  "playbook_reject = \<lparr>ar_review_action = REJECT, ar_confidence = 1, ar_critical_contradiction = True\<rparr>"

definition review_min_rr :: "string \<Rightarrow> string \<Rightarrow> rat" where
  "review_min_rr strategy strategy_type =
     (case STRATEGY_MIN_RR strategy of Some m \<Rightarrow> m
      | None \<Rightarrow> (case STRATEGY_MIN_RR (map upper_char strategy_type) of Some m \<Rightarrow> m | None \<Rightarrow> 2))"

text \<open>\<open>None\<close> lets the candidate pass on to the model.\<close>

definition review_playbook_guard :: "review_input \<Rightarrow> ai_review_result option" where
  "review_playbook_guard ri =
     (let regime = (if rw_market_regime ri = [] then ''UNKNOWN'' else map upper_char (rw_market_regime ri));
          strategy = review_strategy_key (rw_strategy_type ri)
      in if regime = ''HIGH_VOLATILITY'' \<or> regime = ''NEWS_EVENT'' \<or> regime = ''UNKNOWN'' then Some playbook_reject
         else if \<not> is_strategy_allowed_for_regime strategy (regime_of_text regime) then Some playbook_reject
         else if rw_actual_rr ri < review_min_rr strategy (rw_strategy_type ri) then Some playbook_reject
         else None)"

text \<open>\<open>ReviewerAgent.review\<close>; an exception of the model is an empty answer.\<close>

definition reviewer_review ::
    "(string \<Rightarrow> answer_object result) \<Rightarrow> (string \<Rightarrow> pfloat option) \<Rightarrow> (review_input \<Rightarrow> ('s, string) act) \<Rightarrow>
       review_input \<Rightarrow> ('s, ai_review_result) act" where
  "reviewer_review extract_json read create_message ri =
     (case review_playbook_guard ri of
        Some r \<Rightarrow> act_return r
      | None \<Rightarrow>
          act_bind (act_catch (create_message ri) (\<lambda>_. act_return [])) (\<lambda>text.
          act_return (parse_review_response extract_json read text)))"

end
