(* ===== verification/ReviewProps.thy ===== *)
theory ReviewProps
  imports AIReview PipelineProps
begin

text \<open>The reviewer fails safe, and what a run may rely on when its review approved.\<close>

lemma approve_parsed:
  assumes "ar_review_action (parse_review_response extract_json read raw) = APPROVE"
  obtains d where "extract_json raw = Inr d" "action_of (answer_get d ''review_action'' (AnText [])) = Some APPROVE"
proof -
  let ?r = "ebind (extract_json raw) (build_review_result read)"
  obtain r where r: "?r = Inr r" "ar_review_action r = APPROVE"
    using assms by (cases ?r) (auto simp: parse_review_response_def review_safe_reject_def)
  then obtain d where d: "extract_json raw = Inr d" "build_review_result read d = Inr r"
    by (auto simp: ebind_Inr_iff)
  have "action_of (answer_get d ''review_action'' (AnText [])) = Some APPROVE"
    using d(2) r(2) by (auto simp: build_review_result_def review_safe_reject_def ebind_Inr_iff split: option.splits)
  with d(1) show thesis by (rule that)
qed

lemma guard_passed:
  assumes "review_playbook_guard ri = None"
  shows "regime_of_text (map upper_char (rw_market_regime ri)) \<in> {TREND_UP, TREND_DOWN, RANGE}"
    "is_strategy_allowed_for_regime (review_strategy_key (rw_strategy_type ri))
       (regime_of_text (map upper_char (rw_market_regime ri)))"
    "2 \<le> rw_actual_rr ri"
proof -
  have all: "rw_market_regime ri \<noteq> []"
    "is_strategy_allowed_for_regime (review_strategy_key (rw_strategy_type ri))
       (regime_of_text (map upper_char (rw_market_regime ri)))"
    "review_min_rr (review_strategy_key (rw_strategy_type ri)) (rw_strategy_type ri) \<le> rw_actual_rr ri"
    using assms by (auto simp: review_playbook_guard_def Let_def not_less split: if_splits)
  show "is_strategy_allowed_for_regime (review_strategy_key (rw_strategy_type ri))
       (regime_of_text (map upper_char (rw_market_regime ri)))" by (rule all(2))
  show "regime_of_text (map upper_char (rw_market_regime ri)) \<in> {TREND_UP, TREND_DOWN, RANGE}"
    using all(2) by (auto simp: is_strategy_allowed_for_regime_def REGIME_ALLOWED_STRATEGIES_def split: if_splits)
  have "2 \<le> m" if "STRATEGY_MIN_RR k = Some m" for k m
    using that by (auto simp: STRATEGY_MIN_RR_def split: if_splits)
  then have "2 \<le> review_min_rr a b" for a b
    by (auto simp: review_min_rr_def split: option.splits)
  then show "2 \<le> rw_actual_rr ri" using all(3) by (meson order_trans)
qed

lemma fails_safe:
  assumes "reviewer_review extract_json read create_message ri s = (s1, res)" "extract_json [] = Inl e"
  shows "\<exists>r. res = Inr r \<and>
    (review_playbook_guard ri \<noteq> None \<longrightarrow> s1 = s \<and> ar_review_action r = REJECT \<and> ar_critical_contradiction r) \<and>
    (review_playbook_guard ri = None \<and> (\<nexists>text d. create_message ri s = (s1, Inr text) \<and> extract_json text = Inr d)
      \<longrightarrow> ar_review_action r = REJECT \<and> ar_critical_contradiction r) \<and>
    (ar_review_action r = APPROVE \<longrightarrow>
      regime_of_text (map upper_char (rw_market_regime ri)) \<in> {TREND_UP, TREND_DOWN, RANGE} \<and>
      is_strategy_allowed_for_regime (review_strategy_key (rw_strategy_type ri))
        (regime_of_text (map upper_char (rw_market_regime ri))) \<and>
      2 \<le> rw_actual_rr ri \<and>
      (\<exists>text d. create_message ri s = (s1, Inr text) \<and> extract_json text = Inr d \<and>
         action_of (answer_get d ''review_action'' (AnText [])) = Some APPROVE))"
proof (cases "review_playbook_guard ri")
  case (Some r)
  then have "r = playbook_reject"
    by (auto simp: review_playbook_guard_def Let_def split: if_splits)
  then have "s1 = s" "res = Inr playbook_reject" using assms(1) Some by (auto simp: reviewer_review_def)
  then show ?thesis using Some by (auto simp: playbook_reject_def)
next
  case None
  obtain s2 answer where a: "create_message ri s = (s2, answer)" by fastforce
  have silent: "parse_review_response extract_json read [] = review_safe_reject"
    using assms(2) by (simp add: parse_review_response_def)
  show ?thesis
  proof (cases answer)
    case (Inl x)
    then have "s1 = s2" "res = Inr review_safe_reject"
      using assms(1) None a silent by (auto simp: reviewer_review_def act_catch_def act_bind_def act_return_def)
    then show ?thesis using None a Inl by (simp add: review_safe_reject_def)
  next
    case (Inr said)
    then have r: "s1 = s2" "res = Inr (parse_review_response extract_json read said)"
      using assms(1) None a by (auto simp: reviewer_review_def act_catch_def act_bind_def act_return_def)
    have "extract_json said = Inl x \<Longrightarrow> parse_review_response extract_json read said = review_safe_reject" for x
      by (simp add: parse_review_response_def)
    then have "(\<nexists>d. extract_json said = Inr d) \<longrightarrow> parse_review_response extract_json read said = review_safe_reject"
      by (cases "extract_json said") auto
    then show ?thesis
      using r a Inr None guard_passed [OF None] approve_parsed [of extract_json read said]
      by (simp add: review_safe_reject_def) metis
  qed
qed

text \<open>
  In a run: when a review is required and the reviewer is this agent, a request that reached the
  execution was approved by the model, in a regime whose playbook admits its strategy.
\<close>

lemma cleared_by_model:
  assumes "pipeline_cleared oc inp req" "ai_review_required (pi_decision_config inp)"
    "dp_reviewer (oc_deps oc) = (\<lambda>ri. coro_of (reviewer_review extract_json read create_message ri))"
    "extract_json [] = Inl e"
  shows "\<exists>ri s s1 text d. create_message ri s = (s1, Inr text) \<and> extract_json text = Inr d \<and>
    action_of (answer_get d ''review_action'' (AnText [])) = Some APPROVE \<and> 2 \<le> rw_actual_rr ri \<and>
    regime_of_text (map upper_char (rw_market_regime ri)) \<in> {TREND_UP, TREND_DOWN, RANGE}"
proof -
  obtain ri review where "returned (dp_reviewer (oc_deps oc) ri) review" "ar_review_action review = APPROVE"
    using assms(1,2) unfolding pipeline_cleared_def by auto
  then obtain t s s1 where c: "coro_of (reviewer_review extract_json read create_message ri) t s = (s1, Returned review)"
    unfolding assms(3) returned_def by blast
  have "reviewer_review extract_json read create_message ri s = (s1, Inr review)"
    using c unfolding coro_of_def by (auto split: prod.splits sum.splits)
  from fails_safe [OF this assms(4)] \<open>ar_review_action review = APPROVE\<close>
  have "\<exists>text d. create_message ri s = (s1, Inr text) \<and> extract_json text = Inr d \<and>
      action_of (answer_get d ''review_action'' (AnText [])) = Some APPROVE" "2 \<le> rw_actual_rr ri"
    "regime_of_text (map upper_char (rw_market_regime ri)) \<in> {TREND_UP, TREND_DOWN, RANGE}"
    by blast+
  then show ?thesis by blast
qed

text \<open>
  C37. The reviewer fails safe: whatever the language model, the JSON reader and the number reader do,
  a review returns; when the playbook refuses, the model is not asked; and only a candidate in a
  trend or a range whose strategy the playbook allows there and whose reward is at least twice its
  risk can be approved, and only by an answer that the model gave, that holds an object, and whose
  action spells APPROVE. A failed call and an unreadable answer are refusals marked as a critical
  contradiction.
\<close>

theorem review_fails_safe:
  assumes "reviewer_review extract_json read create_message ri s = (s1, res)" "extract_json [] = Inl e"
  shows "\<exists>r. res = Inr r \<and>
    (review_playbook_guard ri \<noteq> None \<longrightarrow> s1 = s \<and> ar_review_action r = REJECT \<and> ar_critical_contradiction r) \<and>
    (review_playbook_guard ri = None \<and> (\<nexists>text d. create_message ri s = (s1, Inr text) \<and> extract_json text = Inr d)
      \<longrightarrow> ar_review_action r = REJECT \<and> ar_critical_contradiction r) \<and>
    (ar_review_action r = APPROVE \<longrightarrow>
      regime_of_text (map upper_char (rw_market_regime ri)) \<in> {TREND_UP, TREND_DOWN, RANGE} \<and>
      is_strategy_allowed_for_regime (review_strategy_key (rw_strategy_type ri))
        (regime_of_text (map upper_char (rw_market_regime ri))) \<and>
      2 \<le> rw_actual_rr ri \<and>
      (\<exists>text d. create_message ri s = (s1, Inr text) \<and> extract_json text = Inr d \<and>
         action_of (answer_get d ''review_action'' (AnText [])) = Some APPROVE))"
  by (rule fails_safe [OF assms])

section \<open>A sample answer\<close>

definition review_sample_input :: review_input where
  "review_sample_input =
     \<lparr>rw_coin = ''BTC'', rw_symbol = ''BTCUSDT'', rw_market_regime = ''TREND_UP'', rw_regime_confidence = 1,
      rw_chart_long_score = 80, rw_chart_short_score = 10, rw_chart_risk_score = 20,
      rw_news_sentiment_score = 0, rw_news_risk_score = 0, rw_news_no_trade_flag = False,
      rw_deriv_risk_score = 0, rw_deriv_crowded_side = CROWD_NONE, rw_strategy_type = ''pullback'',
      rw_expected_holding_minutes = 60, rw_action = ''LONG'', rw_entry_price = 100, rw_stop_loss = Some 90,
      rw_take_profit = Some 125, rw_leverage = 2, rw_notional_size = 100, rw_margin_ratio = 0.02,
      rw_actual_rr = 2.5, rw_min_required_rr = 2, rw_expected_net_profit = None,
      rw_expected_net_loss = None, rw_spread_bps = 1, rw_slippage_bps = 1, rw_liquidation_price = None\<rparr>"

definition review_sample_json :: "string \<Rightarrow> answer_object result" where
  "review_sample_json text = (if text = ''yes'' then Inr [(''review_action'', AnText ''approve''), (''confidence'', AnNumber NotNumber)]
     else Inl ValueError)"

theorem review_fails_safe_witness:
  "\<exists>r. reviewer_review review_sample_json (\<lambda>_. None) (\<lambda>_ n. (n + 1, Inr ''yes'')) review_sample_input (0 :: nat) = (1, Inr r) \<and>
     ar_review_action r = APPROVE \<and> ar_confidence r = 1 \<and> 2 \<le> rw_actual_rr review_sample_input"
proof -
  let ?run = "reviewer_review review_sample_json (\<lambda>_. None) (\<lambda>_ n. (n + 1, Inr ''yes'')) review_sample_input (0 :: nat)"
  have "(case ?run of (n, Inr r) \<Rightarrow> n = 1 \<and> ar_review_action r = APPROVE \<and> ar_confidence r = 1 | _ \<Rightarrow> False)"
    by code_simp
  then obtain r where r: "?run = (1, Inr r)" "ar_review_action r = APPROVE" "ar_confidence r = 1"
    by (auto split: prod.splits sum.splits)
  have "review_sample_json [] = Inl ValueError" by (simp add: review_sample_json_def)
  from review_fails_safe [OF r(1) this] show ?thesis using r by auto
qed

end
