(* ===== verification/Worker.thy ===== *)
theory Worker
  imports Pipeline ShadowJournal AIReview
begin

text \<open>
  \<open>backend/app/workers/analysis_worker.py\<close>, the contexts of \<open>backend/app/services/user_service.py\<close> and
  the checks of the trading settings in \<open>backend/app/core/config.py\<close>: which engine a run gets, what it
  is told about the user, and the cycle over users and symbols. The queries of the user table and
  the pipeline of a run are arguments.
\<close>

section \<open>Settings\<close>

record app_settings =
  as_production :: bool
  as_debug :: bool
  as_binance_testnet :: bool
  as_live_trading :: bool
  as_shadow_trading :: bool
  as_initial_balance :: rat
  as_min_long_score :: "rat option"
  as_min_short_score :: "rat option"
  as_max_risk_score :: "rat option"
  as_review_required :: bool
  as_taker_fee_rate :: rat
  as_slippage_bps :: rat
  as_funding_rate :: rat
  as_funding_hours :: int
  as_fast_exit_enabled :: bool
  as_risk_sizing_enabled :: bool
  as_experiment_label :: string
  as_fast_exit :: fast_exit_config
  as_risk_per_trade_pct :: rat
  as_safe_max_leverage :: int
  as_max_portfolio_risk_pct :: rat
  as_max_single_margin_ratio :: rat
  as_margin_buffer_ratio :: rat
  as_system_max_leverage :: int
  as_telegram :: bool

text \<open>\<open>validate_production_settings\<close>; a refused setting is a \<open>ValueError\<close>.\<close>

definition validate_settings :: "app_settings \<Rightarrow> unit result" where
  "validate_settings s =
     (let fx = as_fast_exit s
      in if \<not> (0 \<le> as_taker_fee_rate s \<and> as_taker_fee_rate s \<le> 0.1) then Inl ValueError
         else if \<not> (0 \<le> as_slippage_bps s \<and> as_slippage_bps s \<le> 1000) then Inl ValueError
         else if as_funding_hours s \<le> 0 \<or> 24 mod as_funding_hours s \<noteq> 0 then Inl ValueError
         else if as_risk_sizing_enabled s \<and> \<not> as_fast_exit_enabled s then Inl ValueError
         else if Min {fx_min_sl_pct fx, fx_tp_pct fx, fx_sl_pct fx, fx_min_rr fx, as_risk_per_trade_pct s,
                      fx_min_tp_cost_multiple fx} \<le> 0 then Inl ValueError
         else if fx_max_hold_seconds fx \<le> 0 then Inl ValueError
         else if as_safe_max_leverage s < 1 then Inl ValueError
         else if as_production s \<and> (as_debug s \<or> as_binance_testnet s) then Inl ValueError
         else if as_live_trading s \<and> as_binance_testnet s then Inl ValueError
         else Inr ())"

text \<open>\<open>_shadow_decision_config\<close>: the relaxed thresholds of the shadow mode.\<close>

definition shadow_decision_config :: "app_settings \<Rightarrow> config option" where
  "shadow_decision_config s =
     (if as_live_trading s \<or> \<not> as_shadow_trading s then None
      else Some \<lparr>cf_decision = None,
        cf_top = [''ai_review_required'' \<mapsto> CBool (as_review_required s), ''profile'' \<mapsto> CStr ''shadow'']
          ++ (case as_min_long_score s of None \<Rightarrow> Map.empty | Some v \<Rightarrow> [''min_long_score'' \<mapsto> CFloat v])
          ++ (case as_min_short_score s of None \<Rightarrow> Map.empty | Some v \<Rightarrow> [''min_short_score'' \<mapsto> CFloat v])
          ++ (case as_max_risk_score s of None \<Rightarrow> Map.empty
              | Some v \<Rightarrow> [''max_risk_score'' \<mapsto> CFloat v, ''max_risk_trend'' \<mapsto> CFloat v,
                  ''max_risk_breakout'' \<mapsto> CFloat v, ''max_risk_intraday'' \<mapsto> CFloat v,
                  ''max_risk_scalping'' \<mapsto> CFloat v])\<rparr>)"

section \<open>Users\<close>

record user_settings =
  us_risk_per_trade :: rat
  us_max_leverage :: int
  us_max_concurrent_positions :: int
  us_daily_loss_limit :: rat
  us_is_trading_active :: bool
  us_allowed_hours_start :: "int option"
  us_allowed_hours_end :: "int option"

record user_row =
  ur_id :: string
  ur_plan :: string
  ur_risk_profile :: string
  ur_settings :: "user_settings option"

record trading_context =
  tx_user :: user_context
  tx_account_state :: "account_state option"
  tx_daily_loss_usdt :: rat
  tx_weekly_loss_usdt :: rat
  tx_weekly_limit_usdt :: rat
  tx_consecutive_losses :: int
  tx_open_positions :: "open_position list"
  tx_portfolio_account :: "account_context option"

definition virtual_balance :: "app_settings \<Rightarrow> rat option" where
  "virtual_balance s =
     (if as_live_trading s \<and> \<not> as_shadow_trading s then None else Some (as_initial_balance s))"

definition virtual_account_state :: "rat \<Rightarrow> account_state" where
  "virtual_account_state balance =
     \<lparr>ac_available_balance = balance, ac_total_balance = balance, ac_initial_balance = balance,
      ac_open_positions_count = 0, ac_open_positions_risk_usdt = 0\<rparr>"

definition virtual_portfolio_account :: "rat \<Rightarrow> string \<Rightarrow> account_context" where
  "virtual_portfolio_account balance risk_profile =
     \<lparr>qa_available_balance = balance, qa_initial_balance = balance,
      qa_risk_profile = (if risk_profile \<in> {''conservative'', ''moderate'', ''aggressive''} then risk_profile
                         else ''moderate'')\<rparr>"

definition safe_pct :: "rat \<Rightarrow> rat \<Rightarrow> rat" where
  "safe_pct amount basis = (if basis \<le> 0 then f64 0.01 else f64 (ddiv amount basis))"

text \<open>A time of the day, in microseconds, becomes the text of its hour and minute.\<close>

definition time_to_hhmm :: "int option \<Rightarrow> string option" where
  "time_to_hhmm t = map_option hhmm t"

definition context_from_user :: "app_settings \<Rightarrow> user_row \<Rightarrow> trading_context" where
  "context_from_user s u =
     (let balance = virtual_balance s;
          account = map_option virtual_account_state balance;
          portfolio = map_option (\<lambda>b. virtual_portfolio_account b (ur_risk_profile u)) balance
      in case ur_settings u of
        None \<Rightarrow>
          \<lparr>tx_user = \<lparr>uc_user_id = ur_id u, uc_plan = ur_plan u, uc_risk_profile = ur_risk_profile u,
             uc_risk_per_trade = f64 0.01, uc_max_leverage = 5, uc_max_concurrent_positions = 1,
             uc_daily_loss_limit_pct = f64 0.01, uc_is_trading_active = True,
             uc_allowed_hours_start = None, uc_allowed_hours_end = None\<rparr>,
           tx_account_state = account, tx_daily_loss_usdt = 0, tx_weekly_loss_usdt = 0,
           tx_weekly_limit_usdt = 500, tx_consecutive_losses = 0, tx_open_positions = [],
           tx_portfolio_account = portfolio\<rparr>
      | Some us \<Rightarrow>
          let limit_basis = (case balance of Some b \<Rightarrow> if b \<noteq> 0 then b else us_daily_loss_limit us
                             | None \<Rightarrow> us_daily_loss_limit us)
          in
          \<lparr>tx_user = \<lparr>uc_user_id = ur_id u, uc_plan = ur_plan u, uc_risk_profile = ur_risk_profile u,
             uc_risk_per_trade = f64 (us_risk_per_trade us), uc_max_leverage = us_max_leverage us,
             uc_max_concurrent_positions = us_max_concurrent_positions us,
             uc_daily_loss_limit_pct = safe_pct (us_daily_loss_limit us) limit_basis,
             uc_is_trading_active = us_is_trading_active us,
             uc_allowed_hours_start = time_to_hhmm (us_allowed_hours_start us),
             uc_allowed_hours_end = time_to_hhmm (us_allowed_hours_end us)\<rparr>,
           tx_account_state = account, tx_daily_loss_usdt = 0, tx_weekly_loss_usdt = 0,
           tx_weekly_limit_usdt = dmul (us_daily_loss_limit us) 5, tx_consecutive_losses = 0,
           tx_open_positions = [], tx_portfolio_account = portfolio\<rparr>)"

section \<open>The agents of a run\<close>

datatype execution_kind = LiveExecution exec_mode | ShadowExecution | PaperExecution

definition execution_kind_of :: "app_settings \<Rightarrow> bool \<Rightarrow> execution_kind" where
  "execution_kind_of s has_user =
     (if as_live_trading s \<and> has_user then LiveExecution (if as_binance_testnet s then TestnetMode else LiveMode)
      else if as_shadow_trading s then ShadowExecution else PaperExecution)"

text \<open>The virtual engine with the costs and the experiment of the settings.\<close>

definition shadow_engine_of :: "app_settings \<Rightarrow> shadow_engine result" where
  "shadow_engine_of s =
     ebind (make_cost_config (as_taker_fee_rate s) (as_slippage_bps s) (as_funding_rate s) (as_funding_hours s))
       (\<lambda>costs. Inr \<lparr>se_cost_config = costs,
          se_experiment = \<lparr>xc_fast_exit_enabled = as_fast_exit_enabled s,
            xc_risk_sizing_enabled = as_risk_sizing_enabled s, xc_experiment_label = as_experiment_label s,
            xc_fast_exit = Some (as_fast_exit s), xc_risk_per_trade_pct = as_risk_per_trade_pct s,
            xc_safe_max_leverage = as_safe_max_leverage s,
            xc_max_portfolio_risk_pct = as_max_portfolio_risk_pct s,
            xc_max_single_position_margin_ratio = as_max_single_margin_ratio s,
            xc_margin_buffer_ratio = as_margin_buffer_ratio s,
            xc_system_max_leverage = as_system_max_leverage s\<rparr>\<rparr>)"

text \<open>
  What the three engines make of a request, given what the worker builds for them: the live one gets
  the exchange's gateway and the safety gate, the paper one the paper gateway and no gate.
\<close>

record 's engines =
  eg_live :: "execution_engine \<Rightarrow> shadow_request \<Rightarrow> ('s, execution_result) coro"
  eg_shadow :: "shadow_engine \<Rightarrow> shadow_request \<Rightarrow> ('s, execution_result) coro"
  eg_paper :: "execution_engine \<Rightarrow> shadow_request \<Rightarrow> ('s, execution_result) coro"

definition build_execution ::
    "app_settings \<Rightarrow> bool \<Rightarrow> 's engines \<Rightarrow> (shadow_request \<Rightarrow> ('s, execution_result) coro) result" where
  "build_execution s has_user E =
     (case execution_kind_of s has_user of
        LiveExecution mode \<Rightarrow> ebind (new_execution_engine True mode) (\<lambda>en. Inr (eg_live E en))
      | ShadowExecution \<Rightarrow> ebind (shadow_engine_of s) (\<lambda>en. Inr (eg_shadow E en))
      | PaperExecution \<Rightarrow> ebind (new_execution_engine False PaperMode) (\<lambda>en. Inr (eg_paper E en)))"

text \<open>
  \<open>_build_deps\<close>: \<open>agents\<close> holds the agents that no setting changes; the hook is the adapter of the gate,
  so only live runs have one.
\<close>

definition build_deps ::
    "app_settings \<Rightarrow> bool \<Rightarrow> 's engines \<Rightarrow> (post_trade_event \<Rightarrow> ('s, unit) act) \<Rightarrow> (alert_event \<Rightarrow> 's \<Rightarrow> 's)
       \<Rightarrow> 's deps \<Rightarrow> 's deps result" where
  "build_deps s has_user E hook alert agents =
     ebind (build_execution s has_user E) (\<lambda>execution.
     Inr (agents\<lparr>dp_execution := execution,
        dp_post_trade_hook := (case execution_kind_of s has_user of LiveExecution _ \<Rightarrow> Some hook | _ \<Rightarrow> None),
        dp_alert_dispatcher := (if as_telegram s then Some alert else None)\<rparr>))"

section \<open>The cycle\<close>

text \<open>\<open>symbol.replace("USDT", "")\<close>.\<close>

fun drop_usdt :: "string \<Rightarrow> string" where
  "drop_usdt [] = []"
| "drop_usdt (c # cs) =
     (if take 4 (c # cs) = ''USDT'' then drop_usdt (drop 3 cs) else c # drop_usdt cs)"

record worker_input =
  wi_coin :: string
  wi_context :: trading_context
  wi_account_state :: "account_state option"
  wi_daily_loss_usdt :: rat
  wi_weekly_loss_usdt :: rat
  wi_weekly_limit_usdt :: rat
  wi_consecutive_losses :: int
  wi_open_positions :: "open_position list"
  wi_decision_config :: "config option"

definition worker_input_of :: "app_settings \<Rightarrow> trading_context \<Rightarrow> string \<Rightarrow> worker_input" where
  "worker_input_of s u symbol =
     \<lparr>wi_coin = drop_usdt symbol, wi_context = u, wi_account_state = tx_account_state u,
      wi_daily_loss_usdt = tx_daily_loss_usdt u, wi_weekly_loss_usdt = tx_weekly_loss_usdt u,
      wi_weekly_limit_usdt = (if tx_weekly_limit_usdt u = 0 then 500 else tx_weekly_limit_usdt u),
      wi_consecutive_losses = tx_consecutive_losses u, wi_open_positions = tx_open_positions u,
      wi_decision_config = shadow_decision_config s\<rparr>"

text \<open>
  In the shadow mode the table of the virtual trades completes the input; an open trade without a
  known risk raises.
\<close>

definition shadow_input :: "app_settings \<Rightarrow> int \<Rightarrow> shadow_table \<Rightarrow> worker_input \<Rightarrow> worker_input result" where
  "shadow_input s now tab inp =
     (let user = uc_user_id (tx_user (wi_context inp))
      in case get_open_positions_for_risk user tab of
        None \<Rightarrow> Inl RuntimeError
      | Some positions \<Rightarrow>
          let loss = get_loss_state user ''baseline_v1'' now tab;
              inp1 = inp\<lparr>wi_open_positions := positions\<rparr>;
              inp2 = (if as_fast_exit_enabled s
                      then inp1\<lparr>wi_daily_loss_usdt := ls_daily_loss_usdt loss,
                                wi_consecutive_losses := int (ls_consecutive_losses loss)\<rparr> else inp1)
          in Inr (inp2\<lparr>wi_account_state := map_option (\<lambda>a.
                a\<lparr>ac_open_positions_count := int (length positions),
                  ac_open_positions_risk_usdt := dec_sum (map op_original_risk_usdt positions)\<rparr>)
              (wi_account_state inp2)\<rparr>))"

datatype cycle_entry = CycleDone pipeline_status | CycleError pyexn

text \<open>
  One pair of a user and a symbol. The state is the table of the virtual trades beside the rest of
  the world; a run that raises, or whose input does, is an entry of the results like any other. The
  shadow mode commits at the end of a run, and a run that raises leaves the table as it was (a failing
  commit is left out).
\<close>

definition run_pair ::
    "app_settings \<Rightarrow> int \<Rightarrow> (worker_input \<Rightarrow> (shadow_table \<times> 's, pipeline_status) act) \<Rightarrow> trading_context
       \<Rightarrow> string \<Rightarrow> shadow_table \<times> 's \<Rightarrow> (shadow_table \<times> 's) \<times> cycle_entry" where
  "run_pair s now run u symbol w =
     (let inp = worker_input_of s u symbol
      in if as_live_trading s \<or> \<not> as_shadow_trading s
         then (case run inp w of (w1, Inr st) \<Rightarrow> (w1, CycleDone st) | (w1, Inl e) \<Rightarrow> (w1, CycleError e))
         else (case shadow_input s now (fst w) inp of
                 Inl e \<Rightarrow> (w, CycleError e)
               | Inr inp1 \<Rightarrow> (case run inp1 w of
                   (w1, Inr st) \<Rightarrow> (w1, CycleDone st)
                 | (w1, Inl e) \<Rightarrow> ((fst w, snd w1), CycleError e))))"

fun run_symbols ::
    "app_settings \<Rightarrow> int \<Rightarrow> (worker_input \<Rightarrow> (shadow_table \<times> 's, pipeline_status) act) \<Rightarrow> trading_context
       \<Rightarrow> string list \<Rightarrow> (string \<times> string, cycle_entry) pydict \<Rightarrow> shadow_table \<times> 's
       \<Rightarrow> (shadow_table \<times> 's) \<times> (string \<times> string, cycle_entry) pydict" where
  "run_symbols s now run u [] results w = (w, results)"
| "run_symbols s now run u (symbol # symbols) results w =
     (case run_pair s now run u symbol w of (w1, entry) \<Rightarrow>
        run_symbols s now run u symbols
          (AList.update (uc_user_id (tx_user u), drop_usdt symbol) entry results) w1)"

fun run_users ::
    "app_settings \<Rightarrow> int \<Rightarrow> (worker_input \<Rightarrow> (shadow_table \<times> 's, pipeline_status) act) \<Rightarrow> string list
       \<Rightarrow> trading_context list \<Rightarrow> (string \<times> string, cycle_entry) pydict \<Rightarrow> shadow_table \<times> 's
       \<Rightarrow> (shadow_table \<times> 's) \<times> (string \<times> string, cycle_entry) pydict" where
  "run_users s now run symbols [] results w = (w, results)"
| "run_users s now run symbols (u # us) results w =
     (case run_symbols s now run u symbols results w of (w1, results1) \<Rightarrow>
        run_users s now run symbols us results1 w1)"

text \<open>\<open>_run_cycle_async\<close>; the users are those of the query, whose exception ends the cycle.\<close>

definition run_cycle ::
    "app_settings \<Rightarrow> int \<Rightarrow> (worker_input \<Rightarrow> (shadow_table \<times> 's, pipeline_status) act) \<Rightarrow> user_row list result
       \<Rightarrow> string list \<Rightarrow> (shadow_table \<times> 's, (string \<times> string, cycle_entry) pydict) act" where
  "run_cycle s now run users symbols w =
     (case users of
        Inl e \<Rightarrow> (w, Inl e)
      | Inr us \<Rightarrow> (case run_users s now run symbols (map (context_from_user s) us) [] w of
          (w1, results) \<Rightarrow> (w1, Inr results)))"

end
