(* ===== verification/LiveGateway.thy ===== *)
theory LiveGateway
  imports Execution
begin

text \<open>
  \<open>backend/app/gateways/binance_gateway.py\<close>: the gateway that sends the tickets of the execution engine
  to the exchange. The account table, the cipher and the exchange client are arguments: actions on
  one state. Which exceptions of the client are its \<open>BinanceAPIError\<close> is an argument, too; log lines
  are left out.
\<close>

record exchange_account =
  ea_is_testnet :: bool
  ea_encrypted_api_key :: string
  ea_encrypted_api_secret :: string

text \<open>The arguments of \<open>create_order\<close>, and what the exchange answers.\<close>

record order_call =
  oc_symbol :: string
  oc_side :: order_side
  oc_order_type :: order_type
  oc_quantity :: rat
  oc_stop_price :: "rat option"
  oc_reduce_only :: bool

record order_response =
  rs_order_id :: string
  rs_symbol :: string
  rs_side :: order_side
  rs_order_type :: order_type
  rs_executed_qty :: "rat option"
  rs_avg_price :: "rat option"

record client_access =
  ca_key :: string
  ca_secret :: string
  ca_testnet :: bool

record 's exchange =
  gx_account :: "string \<Rightarrow> ('s, exchange_account option) act"
  gx_decrypt :: "string \<Rightarrow> string result"
  gx_create_order :: "client_access \<Rightarrow> order_call \<Rightarrow> ('s, order_response) act"
  gx_open_orders :: "client_access \<Rightarrow> string \<Rightarrow> ('s, string list) act"
  gx_cancel_order :: "client_access \<Rightarrow> string \<Rightarrow> string \<Rightarrow> ('s, unit) act"
  gx_close :: "client_access \<Rightarrow> ('s, unit) act"
  gx_api_error :: "pyexn \<Rightarrow> bool"

text \<open>\<open>try: m finally: c\<close>.\<close>

definition act_finally :: "('s, 'a) act \<Rightarrow> ('s, unit) act \<Rightarrow> ('s, 'a) act" where
  "act_finally m c = (\<lambda>s. case m s of (s1, r) \<Rightarrow>
     (case c s1 of (s2, Inl e) \<Rightarrow> (s2, Inl e) | (s2, Inr _) \<Rightarrow> (s2, r)))"

definition ticket_to_kwargs :: "order_ticket \<Rightarrow> order_call" where
  "ticket_to_kwargs t =
     (let exit = ot_order_type t = TAKE_PROFIT_MARKET \<or> ot_order_type t = STOP_MARKET
      in \<lparr>oc_symbol = ot_symbol t, oc_side = ot_side t, oc_order_type = ot_order_type t,
          oc_quantity = ot_quantity t, oc_stop_price = (if exit then Some (ot_price t) else None),
          oc_reduce_only = (exit \<or> ot_reduce_only t)\<rparr>)"

text \<open>A missing or non-positive figure of the answer is replaced by the ticket's.\<close>

definition reported_or :: "rat option \<Rightarrow> rat \<Rightarrow> rat" where
  "reported_or x d = (case x of None \<Rightarrow> d | Some v \<Rightarrow> if 0 < v then v else d)"

definition to_filled_order :: "int \<Rightarrow> order_ticket \<Rightarrow> order_response \<Rightarrow> filled_order result" where
  "to_filled_order now t r =
     (let avg = reported_or (rs_avg_price r) (ot_price t);
          quantity = reported_or (rs_executed_qty r) (ot_quantity t)
      in ebind (quantize rhe 5 (dmul (dmul quantity avg) GATEWAY_TAKER_FEE_RATE)) (\<lambda>fee.
         ebind (quantize rhe 2 avg) (\<lambda>price.
         Inr \<lparr>fo_exchange_order_id = rs_order_id r, fo_symbol = rs_symbol r, fo_purpose = ot_purpose t,
              fo_side = rs_side r, fo_order_type = rs_order_type r, fo_quantity = quantity,
              fo_avg_fill_price = price, fo_fee_usdt = fee, fo_filled_at = now\<rparr>)))"

text \<open>The client of a stored account: its keys are decrypted right before.\<close>

definition open_client :: "'s exchange \<Rightarrow> exchange_account \<Rightarrow> ('s, client_access) act" where
  "open_client X a =
     act_read (\<lambda>_. ebind (gx_decrypt X (ea_encrypted_api_key a)) (\<lambda>key.
       ebind (gx_decrypt X (ea_encrypted_api_secret a)) (\<lambda>secret.
       Inr \<lparr>ca_key = key, ca_secret = secret, ca_testnet = ea_is_testnet a\<rparr>)))"

text \<open>
  The gateway of a user. \<open>is_testnet\<close> is what the worker asked for; the code stores it and never
  reads it.
\<close>

record binance_gateway =
  bg_user_id :: string
  bg_is_testnet :: bool

definition binance_place_order ::
    "'s exchange \<Rightarrow> bool \<Rightarrow> binance_gateway \<Rightarrow> int \<Rightarrow> 's gateway" where
  "binance_place_order X live_enabled g now t =
     act_bind (gx_account X (bg_user_id g)) (\<lambda>account.
     case account of
       None \<Rightarrow> act_read (\<lambda>_. Inl RuntimeError)
     | Some a \<Rightarrow>
         if \<not> ea_is_testnet a \<and> \<not> live_enabled then act_read (\<lambda>_. Inl RuntimeError)
         else
           act_bind (open_client X a) (\<lambda>c.
           act_bind (act_finally (gx_create_order X c (ticket_to_kwargs t)) (gx_close X c)) (\<lambda>resp.
           act_read (\<lambda>_. to_filled_order now t resp))))"

text \<open>The loop over the open orders: an API error skips an order, any other exception ends it.\<close>

fun cancel_orders :: "'s exchange \<Rightarrow> client_access \<Rightarrow> string \<Rightarrow> string list \<Rightarrow> int \<Rightarrow> ('s, int) act" where
  "cancel_orders X c symbol [] n = act_return n"
| "cancel_orders X c symbol (order # orders) n = (\<lambda>s.
     case gx_cancel_order X c symbol order s of
       (s1, Inr _) \<Rightarrow> cancel_orders X c symbol orders (n + 1) s1
     | (s1, Inl e) \<Rightarrow> if gx_api_error X e then cancel_orders X c symbol orders n s1 else (s1, Inl e))"

definition binance_cancel_all_orders :: "'s exchange \<Rightarrow> binance_gateway \<Rightarrow> string \<Rightarrow> ('s, int) act" where
  "binance_cancel_all_orders X g symbol =
     act_bind (gx_account X (bg_user_id g)) (\<lambda>account.
     case account of
       None \<Rightarrow> act_return 0
     | Some a \<Rightarrow>
         act_bind (open_client X a) (\<lambda>c.
         act_finally
           (act_bind (gx_open_orders X c symbol) (\<lambda>orders. cancel_orders X c symbol orders 0))
           (gx_close X c)))"

end
