(* ===== verification/WorkerProps.thy ===== *)
theory WorkerProps
  imports Worker LiveGateway ReviewProps RunProps
begin

text \<open>
  The gateway and the worker: which network an order reaches, what a live run had to pass, and what
  the worker tells a run about its user.
\<close>

section \<open>The gateway\<close>

text \<open>A log of the orders the exchange was asked for, which only \<open>create_order\<close> extends.\<close>

definition exchange_logs :: "'s exchange \<Rightarrow> ('s \<Rightarrow> (client_access \<times> order_call) list) \<Rightarrow> bool" where
  "exchange_logs X sent \<longleftrightarrow>
     (\<forall>u s. sent (fst (gx_account X u s)) = sent s) \<and> (\<forall>c s. sent (fst (gx_close X c s)) = sent s) \<and>
     (\<forall>c k s. sent (fst (gx_create_order X c k s)) = sent s @ [(c, k)])"

lemma finally_result:
  "act_finally m c s = (s2, r) \<Longrightarrow> \<exists>s1 r1. m s = (s1, r1) \<and> s2 = fst (c s1) \<and> (\<forall>x. r = Inr x \<longrightarrow> r1 = Inr x)"
  by (auto simp: act_finally_def split: prod.splits sum.splits)

lemma filled_figures:
  assumes "to_filled_order now t r = Inr f"
  shows "(0 < ot_quantity t \<longrightarrow> 0 < fo_quantity f) \<and> fo_purpose f = ot_purpose t"
proof -
  let ?q = "reported_or (rs_executed_qty r) (ot_quantity t)"
  have "fo_quantity f = ?q \<and> fo_purpose f = ot_purpose t"
    using assms unfolding to_filled_order_def Let_def by (auto simp: ebind_Inr_iff)
  moreover have "0 < ot_quantity t \<Longrightarrow> 0 < ?q" by (simp add: reported_or_def split: option.splits)
  ultimately show ?thesis by simp
qed

lemma filled_from:
  assumes "binance_place_order X live g now t s = (s1, Inr f)"
  shows "\<exists>r. to_filled_order now t r = Inr f"
  using assms unfolding binance_place_order_def
  by (auto simp: act_bind_def act_read_def split: prod.splits sum.splits option.splits if_splits)

text \<open>
  C38. The gateway reaches one network: a ticket becomes at most one order, made with the keys and on
  the network of the user's stored account, with its trigger price when it is an exit, and reduce-only
  when it is an exit or the ticket says so; on the mainnet only while live trading is enabled; a
  reported fill was preceded by that order, and has a positive quantity when the ticket has one. What
  the worker asked for (\<open>is_testnet\<close>) has no influence.
\<close>

theorem gateway_reaches_one_network:
  assumes "exchange_logs X sent" "binance_place_order X live g now t s = (s1, res)"
  shows "(sent s1 = sent s \<and> (\<exists>e. res = Inl e) \<or>
      (\<exists>a c s2. gx_account X (bg_user_id g) s = (s2, Inr (Some a)) \<and>
         sent s1 = sent s @ [(c, ticket_to_kwargs t)] \<and>
         gx_decrypt X (ea_encrypted_api_key a) = Inr (ca_key c) \<and> ca_testnet c = ea_is_testnet a \<and>
         (ca_testnet c \<or> live))) \<and>
    (oc_reduce_only (ticket_to_kwargs t) \<longleftrightarrow> ot_reduce_only t \<or> ot_order_type t \<noteq> MARKET) \<and>
    (\<forall>f. res = Inr f \<longrightarrow> (0 < ot_quantity t \<longrightarrow> 0 < fo_quantity f) \<and> fo_purpose f = ot_purpose t) \<and>
    binance_place_order X live (g\<lparr>bg_is_testnet := b\<rparr>) now t s = (s1, res)"
proof (intro conjI)
  obtain s2 acc where a: "gx_account X (bg_user_id g) s = (s2, acc)" by fastforce
  have keep: "sent s2 = sent s" using assms(1) a unfolding exchange_logs_def by (metis fst_conv)
  let ?sent = "\<exists>a c s2. gx_account X (bg_user_id g) s = (s2, Inr (Some a)) \<and>
         sent s1 = sent s @ [(c, ticket_to_kwargs t)] \<and>
         gx_decrypt X (ea_encrypted_api_key a) = Inr (ca_key c) \<and> ca_testnet c = ea_is_testnet a \<and>
         (ca_testnet c \<or> live)"
  show "sent s1 = sent s \<and> (\<exists>e. res = Inl e) \<or> ?sent"
  proof (cases "\<exists>x. acc = Inr (Some x) \<and> (ea_is_testnet x \<or> live) \<and> (\<exists>c. snd (open_client X x s2) = Inr c)")
    case True
    then obtain x c where x: "acc = Inr (Some x)" "ea_is_testnet x \<or> live" "open_client X x s2 = (s2, Inr c)"
      by (auto simp: open_client_def act_read_def)
    obtain s3 r where f: "act_finally (gx_create_order X c (ticket_to_kwargs t)) (gx_close X c) s2 = (s3, r)"
      by fastforce
    have "s1 = s3"
      using assms(2) a x f by (cases r) (auto simp: binance_place_order_def act_bind_def act_read_def)
    moreover obtain s4 r1 where "gx_create_order X c (ticket_to_kwargs t) s2 = (s4, r1)" "s3 = fst (gx_close X c s4)"
      using finally_result [OF f] by blast
    ultimately have "sent s1 = sent s @ [(c, ticket_to_kwargs t)]"
      using assms(1) keep unfolding exchange_logs_def by (metis fst_conv)
    then show ?thesis using a x by (auto simp: open_client_def act_read_def ebind_Inr_iff)
  next
    case False
    then show ?thesis using assms(2) a keep
      by (auto simp: binance_place_order_def act_bind_def act_read_def open_client_def
          split: sum.splits option.splits if_splits)
  qed
  show "oc_reduce_only (ticket_to_kwargs t) \<longleftrightarrow> ot_reduce_only t \<or> ot_order_type t \<noteq> MARKET"
    by (cases "ot_order_type t") (auto simp: ticket_to_kwargs_def Let_def)
  show "binance_place_order X live (g\<lparr>bg_is_testnet := b\<rparr>) now t s = (s1, res)"
    using assms(2) by (simp add: binance_place_order_def)
  show "\<forall>f. res = Inr f \<longrightarrow> (0 < ot_quantity t \<longrightarrow> 0 < fo_quantity f) \<and> fo_purpose f = ot_purpose t"
  proof (intro allI impI)
    fix f assume f: "res = Inr f"
    obtain r where "to_filled_order now t r = Inr f" using filled_from [OF assms(2) [unfolded f]] by blast
    then show "(0 < ot_quantity t \<longrightarrow> 0 < fo_quantity f) \<and> fo_purpose f = ot_purpose t"
      by (rule filled_figures)
  qed
qed

section \<open>Live runs\<close>

lemma passed_check: "(if c then Inl e else r) = Inr u \<longleftrightarrow> \<not> c \<and> r = Inr u"
  by simp

lemma live_not_testnet:
  assumes "validate_settings s = Inr ()" "as_live_trading s"
  shows "\<not> as_binance_testnet s"
  using assms(1) unfolding validate_settings_def Let_def passed_check using assms(2) by blast

lemma live_settings:
  assumes "validate_settings s = Inr ()" "as_live_trading s"
  shows "execution_kind_of s True = LiveExecution LiveMode" "shadow_decision_config s = None"
  using live_not_testnet [OF assms] assms(2) by (simp_all add: execution_kind_of_def shadow_decision_config_def)


section \<open>The cycle\<close>

text \<open>An input whose losses and positions are nil.\<close>

definition clean_input :: "worker_input \<Rightarrow> bool" where
  "clean_input inp \<longleftrightarrow>
     wi_daily_loss_usdt inp = 0 \<and> wi_weekly_loss_usdt inp = 0 \<and> wi_consecutive_losses inp = 0 \<and>
     wi_open_positions inp = [] \<and>
     (\<forall>a. wi_account_state inp = Some a \<longrightarrow> ac_open_positions_count a = 0 \<and> ac_open_positions_risk_usdt a = 0)"

lemma context_clean: "clean_input (worker_input_of s (context_from_user s u) symbol)"
  by (auto simp: clean_input_def worker_input_of_def context_from_user_def Let_def virtual_account_state_def
      split: option.splits)

lemma context_id [simp]: "uc_user_id (tx_user (context_from_user s u)) = ur_id u"
  by (simp add: context_from_user_def Let_def split: option.splits)

lemma run_symbols_keys:
  assumes "distinct (map fst results)" "run_symbols s now run u symbols results w = (w1, out)"
  shows "distinct (map fst out) \<and>
    fst ` set out = fst ` set results \<union> {uc_user_id (tx_user u)} \<times> drop_usdt ` set symbols"
  using assms
proof (induction symbols arbitrary: results w)
  case (Cons x xs)
  obtain w2 e where p: "run_pair s now run u x w = (w2, e)" by fastforce
  let ?r = "AList.update (uc_user_id (tx_user u), drop_usdt x) e results"
  have "distinct (map fst ?r)" using Cons.prems(1) by (rule distinct_update)
  moreover have "run_symbols s now run u xs ?r w2 = (w1, out)" using Cons.prems(2) p by simp
  ultimately show ?case using Cons.IH [of ?r w2] by (auto simp: dom_update)
qed simp

lemma run_users_keys:
  assumes "distinct (map fst results)" "run_users s now run symbols us results w = (w1, out)"
  shows "distinct (map fst out) \<and>
    fst ` set out = fst ` set results \<union> (\<lambda>u. uc_user_id (tx_user u)) ` set us \<times> drop_usdt ` set symbols"
  using assms
proof (induction us arbitrary: results w)
  case (Cons u us)
  obtain w2 r where p: "run_symbols s now run u symbols results w = (w2, r)" by fastforce
  have k: "distinct (map fst r) \<and> fst ` set r =
      fst ` set results \<union> {uc_user_id (tx_user u)} \<times> drop_usdt ` set symbols"
    by (rule run_symbols_keys [OF Cons.prems(1) p])
  have "run_users s now run symbols us r w2 = (w1, out)" using Cons.prems(2) p by simp
  then show ?case using Cons.IH [of r w2] k by auto
qed simp

lemma run_symbols_same:
  assumes "\<And>x w. run_pair s now run u x w = run_pair s now run' u x w"
  shows "run_symbols s now run u symbols results w = run_symbols s now run' u symbols results w"
  by (induction symbols arbitrary: results w) (simp_all add: assms)

lemma run_users_same:
  assumes "\<And>u x w. u \<in> set us \<Longrightarrow> run_pair s now run u x w = run_pair s now run' u x w"
  shows "run_users s now run symbols us results w = run_users s now run' symbols us results w"
  using assms
proof (induction us arbitrary: results w)
  case (Cons u us)
  have "run_symbols s now run u symbols results w = run_symbols s now run' u symbols results w"
    by (rule run_symbols_same) (simp add: Cons.prems)
  then show ?case using Cons by (simp split: prod.splits)
qed simp

text \<open>
  C40. The cycle reaches every pair: once the users are known, it returns with exactly one entry for
  every user and coin, whichever runs raised. Outside the shadow mode it carries no memory into the
  runs: a pipeline that ignores all losses and open positions of its input gives the same cycle, so
  the loss limits and the position checks that rest on the input cannot fire in live trading.
\<close>

theorem worker_cycle_reports_all:
  "(\<forall>us. users = Inr us \<longrightarrow> (\<exists>w1 results. run_cycle s now run users symbols w = (w1, Inr results) \<and>
      distinct (map fst results) \<and> fst ` set results = ur_id ` set us \<times> drop_usdt ` set symbols)) \<and>
   (as_live_trading s \<or> \<not> as_shadow_trading s \<longrightarrow> (\<forall>inp w. clean_input inp \<longrightarrow> run inp w = run' inp w) \<longrightarrow>
      run_cycle s now run users symbols w = run_cycle s now run' users symbols w)"
proof (intro conjI impI allI)
  fix us assume "users = Inr us"
  moreover obtain w1 out where "run_users s now run symbols (map (context_from_user s) us) [] w = (w1, out)" by fastforce
  ultimately show "\<exists>w1 results. run_cycle s now run users symbols w = (w1, Inr results) \<and>
      distinct (map fst results) \<and> fst ` set results = ur_id ` set us \<times> drop_usdt ` set symbols"
    using run_users_keys [of "[]" s now run symbols "map (context_from_user s) us" w]
    by (simp add: run_cycle_def image_image)
next
  assume live: "as_live_trading s \<or> \<not> as_shadow_trading s"
    and same: "\<forall>inp w. clean_input inp \<longrightarrow> run inp w = run' inp w"
  have "run_pair s now run (context_from_user s u) x w = run_pair s now run' (context_from_user s u) x w" for u x w
  proof -
    have "run (worker_input_of s (context_from_user s u) x) w = run' (worker_input_of s (context_from_user s u) x) w"
      using same context_clean by blast
    then show ?thesis using live by (simp add: run_pair_def)
  qed
  then have "run_users s now run symbols (map (context_from_user s) us) [] w =
      run_users s now run' symbols (map (context_from_user s) us) [] w" for us
    by (intro run_users_same) auto
  then show "run_cycle s now run users symbols w = run_cycle s now run' users symbols w"
    by (simp add: run_cycle_def split: sum.splits)
qed

section \<open>A sample worker\<close>

definition live_sample_settings :: app_settings where
  "live_sample_settings =
     \<lparr>as_production = True, as_debug = False, as_binance_testnet = False, as_live_trading = True,
      as_shadow_trading = False, as_initial_balance = 1000, as_min_long_score = None, as_min_short_score = None,
      as_max_risk_score = None, as_review_required = False, as_taker_fee_rate = 0.0005, as_slippage_bps = 5,
      as_funding_rate = 0.0001, as_funding_hours = 8, as_fast_exit_enabled = False,
      as_risk_sizing_enabled = False, as_experiment_label = ''baseline_v1'',
      as_fast_exit = \<lparr>fx_tp_pct = 0.01, fx_sl_pct = 0.005, fx_min_sl_pct = 0.003, fx_max_hold_seconds = 3600,
        fx_min_rr = 1.5, fx_min_tp_cost_multiple = 3\<rparr>,
      as_risk_per_trade_pct = 0.01, as_safe_max_leverage = 5, as_max_portfolio_risk_pct = 0.05,
      as_max_single_margin_ratio = 0.3, as_margin_buffer_ratio = 0.1, as_system_max_leverage = 20,
      as_telegram = False\<rparr>"

definition sample_answer :: "string \<Rightarrow> answer_object result" where
  "sample_answer said = (if said = [] then Inl ValueError
     else Inr [(''review_action'', AnText ''APPROVE''), (''confidence'', AnNumber (Finite 1))])"

definition sample_reviewer :: "review_input \<Rightarrow> ('s, ai_review_result) coro" where
  "sample_reviewer ri = coro_of (reviewer_review sample_answer (\<lambda>_. None) (\<lambda>_. act_return ''yes'') ri)"

definition open_gate :: "int \<Rightarrow> string \<Rightarrow> ('s, safety_decision) act" where
  "open_gate now u = act_return \<lparr>sd_allowed = True, sd_rejection_code = None\<rparr>"

definition live_engine :: execution_engine where
  "live_engine = \<lparr>ex_live = True, ex_mode = LiveMode\<rparr>"

definition sample_engines :: "(string list \<times> order_ticket list) engines" where
  "sample_engines =
     \<lparr>eg_live = (\<lambda>en req. coro_of (recorded_engine en (paper_gateway 0 5) (\<lambda>_. act_return (vr_default False))
        (Some (open_gate 0)) req)),
      eg_shadow = (\<lambda>_ _. to_thread (Inl RuntimeError)), eg_paper = (\<lambda>_ _. to_thread (Inl RuntimeError))\<rparr>"

abbreviation sample_hook :: "post_trade_event \<Rightarrow> ('s, unit) act" where
  "sample_hook \<equiv> \<lambda>_. act_return ()"

definition live_oc :: "(string list \<times> order_ticket list) orchestrator" where
  "live_oc = reviewed_oc sample_reviewer (eg_live sample_engines live_engine) (Some sample_hook)"

lemma live_sample_start: "validate_settings live_sample_settings = Inr ()"
  by code_simp

lemma sample_live [simp]: "as_live_trading live_sample_settings" "\<not> as_telegram live_sample_settings"
  by (simp_all add: live_sample_settings_def)

lemma stateless_review:
  "reviewer_review J read (\<lambda>_. act_return said) ri =
     act_return (case review_playbook_guard ri of Some r \<Rightarrow> r | None \<Rightarrow> parse_review_response J read said)"
  by (auto simp: reviewer_review_def act_bind_def act_catch_def act_return_def fun_eq_iff split: option.splits)

lemma sample_unguarded: "review_playbook_guard (build_review_input ''BTCUSDT'' sample_result sample_candidate) = None"
  by code_simp

lemma sample_parsed: "parse_review_response sample_answer (\<lambda>_. None) ''yes'' = shadow_ai_review_skipped"
  by code_simp

lemma sample_reviewed:
  "sample_reviewer (build_review_input ''BTCUSDT'' sample_result sample_candidate) =
     to_thread (Inr shadow_ai_review_skipped)"
  unfolding sample_reviewer_def to_thread_def stateless_review sample_unguarded option.case sample_parsed
  by (simp add: act_return_def act_read_def)

lemma sample_live_sends:
  "case recorded_engine live_engine (paper_gateway 0 5) (\<lambda>_. act_return (vr_default False)) (Some (open_gate 0))
      sample_exec ([''a'', ''b'', ''c''], []) of (w, x) \<Rightarrow>
     (case x of Inl _ \<Rightarrow> False | Inr r \<Rightarrow> \<not> xr_emergency_close_failed r \<and> \<not> xr_tp_sl_failed r) \<and>
     map ot_reduce_only (snd w) = [False, True, True]"
  by code_simp

lemma live_oc_deps:
  "build_deps live_sample_settings True sample_engines sample_hook (\<lambda>_ s. s)
     (oc_deps (reviewed_oc sample_reviewer (\<lambda>_. to_thread (Inl RuntimeError)) None)) = Inr (oc_deps live_oc)"
  using live_settings(1) [OF live_sample_start]
  by (simp add: build_deps_def build_execution_def new_execution_engine_def live_oc_def live_engine_def reviewed_oc_def)

lemma live_oc_keeps: "agents_keep I live_oc" "hook_keeps I live_oc"
proof -
  have "keeps_inv I (sample_reviewer ri)" for ri
    unfolding sample_reviewer_def stateless_review by (simp add: keeps_inv_def coro_of_def act_return_def)
  then show "agents_keep I live_oc" unfolding live_oc_def by (rule reviewed_keeps)
  show "hook_keeps I live_oc" by (simp add: hook_keeps_def live_oc_def act_return_def)
qed


definition sample_exchange :: "(client_access \<times> order_call) list exchange" where
  "sample_exchange =
     \<lparr>gx_account = (\<lambda>_ s. (s, Inr (Some \<lparr>ea_is_testnet = True, ea_encrypted_api_key = ''k'', ea_encrypted_api_secret = ''s''\<rparr>))),
      gx_decrypt = Inr,
      gx_create_order = (\<lambda>c k s. (s @ [(c, k)], Inr \<lparr>rs_order_id = ''1'', rs_symbol = oc_symbol k, rs_side = oc_side k,
        rs_order_type = oc_order_type k, rs_executed_qty = None, rs_avg_price = Some 101\<rparr>)),
      gx_open_orders = (\<lambda>_ _ s. (s, Inr [])), gx_cancel_order = (\<lambda>_ _ _ s. (s, Inr ())), gx_close = (\<lambda>_ s. (s, Inr ())),
      gx_api_error = (\<lambda>_. False)\<rparr>"

lemma sample_exchange_logs: "exchange_logs sample_exchange (\<lambda>s. s)"
  by (simp add: exchange_logs_def sample_exchange_def)

definition sample_ticket :: order_ticket where
  "sample_ticket = \<lparr>ot_symbol = ''BTCUSDT'', ot_side = SELL, ot_order_type = MARKET, ot_quantity = 2, ot_price = 100,
     ot_reduce_only = True, ot_purpose = EmergencyOrder\<rparr>"

lemma sample_gateway_fills:
  "case binance_place_order sample_exchange False \<lparr>bg_user_id = ''u1'', bg_is_testnet = False\<rparr> 5 sample_ticket [] of
     (s, Inl _) \<Rightarrow> False | (s, Inr f) \<Rightarrow> length s = 1"
  by code_simp

theorem gateway_reaches_one_network_witness:
  "\<exists>c f. binance_place_order sample_exchange False \<lparr>bg_user_id = ''u1'', bg_is_testnet = False\<rparr> 5 sample_ticket [] =
      ([(c, ticket_to_kwargs sample_ticket)], Inr f) \<and> ca_testnet c \<and> 0 < fo_quantity f"
proof -
  obtain s f where r: "binance_place_order sample_exchange False \<lparr>bg_user_id = ''u1'', bg_is_testnet = False\<rparr> 5
      sample_ticket [] = (s, Inr f)" using sample_gateway_fills by (auto split: prod.splits sum.splits)
  have "0 < ot_quantity sample_ticket" by code_simp
  then show ?thesis
    using gateway_reaches_one_network [OF sample_exchange_logs r, of True] r by auto
qed

definition sample_cycle_user :: user_row where
  "sample_cycle_user = \<lparr>ur_id = ''u1'', ur_plan = ''free'', ur_risk_profile = ''moderate'', ur_settings = None\<rparr>"

theorem worker_cycle_reports_all_witness:
  "\<exists>results. run_cycle live_sample_settings 0
      (\<lambda>inp w. if 3 \<le> wi_consecutive_losses inp then (w, Inl RuntimeError) else (w, Inr PipeCompleted))
      (Inr [sample_cycle_user]) [''BTCUSDT'', ''ETHUSDT''] ([], ()) = (([], ()), Inr results) \<and>
    fst ` set results = {(''u1'', ''BTC''), (''u1'', ''ETH'')} \<and> set (map snd results) = {CycleDone PipeCompleted}"
proof -
  let ?run = "\<lambda>inp w. if 3 \<le> wi_consecutive_losses inp then (w, Inl RuntimeError) else (w, Inr PipeCompleted)"
  let ?calm = "\<lambda>(inp :: worker_input) w. (w, Inr PipeCompleted)"
  have coins: "drop_usdt ''BTCUSDT'' = ''BTC''" "drop_usdt ''ETHUSDT'' = ''ETH''" by code_simp+
  have "run_cycle live_sample_settings 0 ?run (Inr [sample_cycle_user]) [''BTCUSDT'', ''ETHUSDT''] ([], ()) =
      run_cycle live_sample_settings 0 ?calm (Inr [sample_cycle_user]) [''BTCUSDT'', ''ETHUSDT''] ([], ())"
    by (rule worker_cycle_reports_all [THEN conjunct2, rule_format]) (auto simp: clean_input_def)
  then show ?thesis
    by (simp add: run_cycle_def run_pair_def coins sample_cycle_user_def)
qed

end
