(* ===== verification/Spec2Isabelle.thy ===== *)
theory Spec2Isabelle
  imports PaperProps RiskProps SafetyProps PositionProps ExecutionProps SizingProps
    StrategyProps DecisionProps ShadowProps BacktestProps PortfolioProps RunProps WalkForwardProps JournalProps ReviewProps WorkerProps
begin

text \<open>
  A verification development of the trading core of the repository: what decides on a trade, sizes
  it, checks it, executes it, watches the position, stops trading, and replays all of it on past or
  virtual prices. Paths are relative to \<open>src/\<close>.

  The program. A run of the pipeline reads the market (\<open>agents/technical_analysis\<close>,
  \<open>market_structure\<close>, \<open>sentiment\<close>), asks the strategies (\<open>agents/strategy\<close>), lets the decision chain
  build one trade candidate (\<open>agents/decision\<close>), has the risk engine validate it (\<open>agents/risk\<close>),
  combines candidate, review and verdict into a final decision, asks the portfolio engine
  (\<open>agents/portfolio\<close>) and sends the orders (\<open>agents/execution\<close>), which the safety gate
  (\<open>backend/app/safety\<close>) may stop. Positions live in \<open>agents/position_manager\<close>, or in the paper engine
  (\<open>agents/paper_trading\<close>) or the shadow journal (\<open>agents/shadow\<close>) when no real order is sent.
  \<open>agents/backtest\<close> replays signals over bars.

  Vocabulary.
  \<^item> \<open>Prelude\<close>: exceptions as values (\<open>'a result\<close>), actions on shared state (\<open>('s, 'a) act\<close>, which keep
    the writes made before an exception), insertion-ordered dictionaries.
  \<^item> \<open>PyNum\<close>, \<open>PySum\<close>, \<open>PyStat\<close>: Python's \<open>float\<close> and \<open>Decimal\<close> as rationals rounded to 53 bits and to
    28 digits after every operation, \<open>round\<close>, \<open>quantize\<close>, \<open>sum\<close>, \<open>mean\<close>, \<open>stdev\<close> and the square root.
  \<^item> \<open>Store\<close>: a Redis server as a record of operations with its documented laws (\<open>redis_laws\<close>); every
    operation may fail.

  Components, each a group of definitions that carries the names of the code.
  \<^item> Risk: \<open>RiskModels\<close>, \<open>RiskSizing\<close>, \<open>RiskValidators\<close> (constants, models, sizing, validators),
    \<open>KillSwitch\<close> (kill_switch.py on a server), \<open>RiskEngine\<close> (both pipelines of engine.py),
    \<open>SizingEngine\<close> (sizing_engine.py, kelly.py).
  \<^item> Paper trading: \<open>PaperState\<close>, \<open>PaperRisk\<close>, \<open>PaperPositions\<close>, \<open>PaperEngine\<close> (state.py,
    risk_engine.py, position_manager.py, engine.py): the account is a record, every method an action
    on it; \<open>PaperSample\<close> is the run the witnesses use.
  \<^item> Safety layer: \<open>SafetyTypes\<close>, \<open>SafetyStore\<close> (the interface of the state stores as a locale),
    \<open>SafetyProviders\<close> (the memory and the Redis store, which interpret it), \<open>SafetySwitches\<close> (daily and
    weekly limits, drawdown, disconnect, emergency), \<open>SafetyGate\<close> (gate and adapter).
  \<^item> Market and strategies: \<open>MarketAnalysis\<close>, \<open>Strategy\<close>.
  \<^item> Decision: \<open>DecisionModels\<close>, \<open>DecisionScores\<close> (regime, chart, news, derivatives), \<open>CandidateGen\<close>
    (strategy selection, candidate), \<open>DecisionEngine\<close>, \<open>FinalDecision\<close>.
  \<^item> Positions and orders: \<open>PositionModels\<close>, \<open>PositionManager\<close>; \<open>Execution\<close> over an arbitrary gateway,
    validator and gate.
  \<^item> Shadow trading: \<open>ShadowCosts\<close>, \<open>ShadowSizing\<close>, \<open>ShadowEngine\<close>.
  \<^item> Backtest: \<open>BacktestExec\<close> (models, costs, executor), \<open>BacktestEngine\<close> (the loop over the bars, one
    definition per step of its body, and the metrics).
  \<^item> Portfolio: \<open>Portfolio\<close>.
  \<^item> Orchestrator (\<open>agents/orchestrator\<close>): \<open>AgentRunner\<close> (runner.py: attempts, timeouts, pauses),
    \<open>PipelineModels\<close> (the data of a run and what the pipeline builds for its agents, its log and its
    events), \<open>Pipeline\<close> (one definition per step of \<open>run\<close>, over agents that are arguments),
    \<open>PipelineProps\<close> (the interface \<open>pipeline_world\<close> and its rule for whole runs).

  \<^item> Walk-forward testing (\<open>backend/app/backtesting\<close>): \<open>WalkForward\<close> (splitter.py, simulator.py, metrics.py,
    validator.py, engine.py): windows, simulated trades, figures, grid search and the whole cycle, over
    a strategy that is an argument.

  \<^item> Journal of virtual trades: \<open>ShadowJournal\<close> (\<open>backend/app/repositories/shadow_trade_repository.py\<close>,
    \<open>backend/app/workers/shadow_monitor_worker.py\<close>): the table is the list of its rows, every query a
    filter and every update a map over it, and the monitor closes the rows that are due.

  \<^item> The surroundings of a run: \<open>AIReview\<close> (\<open>agents/synthesis\<close>: playbook, call and parser of the reviewer),
    \<open>LiveGateway\<close> (\<open>backend/app/gateways/binance_gateway.py\<close>), \<open>Worker\<close>
    (\<open>backend/app/workers/analysis_worker.py\<close>, \<open>user_service.py\<close>, \<open>config.py\<close>: settings, contexts, the choice
    of the engine, the cycle).
  What the theorems show; they stand in the theories named \<open>...Props\<close>.
  \<^item> \<open>RiskProps\<close>, \<open>PaperProps\<close>: an approval respects every limit of the rule book in the live, the
    candidate and the paper pipeline, whatever the server answers; the two engines agree when
    nothing is halted; a halt blocks until its end; the invariant of paper accounts over all
    sequences of operations; what a tick, a partial close and a refusal do to the books.
  \<^item> \<open>SafetyProps\<close>: the gate passes only when every protection is clear; the emergency stop and the
    drawdown halt survive every operation but their release; the drawdown halts exactly at the
    configured fall from the running maximum; stored states are read back.
  \<^item> \<open>StrategyProps\<close>, \<open>DecisionProps\<close>: ranges and shapes of all results; a decision to trade passed
    every gate; the regime refines a consensus of signs.
  \<^item> \<open>SizingProps\<close>, \<open>PortfolioProps\<close>: sizes stay within their budgets; two sizing routines agree; what
    an admitting portfolio score means.
  \<^item> \<open>PositionProps\<close>, \<open>ExecutionProps\<close>: the life cycle of a position; orders are sent only when
    cleared, in the order of the protocol, and an executed entry is covered or reported.
  \<^item> \<open>ShadowProps\<close>, \<open>BacktestProps\<close>: the loops over funding boundaries end; the journal is honest; a
    backtest does not look ahead and its books are complete.
  \<^item> \<open>RunProps\<close>: a run records all its steps and returns; it opens positions only for requests that
    every agent cleared in that run, retries included; it sends nothing after an emergency; its
    post-trade hook never trips the drawdown protection, and a timed out execution is sent again.

  \<^item> \<open>WalkForwardProps\<close>: the search for windows ends exactly when it moves forward; parameters are chosen
    on bars before those they are tested on, and every trade uses bars after its signal.

  \<^item> \<open>JournalProps\<close>: the table over every sequence of executions and monitor runs (an inductive step
    relation and the interface \<open>kept_store\<close>), and what one check does to every row.

  \<^item> \<open>ReviewProps\<close>, \<open>WorkerProps\<close>: the reviewer fails safe; an order reaches the network of its account
    only; a live order was reviewed, approved and let through; the cycle reaches every pair, and
    what it does not tell the runs.
  Recursion and bounds. Loops of the code are structural recursions over their lists; the searches
  for a representation (\<open>ilog\<close>, \<open>repr10\<close>, \<open>isqrt\<close>, \<open>funding_hours\<close>) are functions with a termination
  proof; the two \<open>while\<close> loops of \<open>agents/shadow/pnl.py\<close> and the one of \<open>backtesting/splitter.py\<close> are
  \<open>partial_function\<close>s, and when they end is a theorem. No fuel is used.

  Interfaces to code outside the repository are arguments: the Redis server, the exchange gateway,
  the indicator library, the classifier of headlines, the language model and the reading of JSON, the
  exchange client, the cipher and the account table, the power function of the C library, and mean and deviation of numpy. Instants are microseconds since the epoch,
  and the clock, new identifiers and the outcome of a request are arguments of the operation that
  reads them.

  Not modelled. Texts made for people (reasons, log lines, alerts, prompts) are constructors or
  left out, except where the code compares them. Floats have no infinities, NaN, overflow or
  subnormals. I/O and framework code (market data collection, the language model clients, HTTP API,
  schemas, authentication, SQL tables and queries other than the journal's, the other Celery workers,
  exchange clients, metrics export, scripts and reports, the user interface) has no logic of its own that the theorems would rest on: it
  is listed with its reason in the manifest.
\<close>

end
